(* ===== verification/Prelude.thy ===== *)
theory Prelude
  imports Main
begin

section \<open>Shared vocabulary: rows, keys and upserts\<close>

text \<open>
  What every component of the development shares.

  \<^item> Names for the types of the program: a UUID is a natural number, an instant is the number
    of microseconds since the Unix epoch (the resolution of a Python datetime), a username is
    a string.
  \<^item> A database table is the list of its rows, oldest first. The three write forms the hub
    issues against PostgreSQL are \<open>upsert\<close> (INSERT .. ON CONFLICT (key) DO UPDATE),
    \<open>insert_ignore\<close> (INSERT .. ON CONFLICT (key) DO NOTHING) and \<open>delete_rows\<close>; the read
    form is \<open>find_row\<close> (SELECT .. WHERE key = k, scalar_one_or_none).
  \<^item> The locale \<open>keyed_store\<close> is the contract of every per-key table (day overrides, hour
    overrides, gate releases, usage counters): what a lookup returns after a write. It is
    interpreted here on the generic row operations, and by each service on its own pair of
    functions.
\<close>

type_synonym uuid = nat
type_synonym instant = int
type_synonym seconds = int
type_synonym username = string

abbreviation usec_per_sec :: int where
  "usec_per_sec \<equiv> 1000000"

named_theorems row_simps "lookups after writes on a table"
named_theorems inv_intros "operations that keep a table's or a state's invariant"

subsection \<open>Exceptions and the result type\<close>

text \<open>
  A call that may raise returns \<open>Inl\<close> of the exception. The constructors are the exception
  classes the modelled code raises itself or relies on its library to raise; \<open>HTTPException\<close>
  carries the status code of an endpoint's error answer, \<open>ProtocolError\<close> is \<open>http.client.HTTPException\<close>.
\<close>

datatype exc =
    ValueError
  | OverflowError
  | KeyError
  | IndexError
  | ValidationError
  | IntegrityError
  | DataError
  | NoResultFound
  | RuntimeError
  | OSError
  | ProtocolError
  | InviteError string
  | LastAdminError
  | WrongPasswordError
  | RequireLoginRedirect
  | HTTPException int

type_synonym 'a result = "exc + 'a"

definition rbind :: "'e + 'a \<Rightarrow> ('a \<Rightarrow> 'e + 'b) \<Rightarrow> 'e + 'b" where
  "rbind x f = (case x of Inl e \<Rightarrow> Inl e | Inr a \<Rightarrow> f a)"

lemma rbind_simps [simp]:
  "rbind (Inl e) f = Inl e"
  "rbind (Inr a) f = f a"
  by (simp_all add: rbind_def)

lemma rbind_Inr_iff: "rbind x f = Inr b \<longleftrightarrow> (\<exists>a. x = Inr a \<and> f a = Inr b)"
  by (cases x) auto

lemma rbind_Inl_iff: "rbind x f = Inl e \<longleftrightarrow> x = Inl e \<or> (\<exists>a. x = Inr a \<and> f a = Inl e)"
  by (cases x) auto

fun rsequence :: "('e + 'a) list \<Rightarrow> 'e + 'a list" where
  "rsequence [] = Inr []"
| "rsequence (x # xs) = rbind x (\<lambda>a. rbind (rsequence xs) (\<lambda>as. Inr (a # as)))"

lemma rsequence_Inr_iff: "rsequence xs = Inr ys \<longleftrightarrow> xs = map Inr ys"
proof (induction xs arbitrary: ys)
  case (Cons x xs)
  then show ?case by (cases ys) (auto simp: rbind_Inr_iff)
qed auto

lemma rsequence_Inl: "rsequence xs = Inl e \<Longrightarrow> Inl e \<in> set xs"
  by (induction xs) (auto simp: rbind_Inl_iff)

subsection \<open>Python helpers\<close>

text \<open>Python's \<open>x or d\<close> on a list: the empty list is falsy.\<close>

definition list_or :: "'a list \<Rightarrow> 'a list \<Rightarrow> 'a list" where
  "list_or xs d = (if xs = [] then d else xs)"

text \<open>Python's \<open>x or d\<close> on an optional string: both None and the empty string are falsy.\<close>

definition str_or :: "string option \<Rightarrow> string \<Rightarrow> string" where
  "str_or x d = (case x of None \<Rightarrow> d | Some s \<Rightarrow> if s = '''' then d else s)"

text \<open>A condition on an optional value, executable.\<close>

lemma pred_option_code [code]:
  "pred_option P None \<longleftrightarrow> True"
  "pred_option P (Some x) \<longleftrightarrow> P x"
  by simp_all

text \<open>A dict is an association list with distinct keys, in insertion order.\<close>

type_synonym ('k, 'v) dict = "('k \<times> 'v) list"

definition dict_get :: "('k, 'v) dict \<Rightarrow> 'k \<Rightarrow> 'v option" where
  "dict_get d k = map_of d k"

fun dict_set :: "('k, 'v) dict \<Rightarrow> 'k \<Rightarrow> 'v \<Rightarrow> ('k, 'v) dict" where
  "dict_set [] k v = [(k, v)]"
| "dict_set ((k', v') # d) k v = (if k' = k then (k, v) # d else (k', v') # dict_set d k v)"

lemma dict_get_set [simp]:
  "dict_get (dict_set d k v) k' = (if k' = k then Some v else dict_get d k')"
  by (induction d k v rule: dict_set.induct) (auto simp: dict_get_def)

lemma dict_set_keys: "set (map fst (dict_set d k v)) = insert k (set (map fst d))"
  by (induction d k v rule: dict_set.induct) auto

lemma dict_set_distinct: "distinct (map fst d) \<Longrightarrow> distinct (map fst (dict_set d k v))"
proof (induction d k v rule: dict_set.induct)
  case (2 k' v' d k v)
  then show ?case using dict_set_keys [of d k v] by (auto simp del: set_map)
qed simp

lemma dict_set_map_keys:
  "k \<in> set (map fst d) \<Longrightarrow> map fst (dict_set d k v) = map fst d"
  by (induction d k v rule: dict_set.induct) auto

text \<open>\<open>d == e\<close> on dicts: the same keys with the same values, in whatever order.\<close>

definition dict_eq :: "('k, 'v) dict \<Rightarrow> ('k, 'v) dict \<Rightarrow> bool" where
  "dict_eq d e \<longleftrightarrow> list_all (\<lambda>k. dict_get d k = dict_get e k) (map fst d @ map fst e)"

lemma dict_eq_iff: "dict_eq d e \<longleftrightarrow> map_of d = map_of e"
proof
  assume eq: "dict_eq d e"
  show "map_of d = map_of e"
  proof
    fix k
    show "map_of d k = map_of e k"
    proof (cases "k \<in> set (map fst d @ map fst e)")
      case True
      then show ?thesis using eq by (auto simp: dict_eq_def list_all_iff dict_get_def)
    next
      case False
      then have "map_of d k = None" "map_of e k = None" by (simp_all add: map_of_eq_None_iff)
      then show ?thesis by simp
    qed
  qed
qed (simp add: dict_eq_def list_all_iff dict_get_def)

lemma dict_eq_refl [simp]: "dict_eq d d"
  by (simp add: dict_eq_iff)

text \<open>\<open>d.get(k, default)\<close>\<close>

definition dict_get_or :: "('k, 'v) dict \<Rightarrow> 'k \<Rightarrow> 'v \<Rightarrow> 'v" where
  "dict_get_or d k v = (case dict_get d k of None \<Rightarrow> v | Some x \<Rightarrow> x)"

text \<open>\<open>xs[i]\<close>, counting from the end for a negative index.\<close>

definition py_index :: "'a list \<Rightarrow> int \<Rightarrow> 'a result" where
  "py_index xs i =
     (if 0 \<le> i \<and> i < int (length xs) then Inr (xs ! nat i)
      else if i < 0 \<and> - int (length xs) \<le> i then Inr (xs ! nat (int (length xs) + i))
      else Inl IndexError)"

text \<open>
  \<open>int(s)\<close> of a decimal string with an optional sign, surrounding blanks and single underscores
  between digits. A string is the list of its code points, here those below 256.
\<close>

definition digit_value :: "char \<Rightarrow> int option" where
  "digit_value c = (let n = of_char c in if 48 \<le> n \<and> n \<le> 57 then Some (n - 48) else None)"

fun digits_value :: "int \<Rightarrow> string \<Rightarrow> int option" where
  "digits_value acc [] = Some acc"
| "digits_value acc (c # cs) =
     (case digit_value c of None \<Rightarrow> None | Some d \<Rightarrow> digits_value (10 * acc + d) cs)"

fun underscores_ok :: "bool \<Rightarrow> string \<Rightarrow> bool" where
  "underscores_ok after_digit [] = after_digit"
| "underscores_ok after_digit (c # cs) =
     (if c = CHR ''_'' then after_digit \<and> underscores_ok False cs else underscores_ok True cs)"

definition is_blank :: "char \<Rightarrow> bool" where
  "is_blank c \<longleftrightarrow> of_char c \<in> {9, 10, 11, 12, 13, 28, 29, 30, 31, 32, 133, 160 :: int}"

definition py_strip :: "string \<Rightarrow> string" where
  "py_strip s = rev (dropWhile is_blank (rev (dropWhile is_blank s)))"

definition py_int :: "string \<Rightarrow> int result" where
  "py_int s =
     (let t = py_strip s;
          (sign, ds) = (case t of
              c # r \<Rightarrow> if c = CHR ''-'' then (- 1, r) else if c = CHR ''+'' then (1, r) else (1, t)
            | [] \<Rightarrow> (1, []))
      in if \<not> underscores_ok False ds then Inl ValueError
         else case digits_value 0 (filter (\<lambda>c. c \<noteq> CHR ''_'') ds) of None \<Rightarrow> Inl ValueError | Some n \<Rightarrow> Inr (sign * n))"

subsection \<open>Tables as lists of rows\<close>

definition find_row :: "('r \<Rightarrow> 'k) \<Rightarrow> 'k \<Rightarrow> 'r list \<Rightarrow> 'r option" where
  "find_row key k rows = find (\<lambda>r. key r = k) rows"

fun upsert :: "('r \<Rightarrow> 'k) \<Rightarrow> ('r \<Rightarrow> 'r \<Rightarrow> 'r) \<Rightarrow> 'r \<Rightarrow> 'r list \<Rightarrow> 'r list" where
  "upsert key upd r [] = [r]"
| "upsert key upd r (x # xs) =
     (if key x = key r then upd x r # xs else x # upsert key upd r xs)"

definition insert_ignore :: "('r \<Rightarrow> 'k) \<Rightarrow> 'r \<Rightarrow> 'r list \<Rightarrow> 'r list" where
  "insert_ignore key r rows = (if key r \<in> key ` set rows then rows else rows @ [r])"

definition delete_rows :: "('r \<Rightarrow> 'k) \<Rightarrow> 'k \<Rightarrow> 'r list \<Rightarrow> 'r list" where
  "delete_rows key k rows = filter (\<lambda>r. key r \<noteq> k) rows"

text \<open>A unique constraint on a key.\<close>

definition unique_on :: "('r \<Rightarrow> 'k) \<Rightarrow> 'r list \<Rightarrow> bool" where
  "unique_on key rows = distinct (map key rows)"

lemma find_row_Nil [simp, row_simps]: "find_row key k [] = None"
  by (simp add: find_row_def)

lemma find_row_Cons [simp]:
  "find_row key k (r # rows) = (if key r = k then Some r else find_row key k rows)"
  by (simp add: find_row_def)

lemma find_row_key: "find_row key k rows = Some r \<Longrightarrow> key r = k"
  by (induction rows) (auto split: if_splits)

lemma find_row_mem: "find_row key k rows = Some r \<Longrightarrow> r \<in> set rows"
  by (induction rows) (auto split: if_splits)

lemma find_row_None_iff: "find_row key k rows = None \<longleftrightarrow> k \<notin> key ` set rows"
  by (induction rows) (auto split: if_splits)

lemma find_row_unique:
  "unique_on key rows \<Longrightarrow> r \<in> set rows \<Longrightarrow> find_row key (key r) rows = Some r"
  by (induction rows) (auto simp: unique_on_def image_iff)

lemma find_row_append [simp]:
  "find_row key k (xs @ ys) =
     (case find_row key k xs of None \<Rightarrow> find_row key k ys | Some r \<Rightarrow> Some r)"
  by (induction xs) auto

text \<open>
  An update \<open>upd\<close> of a row keeps its key: true of every ON CONFLICT clause of the hub, which
  sets payload columns only.
\<close>

definition keeps_key :: "('r \<Rightarrow> 'k) \<Rightarrow> ('r \<Rightarrow> 'r \<Rightarrow> 'r) \<Rightarrow> bool" where
  "keeps_key key upd = (\<forall>x r. key x = key r \<longrightarrow> key (upd x r) = key r)"

lemma keeps_keyD: "keeps_key key upd \<Longrightarrow> key x = key r \<Longrightarrow> key (upd x r) = key r"
  by (simp add: keeps_key_def)

lemma find_row_upsert_same [row_simps]:
  "keeps_key key upd \<Longrightarrow> k = key r \<Longrightarrow>
   find_row key k (upsert key upd r rows) =
     Some (case find_row key k rows of None \<Rightarrow> r | Some x \<Rightarrow> upd x r)"
  by (induction rows) (auto dest: keeps_keyD)

lemma find_row_upsert_other [row_simps]:
  "keeps_key key upd \<Longrightarrow> k \<noteq> key r \<Longrightarrow>
   find_row key k (upsert key upd r rows) = find_row key k rows"
  by (induction rows) (auto dest: keeps_keyD)

lemma keys_upsert:
  "keeps_key key upd \<Longrightarrow> key ` set (upsert key upd r rows) = insert (key r) (key ` set rows)"
  by (induction rows) (auto dest: keeps_keyD)

lemma unique_upsert [inv_intros]:
  "keeps_key key upd \<Longrightarrow> unique_on key rows \<Longrightarrow> unique_on key (upsert key upd r rows)"
proof (induction rows)
  case Nil
  then show ?case by (simp add: unique_on_def)
next
  case (Cons x xs)
  then show ?case
    using keys_upsert [of key upd r xs]
    by (auto simp: unique_on_def keeps_keyD)
qed

lemma find_row_insert_ignore [row_simps]:
  "find_row key k (insert_ignore key r rows) =
     (if k = key r then Some (case find_row key k rows of None \<Rightarrow> r | Some x \<Rightarrow> x)
      else find_row key k rows)"
proof (cases "find_row key (key r) rows")
  case None
  then have "insert_ignore key r rows = rows @ [r]"
    using find_row_None_iff [of key "key r" rows] by (simp add: insert_ignore_def)
  with None show ?thesis by (auto split: option.split)
next
  case (Some x)
  then have "insert_ignore key r rows = rows"
    using find_row_None_iff [of key "key r" rows] by (simp add: insert_ignore_def)
  with Some show ?thesis by simp
qed

lemma unique_insert_ignore [inv_intros]:
  "unique_on key rows \<Longrightarrow> unique_on key (insert_ignore key r rows)"
  by (auto simp: insert_ignore_def unique_on_def)

lemma insert_ignore_idem:
  "insert_ignore key r (insert_ignore key r rows) = insert_ignore key r rows"
  by (simp add: insert_ignore_def)

lemma insert_ignore_present:
  "key r \<in> key ` set rows \<Longrightarrow> insert_ignore key r rows = rows"
  by (simp add: insert_ignore_def)

lemma set_insert_ignore_mono: "set rows \<subseteq> set (insert_ignore key r rows)"
  by (auto simp: insert_ignore_def)

lemma find_row_delete [row_simps]:
  "find_row key k (delete_rows key k' rows) = (if k = k' then None else find_row key k rows)"
  by (induction rows) (auto simp: delete_rows_def)

lemma unique_delete [inv_intros]:
  "unique_on key rows \<Longrightarrow> unique_on key (delete_rows key k rows)"
  by (induction rows) (auto simp: unique_on_def delete_rows_def)

lemma unique_filter [inv_intros]:
  "unique_on key rows \<Longrightarrow> unique_on key (filter P rows)"
  by (simp add: unique_on_def distinct_map_filter)

subsection \<open>The contract of a per-key store\<close>

text \<open>
  \<open>get\<close> reads the value stored under a key, \<open>put\<close> stores one (an upsert that replaces the
  payload), \<open>drop\<close> removes it and says whether there was one. \<open>ok\<close> is the store's invariant
  (its unique constraint).
\<close>

locale keyed_store =
  fixes get :: "'s \<Rightarrow> 'k \<Rightarrow> 'v option"
    and put :: "'k \<Rightarrow> 'v \<Rightarrow> 's \<Rightarrow> 's"
    and drop :: "'k \<Rightarrow> 's \<Rightarrow> bool \<times> 's"
    and ok :: "'s \<Rightarrow> bool"
  assumes get_put: "get (put k v s) k' = (if k' = k then Some v else get s k')"
    and get_drop: "get (snd (drop k s)) k' = (if k' = k then None else get s k')"
    and drop_result: "fst (drop k s) = (get s k \<noteq> None)"
    and ok_put: "ok s \<Longrightarrow> ok (put k v s)"
    and ok_drop: "ok s \<Longrightarrow> ok (snd (drop k s))"
begin

lemma last_write_wins: "get (put k v (put k w s)) k' = get (put k v s) k'"
  by (simp add: get_put)

lemma writes_commute:
  "k \<noteq> l \<Longrightarrow> get (put k v (put l w s)) k' = get (put l w (put k v s)) k'"
  by (auto simp: get_put)

lemma drop_after_put: "fst (drop k (put k v s))" "get (snd (drop k (put k v s))) k = None"
  by (simp_all add: drop_result get_put get_drop)

lemma drop_twice: "\<not> fst (drop k (snd (drop k s)))"
  by (simp add: drop_result get_drop)

lemma put_then_drop_frame:
  "k' \<noteq> k \<Longrightarrow> get (snd (drop k (put k v s))) k' = get s k'"
  by (simp add: get_drop get_put)

text \<open>Any sequence of writes is summarised by the last one to each key.\<close>

lemma get_put_many:
  "get (fold (\<lambda>(k, v). put k v) kvs s) k' =
     (case map_of (rev kvs) k' of Some v \<Rightarrow> Some v | None \<Rightarrow> get s k')"
  by (induction kvs arbitrary: s) (auto simp: get_put map_of_append map_add_def split: option.splits)

lemma ok_put_many: "ok s \<Longrightarrow> ok (fold (\<lambda>(k, v). put k v) kvs s)"
  by (induction kvs arbitrary: s) (auto simp: ok_put)

end

text \<open>
  A table is such a store as soon as a row made for a key has that key and that value, and the
  ON CONFLICT update takes the value of the new row and keeps the key.
\<close>

definition row_get :: "('r \<Rightarrow> 'k) \<Rightarrow> ('r \<Rightarrow> 'v) \<Rightarrow> 'r list \<Rightarrow> 'k \<Rightarrow> 'v option" where
  "row_get key val rows k = map_option val (find_row key k rows)"

definition row_drop :: "('r \<Rightarrow> 'k) \<Rightarrow> 'k \<Rightarrow> 'r list \<Rightarrow> bool \<times> 'r list" where
  "row_drop key k rows = (find_row key k rows \<noteq> None, delete_rows key k rows)"

lemma keyed_store_rows:
  assumes upd: "keeps_key key upd" "\<And>x r. val (upd x r) = val r"
    and mk: "\<And>k v. key (mk k v) = k" "\<And>k v. val (mk k v) = v"
  shows "keyed_store (row_get key val) (\<lambda>k v. upsert key upd (mk k v)) (row_drop key) (unique_on key)"
proof unfold_locales
  fix rows k k' v
  show "row_get key val (upsert key upd (mk k v) rows) k' = (if k' = k then Some v else row_get key val rows k')"
    using find_row_upsert_same [OF upd(1), of k' "mk k v" rows] find_row_upsert_other [OF upd(1), of k' "mk k v" rows]
    by (auto simp: row_get_def mk upd(2) split: option.splits)
  show "row_get key val (snd (row_drop key k rows)) k' = (if k' = k then None else row_get key val rows k')"
    by (simp add: row_get_def row_drop_def find_row_delete)
  show "fst (row_drop key k rows) = (row_get key val rows k \<noteq> None)"
    by (simp add: row_get_def row_drop_def)
  show "unique_on key rows \<Longrightarrow> unique_on key (upsert key upd (mk k v) rows)"
    by (rule unique_upsert [OF upd(1)])
  show "unique_on key rows \<Longrightarrow> unique_on key (snd (row_drop key k rows))"
    by (simp add: row_drop_def unique_delete)
qed

end
