(* ===== verification/Interval_Union.thy ===== *)
theory Interval_Union
  imports Prelude "HOL-Library.Multiset"
begin

section \<open>Wall-clock union of activity intervals\<close>

text \<open>
  Models \<open>core/timekpr_hub_core/interval_union.py\<close>: the span type with its constructor check,
  the sort-and-merge routine \<open>union_seconds\<close> and the per-second oracle
  \<open>union_seconds_bruteforce\<close> the test-suite compares it with. The main theorem says the two
  agree on every list of valid spans; the remaining ones are the accounting facts ("burn once")
  the hub builds on. \<open>merged_runs\<close> is the list of runs the loop closes, which the aggregation
  theory uses as the reference for the database's \<open>range_agg\<close>.
\<close>

record span =
  start_s :: int
  end_s :: int

datatype span_error = SpanEndPrecedesStart int int

definition mk_span :: "int \<Rightarrow> int \<Rightarrow> span_error + span" where
  "mk_span s e =
     (if e < s then Inl (SpanEndPrecedesStart e s) else Inr \<lparr>start_s = s, end_s = e\<rparr>)"

definition valid_span :: "span \<Rightarrow> bool" where
  "valid_span sp \<longleftrightarrow> start_s sp \<le> end_s sp"

lemma mk_span_valid: "mk_span s e = Inr sp \<Longrightarrow> valid_span sp"
  by (auto simp: mk_span_def valid_span_def split: if_splits)

text \<open>The loop of \<open>union_seconds\<close>, over the spans after the first, in order of their start.\<close>

fun union_loop :: "int \<Rightarrow> int \<Rightarrow> int \<Rightarrow> span list \<Rightarrow> int" where
  "union_loop tot cur_start cur_end [] = tot + (cur_end - cur_start)"
| "union_loop tot cur_start cur_end (sp # sps) =
     (if start_s sp \<le> cur_end
      then union_loop tot cur_start (max cur_end (end_s sp)) sps
      else union_loop (tot + (cur_end - cur_start)) (start_s sp) (end_s sp) sps)"

definition union_seconds :: "span list \<Rightarrow> int" where
  "union_seconds spans =
     (case sort_key start_s spans of
        [] \<Rightarrow> 0
      | sp # sps \<Rightarrow> union_loop 0 (start_s sp) (end_s sp) sps)"

definition union_seconds_bruteforce :: "span list \<Rightarrow> int" where
  "union_seconds_bruteforce spans =
     int (card (foldl (\<lambda>covered sp. covered \<union> set [start_s sp .. end_s sp - 1]) {} spans))"

subsection \<open>What the loop computes\<close>

definition span_set :: "span \<Rightarrow> int set" where
  "span_set sp = {start_s sp ..< end_s sp}"

definition cover :: "span list \<Rightarrow> int set" where
  "cover spans = (\<Union>sp \<in> set spans. span_set sp)"

lemma cover_simps [simp]:
  "cover [] = {}"
  "cover (sp # sps) = span_set sp \<union> cover sps"
  "cover (xs @ ys) = cover xs \<union> cover ys"
  by (auto simp: cover_def)

lemma finite_span_set [simp]: "finite (span_set sp)"
  by (simp add: span_set_def)

lemma finite_cover [simp]: "finite (cover spans)"
  by (simp add: cover_def)

lemma card_span_set: "valid_span sp \<Longrightarrow> int (card (span_set sp)) = end_s sp - start_s sp"
  by (simp add: span_set_def valid_span_def)

lemma cover_set_eq: "set xs = set ys \<Longrightarrow> cover xs = cover ys"
  by (simp add: cover_def)

lemma cover_mono: "set xs \<subseteq> set ys \<Longrightarrow> cover xs \<subseteq> cover ys"
  by (auto simp: cover_def)

lemma cover_lower_bound:
  "\<forall>sp \<in> set sps. l \<le> start_s sp \<Longrightarrow> x \<in> cover sps \<Longrightarrow> l \<le> x"
  by (force simp: cover_def span_set_def)

lemma bruteforce_cover: "union_seconds_bruteforce spans = int (card (cover spans))"
proof -
  have "foldl (\<lambda>covered sp. covered \<union> set [start_s sp .. end_s sp - 1]) A spans
          = A \<union> cover spans" for A
    by (induction spans arbitrary: A) (auto simp: span_set_def)
  then show ?thesis by (simp add: union_seconds_bruteforce_def)
qed

text \<open>
  The loop invariant: the closed runs count \<open>tot\<close>, the open run is
  \<open>[cur_start, cur_end)\<close>, and no later span starts before the open run does.
\<close>

lemma union_loop_card:
  assumes "sorted (map start_s sps)" and "\<forall>sp \<in> set sps. valid_span sp \<and> cs \<le> start_s sp"
    and "cs \<le> ce"
  shows "union_loop tot cs ce sps = tot + int (card ({cs ..< ce} \<union> cover sps))"
  using assms
proof (induction sps arbitrary: tot cs ce)
  case Nil
  then show ?case by simp
next
  case (Cons sp sps)
  from Cons.prems have sp: "start_s sp \<le> end_s sp" "cs \<le> start_s sp"
    and later: "\<forall>q \<in> set sps. valid_span q \<and> start_s sp \<le> start_s q"
    and sorted: "sorted (map start_s sps)"
    by (auto simp: valid_span_def)
  show ?case
  proof (cases "start_s sp \<le> ce")
    case True
    with sp have merge: "{cs ..< ce} \<union> span_set sp = {cs ..< max ce (end_s sp)}"
      by (auto simp: span_set_def)
    have "union_loop tot cs (max ce (end_s sp)) sps
            = tot + int (card ({cs ..< max ce (end_s sp)} \<union> cover sps))"
      using Cons.prems sp later sorted by (intro Cons.IH) auto
    with True merge show ?thesis by (simp add: Un_assoc [symmetric])
  next
    case False
    let ?rest = "{start_s sp ..< end_s sp} \<union> cover sps"
    have disj: "{cs ..< ce} \<inter> ?rest = {}"
      using False cover_lower_bound [of sps "start_s sp"] later by force
    have "union_loop (tot + (ce - cs)) (start_s sp) (end_s sp) sps
            = tot + (ce - cs) + int (card ?rest)"
      using sp later sorted by (intro Cons.IH) auto
    moreover have "int (card ({cs ..< ce} \<union> ?rest)) = (ce - cs) + int (card ?rest)"
      using disj Cons.prems(3) by (subst card_Un_disjoint) auto
    ultimately show ?thesis using False by (simp add: span_set_def)
  qed
qed

lemma union_seconds_card:
  assumes "\<forall>sp \<in> set spans. valid_span sp"
  shows "union_seconds spans = int (card (cover spans))"
proof (cases "sort_key start_s spans")
  case Nil
  then have "spans = []" by (metis length_0_conv length_sort)
  then show ?thesis by (simp add: union_seconds_def)
next
  case (Cons sp sps)
  have sets: "set spans = insert sp (set sps)"
    using Cons by (metis list.set(2) set_sort)
  have "sorted (map start_s (sp # sps))"
    using Cons by (metis sorted_sort_key)
  then have "union_loop 0 (start_s sp) (end_s sp) sps
               = 0 + int (card ({start_s sp ..< end_s sp} \<union> cover sps))"
    using assms sets by (intro union_loop_card) (auto simp: valid_span_def)
  moreover have "cover spans = {start_s sp ..< end_s sp} \<union> cover sps"
    using cover_set_eq [of spans "sp # sps"] sets by (simp add: span_set_def)
  ultimately show ?thesis using Cons by (simp add: union_seconds_def)
qed

subsection \<open>The runs the loop closes\<close>

text \<open>
  The same loop, keeping the merged runs instead of their total length: the normal form of a
  set of half-open ranges, pairwise disjoint and never touching.
\<close>

fun merged_loop :: "int \<Rightarrow> int \<Rightarrow> span list \<Rightarrow> span list" where
  "merged_loop cur_start cur_end [] = [\<lparr>start_s = cur_start, end_s = cur_end\<rparr>]"
| "merged_loop cur_start cur_end (sp # sps) =
     (if start_s sp \<le> cur_end
      then merged_loop cur_start (max cur_end (end_s sp)) sps
      else \<lparr>start_s = cur_start, end_s = cur_end\<rparr> # merged_loop (start_s sp) (end_s sp) sps)"

definition merged_runs :: "span list \<Rightarrow> span list" where
  "merged_runs spans =
     (case sort_key start_s spans of
        [] \<Rightarrow> []
      | sp # sps \<Rightarrow> merged_loop (start_s sp) (end_s sp) sps)"

definition run_lengths :: "span list \<Rightarrow> int" where
  "run_lengths runs = (\<Sum>r \<leftarrow> runs. end_s r - start_s r)"

lemma union_loop_merged: "union_loop tot cs ce sps = tot + run_lengths (merged_loop cs ce sps)"
  by (induction sps arbitrary: tot cs ce) (auto simp: run_lengths_def)

lemma union_seconds_merged: "union_seconds spans = run_lengths (merged_runs spans)"
  by (auto simp: union_seconds_def merged_runs_def union_loop_merged run_lengths_def
           split: list.split)

text \<open>Sorted, separated runs: the length of the runs is the size of what they cover.\<close>

fun separated :: "span list \<Rightarrow> bool" where
  "separated [] = True"
| "separated [r] = valid_span r"
| "separated (r # q # rs) = (valid_span r \<and> end_s r < start_s q \<and> separated (q # rs))"

lemma separated_tail: "separated (r # rs) \<Longrightarrow> separated rs"
  by (cases rs) auto

lemma separated_bound:
  "separated (r # rs) \<Longrightarrow> q \<in> set rs \<Longrightarrow> end_s r < start_s q"
proof (induction rs arbitrary: r)
  case (Cons p rs)
  then have "end_s r < start_s p" and p: "separated (p # rs)" by auto
  moreover have "valid_span p" using p by (cases rs) auto
  ultimately show ?case
    using Cons.IH [OF p] Cons.prems(2) by (auto simp: valid_span_def)
qed simp

lemma run_lengths_separated: "separated rs \<Longrightarrow> run_lengths rs = int (card (cover rs))"
proof (induction rs)
  case Nil
  then show ?case by (simp add: run_lengths_def)
next
  case (Cons r rs)
  have "span_set r \<inter> cover rs = {}"
    using separated_bound [OF Cons.prems] by (fastforce simp: cover_def span_set_def)
  moreover have "valid_span r" using Cons.prems by (cases rs) auto
  ultimately show ?case
    using Cons separated_tail [OF Cons.prems]
    by (simp add: run_lengths_def card_Un_disjoint card_span_set)
qed

lemma merged_loop_head: "\<exists>e rest. merged_loop cs ce sps = \<lparr>start_s = cs, end_s = e\<rparr> # rest"
  by (induction sps arbitrary: ce) auto

lemma merged_loop_spec:
  assumes "sorted (map start_s sps)" and "\<forall>sp \<in> set sps. valid_span sp \<and> cs \<le> start_s sp"
    and "cs \<le> ce"
  shows "separated (merged_loop cs ce sps) \<and> cover (merged_loop cs ce sps) = {cs ..< ce} \<union> cover sps"
  using assms
proof (induction sps arbitrary: cs ce)
  case Nil
  then show ?case by (simp add: valid_span_def span_set_def)
next
  case (Cons sp sps)
  have sp: "start_s sp \<le> end_s sp" "cs \<le> start_s sp"
    and later: "\<forall>q \<in> set sps. valid_span q \<and> start_s sp \<le> start_s q"
    and sorted: "sorted (map start_s sps)"
    using Cons.prems by (auto simp: valid_span_def)
  show ?case
  proof (cases "start_s sp \<le> ce")
    case True
    have "separated (merged_loop cs (max ce (end_s sp)) sps) \<and>
          cover (merged_loop cs (max ce (end_s sp)) sps) = {cs ..< max ce (end_s sp)} \<union> cover sps"
      using Cons.prems sp later sorted by (intro Cons.IH) auto
    moreover have "{cs ..< ce} \<union> span_set sp = {cs ..< max ce (end_s sp)}"
      using True sp by (auto simp: span_set_def)
    ultimately show ?thesis using True by (simp add: Un_assoc [symmetric])
  next
    case False
    have "separated (merged_loop (start_s sp) (end_s sp) sps) \<and>
          cover (merged_loop (start_s sp) (end_s sp) sps) = {start_s sp ..< end_s sp} \<union> cover sps"
      using sp later sorted by (intro Cons.IH) auto
    moreover obtain e rest
      where "merged_loop (start_s sp) (end_s sp) sps = \<lparr>start_s = start_s sp, end_s = e\<rparr> # rest"
      using merged_loop_head by blast
    ultimately show ?thesis
      using False Cons.prems(3) by (simp add: valid_span_def span_set_def)
  qed
qed

lemma merged_runs_spec:
  assumes "\<forall>sp \<in> set spans. valid_span sp"
  shows "separated (merged_runs spans)" and "cover (merged_runs spans) = cover spans"
proof -
  have "separated (merged_runs spans) \<and> cover (merged_runs spans) = cover spans"
  proof (cases "sort_key start_s spans")
    case Nil
    then have "spans = []" by (metis length_0_conv length_sort)
    then show ?thesis by (simp add: merged_runs_def)
  next
    case (Cons sp sps)
    have sets: "set spans = insert sp (set sps)"
      using Cons by (metis list.set(2) set_sort)
    have "sorted (map start_s (sp # sps))"
      using Cons by (metis sorted_sort_key)
    then have "separated (merged_loop (start_s sp) (end_s sp) sps) \<and>
        cover (merged_loop (start_s sp) (end_s sp) sps) = {start_s sp ..< end_s sp} \<union> cover sps"
      using assms sets by (intro merged_loop_spec) (auto simp: valid_span_def)
    moreover have "cover spans = {start_s sp ..< end_s sp} \<union> cover sps"
      using cover_set_eq [of spans "sp # sps"] sets by (simp add: span_set_def)
    ultimately show ?thesis using Cons by (simp add: merged_runs_def)
  qed
  then show "separated (merged_runs spans)" and "cover (merged_runs spans) = cover spans"
    by auto
qed

subsection \<open>Properties\<close>

text \<open>
  C3. The sort-and-merge routine computes exactly what the per-second oracle counts, for every
  list of spans the constructor accepts, in any order, overlapping, touching or empty.
\<close>

theorem union_seconds_is_bruteforce:
  assumes "\<forall>sp \<in> set spans. mk_span (start_s sp) (end_s sp) = Inr sp"
  shows "union_seconds spans = union_seconds_bruteforce spans"
proof -
  from assms have "\<forall>sp \<in> set spans. valid_span sp" by (auto intro: mk_span_valid)
  then show ?thesis by (simp add: union_seconds_card bruteforce_cover)
qed

theorem union_seconds_is_bruteforce_witness:
  "union_seconds [\<lparr>start_s = 10, end_s = 20\<rparr>, \<lparr>start_s = 0, end_s = 12\<rparr>, \<lparr>start_s = 30, end_s = 31\<rparr>]
     = union_seconds_bruteforce
        [\<lparr>start_s = 10, end_s = 20\<rparr>, \<lparr>start_s = 0, end_s = 12\<rparr>, \<lparr>start_s = 30, end_s = 31\<rparr>]"
  by (rule union_seconds_is_bruteforce) (simp add: mk_span_def)

text \<open>
  Burn once: pooling two devices' spans costs at least what either device alone burned, at
  most the sum of the two, and replaying spans already counted costs nothing.
\<close>

theorem union_seconds_burn_once:
  assumes "\<forall>sp \<in> set (xs @ ys). valid_span sp"
  shows "max (union_seconds xs) (union_seconds ys) \<le> union_seconds (xs @ ys)
    \<and> union_seconds (xs @ ys) \<le> union_seconds xs + union_seconds ys
    \<and> (set ys \<subseteq> set xs \<longrightarrow> union_seconds (xs @ ys) = union_seconds xs)"
proof (intro conjI impI)
  have vx: "\<forall>sp \<in> set xs. valid_span sp" and vy: "\<forall>sp \<in> set ys. valid_span sp"
    using assms by auto
  note card = union_seconds_card [OF assms] union_seconds_card [OF vx] union_seconds_card [OF vy]
  show "max (union_seconds xs) (union_seconds ys) \<le> union_seconds (xs @ ys)"
    by (simp add: card card_mono)
  show "union_seconds (xs @ ys) \<le> union_seconds xs + union_seconds ys"
    using card_Un_le [of "cover xs" "cover ys"] by (simp add: card)
  show "union_seconds (xs @ ys) = union_seconds xs" if "set ys \<subseteq> set xs"
    using cover_mono [OF that] by (simp add: card sup_absorb1)
qed

theorem union_seconds_burn_once_witness:
  "union_seconds ([\<lparr>start_s = 0, end_s = 1800\<rparr>] @ [\<lparr>start_s = 900, end_s = 2700\<rparr>])
     \<le> union_seconds [\<lparr>start_s = 0, end_s = 1800\<rparr>] + union_seconds [\<lparr>start_s = 900, end_s = 2700\<rparr>]
   \<and> union_seconds ([\<lparr>start_s = 0, end_s = 1800\<rparr>] @ [\<lparr>start_s = 900, end_s = 2700\<rparr>]) = 2700
   \<and> union_seconds ([\<lparr>start_s = 0, end_s = 5\<rparr>] @ [\<lparr>start_s = 0, end_s = 5\<rparr>])
       = union_seconds [\<lparr>start_s = 0, end_s = 5\<rparr>]"
  using union_seconds_burn_once
      [of "[\<lparr>start_s = 0, end_s = 1800\<rparr>]" "[\<lparr>start_s = 900, end_s = 2700\<rparr>]"]
    union_seconds_burn_once [of "[\<lparr>start_s = 0, end_s = 5\<rparr>]" "[\<lparr>start_s = 0, end_s = 5\<rparr>]"]
  by (simp add: valid_span_def union_seconds_def)

end
