(* ===== verification/Calendar.thy ===== *)
theory Calendar
  imports Prelude
begin

section \<open>Canonical calendar boundaries\<close>

text \<open>
  Models \<open>core/timekpr_hub_core/calendar.py\<close>, with the parts of Python's \<open>datetime\<close> module it
  rests on: the proleptic Gregorian \<open>date\<close> (years 1 to 9999), \<open>toordinal\<close>, \<open>fromordinal\<close>,
  addition of a number of days, \<open>isoweekday\<close>, \<open>isocalendar\<close>, \<open>replace\<close> and \<open>isoformat\<close>, written
  with the algorithms of the standard library. A time zone (\<open>ZoneInfo\<close>, whose rules come from
  the tz database) is a parameter: the function from an instant to its UTC offset in seconds.
\<close>

subsection \<open>Dates\<close>

record date =
  yr :: int
  mo :: int
  dy :: int

definition is_leap :: "int \<Rightarrow> bool" where
  "is_leap y \<longleftrightarrow> y mod 4 = 0 \<and> (y mod 100 \<noteq> 0 \<or> y mod 400 = 0)"

definition days_in_month :: "int \<Rightarrow> int \<Rightarrow> int" where
  "days_in_month y m =
     (if m = 2 then (if is_leap y then 29 else 28)
      else if m = 4 \<or> m = 6 \<or> m = 9 \<or> m = 11 then 30 else 31)"

definition days_before_year :: "int \<Rightarrow> int" where
  "days_before_year y = (let p = y - 1 in p * 365 + p div 4 - p div 100 + p div 400)"

definition cumulative_days :: "int list" where
  "cumulative_days = [0, 31, 59, 90, 120, 151, 181, 212, 243, 273, 304, 334]"

definition days_before_month :: "bool \<Rightarrow> int \<Rightarrow> int" where
  "days_before_month leap m = cumulative_days ! nat (m - 1) + (if m > 2 \<and> leap then 1 else 0)"

definition valid_date :: "date \<Rightarrow> bool" where
  "valid_date d \<longleftrightarrow> 1 \<le> yr d \<and> yr d \<le> 9999 \<and> 1 \<le> mo d \<and> mo d \<le> 12 \<and>
     1 \<le> dy d \<and> dy d \<le> days_in_month (yr d) (mo d)"

definition toordinal :: "date \<Rightarrow> int" where
  "toordinal d = days_before_year (yr d) + days_before_month (is_leap (yr d)) (mo d) + dy d"

definition month_and_day :: "bool \<Rightarrow> int \<Rightarrow> int \<times> int" where
  "month_and_day leap n =
     (let m = (n + 50) div 32;
          before = days_before_month leap m
      in if before > n
         then (m - 1, n - days_before_month leap (m - 1) + 1)
         else (m, n - before + 1))"

definition fromordinal :: "int \<Rightarrow> date" where
  "fromordinal o1 =
     (let n = o1 - 1;
          n400 = n div 146097; n = n mod 146097;
          n100 = n div 36524; n = n mod 36524;
          n4 = n div 1461; n = n mod 1461;
          n1 = n div 365; n = n mod 365;
          y = n400 * 400 + 1 + n100 * 100 + n4 * 4 + n1
      in if n1 = 4 \<or> n100 = 4 then \<lparr>yr = y - 1, mo = 12, dy = 31\<rparr>
         else let leap = (n1 = 3 \<and> (n4 \<noteq> 24 \<or> n100 = 3));
                  md = month_and_day leap n
              in \<lparr>yr = y, mo = fst md, dy = snd md\<rparr>)"

definition max_ordinal :: int where
  "max_ordinal = 3652059"

text \<open>\<open>date + timedelta(days=n)\<close>: out of years 1..9999 raises OverflowError.\<close>

definition add_days :: "date \<Rightarrow> int \<Rightarrow> date result" where
  "add_days d n =
     (let o1 = toordinal d + n
      in if 0 < o1 \<and> o1 \<le> max_ordinal then Inr (fromordinal o1) else Inl OverflowError)"

text \<open>\<open>date.replace\<close> validates like the constructor.\<close>

definition mk_date :: "int \<Rightarrow> int \<Rightarrow> int \<Rightarrow> date result" where
  "mk_date y m d =
     (let dt = \<lparr>yr = y, mo = m, dy = d\<rparr>
      in if valid_date dt then Inr dt else Inl ValueError)"

definition isoweekday :: "date \<Rightarrow> int" where
  "isoweekday d = (let r = toordinal d mod 7 in if r = 0 then 7 else r)"

definition iso_week1_monday :: "int \<Rightarrow> int" where
  "iso_week1_monday y =
     (let firstday = toordinal \<lparr>yr = y, mo = 1, dy = 1\<rparr>;
          firstweekday = (firstday + 6) mod 7;
          monday = firstday - firstweekday
      in if firstweekday > 3 then monday + 7 else monday)"

definition isocalendar :: "date \<Rightarrow> int \<times> int \<times> int" where
  "isocalendar d =
     (let y = yr d; today = toordinal d;
          w1 = iso_week1_monday y;
          week = (today - w1) div 7; wd = (today - w1) mod 7
      in if week < 0
         then let w0 = iso_week1_monday (y - 1)
              in (y - 1, (today - w0) div 7 + 1, (today - w0) mod 7 + 1)
         else if week \<ge> 52 \<and> today \<ge> iso_week1_monday (y + 1)
         then (y + 1, 1, wd + 1)
         else (y, week + 1, wd + 1))"

subsection \<open>The module's own operations\<close>

record canonical =
  st_day :: date
  st_iso_year :: int
  st_iso_week :: int
  st_month_year :: int
  st_month :: int

text \<open>A datetime is naive (no tzinfo) or denotes an instant.\<close>

datatype datetime = Naive int | Aware instant

type_synonym tz = "instant \<Rightarrow> int"

definition epoch_ordinal :: int where
  "epoch_ordinal = 719163"

definition local_date :: "tz \<Rightarrow> instant \<Rightarrow> date result" where
  "local_date tz i =
     (let o1 = (i + tz i * usec_per_sec) div (86400 * usec_per_sec) + epoch_ordinal
      in if 0 < o1 \<and> o1 \<le> max_ordinal then Inr (fromordinal o1) else Inl OverflowError)"

definition canonical_stamp :: "datetime \<Rightarrow> tz \<Rightarrow> canonical result" where
  "canonical_stamp dt tz =
     (case dt of
        Naive _ \<Rightarrow> Inl ValueError
      | Aware i \<Rightarrow>
          rbind (local_date tz i) (\<lambda>loc.
            case isocalendar loc of (iy, iw, _) \<Rightarrow>
              Inr \<lparr>st_day = loc, st_iso_year = iy, st_iso_week = iw,
                   st_month_year = yr loc, st_month = mo loc\<rparr>))"

definition days_in_iso_week :: "date \<Rightarrow> date list result" where
  "days_in_iso_week any_day =
     rbind (add_days any_day (- (isoweekday any_day - 1)))
       (\<lambda>monday. rsequence (map (add_days monday) [0..6]))"

definition month_bounds :: "date \<Rightarrow> (date \<times> date) result" where
  "month_bounds any_day =
     rbind (mk_date (yr any_day) (mo any_day) 1) (\<lambda>first.
     rbind (if mo first = 12 then mk_date (yr first + 1) 1 (dy first)
            else mk_date (yr first) (mo first + 1) (dy first)) (\<lambda>next_month_first.
     rbind (add_days next_month_first (- 1)) (\<lambda>last.
       Inr (first, last))))"

subsection \<open>Text forms\<close>

definition digit :: "int \<Rightarrow> char" where
  "digit n = ''0123456789'' ! nat n"

definition pad2 :: "int \<Rightarrow> string" where
  "pad2 n = [digit (n div 10 mod 10), digit (n mod 10)]"

definition pad4 :: "int \<Rightarrow> string" where
  "pad4 n = [digit (n div 1000 mod 10), digit (n div 100 mod 10), digit (n div 10 mod 10), digit (n mod 10)]"

definition isoformat :: "date \<Rightarrow> string" where
  "isoformat d = pad4 (yr d) @ ''-'' @ pad2 (mo d) @ ''-'' @ pad2 (dy d)"

text \<open>\<open>f"{n}"\<close> of a non-negative number.\<close>

fun decimal :: "nat \<Rightarrow> string" where
  "decimal n = (if n < 10 then [digit (int n)] else decimal (n div 10) @ [digit (int (n mod 10))])"

declare decimal.simps [simp del]

definition day_str :: "canonical \<Rightarrow> string" where
  "day_str st = isoformat (st_day st)"

definition iso_week_str :: "canonical \<Rightarrow> string" where
  "iso_week_str st = decimal (nat (st_iso_year st)) @ ''-W'' @ pad2 (st_iso_week st)"

definition month_str :: "canonical \<Rightarrow> string" where
  "month_str st = pad4 (st_month_year st) @ ''-'' @ pad2 (st_month st)"

subsection \<open>Ordinals and dates are inverse\<close>

lemmas month_table = days_before_month_def days_in_month_def cumulative_days_def

definition mad_ok :: "bool \<Rightarrow> int \<Rightarrow> bool" where
  "mad_ok leap n = (case month_and_day leap n of (m, d) \<Rightarrow>
     1 \<le> m \<and> m \<le> 12 \<and> 1 \<le> d \<and>
     d \<le> (if m = 2 then (if leap then 29 else 28) else if m = 4 \<or> m = 6 \<or> m = 9 \<or> m = 11 then 30 else 31) \<and>
     days_before_month leap m + d - 1 = n)"

lemma month_and_day_spec:
  assumes "0 \<le> n" "n \<le> 364"
  shows "mad_ok leap n"
proof -
  define m where "m = (n + 50) div 32"
  have range: "32 * m \<le> n + 50" "n + 50 < 32 * m + 32" by (simp_all add: m_def)
  have "m \<in> {1, 2, 3, 4, 5, 6, 7, 8, 9, 10, 11, 12}"
  proof -
    have "1 \<le> m" "m \<le> 12" using range assms by linarith+
    then show ?thesis by (simp, presburger)
  qed
  then show ?thesis
    using range assms
    by (elim insertE emptyE)
      (simp_all add: mad_ok_def month_and_day_def m_def [symmetric] days_before_month_def
        cumulative_days_def)
qed

lemma days_before_year_decomp:
  assumes "0 \<le> b" "b \<le> 3" "0 \<le> c" "c \<le> 24" "0 \<le> e" "e \<le> 3" "y = 400 * a + 100 * b + 4 * c + e + (1::int)"
  shows "days_before_year y = 146097 * a + 36524 * b + 1461 * c + 365 * e"
proof -
  have "y - 1 = 4 * (100 * a + 25 * b + c) + e" using assms by simp
  then have d4: "(y - 1) div 4 = 100 * a + 25 * b + c" using assms by simp
  have "y - 1 = 100 * (4 * a + b) + (4 * c + e)" using assms by simp
  then have d100: "(y - 1) div 100 = 4 * a + b" using assms by simp
  have "y - 1 = 400 * a + (100 * b + 4 * c + e)" using assms by simp
  then have d400: "(y - 1) div 400 = a" using assms by simp
  show ?thesis using d4 d100 d400 assms by (simp add: days_before_year_def)
qed

lemma is_leap_decomp:
  assumes "0 \<le> b" "b \<le> 3" "0 \<le> c" "c \<le> 24" "0 \<le> e" "e \<le> 3" "y = 400 * a + 100 * b + 4 * c + e + (1::int)"
  shows "is_leap y = (e = 3 \<and> (c \<noteq> 24 \<or> b = 3))"
proof -
  have "y = e + 1 + 4 * (100 * a + 25 * b + c)" using assms by simp
  then have m4: "y mod 4 = (e + 1) mod 4" by (simp only: mod_mult_self2)
  have "y = (4 * c + e + 1) + 100 * (4 * a + b)" using assms by simp
  then have m100: "y mod 100 = (4 * c + e + 1) mod 100" by (simp only: mod_mult_self2)
  have "y = (100 * b + 4 * c + e + 1) + 400 * a" using assms by simp
  then have m400: "y mod 400 = (100 * b + 4 * c + e + 1) mod 400" by (simp only: mod_mult_self2)
  have wrap: "v mod k = 0 \<longleftrightarrow> v = k" if "1 \<le> v" "v \<le> k" for v k :: int
    using that by (cases "v = k") (auto simp: mod_pos_pos_trivial)
  have "(e + 1) mod 4 = 0 \<longleftrightarrow> e = 3"
    using assms by (subst wrap) (use assms in arith)+
  moreover have "(4 * c + e + 1) mod 100 = 0 \<longleftrightarrow> c = 24 \<and> e = 3"
    using assms by (subst wrap) (use assms in arith)+
  moreover have "(100 * b + 4 * c + e + 1) mod 400 = 0 \<longleftrightarrow> b = 3 \<and> c = 24 \<and> e = 3"
    using assms by (subst wrap) (use assms in arith)+
  ultimately show ?thesis by (auto simp: is_leap_def m4 m100 m400)
qed

lemma fromordinal_spec:
  assumes "1 \<le> o1" "o1 \<le> max_ordinal"
  shows "valid_date (fromordinal o1) \<and> toordinal (fromordinal o1) = o1"
proof -
  define n where "n = o1 - 1"
  define a where "a = n div 146097"
  define r1 where "r1 = n mod 146097"
  define b where "b = r1 div 36524"
  define r2 where "r2 = r1 mod 36524"
  define c where "c = r2 div 1461"
  define r3 where "r3 = r2 mod 1461"
  define e where "e = r3 div 365"
  define r4 where "r4 = r3 mod 365"
  define y where "y = a * 400 + 1 + b * 100 + c * 4 + e"
  have n0: "0 \<le> n" "n \<le> 3652058" using assms by (simp_all add: n_def max_ordinal_def)
  have r1: "0 \<le> r1" "r1 < 146097" "n = 146097 * a + r1" by (simp_all add: a_def r1_def)
  have a0: "0 \<le> a" "a \<le> 24" using n0 r1 by linarith+
  have r2: "0 \<le> r2" "r2 < 36524" "r1 = 36524 * b + r2" by (simp_all add: b_def r2_def)
  have b0: "0 \<le> b" "b \<le> 4" using r1 r2 by linarith+
  have r3: "0 \<le> r3" "r3 < 1461" "r2 = 1461 * c + r3" by (simp_all add: c_def r3_def)
  have c0: "0 \<le> c" "c \<le> 24" using r2 r3 by linarith+
  have r4: "0 \<le> r4" "r4 < 365" "r3 = 365 * e + r4" by (simp_all add: e_def r4_def)
  have e0: "0 \<le> e" "e \<le> 4" using r3 r4 by linarith+
  have fo: "fromordinal o1 = (if e = 4 \<or> b = 4 then \<lparr>yr = y - 1, mo = 12, dy = 31\<rparr>
       else let leap = (e = 3 \<and> (c \<noteq> 24 \<or> b = 3)); md = month_and_day leap r4
            in \<lparr>yr = y, mo = fst md, dy = snd md\<rparr>)"
    unfolding fromordinal_def Let_def
    by (simp only: n_def [symmetric] a_def [symmetric] r1_def [symmetric] b_def [symmetric]
      r2_def [symmetric] c_def [symmetric] r3_def [symmetric] e_def [symmetric]
      r4_def [symmetric] y_def [symmetric])
  show ?thesis
  proof (cases "e = 4 \<or> b = 4")
    case True
    then have fo': "fromordinal o1 = \<lparr>yr = y - 1, mo = 12, dy = 31\<rparr>" by (simp add: fo)
    define b' where "b' = (if e = 4 then b else 3)"
    define c' where "c' = (if e = 4 then c else 24)"
    have bc: "0 \<le> b'" "b' \<le> 3" "0 \<le> c'" "c' \<le> 24" "c' \<noteq> 24 \<or> b' = 3"
      and n_eq: "n = 146097 * a + 36524 * b' + 1461 * c' + 1460"
      and y_eq: "y - 1 = 400 * a + 100 * b' + 4 * c' + 3 + 1"
    proof -
      have *: "0 \<le> b' \<and> b' \<le> 3 \<and> 0 \<le> c' \<and> c' \<le> 24 \<and> (c' \<noteq> 24 \<or> b' = 3) \<and>
        n = 146097 * a + 36524 * b' + 1461 * c' + 1460 \<and>
        y - 1 = 400 * a + 100 * b' + 4 * c' + 3 + 1"
      proof (cases "b = 4")
        case True
        then have "r2 = 0" using r1 r2 by linarith
        then have "c = 0" "r3 = 0" by (simp_all add: c_def r3_def)
        then have "e = 0" by (simp add: e_def)
        with True \<open>r2 = 0\<close> \<open>c = 0\<close> show ?thesis using r1 r2 by (simp add: b'_def c'_def y_def)
      next
        case False
        then have "e = 4" using \<open>e = 4 \<or> b = 4\<close> by simp
        then have "r3 = 1460" using r3 r4 by linarith
        then have "c \<le> 23" using r2 r3 by linarith
        with False \<open>e = 4\<close> \<open>r3 = 1460\<close> show ?thesis
          using b0 c0 r1(3) r2(3) r3(3) by (simp add: b'_def c'_def y_def)
      qed
      then show "0 \<le> b'" "b' \<le> 3" "0 \<le> c'" "c' \<le> 24" "c' \<noteq> 24 \<or> b' = 3"
        "n = 146097 * a + 36524 * b' + 1461 * c' + 1460"
        "y - 1 = 400 * a + 100 * b' + 4 * c' + 3 + 1"
        by simp_all
    qed
    have "is_leap (y - 1)"
      using is_leap_decomp [OF bc(1-4) _ _ y_eq] bc(5) by simp
    moreover have "days_before_year (y - 1) = 146097 * a + 36524 * b' + 1461 * c' + 1095"
      using days_before_year_decomp [OF bc(1-4) _ _ y_eq] by simp
    moreover have "1 \<le> y - 1" "y - 1 \<le> 9999"
      using a0 bc(1-4) n_eq n0 y_eq by linarith+
    moreover have "o1 = n + 1" by (simp add: n_def)
    ultimately show ?thesis
      unfolding fo' using n_eq by (simp add: valid_date_def toordinal_def month_table)
  next
    case False
    then have bb: "b \<le> 3" "e \<le> 3" using b0 e0 by auto
    have yy: "y = 400 * a + 100 * b + 4 * c + e + 1" by (simp add: y_def)
    define leap where "leap = (e = 3 \<and> (c \<noteq> 24 \<or> b = 3))"
    obtain m d where md: "month_and_day leap r4 = (m, d)" by fastforce
    have ok: "mad_ok leap r4" using r4 by (intro month_and_day_spec) auto
    have lp: "is_leap y = leap"
      unfolding leap_def by (rule is_leap_decomp [OF b0(1) bb(1) c0 e0(1) bb(2) yy])
    have dby: "days_before_year y = 146097 * a + 36524 * b + 1461 * c + 365 * e"
      by (rule days_before_year_decomp [OF b0(1) bb(1) c0 e0(1) bb(2) yy])
    have mdf: "1 \<le> m" "m \<le> 12" "1 \<le> d" "d \<le> days_in_month y m"
      "days_before_month leap m + d - 1 = r4"
      using ok unfolding mad_ok_def md days_in_month_def lp by auto
    have "fromordinal o1 = \<lparr>yr = y, mo = m, dy = d\<rparr>"
      using False md [unfolded leap_def] by (simp add: fo Let_def)
    moreover have "1 \<le> y" "y \<le> 9999"
      using a0 b0 c0 e0 bb r1(3) r2(3) r3(3) r4(1,3) n0 yy by linarith+
    moreover have "146097 * a + 36524 * b + 1461 * c + 365 * e + r4 = n" using r1 r2 r3 r4 by simp
    moreover have "o1 = n + 1" by (simp add: n_def)
    ultimately show ?thesis
      using mdf lp dby by (simp add: valid_date_def toordinal_def)
  qed
qed

lemma div_step:
  "(y::int) div 4 = (y - 1) div 4 + (if y mod 4 = 0 then 1 else 0)"
  "y div 100 = (y - 1) div 100 + (if y mod 100 = 0 then 1 else 0)"
  "y div 400 = (y - 1) div 400 + (if y mod 400 = 0 then 1 else 0)"
proof -
  have step: "y div k = (y - 1) div k + (if y mod k = 0 then 1 else 0)" if "0 < k" for k :: int
  proof (cases "y mod k = 0")
    case True
    then obtain q where "y = k * q" by (auto elim: dvdE)
    moreover have "(k * q - 1) div k = q - 1"
      by (rule int_div_pos_eq [where r = "k - 1"]) (use that in \<open>auto simp: algebra_simps\<close>)
    ultimately show ?thesis using that by simp
  next
    case False
    have r: "0 \<le> y mod k" "y mod k < k" using that by simp_all
    then have r': "0 \<le> y mod k - 1" "y mod k - 1 < k" using False by linarith+
    have "(y - 1) div k = y div k"
      using mult_div_mod_eq [of k y]
      by (intro int_div_pos_eq [OF _ r']) (simp add: algebra_simps)
    with False show ?thesis by simp
  qed
  show "y div 4 = (y - 1) div 4 + (if y mod 4 = 0 then 1 else 0)"
    "y div 100 = (y - 1) div 100 + (if y mod 100 = 0 then 1 else 0)"
    "y div 400 = (y - 1) div 400 + (if y mod 400 = 0 then 1 else 0)"
    by (rule step, simp)+
qed

lemma leap_count:
  assumes "r \<Longrightarrow> q" "q \<Longrightarrow> p"
  shows "k + (a + (if p then 1 else 0)) - (b + (if q then 1 else 0)) + (c + (if r then 1 else 0))
    = k - 365 + a - b + c + 365 + (if p \<and> (\<not> q \<or> r) then 1 else (0::int))"
proof -
  have "r \<longrightarrow> q" "q \<longrightarrow> p" using assms by blast+
  then show ?thesis by (cases p; cases q; cases r) simp_all
qed

lemma days_before_year_Suc:
  "days_before_year (y + 1) = days_before_year y + 365 + (if is_leap y then 1 else 0)"
proof -
  have "100 dvd y" if "400 dvd y" by (rule dvd_trans [OF _ that]) simp
  then have n1: "y mod 400 = 0 \<Longrightarrow> y mod 100 = 0" unfolding dvd_eq_mod_eq_0 .
  have "4 dvd y" if "100 dvd y" by (rule dvd_trans [OF _ that]) simp
  then have n2: "y mod 100 = 0 \<Longrightarrow> y mod 4 = 0" unfolding dvd_eq_mod_eq_0 .
  define a b c where "a = (y - 1) div 4" and "b = (y - 1) div 100" and "c = (y - 1) div 400"
  note abc = a_def b_def c_def
  have "days_before_year (y + 1) = y * 365 + y div 4 - y div 100 + y div 400"
    by (simp add: days_before_year_def)
  also have "\<dots> = y * 365 + (a + (if y mod 4 = 0 then 1 else 0)) - (b + (if y mod 100 = 0 then 1 else 0))
      + (c + (if y mod 400 = 0 then 1 else 0))"
    by (simp only: div_step [of y] abc)
  also have "\<dots> = y * 365 - 365 + a - b + c + 365 + (if is_leap y then 1 else 0)"
    unfolding is_leap_def using n1 n2 by (rule leap_count)
  also have "y * 365 - 365 + a - b + c = days_before_year y"
    by (simp add: days_before_year_def Let_def abc)
  finally show ?thesis .
qed

lemma days_before_year_mono: "y \<le> z \<Longrightarrow> days_before_year y \<le> days_before_year z"
  by (induction rule: int_ge_induct) (simp_all add: days_before_year_Suc)

lemma month_cases:
  fixes m :: int
  assumes "1 \<le> m" "m \<le> 12"
  shows "m = 1 \<or> m = 2 \<or> m = 3 \<or> m = 4 \<or> m = 5 \<or> m = 6 \<or> m = 7 \<or> m = 8 \<or> m = 9 \<or> m = 10
    \<or> m = 11 \<or> m = 12"
  using assms by presburger

lemma days_before_month_next:
  assumes "1 \<le> m" "m < 12"
  shows "days_before_month (is_leap y) (m + 1) = days_before_month (is_leap y) m + days_in_month y m"
proof -
  have "m \<le> 12" using assms(2) by simp
  from month_cases [OF assms(1) this] assms(2) show ?thesis
    by (elim disjE) (simp_all add: month_table)
qed

lemma days_in_month_range: "1 \<le> days_in_month y m" "days_in_month y m \<le> 31"
  by (simp_all add: days_in_month_def)

lemma days_before_month_mono:
  assumes "1 \<le> m" "m \<le> m'" "m' \<le> 12"
  shows "days_before_month (is_leap y) m \<le> days_before_month (is_leap y) m'"
proof -
  have "m' \<le> 12 \<longrightarrow> days_before_month (is_leap y) m \<le> days_before_month (is_leap y) m'"
    using assms(2)
  proof (induction rule: int_ge_induct)
    case (step i)
    show ?case
    proof
      assume "i + 1 \<le> 12"
      then show "days_before_month (is_leap y) m \<le> days_before_month (is_leap y) (i + 1)"
        using step assms(1) days_before_month_next [of i y] days_in_month_range(1) [of y i] by simp
    qed
  qed simp
  then show ?thesis using assms(3) by simp
qed

lemma days_before_month_ends:
  "days_before_month leap 1 = 0"
  "days_before_month (is_leap y) 12 + 31 = 365 + (if is_leap y then 1 else 0)"
  by (simp_all add: month_table)

lemma toordinal_year_bounds:
  assumes "valid_date d"
  shows "days_before_year (yr d) < toordinal d" "toordinal d \<le> days_before_year (yr d + 1)"
proof -
  let ?b = "days_before_month (is_leap (yr d))"
  have m: "1 \<le> mo d" "mo d \<le> 12" and dd: "1 \<le> dy d" "dy d \<le> days_in_month (yr d) (mo d)"
    using assms by (auto simp: valid_date_def)
  have "0 \<le> ?b (mo d)"
    using days_before_month_mono [of 1 "mo d" "yr d"] m days_before_month_ends(1) by simp
  then show "days_before_year (yr d) < toordinal d" using dd by (simp add: toordinal_def)
  have "?b (mo d) + days_in_month (yr d) (mo d) \<le> 365 + (if is_leap (yr d) then 1 else 0)"
  proof (cases "mo d = 12")
    case True
    then show ?thesis using days_before_month_ends(2) [of "yr d"] by (simp add: days_in_month_def)
  next
    case False
    then have "?b (mo d) + days_in_month (yr d) (mo d) = ?b (mo d + 1)"
      using m days_before_month_next by simp
    also have "\<dots> \<le> ?b 12" using m False by (intro days_before_month_mono) auto
    finally show ?thesis using days_before_month_ends(2) [of "yr d"] by simp
  qed
  then show "toordinal d \<le> days_before_year (yr d + 1)"
    using dd by (simp add: toordinal_def days_before_year_Suc)
qed

text \<open>Dates compare like their ISO text: year, then month, then day.\<close>

instantiation date_ext :: (linorder) linorder
begin

definition less_eq_date_ext :: "'a date_ext \<Rightarrow> 'a date_ext \<Rightarrow> bool" where
  "less_eq_date_ext d e \<longleftrightarrow> yr d < yr e \<or> yr d = yr e \<and> (mo d < mo e \<or> mo d = mo e \<and>
     (dy d < dy e \<or> dy d = dy e \<and> date.more d \<le> date.more e))"

definition less_date_ext :: "'a date_ext \<Rightarrow> 'a date_ext \<Rightarrow> bool" where
  "less_date_ext d e \<longleftrightarrow> yr d < yr e \<or> yr d = yr e \<and> (mo d < mo e \<or> mo d = mo e \<and>
     (dy d < dy e \<or> dy d = dy e \<and> date.more d < date.more e))"

instance
proof
  fix d e f :: "'a date_ext"
  show "d < e \<longleftrightarrow> d \<le> e \<and> \<not> e \<le> d"
    by (auto simp: less_eq_date_ext_def less_date_ext_def)
  show "d \<le> d" by (simp add: less_eq_date_ext_def)
  show "d \<le> e \<Longrightarrow> e \<le> f \<Longrightarrow> d \<le> f" by (auto simp: less_eq_date_ext_def)
  show "d \<le> e \<Longrightarrow> e \<le> d \<Longrightarrow> d = e" by (cases d; cases e) (auto simp: less_eq_date_ext_def)
  show "d \<le> e \<or> e \<le> d" by (auto simp: less_eq_date_ext_def)
qed

end

definition date_less :: "date \<Rightarrow> date \<Rightarrow> bool" where
  "date_less d d' \<longleftrightarrow> yr d < yr d' \<or> yr d = yr d' \<and> (mo d < mo d' \<or> mo d = mo d' \<and> dy d < dy d')"

lemma toordinal_less:
  assumes "valid_date d" "valid_date d'" "date_less d d'"
  shows "toordinal d < toordinal d'"
proof (cases "yr d < yr d'")
  case True
  then have "days_before_year (yr d + 1) \<le> days_before_year (yr d')"
    by (intro days_before_year_mono) simp
  then show ?thesis
    using toordinal_year_bounds(2) [OF assms(1)] toordinal_year_bounds(1) [OF assms(2)] by simp
next
  case False
  then have y: "yr d = yr d'" using assms(3) by (simp add: date_less_def)
  show ?thesis
  proof (cases "mo d < mo d'")
    case True
    have "days_before_month (is_leap (yr d)) (mo d) + days_in_month (yr d) (mo d)
        = days_before_month (is_leap (yr d)) (mo d + 1)"
      using True assms(1,2) by (intro days_before_month_next [symmetric]) (auto simp: valid_date_def)
    also have "\<dots> \<le> days_before_month (is_leap (yr d)) (mo d')"
      using True assms(1,2) by (intro days_before_month_mono) (auto simp: valid_date_def)
    finally show ?thesis using assms(1,2) y by (auto simp: toordinal_def valid_date_def)
  next
    case False
    then show ?thesis using y assms(3) by (simp add: date_less_def toordinal_def)
  qed
qed

lemma date_less_iff: "date_less d d' \<longleftrightarrow> d < d'"
  by (auto simp: date_less_def less_date_ext_def)

lemma date_total: "date_less d d' \<or> d = d' \<or> date_less d' (d :: date)"
  by (cases d; cases d') (auto simp: date_less_def)

lemma toordinal_less_iff:
  "valid_date d \<Longrightarrow> valid_date d' \<Longrightarrow> toordinal d < toordinal d' \<longleftrightarrow> date_less d d'"
  using toordinal_less [of d d'] toordinal_less [of d' d] date_total [of d d'] by auto

lemma toordinal_inject:
  "valid_date d \<Longrightarrow> valid_date d' \<Longrightarrow> toordinal d = toordinal d' \<longleftrightarrow> d = d'"
  using toordinal_less [of d d'] toordinal_less [of d' d] date_total [of d d'] by auto

lemma toordinal_range:
  assumes "valid_date d"
  shows "1 \<le> toordinal d" "toordinal d \<le> max_ordinal"
proof -
  have "days_before_year 1 \<le> days_before_year (yr d)"
    "days_before_year (yr d + 1) \<le> days_before_year 10000"
    using assms by (auto simp: valid_date_def intro: days_before_year_mono)
  moreover have "days_before_year 1 = 0" "days_before_year 10000 = max_ordinal"
    by (simp_all add: days_before_year_def max_ordinal_def)
  ultimately show "1 \<le> toordinal d" "toordinal d \<le> max_ordinal"
    using toordinal_year_bounds [OF assms] by simp_all
qed

lemma fromordinal_toordinal: "valid_date d \<Longrightarrow> fromordinal (toordinal d) = d"
  using fromordinal_spec [of "toordinal d"] toordinal_range [of d] toordinal_inject by blast

lemma add_days_Inr:
  "add_days d n = Inr d' \<Longrightarrow> valid_date d' \<and> toordinal d' = toordinal d + n"
  using fromordinal_spec [of "toordinal d + n"]
  by (auto simp: add_days_def Let_def split: if_splits)

lemma add_days_eq:
  "valid_date d' \<Longrightarrow> toordinal d' = toordinal d + n \<Longrightarrow> add_days d n = Inr d'"
  using toordinal_range [of d'] fromordinal_toordinal [of d'] by (simp add: add_days_def)

subsection \<open>Months and ISO weeks\<close>

lemma month_last_ordinal:
  assumes "valid_date d"
  defines "l \<equiv> \<lparr>yr = yr d, mo = mo d, dy = days_in_month (yr d) (mo d)\<rparr>"
  shows "valid_date l"
    and "mo d < 12 \<Longrightarrow> toordinal \<lparr>yr = yr d, mo = mo d + 1, dy = 1\<rparr> = toordinal l + 1"
    and "mo d = 12 \<Longrightarrow> toordinal \<lparr>yr = yr d + 1, mo = 1, dy = 1\<rparr> = toordinal l + 1"
proof -
  show "valid_date l"
    using assms days_in_month_range by (auto simp: valid_date_def)
  show "toordinal \<lparr>yr = yr d, mo = mo d + 1, dy = 1\<rparr> = toordinal l + 1" if "mo d < 12"
    using days_before_month_next [of "mo d" "yr d"] assms that
    by (simp add: toordinal_def valid_date_def)
  show "toordinal \<lparr>yr = yr d + 1, mo = 1, dy = 1\<rparr> = toordinal l + 1" if "mo d = 12"
    using days_before_month_ends(1) days_before_month_ends(2) [of "yr d"] that
    by (simp add: toordinal_def l_def days_before_year_Suc days_in_month_def)
qed

lemma month_bounds_eq:
  assumes "valid_date d"
  shows "month_bounds d =
     (if yr d = 9999 \<and> mo d = 12 then Inl ValueError
      else Inr (\<lparr>yr = yr d, mo = mo d, dy = 1\<rparr>,
                \<lparr>yr = yr d, mo = mo d, dy = days_in_month (yr d) (mo d)\<rparr>))"
proof -
  let ?l = "\<lparr>yr = yr d, mo = mo d, dy = days_in_month (yr d) (mo d)\<rparr>"
  have first: "mk_date (yr d) (mo d) 1 = Inr \<lparr>yr = yr d, mo = mo d, dy = 1\<rparr>"
    using assms days_in_month_range(1) by (simp add: mk_date_def valid_date_def)
  note last = month_last_ordinal [OF assms]
  show ?thesis
  proof (cases "mo d = 12")
    case True
    show ?thesis
    proof (cases "yr d = 9999")
      case True
      with \<open>mo d = 12\<close> show ?thesis
        using first by (simp add: month_bounds_def mk_date_def valid_date_def)
    next
      case False
      have "add_days \<lparr>yr = yr d + 1, mo = 1, dy = 1\<rparr> (- 1) = Inr ?l"
        using last(1) last(3) [OF \<open>mo d = 12\<close>] by (intro add_days_eq) auto
      moreover have "mk_date (yr d + 1) 1 1 = Inr \<lparr>yr = yr d + 1, mo = 1, dy = 1\<rparr>"
        using assms False by (simp add: mk_date_def valid_date_def days_in_month_def)
      ultimately show ?thesis
        using first False \<open>mo d = 12\<close> by (simp add: month_bounds_def)
    qed
  next
    case False
    then have m: "mo d < 12" using assms by (simp add: valid_date_def)
    have "add_days \<lparr>yr = yr d, mo = mo d + 1, dy = 1\<rparr> (- 1) = Inr ?l"
      using last(1) last(2) [OF m] by (intro add_days_eq) auto
    moreover have "mk_date (yr d) (mo d + 1) 1 = Inr \<lparr>yr = yr d, mo = mo d + 1, dy = 1\<rparr>"
      using assms m days_in_month_range(1) by (simp add: mk_date_def valid_date_def)
    ultimately show ?thesis using first False by (simp add: month_bounds_def)
  qed
qed

definition monday_of :: "date \<Rightarrow> int" where
  "monday_of d = toordinal d - (isoweekday d - 1)"

lemma isoweekday_mod: "isoweekday d = (toordinal d - 1) mod 7 + 1"
proof -
  define r where "r = (toordinal d - 1) mod 7"
  have r: "0 \<le> r" "r < 7" by (simp_all add: r_def)
  have "toordinal d mod 7 = (r + 1) mod 7" unfolding r_def by (simp add: mod_simps)
  also have "\<dots> = (if r = 6 then 0 else r + 1)" using r by auto
  finally show ?thesis using r by (auto simp: isoweekday_def Let_def r_def [symmetric])
qed

lemma monday_of_mod: "monday_of d mod 7 = 1"
  "monday_of d \<le> toordinal d" "toordinal d \<le> monday_of d + 6"
proof -
  define n where "n = toordinal d"
  have "monday_of d = n - (n - 1) mod 7" by (simp add: monday_of_def isoweekday_mod n_def)
  moreover have "(n - (n - 1) mod 7) mod 7 = 1" by presburger
  moreover have "0 \<le> (n - 1) mod 7" "(n - 1) mod 7 \<le> 6" by simp_all
  ultimately show "monday_of d mod 7 = 1" "monday_of d \<le> toordinal d" "toordinal d \<le> monday_of d + 6"
    by (simp_all add: n_def)
qed

lemma week1_facts:
  fixes y :: int
  defines "jan1 \<equiv> days_before_year y + 1"
  shows "iso_week1_monday y mod 7 = 1" "jan1 - 3 \<le> iso_week1_monday y" "iso_week1_monday y \<le> jan1 + 3"
proof -
  have j: "toordinal \<lparr>yr = y, mo = 1, dy = 1\<rparr> = jan1"
    by (simp add: toordinal_def jan1_def days_before_month_ends)
  define w where "w = (jan1 + 6) mod 7"
  have w: "iso_week1_monday y = (if w > 3 then jan1 - w + 7 else jan1 - w)"
    by (simp add: iso_week1_monday_def j w_def Let_def)
  have r: "0 \<le> w" "w \<le> 6" by (simp_all add: w_def)
  have "(jan1 - w) mod 7 = 1" unfolding w_def by presburger
  then show "iso_week1_monday y mod 7 = 1"
    using mod_add_self2 [of "jan1 - w" 7] by (simp add: w)
  show "jan1 - 3 \<le> iso_week1_monday y" "iso_week1_monday y \<le> jan1 + 3"
    using r by (simp_all add: w)
qed

lemma mondays_apart:
  fixes a b :: int
  assumes "a mod 7 = 1" "b mod 7 = 1" "a < b"
  shows "a + 7 \<le> b"
  using assms by presburger

lemma week1_next:
  "iso_week1_monday y + 364 \<le> iso_week1_monday (y + 1)"
proof -
  have "iso_week1_monday y + 357 < iso_week1_monday (y + 1)"
    using week1_facts(3) [of y] week1_facts(2) [of "y + 1"]
    by (simp add: days_before_year_Suc split: if_splits)
  moreover have "(iso_week1_monday y + 357) mod 7 = 1"
    using week1_facts(1) [of y] by presburger
  ultimately show ?thesis
    using mondays_apart [OF _ week1_facts(1) [of "y + 1"]] by fastforce
qed

lemma week1_less_next: "iso_week1_monday y < iso_week1_monday (y + 1)"
  using week1_next [of y] by linarith

lemma week1_mono: "y \<le> z \<Longrightarrow> iso_week1_monday y \<le> iso_week1_monday z"
  by (induction rule: int_ge_induct) (use week1_less_next in \<open>auto intro: order_trans less_imp_le\<close>)

text \<open>The ISO year and week of a date are determined by the Monday of its week.\<close>

lemma monday_div:
  assumes "w mod 7 = 1"
  shows "(toordinal d - w) div 7 = (monday_of d - w) div 7"
    and "(toordinal d - w) mod 7 + 1 = isoweekday d"
    and "w \<le> toordinal d \<longleftrightarrow> w \<le> monday_of d"
proof -
  define q r where "q = (toordinal d - 1) div 7" and "r = (toordinal d - 1) mod 7"
  have n: "toordinal d = 7 * q + r + 1" "0 \<le> r" "r < 7" by (simp_all add: q_def r_def)
  have m: "monday_of d = 7 * q + 1"
    using n by (simp add: monday_of_def isoweekday_mod r_def [symmetric])
  obtain k where k: "w = 7 * k + 1"
    using assms mult_div_mod_eq [of 7 w] by metis
  have nw: "toordinal d - w = r + (q - k) * 7" using n k by simp
  show "(toordinal d - w) div 7 = (monday_of d - w) div 7"
    unfolding nw using n m k by simp
  show "(toordinal d - w) mod 7 + 1 = isoweekday d"
  proof -
    have "(r + (q - k) * 7) mod 7 = r mod 7" by (rule mod_mult_self1)
    also have "\<dots> = r" using n(2,3) by (rule mod_pos_pos_trivial)
    finally have "(toordinal d - w) mod 7 = r" by (simp only: nw)
    then show ?thesis by (simp only: isoweekday_mod r_def [symmetric])
  qed
  show "w \<le> toordinal d \<longleftrightarrow> w \<le> monday_of d"
    using n m k by (cases "k \<le> q") auto
qed

lemma isocalendar_spec:
  assumes "valid_date d" and "isocalendar d = (y, w, wd)"
  shows "wd = isoweekday d" and "w = (monday_of d - iso_week1_monday y) div 7 + 1"
    and "iso_week1_monday y \<le> monday_of d" and "monday_of d < iso_week1_monday (y + 1)"
proof -
  let ?w1 = "iso_week1_monday" and ?n = "toordinal d" and ?M = "monday_of d"
  note b = toordinal_year_bounds [OF assms(1)]
  note f = week1_facts(1)
  note g = week1_facts(2,3)
  have *: "wd = isoweekday d \<and> w = (?M - ?w1 y) div 7 + 1 \<and> ?w1 y \<le> ?M \<and> ?M < ?w1 (y + 1)"
  proof (cases "(?n - ?w1 (yr d)) div 7 < 0")
    case True
    then have lt: "?n < ?w1 (yr d)" by simp
    have "y = yr d - 1" "w = (?n - ?w1 y) div 7 + 1" "wd = (?n - ?w1 y) mod 7 + 1"
      using assms(2) True by (auto simp: isocalendar_def Let_def)
    moreover have "?w1 (yr d - 1) \<le> ?n"
      using g [of "yr d - 1"] days_before_year_Suc [of "yr d - 1"] b(1) by (simp split: if_splits)
    ultimately show ?thesis
      using lt monday_of_mod(2) [of d] by (simp add: monday_div [OF f])
  next
    case False
    then have ge: "?w1 (yr d) \<le> ?n" by simp
    show ?thesis
    proof (cases "(?n - ?w1 (yr d)) div 7 \<ge> 52 \<and> ?n \<ge> ?w1 (yr d + 1)")
      case True
      have y: "y = yr d + 1" "w = 1" "wd = (?n - ?w1 (yr d)) mod 7 + 1"
        using assms(2) True False by (simp_all add: isocalendar_def Let_def)
      have M: "?w1 (yr d + 1) \<le> ?M" using True monday_div(3) [OF f] by blast
      have "?M - ?w1 (yr d + 1) \<le> 3"
        using b(2) g(1) [of "yr d + 1"] monday_of_mod(2) [of d] by simp
      then have "(?M - ?w1 y) div 7 = 0" using M y by simp
      moreover have "?M < ?w1 (y + 1)"
        using b(2) monday_of_mod(2) [of d] g(1) [of "yr d + 1"] week1_next [of y] y(1) by simp
      ultimately show ?thesis using y M monday_div(2) [OF f] by simp
    next
      case nolast: False
      have y: "y = yr d" "w = (?n - ?w1 (yr d)) div 7 + 1" "wd = (?n - ?w1 (yr d)) mod 7 + 1"
        using assms(2) nolast False by (auto simp: isocalendar_def Let_def)
      have "?n < ?w1 (yr d + 1)"
      proof (rule ccontr)
        assume "\<not> ?thesis"
        then have "364 \<le> ?n - ?w1 (yr d)" using week1_next [of "yr d"] by simp
        then have "52 \<le> (?n - ?w1 (yr d)) div 7" by simp
        with \<open>\<not> ?thesis\<close> nolast show False by simp
      qed
      then show ?thesis
        using y ge monday_of_mod(2) [of d] monday_div [OF f] by simp
    qed
  qed
  then show "wd = isoweekday d" "w = (?M - ?w1 y) div 7 + 1" "?w1 y \<le> ?M" "?M < ?w1 (y + 1)"
    by auto
qed

lemma iso_week_by_monday:
  assumes "valid_date d" "valid_date d'" "monday_of d = monday_of d'"
    and "isocalendar d = (y, w, wd)" "isocalendar d' = (y', w', wd')"
  shows "y = y' \<and> w = w'"
proof -
  note s = isocalendar_spec [OF assms(1,4)] and s' = isocalendar_spec [OF assms(2,5)]
  have "\<not> y + 1 \<le> y'" "\<not> y' + 1 \<le> y"
    using s(3,4) s'(3,4) assms(3) week1_mono [of "y + 1" y'] week1_mono [of "y' + 1" y] by auto
  then have "y = y'" by simp
  then show ?thesis using s(2) s'(2) assms(3) by simp
qed

lemma days_in_iso_week_Inr:
  assumes "days_in_iso_week d = Inr ds"
  shows "length ds = 7"
    and "i < 7 \<Longrightarrow> valid_date (ds ! i) \<and> toordinal (ds ! i) = monday_of d + int i"
proof -
  obtain m where m: "add_days d (- (isoweekday d - 1)) = Inr m"
    and ds: "rsequence (map (add_days m) [0..6]) = Inr ds"
    using assms by (auto simp: days_in_iso_week_def rbind_Inr_iff)
  have eq: "map (add_days m) [0..6] = map Inr ds" using ds by (simp add: rsequence_Inr_iff)
  show len: "length ds = 7" using arg_cong [OF eq, of length] by simp
  show "valid_date (ds ! i) \<and> toordinal (ds ! i) = monday_of d + int i" if "i < 7"
  proof -
    have "map (add_days m) [0..6] ! i = map Inr ds ! i" by (simp only: eq)
    then have "add_days m (int i) = Inr (ds ! i)" using that len by (simp add: nth_upto)
    from add_days_Inr [OF this] add_days_Inr [OF m] show ?thesis by (simp add: monday_of_def)
  qed
qed

subsection \<open>Properties\<close>

text \<open>
  The pooling window of a monthly limit. For every valid date outside December 9999 the
  function returns the first and the last day of its month: both are valid, and a date lies
  between them exactly when it has the same year and month. In December 9999 the code raises
  ValueError (there is no first day of the next month).
\<close>

theorem month_bounds_window:
  assumes "valid_date d"
  shows "(yr d = 9999 \<and> mo d = 12 \<and> month_bounds d = Inl ValueError) \<or>
    (\<exists>first last. month_bounds d = Inr (first, last) \<and> valid_date first \<and> valid_date last \<and>
       (\<forall>e. valid_date e \<longrightarrow>
         (toordinal first \<le> toordinal e \<and> toordinal e \<le> toordinal last
            \<longleftrightarrow> yr e = yr d \<and> mo e = mo d)))"
proof (cases "yr d = 9999 \<and> mo d = 12")
  case True
  then show ?thesis using month_bounds_eq [OF assms] by simp
next
  case False
  let ?f = "\<lparr>yr = yr d, mo = mo d, dy = 1\<rparr>"
    and ?l = "\<lparr>yr = yr d, mo = mo d, dy = days_in_month (yr d) (mo d)\<rparr>"
  have vf: "valid_date ?f" using assms days_in_month_range(1) by (simp add: valid_date_def)
  note vl = month_last_ordinal(1) [OF assms]
  have "toordinal ?f \<le> toordinal e \<and> toordinal e \<le> toordinal ?l
          \<longleftrightarrow> yr e = yr d \<and> mo e = mo d" if e: "valid_date e" for e
  proof -
    have "toordinal ?f \<le> toordinal e \<longleftrightarrow> \<not> date_less e ?f"
      "toordinal e \<le> toordinal ?l \<longleftrightarrow> \<not> date_less ?l e"
      using toordinal_less_iff [OF e vf] toordinal_less_iff [OF vl e] by (simp_all add: not_less [symmetric])
    then show ?thesis
      using e by (cases "yr e = yr d"; cases "mo e = mo d") (auto simp: date_less_def valid_date_def)
  qed
  then show ?thesis using month_bounds_eq [OF assms] False vf vl by auto
qed

theorem month_bounds_window_witness:
  "(yr \<lparr>yr = 2024, mo = 2, dy = 17\<rparr> = 9999 \<and> mo \<lparr>yr = 2024, mo = 2, dy = 17\<rparr> = 12 \<and>
      month_bounds \<lparr>yr = 2024, mo = 2, dy = 17\<rparr> = Inl ValueError) \<or>
   (\<exists>first last. month_bounds \<lparr>yr = 2024, mo = 2, dy = 17\<rparr> = Inr (first, last) \<and>
      valid_date first \<and> valid_date last \<and>
      (\<forall>e. valid_date e \<longrightarrow>
        (toordinal first \<le> toordinal e \<and> toordinal e \<le> toordinal last
           \<longleftrightarrow> yr e = yr \<lparr>yr = 2024, mo = 2, dy = 17\<rparr> \<and> mo e = mo \<lparr>yr = 2024, mo = 2, dy = 17\<rparr>)))"
  by (rule month_bounds_window) (simp add: valid_date_def days_in_month_def is_leap_def)

text \<open>
  The pooling window of a weekly limit. Whenever the function returns, it returns seven
  consecutive valid dates, Monday to Sunday, the given date is one of them, and all seven share
  the ISO year and week of the given date. It fails only with OverflowError.
\<close>

theorem days_in_iso_week_window:
  assumes "valid_date d"
  shows "days_in_iso_week d = Inl OverflowError \<or>
    (\<exists>ds. days_in_iso_week d = Inr ds \<and> length ds = 7 \<and> d \<in> set ds \<and>
       (\<forall>i < 7. valid_date (ds ! i) \<and> isoweekday (ds ! i) = int i + 1 \<and>
          toordinal (ds ! i) = toordinal (ds ! 0) + int i \<and>
          fst (isocalendar (ds ! i)) = fst (isocalendar d) \<and>
          fst (snd (isocalendar (ds ! i))) = fst (snd (isocalendar d))))"
proof (cases "days_in_iso_week d")
  case (Inl e)
  have overflow: "add_days d' n = Inl e' \<Longrightarrow> e' = OverflowError" for d' n e'
    by (simp add: add_days_def Let_def split: if_splits)
  show ?thesis
  proof (cases "add_days d (- (isoweekday d - 1))")
    case (Inl e')
    then show ?thesis using overflow [OF Inl] by (simp add: days_in_iso_week_def)
  next
    case (Inr m)
    then have "rsequence (map (add_days m) [0..6]) = Inl e"
      using \<open>days_in_iso_week d = Inl e\<close> by (simp add: days_in_iso_week_def)
    from rsequence_Inl [OF this] have "e = OverflowError" using overflow by fastforce
    then show ?thesis using \<open>days_in_iso_week d = Inl e\<close> by simp
  qed
next
  case (Inr ds)
  note nth = days_in_iso_week_Inr(2) [OF Inr] and len = days_in_iso_week_Inr(1) [OF Inr]
  have mon: "monday_of (ds ! i) = monday_of d" and wd: "isoweekday (ds ! i) = int i + 1"
    if "i < 7" for i
  proof -
    have "isoweekday (ds ! i) = (monday_of d + int i - 1) mod 7 + 1"
      using nth [OF that] by (simp add: isoweekday_mod)
    also have "(monday_of d + int i - 1) mod 7 = int i"
    proof -
      have "monday_of d = 7 * (monday_of d div 7) + 1"
        using mult_div_mod_eq [of 7 "monday_of d"] monday_of_mod(1) [of d] by simp
      then obtain q where "monday_of d = 7 * q + 1" by blast
      then show ?thesis using that by simp
    qed
    finally show wd: "isoweekday (ds ! i) = int i + 1" .
    show "monday_of (ds ! i) = monday_of d" using nth [OF that] wd by (simp add: monday_of_def)
  qed
  have iso: "fst (isocalendar (ds ! i)) = fst (isocalendar d) \<and>
      fst (snd (isocalendar (ds ! i))) = fst (snd (isocalendar d))" if "i < 7" for i
    using iso_week_by_monday [OF _ assms mon [OF that]] nth [OF that]
    by (metis prod.collapse)
  define k where "k = nat (isoweekday d - 1)"
  have k: "k < 7" "int k = isoweekday d - 1" by (auto simp: k_def isoweekday_mod)
  then have "toordinal (ds ! k) = toordinal d" using nth [of k] by (simp add: monday_of_def)
  then have "ds ! k = d" using nth [of k] k assms toordinal_inject by blast
  then have "d \<in> set ds" using k len nth_mem [of k ds] by auto
  then show ?thesis using Inr len nth wd iso by auto
qed

theorem days_in_iso_week_window_witness:
  "days_in_iso_week \<lparr>yr = 2024, mo = 12, dy = 31\<rparr> = Inl OverflowError \<or>
    (\<exists>ds. days_in_iso_week \<lparr>yr = 2024, mo = 12, dy = 31\<rparr> = Inr ds \<and> length ds = 7 \<and>
       \<lparr>yr = 2024, mo = 12, dy = 31\<rparr> \<in> set ds \<and>
       (\<forall>i < 7. valid_date (ds ! i) \<and> isoweekday (ds ! i) = int i + 1 \<and>
          toordinal (ds ! i) = toordinal (ds ! 0) + int i \<and>
          fst (isocalendar (ds ! i)) = fst (isocalendar \<lparr>yr = 2024, mo = 12, dy = 31\<rparr>) \<and>
          fst (snd (isocalendar (ds ! i))) = fst (snd (isocalendar \<lparr>yr = 2024, mo = 12, dy = 31\<rparr>))))"
  by (rule days_in_iso_week_window) (simp add: valid_date_def days_in_month_def)

end
