(* ===== verification/Allowed_Hours.thy ===== *)
theory Allowed_Hours
  imports Calendar "HOL-Library.Multiset"
begin

section \<open>Allowed hours: intervals and per-hour records\<close>

text \<open>
  Models \<open>core/timekpr_hub_core/allowed_hours.py\<close>: time-of-day intervals with their constructor
  check, the conflict check, the expansion of intervals into timekpr's one-record-per-clock-hour
  form, the reassembly of records into intervals, and the dictionary pushed over DBUS.
  An \<open>IntervalConflictError\<close> is a value that carries the clashing pair (the code formats it as
  text). The properties: a list of intervals is accepted exactly when it needs at most one record
  per clock hour; the records cover exactly the minutes of the intervals; the two conversions are
  inverse to each other on normal forms; the dictionary loses no record.
\<close>

definition hours_in_day :: int where
  "hours_in_day = 24"

record time_interval =
  start_min :: int
  end_min :: int
  unaccounted :: bool

definition valid_interval :: "time_interval \<Rightarrow> bool" where
  "valid_interval iv \<longleftrightarrow> 0 \<le> start_min iv \<and> start_min iv < end_min iv \<and> end_min iv \<le> 24 * 60"

definition mk_interval :: "int \<Rightarrow> int \<Rightarrow> bool \<Rightarrow> time_interval result" where
  "mk_interval s e u =
     (if \<not> (0 \<le> s \<and> s < e \<and> e \<le> 24 * 60) then Inl ValueError
      else Inr \<lparr>start_min = s, end_min = e, unaccounted = u\<rparr>)"

record hour_record =
  hr_hour :: int
  hr_start_min :: int
  hr_end_min :: int
  hr_unaccounted :: bool

datatype interval_conflict =
    Overlaps time_interval time_interval
  | SameClockHour time_interval time_interval int

definition unrestricted :: "time_interval list" where
  "unrestricted = [\<lparr>start_min = 0, end_min = hours_in_day * 60, unaccounted = False\<rparr>]"

fun check_pairs :: "time_interval list \<Rightarrow> interval_conflict option" where
  "check_pairs (a # b # rest) =
     (if start_min b < end_min a then Some (Overlaps a b)
      else let a_last_hour = (end_min a - 1) div 60;
               b_first_hour = start_min b div 60
           in if a_last_hour = b_first_hour then Some (SameClockHour a b a_last_hour)
              else check_pairs (b # rest))"
| "check_pairs _ = None"

definition validate_intervals :: "time_interval list \<Rightarrow> interval_conflict option" where
  "validate_intervals intervals = check_pairs (sort_key start_min intervals)"

definition hour_of_interval :: "time_interval \<Rightarrow> int \<Rightarrow> hour_record" where
  "hour_of_interval iv h =
     (let hour_start = h * 60
      in \<lparr>hr_hour = h, hr_start_min = max (start_min iv - hour_start) 0,
          hr_end_min = min (end_min iv - hour_start) 60, hr_unaccounted = unaccounted iv\<rparr>)"

definition interval_hours :: "time_interval \<Rightarrow> int list" where
  "interval_hours iv = [start_min iv div 60 .. (end_min iv - 1) div 60]"

definition intervals_to_hours :: "time_interval list \<Rightarrow> hour_record list" where
  "intervals_to_hours intervals =
     concat (map (\<lambda>iv. map (hour_of_interval iv) (interval_hours iv)) intervals)"

text \<open>The reassembly loop; \<open>cur\<close> is the open interval (\<open>cur_start\<close>, \<open>cur_end\<close>, \<open>cur_uacc\<close>).\<close>

fun reassemble :: "(int \<times> int \<times> bool) option \<Rightarrow> time_interval list \<Rightarrow> hour_record list
    \<Rightarrow> time_interval list result" where
  "reassemble cur out [] =
     (case cur of
        None \<Rightarrow> Inr out
      | Some (s, e, u) \<Rightarrow> rbind (mk_interval s e u) (\<lambda>iv. Inr (out @ [iv])))"
| "reassemble cur out (r # rs) =
     (let abs_start = hr_hour r * 60 + hr_start_min r;
          abs_end = hr_hour r * 60 + hr_end_min r
      in if abs_start \<ge> abs_end then reassemble cur out rs
         else case cur of
             None \<Rightarrow> reassemble (Some (abs_start, abs_end, hr_unaccounted r)) out rs
           | Some (s, e, u) \<Rightarrow>
               if abs_start = e \<and> hr_unaccounted r = u
               then reassemble (Some (s, abs_end, u)) out rs
               else rbind (mk_interval s e u) (\<lambda>iv.
                 reassemble (Some (abs_start, abs_end, hr_unaccounted r)) (out @ [iv]) rs))"

definition hours_to_intervals :: "hour_record list \<Rightarrow> time_interval list result" where
  "hours_to_intervals records = reassemble None [] (sort_key hr_hour records)"

text \<open>\<open>str(n)\<close>; the payload's keys are strings, its values (STARTMIN, ENDMIN, UACC).\<close>

definition str_of_int :: "int \<Rightarrow> string" where
  "str_of_int n = (if n < 0 then ''-'' @ decimal (nat (- n)) else decimal (nat n))"

type_synonym hours_payload = "(string, int \<times> int \<times> bool) dict"

definition hours_to_dbus_payload :: "hour_record list \<Rightarrow> hours_payload" where
  "hours_to_dbus_payload records =
     foldl (\<lambda>d r. dict_set d (str_of_int (hr_hour r))
              (hr_start_min r, hr_end_min r, hr_unaccounted r)) [] records"

subsection \<open>One interval and its hours\<close>

definition interval_minutes :: "time_interval \<Rightarrow> int set" where
  "interval_minutes iv = {start_min iv ..< end_min iv}"

definition record_minutes :: "hour_record \<Rightarrow> int set" where
  "record_minutes r = {hr_hour r * 60 + hr_start_min r ..< hr_hour r * 60 + hr_end_min r}"

definition proper_record :: "hour_record \<Rightarrow> bool" where
  "proper_record r \<longleftrightarrow> 0 \<le> hr_hour r \<and> hr_hour r \<le> 23 \<and> 0 \<le> hr_start_min r \<and>
     hr_start_min r < hr_end_min r \<and> hr_end_min r \<le> 60"

lemma hour_bounds:
  fixes m :: int
  shows "60 * (m div 60) \<le> m" "m < 60 * (m div 60) + 60"
  by simp_all

lemma hour_of_interval_hour [simp]: "hr_hour (hour_of_interval iv h) = h"
  "hr_unaccounted (hour_of_interval iv h) = unaccounted iv"
  by (simp_all add: hour_of_interval_def Let_def)

lemma interval_hours_iff:
  "h \<in> set (interval_hours iv) \<longleftrightarrow> start_min iv < h * 60 + 60 \<and> h * 60 < end_min iv"
proof -
  have "start_min iv div 60 \<le> h \<longleftrightarrow> start_min iv < h * 60 + 60"
    using hour_bounds [of "start_min iv"] by linarith
  moreover have "h \<le> (end_min iv - 1) div 60 \<longleftrightarrow> h * 60 < end_min iv"
    using hour_bounds [of "end_min iv - 1"] by linarith
  ultimately show ?thesis by (simp add: interval_hours_def)
qed

lemma hour_of_interval_proper:
  "valid_interval iv \<Longrightarrow> h \<in> set (interval_hours iv) \<Longrightarrow> proper_record (hour_of_interval iv h)"
  by (auto simp: interval_hours_iff valid_interval_def proper_record_def hour_of_interval_def Let_def)

lemma hour_of_interval_minutes:
  "record_minutes (hour_of_interval iv h) = interval_minutes iv \<inter> {h * 60 ..< h * 60 + 60}"
  by (auto simp: record_minutes_def interval_minutes_def hour_of_interval_def Let_def)

lemma interval_minutes_hours:
  "interval_minutes iv = (\<Union>h \<in> set (interval_hours iv). record_minutes (hour_of_interval iv h))"
proof (intro set_eqI iffI)
  fix m
  assume m: "m \<in> interval_minutes iv"
  then have "m div 60 \<in> set (interval_hours iv)"
    using hour_bounds [of m] by (auto simp: interval_hours_iff interval_minutes_def)
  moreover have "m \<in> record_minutes (hour_of_interval iv (m div 60))"
    using m hour_bounds [of m] by (auto simp: hour_of_interval_minutes)
  ultimately show "m \<in> (\<Union>h \<in> set (interval_hours iv). record_minutes (hour_of_interval iv h))"
    by blast
qed (auto simp: hour_of_interval_minutes)

lemma intervals_to_hours_simps [simp]:
  "intervals_to_hours [] = []"
  "intervals_to_hours (iv # ivs) = map (hour_of_interval iv) (interval_hours iv) @ intervals_to_hours ivs"
  "intervals_to_hours (xs @ ys) = intervals_to_hours xs @ intervals_to_hours ys"
  by (simp_all add: intervals_to_hours_def)

lemma hours_of_intervals:
  "map hr_hour (intervals_to_hours ivs) = concat (map interval_hours ivs)"
  by (induction ivs) (simp_all add: o_def)

lemma intervals_to_hours_proper:
  "\<forall>iv \<in> set ivs. valid_interval iv \<Longrightarrow> r \<in> set (intervals_to_hours ivs) \<Longrightarrow> proper_record r"
  by (induction ivs) (auto intro: hour_of_interval_proper)

lemma intervals_to_hours_minutes:
  "m \<in> record_minutes r \<and> r \<in> set (intervals_to_hours ivs) \<Longrightarrow>
   \<exists>iv \<in> set ivs. m \<in> interval_minutes iv \<and> unaccounted iv = hr_unaccounted r"
  by (induction ivs) (auto simp: hour_of_interval_minutes)

subsection \<open>Conflicts: one interval per clock hour\<close>

definition first_hour :: "time_interval \<Rightarrow> int" where
  "first_hour iv = start_min iv div 60"

definition last_hour :: "time_interval \<Rightarrow> int" where
  "last_hour iv = (end_min iv - 1) div 60"

definition hours_apart :: "time_interval \<Rightarrow> time_interval \<Rightarrow> bool" where
  "hours_apart a b \<longleftrightarrow> last_hour a < first_hour b"

lemma interval_hours_upto: "interval_hours iv = [first_hour iv .. last_hour iv]"
  by (simp add: interval_hours_def first_hour_def last_hour_def)

lemma first_le_last: "valid_interval iv \<Longrightarrow> first_hour iv \<le> last_hour iv"
  by (simp add: first_hour_def last_hour_def valid_interval_def zdiv_mono1)

lemma hours_apart_iff:
  "hours_apart a b \<longleftrightarrow> \<not> start_min b < end_min a \<and> (end_min a - 1) div 60 \<noteq> start_min b div 60"
  using hour_bounds [of "end_min a - 1"] hour_bounds [of "start_min b"]
    zdiv_mono1 [of "end_min a - 1" "start_min b" 60]
  by (simp add: hours_apart_def last_hour_def first_hour_def) linarith

lemma check_pairs_None: "check_pairs ivs = None \<longleftrightarrow> successively hours_apart ivs"
  by (induction ivs rule: check_pairs.induct) (auto simp: hours_apart_iff Let_def)

lemma successively_hours_apart:
  assumes "\<forall>iv \<in> set ivs. valid_interval iv"
  shows "successively hours_apart ivs \<longleftrightarrow> sorted_wrt hours_apart ivs"
proof (rule successively_iff_sorted_wrt_strong)
  fix a b c
  assume "a \<in> set ivs" "b \<in> set ivs" "c \<in> set ivs" "hours_apart a b" "hours_apart b c"
  then show "hours_apart a c"
    using first_le_last [of b] assms by (fastforce simp: hours_apart_def)
qed

lemma sorted_wrt_hours_distinct:
  assumes "\<forall>iv \<in> set ivs. valid_interval iv" "sorted_wrt hours_apart ivs"
  shows "sorted (concat (map interval_hours ivs)) \<and> distinct (concat (map interval_hours ivs))"
  using assms
proof (induction ivs)
  case (Cons iv ivs)
  have later: "h < k" if "h \<in> set (interval_hours iv)" "iv' \<in> set ivs" "k \<in> set (interval_hours iv')"
    for h k iv'
    using that Cons.prems by (fastforce simp: interval_hours_upto hours_apart_def)
  let ?rest = "concat (map interval_hours ivs)"
  have rest: "sorted ?rest" "distinct ?rest" using Cons by auto
  have less: "\<forall>h \<in> set (interval_hours iv). \<forall>k \<in> set ?rest. h < k" using later by auto
  have "sorted (interval_hours iv)" "distinct (interval_hours iv)"
    by (simp_all add: interval_hours_upto)
  moreover have "set (interval_hours iv) \<inter> set ?rest = {}" using less by force
  moreover have "\<forall>h \<in> set (interval_hours iv). \<forall>k \<in> set ?rest. h \<le> k" using less by (blast intro: less_imp_le)
  ultimately show ?case using rest by (simp only: list.map concat.simps sorted_append distinct_append)
qed simp

lemma distinct_hours_apart:
  assumes "\<forall>iv \<in> set ivs. valid_interval iv" "sorted (map start_min ivs)"
    and "distinct (concat (map interval_hours ivs))"
  shows "successively hours_apart ivs"
  using assms
proof (induction ivs rule: induct_list012)
  case (3 a b rest)
  have "\<not> first_hour b \<le> last_hour a"
  proof
    assume "first_hour b \<le> last_hour a"
    moreover have "first_hour a \<le> first_hour b"
      using "3.prems"(2) by (simp add: first_hour_def zdiv_mono1)
    ultimately have "first_hour b \<in> set (interval_hours a) \<inter> set (interval_hours b)"
      using first_le_last [of b] "3.prems"(1) by (simp add: interval_hours_upto)
    then show False using "3.prems"(3) by auto
  qed
  moreover have "successively hours_apart (b # rest)"
    using "3.prems" by (intro "3.IH"(2)) auto
  ultimately show ?case by (simp add: hours_apart_def)
qed auto

lemma mset_concat_map: "mset xs = mset ys \<Longrightarrow> mset (concat (map f xs)) = mset (concat (map f ys))"
proof -
  assume *: "mset xs = mset ys"
  have "mset (concat (map f zs)) = (\<Sum>x\<in>#mset zs. mset (f x))" for zs
    by (induction zs) auto
  with * show ?thesis by simp
qed

lemma validate_distinct:
  assumes "\<forall>iv \<in> set ivs. valid_interval iv"
  shows "validate_intervals ivs = None \<longleftrightarrow> distinct (map hr_hour (intervals_to_hours ivs))"
proof -
  let ?s = "sort_key start_min ivs"
  have v: "\<forall>iv \<in> set ?s. valid_interval iv" using assms by simp
  have "validate_intervals ivs = None \<longleftrightarrow> successively hours_apart ?s"
    by (simp add: validate_intervals_def check_pairs_None)
  also have "\<dots> \<longleftrightarrow> distinct (concat (map interval_hours ?s))"
    using successively_hours_apart [OF v] sorted_wrt_hours_distinct [OF v]
      distinct_hours_apart [OF v] by auto
  also have "\<dots> \<longleftrightarrow> distinct (concat (map interval_hours ivs))"
    by (rule mset_eq_imp_distinct_iff, rule mset_concat_map) simp
  finally show ?thesis by (simp add: hours_of_intervals)
qed

text \<open>Sorting by a key that is injective on the list is determined by the elements.\<close>

lemma sort_key_unique:
  fixes f :: "'a \<Rightarrow> 'b::linorder"
  assumes "mset ys = mset xs" "sorted (map f ys)" "distinct (map f ys)"
  shows "sort_key f xs = ys"
proof -
  have m: "mset (sort_key f xs) = mset ys" using assms(1) by simp
  then have "mset (map f (sort_key f xs)) = mset (map f ys)" by (simp only: mset_map)
  then have "sort (map f ys) = map f (sort_key f xs)"
    by (intro properties_for_sort) (simp_all only: sorted_sort_key)
  moreover have "sort (map f ys) = map f ys" using assms(2) by (rule sorted_sort_id)
  ultimately have eq: "map f (sort_key f xs) = map f ys" by simp
  have "inj_on f (set ys)" using assms(3) by (simp add: distinct_map)
  moreover have "set (sort_key f xs) = set ys" using m by (metis set_mset_mset)
  ultimately show ?thesis
    using eq by (intro map_inj_on [OF eq]) (auto simp: inj_on_def)
qed

subsection \<open>From records to intervals and back\<close>

abbreviation itv :: "int \<Rightarrow> int \<Rightarrow> bool \<Rightarrow> time_interval" where
  "itv s e u \<equiv> \<lparr>start_min = s, end_min = e, unaccounted = u\<rparr>"

lemma mk_interval_valid: "valid_interval (itv s e u) \<Longrightarrow> mk_interval s e u = Inr (itv s e u)"
  by (simp add: mk_interval_def valid_interval_def)

lemma single_record:
  assumes "proper_record r"
  defines "iv \<equiv> itv (hr_hour r * 60 + hr_start_min r) (hr_hour r * 60 + hr_end_min r) (hr_unaccounted r)"
  shows "valid_interval iv" "intervals_to_hours [iv] = [r]" "last_hour iv = hr_hour r"
proof -
  have b: "0 \<le> hr_start_min r" "hr_start_min r < hr_end_min r" "hr_end_min r \<le> 60"
    "0 \<le> hr_hour r" "hr_hour r \<le> 23"
    using assms(1) by (auto simp: proper_record_def)
  then show "valid_interval iv" by (simp add: valid_interval_def iv_def)
  have "(hr_hour r * 60 + hr_start_min r) div 60 = hr_hour r"
    "(hr_hour r * 60 + hr_end_min r - 1) div 60 = hr_hour r"
    using b by linarith+
  then show "last_hour iv = hr_hour r" "intervals_to_hours [iv] = [r]"
    using b by (simp_all add: iv_def last_hour_def interval_hours_def hour_of_interval_def)
qed

lemma extend_record:
  assumes v: "valid_interval (itv s e u)" and p: "proper_record r"
    and contiguous: "hr_hour r * 60 + hr_start_min r = e" "hr_unaccounted r = u"
    and later: "last_hour (itv s e u) < hr_hour r"
  defines "iv \<equiv> itv s (hr_hour r * 60 + hr_end_min r) u"
  shows "valid_interval iv" "intervals_to_hours [iv] = intervals_to_hours [itv s e u] @ [r]"
    "last_hour iv = hr_hour r"
proof -
  let ?h = "hr_hour r"
  have b: "0 \<le> hr_start_min r" "hr_start_min r < hr_end_min r" "hr_end_min r \<le> 60" "0 \<le> ?h" "?h \<le> 23"
    using p by (auto simp: proper_record_def)
  have se: "0 \<le> s" "s < e" using v by (auto simp: valid_interval_def)
  have start0: "hr_start_min r = 0" "e = ?h * 60"
    using later contiguous(1) b hour_bounds [of "e - 1"] by (simp_all add: last_hour_def)
  show valid: "valid_interval iv" using b se start0 by (simp add: valid_interval_def iv_def)
  have last: "(?h * 60 + hr_end_min r - 1) div 60 = ?h" using b start0 by linarith
  then show "last_hour iv = hr_hour r" by (simp add: iv_def last_hour_def)
  have prev: "(e - 1) div 60 = ?h - 1" using start0 by linarith
  have first: "s div 60 \<le> ?h" using se start0 by linarith
  have upto: "[s div 60 .. ?h] = [s div 60 .. ?h - 1] @ [?h]" using first by (simp add: upto_rec2)
  have same: "hour_of_interval iv k = hour_of_interval (itv s e u) k" if "k \<le> ?h - 1" for k
    using that start0 b by (simp add: hour_of_interval_def iv_def)
  have new: "hour_of_interval iv ?h = r"
    using start0 b se contiguous(2) by (cases r) (simp add: hour_of_interval_def iv_def)
  have "intervals_to_hours [iv] = map (hour_of_interval iv) [s div 60 .. ?h - 1] @ [r]"
    using last by (simp add: interval_hours_def iv_def [symmetric] upto new) (simp add: iv_def upto new [unfolded iv_def])
  also have "map (hour_of_interval iv) [s div 60 .. ?h - 1] = intervals_to_hours [itv s e u]"
    using prev by (auto simp: interval_hours_def same)
  finally show "intervals_to_hours [iv] = intervals_to_hours [itv s e u] @ [r]" .
qed

lemma reassemble_records:
  assumes "\<forall>r \<in> set rs. proper_record r" "sorted_wrt (\<lambda>a b. hr_hour a < hr_hour b) rs"
    and "valid_interval (itv s e u)" "\<forall>r \<in> set rs. last_hour (itv s e u) < hr_hour r"
  shows "\<exists>ivs. reassemble (Some (s, e, u)) out rs = Inr (out @ ivs) \<and>
     (\<forall>iv \<in> set ivs. valid_interval iv) \<and>
     intervals_to_hours ivs = intervals_to_hours [itv s e u] @ rs"
  using assms
proof (induction rs arbitrary: s e u out)
  case Nil
  then show ?case by (auto simp: mk_interval_valid)
next
  case (Cons r rs)
  let ?a = "hr_hour r * 60 + hr_start_min r" and ?b = "hr_hour r * 60 + hr_end_min r"
  have p: "proper_record r" and ab: "?a < ?b" using Cons.prems(1) by (auto simp: proper_record_def)
  have rs: "\<forall>q \<in> set rs. proper_record q" "sorted_wrt (\<lambda>a b. hr_hour a < hr_hour b) rs"
    "\<forall>q \<in> set rs. hr_hour r < hr_hour q" using Cons.prems by auto
  show ?case
  proof (cases "?a = e \<and> hr_unaccounted r = u")
    case True
    then have c: "?a = e" "hr_unaccounted r = u" by auto
    note ext = extend_record [OF Cons.prems(3) p c]
    have later: "last_hour (itv s e u) < hr_hour r" using Cons.prems(4) by simp
    note ext = extend_record [OF Cons.prems(3) p c later]
    obtain ivs where "reassemble (Some (s, ?b, u)) out rs = Inr (out @ ivs)"
      "\<forall>iv \<in> set ivs. valid_interval iv"
      "intervals_to_hours ivs = intervals_to_hours [itv s ?b u] @ rs"
      using Cons.IH [OF rs(1,2) ext(1), of out] rs(3) ext(3) by auto
    then show ?thesis using True ab ext(2) by (simp add: Let_def)
  next
    case False
    note one = single_record [OF p]
    obtain ivs where ivs: "reassemble (Some (?a, ?b, hr_unaccounted r)) (out @ [itv s e u]) rs
          = Inr ((out @ [itv s e u]) @ ivs)"
      "\<forall>iv \<in> set ivs. valid_interval iv"
      "intervals_to_hours ivs = intervals_to_hours [itv ?a ?b (hr_unaccounted r)] @ rs"
      using Cons.IH [OF rs(1,2) one(1), of "out @ [itv s e u]"] rs(3) one(3) by auto
    have "reassemble (Some (s, e, u)) out (r # rs) = Inr (out @ itv s e u # ivs)"
      using False ab ivs(1) by (auto simp: Let_def mk_interval_valid [OF Cons.prems(3)])
    moreover have "intervals_to_hours (itv s e u # ivs) = intervals_to_hours [itv s e u] @ r # rs"
      using ivs(3) one(2) by simp
    ultimately show ?thesis using ivs(2) Cons.prems(3) by (metis set_ConsD)
  qed
qed

lemma hours_roundtrip:
  assumes "\<forall>r \<in> set rs. proper_record r" "distinct (map hr_hour rs)"
  shows "\<exists>ivs. hours_to_intervals rs = Inr ivs \<and> (\<forall>iv \<in> set ivs. valid_interval iv) \<and>
     intervals_to_hours ivs = sort_key hr_hour rs"
proof -
  let ?s = "sort_key hr_hour rs"
  have "mset (map hr_hour ?s) = mset (map hr_hour rs)" by simp
  then have "distinct (map hr_hour ?s)" using assms(2) by (metis mset_eq_imp_distinct_iff)
  then have "sorted_wrt (<) (map hr_hour ?s)" using sorted_sort_key strict_sorted_iff by blast
  then have s: "sorted_wrt (\<lambda>a b. hr_hour a < hr_hour b) ?s" by (simp add: sorted_wrt_map)
  have p: "\<forall>r \<in> set ?s. proper_record r" using assms(1) by simp
  show ?thesis
  proof (cases ?s)
    case Nil
    then show ?thesis by (simp add: hours_to_intervals_def)
  next
    case (Cons r rest)
    have r: "proper_record r" "\<forall>q \<in> set rest. hr_hour r < hr_hour q" using Cons p s by auto
    note one = single_record [OF r(1)]
    have rest: "\<forall>q \<in> set rest. proper_record q" "sorted_wrt (\<lambda>a b. hr_hour a < hr_hour b) rest"
      using Cons p s by auto
    obtain ivs where "reassemble (Some (hr_hour r * 60 + hr_start_min r, hr_hour r * 60 + hr_end_min r,
          hr_unaccounted r)) [] rest = Inr ([] @ ivs)"
      "\<forall>iv \<in> set ivs. valid_interval iv" "intervals_to_hours ivs = [r] @ rest"
      using reassemble_records [OF rest one(1), of "[]"] r(2) unfolding one(2,3) by blast
    moreover have "hr_start_min r < hr_end_min r" using r(1) by (simp add: proper_record_def)
    ultimately show ?thesis using Cons by (auto simp: hours_to_intervals_def Let_def)
  qed
qed

text \<open>Two neighbours that the reassembly keeps apart: not touching, or touching with another flag.\<close>

definition kept_apart :: "time_interval \<Rightarrow> time_interval \<Rightarrow> bool" where
  "kept_apart a b \<longleftrightarrow> end_min a \<noteq> start_min b \<or> unaccounted a \<noteq> unaccounted b"

lemma reassemble_inner:
  assumes v: "valid_interval iv" and h: "first_hour iv < h"
  shows "reassemble (Some (start_min iv, min (end_min iv) (h * 60), unaccounted iv)) out
      (map (hour_of_interval iv) [h .. last_hour iv] @ rest)
    = reassemble (Some (start_min iv, end_min iv, unaccounted iv)) out rest"
  using h
proof (induction "nat (last_hour iv + 1 - h)" arbitrary: h)
  case 0
  then have "last_hour iv < h" by simp
  then have "end_min iv \<le> h * 60"
    using hour_bounds(2) [of "end_min iv - 1"] by (simp add: last_hour_def)
  with \<open>last_hour iv < h\<close> show ?case by (simp add: min_absorb1)
next
  case (Suc n)
  then have le: "h \<le> last_hour iv" by simp
  then have e: "h * 60 < end_min iv"
    using hour_bounds(1) [of "end_min iv - 1"] by (simp add: last_hour_def)
  have s: "start_min iv < h * 60"
    using Suc.prems hour_bounds(2) [of "start_min iv"] by (simp add: first_hour_def)
  have IH: "reassemble (Some (start_min iv, min (end_min iv) ((h + 1) * 60), unaccounted iv)) out
      (map (hour_of_interval iv) [h + 1 .. last_hour iv] @ rest)
    = reassemble (Some (start_min iv, end_min iv, unaccounted iv)) out rest"
    using Suc.hyps(2) Suc.prems by (intro Suc.hyps(1)) auto
  have "min (end_min iv) (h * 60) = h * 60" using e by simp
  moreover have "h * 60 + min (end_min iv - h * 60) 60 = min (end_min iv) ((h + 1) * 60)" by auto
  moreover have "max (start_min iv - h * 60) 0 = 0" using s by simp
  moreover have "\<not> min (end_min iv) ((h + 1) * 60) \<le> h * 60" using e by simp
  ultimately have "reassemble (Some (start_min iv, min (end_min iv) (h * 60), unaccounted iv)) out
      (hour_of_interval iv h # map (hour_of_interval iv) [h + 1 .. last_hour iv] @ rest)
    = reassemble (Some (start_min iv, min (end_min iv) ((h + 1) * 60), unaccounted iv)) out
        (map (hour_of_interval iv) [h + 1 .. last_hour iv] @ rest)"
    using e by (simp add: hour_of_interval_def Let_def)
  then show ?case using le IH by (simp add: upto_rec1)
qed

lemma first_record:
  assumes v: "valid_interval iv"
  defines "r \<equiv> hour_of_interval iv (first_hour iv)"
  shows "hr_hour r * 60 + hr_start_min r = start_min iv"
    and "hr_hour r * 60 + hr_end_min r = min (end_min iv) ((first_hour iv + 1) * 60)"
    and "start_min iv < hr_hour r * 60 + hr_end_min r"
    and "interval_hours iv = first_hour iv # [first_hour iv + 1 .. last_hour iv]"
proof -
  have b: "60 * first_hour iv \<le> start_min iv" "start_min iv < 60 * first_hour iv + 60"
    using hour_bounds [of "start_min iv"] by (simp_all add: first_hour_def)
  show "hr_hour r * 60 + hr_start_min r = start_min iv"
    and e: "hr_hour r * 60 + hr_end_min r = min (end_min iv) ((first_hour iv + 1) * 60)"
    using b by (auto simp: r_def hour_of_interval_def Let_def)
  show "start_min iv < hr_hour r * 60 + hr_end_min r"
    unfolding e using b v by (simp add: valid_interval_def)
  show "interval_hours iv = first_hour iv # [first_hour iv + 1 .. last_hour iv]"
    using first_le_last [OF v] by (simp add: interval_hours_upto upto_rec1)
qed

lemma reassemble_interval:
  assumes "valid_interval iv" "valid_interval p" "kept_apart p iv"
  shows "reassemble (Some (start_min p, end_min p, unaccounted p)) out (intervals_to_hours [iv] @ rest)
    = reassemble (Some (start_min iv, end_min iv, unaccounted iv)) (out @ [p]) rest"
    and "reassemble None out (intervals_to_hours [iv] @ rest)
    = reassemble (Some (start_min iv, end_min iv, unaccounted iv)) out rest"
proof -
  let ?r = "hour_of_interval iv (first_hour iv)"
  let ?m = "map (hour_of_interval iv) [first_hour iv + 1 .. last_hour iv]"
  note fr = first_record [OF assms(1)]
  have inner: "reassemble (Some (start_min iv, hr_hour ?r * 60 + hr_end_min ?r, unaccounted iv)) o' (?m @ rest)
      = reassemble (Some (start_min iv, end_min iv, unaccounted iv)) o' rest" for o'
    unfolding fr(2) by (rule reassemble_inner [OF assms(1)]) simp
  have hrs: "intervals_to_hours [iv] @ rest = ?r # (?m @ rest)" by (simp add: fr(4))
  have mkp: "mk_interval (start_min p) (end_min p) (unaccounted p) = Inr p"
    using assms(2) by (simp add: mk_interval_def valid_interval_def)
  have n: "\<not> hr_hour ?r * 60 + hr_end_min ?r \<le> start_min iv" using fr(3) by linarith
  have k: "\<not> (start_min iv = end_min p \<and> unaccounted iv = unaccounted p)"
    using assms(3) by (auto simp: kept_apart_def)
  show "reassemble (Some (start_min p, end_min p, unaccounted p)) out (intervals_to_hours [iv] @ rest)
    = reassemble (Some (start_min iv, end_min iv, unaccounted iv)) (out @ [p]) rest"
    unfolding hrs reassemble.simps(2) Let_def fr(1) hour_of_interval_hour(2)
    by (simp only: n k if_False option.case prod.case mkp rbind_simps inner)
  show "reassemble None out (intervals_to_hours [iv] @ rest)
    = reassemble (Some (start_min iv, end_min iv, unaccounted iv)) out rest"
    unfolding hrs reassemble.simps(2) Let_def fr(1) hour_of_interval_hour(2)
    by (simp only: n if_False option.case inner)
qed

lemma reassemble_intervals:
  assumes "\<forall>iv \<in> set (p # ivs). valid_interval iv" "successively kept_apart (p # ivs)"
  shows "reassemble (Some (start_min p, end_min p, unaccounted p)) out (intervals_to_hours ivs)
    = Inr (out @ p # ivs)"
  using assms
proof (induction ivs arbitrary: p out)
  case Nil
  then show ?case by (simp add: mk_interval_def valid_interval_def)
next
  case (Cons iv ivs)
  then show ?case
    using reassemble_interval(1) [of iv p out "intervals_to_hours ivs"] Cons.IH [of iv "out @ [p]"]
    by simp
qed

lemma intervals_roundtrip:
  assumes v: "\<forall>iv \<in> set ivs. valid_interval iv" and ok: "validate_intervals ivs = None"
    and apart: "successively kept_apart (sort_key start_min ivs)"
  shows "hours_to_intervals (intervals_to_hours ivs) = Inr (sort_key start_min ivs)"
proof -
  let ?s = "sort_key start_min ivs"
  have vs: "\<forall>iv \<in> set ?s. valid_interval iv" using v by simp
  have "successively hours_apart ?s" using ok by (simp add: validate_intervals_def check_pairs_None)
  then have hs: "sorted (map hr_hour (intervals_to_hours ?s))" "distinct (map hr_hour (intervals_to_hours ?s))"
    using sorted_wrt_hours_distinct [OF vs] successively_hours_apart [OF vs]
    by (auto simp: hours_of_intervals)
  have "mset (intervals_to_hours ?s) = mset (intervals_to_hours ivs)"
    unfolding intervals_to_hours_def by (rule mset_concat_map) simp
  then have sorted: "sort_key hr_hour (intervals_to_hours ivs) = intervals_to_hours ?s"
    using hs by (rule sort_key_unique)
  show ?thesis
  proof (cases ?s)
    case Nil
    then show ?thesis by (simp add: hours_to_intervals_def sorted)
  next
    case (Cons iv rest)
    have "reassemble None [] (intervals_to_hours [iv] @ intervals_to_hours rest)
        = reassemble (Some (start_min iv, end_min iv, unaccounted iv)) [] (intervals_to_hours rest)"
      using vs Cons
      by (intro reassemble_interval(2) [where p = "itv 0 1 (\<not> unaccounted iv)"])
        (auto simp: valid_interval_def kept_apart_def)
    also have "\<dots> = Inr ([] @ iv # rest)"
      using vs apart Cons by (intro reassemble_intervals) auto
    finally show ?thesis by (simp add: hours_to_intervals_def sorted Cons)
  qed
qed

subsection \<open>The DBUS dictionary\<close>

lemma digit_inject:
  assumes "0 \<le> a" "a < 10" "0 \<le> b" "b < 10" "digit a = digit b"
  shows "a = b"
proof -
  have "distinct ''0123456789''" by simp
  then have "nat a = nat b"
    using assms by (intro iffD1 [OF nth_eq_iff_index_eq]) (simp_all add: digit_def)
  then show ?thesis using assms by simp
qed

lemma decimal_snoc: "decimal n = (if n < 10 then [] else decimal (n div 10)) @ [digit (int (n mod 10))]"
  by (simp add: decimal.simps [of n])

lemma decimal_nonempty [simp]: "decimal n \<noteq> []"
  by (simp add: decimal_snoc)

lemma decimal_inject: "decimal a = decimal b \<Longrightarrow> a = b"
proof (induction a arbitrary: b rule: less_induct)
  case (less a)
  from less.prems have eq: "(if a < 10 then [] else decimal (a div 10)) = (if b < 10 then [] else decimal (b div 10))"
    and "digit (int (a mod 10)) = digit (int (b mod 10))"
    by (simp_all add: decimal_snoc [of a] decimal_snoc [of b])
  then have m: "a mod 10 = b mod 10"
    using digit_inject [of "int (a mod 10)" "int (b mod 10)"] by simp
  have "a div 10 = b div 10"
  proof (cases "a < 10")
    case True
    then have "b < 10" using eq decimal_nonempty [of "b div 10"] by (metis (full_types))
    then show ?thesis using True by simp
  next
    case False
    then have "decimal (a div 10) = decimal (b div 10)" using eq by (auto split: if_splits)
    then show ?thesis using less.IH [of "a div 10"] False by simp
  qed
  with m show ?case by (metis mult_div_mod_eq)
qed

lemma str_of_int_inject: "0 \<le> a \<Longrightarrow> 0 \<le> b \<Longrightarrow> str_of_int a = str_of_int b \<Longrightarrow> a = b"
  by (auto simp: str_of_int_def dest: decimal_inject)

definition payload_entry :: "hour_record \<Rightarrow> string \<times> int \<times> int \<times> bool" where
  "payload_entry r = (str_of_int (hr_hour r), hr_start_min r, hr_end_min r, hr_unaccounted r)"

lemma dict_set_new: "k \<notin> set (map fst d) \<Longrightarrow> dict_set d k v = d @ [(k, v)]"
  by (induction d k v rule: dict_set.induct) auto

lemma payload_entries:
  assumes "\<forall>r \<in> set rs. 0 \<le> hr_hour r" "distinct (map hr_hour rs)"
  shows "hours_to_dbus_payload rs = map payload_entry rs"
proof -
  have "foldl (\<lambda>d r. dict_set d (str_of_int (hr_hour r))
              (hr_start_min r, hr_end_min r, hr_unaccounted r)) (map payload_entry ps) rs
        = map payload_entry (ps @ rs)"
    if "\<forall>r \<in> set (ps @ rs). 0 \<le> hr_hour r" "distinct (map hr_hour (ps @ rs))" for ps
    using that
  proof (induction rs arbitrary: ps)
    case (Cons r rs)
    have "str_of_int (hr_hour r) \<notin> set (map fst (map payload_entry ps))"
    proof
      assume "str_of_int (hr_hour r) \<in> set (map fst (map payload_entry ps))"
      then obtain p where p: "p \<in> set ps" "str_of_int (hr_hour r) = str_of_int (hr_hour p)"
        by (auto simp: payload_entry_def)
      then have "hr_hour r = hr_hour p"
        using Cons.prems(1) by (intro str_of_int_inject) auto
      with p(1) show False using Cons.prems(2) by simp
    qed
    then have "dict_set (map payload_entry ps) (str_of_int (hr_hour r))
        (hr_start_min r, hr_end_min r, hr_unaccounted r) = map payload_entry (ps @ [r])"
      by (simp add: dict_set_new) (simp add: payload_entry_def)
    then show ?case using Cons.IH [of "ps @ [r]"] Cons.prems by simp
  qed simp
  from this [of "[]"] assms show ?thesis by (simp add: hours_to_dbus_payload_def)
qed

subsection \<open>Properties\<close>

text \<open>
  C8. An interval list is accepted exactly when it is representable: the conflict check answers
  None if and only if the expansion puts at most one record in each clock hour, and then the
  dictionary sent over DBUS has one entry per record, in order, none overwritten.
\<close>

theorem validate_iff_representable:
  assumes "\<forall>iv \<in> set ivs. valid_interval iv"
  shows "(validate_intervals ivs = None \<longleftrightarrow> distinct (map hr_hour (intervals_to_hours ivs))) \<and>
    (validate_intervals ivs = None \<longrightarrow>
       hours_to_dbus_payload (intervals_to_hours ivs) = map payload_entry (intervals_to_hours ivs))"
proof -
  have "\<forall>r \<in> set (intervals_to_hours ivs). 0 \<le> hr_hour r"
    using intervals_to_hours_proper [OF assms] by (auto simp: proper_record_def)
  then show ?thesis using validate_distinct [OF assms] payload_entries by blast
qed

theorem validate_iff_representable_witness:
  "validate_intervals [itv 435 540 False, itv 585 870 True] = None \<and>
   distinct (map hr_hour (intervals_to_hours [itv 435 540 False, itv 585 870 True])) \<and>
   hours_to_dbus_payload (intervals_to_hours [itv 435 540 False, itv 585 870 True])
     = map payload_entry (intervals_to_hours [itv 435 540 False, itv 585 870 True]) \<and>
   validate_intervals [itv 435 555 False, itv 545 870 True] \<noteq> None"
  using validate_iff_representable [of "[itv 435 540 False, itv 585 870 True]"]
  by (simp add: valid_interval_def validate_intervals_def)

text \<open>
  C33. The records cover exactly the intervals: a minute of the day lies in some interval with a
  given unaccounted flag if and only if it lies in some record with that flag, and every record
  is a non-empty part of one clock hour 0..23 (what the wire model and timekpr accept).
\<close>

theorem hours_cover_intervals:
  assumes "\<forall>iv \<in> set ivs. valid_interval iv"
  shows "((\<exists>iv \<in> set ivs. m \<in> interval_minutes iv \<and> unaccounted iv = u)
      \<longleftrightarrow> (\<exists>r \<in> set (intervals_to_hours ivs). m \<in> record_minutes r \<and> hr_unaccounted r = u)) \<and>
    (\<forall>r \<in> set (intervals_to_hours ivs). proper_record r)"
proof
  show "\<forall>r \<in> set (intervals_to_hours ivs). proper_record r"
    using intervals_to_hours_proper [OF assms] by blast
  show "(\<exists>iv \<in> set ivs. m \<in> interval_minutes iv \<and> unaccounted iv = u)
      \<longleftrightarrow> (\<exists>r \<in> set (intervals_to_hours ivs). m \<in> record_minutes r \<and> hr_unaccounted r = u)"
    by (induction ivs) (auto simp: interval_minutes_hours)
qed

theorem hours_cover_intervals_witness:
  "\<exists>r \<in> set (intervals_to_hours [itv 585 870 True]).
     600 \<in> record_minutes r \<and> hr_unaccounted r \<and> proper_record r"
  using hours_cover_intervals [of "[itv 585 870 True]" 600 True]
  by (auto simp: valid_interval_def interval_minutes_def)

text \<open>
  C7. The two conversions are inverse to each other on normal forms. Records that the wire model
  accepts, one per clock hour, reassemble without an error into intervals whose expansion is the
  same records in clock order. Intervals that pass the conflict check, and of which no two
  neighbours touch with the same flag, come back unchanged up to their order by start.
\<close>

theorem allowed_hours_roundtrip:
  "(\<forall>r \<in> set rs. proper_record r) \<and> distinct (map hr_hour rs) \<Longrightarrow>
   (\<forall>iv \<in> set ivs. valid_interval iv) \<and> validate_intervals ivs = None \<and>
     successively kept_apart (sort_key start_min ivs) \<Longrightarrow>
   rbind (hours_to_intervals rs) (\<lambda>back. Inr (intervals_to_hours back)) = Inr (sort_key hr_hour rs) \<and>
   hours_to_intervals (intervals_to_hours ivs) = Inr (sort_key start_min ivs)"
  using hours_roundtrip [of rs] intervals_roundtrip [of ivs] by auto

abbreviation hrec :: "int \<Rightarrow> int \<Rightarrow> int \<Rightarrow> hour_record" where
  "hrec h s e \<equiv> \<lparr>hr_hour = h, hr_start_min = s, hr_end_min = e, hr_unaccounted = False\<rparr>"

theorem allowed_hours_roundtrip_witness:
  "rbind (hours_to_intervals [hrec 8 0 60, hrec 7 15 60]) (\<lambda>back. Inr (intervals_to_hours back))
      = Inr (sort_key hr_hour [hrec 8 0 60, hrec 7 15 60]) \<and>
   hours_to_intervals (intervals_to_hours [itv 585 870 True, itv 435 540 False])
      = Inr (sort_key start_min [itv 585 870 True, itv 435 540 False])"
  by (rule allowed_hours_roundtrip)
    (simp_all add: proper_record_def valid_interval_def validate_intervals_def kept_apart_def)

end
