(* ===== verification/Convergence.thy ===== *)
theory Convergence
  imports Prelude
begin

section \<open>The convergence controller\<close>

text \<open>
  Models \<open>core/timekpr_hub_core/convergence.py\<close>: the pure decision of the one \<open>setTimeLeft\<close>
  write per tick and the agent's own cumulative counter. The daemon that receives the write is
  not under the controller: it is the interface \<open>time_left_daemon\<close> (the documented effect of the
  three operations), and the controller's lemmas are proved against it. The theory
  \<open>Fake_Daemon\<close> interprets it on the repository's model of timekpr.
\<close>

datatype op = SET | SUBTRACT | ADD | NOOP

primrec op_value :: "op \<Rightarrow> string" where
  "op_value SET = ''=''"
| "op_value SUBTRACT = ''-''"
| "op_value ADD = ''+''"
| "op_value NOOP = ''noop''"

record convergence_config =
  deadband_s :: seconds
  hard_reset_threshold_s :: seconds
  regression_tolerance_s :: seconds

definition default_config :: convergence_config where
  "default_config = \<lparr>deadband_s = 5, hard_reset_threshold_s = 300, regression_tolerance_s = 90\<rparr>"

record observation =
  obs_balance_s :: seconds
  obs_spent_local_s :: seconds
  obs_limit_today_s :: seconds

record hub_target =
  tgt_limit_today_s :: seconds
  tgt_global_spent_s :: seconds

record plan_result =
  plan_op :: op
  plan_seconds :: seconds
  new_applied_offset_s :: seconds
  plan_reason :: string

definition plan :: "observation \<Rightarrow> hub_target \<Rightarrow> seconds \<Rightarrow> bool \<Rightarrow> convergence_config \<Rightarrow> plan_result" where
  "plan observed target applied_offset_s force_absolute cfg =
     (let observed_offset = obs_balance_s observed - obs_spent_local_s observed;
          target_balance = tgt_global_spent_s target + obs_limit_today_s observed - tgt_limit_today_s target;
          correction = target_balance - obs_balance_s observed;
          needs_absolute = (force_absolute
            \<or> obs_balance_s observed > obs_limit_today_s observed
            \<or> \<bar>correction\<bar> > hard_reset_threshold_s cfg)
      in if needs_absolute then
           \<lparr>plan_op = SET,
            plan_seconds = tgt_limit_today_s target - tgt_global_spent_s target,
            new_applied_offset_s = target_balance - obs_spent_local_s observed,
            plan_reason =
              (if force_absolute then ''force_absolute_rollover''
               else if obs_balance_s observed > obs_limit_today_s observed then ''balance_exceeds_limit''
               else ''large_divergence'')\<rparr>
         else if correction > deadband_s cfg then
           \<lparr>plan_op = SUBTRACT, plan_seconds = correction,
            new_applied_offset_s = observed_offset + correction, plan_reason = ''converge_consume''\<rparr>
         else if correction < - deadband_s cfg then
           \<lparr>plan_op = ADD, plan_seconds = - correction,
            new_applied_offset_s = observed_offset + correction, plan_reason = ''converge_refund''\<rparr>
         else
           \<lparr>plan_op = NOOP, plan_seconds = 0,
            new_applied_offset_s = observed_offset, plan_reason = ''within_deadband''\<rparr>)"

record cumulative_state =
  cum_local_s :: seconds
  raw_prev_s :: seconds

definition advance_cumulative :: "cumulative_state \<Rightarrow> seconds \<Rightarrow> convergence_config \<Rightarrow> cumulative_state" where
  "advance_cumulative state observed_spent_local_s cfg =
     (let prev = raw_prev_s state;
          curr = observed_spent_local_s;
          new_cum =
            (if curr \<ge> prev then cum_local_s state + (curr - prev)
             else let drop = prev - curr
                  in if drop \<le> regression_tolerance_s cfg then cum_local_s state
                     else cum_local_s state + curr)
      in \<lparr>cum_local_s = new_cum, raw_prev_s = curr\<rparr>)"

definition reset_for_new_canonical_day :: "seconds \<Rightarrow> cumulative_state" where
  "reset_for_new_canonical_day observed_spent_local_s =
     \<lparr>cum_local_s = 0, raw_prev_s = observed_spent_local_s\<rparr>"

subsection \<open>The decision, case by case\<close>

definition plan_correction :: "observation \<Rightarrow> hub_target \<Rightarrow> seconds" where
  "plan_correction observed target =
     tgt_global_spent_s target + obs_limit_today_s observed - tgt_limit_today_s target - obs_balance_s observed"

lemma plan_absolute:
  "force \<or> obs_balance_s ob > obs_limit_today_s ob \<or> \<bar>plan_correction ob tg\<bar> > hard_reset_threshold_s cfg
   \<Longrightarrow> plan_op (plan ob tg off force cfg) = SET
     \<and> plan_seconds (plan ob tg off force cfg) = tgt_limit_today_s tg - tgt_global_spent_s tg"
  by (auto simp: plan_def plan_correction_def Let_def)

lemma plan_relative:
  assumes "\<not> force" "obs_balance_s ob \<le> obs_limit_today_s ob"
    "\<bar>plan_correction ob tg\<bar> \<le> hard_reset_threshold_s cfg"
  shows "plan_correction ob tg > deadband_s cfg \<Longrightarrow>
      plan_op (plan ob tg off force cfg) = SUBTRACT \<and>
      plan_seconds (plan ob tg off force cfg) = plan_correction ob tg"
    and "0 \<le> deadband_s cfg \<Longrightarrow> plan_correction ob tg < - deadband_s cfg \<Longrightarrow>
      plan_op (plan ob tg off force cfg) = ADD \<and>
      plan_seconds (plan ob tg off force cfg) = - plan_correction ob tg"
    and "\<bar>plan_correction ob tg\<bar> \<le> deadband_s cfg \<Longrightarrow>
      plan_op (plan ob tg off force cfg) = NOOP"
  using assms by (auto simp: plan_def plan_correction_def Let_def)

lemma plan_cases:
  assumes "0 \<le> deadband_s cfg"
  obtains (absolute) "plan_op (plan ob tg off force cfg) = SET"
      "plan_seconds (plan ob tg off force cfg) = tgt_limit_today_s tg - tgt_global_spent_s tg"
    | (consume) "plan_op (plan ob tg off force cfg) = SUBTRACT"
      "plan_seconds (plan ob tg off force cfg) = plan_correction ob tg"
      "deadband_s cfg < plan_correction ob tg" "obs_balance_s ob \<le> obs_limit_today_s ob"
    | (refund) "plan_op (plan ob tg off force cfg) = ADD"
      "plan_seconds (plan ob tg off force cfg) = - plan_correction ob tg"
      "plan_correction ob tg < - deadband_s cfg" "obs_balance_s ob \<le> obs_limit_today_s ob"
    | (noop) "plan_op (plan ob tg off force cfg) = NOOP"
      "\<bar>plan_correction ob tg\<bar> \<le> deadband_s cfg" "obs_balance_s ob \<le> obs_limit_today_s ob"
proof (cases "force \<or> obs_balance_s ob > obs_limit_today_s ob
    \<or> \<bar>plan_correction ob tg\<bar> > hard_reset_threshold_s cfg")
  case True
  then show ?thesis using plan_absolute absolute by blast
next
  case False
  then have f: "\<not> force" "obs_balance_s ob \<le> obs_limit_today_s ob"
    "\<bar>plan_correction ob tg\<bar> \<le> hard_reset_threshold_s cfg" by auto
  consider "deadband_s cfg < plan_correction ob tg" | "plan_correction ob tg < - deadband_s cfg"
    | "\<bar>plan_correction ob tg\<bar> \<le> deadband_s cfg" by linarith
  then show ?thesis
    using plan_relative [OF f] assms f(2) consume refund noop by cases blast+
qed

lemma plan_offset:
  "new_applied_offset_s (plan ob tg off force cfg) =
     (if plan_op (plan ob tg off force cfg) = NOOP then obs_balance_s ob - obs_spent_local_s ob
      else obs_balance_s ob + plan_correction ob tg - obs_spent_local_s ob)"
  by (simp add: plan_def plan_correction_def Let_def)

subsection \<open>The daemon as an interface\<close>

text \<open>
  What the controller relies on of a timekpr daemon: the balance after each operation when the
  result is within the clamp, an unchanged limit, and a spent counter that a relative write leaves
  alone and an absolute write may set back by less than \<open>flush_loss\<close>.
\<close>

definition clamp_bound :: seconds where
  "clamp_bound = 86400"

locale time_left_daemon =
  fixes balance spent limit :: "'d \<Rightarrow> seconds"
    and set_time :: "op \<Rightarrow> seconds \<Rightarrow> 'd \<Rightarrow> 'd"
    and ok :: "'d \<Rightarrow> bool"
    and flush_loss :: "'d \<Rightarrow> seconds"
  assumes write_noop: "set_time NOOP s d = d"
    and limit_write: "limit (set_time p s d) = limit d"
    and ok_write: "ok d \<Longrightarrow> ok (set_time p s d)"
    and balance_set: "\<bar>limit d - s\<bar> \<le> clamp_bound \<Longrightarrow> balance (set_time SET s d) = limit d - s"
    and balance_subtract: "balance d \<le> limit d \<Longrightarrow> \<bar>balance d + s\<bar> \<le> clamp_bound
      \<Longrightarrow> balance (set_time SUBTRACT s d) = balance d + s"
    and balance_add: "balance d \<le> limit d \<Longrightarrow> \<bar>balance d - s\<bar> \<le> clamp_bound
      \<Longrightarrow> balance (set_time ADD s d) = balance d - s"
    and spent_relative: "p \<noteq> SET \<Longrightarrow> spent (set_time p s d) = spent d"
    and spent_set: "ok d \<Longrightarrow> spent (set_time SET s d) \<le> spent d
      \<and> spent d - spent (set_time SET s d) < flush_loss d"
begin

definition observe :: "'d \<Rightarrow> observation" where
  "observe d = \<lparr>obs_balance_s = balance d, obs_spent_local_s = spent d, obs_limit_today_s = limit d\<rparr>"

definition planned :: "'d \<Rightarrow> hub_target \<Rightarrow> seconds \<Rightarrow> bool \<Rightarrow> convergence_config \<Rightarrow> 'd" where
  "planned d tg off force cfg =
     (let p = plan (observe d) tg off force cfg in set_time (plan_op p) (plan_seconds p) d)"

definition in_range :: "'d \<Rightarrow> hub_target \<Rightarrow> bool" where
  "in_range d tg \<longleftrightarrow> \<bar>tgt_global_spent_s tg + limit d - tgt_limit_today_s tg\<bar> \<le> clamp_bound"

lemma correction_observe:
  "plan_correction (observe d) tg
     = tgt_global_spent_s tg + limit d - tgt_limit_today_s tg - balance d"
  by (simp add: plan_correction_def observe_def)

lemma planned_balance:
  assumes "0 \<le> deadband_s cfg" "in_range d tg"
  shows "balance (planned d tg off force cfg) =
     (if plan_op (plan (observe d) tg off force cfg) = NOOP then balance d
      else tgt_global_spent_s tg + limit d - tgt_limit_today_s tg)"
  using assms(1)
proof (cases rule: plan_cases [of cfg "observe d" tg off force])
  case absolute
  have "\<bar>limit d - (tgt_limit_today_s tg - tgt_global_spent_s tg)\<bar> \<le> clamp_bound"
    using assms(2) unfolding in_range_def by linarith
  then show ?thesis using absolute by (simp add: planned_def balance_set)
next
  case consume
  have "\<bar>balance d + plan_correction (observe d) tg\<bar> \<le> clamp_bound"
    using assms(2) unfolding in_range_def correction_observe by linarith
  then show ?thesis
    using consume by (simp add: planned_def observe_def balance_subtract)
      (simp add: plan_correction_def)
next
  case refund
  have "\<bar>balance d - (- plan_correction (observe d) tg)\<bar> \<le> clamp_bound"
    using assms(2) unfolding in_range_def correction_observe by linarith
  then have "balance (set_time ADD (- plan_correction (observe d) tg) d)
      = balance d - (- plan_correction (observe d) tg)"
    using refund by (intro balance_add) (simp_all add: observe_def)
  then show ?thesis using refund by (simp add: planned_def correction_observe)
next
  case noop
  then show ?thesis by (simp add: planned_def write_noop)
qed

text \<open>After the write, the time left on the device is the hub's L_eff - G up to the deadband.\<close>

lemma time_left_converges:
  assumes "0 \<le> deadband_s cfg" "in_range d tg"
  shows "\<bar>(limit (planned d tg off force cfg) - balance (planned d tg off force cfg))
      - (tgt_limit_today_s tg - tgt_global_spent_s tg)\<bar> \<le> deadband_s cfg"
proof -
  have l: "limit (planned d tg off force cfg) = limit d" by (simp add: planned_def limit_write Let_def)
  show ?thesis using assms(1)
  proof (cases rule: plan_cases [of cfg "observe d" tg off force])
    case noop
    then have "\<bar>plan_correction (observe d) tg\<bar> \<le> deadband_s cfg" by simp
    then show ?thesis
      unfolding l planned_balance [OF assms] noop(1) correction_observe by simp
  qed (simp_all add: l planned_balance [OF assms] assms(1))
qed

text \<open>Planning again from the state the write leaves is a NOOP, as long as the user is within the limit.\<close>

lemma replan_noop:
  assumes "0 \<le> deadband_s cfg" "deadband_s cfg \<le> hard_reset_threshold_s cfg" "in_range d tg"
    and within: "tgt_global_spent_s tg + deadband_s cfg \<le> tgt_limit_today_s tg \<or>
      (plan_op (plan (observe d) tg off force cfg) \<noteq> NOOP \<and> tgt_global_spent_s tg \<le> tgt_limit_today_s tg)"
  shows "plan_op (plan (observe (planned d tg off force cfg)) tg off' False cfg) = NOOP"
proof -
  let ?d = "planned d tg off force cfg"
  have l: "limit ?d = limit d" by (simp add: planned_def limit_write Let_def)
  have t: "\<bar>(limit ?d - balance ?d) - (tgt_limit_today_s tg - tgt_global_spent_s tg)\<bar> \<le> deadband_s cfg"
    by (rule time_left_converges [OF assms(1,3)])
  then have c: "\<bar>plan_correction (observe ?d) tg\<bar> \<le> deadband_s cfg"
    unfolding correction_observe by linarith
  have "balance ?d \<le> limit ?d"
  proof (cases "plan_op (plan (observe d) tg off force cfg) = NOOP")
    case True
    then show ?thesis using within t by linarith
  next
    case False
    then have "balance ?d = tgt_global_spent_s tg + limit d - tgt_limit_today_s tg"
      using planned_balance [OF assms(1,3)] by simp
    then show ?thesis using within assms(1) l by linarith
  qed
  then show ?thesis
    using c assms(2) by (intro plan_relative(3)) (auto simp: observe_def)
qed

text \<open>The remembered offset is the device's real offset, up to what an absolute write loses.\<close>

lemma remembered_offset:
  fixes off :: seconds and force :: bool
  assumes "0 \<le> deadband_s cfg" "in_range d tg" "ok d"
  defines "d' \<equiv> planned d tg off force cfg" and "p \<equiv> plan (observe d) tg off force cfg"
  shows "plan_op p \<noteq> SET \<Longrightarrow> new_applied_offset_s p = balance d' - spent d'"
    and "plan_op p = SET \<Longrightarrow> new_applied_offset_s p \<le> balance d' - spent d' \<and>
      balance d' - spent d' < new_applied_offset_s p + flush_loss d"
proof -
  have off: "new_applied_offset_s p = (if plan_op p = NOOP then balance d - spent d
      else tgt_global_spent_s tg + limit d - tgt_limit_today_s tg - spent d)"
    unfolding p_def plan_offset correction_observe by (simp add: observe_def)
  have bal: "balance d' = (if plan_op p = NOOP then balance d
      else tgt_global_spent_s tg + limit d - tgt_limit_today_s tg)"
    unfolding d'_def p_def by (rule planned_balance [OF assms(1,2)])
  have sp: "spent d' = spent (set_time (plan_op p) (plan_seconds p) d)"
    by (simp add: d'_def p_def planned_def Let_def)
  show "plan_op p \<noteq> SET \<Longrightarrow> new_applied_offset_s p = balance d' - spent d'"
    unfolding off bal sp by (simp add: spent_relative)
  show "plan_op p = SET \<Longrightarrow> new_applied_offset_s p \<le> balance d' - spent d' \<and>
      balance d' - spent d' < new_applied_offset_s p + flush_loss d"
    unfolding off bal sp using spent_set [OF assms(3), of "plan_seconds p"] by simp
qed

end

subsection \<open>The cumulative counter\<close>

lemma advance_cumulative_simps:
  "now \<ge> raw_prev_s st \<Longrightarrow> cum_local_s (advance_cumulative st now cfg) = cum_local_s st + (now - raw_prev_s st)"
  "now < raw_prev_s st \<Longrightarrow> raw_prev_s st - now \<le> regression_tolerance_s cfg
     \<Longrightarrow> cum_local_s (advance_cumulative st now cfg) = cum_local_s st"
  "now < raw_prev_s st \<Longrightarrow> regression_tolerance_s cfg < raw_prev_s st - now
     \<Longrightarrow> cum_local_s (advance_cumulative st now cfg) = cum_local_s st + now"
  "raw_prev_s (advance_cumulative st now cfg) = now"
  by (simp_all add: advance_cumulative_def Let_def)

lemma advance_cumulative_mono:
  "0 \<le> now \<Longrightarrow> cum_local_s st \<le> cum_local_s (advance_cumulative st now cfg)"
  by (simp add: advance_cumulative_def Let_def)

end
