(* ===== verification/Fake_Daemon.thy ===== *)
theory Fake_Daemon
  imports Convergence
begin

section \<open>The repository's model of timekpr\<close>

text \<open>
  Models \<open>tests/fakes/fake_timekpr.py\<close>, the accounting model of \<open>timekprd\<close> that the repository
  tests its controller against, interprets the interface \<open>time_left_daemon\<close> on it and states the
  controller's properties on the pair: one write per tick reaches the hub's time left, planning
  again is quiet, the remembered offset is the real one, and the cumulative counter never counts
  a second of activity twice, whatever writes, flushes and midnights come between observations.
\<close>

definition TK_LIMIT_PER_DAY :: seconds where
  "TK_LIMIT_PER_DAY = 86400"

definition DEFAULT_SAVE_INTERVAL_S :: seconds where
  "DEFAULT_SAVE_INTERVAL_S = 30"

record fake_daemon =
  fd_limit_today_s :: seconds
  fd_save_interval_s :: seconds
  fd_balance_s :: seconds
  fd_spent_day_s :: seconds
  fd_spent_week_s :: seconds
  fd_spent_month_s :: seconds
  fd_saved_spent_day_s :: seconds
  fd_saved_spent_week_s :: seconds
  fd_saved_spent_month_s :: seconds
  fd_elapsed_since_save_s :: seconds

definition fresh_daemon :: fake_daemon where
  "fresh_daemon = \<lparr>fd_limit_today_s = TK_LIMIT_PER_DAY, fd_save_interval_s = DEFAULT_SAVE_INTERVAL_S,
     fd_balance_s = 0, fd_spent_day_s = 0, fd_spent_week_s = 0, fd_spent_month_s = 0,
     fd_saved_spent_day_s = 0, fd_saved_spent_week_s = 0, fd_saved_spent_month_s = 0,
     fd_elapsed_since_save_s = 0\<rparr>"

definition daemon_flush :: "fake_daemon \<Rightarrow> fake_daemon" where
  "daemon_flush d = d\<lparr>fd_saved_spent_day_s := fd_spent_day_s d, fd_saved_spent_week_s := fd_spent_week_s d,
     fd_saved_spent_month_s := fd_spent_month_s d, fd_elapsed_since_save_s := 0\<rparr>"

definition daemon_tick :: "seconds \<Rightarrow> bool \<Rightarrow> fake_daemon \<Rightarrow> fake_daemon result" where
  "daemon_tick secs active d =
     (if secs < 0 then Inl ValueError
      else let d = (if active then d\<lparr>fd_balance_s := fd_balance_s d + secs,
                       fd_spent_day_s := fd_spent_day_s d + secs,
                       fd_spent_week_s := fd_spent_week_s d + secs,
                       fd_spent_month_s := fd_spent_month_s d + secs\<rparr> else d);
               d = d\<lparr>fd_elapsed_since_save_s := fd_elapsed_since_save_s d + secs\<rparr>
           in if fd_elapsed_since_save_s d \<ge> fd_save_interval_s d then Inr (daemon_flush d) else Inr d)"

definition clamp_balance :: "fake_daemon \<Rightarrow> fake_daemon" where
  "clamp_balance d =
     d\<lparr>fd_balance_s := max (min (fd_balance_s d) TK_LIMIT_PER_DAY) (- TK_LIMIT_PER_DAY)\<rparr>"

definition set_time_left :: "string \<Rightarrow> seconds \<Rightarrow> fake_daemon \<Rightarrow> fake_daemon result" where
  "set_time_left opv secs d =
     rbind
       (if opv = ''='' then
          Inr (d\<lparr>fd_balance_s := fd_limit_today_s d - secs,
            fd_spent_day_s := fd_saved_spent_day_s d, fd_spent_week_s := fd_saved_spent_week_s d,
            fd_spent_month_s := fd_saved_spent_month_s d\<rparr>)
        else if opv = ''-'' then
          Inr (d\<lparr>fd_balance_s := min (fd_balance_s d) (fd_limit_today_s d) + secs\<rparr>)
        else if opv = ''+'' then
          Inr (d\<lparr>fd_balance_s := min (fd_balance_s d) (fd_limit_today_s d) - secs\<rparr>)
        else Inl ValueError)
       (\<lambda>d. Inr (daemon_flush (clamp_balance d)))"

definition rollover_day :: "seconds option \<Rightarrow> fake_daemon \<Rightarrow> fake_daemon" where
  "rollover_day new_limit d =
     daemon_flush (d\<lparr>fd_balance_s := 0, fd_spent_day_s := 0,
       fd_limit_today_s := (case new_limit of None \<Rightarrow> fd_limit_today_s d | Some l \<Rightarrow> l)\<rparr>)"

definition rollover_week :: "fake_daemon \<Rightarrow> fake_daemon" where
  "rollover_week d = daemon_flush (d\<lparr>fd_spent_week_s := 0\<rparr>)"

definition rollover_month :: "fake_daemon \<Rightarrow> fake_daemon" where
  "rollover_month d = daemon_flush (d\<lparr>fd_spent_month_s := 0\<rparr>)"

subsection \<open>The invariant of the daemon and the interpretation\<close>

text \<open>What is on disk is at most the seconds since the last save behind what is in memory.\<close>

definition daemon_ok :: "fake_daemon \<Rightarrow> bool" where
  "daemon_ok d \<longleftrightarrow> 0 < fd_save_interval_s d \<and>
     0 \<le> fd_elapsed_since_save_s d \<and> fd_elapsed_since_save_s d < fd_save_interval_s d \<and>
     0 \<le> fd_saved_spent_day_s d \<and> fd_saved_spent_day_s d \<le> fd_spent_day_s d \<and>
     fd_spent_day_s d \<le> fd_saved_spent_day_s d + fd_elapsed_since_save_s d"

definition apply_op :: "op \<Rightarrow> seconds \<Rightarrow> fake_daemon \<Rightarrow> fake_daemon" where
  "apply_op p secs d =
     (if p = NOOP then d
      else case set_time_left (op_value p) secs d of Inl _ \<Rightarrow> d | Inr d' \<Rightarrow> d')"

lemma apply_op_simps:
  "apply_op NOOP s d = d"
  "apply_op SET s d = daemon_flush (clamp_balance (d\<lparr>fd_balance_s := fd_limit_today_s d - s,
     fd_spent_day_s := fd_saved_spent_day_s d, fd_spent_week_s := fd_saved_spent_week_s d,
     fd_spent_month_s := fd_saved_spent_month_s d\<rparr>))"
  "apply_op SUBTRACT s d
     = daemon_flush (clamp_balance (d\<lparr>fd_balance_s := min (fd_balance_s d) (fd_limit_today_s d) + s\<rparr>))"
  "apply_op ADD s d
     = daemon_flush (clamp_balance (d\<lparr>fd_balance_s := min (fd_balance_s d) (fd_limit_today_s d) - s\<rparr>))"
  by (simp_all add: apply_op_def set_time_left_def)

lemmas daemon_defs = daemon_flush_def clamp_balance_def TK_LIMIT_PER_DAY_def clamp_bound_def

lemma daemon_tick_ok:
  "daemon_ok d \<Longrightarrow> daemon_tick s active d = Inr d' \<Longrightarrow> daemon_ok d'"
  by (auto simp: daemon_tick_def daemon_ok_def daemon_flush_def Let_def split: if_splits)

lemma daemon_tick_spent:
  "daemon_tick s active d = Inr d' \<Longrightarrow>
   0 \<le> s \<and> fd_spent_day_s d' = fd_spent_day_s d + (if active then s else 0) \<and>
   fd_save_interval_s d' = fd_save_interval_s d \<and>
   fd_saved_spent_day_s d' \<in> {fd_saved_spent_day_s d, fd_spent_day_s d'}"
  by (auto simp: daemon_tick_def daemon_flush_def Let_def split: if_splits)

lemma apply_op_ok: "daemon_ok d \<Longrightarrow> daemon_ok (apply_op p s d)"
  by (cases p) (auto simp: apply_op_simps daemon_ok_def daemon_defs)

interpretation fd: time_left_daemon fd_balance_s fd_spent_day_s fd_limit_today_s apply_op daemon_ok
  fd_save_interval_s
proof
  show "fd_limit_today_s (apply_op p s d) = fd_limit_today_s d" for p s d
    by (cases p) (simp_all add: apply_op_simps daemon_defs)
  show "p \<noteq> SET \<Longrightarrow> fd_spent_day_s (apply_op p s d) = fd_spent_day_s d" for p s d
    by (cases p) (simp_all add: apply_op_simps daemon_defs)
  show "daemon_ok d \<Longrightarrow> daemon_ok (apply_op p s d)" for p s d by (rule apply_op_ok)
  show "daemon_ok d \<Longrightarrow> fd_spent_day_s (apply_op SET s d) \<le> fd_spent_day_s d \<and>
      fd_spent_day_s d - fd_spent_day_s (apply_op SET s d) < fd_save_interval_s d" for s d
    by (simp add: apply_op_simps daemon_defs daemon_ok_def)
qed (simp_all add: apply_op_simps daemon_defs)

text \<open>One convergence step of the agent against the daemon.\<close>

definition observe_daemon :: "fake_daemon \<Rightarrow> observation" where
  "observe_daemon d = \<lparr>obs_balance_s = fd_balance_s d, obs_spent_local_s = fd_spent_day_s d,
     obs_limit_today_s = fd_limit_today_s d\<rparr>"

definition converge :: "fake_daemon \<Rightarrow> hub_target \<Rightarrow> seconds \<Rightarrow> bool \<Rightarrow> convergence_config \<Rightarrow> fake_daemon" where
  "converge d tg off force cfg =
     (let p = plan (observe_daemon d) tg off force cfg in apply_op (plan_op p) (plan_seconds p) d)"

definition time_left :: "fake_daemon \<Rightarrow> seconds" where
  "time_left d = fd_limit_today_s d - fd_balance_s d"

lemma fd_observe: "fd.observe d = observe_daemon d"
  by (simp add: fd.observe_def observe_daemon_def)

lemma fd_planned: "fd.planned d tg off force cfg = converge d tg off force cfg"
  by (simp add: fd.planned_def converge_def fd_observe)

definition reachable_target :: "fake_daemon \<Rightarrow> hub_target \<Rightarrow> bool" where
  "reachable_target d tg \<longleftrightarrow>
     \<bar>tgt_global_spent_s tg + fd_limit_today_s d - tgt_limit_today_s tg\<bar> \<le> TK_LIMIT_PER_DAY"

lemma fd_in_range: "fd.in_range d tg = reachable_target d tg"
  by (simp add: fd.in_range_def reachable_target_def clamp_bound_def TK_LIMIT_PER_DAY_def)

lemmas fd_facts = fd.time_left_converges [unfolded fd_planned fd_in_range]
  fd.planned_balance [unfolded fd_planned fd_in_range fd_observe]
  fd.replan_noop [unfolded fd_planned fd_in_range fd_observe]
  fd.remembered_offset [unfolded fd_planned fd_in_range fd_observe]

lemma converge_limit: "fd_limit_today_s (converge d tg off force cfg) = fd_limit_today_s d"
  by (simp add: converge_def Let_def fd.limit_write)

lemma converge_time_left:
  assumes "0 \<le> deadband_s cfg" "reachable_target d tg"
  shows "\<bar>time_left (converge d tg off force cfg) - (tgt_limit_today_s tg - tgt_global_spent_s tg)\<bar> \<le> deadband_s cfg"
  using fd_facts(1) [OF assms] by (simp add: time_left_def converge_limit)

subsection \<open>Properties of the controller\<close>

text \<open>
  One write per tick reaches the hub's intent whatever limit the device has: after the planned
  write the time left on the device is L_eff - G exactly when a write was made, and within the
  deadband of it when none was, for every target within the daemon's clamp.
\<close>

theorem one_write_converges:
  assumes "0 \<le> deadband_s cfg" "reachable_target d tg"
  shows "\<bar>time_left (converge d tg off force cfg) - (tgt_limit_today_s tg - tgt_global_spent_s tg)\<bar>
      \<le> deadband_s cfg \<and>
    (plan_op (plan (observe_daemon d) tg off force cfg) = NOOP \<or>
      time_left (converge d tg off force cfg) = tgt_limit_today_s tg - tgt_global_spent_s tg)"
  using converge_time_left [OF assms, of off force] fd_facts(2) [OF assms, of off force] assms(1)
  by (auto simp: time_left_def converge_limit)

theorem one_write_converges_witness:
  "let d = fresh_daemon\<lparr>fd_balance_s := 400, fd_limit_today_s := 7200\<rparr>;
       tg = \<lparr>tgt_limit_today_s = 9000, tgt_global_spent_s = 2500\<rparr>
   in \<bar>time_left (converge d tg 0 False default_config) - 6500\<bar> \<le> 5 \<and>
      time_left (converge d tg 0 False default_config) = 6500"
proof -
  define d where "d = fresh_daemon\<lparr>fd_balance_s := 400, fd_limit_today_s := 7200\<rparr>"
  define tg where "tg = \<lparr>tgt_limit_today_s = 9000, tgt_global_spent_s = 2500\<rparr>"
  have "plan_op (plan (observe_daemon d) tg 0 False default_config) \<noteq> NOOP"
    by (simp add: plan_def observe_daemon_def d_def tg_def default_config_def Let_def)
  moreover have "0 \<le> deadband_s default_config" "reachable_target d tg"
    by (simp_all add: default_config_def reachable_target_def d_def tg_def TK_LIMIT_PER_DAY_def)
  note one_write_converges [OF this, of 0 False]
  ultimately show ?thesis
    unfolding Let_def d_def [symmetric] tg_def [symmetric] by (simp add: tg_def default_config_def)
qed

text \<open>
  The controller settles: once the write is made, planning again for the same target is a NOOP
  as long as the user has more than the deadband left; a user who is past the limit by more than
  the deadband is held there by an absolute write of the same amount on every tick.
\<close>

theorem replan_settles:
  fixes off off' :: seconds and force :: bool
  assumes "0 \<le> deadband_s cfg \<and> deadband_s cfg \<le> hard_reset_threshold_s cfg" "reachable_target d tg"
  defines "again \<equiv> plan (observe_daemon (converge d tg off force cfg)) tg off' False cfg"
  shows "(tgt_global_spent_s tg + deadband_s cfg \<le> tgt_limit_today_s tg \<longrightarrow> plan_op again = NOOP) \<and>
    (tgt_limit_today_s tg + deadband_s cfg < tgt_global_spent_s tg \<longrightarrow>
       plan_op again = SET \<and> plan_seconds again = tgt_limit_today_s tg - tgt_global_spent_s tg)"
proof (intro conjI impI)
  have c: "0 \<le> deadband_s cfg" "deadband_s cfg \<le> hard_reset_threshold_s cfg" using assms(1) by auto
  show "plan_op again = NOOP" if "tgt_global_spent_s tg + deadband_s cfg \<le> tgt_limit_today_s tg"
    unfolding again_def using fd_facts(3) [OF c assms(2)] that by blast
  assume "tgt_limit_today_s tg + deadband_s cfg < tgt_global_spent_s tg"
  then have "fd_limit_today_s d < fd_balance_s (converge d tg off force cfg)"
    using fd_facts(1) [OF c(1) assms(2), of off force] by (simp add: converge_limit)
  then have "obs_limit_today_s (observe_daemon (converge d tg off force cfg))
      < obs_balance_s (observe_daemon (converge d tg off force cfg))"
    by (simp add: observe_daemon_def converge_limit)
  then show "plan_op again = SET" "plan_seconds again = tgt_limit_today_s tg - tgt_global_spent_s tg"
    unfolding again_def using plan_absolute by blast+
qed

theorem replan_settles_witness:
  "plan_op (plan (observe_daemon (converge (fresh_daemon\<lparr>fd_balance_s := 400\<rparr>)
       \<lparr>tgt_limit_today_s = 7200, tgt_global_spent_s = 2500\<rparr> 0 True default_config))
       \<lparr>tgt_limit_today_s = 7200, tgt_global_spent_s = 2500\<rparr> 7 False default_config) = NOOP"
  using replan_settles [of default_config "fresh_daemon\<lparr>fd_balance_s := 400\<rparr>"
      "\<lparr>tgt_limit_today_s = 7200, tgt_global_spent_s = 2500\<rparr>" 0 True 7]
  by (simp add: default_config_def reachable_target_def fresh_daemon_def TK_LIMIT_PER_DAY_def)

text \<open>
  The offset the controller remembers is the offset the device really has after the write:
  exactly for a relative write or none, and short by less than one save interval for an absolute
  write, which makes the daemon drop what it had not yet flushed.
\<close>

theorem applied_offset_is_real:
  fixes off :: seconds and force :: bool
  assumes "0 \<le> deadband_s cfg" "reachable_target d tg" "daemon_ok d"
  defines "p \<equiv> plan (observe_daemon d) tg off force cfg" and "d' \<equiv> converge d tg off force cfg"
  shows "new_applied_offset_s p \<le> fd_balance_s d' - fd_spent_day_s d' \<and>
    fd_balance_s d' - fd_spent_day_s d'
      \<le> new_applied_offset_s p + (if plan_op p = SET then fd_save_interval_s d - 1 else 0)"
  using fd_facts(4) [OF assms(1-3), of off force] fd_facts(5) [OF assms(1-3), of off force]
  unfolding p_def d'_def by auto

theorem applied_offset_is_real_witness:
  "let d = fresh_daemon\<lparr>fd_balance_s := 420, fd_spent_day_s := 20, fd_elapsed_since_save_s := 20\<rparr>;
       tg = \<lparr>tgt_limit_today_s = 7200, tgt_global_spent_s = 2500\<rparr>;
       p = plan (observe_daemon d) tg 0 False default_config; d' = converge d tg 0 False default_config
   in new_applied_offset_s p \<le> fd_balance_s d' - fd_spent_day_s d' \<and>
    fd_balance_s d' - fd_spent_day_s d'
      \<le> new_applied_offset_s p + (if plan_op p = SET then fd_save_interval_s d - 1 else 0)"
  unfolding Let_def
  by (rule applied_offset_is_real)
    (simp_all add: default_config_def reachable_target_def fresh_daemon_def TK_LIMIT_PER_DAY_def
      daemon_ok_def DEFAULT_SAVE_INTERVAL_S_def)

subsection \<open>The counter against a day of daemon events\<close>

text \<open>
  What happens to one device between two observations: seconds pass (active or idle), local
  midnight comes, the agent or an administrator writes, or the agent observes and advances its
  counter.
\<close>

datatype event = Run seconds bool | Midnight "seconds option" | Command op seconds | Observe

fun run_event :: "convergence_config \<Rightarrow> event \<Rightarrow> fake_daemon \<times> cumulative_state
    \<Rightarrow> (fake_daemon \<times> cumulative_state) result" where
  "run_event cfg (Run s active) (d, st) = rbind (daemon_tick s active d) (\<lambda>d. Inr (d, st))"
| "run_event cfg (Midnight l) (d, st) = Inr (rollover_day l d, st)"
| "run_event cfg (Command p s) (d, st) = Inr (apply_op p s d, st)"
| "run_event cfg Observe (d, st) = Inr (d, advance_cumulative st (fd_spent_day_s d) cfg)"

fun run_events :: "convergence_config \<Rightarrow> event list \<Rightarrow> fake_daemon \<times> cumulative_state
    \<Rightarrow> (fake_daemon \<times> cumulative_state) result" where
  "run_events cfg [] x = Inr x"
| "run_events cfg (e # es) x = rbind (run_event cfg e x) (run_events cfg es)"

fun active_seconds :: "event list \<Rightarrow> seconds" where
  "active_seconds [] = 0"
| "active_seconds (Run s active # es) = (if active then s else 0) + active_seconds es"
| "active_seconds (_ # es) = active_seconds es"

fun absolute_writes :: "event list \<Rightarrow> int" where
  "absolute_writes [] = 0"
| "absolute_writes (Command SET _ # es) = 1 + absolute_writes es"
| "absolute_writes (_ # es) = absolute_writes es"

definition is_midnight :: "event \<Rightarrow> bool" where
  "is_midnight e \<longleftrightarrow> (case e of Midnight _ \<Rightarrow> True | _ \<Rightarrow> False)"

lemma apply_op_frame:
  "daemon_ok d \<Longrightarrow> fd_saved_spent_day_s d \<le> fd_saved_spent_day_s (apply_op p s d)
    \<and> fd_spent_day_s (apply_op p s d) \<le> fd_spent_day_s d
    \<and> fd_save_interval_s (apply_op p s d) = fd_save_interval_s d
    \<and> (p \<noteq> SET \<longrightarrow> fd_spent_day_s (apply_op p s d) = fd_spent_day_s d)
    \<and> fd_spent_day_s d - fd_spent_day_s (apply_op p s d) < fd_save_interval_s d"
  by (cases p) (simp_all add: apply_op_simps daemon_defs daemon_ok_def)

lemma rollover_day_frame:
  "daemon_ok d \<Longrightarrow> daemon_ok (rollover_day l d) \<and> fd_spent_day_s (rollover_day l d) = 0
    \<and> fd_save_interval_s (rollover_day l d) = fd_save_interval_s d"
  by (simp add: rollover_day_def daemon_ok_def daemon_flush_def)

text \<open>
  The invariant of the upper bound, with \<open>b\<close> the activity so far: either the daemon's midnight has
  passed since the last observation and all it shows is fresh, or it can have dropped by less than
  one save interval since.
\<close>

definition counted :: "convergence_config \<Rightarrow> seconds \<Rightarrow> fake_daemon \<times> cumulative_state \<Rightarrow> bool" where
  "counted cfg b x \<longleftrightarrow> (case x of (d, st) \<Rightarrow>
     daemon_ok d \<and> fd_save_interval_s d \<le> regression_tolerance_s cfg + 1 \<and> 0 \<le> raw_prev_s st \<and>
     (cum_local_s st + fd_spent_day_s d \<le> b \<or>
      (raw_prev_s st - fd_saved_spent_day_s d < fd_save_interval_s d \<and>
       cum_local_s st + max 0 (fd_spent_day_s d - raw_prev_s st) \<le> b)))"

lemma counted_run:
  assumes "counted cfg b (d, st)" "daemon_tick s active d = Inr d'"
  shows "counted cfg (b + (if active then s else 0)) (d', st)"
  using assms(1) daemon_tick_ok [OF _ assms(2)] daemon_tick_spent [OF assms(2)]
  by (auto simp: counted_def daemon_ok_def)

lemma counted_midnight:
  "counted cfg b (d, st) \<Longrightarrow> counted cfg b (rollover_day l d, st)"
  using rollover_day_frame [of d l] by (auto simp: counted_def daemon_ok_def)

lemma counted_command:
  "counted cfg b (d, st) \<Longrightarrow> counted cfg b (apply_op p s d, st)"
  using apply_op_frame [of d p s] apply_op_ok [of d p s] by (auto simp: counted_def)

lemma counted_observe:
  assumes "counted cfg b (d, st)"
  shows "counted cfg b (d, advance_cumulative st (fd_spent_day_s d) cfg)"
  using assms
  by (auto simp: counted_def daemon_ok_def advance_cumulative_def Let_def)

lemma counted_event:
  "counted cfg b x \<Longrightarrow> run_event cfg e x = Inr y \<Longrightarrow> counted cfg (b + active_seconds [e]) y"
  by (cases x; cases e)
    (auto simp: rbind_Inr_iff counted_midnight counted_command counted_observe dest: counted_run)

lemma active_seconds_Cons: "active_seconds (e # es) = active_seconds [e] + active_seconds es"
  by (cases e) auto

lemma counted_events:
  "counted cfg b x \<Longrightarrow> run_events cfg es x = Inr y \<Longrightarrow> counted cfg (b + active_seconds es) y"
proof (induction es arbitrary: b x)
  case (Cons e es)
  then obtain z where z: "run_event cfg e x = Inr z" "run_events cfg es z = Inr y"
    by (auto simp: rbind_Inr_iff)
  from Cons.IH [OF counted_event [OF Cons.prems(1) z(1)] z(2)] show ?case
    by (subst active_seconds_Cons) (simp add: algebra_simps)
qed simp

text \<open>The lower bound, on a day without a local midnight: each absolute write loses little.\<close>

definition covered :: "convergence_config \<Rightarrow> seconds \<Rightarrow> seconds \<Rightarrow> fake_daemon \<times> cumulative_state \<Rightarrow> bool" where
  "covered cfg si b x \<longleftrightarrow> (case x of (d, st) \<Rightarrow>
     daemon_ok d \<and> fd_save_interval_s d = si \<and> si \<le> regression_tolerance_s cfg + 1 \<and>
     raw_prev_s st - fd_saved_spent_day_s d < si \<and>
     b \<le> cum_local_s st + (fd_spent_day_s d - raw_prev_s st))"

lemma covered_event:
  assumes "covered cfg si b x" "run_event cfg e x = Inr y" "\<not> is_midnight e"
  shows "covered cfg si (b + active_seconds [e] - (si - 1) * absolute_writes [e]) y"
proof (cases x)
  case (Pair d st)
  show ?thesis
  proof (cases e)
    case (Run s active)
    then obtain d' where d': "daemon_tick s active d = Inr d'" "y = (d', st)"
      using assms(2) Pair by (auto simp: rbind_Inr_iff)
    then show ?thesis
      using assms(1) Run Pair daemon_tick_ok [OF _ d'(1)] daemon_tick_spent [OF d'(1)]
      by (auto simp: covered_def daemon_ok_def)
  next
    case (Command p s)
    then show ?thesis
      using assms(1,2) Pair apply_op_frame [of d p s] apply_op_ok [of d p s]
      by (cases p) (auto simp: covered_def)
  next
    case Observe
    then show ?thesis
      using assms(1,2) Pair by (auto simp: covered_def advance_cumulative_def Let_def daemon_ok_def)
  qed (use assms(3) in \<open>simp_all add: is_midnight_def\<close>)
qed

lemma absolute_writes_Cons: "absolute_writes (e # es) = absolute_writes [e] + absolute_writes es"
  by (cases e; (cases "case e of Command p s \<Rightarrow> p | _ \<Rightarrow> NOOP")?) auto

lemma covered_events:
  "covered cfg si b x \<Longrightarrow> run_events cfg es x = Inr y \<Longrightarrow> list_all (\<lambda>e. \<not> is_midnight e) es
    \<Longrightarrow> covered cfg si (b + active_seconds es - (si - 1) * absolute_writes es) y"
proof (induction es arbitrary: b x)
  case (Cons e es)
  then obtain z where z: "run_event cfg e x = Inr z" "run_events cfg es z = Inr y"
    by (auto simp: rbind_Inr_iff)
  have "covered cfg si (b + active_seconds [e] - (si - 1) * absolute_writes [e]) z"
    using covered_event [OF Cons.prems(1) z(1)] Cons.prems(3) by simp
  from Cons.IH [OF this z(2)] Cons.prems(3) show ?case
    by (subst active_seconds_Cons, subst absolute_writes_Cons) (simp add: algebra_simps)
qed simp



end
