(* ===== verification/Py_Text.thy ===== *)
theory Py_Text
  imports Prelude
begin

section \<open>Text as Python splits it\<close>

text \<open>
  The string methods the policy editor and the agent's configuration share: \<open>split\<close> on a
  character, \<open>splitlines\<close>, \<open>partition\<close>, \<open>strip\<close> and \<open>join\<close>, with the lemmas that say when one
  undoes another.
\<close>

text \<open>\<open>s.split(c)\<close>\<close>

fun split_at :: "char \<Rightarrow> string \<Rightarrow> string list" where
  "split_at c [] = [[]]"
| "split_at c (x # xs) =
     (if x = c then [] # split_at c xs
      else case split_at c xs of [] \<Rightarrow> [[x]] | p # ps \<Rightarrow> (x # p) # ps)"

text \<open>\<open>str.splitlines\<close>: every line boundary of Python below code point 256, a CR LF pair being one.\<close>

definition is_line_end :: "char \<Rightarrow> bool" where
  "is_line_end c \<longleftrightarrow> of_char c \<in> {10, 11, 12, 13, 28, 29, 30, 133 :: int}"

fun splitlines_from :: "string \<Rightarrow> string \<Rightarrow> string list" where
  "splitlines_from cur [] = (if cur = [] then [] else [cur])"
| "splitlines_from cur [c] = (if is_line_end c then [cur] else [cur @ [c]])"
| "splitlines_from cur (c # e # cs) =
     (if c = CHR 0x0D \<and> e = CHR 0x0A then cur # splitlines_from [] cs
      else if is_line_end c then cur # splitlines_from [] (e # cs)
      else splitlines_from (cur @ [c]) (e # cs))"

definition splitlines :: "string \<Rightarrow> string list" where
  "splitlines s = splitlines_from [] s"

text \<open>\<open>s.partition(c)\<close>, its first and last part.\<close>

definition partition_on :: "char \<Rightarrow> string \<Rightarrow> string \<times> string" where
  "partition_on c s = (takeWhile (\<lambda>x. x \<noteq> c) s, drop 1 (dropWhile (\<lambda>x. x \<noteq> c) s))"

text \<open>\<open>sep.join(parts)\<close> for a one-character separator.\<close>

fun join_on :: "char \<Rightarrow> string list \<Rightarrow> string" where
  "join_on c [] = []"
| "join_on c [p] = p"
| "join_on c (p # q # ps) = p @ c # join_on c (q # ps)"

definition newline :: char where
  "newline = CHR 0x0A"

subsection \<open>Stripping\<close>

definition stripped :: "string \<Rightarrow> bool" where
  "stripped s \<longleftrightarrow> s = [] \<or> (\<not> is_blank (hd s) \<and> \<not> is_blank (last s))"

lemma strip_stripped [simp]: "stripped s \<Longrightarrow> py_strip s = s"
proof (cases s rule: rev_cases)
  case (snoc xs x)
  assume "stripped s"
  then have "\<not> is_blank (hd s)" "\<not> is_blank x" using snoc by (auto simp: stripped_def)
  then have "dropWhile is_blank s = s" by (cases s) simp_all
  moreover have "dropWhile is_blank (rev s) = rev s" using \<open>\<not> is_blank x\<close> snoc by simp
  ultimately show ?thesis by (simp add: py_strip_def)
qed (simp add: py_strip_def)

lemma hd_dropWhile_blank: "dropWhile P xs \<noteq> [] \<Longrightarrow> \<not> P (hd (dropWhile P xs))"
  by (induction xs) auto

lemma hd_rev_dropWhile: "dropWhile P (rev ys) \<noteq> [] \<Longrightarrow> hd (rev (dropWhile P (rev ys))) = hd ys"
proof (induction ys rule: rev_induct)
  case (snoc y ys)
  show ?case
  proof (cases "P y")
    case True
    then have "ys \<noteq> []" using snoc.prems by auto
    then show ?thesis using snoc True by simp
  next
    case False
    then show ?thesis by (cases ys) simp_all
  qed
qed simp

lemma stripped_strip [simp]: "stripped (py_strip s)"
proof (cases "py_strip s = []")
  case False
  define ys where "ys = dropWhile is_blank s"
  have z: "py_strip s = rev (dropWhile is_blank (rev ys))" by (simp add: py_strip_def ys_def)
  have ne: "dropWhile is_blank (rev ys) \<noteq> []" using False z by simp
  then have "ys \<noteq> []" by auto
  then have "\<not> is_blank (hd ys)" unfolding ys_def by (rule hd_dropWhile_blank)
  moreover have "hd (py_strip s) = hd ys" using hd_rev_dropWhile [OF ne] z by simp
  moreover have "last (py_strip s) = hd (dropWhile is_blank (rev ys))" by (simp add: z last_rev)
  ultimately show ?thesis using hd_dropWhile_blank [OF ne] by (simp add: stripped_def)
qed (simp add: stripped_def)

lemma strip_subset: "set (py_strip s) \<subseteq> set s"
  unfolding py_strip_def by (auto dest!: set_dropWhileD)

lemma strip_no_blank: "list_all (\<lambda>c. \<not> is_blank c) s \<Longrightarrow> py_strip s = s"
  by (cases "s = []") (auto simp: stripped_def list_all_iff)

definition py_rstrip :: "string \<Rightarrow> string" where
  "py_rstrip s = rev (dropWhile is_blank (rev s))"

lemma strip_rstrip: "py_strip s = py_rstrip (dropWhile is_blank s)"
  by (simp add: py_strip_def py_rstrip_def)

lemma rstrip_Cons:
  "py_rstrip (c # s) = (if py_rstrip s = [] \<and> is_blank c then [] else c # py_rstrip s)"
proof (cases "list_all is_blank s")
  case True
  then have "dropWhile is_blank (rev s) = []" by (simp add: list_all_iff)
  moreover from this have "dropWhile is_blank (rev s @ [c]) = (if is_blank c then [] else [c])"
    using True by (simp add: dropWhile_append list_all_iff)
  ultimately show ?thesis by (simp add: py_rstrip_def)
next
  case False
  then obtain x where "x \<in> set (rev s)" "\<not> is_blank x" by (auto simp: list_all_iff)
  then have "dropWhile is_blank (rev s @ [c]) = dropWhile is_blank (rev s) @ [c]"
      "dropWhile is_blank (rev s) \<noteq> []"
    by (auto simp: dropWhile_append1)
  then show ?thesis by (simp add: py_rstrip_def)
qed

lemma rstrip_Nil [simp]: "py_rstrip [] = []"
  by (simp add: py_rstrip_def)

lemma rstrip_idem: "py_rstrip (py_rstrip s) = py_rstrip s"
  by (induction s) (auto simp: rstrip_Cons)

lemma strip_of_rstrip: "py_strip (py_rstrip s) = py_strip s"
  by (induction s) (auto simp: strip_rstrip rstrip_Cons rstrip_idem)

lemma rstrip_after: "\<not> is_blank c \<Longrightarrow> py_rstrip (p @ c # s) = p @ c # py_rstrip s"
  by (induction p) (auto simp: rstrip_Cons)

lemma strip_prefixed:
  "\<not> is_blank (hd p) \<Longrightarrow> p \<noteq> [] \<Longrightarrow> \<not> is_blank c \<Longrightarrow> py_strip (p @ c # s) = p @ c # py_rstrip s"
  by (cases p) (simp_all add: strip_rstrip rstrip_after [of c "_ # _", simplified])

subsection \<open>Lines\<close>

definition one_line :: "string \<Rightarrow> bool" where
  "one_line s = list_all (\<lambda>c. \<not> is_line_end c) s"

lemma newline_ends [simp]: "is_line_end newline"
  by (simp add: is_line_end_def newline_def)

lemma splitlines_from_line:
  "one_line s \<Longrightarrow> splitlines_from cur (s @ newline # rest) = (cur @ s) # splitlines_from [] rest"
proof (induction s arbitrary: cur)
  case Nil
  have "newline \<noteq> CHR 0x0D" by (simp add: newline_def)
  then show ?case by (cases rest) simp_all
next
  case (Cons c s)
  have c: "\<not> is_line_end c" "one_line s" using Cons.prems by (simp_all add: one_line_def)
  have "c \<noteq> CHR 0x0D" using c(1) by (auto simp: is_line_end_def)
  then show ?case using Cons.IH [OF c(2), of "cur @ [c]"] c(1) by (cases s) simp_all
qed

lemma splitlines_join:
  assumes "list_all one_line ls"
  shows "splitlines (join_on newline (ls @ [[]])) = ls"
  using assms
proof (induction ls)
  case Nil
  then show ?case by (simp add: splitlines_def)
next
  case (Cons l ls)
  have "join_on newline ((l # ls) @ [[]]) = l @ newline # join_on newline (ls @ [[]])"
    by (cases ls) simp_all
  then show ?case using Cons splitlines_from_line [of l "[]"] by (simp add: splitlines_def)
qed

subsection \<open>Splitting and joining\<close>

lemma split_at_nonempty [simp]: "split_at c s \<noteq> []"
  by (induction s) (auto split: list.splits)

lemma split_at_without: "c \<notin> set s \<Longrightarrow> split_at c s = [s]"
  by (induction s) auto

lemma split_at_append: "c \<notin> set p \<Longrightarrow> split_at c (p @ c # s) = p # split_at c s"
  by (induction p) auto

lemma split_at_parts: "p \<in> set (split_at c s) \<Longrightarrow> c \<notin> set p \<and> set p \<subseteq> set s"
proof (induction s arbitrary: p)
  case (Cons x s)
  show ?case
  proof (cases "x = c")
    case True
    then show ?thesis using Cons.prems Cons.IH [of p] by auto
  next
    case False
    obtain q qs where q: "split_at c s = q # qs" by (cases "split_at c s") simp_all
    then have "c \<notin> set q \<and> set q \<subseteq> set s" using Cons.IH [of q] by simp
    then show ?thesis using False Cons.prems Cons.IH [of p] q by auto
  qed
qed simp

lemma split_join:
  assumes "ps \<noteq> []" "list_all (\<lambda>p. c \<notin> set p) ps"
  shows "split_at c (join_on c ps) = ps"
  using assms
proof (induction ps rule: list_nonempty_induct)
  case (single p)
  then show ?case by (simp add: split_at_without)
next
  case (cons p ps)
  then show ?case by (cases ps) (simp_all add: split_at_append)
qed

lemma partition_on_first: "c \<notin> set k \<Longrightarrow> partition_on c (k @ c # v) = (k, v)"
  by (induction k) (auto simp: partition_on_def)

end
