(* ===== verification/Agent_Config.thy ===== *)
theory Agent_Config
  imports Py_Text
begin

section \<open>The agent's configuration file\<close>

text \<open>
  Models \<open>agent/timekpr_hub_agent/config.py\<close>: reading and writing \<open>agent.env\<close>, the precedence of
  the process environment over the file, and the normalisation of the hub's URL. A file read is
  what \<open>Path.read_text\<close> makes of it; its universal newlines add nothing to \<open>splitlines\<close>. The mode
  bits and the owner of the file are the operating system's.
\<close>

datatype file_text = No_File | Undecodable | Text string

definition config_keys :: "string list" where
  "config_keys = [''TIMEKPR_HUB_URL'', ''TIMEKPR_HUB_MANAGED_USERS'', ''TIMEKPR_HUB_TZ'', ''TIMEKPR_HUB_CA_CERT'']"

fun read_env_lines :: "string list \<Rightarrow> (string, string) dict \<Rightarrow> (string, string) dict" where
  "read_env_lines [] values = values"
| "read_env_lines (raw # ls) values =
     (let line = py_strip raw; (key, value) = partition_on CHR ''='' line
      in if line = [] \<or> hd line = CHR ''#'' \<or> CHR ''='' \<notin> set line then read_env_lines ls values
         else if py_strip key \<in> set config_keys then read_env_lines ls (dict_set values (py_strip key) (py_strip value))
         else read_env_lines ls values)"

text \<open>Only \<open>OSError\<close> is caught: a file that is not valid text raises \<open>UnicodeDecodeError\<close>, a \<open>ValueError\<close>.\<close>

definition read_env_file :: "file_text \<Rightarrow> (string, string) dict result" where
  "read_env_file f =
     (case f of No_File \<Rightarrow> Inr [] | Undecodable \<Rightarrow> Inl ValueError
      | Text t \<Rightarrow> Inr (read_env_lines (splitlines t) []))"

text \<open>\<open>x or y\<close> on optional strings, None and the empty string being falsy.\<close>

definition or_else :: "string option \<Rightarrow> string option \<Rightarrow> string option" where
  "or_else x y = (if x = None \<or> x = Some '''' then y else x)"

definition env_default :: "(string \<Rightarrow> string option) \<Rightarrow> string \<Rightarrow> (string, string) dict \<Rightarrow> string option" where
  "env_default environ key env_values = or_else (environ key) (or_else (dict_get env_values key) None)"

definition env_lines :: "string \<Rightarrow> string \<Rightarrow> string \<Rightarrow> string option \<Rightarrow> string list" where
  "env_lines hub_url managed_users tz ca_cert =
     [''# Written by `timekpr-hub-agent enroll` -- re-run enroll (with a new'',
      ''# code) rather than hand-editing this to move a device to a'',
      ''# different hub or re-manage a different set of users.'',
      ''TIMEKPR_HUB_URL='' @ hub_url,
      ''TIMEKPR_HUB_MANAGED_USERS='' @ managed_users,
      ''TIMEKPR_HUB_TZ='' @ tz,
      ''TIMEKPR_HUB_CA_CERT='' @ str_or ca_cert '''']"

definition write_env_file :: "string \<Rightarrow> string \<Rightarrow> string \<Rightarrow> string option \<Rightarrow> string" where
  "write_env_file hub_url managed_users tz ca_cert =
     join_on newline (env_lines hub_url managed_users tz ca_cert @ [''''])"

subsection \<open>The hub's URL\<close>

text \<open>What stands before the first \<open>://\<close>, when there is one.\<close>

fun scheme_of :: "string \<Rightarrow> string option" where
  "scheme_of [] = None"
| "scheme_of (c # cs) =
     (if take 3 (c # cs) = ''://'' then Some [] else map_option ((#) c) (scheme_of cs))"

definition lower_char :: "char \<Rightarrow> char" where
  "lower_char c = (let n = of_char c :: nat in if 65 \<le> n \<and> n \<le> 90 then char_of (n + 32) else c)"

definition rstrip_slashes :: "string \<Rightarrow> string" where
  "rstrip_slashes s = rev (dropWhile (\<lambda>c. c = CHR ''/'') (rev s))"

definition normalize_hub_url :: "string \<Rightarrow> string result" where
  "normalize_hub_url raw =
     (let value = py_strip raw
      in if value = '''' then Inl ValueError
         else let value = (if scheme_of value = None then ''http://'' @ value else value)
              in if map lower_char (case scheme_of value of None \<Rightarrow> value | Some s \<Rightarrow> s) \<in> {''http'', ''https''}
                 then Inr (rstrip_slashes value) else Inl ValueError)"

subsection \<open>What is written is read back\<close>

lemma keys_not_blank:
  "list_all (\<lambda>k. list_all (\<lambda>c. \<not> is_blank c \<and> c \<noteq> CHR ''='') k \<and> k \<noteq> [] \<and> hd k = CHR ''T'') config_keys"
  by code_simp

lemma key_not_blank:
  "k \<in> set config_keys \<Longrightarrow> list_all (\<lambda>c. \<not> is_blank c \<and> c \<noteq> CHR ''='') k \<and> k \<noteq> [] \<and> hd k = CHR ''T''"
  using keys_not_blank unfolding list_all_iff [of _ config_keys] by blast

lemma read_setting:
  assumes "k \<in> set config_keys"
  shows "read_env_lines ((k @ CHR ''='' # v) # ls) values = read_env_lines ls (dict_set values k (py_strip v))"
proof -
  note k = key_not_blank [OF assms]
  have nb: "\<not> is_blank (hd k)" and ne: "k \<noteq> []" and t: "hd k = CHR ''T''" using k by (simp_all add: is_blank_def)
  have clean: "CHR ''='' \<notin> set k" "list_all (\<lambda>c. \<not> is_blank c) k" using k unfolding list_all_iff by blast+
  have eq: "\<not> is_blank CHR ''=''" by (simp add: is_blank_def)
  have line: "py_strip (k @ CHR ''='' # v) = k @ CHR ''='' # py_rstrip v"
    by (rule strip_prefixed [OF nb ne eq])
  have part: "partition_on CHR ''='' (k @ CHR ''='' # py_rstrip v) = (k, py_rstrip v)"
    by (rule partition_on_first [OF clean(1)])
  have "py_strip k = k" by (rule strip_no_blank [OF clean(2)])
  moreover have "hd (k @ CHR ''='' # py_rstrip v) \<noteq> CHR ''#''" using ne t by simp
  ultimately show ?thesis
    using ne assms unfolding read_env_lines.simps Let_def line part by (simp add: strip_of_rstrip)
qed

lemma read_comment:
  assumes "hd l = CHR ''#''" "l \<noteq> []"
  shows "read_env_lines (l # ls) values = read_env_lines ls values"
proof -
  obtain r where l: "l = CHR ''#'' # r" using assms by (cases l) auto
  have "\<not> is_blank CHR ''#''" by (simp add: is_blank_def)
  then have "py_strip l = CHR ''#'' # py_rstrip r" by (simp add: l strip_rstrip rstrip_Cons)
  then show ?thesis by simp
qed

text \<open>
  Four values that hold no line boundary are read back as they were written, without surrounding
  blanks, whatever else they contain.
\<close>

theorem env_file_roundtrip:
  assumes "list_all one_line [hub_url, managed_users, tz, str_or ca_cert '''']"
  shows "read_env_file (Text (write_env_file hub_url managed_users tz ca_cert)) =
    Inr [(''TIMEKPR_HUB_URL'', py_strip hub_url), (''TIMEKPR_HUB_MANAGED_USERS'', py_strip managed_users),
         (''TIMEKPR_HUB_TZ'', py_strip tz), (''TIMEKPR_HUB_CA_CERT'', py_strip (str_or ca_cert ''''))]"
proof -
  have "list_all one_line (env_lines hub_url managed_users tz ca_cert)"
    using assms by (simp add: env_lines_def one_line_def is_line_end_def)
  then have "splitlines (write_env_file hub_url managed_users tz ca_cert) = env_lines hub_url managed_users tz ca_cert"
    unfolding write_env_file_def by (rule splitlines_join)
  moreover have "read_env_lines (env_lines hub_url managed_users tz ca_cert) [] =
    dict_set (dict_set (dict_set (dict_set [] ''TIMEKPR_HUB_URL'' (py_strip hub_url))
      ''TIMEKPR_HUB_MANAGED_USERS'' (py_strip managed_users)) ''TIMEKPR_HUB_TZ'' (py_strip tz))
      ''TIMEKPR_HUB_CA_CERT'' (py_strip (str_or ca_cert ''''))"
    using read_setting [of "''TIMEKPR_HUB_URL''" hub_url] read_setting [of "''TIMEKPR_HUB_MANAGED_USERS''" managed_users]
      read_setting [of "''TIMEKPR_HUB_TZ''" tz] read_setting [of "''TIMEKPR_HUB_CA_CERT''" "str_or ca_cert ''''"]
    unfolding env_lines_def by (simp add: read_comment config_keys_def del: read_env_lines.simps(2))
  ultimately show ?thesis by (simp add: read_env_file_def)
qed

subsection \<open>The shape of a normalised URL\<close>

lemma scheme_of_Some: "scheme_of v = Some s \<Longrightarrow> \<exists>r. v = s @ ''://'' @ r"
proof (induction v arbitrary: s)
  case (Cons c v)
  show ?case
  proof (cases "take 3 (c # v) = ''://''")
    case True
    then have "c # v = ''://'' @ drop 3 (c # v)" by (metis append_take_drop_id)
    then show ?thesis using Cons.prems True by auto
  next
    case False
    then obtain t where "scheme_of v = Some t" "s = c # t" using Cons.prems by auto
    then show ?thesis using Cons.IH [of t] by auto
  qed
qed simp

lemma rstrip_slashes_append: "rstrip_slashes r \<noteq> [] \<Longrightarrow> rstrip_slashes (p @ r) = p @ rstrip_slashes r"
  by (auto simp: rstrip_slashes_def dropWhile_append)

lemma rstrip_slashes_last: "rstrip_slashes r \<noteq> [] \<Longrightarrow> last (rstrip_slashes r) \<noteq> CHR ''/''"
  using hd_dropWhile_blank [of "\<lambda>c. c = CHR ''/''" "rev r"] by (simp add: rstrip_slashes_def last_rev)

lemma rstrip_slashes_idem [simp]: "rstrip_slashes (rstrip_slashes r) = rstrip_slashes r"
proof (cases "rstrip_slashes r = []")
  case False
  obtain ys y where s: "rstrip_slashes r = ys @ [y]" using False by (metis append_butlast_last_id)
  then have "y \<noteq> CHR ''/''" using rstrip_slashes_last [OF False] by simp
  then show ?thesis by (simp add: s, simp add: rstrip_slashes_def)
qed (simp add: rstrip_slashes_def)

lemma rstrip_slashes_Nil: "rstrip_slashes r = [] \<Longrightarrow> rstrip_slashes (p @ '':'' @ ''//'' @ r) = p @ '':''"
  by (simp add: rstrip_slashes_def dropWhile_append)

text \<open>
  An accepted URL has one of the two schemes and no trailing slash, so \<open>_post\<close> appends its path
  to it as it is. When nothing but slashes follows the scheme, all that is left is the scheme and
  a colon: the check does not ask for a host.
\<close>

lemma normalized_url_shape:
  assumes "normalize_hub_url raw = Inr u"
  shows "rstrip_slashes u = u \<and> (\<exists>s. map lower_char s \<in> {''http'', ''https''} \<and>
    (u = s @ '':'' \<or> (\<exists>r. u = s @ ''://'' @ r \<and> r \<noteq> [] \<and> last r \<noteq> CHR ''/'')))"
proof -
  let ?raw = "py_strip raw"
  define v where "v = (if scheme_of ?raw = None then ''http://'' @ ?raw else ?raw)"
  have u: "u = rstrip_slashes v"
    and sch: "map lower_char (case scheme_of v of None \<Rightarrow> v | Some s \<Rightarrow> s) \<in> {''http'', ''https''}"
    using assms unfolding normalize_hub_url_def Let_def v_def [symmetric] by (simp_all split: if_splits)
  obtain s where s: "scheme_of v = Some s"
    by (cases "scheme_of ?raw") (auto simp: v_def)
  then obtain r where v: "v = s @ ''://'' @ r" using scheme_of_Some by blast
  have idem: "rstrip_slashes u = u" by (simp add: u)
  have sch': "map lower_char s \<in> {''http'', ''https''}" using sch s by (simp only: option.case)
  show ?thesis
  proof (cases "rstrip_slashes r = []")
    case True
    then have "u = s @ '':''" using rstrip_slashes_Nil [OF True, of s] by (simp add: u v)
    then show ?thesis by (intro conjI exI [of _ s] disjI1 idem sch')
  next
    case False
    then have "u = s @ ''://'' @ rstrip_slashes r"
      using rstrip_slashes_append [OF False, of "s @ ''://''"] by (simp add: u v)
    then show ?thesis
      by (intro conjI exI [of _ s] idem sch' disjI2 exI [of _ "rstrip_slashes r"] False rstrip_slashes_last [OF False])
  qed
qed

lemma normalize_examples:
  "normalize_hub_url ''192.168.1.5:8000'' = Inr ''http://192.168.1.5:8000''"
  "normalize_hub_url ''  HTTPS://hub.local/  '' = Inr ''HTTPS://hub.local''"
  "normalize_hub_url ''ftp://hub'' = Inl ValueError"
  "normalize_hub_url ''http://'' = Inr ''http:''"
  by code_simp+

end
