(* ===== verification/Wire_Models.thy ===== *)
theory Wire_Models
  imports Allowed_Hours
begin

section \<open>Wire types\<close>

text \<open>
  Models \<open>core/timekpr_hub_core/models.py\<close>: the enumerations with their wire strings, every
  request, response and payload model as a record, and the validation that Pydantic runs from the
  declared constraints and the model's own validators. A model with constraints has a predicate
  \<open>valid_<model>\<close> and a function \<open>check_<model>\<close> that answers \<open>ValidationError\<close> like the
  constructor. Timestamps travel as ISO 8601 text and are modelled as the instants they denote
  (the text is the standard library's own encoding). Lengths count characters.
\<close>

definition WEEKDAY_TOKENS :: "string list" where
  "WEEKDAY_TOKENS = [''1'', ''2'', ''3'', ''4'', ''5'', ''6'', ''7'']"

datatype enforcement_mode = ENFORCE | OBSERVE
datatype offline_policy_kind = OPEN | CAPPED | CLOSED
datatype accounting_mode_kind = WALLCLOCK | PARALLEL
datatype activity_state_kind = DRAINING | IDLE | LOGGED_OUT
datatype lockout_kind = LOCK | SUSPEND | SUSPEND_WAKE | TERMINATE | KILL | SHUTDOWN

primrec enforcement_value :: "enforcement_mode \<Rightarrow> string" where
  "enforcement_value ENFORCE = ''enforce''"
| "enforcement_value OBSERVE = ''observe''"

primrec offline_policy_value :: "offline_policy_kind \<Rightarrow> string" where
  "offline_policy_value OPEN = ''open''"
| "offline_policy_value CAPPED = ''capped''"
| "offline_policy_value CLOSED = ''closed''"

primrec accounting_mode_value :: "accounting_mode_kind \<Rightarrow> string" where
  "accounting_mode_value WALLCLOCK = ''wallclock''"
| "accounting_mode_value PARALLEL = ''parallel''"

primrec activity_state_value :: "activity_state_kind \<Rightarrow> string" where
  "activity_state_value DRAINING = ''draining''"
| "activity_state_value IDLE = ''idle''"
| "activity_state_value LOGGED_OUT = ''logged_out''"

primrec lockout_value :: "lockout_kind \<Rightarrow> string" where
  "lockout_value LOCK = ''lock''"
| "lockout_value SUSPEND = ''suspend''"
| "lockout_value SUSPEND_WAKE = ''suspendwake''"
| "lockout_value TERMINATE = ''terminate''"
| "lockout_value KILL = ''kill''"
| "lockout_value SHUTDOWN = ''shutdown''"

text \<open>\<open>E(value)\<close> of a string enumeration: the member with that value, or a ValueError.\<close>

definition enum_of :: "('e \<Rightarrow> string) \<Rightarrow> 'e list \<Rightarrow> string \<Rightarrow> 'e result" where
  "enum_of val members s =
     (case find (\<lambda>e. val e = s) members of None \<Rightarrow> Inl ValueError | Some e \<Rightarrow> Inr e)"

definition lockout_of :: "string \<Rightarrow> lockout_kind result" where
  "lockout_of = enum_of lockout_value [LOCK, SUSPEND, SUSPEND_WAKE, TERMINATE, KILL, SHUTDOWN]"

definition offline_policy_of :: "string \<Rightarrow> offline_policy_kind result" where
  "offline_policy_of = enum_of offline_policy_value [OPEN, CAPPED, CLOSED]"

definition accounting_mode_of :: "string \<Rightarrow> accounting_mode_kind result" where
  "accounting_mode_of = enum_of accounting_mode_value [WALLCLOCK, PARALLEL]"

definition activity_state_of :: "string \<Rightarrow> activity_state_kind result" where
  "activity_state_of = enum_of activity_state_value [DRAINING, IDLE, LOGGED_OUT]"

definition enforcement_of :: "string \<Rightarrow> enforcement_mode result" where
  "enforcement_of = enum_of enforcement_value [ENFORCE, OBSERVE]"

lemmas enum_of_defs = enum_of_def lockout_of_def offline_policy_of_def accounting_mode_of_def
  activity_state_of_def enforcement_of_def

lemma lockout_of_value [simp]: "lockout_of (lockout_value l) = Inr l"
  by (cases l) (simp_all add: enum_of_defs)

lemma offline_policy_of_value [simp]: "offline_policy_of (offline_policy_value p) = Inr p"
  by (cases p) (simp_all add: enum_of_defs)

lemma accounting_mode_of_value [simp]: "accounting_mode_of (accounting_mode_value m) = Inr m"
  by (cases m) (simp_all add: enum_of_defs)

lemma activity_state_of_value [simp]: "activity_state_of (activity_state_value a) = Inr a"
  by (cases a) (simp_all add: enum_of_defs)

lemma enforcement_of_value [simp]: "enforcement_of (enforcement_value e) = Inr e"
  by (cases e) (simp_all add: enum_of_defs)

subsection \<open>Field constraints\<close>

definition in_bounds :: "int \<Rightarrow> int \<Rightarrow> int \<Rightarrow> bool" where
  "in_bounds lo hi v \<longleftrightarrow> lo \<le> v \<and> v \<le> hi"

definition is_digit :: "char \<Rightarrow> bool" where
  "is_digit c \<longleftrightarrow> c \<in> set ''0123456789''"

text \<open>\<open>^\\d{4}-\\d{2}-\\d{2}$\<close>\<close>

definition day_pattern :: "string \<Rightarrow> bool" where
  "day_pattern s \<longleftrightarrow> length s = 10 \<and> s ! 4 = CHR ''-'' \<and> s ! 7 = CHR ''-'' \<and>
     list_all is_digit (take 4 s) \<and> list_all is_digit (take 2 (drop 5 s)) \<and> list_all is_digit (drop 8 s)"

text \<open>\<open>^([01]?[0-9]|2[0-3])$\<close>: an hour of the day.\<close>

definition hour_pattern :: "string \<Rightarrow> bool" where
  "hour_pattern s \<longleftrightarrow>
     (case s of
        [b] \<Rightarrow> is_digit b
      | [a, b] \<Rightarrow> (a \<in> set ''01'' \<and> is_digit b) \<or> (a = CHR ''2'' \<and> b \<in> set ''0123'')
      | _ \<Rightarrow> False)"

definition day_limit_ok :: "seconds \<Rightarrow> bool" where
  "day_limit_ok v \<longleftrightarrow> \<not> (v < 0 \<or> v > 86400)"

definition weekdays_ok :: "string list \<Rightarrow> bool" where
  "weekdays_ok ds \<longleftrightarrow> \<not> list_ex (\<lambda>v. v \<notin> set WEEKDAY_TOKENS) ds"

definition checked :: "('a \<Rightarrow> bool) \<Rightarrow> 'a \<Rightarrow> 'a result" where
  "checked valid x = (if valid x then Inr x else Inl ValidationError)"

lemma checked_Inr [simp]: "checked valid x = Inr y \<longleftrightarrow> valid x \<and> y = x"
  by (auto simp: checked_def)

lemma checked_Inl [simp]: "checked valid x = Inl e \<longleftrightarrow> \<not> valid x \<and> e = ValidationError"
  by (auto simp: checked_def)

subsection \<open>Policy payload\<close>

record wire_hour =
  wh_hour :: int
  wh_start_min :: int
  wh_end_min :: int
  wh_unaccounted :: bool

definition valid_wire_hour :: "wire_hour \<Rightarrow> bool" where
  "valid_wire_hour h \<longleftrightarrow> in_bounds 0 23 (wh_hour h) \<and> in_bounds 0 59 (wh_start_min h) \<and> in_bounds 0 60 (wh_end_min h)"

definition mk_wire_hour :: "int \<Rightarrow> int \<Rightarrow> int \<Rightarrow> bool \<Rightarrow> wire_hour result" where
  "mk_wire_hour h s e u = checked valid_wire_hour
     \<lparr>wh_hour = h, wh_start_min = s, wh_end_min = e, wh_unaccounted = u\<rparr>"

type_synonym wire_hours = "(string, wire_hour list) dict"

record playtime_activity =
  pa_mask :: string
  pa_description :: string

definition no_bracket_chars :: "string \<Rightarrow> bool" where
  "no_bracket_chars value \<longleftrightarrow> \<not> (CHR ''['' \<in> set value \<or> CHR '']'' \<in> set value)"

definition valid_playtime_activity :: "playtime_activity \<Rightarrow> bool" where
  "valid_playtime_activity a \<longleftrightarrow> 1 \<le> length (pa_mask a) \<and> length (pa_mask a) \<le> 255 \<and>
     length (pa_description a) \<le> 255 \<and> no_bracket_chars (pa_mask a)"

record playtime_payload =
  pt_enabled :: bool
  pt_override_enabled :: bool
  pt_unaccounted_intervals_enabled :: bool
  pt_allowed_weekdays :: "string list"
  pt_daily_limits_s :: "seconds list"
  pt_activities :: "playtime_activity list"

definition default_playtime :: playtime_payload where
  "default_playtime = \<lparr>pt_enabled = False, pt_override_enabled = False,
     pt_unaccounted_intervals_enabled = True, pt_allowed_weekdays = WEEKDAY_TOKENS,
     pt_daily_limits_s = replicate 7 0, pt_activities = []\<rparr>"

definition playtime_limits_ok :: "seconds list \<Rightarrow> bool" where
  "playtime_limits_ok ls \<longleftrightarrow> \<not> list_ex (\<lambda>v. v < 0 \<or> v > 86400) ls"

definition valid_playtime :: "playtime_payload \<Rightarrow> bool" where
  "valid_playtime p \<longleftrightarrow> length (pt_daily_limits_s p) = 7 \<and> playtime_limits_ok (pt_daily_limits_s p) \<and>
     list_all valid_playtime_activity (pt_activities p)"

record policy_payload =
  pp_version :: int
  pp_daily_limits_s :: "seconds list"
  pp_allowed_hours :: wire_hours
  pp_allowed_weekdays :: "string list"
  pp_weekly_limit_s :: seconds
  pp_monthly_limit_s :: seconds
  pp_lockout_type :: lockout_kind
  pp_wake_from :: "string option"
  pp_wake_to :: "string option"
  pp_track_inactive :: bool
  pp_hide_tray_icon :: bool
  pp_playtime :: playtime_payload
  pp_note :: string

definition valid_hours :: "wire_hours \<Rightarrow> bool" where
  "valid_hours d \<longleftrightarrow> list_all (\<lambda>(_, hs). list_all valid_wire_hour hs) d"

definition valid_policy_payload :: "policy_payload \<Rightarrow> bool" where
  "valid_policy_payload p \<longleftrightarrow> length (pp_daily_limits_s p) = 7 \<and> valid_hours (pp_allowed_hours p) \<and>
     valid_playtime (pp_playtime p)"

record policy_update =
  pu_daily_limits_s :: "seconds list"
  pu_weekly_limit_s :: seconds
  pu_monthly_limit_s :: seconds
  pu_allowed_weekdays :: "string list"
  pu_allowed_hours :: wire_hours
  pu_lockout_type :: lockout_kind
  pu_wake_from :: "string option"
  pu_wake_to :: "string option"
  pu_track_inactive :: bool
  pu_hide_tray_icon :: bool
  pu_playtime :: playtime_payload
  pu_note :: string

definition valid_policy_update :: "policy_update \<Rightarrow> bool" where
  "valid_policy_update u \<longleftrightarrow>
     length (pu_daily_limits_s u) = 7 \<and> list_all day_limit_ok (pu_daily_limits_s u) \<and>
     in_bounds 0 (7 * 86400) (pu_weekly_limit_s u) \<and> in_bounds 0 (31 * 86400) (pu_monthly_limit_s u) \<and>
     weekdays_ok (pu_allowed_weekdays u) \<and> valid_hours (pu_allowed_hours u) \<and>
     pred_option hour_pattern (pu_wake_from u) \<and> pred_option hour_pattern (pu_wake_to u) \<and>
     valid_playtime (pu_playtime u) \<and> length (pu_note u) \<le> 500"

definition check_policy_update :: "policy_update \<Rightarrow> policy_update result" where
  "check_policy_update = checked valid_policy_update"

subsection \<open>Admin requests\<close>

record grant_create =
  gc_seconds :: seconds
  gc_reason :: string
  gc_day :: "string option"

definition check_grant_create :: "grant_create \<Rightarrow> grant_create result" where
  "check_grant_create = checked (\<lambda>g. in_bounds (- 86400) 86400 (gc_seconds g) \<and>
     length (gc_reason g) \<le> 255 \<and> pred_option day_pattern (gc_day g))"

record day_override_create =
  doc_day :: string
  doc_limit_seconds :: seconds
  doc_reason :: string

definition check_day_override_create :: "day_override_create \<Rightarrow> day_override_create result" where
  "check_day_override_create = checked (\<lambda>d. day_pattern (doc_day d) \<and>
     in_bounds 0 86400 (doc_limit_seconds d) \<and> length (doc_reason d) \<le> 255)"

datatype hours_mode = Unrestricted | Window

record day_hours_create =
  dhc_day :: string
  dhc_mode :: hours_mode
  dhc_from_min :: int
  dhc_to_min :: int
  dhc_unaccounted :: bool
  dhc_reason :: string

definition window_is_ordered :: "day_hours_create \<Rightarrow> bool" where
  "window_is_ordered d \<longleftrightarrow> \<not> (dhc_mode d = Window \<and> dhc_from_min d \<ge> dhc_to_min d)"

definition check_day_hours_create :: "day_hours_create \<Rightarrow> day_hours_create result" where
  "check_day_hours_create = checked (\<lambda>d. day_pattern (dhc_day d) \<and>
     in_bounds 0 (24 * 60) (dhc_from_min d) \<and> in_bounds 0 (24 * 60) (dhc_to_min d) \<and>
     length (dhc_reason d) \<le> 255 \<and> window_is_ordered d)"

record gate_release_create =
  grc_day :: string
  grc_note :: string

definition check_gate_release_create :: "gate_release_create \<Rightarrow> gate_release_create result" where
  "check_gate_release_create = checked (\<lambda>g. day_pattern (grc_day g) \<and> length (grc_note g) \<le> 255)"

record user_settings_update =
  usu_gated_weekdays :: "string list"
  usu_accounting_mode :: accounting_mode_kind
  usu_offline_policy :: offline_policy_kind
  usu_offline_grace_s :: seconds
  usu_offline_cap_s :: seconds

definition check_user_settings_update :: "user_settings_update \<Rightarrow> user_settings_update result" where
  "check_user_settings_update = checked (\<lambda>s. weekdays_ok (usu_gated_weekdays s) \<and>
     in_bounds 0 (7 * 86400) (usu_offline_grace_s s) \<and> in_bounds 0 (7 * 86400) (usu_offline_cap_s s))"

record user_summary =
  us_username :: username
  us_display_name :: string
  us_accounting_mode :: accounting_mode_kind
  us_today_global_spent_s :: seconds
  us_today_effective_limit_s :: seconds
  us_devices_active_today :: "string list"
  us_activity_state :: activity_state_kind
  us_as_of :: "instant option"
  us_gated_today :: bool
  us_gate_released_today :: bool

subsection \<open>Enrollment\<close>

record local_policy =
  lp_daily_limits_s :: "seconds list"
  lp_weekly_limit_s :: seconds
  lp_monthly_limit_s :: seconds
  lp_allowed_weekdays :: "string list"

record enroll_request =
  enr_enrollment_code :: string
  enr_hostname :: string
  enr_machine_id :: string
  enr_agent_version :: string
  enr_local_users :: "username list"
  enr_local_policies :: "(username, local_policy) dict"

definition check_enroll_request :: "enroll_request \<Rightarrow> enroll_request result" where
  "check_enroll_request = checked (\<lambda>r. length (enr_enrollment_code r) \<le> 16 \<and>
     length (enr_hostname r) \<le> 255 \<and> length (enr_machine_id r) \<le> 64 \<and> length (enr_agent_version r) \<le> 32 \<and>
     list_all (\<lambda>(_, lp). length (lp_daily_limits_s lp) = 7) (enr_local_policies r))"

record enroll_response =
  ens_device_id :: uuid
  ens_device_token :: string
  ens_hub_time :: instant
  ens_hub_tz :: string
  ens_next_poll_ms :: int
  ens_new_users :: "username list"
  ens_policies :: "(username, policy_payload) dict"
  ens_rebound :: bool
  ens_previously_enrolled_at :: "instant option"

subsection \<open>Sync\<close>

record active_span =
  as_start :: instant
  as_end :: instant
  as_burned_s :: seconds

record sync_observed =
  so_balance_s :: seconds
  so_spent_day_s :: seconds
  so_limit_today_s :: seconds
  so_logged_in :: bool
  so_active :: bool
  so_activity_state :: activity_state_kind

record sync_user_request =
  sq_username :: username
  sq_cumulative_spent_s :: seconds
  sq_active_spans :: "active_span list"
  sq_observed :: sync_observed
  sq_policy_version_applied :: int
  sq_policy_revision_applied :: "string option"
  sq_policy_push_error :: "string option"

record sync_request =
  sreq_agent_time :: instant
  sreq_agent_version :: string
  sreq_users :: "sync_user_request list"

record sync_user_response =
  sr_username :: username
  sr_global_spent_s :: seconds
  sr_effective_limit_today_s :: seconds
  sr_effective_week_limit_s :: seconds
  sr_effective_month_limit_s :: seconds
  sr_enforcement :: enforcement_mode
  sr_policy_version :: int
  sr_policy_revision :: string
  sr_policy :: "policy_payload option"
  sr_offline_policy :: offline_policy_kind
  sr_offline_grace_s :: seconds
  sr_offline_cap_s :: seconds

record sync_response =
  sres_hub_time :: instant
  sres_hub_tz :: string
  sres_day :: string
  sres_iso_week :: string
  sres_month :: string
  sres_next_poll_ms :: int
  sres_users :: "sync_user_response list"

end
