(* ===== verification/Effective_Policy.thy ===== *)
theory Effective_Policy
  imports Wire_Models "HOL-Library.List_Lexorder" "HOL-Library.Char_ord"
begin

section \<open>The effective policy and its revision token\<close>

text \<open>
  Models \<open>core/timekpr_hub_core/effective_policy.py\<close>: the full-week form of the allowed hours,
  the one-day override on top of it, and the revision token that gates the push. The token is
  "version-digest" of the JSON text of the payload with its keys sorted; the JSON value is built
  here, with the sorting, and the text and the BLAKE2s digest of it are the parameter \<open>digest\<close>.
  The properties: an override can always be taken back, and the token depends on the content of
  the payload only and on all of it.
\<close>

definition wire_of_record :: "hour_record \<Rightarrow> wire_hour result" where
  "wire_of_record r = mk_wire_hour (hr_hour r) (hr_start_min r) (hr_end_min r) (hr_unaccounted r)"

definition unrestricted_wire_intervals :: "wire_hour list result" where
  "unrestricted_wire_intervals = rsequence (map wire_of_record (intervals_to_hours unrestricted))"

definition full_day_hours :: "wire_hour list" where
  "full_day_hours = map (\<lambda>h. \<lparr>wh_hour = h, wh_start_min = 0, wh_end_min = 60, wh_unaccounted = False\<rparr>) [0..23]"

definition materialize_allowed_hours :: "wire_hours \<Rightarrow> wire_hours result" where
  "materialize_allowed_hours allowed_hours =
     rbind unrestricted_wire_intervals (\<lambda>unrestricted_wire.
       Inr (map (\<lambda>day. (day, list_or (case dict_get allowed_hours day of None \<Rightarrow> [] | Some hs \<Rightarrow> hs)
                               unrestricted_wire)) WEEKDAY_TOKENS))"

definition with_day_hour_override :: "policy_payload \<Rightarrow> string \<Rightarrow> wire_hour list \<Rightarrow> policy_payload result" where
  "with_day_hour_override payload weekday intervals =
     rbind (materialize_allowed_hours (pp_allowed_hours payload)) (\<lambda>materialized.
       let materialized =
         (if weekday \<in> set (list_or (pp_allowed_weekdays payload) WEEKDAY_TOKENS)
          then dict_set materialized weekday intervals else materialized)
       in Inr (payload\<lparr>pp_allowed_hours := materialized\<rparr>))"

subsection \<open>The canonical JSON value\<close>

datatype json =
    JNull
  | JBool bool
  | JNum int
  | JStr string
  | JArr "json list"
  | JObj "(string \<times> json) list"

text \<open>\<open>sort_keys=True\<close>: every object's members in the order of their keys, at every depth.\<close>

fun sort_keys :: "json \<Rightarrow> json" where
  "sort_keys (JArr js) = JArr (map sort_keys js)"
| "sort_keys (JObj ms) = JObj (sort_key fst (map (\<lambda>(k, v). (k, sort_keys v)) ms))"
| "sort_keys j = j"

definition json_option :: "string option \<Rightarrow> json" where
  "json_option x = (case x of None \<Rightarrow> JNull | Some s \<Rightarrow> JStr s)"

definition hour_json :: "wire_hour \<Rightarrow> json" where
  "hour_json h = JObj [(''hour'', JNum (wh_hour h)), (''start_min'', JNum (wh_start_min h)),
     (''end_min'', JNum (wh_end_min h)), (''unaccounted'', JBool (wh_unaccounted h))]"

definition hours_json :: "wire_hours \<Rightarrow> json" where
  "hours_json d = JObj (map (\<lambda>(day, hs). (day, JArr (map hour_json hs))) d)"

definition activity_json :: "playtime_activity \<Rightarrow> json" where
  "activity_json a = JObj [(''mask'', JStr (pa_mask a)), (''description'', JStr (pa_description a))]"

definition playtime_json :: "playtime_payload \<Rightarrow> json" where
  "playtime_json p = JObj [(''enabled'', JBool (pt_enabled p)),
     (''override_enabled'', JBool (pt_override_enabled p)),
     (''unaccounted_intervals_enabled'', JBool (pt_unaccounted_intervals_enabled p)),
     (''allowed_weekdays'', JArr (map JStr (pt_allowed_weekdays p))),
     (''daily_limits_s'', JArr (map JNum (pt_daily_limits_s p))),
     (''activities'', JArr (map activity_json (pt_activities p)))]"

text \<open>\<open>payload.model_dump(mode="json")\<close>\<close>

definition payload_members :: "policy_payload \<Rightarrow> (string \<times> json) list" where
  "payload_members p =
     [(''version'', JNum (pp_version p)),
      (''daily_limits_s'', JArr (map JNum (pp_daily_limits_s p))),
      (''allowed_hours'', hours_json (pp_allowed_hours p)),
      (''allowed_weekdays'', JArr (map JStr (pp_allowed_weekdays p))),
      (''weekly_limit_s'', JNum (pp_weekly_limit_s p)),
      (''monthly_limit_s'', JNum (pp_monthly_limit_s p)),
      (''lockout_type'', JStr (lockout_value (pp_lockout_type p))),
      (''wake_from'', json_option (pp_wake_from p)),
      (''wake_to'', json_option (pp_wake_to p)),
      (''track_inactive'', JBool (pp_track_inactive p)),
      (''hide_tray_icon'', JBool (pp_hide_tray_icon p)),
      (''playtime'', playtime_json (pp_playtime p)),
      (''note'', JStr (pp_note p))]"

definition payload_json :: "policy_payload \<Rightarrow> json" where
  "payload_json p = JObj (payload_members p)"

type_synonym digest = "json \<Rightarrow> string"

definition policy_revision :: "digest \<Rightarrow> policy_payload \<Rightarrow> string" where
  "policy_revision digest payload =
     str_of_int (pp_version payload) @ ''-'' @ digest (sort_keys (payload_json payload))"

subsection \<open>The full week\<close>

lemma unrestricted_wire [simp]: "unrestricted_wire_intervals = Inr full_day_hours"
proof -
  have u: "[0..23::int] = [0,1,2,3,4,5,6,7,8,9,10,11,12,13,14,15,16,17,18,19,20,21,22,23]"
    by (simp add: upto_rec1)
  have d: "(24 * 60 - 1) div (60::int) = 23" "(0::int) div 60 = 0" by simp_all
  show ?thesis
    unfolding rsequence_Inr_iff unrestricted_wire_intervals_def full_day_hours_def
    by (simp add: unrestricted_def hours_in_day_def interval_hours_def d u
        wire_of_record_def mk_wire_hour_def checked_def valid_wire_hour_def in_bounds_def hour_of_interval_def)
qed

lemma full_day_nonempty [simp]: "full_day_hours \<noteq> []"
  by (simp add: full_day_hours_def)

definition week_entry :: "wire_hours \<Rightarrow> string \<Rightarrow> wire_hour list" where
  "week_entry d day = list_or (case dict_get d day of None \<Rightarrow> [] | Some hs \<Rightarrow> hs) full_day_hours"

definition full_week :: "wire_hours \<Rightarrow> wire_hours" where
  "full_week d = map (\<lambda>day. (day, week_entry d day)) WEEKDAY_TOKENS"

lemma materialize_full_week [simp]: "materialize_allowed_hours d = Inr (full_week d)"
  by (simp add: materialize_allowed_hours_def full_week_def week_entry_def)

lemma week_entry_nonempty: "week_entry d day \<noteq> []"
  by (simp add: week_entry_def list_or_def)

lemma full_week_keys: "map fst (full_week d) = WEEKDAY_TOKENS"
  by (simp add: full_week_def o_def)

lemma weekday_tokens_distinct: "distinct WEEKDAY_TOKENS"
  by (simp add: WEEKDAY_TOKENS_def)

lemma dict_get_map: "dict_get (map (\<lambda>k. (k, f k)) ks) k = (if k \<in> set ks then Some (f k) else None)"
  by (induction ks) (auto simp: dict_get_def)

lemma full_week_get: "dict_get (full_week d) day = (if day \<in> set WEEKDAY_TOKENS then Some (week_entry d day) else None)"
  unfolding full_week_def by (rule dict_get_map)

definition override_applies :: "policy_payload \<Rightarrow> string \<Rightarrow> bool" where
  "override_applies p day \<longleftrightarrow> day \<in> set (list_or (pp_allowed_weekdays p) WEEKDAY_TOKENS)"

lemma with_override:
  "with_day_hour_override p day hs = Inr (p\<lparr>pp_allowed_hours :=
     (if override_applies p day then dict_set (full_week (pp_allowed_hours p)) day hs
      else full_week (pp_allowed_hours p))\<rparr>)"
  by (simp add: with_day_hour_override_def override_applies_def Let_def)

text \<open>
  A one-day override never fails, always spells out all seven weekdays with the other six as
  they were (so the day can be taken back: pushing the same policy without the override restores
  every entry), and leaves the week as it was when the user may not log in on that weekday.
\<close>

theorem override_is_revertible:
  assumes "day \<in> set WEEKDAY_TOKENS"
  shows "\<exists>q. with_day_hour_override p day hs = Inr q \<and>
    map fst (pp_allowed_hours q) = WEEKDAY_TOKENS \<and>
    (\<forall>other. other \<noteq> day \<longrightarrow>
       dict_get (pp_allowed_hours q) other = dict_get (full_week (pp_allowed_hours p)) other) \<and>
    dict_get (pp_allowed_hours q) day = Some (if override_applies p day then hs
       else week_entry (pp_allowed_hours p) day) \<and>
    dict_set (pp_allowed_hours q) day (week_entry (pp_allowed_hours p) day) = full_week (pp_allowed_hours p) \<and>
    q = p\<lparr>pp_allowed_hours := pp_allowed_hours q\<rparr>"
proof -
  have undo: "dict_set (dict_set (full_week d) day hs) day (week_entry d day) = full_week d"
    "dict_set (full_week d) day (week_entry d day) = full_week d" for d
    using assms unfolding full_week_def WEEKDAY_TOKENS_def by (auto simp del: dict_set.simps(1))
  have keys: "map fst (dict_set (full_week d) day hs) = WEEKDAY_TOKENS" for d
    using assms by (subst dict_set_map_keys) (simp_all only: full_week_keys)
  show ?thesis
    using assms by (simp add: with_override undo keys full_week_keys full_week_get)
qed

theorem override_is_revertible_witness:
  "\<exists>q. with_day_hour_override
      \<lparr>pp_version = 1, pp_daily_limits_s = replicate 7 3600, pp_allowed_hours = [],
       pp_allowed_weekdays = [], pp_weekly_limit_s = 25200, pp_monthly_limit_s = 111600,
       pp_lockout_type = LOCK, pp_wake_from = None, pp_wake_to = None, pp_track_inactive = False,
       pp_hide_tray_icon = False, pp_playtime = default_playtime, pp_note = ''''\<rparr> ''2'' [] = Inr q \<and>
    dict_get (pp_allowed_hours q) ''2'' = Some []"
proof -
  let ?p = "\<lparr>pp_version = 1, pp_daily_limits_s = replicate 7 3600, pp_allowed_hours = [],
       pp_allowed_weekdays = [], pp_weekly_limit_s = 25200, pp_monthly_limit_s = 111600,
       pp_lockout_type = LOCK, pp_wake_from = None, pp_wake_to = None, pp_track_inactive = False,
       pp_hide_tray_icon = False, pp_playtime = default_playtime, pp_note = ''''\<rparr>"
  have t: "''2'' \<in> set WEEKDAY_TOKENS" by (simp add: WEEKDAY_TOKENS_def)
  then have "override_applies ?p ''2''" by (simp add: override_applies_def list_or_def)
  with override_is_revertible [OF t, of ?p "[]"] show ?thesis by auto
qed

subsection \<open>What the token sees\<close>

lemma distinct_sort_keys: "distinct (map fst ms) \<Longrightarrow> distinct (map fst (sort_key fst ms))"
  by (metis distinct_map distinct_sort set_sort)

lemma map_of_sort_key:
  assumes "distinct (map fst ms)"
  shows "map_of (sort_key fst ms) = map_of ms"
proof -
  have "distinct (map fst (sort_key fst ms))"
    using assms by (metis distinct_map distinct_sort set_sort)
  then show ?thesis using assms by (simp add: map_of_inject_set)
qed

lemma map_of_sort_keys:
  "distinct (map fst ms) \<Longrightarrow>
   map_of (sort_key fst (map (\<lambda>(k, v). (k, sort_keys v)) ms)) k = map_option sort_keys (map_of ms k)"
  by (subst map_of_sort_key) (simp_all add: map_of_map o_def case_prod_beta comp_def
      flip: map_option_case)

lemma sort_keys_objects:
  assumes "sort_keys (JObj ms) = sort_keys (JObj ns)" "distinct (map fst ms)" "distinct (map fst ns)"
  shows "map_option sort_keys (map_of ms k) = map_option sort_keys (map_of ns k)"
  using assms map_of_sort_keys [of ms k] map_of_sort_keys [of ns k] by simp

lemma sort_keys_arrays:
  assumes "\<And>x y. sort_keys (f x) = sort_keys (f y) \<Longrightarrow> x = y"
    and "map (sort_keys \<circ> f) xs = map (sort_keys \<circ> f) ys"
  shows "xs = ys"
  using assms by (intro inj_onD [OF inj_on_mapI, of "sort_keys \<circ> f" "{xs, ys}" xs ys]) (auto simp: inj_on_def)

lemma map_JNum_inject [simp]: "map (sort_keys \<circ> JNum) xs = map (sort_keys \<circ> JNum) ys \<longleftrightarrow> xs = ys"
  using sort_keys_arrays [of JNum xs ys] by auto

lemma map_JStr_inject [simp]: "map (sort_keys \<circ> JStr) xs = map (sort_keys \<circ> JStr) ys \<longleftrightarrow> xs = ys"
  using sort_keys_arrays [of JStr xs ys] by auto

lemma hour_json_inject:
  assumes "sort_keys (hour_json h) = sort_keys (hour_json h')"
  shows "h = h'"
proof -
  note m = sort_keys_objects [OF assms [unfolded hour_json_def]]
  show ?thesis
    using m [of "''hour''"] m [of "''start_min''"] m [of "''end_min''"] m [of "''unaccounted''"]
    by (cases h; cases h') simp
qed

lemma activity_json_inject:
  assumes "sort_keys (activity_json a) = sort_keys (activity_json a')"
  shows "a = a'"
proof -
  note m = sort_keys_objects [OF assms [unfolded activity_json_def]]
  show ?thesis using m [of "''mask''"] m [of "''description''"] by (cases a; cases a') simp
qed

lemma map_hour_json_inject [simp]:
  "map (sort_keys \<circ> hour_json) xs = map (sort_keys \<circ> hour_json) ys \<longleftrightarrow> xs = ys"
  using sort_keys_arrays [of hour_json xs ys] hour_json_inject by auto

lemma map_activity_json_inject [simp]:
  "map (sort_keys \<circ> activity_json) xs = map (sort_keys \<circ> activity_json) ys \<longleftrightarrow> xs = ys"
  using sort_keys_arrays [of activity_json xs ys] activity_json_inject by auto

lemma playtime_json_inject:
  assumes "sort_keys (playtime_json p) = sort_keys (playtime_json p')"
  shows "p = p'"
proof -
  note m = sort_keys_objects [OF assms [unfolded playtime_json_def]]
  show ?thesis
    using m [of "''enabled''"] m [of "''override_enabled''"] m [of "''unaccounted_intervals_enabled''"]
      m [of "''allowed_weekdays''"] m [of "''daily_limits_s''"] m [of "''activities''"]
    by (cases p; cases p') simp
qed

lemma hours_json_inject:
  assumes "sort_keys (hours_json d) = sort_keys (hours_json d')"
    and "distinct (map fst d)" "distinct (map fst d')"
  shows "map_of d = map_of d'"
proof
  fix k :: string
  have keys: "map fst (map (\<lambda>(day, hs). (day, JArr (map hour_json hs))) e) = map fst e" for e
    by (simp add: o_def case_prod_beta)
  have get: "map_of (map (\<lambda>(day, hs). (day, JArr (map hour_json hs))) e) k
      = map_option (\<lambda>hs. JArr (map hour_json hs)) (map_of e k)" for e
    by (induction e) auto
  have "map_option sort_keys (map_option (\<lambda>hs. JArr (map hour_json hs)) (map_of d k))
      = map_option sort_keys (map_option (\<lambda>hs. JArr (map hour_json hs)) (map_of d' k))"
    unfolding get [symmetric]
    by (rule sort_keys_objects [OF assms(1) [unfolded hours_json_def]]) (simp_all only: keys assms)
  then show "map_of d k = map_of d' k"
    by (cases "map_of d k"; cases "map_of d' k") simp_all
qed

lemma json_option_inject: "sort_keys (json_option x) = sort_keys (json_option y) \<Longrightarrow> x = y"
  by (simp add: json_option_def split: option.splits)

lemma lockout_value_inject: "lockout_value l = lockout_value l' \<Longrightarrow> l = l'"
  by (metis lockout_of_value sum.inject(2))

definition same_content :: "policy_payload \<Rightarrow> policy_payload \<Rightarrow> bool" where
  "same_content p q \<longleftrightarrow> map_of (pp_allowed_hours p) = map_of (pp_allowed_hours q) \<and>
     pp_version p = pp_version q \<and> pp_daily_limits_s p = pp_daily_limits_s q \<and> pp_allowed_weekdays p = pp_allowed_weekdays q \<and>
     pp_weekly_limit_s p = pp_weekly_limit_s q \<and> pp_monthly_limit_s p = pp_monthly_limit_s q \<and> pp_lockout_type p = pp_lockout_type q \<and>
     pp_wake_from p = pp_wake_from q \<and> pp_wake_to p = pp_wake_to q \<and> pp_track_inactive p = pp_track_inactive q \<and>
     pp_hide_tray_icon p = pp_hide_tray_icon q \<and> pp_playtime p = pp_playtime q \<and> pp_note p = pp_note q"

lemma payload_json_inject:
  assumes eq: "sort_keys (payload_json p) = sort_keys (payload_json q)"
    and d: "distinct (map fst (pp_allowed_hours p))" "distinct (map fst (pp_allowed_hours q))"
  shows "same_content p q"
proof -
  have dm: "distinct (map fst (payload_members r))" for r by (simp add: payload_members_def)
  note m = sort_keys_objects [OF eq [unfolded payload_json_def] dm dm]
  have hours: "sort_keys (hours_json (pp_allowed_hours p)) = sort_keys (hours_json (pp_allowed_hours q))"
    using m [of "''allowed_hours''"] by (simp add: payload_members_def)
  have play: "pp_playtime p = pp_playtime q"
    using m [of "''playtime''"] by (intro playtime_json_inject) (simp add: payload_members_def)
  have wake: "pp_wake_from p = pp_wake_from q" "pp_wake_to p = pp_wake_to q"
    using m [of "''wake_from''"] m [of "''wake_to''"]
    by (auto intro: json_option_inject simp: payload_members_def)
  have lock: "pp_lockout_type p = pp_lockout_type q"
    using m [of "''lockout_type''"] by (intro lockout_value_inject) (simp add: payload_members_def)
  have version: "pp_version p = pp_version q" using m [of "''version''"] by (simp add: payload_members_def)
  have daily_limits_s: "pp_daily_limits_s p = pp_daily_limits_s q" using m [of "''daily_limits_s''"] by (simp add: payload_members_def)
  have allowed_weekdays: "pp_allowed_weekdays p = pp_allowed_weekdays q" using m [of "''allowed_weekdays''"] by (simp add: payload_members_def)
  have weekly_limit_s: "pp_weekly_limit_s p = pp_weekly_limit_s q" using m [of "''weekly_limit_s''"] by (simp add: payload_members_def)
  have monthly_limit_s: "pp_monthly_limit_s p = pp_monthly_limit_s q" using m [of "''monthly_limit_s''"] by (simp add: payload_members_def)
  have track_inactive: "pp_track_inactive p = pp_track_inactive q" using m [of "''track_inactive''"] by (simp add: payload_members_def)
  have hide_tray_icon: "pp_hide_tray_icon p = pp_hide_tray_icon q" using m [of "''hide_tray_icon''"] by (simp add: payload_members_def)
  have the_note: "pp_note p = pp_note q" using m [of "''note''"] by (simp add: payload_members_def)
  show ?thesis
    using hours_json_inject [OF hours d] play wake lock
      version daily_limits_s allowed_weekdays weekly_limit_s monthly_limit_s track_inactive hide_tray_icon the_note
    by (simp add: same_content_def)
qed

lemma payload_json_content:
  assumes "same_content p q"
    and d: "distinct (map fst (pp_allowed_hours p))" "distinct (map fst (pp_allowed_hours q))"
  shows "sort_keys (payload_json p) = sort_keys (payload_json q)"
proof -
  let ?f = "\<lambda>(day, hs). (day :: string, sort_keys (JArr (map hour_json hs)))"
  have s: "set (pp_allowed_hours p) = set (pp_allowed_hours q)"
    using assms(1) d by (simp add: same_content_def map_of_inject_set)
  have m: "mset (pp_allowed_hours p) = mset (pp_allowed_hours q)"
    using s d by (metis distinct_map set_eq_iff_mset_eq_distinct)
  have keys: "map fst (map ?f e) = map fst e" for e by (simp add: o_def case_prod_beta)
  have "sort_key fst (map ?f (pp_allowed_hours p)) = sort_key fst (map ?f (pp_allowed_hours q))"
  proof (rule sort_key_unique)
    show "mset (sort_key fst (map ?f (pp_allowed_hours q))) = mset (map ?f (pp_allowed_hours p))"
      using m by simp
    have "distinct (map fst (map ?f (pp_allowed_hours q)))" using d(2) by (simp only: keys)
    then show "distinct (map fst (sort_key fst (map ?f (pp_allowed_hours q))))"
      by (rule distinct_sort_keys)
  qed simp
  then have "sort_keys (hours_json (pp_allowed_hours p)) = sort_keys (hours_json (pp_allowed_hours q))"
    by (simp add: hours_json_def o_def split_def)
  then have "map (\<lambda>(k, v). (k, sort_keys v)) (payload_members p)
      = map (\<lambda>(k, v). (k, sort_keys v)) (payload_members q)"
    using assms(1) by (simp add: payload_members_def same_content_def)
  then show ?thesis unfolding payload_json_def sort_keys.simps by simp
qed

text \<open>
  C34. The revision token sees the content of the payload and nothing else: payloads with the same
  content have the same token whatever the order of the keys of \<open>allowed_hours\<close>, and with a digest
  of fixed length that does not collide on the two payloads, the same token means the same content.
\<close>

theorem revision_is_content:
  assumes "distinct (map fst (pp_allowed_hours p)) \<and> distinct (map fst (pp_allowed_hours q))"
    and "\<forall>j. length (digest j) = 16"
    and "inj_on digest {sort_keys (payload_json p), sort_keys (payload_json q)}"
  shows "policy_revision digest p = policy_revision digest q \<longleftrightarrow> same_content p q"
proof
  assume "policy_revision digest p = policy_revision digest q"
  then have "digest (sort_keys (payload_json p)) = digest (sort_keys (payload_json q))"
    using assms(2) append_eq_append_conv [of "str_of_int (pp_version p)" "str_of_int (pp_version q)"
        "''-'' @ digest (sort_keys (payload_json p))" "''-'' @ digest (sort_keys (payload_json q))"]
    by (simp add: policy_revision_def)
  then have "sort_keys (payload_json p) = sort_keys (payload_json q)"
    by (rule inj_onD [OF assms(3)]) simp_all
  then show "same_content p q"
    using assms(1) by (intro payload_json_inject) simp_all
next
  assume c: "same_content p q"
  then have "pp_version p = pp_version q" by (simp add: same_content_def)
  then show "policy_revision digest p = policy_revision digest q"
    using payload_json_content [OF c] assms(1) by (simp add: policy_revision_def)
qed

theorem revision_is_content_witness:
  "\<exists>p q. p \<noteq> q \<and> policy_revision (\<lambda>j. replicate 16 (CHR ''a'')) p = policy_revision (\<lambda>j. replicate 16 (CHR ''a'')) q"
proof -
  define p where "p = \<lparr>pp_version = 1, pp_daily_limits_s = replicate 7 3600,
       pp_allowed_hours = [(''1'', []), (''2'', full_day_hours)],
       pp_allowed_weekdays = [], pp_weekly_limit_s = 25200, pp_monthly_limit_s = 111600,
       pp_lockout_type = LOCK, pp_wake_from = None, pp_wake_to = None, pp_track_inactive = False,
       pp_hide_tray_icon = False, pp_playtime = default_playtime, pp_note = ''''\<rparr>"
  define q where "q = p\<lparr>pp_allowed_hours := [(''2'', full_day_hours), (''1'', [])]\<rparr>"
  have d: "distinct (map fst (pp_allowed_hours p)) \<and> distinct (map fst (pp_allowed_hours q))"
    by (simp add: p_def q_def)
  have c: "same_content p q" by (auto simp: same_content_def p_def q_def)
  then have "sort_keys (payload_json p) = sort_keys (payload_json q)"
    using d by (intro payload_json_content) auto
  then have "policy_revision (\<lambda>j. replicate 16 (CHR ''a'')) p = policy_revision (\<lambda>j. replicate 16 (CHR ''a'')) q"
    using revision_is_content [OF d, of "\<lambda>j. replicate 16 (CHR ''a'')"] c by simp
  moreover have "pp_allowed_hours p \<noteq> pp_allowed_hours q" by (simp add: p_def q_def)
  ultimately show ?thesis by metis
qed

end
