(* ===== verification/Agent_State.thy ===== *)
theory Agent_State
  imports Effective_Policy
begin

section \<open>The agent's persisted state\<close>

text \<open>
  Models \<open>agent/timekpr_hub_agent/state.py\<close>: the per-user state with its defaults, the state of the
  agent and the JSON value that \<open>save\<close> writes and \<open>load\<close> reads. Wall-clock floats are microseconds
  since the epoch, 0 meaning "never". A file that is missing, unreadable or not JSON is
  \<open>None\<close> for \<open>load\<close>. Python does not check the types of the values in the file; \<open>load\<close> is
  modelled for files whose known keys hold values of the declared types and answers the default
  of a field otherwise. The atomic rename is the file system's and not modelled.
\<close>

record user_state =
  ust_day :: string
  ust_cum_local_s :: seconds
  ust_raw_prev_s :: seconds
  ust_applied_offset_s :: seconds
  ust_policy_version_applied :: int
  ust_policy_revision_applied :: string
  ust_last_enforcement :: string
  ust_last_policy_push_error :: "string option"
  ust_last_effective_limit_today_s :: seconds
  ust_last_global_spent_s :: seconds
  ust_last_hub_contact_utc :: instant
  ust_last_offline_policy :: string
  ust_last_offline_grace_s :: seconds
  ust_last_offline_cap_s :: seconds
  ust_cum_local_at_contact_s :: seconds
  ust_last_tick_utc :: instant
  ust_pending_spans :: "active_span list"

definition new_user_state :: user_state where
  "new_user_state = \<lparr>ust_day = '''', ust_cum_local_s = 0, ust_raw_prev_s = 0, ust_applied_offset_s = 0,
     ust_policy_version_applied = 0, ust_policy_revision_applied = '''', ust_last_enforcement = '''',
     ust_last_policy_push_error = None, ust_last_effective_limit_today_s = 0,
     ust_last_global_spent_s = 0, ust_last_hub_contact_utc = 0, ust_last_offline_policy = ''capped'',
     ust_last_offline_grace_s = 900, ust_last_offline_cap_s = 1800, ust_cum_local_at_contact_s = 0,
     ust_last_tick_utc = 0, ust_pending_spans = []\<rparr>"

record agent_state =
  ag_users :: "(username, user_state) dict"
  ag_hub_tz :: string

definition new_agent_state :: agent_state where
  "new_agent_state = \<lparr>ag_users = [], ag_hub_tz = ''''\<rparr>"

text \<open>\<open>state.user(username)\<close>: the user's state, created with the defaults when it is not there.\<close>

definition state_user :: "username \<Rightarrow> agent_state \<Rightarrow> user_state" where
  "state_user username st = dict_get_or (ag_users st) username new_user_state"

definition set_state_user :: "username \<Rightarrow> user_state \<Rightarrow> agent_state \<Rightarrow> agent_state" where
  "set_state_user username us st = st\<lparr>ag_users := dict_set (ag_users st) username us\<rparr>"

lemma state_user_set [simp]:
  "state_user u (set_state_user v us st) = (if u = v then us else state_user u st)"
  by (simp add: state_user_def set_state_user_def dict_get_or_def)

lemma hub_tz_set [simp]: "ag_hub_tz (set_state_user v us st) = ag_hub_tz st"
  by (simp add: set_state_user_def)

lemma state_user_tz [simp]: "state_user u (st\<lparr>ag_hub_tz := z\<rparr>) = state_user u st"
  by (simp add: state_user_def)

subsection \<open>The state file\<close>

definition span_json :: "active_span \<Rightarrow> json" where
  "span_json s = JObj [(''start'', JNum (as_start s)), (''end'', JNum (as_end s)), (''burned_s'', JNum (as_burned_s s))]"

definition user_json :: "user_state \<Rightarrow> json" where
  "user_json u = JObj
     [(''day'', JStr (ust_day u)), (''cum_local_s'', JNum (ust_cum_local_s u)),
      (''raw_prev_s'', JNum (ust_raw_prev_s u)), (''applied_offset_s'', JNum (ust_applied_offset_s u)),
      (''policy_version_applied'', JNum (ust_policy_version_applied u)),
      (''policy_revision_applied'', JStr (ust_policy_revision_applied u)),
      (''last_enforcement'', JStr (ust_last_enforcement u)),
      (''last_policy_push_error'', json_option (ust_last_policy_push_error u)),
      (''last_effective_limit_today_s'', JNum (ust_last_effective_limit_today_s u)),
      (''last_global_spent_s'', JNum (ust_last_global_spent_s u)),
      (''last_hub_contact_utc'', JNum (ust_last_hub_contact_utc u)),
      (''last_offline_policy'', JStr (ust_last_offline_policy u)),
      (''last_offline_grace_s'', JNum (ust_last_offline_grace_s u)),
      (''last_offline_cap_s'', JNum (ust_last_offline_cap_s u)),
      (''cum_local_at_contact_s'', JNum (ust_cum_local_at_contact_s u)),
      (''last_tick_utc'', JNum (ust_last_tick_utc u)),
      (''pending_spans'', JArr (map span_json (ust_pending_spans u)))]"

definition save :: "agent_state \<Rightarrow> json" where
  "save st = JObj [(''hub_tz'', JStr (ag_hub_tz st)),
     (''users'', JObj (map (\<lambda>(name, u). (name, user_json u)) (ag_users st)))]"

text \<open>Typed reads of a JSON object's member, with the field's default.\<close>

definition j_num :: "(string \<times> json) list \<Rightarrow> string \<Rightarrow> int \<Rightarrow> int" where
  "j_num ms k d = (case map_of ms k of Some (JNum n) \<Rightarrow> n | _ \<Rightarrow> d)"

definition j_str :: "(string \<times> json) list \<Rightarrow> string \<Rightarrow> string \<Rightarrow> string" where
  "j_str ms k d = (case map_of ms k of Some (JStr s) \<Rightarrow> s | _ \<Rightarrow> d)"

definition j_opt :: "(string \<times> json) list \<Rightarrow> string \<Rightarrow> string option" where
  "j_opt ms k = (case map_of ms k of Some (JStr s) \<Rightarrow> Some s | _ \<Rightarrow> None)"

definition load_span :: "json \<Rightarrow> active_span" where
  "load_span j = (case j of JObj ms \<Rightarrow>
       \<lparr>as_start = j_num ms ''start'' 0, as_end = j_num ms ''end'' 0, as_burned_s = j_num ms ''burned_s'' 0\<rparr>
     | _ \<Rightarrow> \<lparr>as_start = 0, as_end = 0, as_burned_s = 0\<rparr>)"

definition load_user :: "(string \<times> json) list \<Rightarrow> user_state" where
  "load_user ms = (let d = new_user_state in
     \<lparr>ust_day = j_str ms ''day'' (ust_day d),
      ust_cum_local_s = j_num ms ''cum_local_s'' (ust_cum_local_s d),
      ust_raw_prev_s = j_num ms ''raw_prev_s'' (ust_raw_prev_s d),
      ust_applied_offset_s = j_num ms ''applied_offset_s'' (ust_applied_offset_s d),
      ust_policy_version_applied = j_num ms ''policy_version_applied'' (ust_policy_version_applied d),
      ust_policy_revision_applied = j_str ms ''policy_revision_applied'' (ust_policy_revision_applied d),
      ust_last_enforcement = j_str ms ''last_enforcement'' (ust_last_enforcement d),
      ust_last_policy_push_error = j_opt ms ''last_policy_push_error'',
      ust_last_effective_limit_today_s = j_num ms ''last_effective_limit_today_s'' (ust_last_effective_limit_today_s d),
      ust_last_global_spent_s = j_num ms ''last_global_spent_s'' (ust_last_global_spent_s d),
      ust_last_hub_contact_utc = j_num ms ''last_hub_contact_utc'' (ust_last_hub_contact_utc d),
      ust_last_offline_policy = j_str ms ''last_offline_policy'' (ust_last_offline_policy d),
      ust_last_offline_grace_s = j_num ms ''last_offline_grace_s'' (ust_last_offline_grace_s d),
      ust_last_offline_cap_s = j_num ms ''last_offline_cap_s'' (ust_last_offline_cap_s d),
      ust_cum_local_at_contact_s = j_num ms ''cum_local_at_contact_s'' (ust_cum_local_at_contact_s d),
      ust_last_tick_utc = j_num ms ''last_tick_utc'' (ust_last_tick_utc d),
      ust_pending_spans = (case map_of ms ''pending_spans'' of Some (JArr js) \<Rightarrow> map load_span js | _ \<Rightarrow> [])\<rparr>)"

definition load_users :: "(string \<times> json) list \<Rightarrow> (username, user_state) dict" where
  "load_users raw = foldl (\<lambda>users (name, user_raw).
     (case user_raw of JObj ms \<Rightarrow> dict_set users name (load_user ms) | _ \<Rightarrow> users)) [] raw"

definition load :: "json option \<Rightarrow> agent_state" where
  "load text = (case text of
       Some (JObj raw) \<Rightarrow>
         \<lparr>ag_users = (case map_of raw ''users'' of Some (JObj us) \<Rightarrow> load_users us | _ \<Rightarrow> []),
          ag_hub_tz = j_str raw ''hub_tz'' ''''\<rparr>
     | _ \<Rightarrow> new_agent_state)"

subsection \<open>Loading what was saved\<close>

lemma load_span_json [simp]: "load_span (span_json s) = s"
  by (cases s) (simp add: load_span_def span_json_def j_num_def)

lemma map_load_span [simp]: "map load_span (map span_json ss) = ss"
  by (induction ss) simp_all

definition user_members :: "user_state \<Rightarrow> (string \<times> json) list" where
  "user_members u = (case user_json u of JObj ms \<Rightarrow> ms | _ \<Rightarrow> [])"

lemma user_json_members: "user_json u = JObj (user_members u)"
  by (simp add: user_members_def user_json_def)

lemma user_members_get:
  "map_of (user_members u) ''day'' = Some (JStr (ust_day u))"
  "map_of (user_members u) ''cum_local_s'' = Some (JNum (ust_cum_local_s u))"
  "map_of (user_members u) ''raw_prev_s'' = Some (JNum (ust_raw_prev_s u))"
  "map_of (user_members u) ''applied_offset_s'' = Some (JNum (ust_applied_offset_s u))"
  "map_of (user_members u) ''policy_version_applied'' = Some (JNum (ust_policy_version_applied u))"
  "map_of (user_members u) ''policy_revision_applied'' = Some (JStr (ust_policy_revision_applied u))"
  "map_of (user_members u) ''last_enforcement'' = Some (JStr (ust_last_enforcement u))"
  "map_of (user_members u) ''last_policy_push_error'' = Some (json_option (ust_last_policy_push_error u))"
  "map_of (user_members u) ''last_effective_limit_today_s'' = Some (JNum (ust_last_effective_limit_today_s u))"
  "map_of (user_members u) ''last_global_spent_s'' = Some (JNum (ust_last_global_spent_s u))"
  "map_of (user_members u) ''last_hub_contact_utc'' = Some (JNum (ust_last_hub_contact_utc u))"
  "map_of (user_members u) ''last_offline_policy'' = Some (JStr (ust_last_offline_policy u))"
  "map_of (user_members u) ''last_offline_grace_s'' = Some (JNum (ust_last_offline_grace_s u))"
  "map_of (user_members u) ''last_offline_cap_s'' = Some (JNum (ust_last_offline_cap_s u))"
  "map_of (user_members u) ''cum_local_at_contact_s'' = Some (JNum (ust_cum_local_at_contact_s u))"
  "map_of (user_members u) ''last_tick_utc'' = Some (JNum (ust_last_tick_utc u))"
  "map_of (user_members u) ''pending_spans'' = Some (JArr (map span_json (ust_pending_spans u)))"
  by (simp_all add: user_members_def user_json_def)

lemma load_user_members [simp]: "load_user (user_members u) = u"
proof -
  have "j_opt (user_members u) ''last_policy_push_error'' = ust_last_policy_push_error u"
    by (simp add: j_opt_def user_members_get json_option_def split: option.splits)
  then show ?thesis
    unfolding load_user_def Let_def by (simp add: j_num_def j_str_def user_members_get del: map_map)
qed

text \<open>Keys that the dataclass does not know are dropped.\<close>

definition known_fields :: "string set" where
  "known_fields = fst ` set (user_members new_user_state)"

lemma load_user_known:
  "(\<And>k. k \<in> known_fields \<Longrightarrow> map_of ms k = map_of ns k) \<Longrightarrow> load_user ms = load_user ns"
proof -
  assume eq: "\<And>k. k \<in> known_fields \<Longrightarrow> map_of ms k = map_of ns k"
  have num: "j_num ms k = j_num ns k" and str: "j_str ms k = j_str ns k" and opt: "j_opt ms k = j_opt ns k"
    if "k \<in> known_fields" for k
    using eq [OF that] by (simp_all add: j_num_def j_str_def j_opt_def fun_eq_iff)
  have known: "set [''day'', ''cum_local_s'', ''raw_prev_s'', ''applied_offset_s'', ''policy_version_applied'',
      ''policy_revision_applied'', ''last_enforcement'', ''last_policy_push_error'',
      ''last_effective_limit_today_s'', ''last_global_spent_s'', ''last_hub_contact_utc'',
      ''last_offline_policy'', ''last_offline_grace_s'', ''last_offline_cap_s'', ''cum_local_at_contact_s'',
      ''last_tick_utc'', ''pending_spans''] \<subseteq> known_fields"
    by (simp add: known_fields_def user_members_def user_json_def)
  show ?thesis
    using known by (simp add: load_user_def num str opt eq)
qed

lemma load_users_saved:
  assumes "distinct (map fst us)"
  shows "load_users (map (\<lambda>(name, u). (name, user_json u)) us) = us"
proof -
  have "foldl (\<lambda>users (name, user_raw).
      (case user_raw of JObj ms \<Rightarrow> dict_set users name (load_user ms) | _ \<Rightarrow> users)) ps
      (map (\<lambda>(name, u). (name, user_json u)) us) = ps @ us"
    if "distinct (map fst (ps @ us))" for ps
    using that
  proof (induction us arbitrary: ps)
    case (Cons x us)
    obtain n u where x: "x = (n, u)" by fastforce
    have "n \<notin> set (map fst ps)" using Cons.prems x by auto
    then have "dict_set ps n u = ps @ [(n, u)]" by (rule dict_set_new)
    then show ?case using Cons.IH [of "ps @ [(n, u)]"] Cons.prems by (simp add: x user_json_members)
  qed simp
  from this [of "[]"] assms show ?thesis by (simp add: load_users_def)
qed

lemma load_saved: "distinct (map fst (ag_users st)) \<Longrightarrow> load (Some (save st)) = st"
  using load_users_saved [of "ag_users st"] by (cases st) (simp add: load_def save_def j_str_def)

text \<open>
  The state file is faithful and forgiving: what \<open>save\<close> writes loads back as the same state,
  keys of other agent versions in a user's entry change nothing, and a missing or corrupt file is
  the fresh state.
\<close>

theorem state_roundtrip:
  assumes "distinct (map fst (ag_users st))"
  shows "load (Some (save st)) = st \<and> load None = new_agent_state \<and>
    (fst ` set extra \<inter> known_fields = {} \<longrightarrow> load_user (extra @ user_members u) = u)"
proof (intro conjI impI)
  show "load (Some (save st)) = st"
    by (rule load_saved [OF assms])
  show "load None = new_agent_state" by (simp add: load_def)
  assume "fst ` set extra \<inter> known_fields = {}"
  then have "map_of extra k = None" if "k \<in> known_fields" for k
    using that by (auto simp: map_of_eq_None_iff)
  then have "load_user (extra @ user_members u) = load_user (user_members u)"
    by (intro load_user_known) (simp add: map_add_def)
  then show "load_user (extra @ user_members u) = u" by simp
qed

theorem state_roundtrip_witness:
  "load (Some (save \<lparr>ag_users = [(''kid'', new_user_state)], ag_hub_tz = ''Europe/Lisbon''\<rparr>))
     = \<lparr>ag_users = [(''kid'', new_user_state)], ag_hub_tz = ''Europe/Lisbon''\<rparr>"
  using state_roundtrip [of "\<lparr>ag_users = [(''kid'', new_user_state)], ag_hub_tz = ''Europe/Lisbon''\<rparr>"]
  by simp

end
