(* ===== verification/Enforcer.thy ===== *)
theory Enforcer
  imports Wire_Models
begin

section \<open>The enforcer: timekpr's admin interface\<close>

text \<open>
  Models \<open>agent/timekpr_hub_agent/enforcer.py\<close>. timekpr's own DBUS connector is not part of the
  repository: it is the parameter record \<open>connector\<close>, with a connection attempt, the information
  reply of one user (None when timekpr answers a non-zero result) and one call per setter. The
  DBUS wrappers around the values (dbus.Int32, dbus.String, ..) are dropped; a key that the reply
  does not carry is \<open>None\<close>. The rest of the agent talks to an enforcer through the three
  operations collected in \<open>enforcer_ops\<close>.
\<close>

datatype setter =
    SetTimeLeft string seconds
  | SetTimeLimitForDays "seconds list"
  | SetTimeLimitForWeek seconds
  | SetTimeLimitForMonth seconds
  | SetAllowedDays "string list"
  | SetAllowedHours string hours_payload
  | SetTrackInactive bool
  | SetHideTrayIcon bool
  | SetLockoutType string string string
  | SetPlayTimeEnabled bool
  | SetPlayTimeLimitOverride bool
  | SetPlayTimeUnaccountedIntervalsEnabled bool
  | SetPlayTimeAllowedDays "string list"
  | SetPlayTimeLimitsForDays "seconds list"
  | SetPlayTimeActivities "(string \<times> string) list"

text \<open>One record of an ALLOWED_HOURS_n reply: STARTMIN, ENDMIN and UACC when present.\<close>

type_synonym raw_hours = "(string, int \<times> int \<times> bool option) dict"

definition normalize_hours :: "raw_hours \<Rightarrow> hours_payload" where
  "normalize_hours raw = map (\<lambda>(hour, s, e, u). (hour, s, e, (case u of None \<Rightarrow> False | Some b \<Rightarrow> b))) raw"

record timekpr_info =
  ti_actual_spent_balance :: "seconds option"
  ti_actual_spent_day :: "seconds option"
  ti_spent_balance :: "seconds option"
  ti_spent_day :: "seconds option"
  ti_limits_per_weekdays :: "seconds list option"
  ti_limit_per_week :: "seconds option"
  ti_limit_per_month :: "seconds option"
  ti_track_inactive :: "bool option"
  ti_hide_tray_icon :: "bool option"
  ti_lockout_type :: "string option"
  ti_wakeup_hour_interval :: "string option"
  ti_allowed_weekdays :: "string list option"
  ti_allowed_hours :: "(string, raw_hours) dict"
  ti_playtime_enabled :: "bool option"
  ti_playtime_limit_override :: "bool option"
  ti_playtime_unaccounted :: "bool option"
  ti_playtime_allowed_weekdays :: "string list option"
  ti_playtime_limits :: "seconds list option"
  ti_playtime_activities :: "(string \<times> string option) list option"

record 'd connector =
  init_connection :: "'d \<Rightarrow> bool \<times> 'd"
  admin_config :: "username \<Rightarrow> 'd \<Rightarrow> timekpr_info option"
  admin_call :: "username \<Rightarrow> setter \<Rightarrow> 'd \<Rightarrow> int \<times> 'd"
  admin_users :: "'d \<Rightarrow> (username \<times> string) list option"

record user_observation =
  uo_balance_s :: seconds
  uo_spent_day_s :: seconds
  uo_limit_today_s :: seconds
  uo_logged_in :: bool
  uo_active :: bool

text \<open>The readback of \<open>get_applied_policy\<close>; an absent key is None.\<close>

record applied_policy =
  ap_allowed_weekdays :: "string list option"
  ap_limits_per_weekdays :: "seconds list option"
  ap_limit_per_week :: "seconds option"
  ap_limit_per_month :: "seconds option"
  ap_track_inactive :: "bool option"
  ap_hide_tray_icon :: "bool option"
  ap_lockout_type :: "string option"
  ap_wakeup_hour_interval :: "string option"
  ap_allowed_hours :: "(string, hours_payload) dict"
  ap_playtime_enabled :: "bool option"
  ap_playtime_limit_override :: "bool option"
  ap_playtime_unaccounted :: "bool option"
  ap_playtime_allowed_weekdays :: "string list option"
  ap_playtime_limits :: "seconds list option"
  ap_playtime_activities :: "(string \<times> string) list option"

subsection \<open>TimekprEnforcer\<close>

record 'd timekpr_enforcer =
  te_connected :: bool
  te_device :: 'd

definition te_connect :: "'d connector \<Rightarrow> 'd timekpr_enforcer \<Rightarrow> bool \<times> 'd timekpr_enforcer" where
  "te_connect c e = (case init_connection c (te_device e) of (up, d) \<Rightarrow>
     (up, e\<lparr>te_connected := up, te_device := d\<rparr>))"

text \<open>\<open>not self._connected and not self.connect()\<close>: true when the call must give up.\<close>

definition te_unavailable :: "'d connector \<Rightarrow> 'd timekpr_enforcer \<Rightarrow> bool \<times> 'd timekpr_enforcer" where
  "te_unavailable c e =
     (if te_connected e then (False, e)
      else case te_connect c e of (up, e) \<Rightarrow> (\<not> up, e))"

definition te_call :: "'d connector \<Rightarrow> username \<Rightarrow> setter \<Rightarrow> 'd timekpr_enforcer \<Rightarrow> bool \<times> 'd timekpr_enforcer" where
  "te_call c username s e =
     (case te_unavailable c e of (gone, e) \<Rightarrow>
        if gone then (False, e)
        else case admin_call c username s (te_device e) of (res, d) \<Rightarrow>
               (res = 0, e\<lparr>te_device := d\<rparr>))"

text \<open>
  The setters are \<open>_call\<close> with their DBUS method, except \<open>set_allowed_hours\<close>, which refuses an empty
  dict before any call.
\<close>

definition te_set :: "'d connector \<Rightarrow> username \<Rightarrow> setter \<Rightarrow> 'd timekpr_enforcer \<Rightarrow> bool \<times> 'd timekpr_enforcer" where
  "te_set c username s e =
     (case s of
        SetAllowedHours day hours \<Rightarrow> if hours = [] then (False, e) else te_call c username s e
      | _ \<Rightarrow> te_call c username s e)"

definition require :: "'a option \<Rightarrow> 'a result" where
  "require x = (case x of None \<Rightarrow> Inl KeyError | Some v \<Rightarrow> Inr v)"

text \<open>\<open>today\<close> is \<open>datetime.now().isoweekday()\<close> on the device's own clock.\<close>

definition observation_of_info :: "int \<Rightarrow> timekpr_info \<Rightarrow> user_observation result" where
  "observation_of_info today info =
     (let logged_in = (ti_actual_spent_day info \<noteq> None)
      in rbind (if logged_in then require (ti_actual_spent_balance info) else require (ti_spent_balance info)) (\<lambda>balance.
         rbind (if logged_in then require (ti_actual_spent_day info) else require (ti_spent_day info)) (\<lambda>spent_day.
         rbind (require (ti_limits_per_weekdays info)) (\<lambda>limits_per_weekday.
         rbind (py_index limits_per_weekday (today - 1)) (\<lambda>limit_today.
           Inr \<lparr>uo_balance_s = balance, uo_spent_day_s = spent_day, uo_limit_today_s = limit_today,
                uo_logged_in = logged_in, uo_active = logged_in\<rparr>)))))"

definition te_get_user_observation :: "'d connector \<Rightarrow> int \<Rightarrow> username \<Rightarrow> 'd timekpr_enforcer
    \<Rightarrow> (user_observation option \<times> 'd timekpr_enforcer) result" where
  "te_get_user_observation c today username e =
     (case te_unavailable c e of (gone, e) \<Rightarrow>
        if gone then Inr (None, e)
        else case admin_config c username (te_device e) of
            None \<Rightarrow> Inr (None, e)
          | Some info \<Rightarrow> rbind (observation_of_info today info) (\<lambda>ob. Inr (Some ob, e)))"

definition te_user_config :: "'d connector \<Rightarrow> username \<Rightarrow> 'd timekpr_enforcer
    \<Rightarrow> timekpr_info option \<times> 'd timekpr_enforcer" where
  "te_user_config c username e =
     (case te_unavailable c e of (gone, e) \<Rightarrow>
        if gone then (None, e) else (admin_config c username (te_device e), e))"

definition applied_of_info :: "timekpr_info \<Rightarrow> applied_policy" where
  "applied_of_info info =
     \<lparr>ap_allowed_weekdays = ti_allowed_weekdays info,
      ap_limits_per_weekdays = ti_limits_per_weekdays info,
      ap_limit_per_week = ti_limit_per_week info, ap_limit_per_month = ti_limit_per_month info,
      ap_track_inactive = ti_track_inactive info, ap_hide_tray_icon = ti_hide_tray_icon info,
      ap_lockout_type = ti_lockout_type info, ap_wakeup_hour_interval = ti_wakeup_hour_interval info,
      ap_allowed_hours = concat (map (\<lambda>day. case dict_get (ti_allowed_hours info) day of
           None \<Rightarrow> [] | Some raw \<Rightarrow> [(day, normalize_hours raw)]) WEEKDAY_TOKENS),
      ap_playtime_enabled = ti_playtime_enabled info,
      ap_playtime_limit_override = ti_playtime_limit_override info,
      ap_playtime_unaccounted = ti_playtime_unaccounted info,
      ap_playtime_allowed_weekdays = ti_playtime_allowed_weekdays info,
      ap_playtime_limits = ti_playtime_limits info,
      ap_playtime_activities = map_option (map (\<lambda>(m, d). (m, (case d of None \<Rightarrow> '''' | Some t \<Rightarrow> t))))
        (ti_playtime_activities info)\<rparr>"

definition te_get_applied_policy :: "'d connector \<Rightarrow> username \<Rightarrow> 'd timekpr_enforcer
    \<Rightarrow> applied_policy option \<times> 'd timekpr_enforcer" where
  "te_get_applied_policy c username e =
     (case te_user_config c username e of (info, e) \<Rightarrow> (map_option applied_of_info info, e))"

definition te_get_user_policy_snapshot :: "'d connector \<Rightarrow> username \<Rightarrow> 'd timekpr_enforcer
    \<Rightarrow> (local_policy option \<times> 'd timekpr_enforcer) result" where
  "te_get_user_policy_snapshot c username e =
     (case te_user_config c username e of (info, e) \<Rightarrow>
        (case info of
           None \<Rightarrow> Inr (None, e)
         | Some info \<Rightarrow>
             rbind (require (ti_limits_per_weekdays info)) (\<lambda>daily.
             rbind (require (ti_limit_per_week info)) (\<lambda>weekly.
             rbind (require (ti_limit_per_month info)) (\<lambda>monthly.
             rbind (require (ti_allowed_weekdays info)) (\<lambda>days.
               Inr (Some \<lparr>lp_daily_limits_s = daily, lp_weekly_limit_s = weekly,
                          lp_monthly_limit_s = monthly, lp_allowed_weekdays = days\<rparr>, e)))))))"

definition te_get_user_list :: "'d connector \<Rightarrow> 'd timekpr_enforcer \<Rightarrow> username list \<times> 'd timekpr_enforcer" where
  "te_get_user_list c e =
     (case te_unavailable c e of (gone, e) \<Rightarrow>
        if gone then ([], e)
        else (case admin_users c (te_device e) of None \<Rightarrow> [] | Some us \<Rightarrow> map fst us, e))"

subsection \<open>What the rest of the agent calls\<close>

record 'e enforcer_ops =
  op_observe :: "username \<Rightarrow> 'e \<Rightarrow> (user_observation option \<times> 'e) result"
  op_set :: "username \<Rightarrow> setter \<Rightarrow> 'e \<Rightarrow> bool \<times> 'e"
  op_applied :: "username \<Rightarrow> 'e \<Rightarrow> applied_policy option \<times> 'e"

definition timekpr_ops :: "'d connector \<Rightarrow> int \<Rightarrow> ('d timekpr_enforcer) enforcer_ops" where
  "timekpr_ops c today = \<lparr>op_observe = te_get_user_observation c today, op_set = te_set c,
     op_applied = te_get_applied_policy c\<rparr>"

subsection \<open>Lemmas\<close>

lemma py_index_inside [simp]: "0 \<le> i \<Longrightarrow> i < int (length xs) \<Longrightarrow> py_index xs i = Inr (xs ! nat i)"
  by (simp add: py_index_def)

lemma py_index_outside: "int (length xs) \<le> i \<Longrightarrow> py_index xs i = Inl IndexError"
  by (simp add: py_index_def)

text \<open>The observation reads the entry at today's weekday number of whatever list timekpr reports.\<close>

lemma observation_limit:
  assumes "observation_of_info today info = Inr ob"
  shows "\<exists>ls. ti_limits_per_weekdays info = Some ls \<and> py_index ls (today - 1) = Inr (uo_limit_today_s ob)"
  using assms by (auto simp: observation_of_info_def require_def rbind_Inr_iff Let_def split: option.splits)

lemma observation_short_list:
  assumes "ti_limits_per_weekdays info = Some ls" "int (length ls) < today"
    and "ti_spent_balance info \<noteq> None" "ti_spent_day info \<noteq> None" "ti_actual_spent_day info = None"
  shows "observation_of_info today info = Inl IndexError"
  using assms py_index_outside [of ls "today - 1"]
  by (auto simp: observation_of_info_def require_def Let_def)

end
