(* ===== verification/Policy_Push.thy ===== *)
theory Policy_Push
  imports Enforcer
begin

section \<open>Pushing a policy\<close>

text \<open>
  Models \<open>agent/timekpr_hub_agent/policy_push.py\<close>: the diffed push of a hub policy to timekpr's
  configuration, step by step, with the setters that were rejected. The payload the agent receives
  is the hub's dump of a \<open>PolicyPayload\<close>, so every key is present. The locale \<open>policy_device\<close> is
  what the push relies on of a device: an accepted setter shows in the readback as
  \<open>apply_setter\<close> says. \<open>Fake_Enforcer\<close> interprets it.
\<close>

definition ALL_WEEKDAYS :: "string list" where
  "ALL_WEEKDAYS = [''1'', ''2'', ''3'', ''4'', ''5'', ''6'', ''7'']"

definition DEFAULT_WAKE_FROM :: string where
  "DEFAULT_WAKE_FROM = ''0''"

definition DEFAULT_WAKE_TO :: string where
  "DEFAULT_WAKE_TO = ''23''"

definition project_daily_limits :: "seconds list \<Rightarrow> string list \<Rightarrow> seconds list result" where
  "project_daily_limits daily_limits allowed_weekdays =
     rsequence (map (\<lambda>day. rbind (py_int day) (\<lambda>n. py_index daily_limits (n - 1))) allowed_weekdays)"

record push =
  pu_ok :: bool
  pu_applied_count :: nat
  pu_skipped_count :: nat
  pu_failed :: "string list"

definition new_push :: push where
  "new_push = \<lparr>pu_ok = True, pu_applied_count = 0, pu_skipped_count = 0, pu_failed = []\<rparr>"

text \<open>
  \<open>same\<close> says that the current value is known and equals the desired one; \<open>current\<close> reads the
  snapshot taken at the start of the push, None standing for \<open>_UNKNOWN\<close>.
\<close>

definition push_current :: "applied_policy option \<Rightarrow> (applied_policy \<Rightarrow> 'v option) \<Rightarrow> 'v option" where
  "push_current applied key = (case applied of None \<Rightarrow> None | Some a \<Rightarrow> key a)"

definition push_step :: "'e enforcer_ops \<Rightarrow> username \<Rightarrow> string \<Rightarrow> bool \<Rightarrow> setter \<Rightarrow> push \<times> 'e
    \<Rightarrow> bool \<times> push \<times> 'e" where
  "push_step ops username label same apply st =
     (case st of (p, e) \<Rightarrow>
        if same then (False, p\<lparr>pu_skipped_count := pu_skipped_count p + 1\<rparr>, e)
        else case op_set ops username apply e of (ok, e) \<Rightarrow>
          (True, p\<lparr>pu_applied_count := pu_applied_count p + 1,
                   pu_ok := (pu_ok p \<and> ok),
                   pu_failed := (if ok then pu_failed p else pu_failed p @ [label])\<rparr>, e))"

text \<open>\<open>s.split(";", 1)\<close>\<close>

definition split_once :: "string \<Rightarrow> string list" where
  "split_once s = (if CHR '';'' \<in> set s
     then [takeWhile (\<lambda>c. c \<noteq> CHR '';'') s, tl (dropWhile (\<lambda>c. c \<noteq> CHR '';'') s)] else [s])"

definition lockout_same :: "applied_policy option \<Rightarrow> string \<Rightarrow> string \<Rightarrow> string \<Rightarrow> bool" where
  "lockout_same applied lockout_type wake_from wake_to =
     (let current_type = push_current applied ap_lockout_type
      in if lockout_type = ''suspendwake'' then
           (case (current_type, push_current applied ap_wakeup_hour_interval) of
              (Some t, Some w) \<Rightarrow> t # split_once w = [lockout_type, wake_from, wake_to]
            | _ \<Rightarrow> False)
         else current_type = Some lockout_type)"

definition apply_lockout :: "'e enforcer_ops \<Rightarrow> username \<Rightarrow> policy_payload \<Rightarrow> applied_policy option
    \<Rightarrow> push \<times> 'e \<Rightarrow> push \<times> 'e" where
  "apply_lockout ops username policy applied st =
     (let lockout_type = str_or (Some (lockout_value (pp_lockout_type policy))) ''lock'';
          wake_from = str_or (pp_wake_from policy) DEFAULT_WAKE_FROM;
          wake_to = str_or (pp_wake_to policy) DEFAULT_WAKE_TO
      in snd (push_step ops username ''setLockoutType''
               (lockout_same applied lockout_type wake_from wake_to)
               (SetLockoutType lockout_type wake_from wake_to) st))"

definition record_of_wire :: "wire_hour \<Rightarrow> hour_record" where
  "record_of_wire iv = \<lparr>hr_hour = wh_hour iv, hr_start_min = wh_start_min iv, hr_end_min = wh_end_min iv,
     hr_unaccounted = wh_unaccounted iv\<rparr>"

definition hours_label :: "string \<Rightarrow> string" where
  "hours_label day = ''setAllowedHours(day='' @ day @ '')''"

definition hours_same :: "applied_policy option \<Rightarrow> string \<Rightarrow> hours_payload \<Rightarrow> bool" where
  "hours_same applied day payload =
     (case push_current applied (\<lambda>a. dict_get (ap_allowed_hours a) day) of
        None \<Rightarrow> False | Some h \<Rightarrow> dict_eq h payload)"

definition push_hours_day :: "'e enforcer_ops \<Rightarrow> username \<Rightarrow> applied_policy option \<Rightarrow> string
    \<Rightarrow> hours_payload \<Rightarrow> push \<times> 'e \<Rightarrow> push \<times> 'e" where
  "push_hours_day ops username applied day payload st =
     snd (push_step ops username (hours_label day) (hours_same applied day payload)
           (SetAllowedHours day payload) st)"

definition day_payload :: "wire_hour list \<Rightarrow> hours_payload" where
  "day_payload intervals = hours_to_dbus_payload (map record_of_wire intervals)"

fun apply_allowed_hours :: "'e enforcer_ops \<Rightarrow> username \<Rightarrow> applied_policy option \<Rightarrow> wire_hours
    \<Rightarrow> push \<times> 'e \<Rightarrow> push \<times> 'e" where
  "apply_allowed_hours ops username applied [] st = st"
| "apply_allowed_hours ops username applied ((day, intervals) # rest) st =
     apply_allowed_hours ops username applied rest
       (push_hours_day ops username applied day (day_payload intervals) st)"

definition apply_playtime :: "'e enforcer_ops \<Rightarrow> username \<Rightarrow> playtime_payload \<Rightarrow> applied_policy option
    \<Rightarrow> push \<times> 'e \<Rightarrow> (push \<times> 'e) result" where
  "apply_playtime ops username playtime applied st =
     (let enabled = pt_enabled playtime;
          (_, st) = push_step ops username ''setPlayTimeEnabled''
            (push_current applied ap_playtime_enabled = Some enabled) (SetPlayTimeEnabled enabled) st;
          override = pt_override_enabled playtime;
          (_, st) = push_step ops username ''setPlayTimeLimitOverride''
            (push_current applied ap_playtime_limit_override = Some override) (SetPlayTimeLimitOverride override) st;
          unacc = pt_unaccounted_intervals_enabled playtime;
          (_, st) = push_step ops username ''setPlayTimeUnaccountedIntervalsEnabled''
            (push_current applied ap_playtime_unaccounted = Some unacc)
            (SetPlayTimeUnaccountedIntervalsEnabled unacc) st;
          pt_weekdays = list_or (pt_allowed_weekdays playtime) ALL_WEEKDAYS;
          (pt_days_written, st) = push_step ops username ''setPlayTimeAllowedDays''
            (push_current applied ap_playtime_allowed_weekdays = Some pt_weekdays)
            (SetPlayTimeAllowedDays pt_weekdays) st;
          pt_daily_limits = list_or (pt_daily_limits_s playtime) (replicate 7 0)
      in rbind (project_daily_limits pt_daily_limits pt_weekdays) (\<lambda>pt_projected.
        let (_, st) = push_step ops username ''setPlayTimeLimitsForDays''
              (\<not> pt_days_written \<and> push_current applied ap_playtime_limits = Some pt_projected)
              (SetPlayTimeLimitsForDays pt_projected) st;
            activities = map (\<lambda>a. (pa_mask a, pa_description a)) (pt_activities playtime);
            (_, st) = push_step ops username ''setPlayTimeActivities''
              (push_current applied ap_playtime_activities = Some activities)
              (SetPlayTimeActivities activities) st
        in Inr st))"

definition apply_policy_push :: "'e enforcer_ops \<Rightarrow> username \<Rightarrow> policy_payload \<Rightarrow> 'e
    \<Rightarrow> (push \<times> 'e) result" where
  "apply_policy_push ops username policy e =
     (let daily_limits = pp_daily_limits_s policy
      in if length daily_limits \<noteq> 7 then
           Inr (new_push\<lparr>pu_ok := False, pu_failed := [''daily_limits_length'']\<rparr>, e)
         else
           let (applied, e) = op_applied ops username e;
               st = (new_push, e);
               allowed_weekdays = list_or (pp_allowed_weekdays policy) ALL_WEEKDAYS;
               (weekdays_written, st) = push_step ops username ''setAllowedDays''
                 (push_current applied ap_allowed_weekdays = Some allowed_weekdays)
                 (SetAllowedDays allowed_weekdays) st
           in rbind (project_daily_limits daily_limits allowed_weekdays) (\<lambda>projected.
             let (_, st) = push_step ops username ''setTimeLimitForDays''
                   (\<not> weekdays_written \<and> push_current applied ap_limits_per_weekdays = Some projected)
                   (SetTimeLimitForDays projected) st;
                 weekly = pp_weekly_limit_s policy;
                 (_, st) = push_step ops username ''setTimeLimitForWeek''
                   (push_current applied ap_limit_per_week = Some weekly) (SetTimeLimitForWeek weekly) st;
                 monthly = pp_monthly_limit_s policy;
                 (_, st) = push_step ops username ''setTimeLimitForMonth''
                   (push_current applied ap_limit_per_month = Some monthly) (SetTimeLimitForMonth monthly) st;
                 track_inactive = pp_track_inactive policy;
                 (_, st) = push_step ops username ''setTrackInactive''
                   (push_current applied ap_track_inactive = Some track_inactive)
                   (SetTrackInactive track_inactive) st;
                 hide_tray = pp_hide_tray_icon policy;
                 (_, st) = push_step ops username ''setHideTrayIcon''
                   (push_current applied ap_hide_tray_icon = Some hide_tray) (SetHideTrayIcon hide_tray) st;
                 st = apply_lockout ops username policy applied st;
                 st = apply_allowed_hours ops username applied (pp_allowed_hours policy) st
             in apply_playtime ops username (pp_playtime policy) applied st))"

subsection \<open>What a setter does to the readback\<close>

fun apply_setter :: "setter \<Rightarrow> applied_policy \<Rightarrow> applied_policy" where
  "apply_setter (SetTimeLeft _ _) a = a"
| "apply_setter (SetTimeLimitForDays ls) a = a\<lparr>ap_limits_per_weekdays := Some ls\<rparr>"
| "apply_setter (SetTimeLimitForWeek l) a = a\<lparr>ap_limit_per_week := Some l\<rparr>"
| "apply_setter (SetTimeLimitForMonth l) a = a\<lparr>ap_limit_per_month := Some l\<rparr>"
| "apply_setter (SetAllowedDays ds) a = a\<lparr>ap_allowed_weekdays := Some ds\<rparr>"
| "apply_setter (SetAllowedHours d h) a = a\<lparr>ap_allowed_hours := dict_set (ap_allowed_hours a) d h\<rparr>"
| "apply_setter (SetTrackInactive b) a = a\<lparr>ap_track_inactive := Some b\<rparr>"
| "apply_setter (SetHideTrayIcon b) a = a\<lparr>ap_hide_tray_icon := Some b\<rparr>"
| "apply_setter (SetLockoutType t f w) a = a\<lparr>ap_lockout_type := Some t,
     ap_wakeup_hour_interval := (if t = ''suspendwake'' then Some (f @ '';'' @ w) else None)\<rparr>"
| "apply_setter (SetPlayTimeEnabled b) a = a\<lparr>ap_playtime_enabled := Some b\<rparr>"
| "apply_setter (SetPlayTimeLimitOverride b) a = a\<lparr>ap_playtime_limit_override := Some b\<rparr>"
| "apply_setter (SetPlayTimeUnaccountedIntervalsEnabled b) a = a\<lparr>ap_playtime_unaccounted := Some b\<rparr>"
| "apply_setter (SetPlayTimeAllowedDays ds) a = a\<lparr>ap_playtime_allowed_weekdays := Some ds\<rparr>"
| "apply_setter (SetPlayTimeLimitsForDays ls) a = a\<lparr>ap_playtime_limits := Some ls\<rparr>"
| "apply_setter (SetPlayTimeActivities as) a = a\<lparr>ap_playtime_activities := Some as\<rparr>"

text \<open>The device holds the policy: the readback shows every field the push writes.\<close>

definition hours_held :: "applied_policy \<Rightarrow> wire_hours \<Rightarrow> bool" where
  "hours_held a d \<longleftrightarrow> list_all (\<lambda>(day, ivs). hours_same (Some a) day (day_payload ivs)) d"

definition playtime_held :: "applied_policy \<Rightarrow> playtime_payload \<Rightarrow> bool" where
  "playtime_held a p \<longleftrightarrow>
     ap_playtime_enabled a = Some (pt_enabled p) \<and>
     ap_playtime_limit_override a = Some (pt_override_enabled p) \<and>
     ap_playtime_unaccounted a = Some (pt_unaccounted_intervals_enabled p) \<and>
     ap_playtime_allowed_weekdays a = Some (list_or (pt_allowed_weekdays p) ALL_WEEKDAYS) \<and>
     (case project_daily_limits (list_or (pt_daily_limits_s p) (replicate 7 0))
        (list_or (pt_allowed_weekdays p) ALL_WEEKDAYS) of
        Inl _ \<Rightarrow> False | Inr ls \<Rightarrow> ap_playtime_limits a = Some ls) \<and>
     ap_playtime_activities a = Some (map (\<lambda>x. (pa_mask x, pa_description x)) (pt_activities p))"

definition policy_held :: "applied_policy \<Rightarrow> policy_payload \<Rightarrow> bool" where
  "policy_held a p \<longleftrightarrow>
     length (pp_daily_limits_s p) = 7 \<and>
     ap_allowed_weekdays a = Some (list_or (pp_allowed_weekdays p) ALL_WEEKDAYS) \<and>
     (case project_daily_limits (pp_daily_limits_s p) (list_or (pp_allowed_weekdays p) ALL_WEEKDAYS) of
        Inl _ \<Rightarrow> False | Inr ls \<Rightarrow> ap_limits_per_weekdays a = Some ls) \<and>
     ap_limit_per_week a = Some (pp_weekly_limit_s p) \<and>
     ap_limit_per_month a = Some (pp_monthly_limit_s p) \<and>
     ap_track_inactive a = Some (pp_track_inactive p) \<and>
     ap_hide_tray_icon a = Some (pp_hide_tray_icon p) \<and>
     lockout_same (Some a) (lockout_value (pp_lockout_type p))
       (str_or (pp_wake_from p) DEFAULT_WAKE_FROM) (str_or (pp_wake_to p) DEFAULT_WAKE_TO) \<and>
     hours_held a (pp_allowed_hours p) \<and> playtime_held a (pp_playtime p)"

subsection \<open>The device as an interface\<close>

definition after_step :: "bool \<Rightarrow> setter \<Rightarrow> applied_policy \<Rightarrow> applied_policy" where
  "after_step same s a = (if same then a else apply_setter s a)"

lemma after_step_fields:
  "ap_allowed_weekdays (after_step c s a) = (if c then ap_allowed_weekdays a else ap_allowed_weekdays (apply_setter s a))"
  "ap_limits_per_weekdays (after_step c s a) = (if c then ap_limits_per_weekdays a else ap_limits_per_weekdays (apply_setter s a))"
  "ap_limit_per_week (after_step c s a) = (if c then ap_limit_per_week a else ap_limit_per_week (apply_setter s a))"
  "ap_limit_per_month (after_step c s a) = (if c then ap_limit_per_month a else ap_limit_per_month (apply_setter s a))"
  "ap_track_inactive (after_step c s a) = (if c then ap_track_inactive a else ap_track_inactive (apply_setter s a))"
  "ap_hide_tray_icon (after_step c s a) = (if c then ap_hide_tray_icon a else ap_hide_tray_icon (apply_setter s a))"
  "ap_lockout_type (after_step c s a) = (if c then ap_lockout_type a else ap_lockout_type (apply_setter s a))"
  "ap_wakeup_hour_interval (after_step c s a) = (if c then ap_wakeup_hour_interval a else ap_wakeup_hour_interval (apply_setter s a))"
  "ap_allowed_hours (after_step c s a) = (if c then ap_allowed_hours a else ap_allowed_hours (apply_setter s a))"
  "ap_playtime_enabled (after_step c s a) = (if c then ap_playtime_enabled a else ap_playtime_enabled (apply_setter s a))"
  "ap_playtime_limit_override (after_step c s a) = (if c then ap_playtime_limit_override a else ap_playtime_limit_override (apply_setter s a))"
  "ap_playtime_unaccounted (after_step c s a) = (if c then ap_playtime_unaccounted a else ap_playtime_unaccounted (apply_setter s a))"
  "ap_playtime_allowed_weekdays (after_step c s a) = (if c then ap_playtime_allowed_weekdays a else ap_playtime_allowed_weekdays (apply_setter s a))"
  "ap_playtime_limits (after_step c s a) = (if c then ap_playtime_limits a else ap_playtime_limits (apply_setter s a))"
  "ap_playtime_activities (after_step c s a) = (if c then ap_playtime_activities a else ap_playtime_activities (apply_setter s a))"
  by (simp_all add: after_step_def)

lemma after_step_frame: "f (apply_setter s a) = f a \<Longrightarrow> f (after_step c s a) = f a"
  by (simp add: after_step_def)

lemmas after_step_frames [simp] =
  after_step_frame [where f = ap_allowed_weekdays]
  after_step_frame [where f = ap_limits_per_weekdays]
  after_step_frame [where f = ap_limit_per_week]
  after_step_frame [where f = ap_limit_per_month]
  after_step_frame [where f = ap_track_inactive]
  after_step_frame [where f = ap_hide_tray_icon]
  after_step_frame [where f = ap_lockout_type]
  after_step_frame [where f = ap_wakeup_hour_interval]
  after_step_frame [where f = ap_allowed_hours]
  after_step_frame [where f = ap_playtime_enabled]
  after_step_frame [where f = ap_playtime_limit_override]
  after_step_frame [where f = ap_playtime_unaccounted]
  after_step_frame [where f = ap_playtime_allowed_weekdays]
  after_step_frame [where f = ap_playtime_limits]
  after_step_frame [where f = ap_playtime_activities]

lemma hours_same_cong: "ap_allowed_hours a = ap_allowed_hours b \<Longrightarrow> hours_same (Some a) = hours_same (Some b)"
  by (simp add: hours_same_def push_current_def fun_eq_iff)

lemma hours_held_cong: "ap_allowed_hours a = ap_allowed_hours b \<Longrightarrow> hours_held a d = hours_held b d"
  by (simp add: hours_held_def hours_same_cong [of a b])

lemma lockout_same_cong:
  "ap_lockout_type a = ap_lockout_type b \<Longrightarrow> ap_wakeup_hour_interval a = ap_wakeup_hour_interval b
    \<Longrightarrow> lockout_same (Some a) = lockout_same (Some b)"
  by (simp add: lockout_same_def push_current_def fun_eq_iff)

lemma split_once_join: "CHR '';'' \<notin> set f \<Longrightarrow> split_once (f @ '';'' @ w) = [f, w]"
  by (simp add: split_once_def takeWhile_append dropWhile_append)

lemma str_or_lockout [simp]: "str_or (Some (lockout_value l)) d = lockout_value l"
  by (cases l) (simp_all add: str_or_def)

lemma push_step_mono: "pu_ok (fst (snd (push_step ops u label same s st))) \<Longrightarrow> pu_ok (fst st)"
  by (cases st) (simp add: push_step_def split: prod.splits if_splits)

lemma push_hours_mono:
  "pu_ok (fst (apply_allowed_hours ops u applied d st)) \<Longrightarrow> pu_ok (fst st)"
proof (induction d arbitrary: st)
  case (Cons x d)
  obtain day ivs where "x = (day, ivs)" by fastforce
  then show ?case
    using Cons.IH [of "push_hours_day ops u applied day (day_payload ivs) st"] Cons.prems
    by (auto simp: push_hours_day_def dest: push_step_mono)
qed simp

lemma playtime_mono:
  "apply_playtime ops u pt applied st = Inr st' \<Longrightarrow> pu_ok (fst st') \<Longrightarrow> pu_ok (fst st)"
  by (clarsimp simp: apply_playtime_def Let_def case_prod_beta rbind_Inr_iff)
    ((drule push_step_mono)+, assumption)

locale policy_device =
  fixes ops :: "'e enforcer_ops" and username :: username
  assumes readback_reads: "snd (op_applied ops username e) = e"
    and accepted_shows: "fst (op_applied ops username e) = Some a \<Longrightarrow> op_set ops username s e = (True, e')
      \<Longrightarrow> fst (op_applied ops username e') = Some (apply_setter s a)"
begin

definition held :: "'e \<Rightarrow> applied_policy option" where
  "held e = fst (op_applied ops username e)"

lemma op_applied_held: "op_applied ops username e = (held e, e)"
  using readback_reads [of e] by (cases "op_applied ops username e") (simp add: held_def)

text \<open>A step that leaves the push ok: it was ok before, and the device shows the setter's effect.\<close>

lemma step_ok:
  assumes "pu_ok (fst (snd (push_step ops username label same s st)))"
    and "held (snd st) = Some a"
  shows "pu_ok (fst st) \<and> fst (push_step ops username label same s st) = (\<not> same) \<and>
    held (snd (snd (push_step ops username label same s st))) = Some (after_step same s a)"
proof (cases st)
  case (Pair p e)
  show ?thesis
  proof (cases same)
    case True
    then show ?thesis using assms Pair by (simp add: push_step_def after_step_def)
  next
    case False
    obtain ok e' where set: "op_set ops username s e = (ok, e')" by fastforce
    then have ok: "ok" "pu_ok p" using assms(1) False Pair by (simp_all add: push_step_def)
    then have "held e' = Some (apply_setter s a)"
      using accepted_shows [of e a s e'] set assms(2) Pair by (simp add: held_def)
    then show ?thesis using ok set False Pair by (simp add: push_step_def after_step_def)
  qed
qed

lemma step_skips:
  "push_step ops username label True s st
     = (False, (fst st)\<lparr>pu_skipped_count := pu_skipped_count (fst st) + 1\<rparr>, snd st)"
  by (cases st) (simp add: push_step_def)

lemma hours_ok:
  assumes "pu_ok (fst (apply_allowed_hours ops username (Some a0) d st))"
    and "held (snd st) = Some a" "distinct (map fst d)"
    and "\<And>day. day \<in> set (map fst d) \<Longrightarrow> dict_get (ap_allowed_hours a) day = dict_get (ap_allowed_hours a0) day"
  shows "pu_ok (fst st) \<and> (\<exists>h. held (snd (apply_allowed_hours ops username (Some a0) d st))
      = Some (a\<lparr>ap_allowed_hours := h\<rparr>) \<and>
      (\<forall>day. day \<notin> set (map fst d) \<longrightarrow> dict_get h day = dict_get (ap_allowed_hours a) day) \<and>
      hours_held (a\<lparr>ap_allowed_hours := h\<rparr>) d)"
  using assms
proof (induction d arbitrary: st a)
  case Nil
  have "a\<lparr>ap_allowed_hours := ap_allowed_hours a\<rparr> = a" by simp
  then show ?case
    using Nil by (intro conjI exI [of _ "ap_allowed_hours a"]) (simp_all add: hours_held_def)
next
  case (Cons x d)
  obtain day ivs where x: "x = (day, ivs)" by fastforce
  let ?same = "hours_same (Some a0) day (day_payload ivs)"
  let ?s = "SetAllowedHours day (day_payload ivs)"
  let ?st = "push_hours_day ops username (Some a0) day (day_payload ivs) st"
  let ?a = "after_step ?same ?s a"
  have ok': "pu_ok (fst ?st)" and held': "held (snd ?st) = Some ?a" and ok: "pu_ok (fst st)"
  proof -
    have final: "pu_ok (fst (apply_allowed_hours ops username (Some a0) d ?st))"
      using Cons.prems(1) by (simp add: x)
    show "pu_ok (fst ?st)" using push_hours_mono [OF final] .
    then show "held (snd ?st) = Some ?a" "pu_ok (fst st)"
      using step_ok [of "hours_label day" ?same ?s st a] Cons.prems(2) by (simp_all add: push_hours_day_def)
  qed
  have fresh: "day \<notin> set (map fst d)" and dist: "distinct (map fst d)" using Cons.prems(3) x by auto
  have a_eq: "?a = a\<lparr>ap_allowed_hours := ap_allowed_hours ?a\<rparr>" by (simp add: after_step_def)
  have get: "dict_get (ap_allowed_hours ?a) k = dict_get (ap_allowed_hours a) k" if "k \<noteq> day" for k
    using that by (simp add: after_step_def)
  have "dict_get (ap_allowed_hours ?a) k = dict_get (ap_allowed_hours a0) k" if "k \<in> set (map fst d)" for k
    using that fresh Cons.prems(4) [of k] get [of k] by (auto simp: x)
  from Cons.IH [OF _ held' dist this] Cons.prems(1) obtain h where
    h: "held (snd (apply_allowed_hours ops username (Some a0) d ?st)) = Some (?a\<lparr>ap_allowed_hours := h\<rparr>)"
      "\<forall>k. k \<notin> set (map fst d) \<longrightarrow> dict_get h k = dict_get (ap_allowed_hours ?a) k"
      "hours_held (?a\<lparr>ap_allowed_hours := h\<rparr>) d"
    by (auto simp: x)
  have same: "?a\<lparr>ap_allowed_hours := h\<rparr> = a\<lparr>ap_allowed_hours := h\<rparr>" by (subst a_eq) simp
  have "hours_same (Some (a\<lparr>ap_allowed_hours := h\<rparr>)) day (day_payload ivs)"
  proof -
    have g: "dict_get h day = dict_get (ap_allowed_hours ?a) day" using h(2) fresh by blast
    have "dict_get (ap_allowed_hours a) day = dict_get (ap_allowed_hours a0) day"
      using Cons.prems(4) [of day] x by simp
    then show ?thesis using g
      by (cases ?same) (simp_all add: hours_same_def push_current_def after_step_def split: option.splits)
  qed
  then have "hours_held (a\<lparr>ap_allowed_hours := h\<rparr>) (x # d)"
    using h(3) by (simp add: hours_held_def x same)
  moreover have "\<forall>k. k \<notin> set (map fst (x # d)) \<longrightarrow> dict_get h k = dict_get (ap_allowed_hours a) k"
    using h(2) get by (simp add: x)
  ultimately show ?case using h(1) ok by (auto simp: x same)
qed

lemma step_held:
  "pu_ok (fst (snd (push_step ops username l same s st))) \<Longrightarrow> held (snd st) = Some a \<Longrightarrow>
   held (snd (snd (push_step ops username l same s st))) = Some (after_step same s a)"
  using step_ok by blast

lemma step_written:
  "pu_ok (fst (snd (push_step ops username l same s st))) \<Longrightarrow> held (snd st) = Some a \<Longrightarrow>
   fst (push_step ops username l same s st) = (\<not> same)"
  using step_ok by blast

lemma playtime_ok:
  assumes run: "apply_playtime ops username pt (Some a0) st = Inr st'" and ok: "pu_ok (fst st')"
    and a: "held (snd st) = Some a"
    and same: "ap_playtime_enabled a = ap_playtime_enabled a0"
      "ap_playtime_limit_override a = ap_playtime_limit_override a0"
      "ap_playtime_unaccounted a = ap_playtime_unaccounted a0"
      "ap_playtime_allowed_weekdays a = ap_playtime_allowed_weekdays a0"
      "ap_playtime_limits a = ap_playtime_limits a0"
      "ap_playtime_activities a = ap_playtime_activities a0"
  shows "pu_ok (fst st) \<and> (\<exists>b. held (snd st') = Some b \<and> playtime_held b pt \<and>
    ap_allowed_weekdays b = ap_allowed_weekdays a \<and> ap_limits_per_weekdays b = ap_limits_per_weekdays a \<and>
    ap_limit_per_week b = ap_limit_per_week a \<and> ap_limit_per_month b = ap_limit_per_month a \<and>
    ap_track_inactive b = ap_track_inactive a \<and> ap_hide_tray_icon b = ap_hide_tray_icon a \<and>
    ap_lockout_type b = ap_lockout_type a \<and> ap_wakeup_hour_interval b = ap_wakeup_hour_interval a \<and>
    ap_allowed_hours b = ap_allowed_hours a)"
proof -
  let ?days = "list_or (pt_allowed_weekdays pt) ALL_WEEKDAYS"
  let ?acts = "map (\<lambda>a. (pa_mask a, pa_description a)) (pt_activities pt)"
  let ?cur = "\<lambda>key. push_current (Some a0) key"
  note step = push_step_mono step_held
  define p1 where "p1 = push_step ops username ''setPlayTimeEnabled''
    (?cur ap_playtime_enabled = Some (pt_enabled pt)) (SetPlayTimeEnabled (pt_enabled pt)) st"
  define p2 where "p2 = push_step ops username ''setPlayTimeLimitOverride''
    (?cur ap_playtime_limit_override = Some (pt_override_enabled pt))
    (SetPlayTimeLimitOverride (pt_override_enabled pt)) (snd p1)"
  define p3 where "p3 = push_step ops username ''setPlayTimeUnaccountedIntervalsEnabled''
    (?cur ap_playtime_unaccounted = Some (pt_unaccounted_intervals_enabled pt))
    (SetPlayTimeUnaccountedIntervalsEnabled (pt_unaccounted_intervals_enabled pt)) (snd p2)"
  define p4 where "p4 = push_step ops username ''setPlayTimeAllowedDays''
    (?cur ap_playtime_allowed_weekdays = Some ?days) (SetPlayTimeAllowedDays ?days) (snd p3)"
  obtain ls where ls: "project_daily_limits (list_or (pt_daily_limits_s pt) (replicate 7 0)) ?days = Inr ls"
    using run by (auto simp: apply_playtime_def Let_def case_prod_beta rbind_Inr_iff)
  define p5 where "p5 = push_step ops username ''setPlayTimeLimitsForDays''
    (\<not> fst p4 \<and> ?cur ap_playtime_limits = Some ls) (SetPlayTimeLimitsForDays ls) (snd p4)"
  define p6 where "p6 = push_step ops username ''setPlayTimeActivities''
    (?cur ap_playtime_activities = Some ?acts) (SetPlayTimeActivities ?acts) (snd p5)"
  have st': "st' = snd p6"
    using run ls by (simp add: apply_playtime_def Let_def case_prod_beta p1_def p2_def p3_def p4_def p5_def p6_def)
  have o6: "pu_ok (fst (snd p6))" using ok st' by simp
  have o5: "pu_ok (fst (snd p5))" using o6 unfolding p6_def by (rule push_step_mono)
  have o4: "pu_ok (fst (snd p4))" using o5 unfolding p5_def by (rule push_step_mono)
  have o3: "pu_ok (fst (snd p3))" using o4 unfolding p4_def by (rule push_step_mono)
  have o2: "pu_ok (fst (snd p2))" using o3 unfolding p3_def by (rule push_step_mono)
  have o1: "pu_ok (fst (snd p1))" using o2 unfolding p2_def by (rule push_step_mono)
  have o0: "pu_ok (fst st)" using o1 unfolding p1_def by (rule push_step_mono)
  note h1 = step_held [OF o1 [unfolded p1_def] a, folded p1_def]
  note h2 = step_held [OF o2 [unfolded p2_def] h1, folded p2_def]
  note h3 = step_held [OF o3 [unfolded p3_def] h2, folded p3_def]
  note h4 = step_held [OF o4 [unfolded p4_def] h3, folded p4_def]
  note w4 = step_written [OF o4 [unfolded p4_def] h3, folded p4_def]
  note h5 = step_held [OF o5 [unfolded p5_def] h4, folded p5_def]
  note h6 = step_held [OF o6 [unfolded p6_def] h5, folded p6_def]
  show ?thesis
    unfolding st'
    by (intro conjI exI, rule o0, rule h6)
      (simp_all add: playtime_held_def ls same push_current_def after_step_fields w4)
qed

text \<open>A push that ends ok leaves the device holding the policy.\<close>

lemma push_ok:
  assumes run: "apply_policy_push ops username policy e = Inr (p, e')" and ok: "pu_ok p"
    and readable: "held e = Some a0" and dist: "distinct (map fst (pp_allowed_hours policy))"
    and wake: "CHR '';'' \<notin> set (str_or (pp_wake_from policy) DEFAULT_WAKE_FROM)"
  shows "\<exists>b. held e' = Some b \<and> policy_held b policy"
proof -
  let ?days = "list_or (pp_allowed_weekdays policy) ALL_WEEKDAYS"
  let ?cur = "\<lambda>key. push_current (Some a0) key"
  let ?lt = "lockout_value (pp_lockout_type policy)"
  let ?wf = "str_or (pp_wake_from policy) DEFAULT_WAKE_FROM"
  let ?wt = "str_or (pp_wake_to policy) DEFAULT_WAKE_TO"
  have len: "length (pp_daily_limits_s policy) = 7"
    using run ok by (auto simp: apply_policy_push_def new_push_def Let_def split: if_splits)
  have ap: "op_applied ops username e = (Some a0, e)" using op_applied_held [of e] readable by simp
  define p1 where "p1 = push_step ops username ''setAllowedDays''
    (?cur ap_allowed_weekdays = Some ?days) (SetAllowedDays ?days) (new_push, e)"
  obtain ls where ls: "project_daily_limits (pp_daily_limits_s policy) ?days = Inr ls"
    using run len by (auto simp: apply_policy_push_def ap Let_def case_prod_beta rbind_Inr_iff)
  define p2 where "p2 = push_step ops username ''setTimeLimitForDays''
    (\<not> fst p1 \<and> ?cur ap_limits_per_weekdays = Some ls) (SetTimeLimitForDays ls) (snd p1)"
  define p3 where "p3 = push_step ops username ''setTimeLimitForWeek''
    (?cur ap_limit_per_week = Some (pp_weekly_limit_s policy)) (SetTimeLimitForWeek (pp_weekly_limit_s policy)) (snd p2)"
  define p4 where "p4 = push_step ops username ''setTimeLimitForMonth''
    (?cur ap_limit_per_month = Some (pp_monthly_limit_s policy)) (SetTimeLimitForMonth (pp_monthly_limit_s policy)) (snd p3)"
  define p5 where "p5 = push_step ops username ''setTrackInactive''
    (?cur ap_track_inactive = Some (pp_track_inactive policy)) (SetTrackInactive (pp_track_inactive policy)) (snd p4)"
  define p6 where "p6 = push_step ops username ''setHideTrayIcon''
    (?cur ap_hide_tray_icon = Some (pp_hide_tray_icon policy)) (SetHideTrayIcon (pp_hide_tray_icon policy)) (snd p5)"
  define p7 where "p7 = push_step ops username ''setLockoutType''
    (lockout_same (Some a0) ?lt ?wf ?wt) (SetLockoutType ?lt ?wf ?wt) (snd p6)"
  define s8 where "s8 = apply_allowed_hours ops username (Some a0) (pp_allowed_hours policy) (snd p7)"
  have last: "apply_playtime ops username (pp_playtime policy) (Some a0) s8 = Inr (p, e')"
    using run len ls by (simp add: apply_policy_push_def ap Let_def case_prod_beta apply_lockout_def
        p1_def p2_def p3_def p4_def p5_def p6_def p7_def s8_def)
  have o8: "pu_ok (fst s8)" using playtime_mono [OF last] ok by simp
  have o7: "pu_ok (fst (snd p7))" using o8 unfolding s8_def by (rule push_hours_mono)
  have o6: "pu_ok (fst (snd p6))" using o7 unfolding p7_def by (rule push_step_mono)
  have o5: "pu_ok (fst (snd p5))" using o6 unfolding p6_def by (rule push_step_mono)
  have o4: "pu_ok (fst (snd p4))" using o5 unfolding p5_def by (rule push_step_mono)
  have o3: "pu_ok (fst (snd p3))" using o4 unfolding p4_def by (rule push_step_mono)
  have o2: "pu_ok (fst (snd p2))" using o3 unfolding p3_def by (rule push_step_mono)
  have o1: "pu_ok (fst (snd p1))" using o2 unfolding p2_def by (rule push_step_mono)
  have h0: "held (snd (new_push, e)) = Some a0" using readable by simp
  note h1 = step_held [OF o1 [unfolded p1_def] h0, folded p1_def]
  note w1 = step_written [OF o1 [unfolded p1_def] h0, folded p1_def]
  note h2 = step_held [OF o2 [unfolded p2_def] h1, folded p2_def]
  note h3 = step_held [OF o3 [unfolded p3_def] h2, folded p3_def]
  note h4 = step_held [OF o4 [unfolded p4_def] h3, folded p4_def]
  note h5 = step_held [OF o5 [unfolded p5_def] h4, folded p5_def]
  note h6 = step_held [OF o6 [unfolded p6_def] h5, folded p6_def]
  note h7 = step_held [OF o7 [unfolded p7_def] h6, folded p7_def]
  define a7 where "a7 = after_step (lockout_same (Some a0) ?lt ?wf ?wt) (SetLockoutType ?lt ?wf ?wt)
    (after_step (?cur ap_hide_tray_icon = Some (pp_hide_tray_icon policy)) (SetHideTrayIcon (pp_hide_tray_icon policy))
    (after_step (?cur ap_track_inactive = Some (pp_track_inactive policy)) (SetTrackInactive (pp_track_inactive policy))
    (after_step (?cur ap_limit_per_month = Some (pp_monthly_limit_s policy)) (SetTimeLimitForMonth (pp_monthly_limit_s policy))
    (after_step (?cur ap_limit_per_week = Some (pp_weekly_limit_s policy)) (SetTimeLimitForWeek (pp_weekly_limit_s policy))
    (after_step (\<not> fst p1 \<and> ?cur ap_limits_per_weekdays = Some ls) (SetTimeLimitForDays ls)
    (after_step (?cur ap_allowed_weekdays = Some ?days) (SetAllowedDays ?days) a0))))))"
  note h7 = h7 [folded a7_def]
  have main: "ap_allowed_weekdays a7 = Some ?days" "ap_limits_per_weekdays a7 = Some ls"
    "ap_limit_per_week a7 = Some (pp_weekly_limit_s policy)" "ap_limit_per_month a7 = Some (pp_monthly_limit_s policy)"
    "ap_track_inactive a7 = Some (pp_track_inactive policy)" "ap_hide_tray_icon a7 = Some (pp_hide_tray_icon policy)"
    and hours: "ap_allowed_hours a7 = ap_allowed_hours a0"
    and play: "ap_playtime_enabled a7 = ap_playtime_enabled a0"
      "ap_playtime_limit_override a7 = ap_playtime_limit_override a0"
      "ap_playtime_unaccounted a7 = ap_playtime_unaccounted a0"
      "ap_playtime_allowed_weekdays a7 = ap_playtime_allowed_weekdays a0"
      "ap_playtime_limits a7 = ap_playtime_limits a0"
      "ap_playtime_activities a7 = ap_playtime_activities a0"
    by (simp_all add: a7_def) (simp_all add: after_step_fields push_current_def w1)
  have lock: "lockout_same (Some a7) ?lt ?wf ?wt"
  proof (cases "lockout_same (Some a0) ?lt ?wf ?wt")
    case True
    then have "ap_lockout_type a7 = ap_lockout_type a0" "ap_wakeup_hour_interval a7 = ap_wakeup_hour_interval a0"
      by (simp_all add: a7_def after_step_fields)
    then show ?thesis using True lockout_same_cong [of a7 a0] by simp
  next
    case False
    then have "ap_lockout_type a7 = Some ?lt"
      "ap_wakeup_hour_interval a7 = (if ?lt = ''suspendwake'' then Some (?wf @ '';'' @ ?wt) else None)"
      by (simp_all add: a7_def after_step_fields)
    then show ?thesis using split_once_join [OF wake] by (simp add: lockout_same_def push_current_def Let_def)
  qed
  obtain h where h8: "held (snd s8) = Some (a7\<lparr>ap_allowed_hours := h\<rparr>)"
    "hours_held (a7\<lparr>ap_allowed_hours := h\<rparr>) (pp_allowed_hours policy)"
    using hours_ok [OF o8 [unfolded s8_def] h7 dist] hours unfolding s8_def by auto
  obtain b where b: "held e' = Some b" "playtime_held b (pp_playtime policy)"
    "ap_allowed_weekdays b = ap_allowed_weekdays a7" "ap_limits_per_weekdays b = ap_limits_per_weekdays a7"
    "ap_limit_per_week b = ap_limit_per_week a7" "ap_limit_per_month b = ap_limit_per_month a7"
    "ap_track_inactive b = ap_track_inactive a7" "ap_hide_tray_icon b = ap_hide_tray_icon a7"
    "ap_lockout_type b = ap_lockout_type a7" "ap_wakeup_hour_interval b = ap_wakeup_hour_interval a7"
    "ap_allowed_hours b = h"
    using playtime_ok [OF last _ h8(1)] ok play by auto
  have "lockout_same (Some b) ?lt ?wf ?wt"
    using lock lockout_same_cong [OF b(9,10)] by simp
  moreover have "hours_held b (pp_allowed_hours policy)"
    using h8(2) hours_held_cong [of b "a7\<lparr>ap_allowed_hours := h\<rparr>"] b(11) by simp
  ultimately have "policy_held b policy"
    using b main len ls by (simp add: policy_held_def)
  with b(1) show ?thesis by blast
qed

text \<open>A device that holds the policy gets no write at all.\<close>

definition quiet :: "push \<Rightarrow> bool" where
  "quiet p \<longleftrightarrow> pu_ok p \<and> pu_applied_count p = 0 \<and> pu_failed p = []"

lemma step_quiet:
  assumes "quiet (fst st)" "same"
  shows "\<exists>p. quiet p \<and> push_step ops username label same s st = (False, p, snd st)"
proof -
  have "quiet ((fst st)\<lparr>pu_skipped_count := pu_skipped_count (fst st) + 1\<rparr>)"
    using assms(1) by (simp add: quiet_def)
  then show ?thesis using step_skips [of label s st] assms(2) by simp
qed

lemma hours_quiet:
  assumes "quiet (fst st)" "hours_held a d"
  shows "\<exists>p. quiet p \<and> apply_allowed_hours ops username (Some a) d st = (p, snd st)"
  using assms
proof (induction d arbitrary: st)
  case Nil
  then show ?case by (cases st) auto
next
  case (Cons x d)
  obtain day ivs where x: "x = (day, ivs)" by fastforce
  then have same: "hours_same (Some a) day (day_payload ivs)" "hours_held a d"
    using Cons.prems(2) by (simp_all add: hours_held_def)
  obtain p where p: "quiet p" "push_step ops username (hours_label day) True
      (SetAllowedHours day (day_payload ivs)) st = (False, p, snd st)"
    using step_quiet [OF Cons.prems(1) TrueI] by blast
  from Cons.IH [of "(p, snd st)"] p same show ?case by (simp add: x push_hours_day_def)
qed

lemma playtime_quiet:
  assumes "quiet (fst st)" "playtime_held a pt"
  shows "\<exists>p. quiet p \<and> apply_playtime ops username pt (Some a) st = Inr (p, snd st)"
proof -
  obtain ls where ls: "project_daily_limits (list_or (pt_daily_limits_s pt) (replicate 7 0))
      (list_or (pt_allowed_weekdays pt) ALL_WEEKDAYS) = Inr ls" "ap_playtime_limits a = Some ls"
    using assms(2) by (auto simp: playtime_held_def split: sum.splits)
  have "quiet ((fst st)\<lparr>pu_skipped_count := n\<rparr>)" for n using assms(1) by (simp add: quiet_def)
  then show ?thesis
    using assms(2) ls
    by (simp add: apply_playtime_def playtime_held_def push_current_def step_skips)
qed

lemma push_quiet:
  assumes "held e = Some a" "policy_held a policy"
  shows "\<exists>p. quiet p \<and> apply_policy_push ops username policy e = Inr (p, e)"
proof -
  have ap: "op_applied ops username e = (Some a, e)" using op_applied_held [of e] assms(1) by simp
  obtain ls where ls: "project_daily_limits (pp_daily_limits_s policy)
      (list_or (pp_allowed_weekdays policy) ALL_WEEKDAYS) = Inr ls" "ap_limits_per_weekdays a = Some ls"
    using assms(2) by (auto simp: policy_held_def split: sum.splits)
  let ?n6 = "Suc (Suc (Suc (Suc (Suc (Suc 0)))))"
  let ?p7 = "new_push\<lparr>pu_skipped_count := Suc ?n6\<rparr>"
  have lock: "apply_lockout ops username policy (Some a) (new_push\<lparr>pu_skipped_count := ?n6\<rparr>, e) = (?p7, e)"
    using assms(2) by (simp add: apply_lockout_def policy_held_def step_skips)
  obtain p8 where p8: "quiet p8"
    "apply_allowed_hours ops username (Some a) (pp_allowed_hours policy) (?p7, e) = (p8, e)"
    using hours_quiet [of "(?p7, e)" a "pp_allowed_hours policy"] assms(2)
    by (auto simp: quiet_def new_push_def policy_held_def)
  obtain p9 where "quiet p9" "apply_playtime ops username (pp_playtime policy) (Some a) (p8, e) = Inr (p9, e)"
    using playtime_quiet [of "(p8, e)" a "pp_playtime policy"] p8 assms(2) by (auto simp: policy_held_def)
  then show ?thesis
    using assms(2) ls lock p8
    by (simp add: apply_policy_push_def ap policy_held_def push_current_def step_skips new_push_def)
qed

end

end
