(* ===== verification/Tick.thy ===== *)
theory Tick
  imports Agent_State Policy_Push Convergence
begin

section \<open>The tick loop\<close>

text \<open>
  Models \<open>agent/timekpr_hub_agent/tick.py\<close>: one pass over the managed users, the sync with the hub,
  and what each answer makes the agent do. The enforcer is a parameter (\<open>enforcer_ops\<close>), the hub
  answers through the parameter \<open>sync\<close> (a response, \<open>HubUnreachableError\<close> or
  \<open>DeviceRevokedError\<close>) and \<open>zone\<close> looks a timezone up by name. An exception that leaves
  \<open>run_tick\<close> ends the agent process and is the \<open>Inl\<close> of the result. Log lines are not modelled.
\<close>

definition DEFAULT_POLL_MS :: int where "DEFAULT_POLL_MS = 20000"
definition MAX_POLL_MS :: int where "MAX_POLL_MS = 90000"
definition DEFAULT_OFFLINE_GRACE_S :: seconds where "DEFAULT_OFFLINE_GRACE_S = 900"
definition DEFAULT_OFFLINE_CAP_S :: seconds where "DEFAULT_OFFLINE_CAP_S = 1800"
definition MAX_PENDING_SPANS :: nat where "MAX_PENDING_SPANS = 200"
definition MAX_PUSH_ERROR_LEN :: nat where "MAX_PUSH_ERROR_LEN = 256"

definition utc :: tz where
  "utc = (\<lambda>_. 0)"

definition canonical_day_str :: "(string \<Rightarrow> tz option) \<Rightarrow> instant \<Rightarrow> string \<Rightarrow> string result" where
  "canonical_day_str zone dt tz_name =
     (let tz = (if tz_name \<noteq> '''' then (case zone tz_name of None \<Rightarrow> utc | Some z \<Rightarrow> z) else utc)
      in rbind (canonical_stamp (Aware dt) tz) (\<lambda>st. Inr (day_str st)))"

subsection \<open>Observing the users\<close>

definition advance_user :: "string \<Rightarrow> user_observation \<Rightarrow> user_state \<Rightarrow> user_state \<times> bool \<times> seconds" where
  "advance_user today_str ob us =
     (let cum_local_before = ust_cum_local_s us;
          (cum_state, day, force_absolute, cum_local_before) =
            (if ust_day us = '''' then
               (\<lparr>cum_local_s = uo_spent_day_s ob, raw_prev_s = uo_spent_day_s ob\<rparr>, today_str, True, 0)
             else if ust_day us \<noteq> today_str then
               (reset_for_new_canonical_day (uo_spent_day_s ob), today_str, True, 0)
             else
               (advance_cumulative \<lparr>cum_local_s = ust_cum_local_s us, raw_prev_s = ust_raw_prev_s us\<rparr>
                  (uo_spent_day_s ob) default_config, ust_day us, False, cum_local_before))
      in (us\<lparr>ust_day := day, ust_cum_local_s := cum_local_s cum_state, ust_raw_prev_s := raw_prev_s cum_state\<rparr>,
          force_absolute, max (cum_local_s cum_state - cum_local_before) 0))"

definition activity_of :: "user_observation \<Rightarrow> seconds \<Rightarrow> activity_state_kind" where
  "activity_of ob burned = (if burned > 0 then DRAINING else if uo_logged_in ob then IDLE else LOGGED_OUT)"

definition tick_span :: "instant \<Rightarrow> user_observation \<Rightarrow> seconds \<Rightarrow> user_state \<Rightarrow> active_span option" where
  "tick_span now ob burned us =
     (if uo_active ob \<and> burned > 0 then
        let start = now - burned * usec_per_sec;
            start = (if ust_last_tick_utc us \<noteq> 0 then max start (ust_last_tick_utc us) else start)
        in Some \<lparr>as_start = start, as_end = now, as_burned_s = burned\<rparr>
      else None)"

definition user_request :: "username \<Rightarrow> user_observation \<Rightarrow> seconds \<Rightarrow> active_span option \<Rightarrow> user_state
    \<Rightarrow> sync_user_request" where
  "user_request username ob burned span us =
     \<lparr>sq_username = username, sq_cumulative_spent_s = ust_cum_local_s us,
      sq_active_spans = ust_pending_spans us @ (case span of None \<Rightarrow> [] | Some s \<Rightarrow> [s]),
      sq_observed = \<lparr>so_balance_s = uo_balance_s ob, so_spent_day_s = uo_spent_day_s ob,
        so_limit_today_s = uo_limit_today_s ob, so_logged_in = uo_logged_in ob, so_active = uo_active ob,
        so_activity_state = activity_of ob burned\<rparr>,
      sq_policy_version_applied = ust_policy_version_applied us,
      sq_policy_revision_applied = Some (ust_policy_revision_applied us),
      sq_policy_push_error = ust_last_policy_push_error us\<rparr>"

text \<open>The entry of \<open>observations\<close> and \<open>this_tick_spans\<close> for one user.\<close>

record tick_entry =
  en_obs :: user_observation
  en_force :: bool
  en_span :: "active_span option"

type_synonym entries = "(username, tick_entry) dict"

fun observe_users :: "'e enforcer_ops \<Rightarrow> string \<Rightarrow> instant \<Rightarrow> username list
    \<Rightarrow> 'e \<times> agent_state \<times> entries \<times> sync_user_request list
    \<Rightarrow> ('e \<times> agent_state \<times> entries \<times> sync_user_request list) result" where
  "observe_users ops today_str now [] x = Inr x"
| "observe_users ops today_str now (u # us) (e, st, obs, reqs) =
     rbind (op_observe ops u e) (\<lambda>(found, e).
       case found of
         None \<Rightarrow> observe_users ops today_str now us (e, st, obs, reqs)
       | Some ob \<Rightarrow>
           (case advance_user today_str ob (state_user u st) of
              (user, force, burned) \<Rightarrow>
                let span = tick_span now ob burned user
                in observe_users ops today_str now us
                     (e, set_state_user u user st,
                      dict_set obs u \<lparr>en_obs = ob, en_force = force, en_span = span\<rparr>,
                      reqs @ [user_request u ob burned span user])))"

subsection \<open>Writing to the device\<close>

definition apply_convergence :: "'e enforcer_ops \<Rightarrow> username \<Rightarrow> user_observation \<Rightarrow> hub_target \<Rightarrow> bool \<Rightarrow> bool
    \<Rightarrow> user_state \<Rightarrow> 'e \<Rightarrow> user_state \<times> 'e" where
  "apply_convergence ops username ob target force_absolute dry_run us e =
     (let res = plan \<lparr>obs_balance_s = uo_balance_s ob, obs_spent_local_s = uo_spent_day_s ob,
                      obs_limit_today_s = uo_limit_today_s ob\<rparr>
                target (ust_applied_offset_s us) force_absolute default_config;
          e = (if plan_op res \<noteq> NOOP \<and> \<not> dry_run
               then snd (op_set ops username (SetTimeLeft (op_value (plan_op res)) (plan_seconds res)) e)
               else e)
      in (if dry_run then us else us\<lparr>ust_applied_offset_s := new_applied_offset_s res\<rparr>, e))"

definition apply_offline_policy :: "'e enforcer_ops \<Rightarrow> username \<Rightarrow> user_observation \<Rightarrow> string \<Rightarrow> seconds \<Rightarrow> seconds
    \<Rightarrow> instant \<Rightarrow> user_state \<Rightarrow> 'e \<Rightarrow> user_state \<times> 'e" where
  "apply_offline_policy ops username ob offline_policy offline_grace_s offline_cap_s now us e =
     (let since_contact = now - ust_last_hub_contact_utc us;
          in_grace = (0 \<le> since_contact \<and> since_contact < offline_grace_s * usec_per_sec)
      in if offline_policy = ''open'' \<or> in_grace then (us, e)
         else
           let local_since_contact = max (ust_cum_local_s us - ust_cum_local_at_contact_s us) 0;
               estimated_global_spent = ust_last_global_spent_s us + local_since_contact
           in if offline_policy = ''capped'' then
                let capped_limit = min (ust_last_effective_limit_today_s us)
                                       (ust_last_global_spent_s us + offline_cap_s)
                in apply_convergence ops username ob
                     \<lparr>tgt_limit_today_s = capped_limit, tgt_global_spent_s = estimated_global_spent\<rparr>
                     False False us e
              else if offline_policy = ''closed'' then
                apply_convergence ops username ob
                  \<lparr>tgt_limit_today_s = uo_limit_today_s ob, tgt_global_spent_s = uo_limit_today_s ob\<rparr>
                  False False us e
              else (us, e))"

definition buffer_unsent_span :: "active_span option \<Rightarrow> user_state \<Rightarrow> user_state" where
  "buffer_unsent_span span us =
     (case span of
        None \<Rightarrow> us
      | Some s \<Rightarrow>
          let spans = ust_pending_spans us @ [s]
          in us\<lparr>ust_pending_spans :=
               (if length spans > MAX_PENDING_SPANS then drop (length spans - MAX_PENDING_SPANS) spans
                else spans)\<rparr>)"

subsection \<open>The hub's answer\<close>

text \<open>\<open>", ".join(labels)\<close>\<close>

fun join_labels :: "string list \<Rightarrow> string" where
  "join_labels [] = []"
| "join_labels [x] = x"
| "join_labels (x # y # r) = x @ '', '' @ join_labels (y # r)"

definition push_error_of :: "push \<Rightarrow> string option" where
  "push_error_of p = (if pu_failed p = [] then None else Some (take MAX_PUSH_ERROR_LEN (join_labels (pu_failed p))))"

definition remember_contact :: "instant \<Rightarrow> tick_entry \<Rightarrow> sync_user_response \<Rightarrow> user_state \<Rightarrow> user_state" where
  "remember_contact now en resp us =
     us\<lparr>ust_last_effective_limit_today_s := sr_effective_limit_today_s resp,
        ust_last_global_spent_s := sr_global_spent_s resp,
        ust_last_hub_contact_utc := now,
        ust_cum_local_at_contact_s := ust_cum_local_s us,
        ust_last_offline_policy := offline_policy_value (sr_offline_policy resp),
        ust_last_offline_grace_s := sr_offline_grace_s resp,
        ust_last_offline_cap_s := sr_offline_cap_s resp,
        ust_pending_spans := [],
        ust_last_tick_utc := (if en_span en \<noteq> None then now else ust_last_tick_utc us)\<rparr>"

definition apply_pushed_policy :: "'e enforcer_ops \<Rightarrow> username \<Rightarrow> sync_user_response \<Rightarrow> user_state \<Rightarrow> 'e
    \<Rightarrow> (user_state \<times> 'e) result" where
  "apply_pushed_policy ops username resp us e =
     (case sr_policy resp of
        None \<Rightarrow> Inr (us, e)
      | Some policy \<Rightarrow>
          rbind (apply_policy_push ops username policy e) (\<lambda>(p, e).
            let us = us\<lparr>ust_last_policy_push_error := push_error_of p\<rparr>
            in Inr (if pu_ok p
                    then us\<lparr>ust_policy_version_applied := sr_policy_version resp,
                            ust_policy_revision_applied := sr_policy_revision resp\<rparr>
                    else us, e)))"

definition target_of :: "sync_user_response \<Rightarrow> hub_target" where
  "target_of resp = \<lparr>tgt_limit_today_s = sr_effective_limit_today_s resp,
     tgt_global_spent_s = sr_global_spent_s resp\<rparr>"

definition answer_user :: "'e enforcer_ops \<Rightarrow> instant \<Rightarrow> username \<Rightarrow> tick_entry \<Rightarrow> sync_user_response
    \<Rightarrow> user_state \<Rightarrow> 'e \<Rightarrow> (user_state \<times> 'e) result" where
  "answer_user ops now username en resp us e =
     (let us = remember_contact now en resp us
      in if sr_enforcement resp = OBSERVE then
           Inr (apply_convergence ops username (en_obs en) (target_of resp) (en_force en) True
                  (us\<lparr>ust_last_enforcement := ''observe''\<rparr>) e)
         else
           rbind (apply_pushed_policy ops username resp (us\<lparr>ust_last_enforcement := ''enforce''\<rparr>) e) (\<lambda>(us, e).
             Inr (apply_convergence ops username (en_obs en) (target_of resp) (en_force en) False us e)))"

text \<open>\<open>{u["username"]: u for u in users}\<close>: the last entry of a name wins.\<close>

definition response_for :: "sync_user_response list \<Rightarrow> username \<Rightarrow> sync_user_response option" where
  "response_for users username = find (\<lambda>r. sr_username r = username) (rev users)"

fun answer_users :: "'e enforcer_ops \<Rightarrow> instant \<Rightarrow> sync_user_response list \<Rightarrow> entries
    \<Rightarrow> agent_state \<times> 'e \<Rightarrow> (agent_state \<times> 'e) result" where
  "answer_users ops now users [] x = Inr x"
| "answer_users ops now users ((u, en) # rest) (st, e) =
     (case response_for users u of
        None \<Rightarrow> answer_users ops now users rest (st, e)
      | Some resp \<Rightarrow>
          rbind (answer_user ops now u en resp (state_user u st) e) (\<lambda>(us, e).
            answer_users ops now users rest (set_state_user u us st, e)))"

fun revoked_users :: "entries \<Rightarrow> agent_state \<Rightarrow> agent_state" where
  "revoked_users [] st = st"
| "revoked_users ((u, en) # rest) st =
     revoked_users rest (set_state_user u
       ((buffer_unsent_span (en_span en) (state_user u st))\<lparr>ust_last_enforcement := ''revoked''\<rparr>) st)"

fun offline_users :: "'e enforcer_ops \<Rightarrow> instant \<Rightarrow> entries \<Rightarrow> agent_state \<times> 'e \<Rightarrow> agent_state \<times> 'e" where
  "offline_users ops now [] x = x"
| "offline_users ops now ((u, en) # rest) (st, e) =
     (let us = buffer_unsent_span (en_span en) (state_user u st)
      in case apply_offline_policy ops u (en_obs en) (ust_last_offline_policy us)
             (ust_last_offline_grace_s us) (ust_last_offline_cap_s us) now us e of
           (us, e) \<Rightarrow> offline_users ops now rest (set_state_user u us st, e))"

text \<open>What \<open>hub.sync\<close> does: it answers, or raises one of the two errors the tick handles, or another one.\<close>

datatype sync_outcome = Synced sync_response | HubUnreachable | DeviceRevoked | Sync_Raised exc

definition run_tick :: "'e enforcer_ops \<Rightarrow> (sync_request \<Rightarrow> 'h \<Rightarrow> sync_outcome \<times> 'h) \<Rightarrow> (string \<Rightarrow> tz option)
    \<Rightarrow> username list \<Rightarrow> string \<Rightarrow> string \<Rightarrow> instant \<Rightarrow> int \<Rightarrow> agent_state \<times> 'e \<times> 'h
    \<Rightarrow> (int \<times> agent_state \<times> 'e \<times> 'h) result" where
  "run_tick ops sync zone managed_users agent_version tz_name now previous_poll_ms w =
     (case w of (st, e, h) \<Rightarrow>
        rbind (canonical_day_str zone now (if ag_hub_tz st \<noteq> '''' then ag_hub_tz st else tz_name)) (\<lambda>today_str.
        rbind (observe_users ops today_str now managed_users (e, st, [], [])) (\<lambda>(e, st, obs, reqs).
          case sync \<lparr>sreq_agent_time = now, sreq_agent_version = agent_version, sreq_users = reqs\<rparr> h of
            (Synced response, h) \<Rightarrow>
              let next_poll_ms = sres_next_poll_ms response;
                  st = st\<lparr>ag_hub_tz := (if sres_hub_tz response \<noteq> '''' then sres_hub_tz response else ag_hub_tz st)\<rparr>
              in rbind (answer_users ops now (sres_users response) obs (st, e)) (\<lambda>(st, e).
                   Inr (min next_poll_ms MAX_POLL_MS, st, e, h))
          | (DeviceRevoked, h) \<Rightarrow>
              let next_poll_ms = min (previous_poll_ms * 2) MAX_POLL_MS
              in Inr (min next_poll_ms MAX_POLL_MS, revoked_users obs st, e, h)
          | (HubUnreachable, h) \<Rightarrow>
              (case offline_users ops now obs (st, e) of (st, e) \<Rightarrow>
                 let next_poll_ms = min (previous_poll_ms * 2) MAX_POLL_MS
                 in Inr (min next_poll_ms MAX_POLL_MS, st, e, h))
          | (Sync_Raised x, h) \<Rightarrow> Inl x)))"

end
