(* ===== verification/Hub_Client.thy ===== *)
theory Hub_Client
  imports Agent_Config Tick
begin

section \<open>The agent's HTTP client\<close>

text \<open>
  Models \<open>agent/timekpr_hub_agent/hubclient.py\<close>. The network (\<open>urllib\<close> and whatever answers) is the
  operation \<open>ho_net\<close> of a host \<open>'h\<close>; it may change the host, so that another process may rewrite
  the token file while a request is on its way. The token file is read by \<open>ho_token\<close> and written
  by \<open>ho_put_token\<close>. A payload is of a type \<open>'q\<close>, parsed JSON of a type \<open>'j\<close>.
\<close>

subsection \<open>One exchange\<close>

record 'q http_request =
  req_url :: string
  req_authorization :: "string option"
  req_payload :: 'q

text \<open>What a body is: empty, JSON, text that is not JSON, or bytes that are not UTF-8.\<close>

datatype 'j http_body = No_Body | Json 'j | Not_Json | Not_Text

text \<open>
  How \<open>urlopen\<close> ends: a \<open>ValueError\<close> for a URL or a header it does not accept, a \<open>URLError\<close> or
  other \<open>OSError\<close>, an \<open>http.client.HTTPException\<close> (a broken reply, a host name or port it refuses),
  an answer, or an \<open>HTTPError\<close>, raised for every status outside 200..299.
\<close>

datatype 'j exchange =
    Malformed
  | Network_Failure
  | Broken_Protocol
  | Success int "'j http_body"
  | Error_Status int "'j http_body"

datatype token_file = No_Token | Unreadable_Token | Token_Text string

record ('q, 'j, 'h) host_ops =
  ho_net :: "'q http_request \<Rightarrow> 'h \<Rightarrow> 'j exchange \<times> 'h"
  ho_token :: "'h \<Rightarrow> token_file"
  ho_put_token :: "string \<Rightarrow> 'h \<Rightarrow> 'h result"
  ho_empty :: 'j

record hub_client =
  hc_base_url :: string
  hc_token :: "string option"

definition load_token :: "token_file \<Rightarrow> string option result" where
  "load_token f = (case f of No_Token \<Rightarrow> Inr None | Unreadable_Token \<Rightarrow> Inl OSError
     | Token_Text t \<Rightarrow> Inr (Some (py_strip t)))"

text \<open>The constructor: a CA file that cannot be loaded raises an \<open>OSError\<close>.\<close>

definition new_client :: "(string \<Rightarrow> bool) \<Rightarrow> string \<Rightarrow> string option \<Rightarrow> token_file \<Rightarrow> hub_client result" where
  "new_client ca_loads base_url ca_cert f =
     rbind (load_token f) (\<lambda>token.
       if str_or ca_cert '''' \<noteq> '''' \<and> \<not> ca_loads (str_or ca_cert '''') then Inl OSError
       else Inr \<lparr>hc_base_url = base_url, hc_token = token\<rparr>)"

definition client_headers :: "hub_client \<Rightarrow> string result" where
  "client_headers c = (if str_or (hc_token c) '''' = '''' then Inl RuntimeError
     else Inr (''Bearer '' @ str_or (hc_token c) ''''))"

text \<open>
  \<open>URLError\<close> is an \<open>OSError\<close>, and the first clause turns every \<open>ValueError\<close> of a successful
  exchange, its body's included, into one. The body of an error answer is parsed under a clause
  for \<open>JSONDecodeError\<close> only, which \<open>UnicodeDecodeError\<close> is not.
\<close>

definition post_reply :: "'j \<Rightarrow> 'j exchange \<Rightarrow> (int \<times> 'j) result" where
  "post_reply dflt x =
     (case x of
        Malformed \<Rightarrow> Inl OSError
      | Network_Failure \<Rightarrow> Inl OSError
      | Broken_Protocol \<Rightarrow> Inl ProtocolError
      | Success s b \<Rightarrow> (case b of No_Body \<Rightarrow> Inr (s, dflt) | Json j \<Rightarrow> Inr (s, j)
          | Not_Json \<Rightarrow> Inl OSError | Not_Text \<Rightarrow> Inl OSError)
      | Error_Status s b \<Rightarrow> (case b of No_Body \<Rightarrow> Inr (s, dflt) | Json j \<Rightarrow> Inr (s, j)
          | Not_Json \<Rightarrow> Inr (s, dflt) | Not_Text \<Rightarrow> Inl ValueError))"

definition post :: "('q, 'j, 'h) host_ops \<Rightarrow> hub_client \<Rightarrow> string \<Rightarrow> 'q \<Rightarrow> string option \<Rightarrow> 'h
    \<Rightarrow> (int \<times> 'j) result \<times> 'h" where
  "post ops c path payload authorization h =
     (case ho_net ops \<lparr>req_url = rstrip_slashes (hc_base_url c) @ path, req_authorization = authorization,
                       req_payload = payload\<rparr> h of
        (x, h) \<Rightarrow> (post_reply (ho_empty ops) x, h))"

subsection \<open>Enrollment\<close>

text \<open>The messages an admin sees, and every exception that is not one of them.\<close>

datatype enroll_failure =
    Cannot_Reach
  | Unknown_Code
  | Code_Already_Used
  | Code_Expired
  | Hub_Returned int
  | Enroll_Raised exc

definition client_enroll :: "('q, 'j, 'h) host_ops \<Rightarrow> ('j \<Rightarrow> string option) \<Rightarrow> 'q \<Rightarrow> hub_client \<Rightarrow> 'h
    \<Rightarrow> (enroll_failure + 'j) \<times> hub_client \<times> 'h" where
  "client_enroll ops device_token payload c h =
     (case post ops c ''/api/v1/enroll'' payload None h of
        (Inl e, h) \<Rightarrow> (Inl (if e = OSError then Cannot_Reach else Enroll_Raised e), c, h)
      | (Inr (status, data), h) \<Rightarrow>
          if status = 404 then (Inl Unknown_Code, c, h)
          else if status = 409 then (Inl Code_Already_Used, c, h)
          else if status = 410 then (Inl Code_Expired, c, h)
          else if status \<ge> 400 then (Inl (Hub_Returned status), c, h)
          else (case device_token data of
                  None \<Rightarrow> (Inl (Enroll_Raised KeyError), c, h)
                | Some t \<Rightarrow>
                    (case ho_put_token ops t h of
                       Inl e \<Rightarrow> (Inl (Enroll_Raised e), c\<lparr>hc_token := Some t\<rparr>, h)
                     | Inr h \<Rightarrow> (Inr data, c\<lparr>hc_token := Some t\<rparr>, h))))"

subsection \<open>Sync\<close>

datatype 'j sync_end = Answer 'j | Unreachable | Revoked | Raises exc

definition sync_post :: "('q, 'j, 'h) host_ops \<Rightarrow> hub_client \<Rightarrow> 'q \<Rightarrow> 'h \<Rightarrow> (int \<times> 'j) result \<times> 'h" where
  "sync_post ops c payload h =
     (case client_headers c of
        Inl e \<Rightarrow> (Inl e, h)
      | Inr authorization \<Rightarrow> post ops c ''/api/v1/sync'' payload (Some authorization) h)"

definition auth_status :: "int \<Rightarrow> bool" where
  "auth_status s \<longleftrightarrow> s = 401 \<or> s = 403"

definition sync_verdict :: "int \<times> 'j \<Rightarrow> 'j sync_end" where
  "sync_verdict r = (case r of (status, data) \<Rightarrow>
     if auth_status status then Revoked else if status \<ge> 500 then Unreachable
     else if status \<ge> 400 then Unreachable else Answer data)"

definition sync_failed :: "exc \<Rightarrow> 'j sync_end" where
  "sync_failed e = (if e = OSError then Unreachable else Raises e)"

definition client_sync :: "('q, 'j, 'h) host_ops \<Rightarrow> 'q \<Rightarrow> hub_client \<Rightarrow> 'h \<Rightarrow> 'j sync_end \<times> hub_client \<times> 'h" where
  "client_sync ops payload c h =
     (case sync_post ops c payload h of
        (Inl e, h) \<Rightarrow> (sync_failed e, c, h)
      | (Inr (status, data), h) \<Rightarrow>
          if \<not> auth_status status then (sync_verdict (status, data), c, h)
          else (case load_token (ho_token ops h) of
                  Inl e \<Rightarrow> (Raises e, c, h)
                | Inr fresh \<Rightarrow>
                    if str_or fresh '''' = '''' \<or> fresh = hc_token c then (sync_verdict (status, data), c, h)
                    else let c = c\<lparr>hc_token := fresh\<rparr>
                         in case sync_post ops c payload h of
                              (Inl e, h) \<Rightarrow> (sync_failed e, c, h)
                            | (Inr r, h) \<Rightarrow> (sync_verdict r, c, h)))"

text \<open>
  The tick's view of it. A body that is not a sync answer makes the tick raise \<open>KeyError\<close> on
  \<open>response["users"]\<close>.
\<close>

definition tick_sync :: "('q, 'j, 'h) host_ops \<Rightarrow> ('j \<Rightarrow> sync_response option) \<Rightarrow> (sync_request \<Rightarrow> 'q)
    \<Rightarrow> sync_request \<Rightarrow> hub_client \<times> 'h \<Rightarrow> sync_outcome \<times> hub_client \<times> 'h" where
  "tick_sync ops as_answer as_payload req w =
     (case client_sync ops (as_payload req) (fst w) (snd w) of
        (out, w) \<Rightarrow>
          (case out of
             Answer j \<Rightarrow> (case as_answer j of Some r \<Rightarrow> Synced r | None \<Rightarrow> Sync_Raised KeyError)
           | Unreachable \<Rightarrow> HubUnreachable
           | Revoked \<Rightarrow> DeviceRevoked
           | Raises e \<Rightarrow> Sync_Raised e, w))"

subsection \<open>What is sent and answered\<close>

datatype agent_payload = Enroll_Payload enroll_request | Sync_Payload sync_request

datatype hub_json = Enroll_Json enroll_response | Sync_Json sync_response | Detail

definition device_token_of :: "hub_json \<Rightarrow> string option" where
  "device_token_of j = (case j of Enroll_Json r \<Rightarrow> Some (ens_device_token r) | _ \<Rightarrow> None)"

definition sync_answer_of :: "hub_json \<Rightarrow> sync_response option" where
  "sync_answer_of j = (case j of Sync_Json r \<Rightarrow> Some r | _ \<Rightarrow> None)"

subsection \<open>What a sync sends and concludes\<close>

text \<open>A host that also writes down every exchange.\<close>

definition logged :: "('q, 'j, 'h) host_ops \<Rightarrow> ('q, 'j, 'h \<times> ('q http_request \<times> 'j exchange) list) host_ops" where
  "logged ops = \<lparr>ho_net = (\<lambda>r (h, log). case ho_net ops r h of (x, h) \<Rightarrow> (x, (h, log @ [(r, x)]))),
     ho_token = (\<lambda>(h, log). ho_token ops h),
     ho_put_token = (\<lambda>t (h, log). rbind (ho_put_token ops t h) (\<lambda>h. Inr (h, log))),
     ho_empty = ho_empty ops\<rparr>"

text \<open>The answer had this status; its body did not matter.\<close>

definition answered :: "'j exchange \<Rightarrow> (int \<Rightarrow> bool) \<Rightarrow> bool" where
  "answered x P = (case x of Success s _ \<Rightarrow> P s | Error_Status s _ \<Rightarrow> P s | _ \<Rightarrow> False)"

lemma post_reply_answered: "post_reply dflt x = Inr (s, j) \<Longrightarrow> answered x (\<lambda>t. t = s)"
  by (auto simp: post_reply_def answered_def split: exchange.splits http_body.splits)

lemma answered_mono: "answered x P \<Longrightarrow> (\<And>s. P s \<Longrightarrow> Q s) \<Longrightarrow> answered x Q"
  by (auto simp: answered_def split: exchange.splits)

definition sync_url :: "hub_client \<Rightarrow> string" where
  "sync_url c = rstrip_slashes (hc_base_url c) @ ''/api/v1/sync''"

definition sync_req :: "hub_client \<Rightarrow> 'q \<Rightarrow> 'q http_request" where
  "sync_req c payload = \<lparr>req_url = sync_url c, req_authorization = Some (''Bearer '' @ str_or (hc_token c) ''''),
     req_payload = payload\<rparr>"

lemma sync_post_logged:
  "sync_post (logged ops) c payload (h, log) =
     (if str_or (hc_token c) '''' = '''' then (Inl RuntimeError, (h, log))
      else case ho_net ops (sync_req c payload) h of
        (x, h) \<Rightarrow> (post_reply (ho_empty ops) x, (h, log @ [(sync_req c payload, x)])))"
  by (simp add: sync_post_def client_headers_def post_def logged_def sync_req_def sync_url_def split: prod.split)

lemma reply_ends:
  "post_reply dflt x = Inr (s, j) \<Longrightarrow> auth_status s = answered x auth_status"
  by (auto simp: post_reply_def answered_def split: exchange.splits http_body.splits)

lemma reply_answer:
  "post_reply dflt x = Inr (s, j) \<Longrightarrow> sync_verdict (s, j) = Answer d \<Longrightarrow> answered x (\<lambda>s. s < 400)"
  by (auto simp: post_reply_def answered_def sync_verdict_def split: exchange.splits http_body.splits if_splits)

lemma verdict_iff [simp]:
  "sync_verdict (s, j) = Revoked \<longleftrightarrow> auth_status s"
  "sync_verdict (s, j) = Unreachable \<longleftrightarrow> \<not> auth_status s \<and> 400 \<le> s"
  "sync_verdict (s, j) \<noteq> Raises e"
  by (auto simp: sync_verdict_def)

lemma failed_iff [simp]:
  "sync_failed e \<noteq> Revoked" "sync_failed e \<noteq> Answer d"
  "sync_failed e = Unreachable \<longleftrightarrow> e = OSError" "sync_failed e = Raises e' \<longleftrightarrow> e \<noteq> OSError \<and> e' = e"
  by (auto simp: sync_failed_def)

text \<open>What one exchange is taken for.\<close>

definition concluded :: "'j exchange \<Rightarrow> 'j sync_end \<Rightarrow> bool" where
  "concluded x out =
     (case out of
        Answer _ \<Rightarrow> answered x (\<lambda>s. s < 400)
      | Revoked \<Rightarrow> answered x auth_status
      | Unreachable \<Rightarrow> (case x of Malformed \<Rightarrow> True | Network_Failure \<Rightarrow> True | Broken_Protocol \<Rightarrow> False
          | Success s b \<Rightarrow> b = Not_Json \<or> b = Not_Text \<or> 400 \<le> s
          | Error_Status s b \<Rightarrow> 400 \<le> s \<and> \<not> auth_status s)
      | Raises e \<Rightarrow> (case x of Broken_Protocol \<Rightarrow> e = ProtocolError | Error_Status s b \<Rightarrow> b = Not_Text \<and> e = ValueError
          | _ \<Rightarrow> False))"

lemma verdict_concluded:
  "post_reply dflt x = Inl e \<Longrightarrow> concluded x (sync_failed e)"
  "post_reply dflt x = Inr r \<Longrightarrow> concluded x (sync_verdict r)"
  by (auto simp: post_reply_def concluded_def sync_failed_def sync_verdict_def answered_def
      split: exchange.splits http_body.splits)

text \<open>
  C21. A sync never fails open. Without a token nothing is sent. Otherwise the token in memory is sent,
  and a second request follows only when the first was answered 401 or 403 and the token file
  holds another token, which is then the one in memory: never more than two requests. The outcome is
  what the last exchange says: data only for a status below 400, revoked only for 401 and 403, unreachable
  for a failed connection, any other error status or a body that does not parse. The exceptions that
  pass the tick by are the missing token, a broken reply, an error body that is not text, and a
  token file that cannot be read.
\<close>

theorem sync_never_fails_open:
  assumes "client_sync (logged ops) payload c (h, []) = (out, c', (h', log))"
  shows "case log of
      [] \<Rightarrow> str_or (hc_token c) '''' = '''' \<and> out = Raises RuntimeError \<and> c' = c
    | [(r, x)] \<Rightarrow> r = sync_req c payload \<and> c' = c \<and>
        (concluded x out \<or> (answered x auth_status \<and> ho_token ops h' = Unreadable_Token \<and> out = Raises OSError))
    | [(r, x), (r', x')] \<Rightarrow> r = sync_req c payload \<and> answered x auth_status \<and>
        r' = sync_req c' payload \<and> hc_token c' \<noteq> hc_token c \<and> str_or (hc_token c') '''' \<noteq> '''' \<and>
        concluded x' out
    | _ \<Rightarrow> False"
proof (cases "str_or (hc_token c) '''' = ''''")
  case True
  then show ?thesis using assms by (auto simp: client_sync_def sync_post_logged sync_failed_def)
next
  case False
  obtain x h1 where x: "ho_net ops (sync_req c payload) h = (x, h1)" by fastforce
  have first: "sync_post (logged ops) c payload (h, []) = (post_reply (ho_empty ops) x, (h1, [(sync_req c payload, x)]))"
    using False by (simp add: sync_post_logged x)
  show ?thesis
  proof (cases "post_reply (ho_empty ops) x")
    case (Inl e)
    then show ?thesis using assms verdict_concluded(1) [OF Inl] by (auto simp: client_sync_def first)
  next
    case (Inr r)
    obtain s j where r: "r = (s, j)" by fastforce
    note reply = Inr [unfolded r]
    note ends = reply_ends [OF reply] and conc = verdict_concluded(2) [OF reply]
    show ?thesis
    proof (cases "auth_status s")
      case False
      then show ?thesis using assms conc by (auto simp: client_sync_def first reply)
    next
      case auth: True
      have tok: "ho_token (logged ops) (h1, l) = ho_token ops h1" for l by (simp add: logged_def)
      show ?thesis
      proof (cases "load_token (ho_token ops h1)")
        case (Inl e)
        then have "e = OSError" "ho_token ops h1 = Unreadable_Token"
          by (auto simp: load_token_def split: token_file.splits)
        then show ?thesis using assms Inl auth ends by (auto simp: client_sync_def first reply tok)
      next
        case fresh: (Inr f)
        show ?thesis
        proof (cases "str_or f '''' = '''' \<or> f = hc_token c")
          case True
          then show ?thesis using assms auth fresh conc by (auto simp: client_sync_def first reply tok)
        next
          case False
          let ?c = "c\<lparr>hc_token := f\<rparr>"
          obtain x' h2 where x': "ho_net ops (sync_req ?c payload) h1 = (x', h2)" by fastforce
          have second: "sync_post (logged ops) ?c payload (h1, [(sync_req c payload, x)]) =
              (post_reply (ho_empty ops) x', (h2, [(sync_req c payload, x), (sync_req ?c payload, x')]))"
            using False by (simp add: sync_post_logged x')
          show ?thesis
          proof (cases "post_reply (ho_empty ops) x'")
            case (Inl e)
            then show ?thesis using assms auth fresh False ends verdict_concluded(1) [OF Inl]
              by (auto simp: client_sync_def first reply tok second Let_def)
          next
            case (Inr q)
            then show ?thesis using assms auth fresh False ends verdict_concluded(2) [OF Inr]
              by (auto simp: client_sync_def first reply tok second Let_def)
          qed
        qed
      qed
    qed
  qed
qed

text \<open>A network that answers from a script, for the examples.\<close>

definition scripted :: "('q, int, token_file \<times> int exchange list) host_ops" where
  "scripted = \<lparr>ho_net = (\<lambda>r (f, xs). case xs of [] \<Rightarrow> (Network_Failure, (f, [])) | x # xs \<Rightarrow> (x, (f, xs))),
     ho_token = fst, ho_put_token = (\<lambda>t (f, xs). Inr (Token_Text t, xs)), ho_empty = 0\<rparr>"

definition stale_client :: hub_client where
  "stale_client = \<lparr>hc_base_url = ''http://hub/'', hc_token = Some ''tkh_old''\<rparr>"

lemma sync_never_fails_open_witness:
  "\<exists>c' h' log. client_sync (logged scripted) () stale_client
     ((Token_Text ''tkh_new'', [Error_Status 401 No_Body, Success 200 (Json 5)]), []) = (Answer 5, c', (h', log)) \<and>
     length log = 2 \<and> answered (snd (hd log)) auth_status \<and> answered (snd (last log)) (\<lambda>s. s < 400)"
proof -
  obtain c' h' log where run: "client_sync (logged scripted) () stale_client
      ((Token_Text ''tkh_new'', [Error_Status 401 No_Body, Success 200 (Json 5)]), []) = (Answer 5, c', (h', log))"
    and two: "length log = 2"
    by (simp add: client_sync_def sync_post_def client_headers_def post_def logged_def scripted_def stale_client_def
        post_reply_def auth_status_def sync_verdict_def load_token_def str_or_def py_strip_def is_blank_def)
  then obtain p q where "log = [p, q]" by (cases log; cases "tl log") auto
  with sync_never_fails_open [OF run] run show ?thesis by (auto simp: concluded_def split: prod.splits)
qed

subsection \<open>What enrolling leaves on disk\<close>

text \<open>The contract of the token file: what was written is what is there.\<close>

locale token_store =
  fixes ops :: "('q, 'j, 'h) host_ops"
  assumes put_token: "ho_put_token ops t h = Inr h' \<Longrightarrow> ho_token ops h' = Token_Text t"
begin

lemma enrolled_token:
  assumes "client_enroll ops device_token payload c h = (Inr data, c', h')"
  shows "\<exists>t. device_token data = Some t \<and> hc_token c' = Some t \<and> hc_base_url c' = hc_base_url c \<and>
    ho_token ops h' = Token_Text t"
  using assms
  by (auto simp: client_enroll_def dest: put_token split: prod.splits sum.splits if_splits option.splits)

text \<open>A client started later holds the token of the enrollment.\<close>

lemma enrolled_client:
  assumes "client_enroll ops device_token payload c h = (Inr data, c', h')" "stripped (the (device_token data))"
  shows "new_client ca_loads (hc_base_url c) None (ho_token ops h') = Inr c'"
  using enrolled_token [OF assms(1)] assms(2)
  by (auto simp: new_client_def load_token_def str_or_def)

end

text \<open>Nobody but the agent writes the token file while a request is on its way.\<close>

locale quiet_host = token_store +
  assumes net_token: "ho_token ops (snd (ho_net ops r h)) = ho_token ops h"
begin

lemma post_token: "post ops c path payload a h = (r, h') \<Longrightarrow> ho_token ops h' = ho_token ops h"
  using net_token by (auto simp: post_def split: prod.splits) (metis snd_conv)

lemma sync_token: "client_sync ops payload c h = (out, c', h') \<Longrightarrow> ho_token ops h' = ho_token ops h"
  by (auto simp: client_sync_def sync_post_def Let_def dest!: post_token split: prod.splits sum.splits if_splits)

lemma refused_enroll_keeps_token:
  assumes "client_enroll ops device_token payload c h = (Inl e, c', h')" "\<forall>x. e \<noteq> Enroll_Raised x"
  shows "c' = c \<and> ho_token ops h' = ho_token ops h"
  using assms by (auto simp: client_enroll_def dest: post_token split: prod.splits sum.splits if_splits option.splits)

end

interpretation scripted: quiet_host "scripted :: (unit, int, token_file \<times> int exchange list) host_ops"
  by unfold_locales (auto simp: scripted_def split: list.splits)

end
