(* ===== verification/Hub_DB.thy ===== *)
theory Hub_DB
  imports Effective_Policy
begin

section \<open>The hub's tables\<close>

text \<open>
  Models \<open>hub/timekpr_hub/db/models.py\<close>: one record per table, the state of the database, and the
  constraints (unique keys, checks, column sizes) that the services rely on. A JSONB column holds
  the typed value it stores. A UUID is a number and \<open>uuid4\<close> takes the next unused one. An endpoint
  runs as one transaction: its \<open>Inl\<close> leaves the database as it was (the session is rolled back).
\<close>

record admin_row =
  adm_id :: uuid
  adm_email :: string
  adm_password_hash :: string
  adm_created_at :: instant

record session_row =
  ses_id :: uuid
  ses_admin_id :: uuid
  ses_token_hash :: string
  ses_expires_at :: instant
  ses_ip :: "string option"
  ses_user_agent :: "string option"
  ses_created_at :: instant

record invite_row =
  inv_token :: string
  inv_expires_at :: instant
  inv_used_at :: "instant option"
  inv_created_by :: "uuid option"
  inv_created_at :: instant

record user_row =
  usr_id :: uuid
  usr_canonical_username :: username
  usr_display_name :: string
  usr_current_policy_id :: "uuid option"
  usr_accounting_mode :: string
  usr_offline_policy :: string
  usr_offline_grace_s :: seconds
  usr_offline_cap_s :: seconds
  usr_gated_weekdays :: "string list"
  usr_created_at :: instant

record alias_row =
  al_id :: uuid
  al_user_id :: uuid
  al_device_id :: uuid
  al_local_username :: username
  al_policy_push_error :: "string option"
  al_policy_push_error_at :: "instant option"

record device_row =
  dev_id :: uuid
  dev_name :: string
  dev_machine_id :: string
  dev_token_hash :: string
  dev_status :: string
  dev_enforcement :: string
  dev_agent_version :: "string option"
  dev_clock_skew_ms :: "int option"
  dev_enrolled_at :: instant
  dev_last_seen_at :: "instant option"
  dev_last_sync_at :: "instant option"

record policy_row =
  pol_id :: uuid
  pol_user_id :: uuid
  pol_version :: int
  pol_created_at :: instant
  pol_created_by :: "string option"
  pol_daily_limits :: "seconds list"
  pol_allowed_hours :: wire_hours
  pol_allowed_weekdays :: "string list"
  pol_weekly_limit_s :: seconds
  pol_monthly_limit_s :: seconds
  pol_lockout_type :: string
  pol_wake_from :: "string option"
  pol_wake_to :: "string option"
  pol_track_inactive :: bool
  pol_hide_tray_icon :: bool
  pol_playtime_enabled :: bool
  pol_playtime_override_enabled :: bool
  pol_playtime_unaccounted :: bool
  pol_playtime_allowed_weekdays :: "string list"
  pol_playtime_daily_limits :: "seconds list"
  pol_playtime_activities :: "playtime_activity list"
  pol_note :: "string option"

record counter_row =
  uc_user_id :: uuid
  uc_device_id :: uuid
  uc_day :: date
  uc_spent_seconds :: seconds
  uc_activity_state :: "string option"
  uc_updated_at :: instant

record interval_row =
  ai_id :: uuid
  ai_user_id :: uuid
  ai_device_id :: uuid
  ai_day :: date
  ai_start :: instant
  ai_end :: instant
  ai_window_end_ts :: instant

record grant_row =
  gr_id :: uuid
  gr_user_id :: uuid
  gr_day :: date
  gr_seconds :: seconds
  gr_reason :: "string option"
  gr_source :: string
  gr_granted_by :: "string option"
  gr_created_at :: instant

record day_override_row =
  dov_id :: uuid
  dov_user_id :: uuid
  dov_day :: date
  dov_limit_seconds :: seconds
  dov_reason :: "string option"
  dov_created_by :: "string option"
  dov_created_at :: instant

record hour_override_row =
  hov_id :: uuid
  hov_user_id :: uuid
  hov_day :: date
  hov_intervals :: "wire_hour list"
  hov_reason :: "string option"
  hov_created_by :: "string option"
  hov_created_at :: instant

record release_row =
  rel_id :: uuid
  rel_user_id :: uuid
  rel_day :: date
  rel_released_by :: "string option"
  rel_released_at :: instant
  rel_note :: "string option"

record audit_row =
  aud_id :: uuid
  aud_ts :: instant
  aud_actor_type :: string
  aud_actor_id :: "string option"
  aud_action :: string
  aud_target_type :: "string option"
  aud_target_id :: "string option"
  aud_before :: "json option"
  aud_after :: "json option"
  aud_ip :: "string option"

record code_row =
  cod_code :: string
  cod_expires_at :: instant
  cod_used_at :: "instant option"
  cod_used_by_device_id :: "uuid option"
  cod_created_at :: instant

record db =
  db_next_id :: uuid
  db_admins :: "admin_row list"
  db_sessions :: "session_row list"
  db_invites :: "invite_row list"
  db_users :: "user_row list"
  db_aliases :: "alias_row list"
  db_devices :: "device_row list"
  db_policies :: "policy_row list"
  db_counters :: "counter_row list"
  db_intervals :: "interval_row list"
  db_grants :: "grant_row list"
  db_day_overrides :: "day_override_row list"
  db_hour_overrides :: "hour_override_row list"
  db_releases :: "release_row list"
  db_audit :: "audit_row list"
  db_codes :: "code_row list"

definition empty_db :: db where
  "empty_db = \<lparr>db_next_id = 1, db_admins = [], db_sessions = [], db_invites = [], db_users = [], db_aliases = [],
     db_devices = [], db_policies = [], db_counters = [], db_intervals = [], db_grants = [],
     db_day_overrides = [], db_hour_overrides = [], db_releases = [], db_audit = [], db_codes = []\<rparr>"

definition uuid4 :: "db \<Rightarrow> uuid \<times> db" where
  "uuid4 d = (db_next_id d, d\<lparr>db_next_id := db_next_id d + 1\<rparr>)"

subsection \<open>Keys\<close>

definition counter_key :: "counter_row \<Rightarrow> uuid \<times> uuid \<times> date" where
  "counter_key r = (uc_user_id r, uc_device_id r, uc_day r)"

definition interval_key :: "interval_row \<Rightarrow> uuid \<times> instant" where
  "interval_key r = (ai_device_id r, ai_window_end_ts r)"

definition day_override_key :: "day_override_row \<Rightarrow> uuid \<times> date" where
  "day_override_key r = (dov_user_id r, dov_day r)"

definition hour_override_key :: "hour_override_row \<Rightarrow> uuid \<times> date" where
  "hour_override_key r = (hov_user_id r, hov_day r)"

definition release_key :: "release_row \<Rightarrow> uuid \<times> date" where
  "release_key r = (rel_user_id r, rel_day r)"

definition alias_key :: "alias_row \<Rightarrow> uuid \<times> username" where
  "alias_key r = (al_device_id r, al_local_username r)"

definition policy_key :: "policy_row \<Rightarrow> uuid \<times> int" where
  "policy_key r = (pol_user_id r, pol_version r)"

subsection \<open>Column types\<close>

text \<open>A value that does not fit its column is refused by the driver or the server (DataError).\<close>

definition int4 :: "int \<Rightarrow> bool" where
  "int4 v \<longleftrightarrow> - (2 ^ 31) \<le> v \<and> v < 2 ^ 31"

definition int8 :: "int \<Rightarrow> bool" where
  "int8 v \<longleftrightarrow> - (2 ^ 63) \<le> v \<and> v < 2 ^ 63"

abbreviation fits_opt :: "nat \<Rightarrow> string option \<Rightarrow> bool" where
  "fits_opt n s \<equiv> pred_option (\<lambda>v. length v \<le> n) s"

definition admin_fits :: "admin_row \<Rightarrow> bool" where
  "admin_fits a \<longleftrightarrow> length (adm_email a) \<le> 320 \<and> length (adm_password_hash a) \<le> 255"

definition session_fits :: "session_row \<Rightarrow> bool" where
  "session_fits s \<longleftrightarrow> length (ses_token_hash s) \<le> 64 \<and> fits_opt 64 (ses_ip s) \<and> fits_opt 255 (ses_user_agent s)"

definition user_fits :: "user_row \<Rightarrow> bool" where
  "user_fits u \<longleftrightarrow> length (usr_canonical_username u) \<le> 64 \<and> length (usr_display_name u) \<le> 128 \<and>
     length (usr_accounting_mode u) \<le> 16 \<and> length (usr_offline_policy u) \<le> 16 \<and>
     int4 (usr_offline_grace_s u) \<and> int4 (usr_offline_cap_s u)"

definition alias_fits :: "alias_row \<Rightarrow> bool" where
  "alias_fits a \<longleftrightarrow> length (al_local_username a) \<le> 64 \<and> fits_opt 256 (al_policy_push_error a)"

definition device_fits :: "device_row \<Rightarrow> bool" where
  "device_fits d \<longleftrightarrow> length (dev_name d) \<le> 128 \<and> length (dev_machine_id d) \<le> 64 \<and>
     length (dev_token_hash d) \<le> 64 \<and> length (dev_status d) \<le> 16 \<and> length (dev_enforcement d) \<le> 16 \<and>
     fits_opt 32 (dev_agent_version d) \<and> pred_option int8 (dev_clock_skew_ms d)"

definition policy_fits :: "policy_row \<Rightarrow> bool" where
  "policy_fits p \<longleftrightarrow> int4 (pol_version p) \<and> int4 (pol_weekly_limit_s p) \<and> int4 (pol_monthly_limit_s p) \<and>
     fits_opt 64 (pol_created_by p) \<and> length (pol_lockout_type p) \<le> 16 \<and>
     fits_opt 8 (pol_wake_from p) \<and> fits_opt 8 (pol_wake_to p) \<and> fits_opt 500 (pol_note p)"

definition counter_fits :: "counter_row \<Rightarrow> bool" where
  "counter_fits r \<longleftrightarrow> int8 (uc_spent_seconds r) \<and> fits_opt 16 (uc_activity_state r)"

definition grant_fits :: "grant_row \<Rightarrow> bool" where
  "grant_fits r \<longleftrightarrow> int4 (gr_seconds r) \<and> fits_opt 255 (gr_reason r) \<and> length (gr_source r) \<le> 24 \<and>
     fits_opt 64 (gr_granted_by r)"

definition day_override_fits :: "day_override_row \<Rightarrow> bool" where
  "day_override_fits r \<longleftrightarrow> int4 (dov_limit_seconds r) \<and> fits_opt 255 (dov_reason r) \<and> fits_opt 64 (dov_created_by r)"

definition hour_override_fits :: "hour_override_row \<Rightarrow> bool" where
  "hour_override_fits r \<longleftrightarrow> fits_opt 255 (hov_reason r) \<and> fits_opt 64 (hov_created_by r)"

definition release_fits :: "release_row \<Rightarrow> bool" where
  "release_fits r \<longleftrightarrow> fits_opt 64 (rel_released_by r) \<and> fits_opt 255 (rel_note r)"

definition audit_fits :: "audit_row \<Rightarrow> bool" where
  "audit_fits r \<longleftrightarrow> length (aud_actor_type r) \<le> 16 \<and> fits_opt 64 (aud_actor_id r) \<and>
     length (aud_action r) \<le> 64 \<and> fits_opt 64 (aud_target_type r) \<and> fits_opt 64 (aud_target_id r) \<and>
     fits_opt 64 (aud_ip r)"

subsection \<open>Checks\<close>

definition ck_users :: "user_row \<Rightarrow> bool" where
  "ck_users u \<longleftrightarrow> usr_accounting_mode u \<in> {''wallclock'', ''parallel''} \<and>
     usr_offline_policy u \<in> {''open'', ''capped'', ''closed''}"

definition ck_devices :: "device_row \<Rightarrow> bool" where
  "ck_devices d \<longleftrightarrow> dev_status d \<in> {''active'', ''revoked''} \<and> dev_enforcement d \<in> {''enforce'', ''observe''}"

definition ck_policies :: "policy_row \<Rightarrow> bool" where
  "ck_policies p \<longleftrightarrow> pol_lockout_type p \<in> {''lock'', ''suspend'', ''suspendwake'', ''terminate'', ''kill'', ''shutdown''}"

definition ck_day_overrides :: "day_override_row \<Rightarrow> bool" where
  "ck_day_overrides r \<longleftrightarrow> 0 \<le> dov_limit_seconds r \<and> dov_limit_seconds r \<le> 86400"

definition ck_hour_overrides :: "hour_override_row \<Rightarrow> bool" where
  "ck_hour_overrides r \<longleftrightarrow> length (hov_intervals r) > 0"

definition ck_grants :: "grant_row \<Rightarrow> bool" where
  "ck_grants r \<longleftrightarrow> gr_source r = ''admin''"

text \<open>A non-revoked device is alone on its machine (the partial unique index).\<close>

definition live :: "device_row \<Rightarrow> bool" where
  "live d \<longleftrightarrow> dev_status d \<noteq> ''revoked''"

definition machine_index :: "device_row list \<Rightarrow> bool" where
  "machine_index ds \<longleftrightarrow> unique_on dev_machine_id (filter live ds)"

subsection \<open>Flushing a row\<close>

text \<open>
  The outcome of writing a row: DataError when a value does not fit its column, IntegrityError
  when a CHECK or a unique constraint of the table would be violated.
\<close>

definition flush :: "bool \<Rightarrow> bool \<Rightarrow> bool \<Rightarrow> 'a \<Rightarrow> 'a result" where
  "flush fits check unique x =
     (if \<not> fits then Inl DataError else if \<not> check \<or> \<not> unique then Inl IntegrityError else Inr x)"

definition add_admin :: "admin_row \<Rightarrow> db \<Rightarrow> db result" where
  "add_admin r d = flush (admin_fits r) True (adm_email r \<notin> adm_email ` set (db_admins d))
     (d\<lparr>db_admins := db_admins d @ [r]\<rparr>)"

definition add_session :: "session_row \<Rightarrow> db \<Rightarrow> db result" where
  "add_session r d = flush (session_fits r) True (ses_token_hash r \<notin> ses_token_hash ` set (db_sessions d))
     (d\<lparr>db_sessions := db_sessions d @ [r]\<rparr>)"

definition add_invite :: "invite_row \<Rightarrow> db \<Rightarrow> db result" where
  "add_invite r d = flush (length (inv_token r) \<le> 64) True (inv_token r \<notin> inv_token ` set (db_invites d))
     (d\<lparr>db_invites := db_invites d @ [r]\<rparr>)"

definition add_user :: "user_row \<Rightarrow> db \<Rightarrow> db result" where
  "add_user r d = flush (user_fits r) (ck_users r)
     (usr_canonical_username r \<notin> usr_canonical_username ` set (db_users d))
     (d\<lparr>db_users := db_users d @ [r]\<rparr>)"

definition add_policy :: "policy_row \<Rightarrow> db \<Rightarrow> db result" where
  "add_policy r d = flush (policy_fits r) (ck_policies r) (policy_key r \<notin> policy_key ` set (db_policies d))
     (d\<lparr>db_policies := db_policies d @ [r]\<rparr>)"

definition add_grant :: "grant_row \<Rightarrow> db \<Rightarrow> db result" where
  "add_grant r d = flush (grant_fits r) (ck_grants r) True (d\<lparr>db_grants := db_grants d @ [r]\<rparr>)"

definition add_audit :: "audit_row \<Rightarrow> db \<Rightarrow> db result" where
  "add_audit r d = flush (audit_fits r) True True (d\<lparr>db_audit := db_audit d @ [r]\<rparr>)"

definition add_code :: "code_row \<Rightarrow> db \<Rightarrow> db result" where
  "add_code r d = flush (length (cod_code r) \<le> 16) True (cod_code r \<notin> cod_code ` set (db_codes d))
     (d\<lparr>db_codes := db_codes d @ [r]\<rparr>)"

definition map_row :: "('r \<Rightarrow> uuid) \<Rightarrow> uuid \<Rightarrow> ('r \<Rightarrow> 'r) \<Rightarrow> 'r list \<Rightarrow> 'r list" where
  "map_row key k f rows = map (\<lambda>r. if key r = k then f r else r) rows"

definition add_device :: "device_row \<Rightarrow> db \<Rightarrow> db result" where
  "add_device r d =
     (let ds = db_devices d @ [r]
      in flush (device_fits r) (ck_devices r) (machine_index ds \<and> unique_on dev_token_hash ds) (d\<lparr>db_devices := ds\<rparr>))"

definition update_device :: "uuid \<Rightarrow> (device_row \<Rightarrow> device_row) \<Rightarrow> db \<Rightarrow> db result" where
  "update_device k f d =
     (let ds = map_row dev_id k f (db_devices d)
      in flush (list_all device_fits ds) (list_all ck_devices ds) (machine_index ds \<and> unique_on dev_token_hash ds)
           (d\<lparr>db_devices := ds\<rparr>))"

definition update_user :: "uuid \<Rightarrow> (user_row \<Rightarrow> user_row) \<Rightarrow> db \<Rightarrow> db result" where
  "update_user k f d =
     (let us = map_row usr_id k f (db_users d)
      in flush (list_all user_fits us) (list_all ck_users us) (unique_on usr_canonical_username us)
           (d\<lparr>db_users := us\<rparr>))"

definition update_alias :: "uuid \<Rightarrow> (alias_row \<Rightarrow> alias_row) \<Rightarrow> db \<Rightarrow> db result" where
  "update_alias k f d =
     (let als = map_row al_id k f (db_aliases d)
      in flush (list_all alias_fits als) True (unique_on alias_key als) (d\<lparr>db_aliases := als\<rparr>))"

subsection \<open>Fresh keys\<close>

text \<open>Every key below the next UUID, so that a fresh one is fresh.\<close>

definition fresh_ids :: "db \<Rightarrow> bool" where
  "fresh_ids d \<longleftrightarrow>
     list_all (\<lambda>r. usr_id r < db_next_id d) (db_users d) \<and>
     list_all (\<lambda>r. dev_id r < db_next_id d) (db_devices d) \<and>
     list_all (\<lambda>r. pol_id r < db_next_id d) (db_policies d) \<and>
     list_all (\<lambda>r. al_id r < db_next_id d) (db_aliases d) \<and>
     list_all (\<lambda>r. adm_id r < db_next_id d) (db_admins d)"

end
