(* ===== verification/Aggregate.thy ===== *)
theory Aggregate
  imports Hub_DB Interval_Union
begin

section \<open>Usage: counters and activity intervals\<close>

text \<open>
  Models \<open>hub/timekpr_hub/services/aggregate.py\<close>: the MAX-merge of a device's counter, the
  idempotent insert of an activity interval, and the totals the hub computes from both tables, one
  definition per query. PostgreSQL's aggregate \<open>range_agg\<close> is the parameter \<open>agg\<close>; what the hub
  relies on is \<open>range_agg_law\<close>: the result is a multirange (non-empty ranges, in order, not
  touching) that covers what the ranges cover. A dict answer lists each key once; the order of
  its rows, which no caller reads, is the order of the table. Instants are microseconds;
  \<open>EXTRACT(EPOCH FROM ..)::bigint\<close> rounds to whole seconds.
\<close>

type_synonym range_agg = "span list \<Rightarrow> span list"

definition range_agg_law :: "range_agg \<Rightarrow> bool" where
  "range_agg_law agg \<longleftrightarrow> (\<forall>ss. list_all valid_span ss \<longrightarrow>
     separated (agg ss) \<and> list_all (\<lambda>r. start_s r < end_s r) (agg ss) \<and> cover (agg ss) = cover ss)"

subsection \<open>Writes\<close>

definition merge_counter :: "counter_row \<Rightarrow> counter_row \<Rightarrow> counter_row" where
  "merge_counter old new = old\<lparr>uc_spent_seconds := max (uc_spent_seconds old) (uc_spent_seconds new),
     uc_activity_state := uc_activity_state new, uc_updated_at := uc_updated_at new\<rparr>"

definition upsert_usage_counter :: "instant \<Rightarrow> uuid \<Rightarrow> uuid \<Rightarrow> date \<Rightarrow> seconds \<Rightarrow> string option \<Rightarrow> db \<Rightarrow> db result" where
  "upsert_usage_counter now user_id device_id day spent_seconds activity_state d =
     (let r = \<lparr>uc_user_id = user_id, uc_device_id = device_id, uc_day = day, uc_spent_seconds = spent_seconds,
               uc_activity_state = activity_state, uc_updated_at = now\<rparr>
      in flush (counter_fits r) True True (d\<lparr>db_counters := upsert counter_key merge_counter r (db_counters d)\<rparr>))"

text \<open>\<open>tstzrange(start, end)\<close> raises when the bounds are out of order.\<close>

definition insert_activity_interval :: "uuid \<Rightarrow> uuid \<Rightarrow> date \<Rightarrow> instant \<Rightarrow> instant \<Rightarrow> instant \<Rightarrow> db \<Rightarrow> db result" where
  "insert_activity_interval user_id device_id day start stop window_end_ts d =
     (if stop < start then Inl DataError
      else case uuid4 d of (i, d) \<Rightarrow>
        Inr (d\<lparr>db_intervals := insert_ignore interval_key
               \<lparr>ai_id = i, ai_user_id = user_id, ai_device_id = device_id, ai_day = day,
                ai_start = start, ai_end = stop, ai_window_end_ts = window_end_ts\<rparr> (db_intervals d)\<rparr>))"

subsection \<open>Totals of one user and day\<close>

definition counters_on :: "uuid \<Rightarrow> date \<Rightarrow> db \<Rightarrow> counter_row list" where
  "counters_on user_id day d = filter (\<lambda>r. uc_user_id r = user_id \<and> uc_day r = day) (db_counters d)"

definition intervals_on :: "uuid \<Rightarrow> date \<Rightarrow> db \<Rightarrow> interval_row list" where
  "intervals_on user_id day d = filter (\<lambda>r. ai_user_id r = user_id \<and> ai_day r = day) (db_intervals d)"

definition span_of :: "interval_row \<Rightarrow> span" where
  "span_of r = \<lparr>start_s = ai_start r, end_s = ai_end r\<rparr>"

definition epoch_bigint :: "int \<Rightarrow> seconds" where
  "epoch_bigint us = (us + 500000) div usec_per_sec"

text \<open>\<open>MAX\<close> of no rows is NULL.\<close>

definition sql_max :: "int list \<Rightarrow> int option" where
  "sql_max xs = (case xs of [] \<Rightarrow> None | x # r \<Rightarrow> Some (fold max r x))"

definition coalesce0 :: "int option \<Rightarrow> int" where
  "coalesce0 x = (case x of None \<Rightarrow> 0 | Some v \<Rightarrow> v)"

text \<open>The sum over the unnested multirange: no rows, hence NULL, when there is none or it is empty.\<close>

definition union_of :: "range_agg \<Rightarrow> interval_row list \<Rightarrow> int option" where
  "union_of agg rows = (let runs = agg (map span_of rows)
     in if rows = [] \<or> runs = [] then None else Some (epoch_bigint (run_lengths runs)))"

definition global_spent_wallclock :: "range_agg \<Rightarrow> uuid \<Rightarrow> date \<Rightarrow> db \<Rightarrow> seconds" where
  "global_spent_wallclock agg user_id day d =
     max (coalesce0 (union_of agg (intervals_on user_id day d)))
         (coalesce0 (sql_max (map uc_spent_seconds (counters_on user_id day d))))"

definition global_spent_parallel :: "uuid \<Rightarrow> date \<Rightarrow> db \<Rightarrow> seconds" where
  "global_spent_parallel user_id day d = sum_list (map uc_spent_seconds (counters_on user_id day d))"

subsection \<open>Grouped queries\<close>

text \<open>\<open>GROUP BY key\<close>: one row per key that occurs; the groups without a value drop out.\<close>

definition group_by :: "('r \<Rightarrow> 'k) \<Rightarrow> ('r list \<Rightarrow> 'v option) \<Rightarrow> 'r list \<Rightarrow> ('k, 'v) dict" where
  "group_by key val rows = concat (map (\<lambda>k. case val (filter (\<lambda>r. key r = k) rows) of
     None \<Rightarrow> [] | Some v \<Rightarrow> [(k, v)]) (remdups (map key rows)))"

text \<open>The FULL OUTER JOIN of the unions and the counters, with their GREATEST.\<close>

definition greatest_join :: "('k, int) dict \<Rightarrow> ('k, int) dict \<Rightarrow> ('k, int) dict" where
  "greatest_join unioned counters = map (\<lambda>k. (k, max (coalesce0 (dict_get unioned k)) (coalesce0 (dict_get counters k))))
     (remdups (map fst unioned @ map fst counters))"

definition global_spent_wallclock_batch :: "range_agg \<Rightarrow> uuid list \<Rightarrow> date \<Rightarrow> db \<Rightarrow> (uuid, seconds) dict" where
  "global_spent_wallclock_batch agg user_ids day d =
     (if user_ids = [] then []
      else greatest_join
        (group_by ai_user_id (union_of agg)
           (filter (\<lambda>r. ai_user_id r \<in> set user_ids \<and> ai_day r = day) (db_intervals d)))
        (group_by uc_user_id (\<lambda>rs. sql_max (map uc_spent_seconds rs))
           (filter (\<lambda>r. uc_user_id r \<in> set user_ids \<and> uc_day r = day) (db_counters d))))"

definition global_spent_parallel_batch :: "uuid list \<Rightarrow> date \<Rightarrow> db \<Rightarrow> (uuid, seconds) dict" where
  "global_spent_parallel_batch user_ids day d =
     (if user_ids = [] then []
      else group_by uc_user_id (\<lambda>rs. Some (sum_list (map uc_spent_seconds rs)))
        (filter (\<lambda>r. uc_user_id r \<in> set user_ids \<and> uc_day r = day) (db_counters d)))"

text \<open>
  \<open>SELECT DISTINCT ON (user_id) .. ORDER BY user_id, updated_at DESC\<close>: the row with the latest
  update (the first of them in the table if two devices were updated at the same instant, where
  PostgreSQL may answer either).
\<close>

fun newest :: "counter_row list \<Rightarrow> counter_row option" where
  "newest [] = None"
| "newest (r # rs) = (case newest rs of
     None \<Rightarrow> Some r
   | Some q \<Rightarrow> if uc_updated_at r < uc_updated_at q then Some q else Some r)"

definition latest_activity_states_batch :: "uuid list \<Rightarrow> date \<Rightarrow> db \<Rightarrow> (uuid, string \<times> instant) dict" where
  "latest_activity_states_batch user_ids day d =
     (if user_ids = [] then []
      else group_by uc_user_id (\<lambda>rs. map_option (\<lambda>r. (the (uc_activity_state r), uc_updated_at r)) (newest rs))
        (filter (\<lambda>r. uc_user_id r \<in> set user_ids \<and> uc_day r = day \<and> uc_activity_state r \<noteq> None) (db_counters d)))"

definition global_spent_wallclock_history :: "range_agg \<Rightarrow> uuid \<Rightarrow> date \<Rightarrow> date \<Rightarrow> db \<Rightarrow> (date, seconds) dict" where
  "global_spent_wallclock_history agg user_id start_day end_day d =
     greatest_join
       (group_by ai_day (union_of agg)
          (filter (\<lambda>r. ai_user_id r = user_id \<and> start_day \<le> ai_day r \<and> ai_day r \<le> end_day) (db_intervals d)))
       (group_by uc_day (\<lambda>rs. sql_max (map uc_spent_seconds rs))
          (filter (\<lambda>r. uc_user_id r = user_id \<and> start_day \<le> uc_day r \<and> uc_day r \<le> end_day) (db_counters d)))"

definition global_spent_wallclock_window :: "range_agg \<Rightarrow> uuid \<Rightarrow> date \<Rightarrow> date \<Rightarrow> db \<Rightarrow> seconds" where
  "global_spent_wallclock_window agg user_id start_day end_day d =
     sum_list (map snd (global_spent_wallclock_history agg user_id start_day end_day d))"

definition global_spent_parallel_window :: "uuid \<Rightarrow> date \<Rightarrow> date \<Rightarrow> db \<Rightarrow> seconds" where
  "global_spent_parallel_window user_id start_day end_day d =
     sum_list (map uc_spent_seconds
       (filter (\<lambda>r. uc_user_id r = user_id \<and> start_day \<le> uc_day r \<and> uc_day r \<le> end_day) (db_counters d)))"

definition device_spent_for_day_by_device :: "uuid \<Rightarrow> date \<Rightarrow> db \<Rightarrow> (uuid, seconds) dict" where
  "device_spent_for_day_by_device user_id day d =
     map (\<lambda>r. (uc_device_id r, uc_spent_seconds r)) (counters_on user_id day d)"

text \<open>The join with \<open>devices\<close>, ordered by the device's name within a user.\<close>

definition devices_active_today_batch :: "uuid list \<Rightarrow> date \<Rightarrow> db \<Rightarrow> (uuid, string list) dict" where
  "devices_active_today_batch user_ids day d =
     (if user_ids = [] then []
      else group_by fst (\<lambda>rs. Some (sort (map snd rs)))
        (concat (map (\<lambda>r. map (\<lambda>dev. (uc_user_id r, dev_name dev))
                            (filter (\<lambda>dev. dev_id dev = uc_device_id r) (db_devices d)))
           (filter (\<lambda>r. uc_user_id r \<in> set user_ids \<and> uc_day r = day \<and> 0 < uc_spent_seconds r) (db_counters d)))))"

subsection \<open>The counters\<close>

lemma merge_keeps_key [simp]: "keeps_key counter_key merge_counter"
  by (simp add: keeps_key_def merge_counter_def counter_key_def)

definition counter_at :: "uuid \<Rightarrow> uuid \<Rightarrow> date \<Rightarrow> db \<Rightarrow> seconds option" where
  "counter_at user_id device_id day d =
     map_option uc_spent_seconds (find_row counter_key (user_id, device_id, day) (db_counters d))"

text \<open>A report: user, device, day, absolute counter, activity state and the time it arrives.\<close>

type_synonym report = "uuid \<times> uuid \<times> date \<times> seconds \<times> string option \<times> instant"

fun deliver :: "report list \<Rightarrow> db \<Rightarrow> db result" where
  "deliver [] d = Inr d"
| "deliver ((u, v, day, n, a, now) # rs) d = rbind (upsert_usage_counter now u v day n a d) (deliver rs)"

definition reported :: "uuid \<times> uuid \<times> date \<Rightarrow> report list \<Rightarrow> seconds set" where
  "reported k rs = (\<lambda>(u, v, day, n, a, now). n) ` set (filter (\<lambda>(u, v, day, n, a, now). (u, v, day) = k) rs)"

lemma reported_simps [simp]:
  "reported k [] = {}"
  "reported k ((u, v, day, n, a, now) # rs) = (if (u, v, day) = k then insert n (reported k rs) else reported k rs)"
  "finite (reported k rs)"
  by (auto simp: reported_def)

lemma reported_eq: "reported (u, v, day) rs = {n. \<exists>a now. (u, v, day, n, a, now) \<in> set rs}"
  by (force simp: reported_def)

lemma counter_at_upsert:
  assumes "upsert_usage_counter now u v day n a d = Inr d'"
  shows "counter_at u' v' day' d' = (if (u', v', day') = (u, v, day)
      then Some (case counter_at u v day d of None \<Rightarrow> n | Some m \<Rightarrow> max m n) else counter_at u' v' day' d)"
proof -
  let ?r = "\<lparr>uc_user_id = u, uc_device_id = v, uc_day = day, uc_spent_seconds = n,
               uc_activity_state = a, uc_updated_at = now\<rparr>"
  have k: "counter_key ?r = (u, v, day)" by (simp add: counter_key_def)
  have d': "db_counters d' = upsert counter_key merge_counter ?r (db_counters d)"
    using assms by (auto simp: upsert_usage_counter_def flush_def Let_def split: if_splits)
  show ?thesis
  proof (cases "(u', v', day') = (u, v, day)")
    case True
    then show ?thesis
      using find_row_upsert_same [OF merge_keeps_key k [symmetric], of "db_counters d"]
      by (cases "find_row counter_key (u, v, day) (db_counters d)") (auto simp: counter_at_def d' merge_counter_def)
  next
    case False
    then have "find_row counter_key (u', v', day') (db_counters d') = find_row counter_key (u', v', day') (db_counters d)"
      unfolding d' by (intro find_row_upsert_other [OF merge_keeps_key]) (simp add: k)
    with False show ?thesis by (auto simp: counter_at_def)
  qed
qed

lemma deliver_max:
  assumes "deliver rs d = Inr d'"
  shows "counter_at u v day d' = (let ms = set_option (counter_at u v day d) \<union> reported (u, v, day) rs
      in if ms = {} then None else Some (Max ms))"
  using assms
proof (induction rs d rule: deliver.induct)
  case (1 d)
  then show ?case by (cases "counter_at u v day d") auto
next
  case (2 u1 v1 day1 n a now rs d)
  obtain d1 where d1: "upsert_usage_counter now u1 v1 day1 n a d = Inr d1" and rest: "deliver rs d1 = Inr d'"
    using "2.prems" by (auto simp: rbind_Inr_iff)
  note ih = "2.IH" [OF rest]
  note up = counter_at_upsert [OF d1, of u v day]
  show ?case
  proof (cases "(u, v, day) = (u1, v1, day1)")
    case False
    then show ?thesis using ih up by auto
  next
    case True
    let ?R = "reported (u, v, day) rs"
    show ?thesis
    proof (cases "counter_at u v day d")
      case None
      then show ?thesis using ih up True by (auto simp: Let_def)
    next
      case (Some m)
      then have ih': "counter_at u v day d' = Some (Max (insert (max m n) ?R))" using ih up True by (auto simp: Let_def)
      moreover have "Max (insert (max m n) ?R) = Max (insert m (insert n ?R))"
        by (cases "?R = {}") (simp_all add: max.assoc)
      ultimately show ?thesis using Some True by (cases "?R = {}") (simp_all add: Let_def ac_simps)
    qed
  qed
qed

text \<open>
  C4. The counters are replay-safe: after any sequence of reports from any devices, a device's
  counter for a user and day is the largest value it ever held or was sent, so duplicates, old
  reports and any order of arrival give the same counters.
\<close>

theorem counters_replay_safe:
  assumes "deliver xs d = Inr d1" "deliver ys d = Inr d2" "set xs = set ys"
  shows "counter_at u v day d1 = counter_at u v day d2 \<and>
    (let ms = set_option (counter_at u v day d) \<union> {n. \<exists>a now. (u, v, day, n, a, now) \<in> set xs}
     in counter_at u v day d1 = (if ms = {} then None else Some (Max ms)))"
  using deliver_max [OF assms(1), of u v day] deliver_max [OF assms(2), of u v day] assms(3)
  by (simp add: reported_eq)

theorem counters_replay_safe_witness:
  "\<exists>d1 d2. deliver [(1, 2, \<lparr>yr = 2024, mo = 5, dy = 6\<rparr>, 60, None, 0), (1, 2, \<lparr>yr = 2024, mo = 5, dy = 6\<rparr>, 90, None, 1)] empty_db = Inr d1 \<and>
    deliver [(1, 2, \<lparr>yr = 2024, mo = 5, dy = 6\<rparr>, 90, None, 1), (1, 2, \<lparr>yr = 2024, mo = 5, dy = 6\<rparr>, 60, None, 0),
      (1, 2, \<lparr>yr = 2024, mo = 5, dy = 6\<rparr>, 90, None, 1)] empty_db = Inr d2 \<and>
    counter_at 1 2 \<lparr>yr = 2024, mo = 5, dy = 6\<rparr> d1 = counter_at 1 2 \<lparr>yr = 2024, mo = 5, dy = 6\<rparr> d2 \<and>
    counter_at 1 2 \<lparr>yr = 2024, mo = 5, dy = 6\<rparr> d1 = Some 90"
proof -
  define day where "day = \<lparr>yr = 2024, mo = 5, dy = 6\<rparr>"
  have up: "\<exists>d'. upsert_usage_counter now 1 2 day n None d = Inr d'" if "n = 60 \<or> n = 90" for now n d
    using that by (auto simp: upsert_usage_counter_def flush_def counter_fits_def int8_def Let_def)
  obtain d1 where d1: "deliver [(1, 2, day, 60, None, 0), (1, 2, day, 90, None, 1)] empty_db = Inr d1"
    using up by (auto simp: rbind_Inr_iff) (metis rbind_simps(2))
  obtain d2 where d2: "deliver [(1, 2, day, 90, None, 1), (1, 2, day, 60, None, 0), (1, 2, day, 90, None, 1)] empty_db = Inr d2"
    using up by (auto simp: rbind_Inr_iff) (metis rbind_simps(2))
  have e: "counter_at 1 2 day empty_db = None" by (simp add: counter_at_def empty_db_def)
  have s: "{n. \<exists>a now. (1, 2, day, n, a, now) \<in> set [(1, 2, day, 60, None, 0), (1, 2, day, 90, None, 1)]} = {60, 90::int}"
    by auto
  have "set [(1, 2, day, 60, None, 0), (1, 2, day, 90, None, 1)] =
      set [(1, 2, day, 90, None, 1), (1, 2, day, 60, None, 0), (1, 2, day, 90, None :: string option, 1)]" by auto
  note r = counters_replay_safe [OF d1 d2 this, of 1 2 day, unfolded e s]
  then have "counter_at 1 2 day d1 = Some 90" by (auto simp: Let_def)
  with r show ?thesis using d1 d2 unfolding day_def by blast
qed

subsection \<open>The wall-clock union\<close>

locale range_aggregate =
  fixes agg :: range_agg
  assumes law: "range_agg_law agg"
begin

lemma agg_spec:
  assumes "list_all valid_span ss"
  shows "separated (agg ss)" "cover (agg ss) = cover ss" "agg ss = [] \<longleftrightarrow> cover ss = {}"
proof -
  show sep: "separated (agg ss)" and cov: "cover (agg ss) = cover ss"
    using law assms by (auto simp: range_agg_law_def)
  have "list_all (\<lambda>r. start_s r < end_s r) (agg ss)" using law assms by (auto simp: range_agg_law_def)
  then show "agg ss = [] \<longleftrightarrow> cover ss = {}"
    using cov by (cases "agg ss") (auto simp: span_set_def)
qed

lemma union_card:
  assumes "list_all (valid_span \<circ> span_of) rows"
  shows "coalesce0 (union_of agg rows) = epoch_bigint (int (card (cover (map span_of rows))))"
proof -
  have v: "list_all valid_span (map span_of rows)" using assms by (simp add: list_all_iff)
  have "run_lengths (agg (map span_of rows)) = int (card (cover (map span_of rows)))"
    using run_lengths_separated [OF agg_spec(1) [OF v]] agg_spec(2) [OF v] by simp
  moreover have "cover (map span_of rows) = {}" if "rows = [] \<or> agg (map span_of rows) = []"
    using that agg_spec(3) [OF v] by auto
  ultimately show ?thesis
    by (auto simp: union_of_def coalesce0_def Let_def epoch_bigint_def)
qed

lemma union_mono:
  assumes "list_all (valid_span \<circ> span_of) ys" "set xs \<subseteq> set ys"
  shows "coalesce0 (union_of agg xs) \<le> coalesce0 (union_of agg ys)"
proof -
  have "list_all (valid_span \<circ> span_of) xs" using assms by (auto simp: list_all_iff)
  moreover have "card (cover (map span_of xs)) \<le> card (cover (map span_of ys))"
    using assms(2) by (intro card_mono cover_mono) auto
  ultimately show ?thesis
    using assms(1) by (simp add: union_card epoch_bigint_def zdiv_mono1)
qed

end

text \<open>The merged runs of the sweep, without the empty ones, are such an aggregate.\<close>

definition sweep_agg :: range_agg where
  "sweep_agg ss = merged_runs (filter (\<lambda>r. start_s r < end_s r) ss)"

lemma cover_filter_nonempty: "cover (filter (\<lambda>r. start_s r < end_s r) ss) = cover ss"
  by (induction ss) (auto simp: span_set_def)

lemma merged_loop_nonempty:
  "cs < ce \<Longrightarrow> list_all (\<lambda>r. start_s r < end_s r) sps \<Longrightarrow> list_all (\<lambda>r. start_s r < end_s r) (merged_loop cs ce sps)"
  by (induction sps arbitrary: cs ce) auto

lemma sweep_agg_nonempty: "list_all (\<lambda>r. start_s r < end_s r) (sweep_agg ss)"
proof (cases "sort_key start_s (filter (\<lambda>r. start_s r < end_s r) ss)")
  case Nil
  then show ?thesis by (simp add: sweep_agg_def merged_runs_def)
next
  case (Cons sp sps)
  have "list_all (\<lambda>r. start_s r < end_s r) (sort_key start_s (filter (\<lambda>r. start_s r < end_s r) ss))"
    by (simp add: list_all_iff)
  then show ?thesis using Cons by (simp add: sweep_agg_def merged_runs_def merged_loop_nonempty)
qed

lemma sweep_agg_law: "range_agg_law sweep_agg"
  unfolding range_agg_law_def
proof (intro allI impI)
  fix ss :: "span list"
  assume "list_all valid_span ss"
  then have "\<forall>sp \<in> set (filter (\<lambda>r. start_s r < end_s r) ss). valid_span sp" by (auto simp: list_all_iff)
  from merged_runs_spec [OF this]
  show "separated (sweep_agg ss) \<and> list_all (\<lambda>r. start_s r < end_s r) (sweep_agg ss) \<and> cover (sweep_agg ss) = cover ss"
    using sweep_agg_nonempty by (simp add: sweep_agg_def cover_filter_nonempty)
qed

interpretation sweep: range_aggregate sweep_agg
  by unfold_locales (rule sweep_agg_law)

subsection \<open>Burn once\<close>

lemma sql_max_ge: "x \<in> set xs \<Longrightarrow> x \<le> coalesce0 (sql_max xs)"
proof -
  have fold: "a \<le> fold max ys a \<and> (\<forall>y \<in> set ys. y \<le> fold max ys a)" for a :: int and ys
    by (induction ys arbitrary: a) (auto intro: order_trans [OF max.cobounded1] order_trans [OF max.cobounded2])
  show "x \<in> set xs \<Longrightarrow> x \<le> coalesce0 (sql_max xs)"
    using fold by (auto simp: sql_max_def coalesce0_def split: list.splits)
qed

lemma sql_max_le: "(\<And>x. x \<in> set xs \<Longrightarrow> x \<le> b) \<Longrightarrow> 0 \<le> b \<Longrightarrow> coalesce0 (sql_max xs) \<le> b"
proof -
  have fold: "a \<le> b \<Longrightarrow> (\<forall>y \<in> set ys. y \<le> b) \<Longrightarrow> fold max ys a \<le> b" for a :: int and ys
    by (induction ys arbitrary: a) auto
  show "(\<And>x. x \<in> set xs \<Longrightarrow> x \<le> b) \<Longrightarrow> 0 \<le> b \<Longrightarrow> coalesce0 (sql_max xs) \<le> b"
    using fold by (cases xs) (auto simp: sql_max_def coalesce0_def)
qed

text \<open>The microseconds a device was active, out of a list of intervals.\<close>

definition active_us :: "uuid \<Rightarrow> interval_row list \<Rightarrow> int" where
  "active_us v rows = int (card (cover (map span_of (filter (\<lambda>r. ai_device_id r = v) rows))))"

lemma cover_by_device:
  fixes cs :: "counter_row list"
  shows "list_all (\<lambda>r. \<exists>c \<in> set cs. uc_device_id c = ai_device_id r) rows \<Longrightarrow>
   cover (map span_of rows) \<subseteq> (\<Union>c \<in> set cs. cover (map span_of (filter (\<lambda>r. ai_device_id r = uc_device_id c) rows)))"
  by (force simp: cover_def list_all_iff)

lemma card_by_device:
  fixes cs :: "counter_row list"
  assumes "list_all (\<lambda>r. \<exists>c \<in> set cs. uc_device_id c = ai_device_id r) rows"
  shows "int (card (cover (map span_of rows))) \<le> (\<Sum>c \<leftarrow> cs. active_us (uc_device_id c) rows)"
proof -
  have un: "int (card (\<Union>c \<in> set xs. A c)) \<le> (\<Sum>c \<leftarrow> xs. int (card (A c)))" for A :: "counter_row \<Rightarrow> int set" and xs
  proof (induction xs)
    case (Cons c xs)
    then show ?case using card_Un_le [of "A c" "\<Union>c \<in> set xs. A c"] by simp
  qed simp
  have "card (cover (map span_of rows)) \<le> card (\<Union>c \<in> set cs. cover (map span_of (filter (\<lambda>r. ai_device_id r = uc_device_id c) rows)))"
    using cover_by_device [OF assms] by (intro card_mono) auto
  with un [where A = "\<lambda>c. cover (map span_of (filter (\<lambda>r. ai_device_id r = uc_device_id c) rows))" and xs = cs]
  show ?thesis unfolding active_us_def by linarith
qed

text \<open>
  Every interval belongs to a device with a counter, and no device was active for longer than its
  counter says: what the agent reports (its spans are no longer than what they burned).
\<close>

definition accounted :: "uuid \<Rightarrow> date \<Rightarrow> db \<Rightarrow> bool" where
  "accounted user_id day d \<longleftrightarrow>
     list_all (valid_span \<circ> span_of) (intervals_on user_id day d) \<and>
     list_all (\<lambda>r. list_ex (\<lambda>c. uc_device_id c = ai_device_id r) (counters_on user_id day d)) (intervals_on user_id day d) \<and>
     list_all (\<lambda>c. active_us (uc_device_id c) (intervals_on user_id day d) \<le> uc_spent_seconds c * usec_per_sec)
       (counters_on user_id day d)"

lemma parallel_bounds_union:
  assumes "accounted u day d"
  shows "int (card (cover (map span_of (intervals_on u day d)))) \<le> global_spent_parallel u day d * usec_per_sec"
    and "c \<in> set (counters_on u day d) \<Longrightarrow> 0 \<le> uc_spent_seconds c"
    and "0 \<le> global_spent_parallel u day d"
proof -
  let ?rows = "intervals_on u day d" and ?cs = "counters_on u day d"
  have "list_all (\<lambda>r. \<exists>c \<in> set ?cs. uc_device_id c = ai_device_id r) ?rows"
    using assms by (auto simp: accounted_def list_ex_iff)
  from card_by_device [OF this]
  have "int (card (cover (map span_of ?rows))) \<le> (\<Sum>c \<leftarrow> ?cs. active_us (uc_device_id c) ?rows)" .
  also have "\<dots> \<le> (\<Sum>c \<leftarrow> ?cs. uc_spent_seconds c * usec_per_sec)"
    using assms by (intro sum_list_mono) (auto simp: accounted_def list_all_iff)
  finally show "int (card (cover (map span_of ?rows))) \<le> global_spent_parallel u day d * usec_per_sec"
    by (simp add: global_spent_parallel_def sum_list_mult_const)
  show pos: "0 \<le> uc_spent_seconds c" if "c \<in> set ?cs" for c
  proof -
    have "active_us (uc_device_id c) ?rows \<le> uc_spent_seconds c * usec_per_sec"
      using assms that by (auto simp: accounted_def list_all_iff)
    moreover have "0 \<le> active_us (uc_device_id c) ?rows" by (simp add: active_us_def)
    ultimately show ?thesis by linarith
  qed
  then show "0 \<le> global_spent_parallel u day d"
    unfolding global_spent_parallel_def by (intro sum_list_nonneg) auto
qed


text \<open>Two devices, 30 minutes each, overlapping by 15: 45 minutes, not 60.\<close>

definition sample_day :: date where
  "sample_day = \<lparr>yr = 2024, mo = 5, dy = 6\<rparr>"

definition sample_usage :: db where
  "sample_usage = empty_db\<lparr>
     db_counters := [\<lparr>uc_user_id = 1, uc_device_id = 2, uc_day = sample_day, uc_spent_seconds = 1800,
         uc_activity_state = Some ''draining'', uc_updated_at = 7\<rparr>,
       \<lparr>uc_user_id = 1, uc_device_id = 3, uc_day = sample_day, uc_spent_seconds = 1800,
         uc_activity_state = Some ''idle'', uc_updated_at = 9\<rparr>],
     db_intervals := [\<lparr>ai_id = 4, ai_user_id = 1, ai_device_id = 2, ai_day = sample_day, ai_start = 0,
         ai_end = 1800000000, ai_window_end_ts = 1800000000\<rparr>,
       \<lparr>ai_id = 5, ai_user_id = 1, ai_device_id = 3, ai_day = sample_day, ai_start = 900000000,
         ai_end = 2700000000, ai_window_end_ts = 2700000000\<rparr>]\<rparr>"

lemma sample_usage_simps:
  "counters_on 1 sample_day sample_usage = db_counters sample_usage"
  "intervals_on 1 sample_day sample_usage = db_intervals sample_usage"
  by (simp_all add: counters_on_def intervals_on_def sample_usage_def)


subsection \<open>Grouped queries\<close>

lemma dict_get_concat_one:
  "distinct ks \<Longrightarrow> dict_get (concat (map (\<lambda>k. case f k of None \<Rightarrow> [] | Some v \<Rightarrow> [(k, v)]) ks)) k =
     (if k \<in> set ks then f k else None)"
  by (induction ks) (auto simp: dict_get_def map_add_def split: option.splits)

lemma dict_get_group_by: "dict_get (group_by key val rows) k =
   (if k \<in> key ` set rows then val (filter (\<lambda>r. key r = k) rows) else None)"
  by (simp add: group_by_def dict_get_concat_one)

lemma dict_get_greatest_join: "dict_get_or (greatest_join a b) k 0 = max (coalesce0 (dict_get a k)) (coalesce0 (dict_get b k))"
proof -
  have none: "dict_get d k = None" if "k \<notin> fst ` set d" for d :: "('a, int) dict"
    using that by (simp add: dict_get_def map_of_eq_None_iff)
  show ?thesis
    by (cases "k \<in> fst ` set a \<union> fst ` set b")
      (auto simp: greatest_join_def dict_get_or_def dict_get_map none coalesce0_def)
qed

lemma union_of_Nil [simp]: "union_of agg [] = None"
  by (simp add: union_of_def)

lemma sql_max_Nil [simp]: "sql_max [] = None"
  by (simp add: sql_max_def)

lemma group_by_total:
  "val [] = None \<Longrightarrow> dict_get (group_by key val (filter P rows)) k = val (filter (\<lambda>r. P r \<and> key r = k) rows)"
proof -
  assume v: "val [] = None"
  have "filter (\<lambda>r. P r \<and> key r = k) rows = []" if "k \<notin> key ` set (filter P rows)"
    using that by (auto simp: filter_empty_conv)
  then show ?thesis by (simp add: dict_get_group_by v)
qed

lemma filter_cong3: "(\<And>r. P r \<longleftrightarrow> Q r) \<Longrightarrow> filter P rows = filter Q rows"
  by (rule filter_cong) auto

lemma wallclock_batch_single:
  assumes "u \<in> set ids"
  shows "dict_get_or (global_spent_wallclock_batch agg ids day d) u 0 = global_spent_wallclock agg u day d"
proof -
  have "filter (\<lambda>r. (ai_user_id r \<in> set ids \<and> ai_day r = day) \<and> ai_user_id r = u) rows
      = filter (\<lambda>r. ai_user_id r = u \<and> ai_day r = day) rows"
    "filter (\<lambda>r. (uc_user_id r \<in> set ids \<and> uc_day r = day) \<and> uc_user_id r = u) cs
      = filter (\<lambda>r. uc_user_id r = u \<and> uc_day r = day) cs" for rows :: "interval_row list" and cs :: "counter_row list"
    using assms by (auto intro: filter_cong3)
  then show ?thesis
    using assms by (auto simp: global_spent_wallclock_batch_def dict_get_greatest_join group_by_total
        global_spent_wallclock_def counters_on_def intervals_on_def)
qed

lemma wallclock_history_single:
  assumes "lo \<le> day \<and> day \<le> hi"
  shows "dict_get_or (global_spent_wallclock_history agg u lo hi d) day 0 = global_spent_wallclock agg u day d"
proof -
  have "filter (\<lambda>r. (ai_user_id r = u \<and> lo \<le> ai_day r \<and> ai_day r \<le> hi) \<and> ai_day r = day) rows
      = filter (\<lambda>r. ai_user_id r = u \<and> ai_day r = day) rows"
    "filter (\<lambda>r. (uc_user_id r = u \<and> lo \<le> uc_day r \<and> uc_day r \<le> hi) \<and> uc_day r = day) cs
      = filter (\<lambda>r. uc_user_id r = u \<and> uc_day r = day) cs" for rows :: "interval_row list" and cs :: "counter_row list"
    using assms by (auto intro: filter_cong3)
  then show ?thesis
    by (simp add: global_spent_wallclock_history_def dict_get_greatest_join group_by_total
        global_spent_wallclock_def counters_on_def intervals_on_def)
qed

lemma parallel_batch_single:
  assumes "u \<in> set ids"
  shows "dict_get_or (global_spent_parallel_batch ids day d) u 0 = global_spent_parallel u day d"
proof -
  have f: "filter (\<lambda>r. uc_user_id r \<in> set ids \<and> uc_day r = day \<and> uc_user_id r = u) cs
      = filter (\<lambda>r. uc_user_id r = u \<and> uc_day r = day) cs" for cs :: "counter_row list"
    using assms by (auto intro: filter_cong3)
  have "filter (\<lambda>r. uc_user_id r = u \<and> uc_day r = day) cs = []"
    if "u \<notin> uc_user_id ` set (filter (\<lambda>r. uc_user_id r \<in> set ids \<and> uc_day r = day) cs)" for cs :: "counter_row list"
    using that assms by (auto simp: filter_empty_conv)
  then show ?thesis
    using assms by (auto simp: global_spent_parallel_batch_def dict_get_or_def dict_get_group_by f
        global_spent_parallel_def counters_on_def)
qed

text \<open>The rows of a window, split by day.\<close>

lemma sum_list_by_key:
  fixes f :: "'r \<Rightarrow> int"
  assumes "distinct ks" "key ` set rows \<subseteq> set ks"
  shows "sum_list (map f rows) = (\<Sum>k \<leftarrow> ks. sum_list (map f (filter (\<lambda>r. key r = k) rows)))"
  using assms(2)
proof (induction rows)
  case (Cons r rows)
  have one: "(\<Sum>k \<leftarrow> ks. if key r = k then f r else 0) = f r"
    using assms(1) Cons.prems by (simp add: sum_list_distinct_conv_sum_set sum.delta)
  have "(\<Sum>k \<leftarrow> ks. sum_list (map f (filter (\<lambda>x. key x = k) (r # rows)))) =
      (\<Sum>k \<leftarrow> ks. (if key r = k then f r else 0) + sum_list (map f (filter (\<lambda>x. key x = k) rows)))"
    by (intro arg_cong [where f = sum_list] map_cong) auto
  also have "\<dots> = f r + (\<Sum>k \<leftarrow> ks. sum_list (map f (filter (\<lambda>x. key x = k) rows)))"
    by (simp add: sum_list_addf one)
  finally show ?case using Cons by simp
qed (simp add: sum_list_triv)

lemma sum_list_greatest_join:
  assumes "distinct ks" "fst ` set a \<union> fst ` set b \<subseteq> set ks"
  shows "sum_list (map snd (greatest_join a b)) = (\<Sum>k \<leftarrow> ks. dict_get_or (greatest_join a b) k 0)"
proof -
  let ?js = "remdups (map fst a @ map fst b)" and ?v = "\<lambda>k. dict_get_or (greatest_join a b) k 0"
  have none: "dict_get d k = None" if "k \<notin> fst ` set d" for d :: "('a, int) dict" and k
    using that by (simp add: dict_get_def map_of_eq_None_iff)
  have "sum_list (map snd (greatest_join a b)) = (\<Sum>k \<leftarrow> ?js. ?v k)"
    unfolding dict_get_greatest_join by (simp add: greatest_join_def o_def)
  also have "\<dots> = sum ?v (set ?js)" by (simp add: sum_list_distinct_conv_sum_set)
  also have "\<dots> = sum ?v (set ks)"
    using assms(2) by (intro sum.mono_neutral_left) (auto simp: dict_get_greatest_join none coalesce0_def)
  finally show ?thesis using assms(1) by (simp add: sum_list_distinct_conv_sum_set)
qed

lemma group_by_keys: "fst ` set (group_by key val rows) \<subseteq> key ` set rows"
  by (auto simp: group_by_def split: option.splits)

text \<open>The days of a window hold every row of the user in it.\<close>

definition window_days :: "date list \<Rightarrow> uuid \<Rightarrow> date \<Rightarrow> date \<Rightarrow> db \<Rightarrow> bool" where
  "window_days days u lo hi d \<longleftrightarrow> distinct days \<and> list_all (\<lambda>x. lo \<le> x \<and> x \<le> hi) days \<and>
     list_all (\<lambda>r. ai_user_id r = u \<and> lo \<le> ai_day r \<and> ai_day r \<le> hi \<longrightarrow> ai_day r \<in> set days) (db_intervals d) \<and>
     list_all (\<lambda>r. uc_user_id r = u \<and> lo \<le> uc_day r \<and> uc_day r \<le> hi \<longrightarrow> uc_day r \<in> set days) (db_counters d)"

lemma window_daysD:
  assumes "window_days days u lo hi d"
  shows "distinct days" and "x \<in> set days \<Longrightarrow> lo \<le> x \<and> x \<le> hi"
    and "ai_day ` set (filter (\<lambda>r. ai_user_id r = u \<and> lo \<le> ai_day r \<and> ai_day r \<le> hi) (db_intervals d)) \<subseteq> set days"
    and "uc_day ` set (filter (\<lambda>r. uc_user_id r = u \<and> lo \<le> uc_day r \<and> uc_day r \<le> hi) (db_counters d)) \<subseteq> set days"
  using assms unfolding window_days_def list_all_iff set_filter by blast+

lemma wallclock_window_days:
  assumes "window_days days u lo hi d"
  shows "global_spent_wallclock_window agg u lo hi d = (\<Sum>day \<leftarrow> days. global_spent_wallclock agg u day d)"
proof -
  let ?ai = "filter (\<lambda>r. ai_user_id r = u \<and> lo \<le> ai_day r \<and> ai_day r \<le> hi) (db_intervals d)"
  let ?uc = "filter (\<lambda>r. uc_user_id r = u \<and> lo \<le> uc_day r \<and> uc_day r \<le> hi) (db_counters d)"
  have "fst ` set (group_by ai_day (union_of agg) ?ai) \<subseteq> set days"
    using group_by_keys window_daysD(3) [OF assms] by (rule subset_trans)
  moreover have "fst ` set (group_by uc_day (\<lambda>rs. sql_max (map uc_spent_seconds rs)) ?uc) \<subseteq> set days"
    using group_by_keys window_daysD(4) [OF assms] by (rule subset_trans)
  ultimately have "global_spent_wallclock_window agg u lo hi d =
      (\<Sum>day \<leftarrow> days. dict_get_or (global_spent_wallclock_history agg u lo hi d) day 0)"
    unfolding global_spent_wallclock_window_def global_spent_wallclock_history_def
    by (intro sum_list_greatest_join window_daysD(1) [OF assms] Un_least)
  also have "\<dots> = (\<Sum>day \<leftarrow> days. global_spent_wallclock agg u day d)"
    by (intro arg_cong [where f = sum_list] map_cong refl wallclock_history_single window_daysD(2) [OF assms])
  finally show ?thesis .
qed

lemma parallel_window_days:
  assumes "window_days days u lo hi d"
  shows "global_spent_parallel_window u lo hi d = (\<Sum>day \<leftarrow> days. global_spent_parallel u day d)"
proof -
  let ?uc = "filter (\<lambda>r. uc_user_id r = u \<and> lo \<le> uc_day r \<and> uc_day r \<le> hi) (db_counters d)"
  note days = window_daysD(4,1) [OF assms]
  have "filter (\<lambda>r. uc_day r = day) ?uc = counters_on u day d" if "day \<in> set days" for day
    using window_daysD(2) [OF assms that] unfolding filter_filter counters_on_def
    by (intro filter_cong3) blast
  then show ?thesis
    unfolding global_spent_parallel_window_def global_spent_parallel_def sum_list_by_key [OF days(2,1)]
    by (intro arg_cong [where f = sum_list] map_cong) auto
qed

text \<open>
  C24. Every grouped query answers what the single query answers: the batches for each of the
  users asked for, the history for each day of its range (0 where the answer has no entry), and
  the week and month windows are the sums of their days, in both accounting modes.
\<close>

theorem grouped_queries_agree:
  assumes "u \<in> set ids" "lo \<le> day \<and> day \<le> hi" "window_days days u lo hi d"
  shows "dict_get_or (global_spent_wallclock_batch agg ids day d) u 0 = global_spent_wallclock agg u day d \<and>
    dict_get_or (global_spent_parallel_batch ids day d) u 0 = global_spent_parallel u day d \<and>
    dict_get_or (global_spent_wallclock_history agg u lo hi d) day 0 = global_spent_wallclock agg u day d \<and>
    global_spent_wallclock_window agg u lo hi d = (\<Sum>x \<leftarrow> days. global_spent_wallclock agg u x d) \<and>
    global_spent_parallel_window u lo hi d = (\<Sum>x \<leftarrow> days. global_spent_parallel u x d)"
  using wallclock_batch_single [OF assms(1)] parallel_batch_single [OF assms(1)]
    wallclock_history_single [OF assms(2)] wallclock_window_days [OF assms(3)] parallel_window_days [OF assms(3)]
  by simp

theorem grouped_queries_agree_witness:
  "window_days [sample_day] 1 sample_day sample_day sample_usage \<and>
   dict_get_or (global_spent_parallel_batch [1, 8] sample_day sample_usage) 1 0 = 3600 \<and>
   global_spent_parallel_window 1 sample_day sample_day sample_usage = 3600"
proof -
  have w: "window_days [sample_day] 1 sample_day sample_day sample_usage"
    by (simp add: window_days_def sample_usage_def)
  have p: "global_spent_parallel 1 sample_day sample_usage = 3600"
    unfolding global_spent_parallel_def sample_usage_simps by (simp add: sample_usage_def)
  from grouped_queries_agree [of 1 "[1, 8]" sample_day sample_day sample_day, OF _ _ w] w p
  show ?thesis by simp
qed

end
