(* ===== verification/Limits.thy ===== *)
theory Limits
  imports Aggregate
begin

section \<open>Effective limits and per-date exceptions\<close>

text \<open>
  Models \<open>hub/timekpr_hub/services/limits.py\<close> and \<open>services/day_hours.py\<close>: the one formula of a
  day's limit, the bonus grants, the day overrides, the allowed-hours overrides and the gate
  releases. Each of the three exceptions is a table with one row per user and day; their set and
  clear functions provide the interface \<open>keyed_store\<close>, whose lemmas carry the properties here.
\<close>

definition base_daily_limit :: "policy_row \<Rightarrow> date \<Rightarrow> seconds result" where
  "base_daily_limit policy day = py_index (pol_daily_limits policy) (isoweekday day - 1)"

definition is_gated_weekday :: "user_row \<Rightarrow> date \<Rightarrow> bool" where
  "is_gated_weekday user day \<longleftrightarrow> str_of_int (isoweekday day) \<in> set (usr_gated_weekdays user)"

definition combine_limit :: "seconds \<Rightarrow> seconds \<Rightarrow> bool \<Rightarrow> bool \<Rightarrow> seconds" where
  "combine_limit base_s grants_s gated released =
     (if gated \<and> \<not> released then 0 else max 0 (base_s + grants_s))"

subsection \<open>Grants\<close>

definition grants_total :: "uuid \<Rightarrow> date \<Rightarrow> db \<Rightarrow> seconds" where
  "grants_total user_id day d =
     sum_list (map gr_seconds (filter (\<lambda>r. gr_user_id r = user_id \<and> gr_day r = day) (db_grants d)))"

definition grants_totals_batch :: "uuid list \<Rightarrow> date \<Rightarrow> db \<Rightarrow> (uuid, seconds) dict" where
  "grants_totals_batch user_ids day d =
     (if user_ids = [] then []
      else group_by gr_user_id (\<lambda>rs. Some (sum_list (map gr_seconds rs)))
        (filter (\<lambda>r. gr_user_id r \<in> set user_ids \<and> gr_day r = day) (db_grants d)))"

definition grants_totals_history :: "uuid \<Rightarrow> date \<Rightarrow> date \<Rightarrow> db \<Rightarrow> (date, seconds) dict" where
  "grants_totals_history user_id start_day end_day d =
     group_by gr_day (\<lambda>rs. Some (sum_list (map gr_seconds rs)))
       (filter (\<lambda>r. gr_user_id r = user_id \<and> start_day \<le> gr_day r \<and> gr_day r \<le> end_day) (db_grants d))"

subsection \<open>Day overrides\<close>

definition day_override :: "uuid \<Rightarrow> date \<Rightarrow> db \<Rightarrow> day_override_row option" where
  "day_override user_id day d = find_row day_override_key (user_id, day) (db_day_overrides d)"

definition day_overrides_batch :: "uuid list \<Rightarrow> date \<Rightarrow> db \<Rightarrow> (uuid, seconds) dict" where
  "day_overrides_batch user_ids day d =
     (if user_ids = [] then []
      else map (\<lambda>r. (dov_user_id r, dov_limit_seconds r))
        (filter (\<lambda>r. dov_user_id r \<in> set user_ids \<and> dov_day r = day) (db_day_overrides d)))"

definition day_overrides_history :: "uuid \<Rightarrow> date \<Rightarrow> date \<Rightarrow> db \<Rightarrow> (date, seconds) dict" where
  "day_overrides_history user_id start_day end_day d =
     map (\<lambda>r. (dov_day r, dov_limit_seconds r))
       (filter (\<lambda>r. dov_user_id r = user_id \<and> start_day \<le> dov_day r \<and> dov_day r \<le> end_day) (db_day_overrides d))"

definition replace_day_override :: "day_override_row \<Rightarrow> day_override_row \<Rightarrow> day_override_row" where
  "replace_day_override old new = old\<lparr>dov_limit_seconds := dov_limit_seconds new,
     dov_reason := dov_reason new, dov_created_by := dov_created_by new\<rparr>"

definition set_day_override :: "instant \<Rightarrow> uuid \<Rightarrow> date \<Rightarrow> seconds \<Rightarrow> string \<Rightarrow> string \<Rightarrow> db
    \<Rightarrow> (day_override_row \<times> db) result" where
  "set_day_override now user_id day limit_seconds reason created_by d =
     (case uuid4 d of (i, d) \<Rightarrow>
        let r = \<lparr>dov_id = i, dov_user_id = user_id, dov_day = day, dov_limit_seconds = limit_seconds,
                 dov_reason = Some reason, dov_created_by = Some created_by, dov_created_at = now\<rparr>;
            rows = upsert day_override_key replace_day_override r (db_day_overrides d)
        in rbind (flush (day_override_fits r) (ck_day_overrides r) True (d\<lparr>db_day_overrides := rows\<rparr>)) (\<lambda>d.
             case day_override user_id day d of
               None \<Rightarrow> Inl NoResultFound
             | Some row \<Rightarrow> Inr (row, d)))"

definition clear_day_override :: "uuid \<Rightarrow> date \<Rightarrow> db \<Rightarrow> bool \<times> db" where
  "clear_day_override user_id day d =
     (case day_override user_id day d of
        None \<Rightarrow> (False, d)
      | Some existing \<Rightarrow>
          (True, d\<lparr>db_day_overrides := delete_rows day_override_key (day_override_key existing) (db_day_overrides d)\<rparr>))"

subsection \<open>Gate releases\<close>

definition is_gate_released :: "uuid \<Rightarrow> date \<Rightarrow> db \<Rightarrow> bool" where
  "is_gate_released user_id day d \<longleftrightarrow> find_row release_key (user_id, day) (db_releases d) \<noteq> None"

definition gate_releases_batch :: "uuid list \<Rightarrow> date \<Rightarrow> db \<Rightarrow> uuid list" where
  "gate_releases_batch user_ids day d =
     (if user_ids = [] then []
      else map rel_user_id (filter (\<lambda>r. rel_user_id r \<in> set user_ids \<and> rel_day r = day) (db_releases d)))"

definition gate_releases_history :: "uuid \<Rightarrow> date \<Rightarrow> date \<Rightarrow> db \<Rightarrow> date list" where
  "gate_releases_history user_id start_day end_day d =
     map rel_day (filter (\<lambda>r. rel_user_id r = user_id \<and> start_day \<le> rel_day r \<and> rel_day r \<le> end_day) (db_releases d))"

definition replace_release :: "release_row \<Rightarrow> release_row \<Rightarrow> release_row" where
  "replace_release old new = old\<lparr>rel_released_by := rel_released_by new, rel_note := rel_note new\<rparr>"

definition release_gate :: "instant \<Rightarrow> uuid \<Rightarrow> date \<Rightarrow> string \<Rightarrow> string \<Rightarrow> db \<Rightarrow> (release_row \<times> db) result" where
  "release_gate now user_id day released_by remark d =
     (case uuid4 d of (i, d) \<Rightarrow>
        let r = \<lparr>rel_id = i, rel_user_id = user_id, rel_day = day, rel_released_by = Some released_by,
                 rel_released_at = now, rel_note = (if remark = '''' then None else Some remark)\<rparr>;
            rows = upsert release_key replace_release r (db_releases d)
        in rbind (flush (release_fits r) True True (d\<lparr>db_releases := rows\<rparr>)) (\<lambda>d.
             case find_row release_key (user_id, day) (db_releases d) of
               None \<Rightarrow> Inl NoResultFound
             | Some row \<Rightarrow> Inr (row, d)))"

definition unrelease_gate :: "uuid \<Rightarrow> date \<Rightarrow> db \<Rightarrow> bool \<times> db" where
  "unrelease_gate user_id day d =
     (case find_row release_key (user_id, day) (db_releases d) of
        None \<Rightarrow> (False, d)
      | Some existing \<Rightarrow> (True, d\<lparr>db_releases := delete_rows release_key (release_key existing) (db_releases d)\<rparr>))"

subsection \<open>Allowed-hours overrides\<close>

definition day_hour_override :: "uuid \<Rightarrow> date \<Rightarrow> db \<Rightarrow> hour_override_row option" where
  "day_hour_override user_id day d = find_row hour_override_key (user_id, day) (db_hour_overrides d)"

definition load_intervals :: "wire_hour list \<Rightarrow> wire_hour list result" where
  "load_intervals rows = rsequence (map (checked valid_wire_hour) rows)"

text \<open>A dict comprehension over rows whose values may fail to load.\<close>

definition load_dict :: "('k \<times> wire_hour list) list \<Rightarrow> ('k, wire_hour list) dict result" where
  "load_dict rows = rsequence (map (\<lambda>(k, ivs). rbind (load_intervals ivs) (\<lambda>ivs. Inr (k, ivs))) rows)"

definition day_hour_overrides_batch :: "uuid list \<Rightarrow> date \<Rightarrow> db \<Rightarrow> (uuid, wire_hour list) dict result" where
  "day_hour_overrides_batch user_ids day d =
     (if user_ids = [] then Inr []
      else load_dict (map (\<lambda>r. (hov_user_id r, hov_intervals r))
        (filter (\<lambda>r. hov_user_id r \<in> set user_ids \<and> hov_day r = day) (db_hour_overrides d))))"

definition day_hour_overrides_history :: "uuid \<Rightarrow> date \<Rightarrow> date \<Rightarrow> db \<Rightarrow> (date, wire_hour list) dict result" where
  "day_hour_overrides_history user_id start_day end_day d =
     load_dict (map (\<lambda>r. (hov_day r, hov_intervals r))
       (filter (\<lambda>r. hov_user_id r = user_id \<and> start_day \<le> hov_day r \<and> hov_day r \<le> end_day) (db_hour_overrides d)))"

definition replace_hour_override :: "hour_override_row \<Rightarrow> hour_override_row \<Rightarrow> hour_override_row" where
  "replace_hour_override old new = old\<lparr>hov_intervals := hov_intervals new,
     hov_reason := hov_reason new, hov_created_by := hov_created_by new\<rparr>"

definition set_day_hour_override :: "instant \<Rightarrow> uuid \<Rightarrow> date \<Rightarrow> wire_hour list \<Rightarrow> string \<Rightarrow> string \<Rightarrow> db
    \<Rightarrow> (hour_override_row \<times> db) result" where
  "set_day_hour_override now user_id day intervals reason created_by d =
     (case uuid4 d of (i, d) \<Rightarrow>
        let r = \<lparr>hov_id = i, hov_user_id = user_id, hov_day = day, hov_intervals = intervals,
                 hov_reason = Some reason, hov_created_by = Some created_by, hov_created_at = now\<rparr>;
            rows = upsert hour_override_key replace_hour_override r (db_hour_overrides d)
        in rbind (flush (hour_override_fits r) (ck_hour_overrides r) True (d\<lparr>db_hour_overrides := rows\<rparr>)) (\<lambda>d.
             case day_hour_override user_id day d of
               None \<Rightarrow> Inl NoResultFound
             | Some row \<Rightarrow> Inr (row, d)))"

definition clear_day_hour_override :: "uuid \<Rightarrow> date \<Rightarrow> db \<Rightarrow> bool \<times> db" where
  "clear_day_hour_override user_id day d =
     (case day_hour_override user_id day d of
        None \<Rightarrow> (False, d)
      | Some existing \<Rightarrow>
          (True, d\<lparr>db_hour_overrides := delete_rows hour_override_key (hour_override_key existing) (db_hour_overrides d)\<rparr>))"

subsection \<open>The limit of a day\<close>

definition effective_daily_limit :: "policy_row \<Rightarrow> user_row \<Rightarrow> date \<Rightarrow> db \<Rightarrow> seconds result" where
  "effective_daily_limit policy user day d =
     rbind (case day_override (usr_id user) day d of
              Some ov \<Rightarrow> Inr (dov_limit_seconds ov)
            | None \<Rightarrow> base_daily_limit policy day) (\<lambda>base_s.
     let grants_s = grants_total (usr_id user) day d;
         gated = is_gated_weekday user day;
         released = (if gated then is_gate_released (usr_id user) day d else False)
     in Inr (combine_limit base_s grants_s gated released))"

subsection \<open>The three per-date stores\<close>

definition day_override_value :: "day_override_row \<Rightarrow> seconds \<times> string option \<times> string option" where
  "day_override_value r = (dov_limit_seconds r, dov_reason r, dov_created_by r)"

definition hour_override_value :: "hour_override_row \<Rightarrow> wire_hour list \<times> string option \<times> string option" where
  "hour_override_value r = (hov_intervals r, hov_reason r, hov_created_by r)"

definition release_value :: "release_row \<Rightarrow> string option \<times> string option" where
  "release_value r = (rel_released_by r, rel_note r)"

definition day_override_of :: "uuid \<Rightarrow> instant \<Rightarrow> uuid \<times> date \<Rightarrow> seconds \<times> string option \<times> string option \<Rightarrow> day_override_row" where
  "day_override_of i now k v = (case (k, v) of ((u, day), (limit, reason, by)) \<Rightarrow>
     \<lparr>dov_id = i, dov_user_id = u, dov_day = day, dov_limit_seconds = limit, dov_reason = reason,
      dov_created_by = by, dov_created_at = now\<rparr>)"

definition hour_override_of :: "uuid \<Rightarrow> instant \<Rightarrow> uuid \<times> date \<Rightarrow> wire_hour list \<times> string option \<times> string option \<Rightarrow> hour_override_row" where
  "hour_override_of i now k v = (case (k, v) of ((u, day), (ivs, reason, by)) \<Rightarrow>
     \<lparr>hov_id = i, hov_user_id = u, hov_day = day, hov_intervals = ivs, hov_reason = reason,
      hov_created_by = by, hov_created_at = now\<rparr>)"

definition release_of :: "uuid \<Rightarrow> instant \<Rightarrow> uuid \<times> date \<Rightarrow> string option \<times> string option \<Rightarrow> release_row" where
  "release_of i now k v = (case (k, v) of ((u, day), (by, remark)) \<Rightarrow>
     \<lparr>rel_id = i, rel_user_id = u, rel_day = day, rel_released_by = by, rel_released_at = now, rel_note = remark\<rparr>)"

lemmas exception_defs = day_override_key_def hour_override_key_def release_key_def
  replace_day_override_def replace_hour_override_def replace_release_def
  day_override_value_def hour_override_value_def release_value_def
  day_override_of_def hour_override_of_def release_of_def

interpretation day_overrides: keyed_store "row_get day_override_key day_override_value"
  "\<lambda>k v. upsert day_override_key replace_day_override (day_override_of i now k v)"
  "row_drop day_override_key" "unique_on day_override_key" for i now
  by (rule keyed_store_rows) (auto simp: keeps_key_def exception_defs split: prod.splits)

interpretation hour_overrides: keyed_store "row_get hour_override_key hour_override_value"
  "\<lambda>k v. upsert hour_override_key replace_hour_override (hour_override_of i now k v)"
  "row_drop hour_override_key" "unique_on hour_override_key" for i now
  by (rule keyed_store_rows) (auto simp: keeps_key_def exception_defs split: prod.splits)

interpretation releases: keyed_store "row_get release_key release_value"
  "\<lambda>k v. upsert release_key replace_release (release_of i now k v)"
  "row_drop release_key" "unique_on release_key" for i now
  by (rule keyed_store_rows) (auto simp: keeps_key_def exception_defs split: prod.splits)

lemma set_day_override_Inr:
  assumes "set_day_override now u day limit reason by d = Inr (r, d')"
  shows "db_day_overrides d' = upsert day_override_key replace_day_override
      (day_override_of (db_next_id d) now (u, day) (limit, Some reason, Some by)) (db_day_overrides d)"
    and "day_override u day d' = Some r" "0 \<le> limit \<and> limit \<le> 86400"
    and "d' = d\<lparr>db_next_id := db_next_id d + 1, db_day_overrides := db_day_overrides d'\<rparr>"
  using assms by (auto simp: set_day_override_def uuid4_def Let_def flush_def rbind_Inr_iff day_override_of_def
      ck_day_overrides_def split: if_splits option.splits)

lemma set_day_hour_override_Inr:
  assumes "set_day_hour_override now u day ivs reason by d = Inr (r, d')"
  shows "db_hour_overrides d' = upsert hour_override_key replace_hour_override
      (hour_override_of (db_next_id d) now (u, day) (ivs, Some reason, Some by)) (db_hour_overrides d)"
    and "day_hour_override u day d' = Some r" "ivs \<noteq> []"
    and "d' = d\<lparr>db_next_id := db_next_id d + 1, db_hour_overrides := db_hour_overrides d'\<rparr>"
  using assms by (auto simp: set_day_hour_override_def uuid4_def Let_def flush_def rbind_Inr_iff hour_override_of_def
      ck_hour_overrides_def split: if_splits option.splits)

lemma release_gate_Inr:
  assumes "release_gate now u day by remark d = Inr (r, d')"
  shows "db_releases d' = upsert release_key replace_release
      (release_of (db_next_id d) now (u, day) (Some by, if remark = '''' then None else Some remark)) (db_releases d)"
    and "find_row release_key (u, day) (db_releases d') = Some r"
    and "d' = d\<lparr>db_next_id := db_next_id d + 1, db_releases := db_releases d'\<rparr>"
  using assms by (auto simp: release_gate_def uuid4_def Let_def flush_def rbind_Inr_iff release_of_def
      split: if_splits option.splits)

lemma delete_rows_absent: "find_row key k rows = None \<Longrightarrow> delete_rows key k rows = rows"
  by (induction rows) (auto simp: delete_rows_def split: if_splits)

text \<open>The set and clear functions are the put and drop of their stores.\<close>

lemma day_override_get: "row_get day_override_key day_override_value (db_day_overrides d) (u, day) =
    map_option day_override_value (day_override u day d)"
  by (simp add: row_get_def day_override_def)

lemma day_hour_override_get: "row_get hour_override_key hour_override_value (db_hour_overrides d) (u, day) =
    map_option hour_override_value (day_hour_override u day d)"
  by (simp add: row_get_def day_hour_override_def)

lemma release_get: "row_get release_key release_value (db_releases d) (u, day) \<noteq> None \<longleftrightarrow> is_gate_released u day d"
  by (auto simp: row_get_def is_gate_released_def)

lemma clear_day_override_drop:
  "fst (clear_day_override u day d) = fst (row_drop day_override_key (u, day) (db_day_overrides d))"
  "db_day_overrides (snd (clear_day_override u day d)) = snd (row_drop day_override_key (u, day) (db_day_overrides d))"
  by (auto simp: clear_day_override_def row_drop_def day_override_def delete_rows_absent
      dest: find_row_key split: option.splits)

lemma clear_day_hour_override_drop:
  "fst (clear_day_hour_override u day d) = fst (row_drop hour_override_key (u, day) (db_hour_overrides d))"
  "db_hour_overrides (snd (clear_day_hour_override u day d)) = snd (row_drop hour_override_key (u, day) (db_hour_overrides d))"
  by (auto simp: clear_day_hour_override_def row_drop_def day_hour_override_def delete_rows_absent
      dest: find_row_key split: option.splits)

lemma unrelease_gate_drop:
  "fst (unrelease_gate u day d) = fst (row_drop release_key (u, day) (db_releases d))"
  "db_releases (snd (unrelease_gate u day d)) = snd (row_drop release_key (u, day) (db_releases d))"
  by (auto simp: unrelease_gate_def row_drop_def delete_rows_absent
      dest: find_row_key split: option.splits)

lemma day_override_after_set:
  assumes "set_day_override now u day limit reason by d = Inr (r, d1)"
  shows "map_option day_override_value (day_override u' day' d1) =
      (if (u', day') = (u, day) then Some (limit, Some reason, Some by)
       else map_option day_override_value (day_override u' day' d))"
  unfolding day_override_get [symmetric] set_day_override_Inr(1) [OF assms]
  by (rule day_overrides.get_put)

lemma hour_override_after_set:
  assumes "set_day_hour_override now u day ivs reason by d = Inr (r, d1)"
  shows "map_option hour_override_value (day_hour_override u' day' d1) =
      (if (u', day') = (u, day) then Some (ivs, Some reason, Some by)
       else map_option hour_override_value (day_hour_override u' day' d))"
  unfolding day_hour_override_get [symmetric] set_day_hour_override_Inr(1) [OF assms]
  by (rule hour_overrides.get_put)

lemma released_after_release:
  assumes "release_gate now u day by remark d = Inr (r, d1)"
  shows "is_gate_released u' day' d1 \<longleftrightarrow> (u', day') = (u, day) \<or> is_gate_released u' day' d"
  unfolding release_get [symmetric] release_gate_Inr(1) [OF assms] releases.get_put by auto

lemma day_override_after_clear:
  "map_option day_override_value (day_override u' day' (snd (clear_day_override u day d))) =
     (if (u', day') = (u, day) then None else map_option day_override_value (day_override u' day' d))"
  unfolding day_override_get [symmetric] clear_day_override_drop by (rule day_overrides.get_drop)

lemma hour_override_after_clear:
  "map_option hour_override_value (day_hour_override u' day' (snd (clear_day_hour_override u day d))) =
     (if (u', day') = (u, day) then None else map_option hour_override_value (day_hour_override u' day' d))"
  unfolding day_hour_override_get [symmetric] clear_day_hour_override_drop by (rule hour_overrides.get_drop)

lemma released_after_unrelease:
  "is_gate_released u' day' (snd (unrelease_gate u day d)) \<longleftrightarrow> (u', day') \<noteq> (u, day) \<and> is_gate_released u' day' d"
  unfolding release_get [symmetric] unrelease_gate_drop releases.get_drop by auto

lemma day_override_roundtrip:
  assumes "set_day_override now u day limit reason by d = Inr (r, d1)"
  shows "fst (clear_day_override u day d1) \<and> \<not> fst (clear_day_override u day (snd (clear_day_override u day d1))) \<and>
    map_option day_override_value (day_override u' day' (snd (clear_day_override u day d1))) =
      (if (u', day') = (u, day) then None else map_option day_override_value (day_override u' day' d))"
proof -
  have "fst (clear_day_override u day d1)"
    unfolding clear_day_override_drop set_day_override_Inr(1) [OF assms] by (rule day_overrides.drop_after_put)
  moreover have "\<not> fst (clear_day_override u day (snd (clear_day_override u day d1)))"
    unfolding clear_day_override_drop by (rule day_overrides.drop_twice)
  ultimately show ?thesis using day_override_after_set [OF assms] by (simp add: day_override_after_clear)
qed

lemma hour_override_roundtrip:
  assumes "set_day_hour_override now u day ivs reason by d = Inr (r, d1)"
  shows "fst (clear_day_hour_override u day d1) \<and>
    \<not> fst (clear_day_hour_override u day (snd (clear_day_hour_override u day d1))) \<and>
    map_option hour_override_value (day_hour_override u' day' (snd (clear_day_hour_override u day d1))) =
      (if (u', day') = (u, day) then None else map_option hour_override_value (day_hour_override u' day' d))"
proof -
  have "fst (clear_day_hour_override u day d1)"
    unfolding clear_day_hour_override_drop set_day_hour_override_Inr(1) [OF assms] by (rule hour_overrides.drop_after_put)
  moreover have "\<not> fst (clear_day_hour_override u day (snd (clear_day_hour_override u day d1)))"
    unfolding clear_day_hour_override_drop by (rule hour_overrides.drop_twice)
  ultimately show ?thesis using hour_override_after_set [OF assms] by (simp add: hour_override_after_clear)
qed

lemma release_roundtrip:
  assumes "release_gate now u day by remark d = Inr (r, d1)"
  shows "fst (unrelease_gate u day d1) \<and> \<not> fst (unrelease_gate u day (snd (unrelease_gate u day d1))) \<and>
    (is_gate_released u' day' (snd (unrelease_gate u day d1)) \<longleftrightarrow> (u', day') \<noteq> (u, day) \<and> is_gate_released u' day' d)"
proof -
  have "fst (unrelease_gate u day d1)"
    unfolding unrelease_gate_drop release_gate_Inr(1) [OF assms] by (rule releases.drop_after_put)
  moreover have "\<not> fst (unrelease_gate u day (snd (unrelease_gate u day d1)))"
    unfolding unrelease_gate_drop by (rule releases.drop_twice)
  ultimately show ?thesis using released_after_release [OF assms] by (auto simp: released_after_unrelease)
qed

text \<open>
  The three per-date exceptions are stores: setting one makes exactly that user's and day's
  value read back and leaves every other date and user as it was, clearing it reports that there
  was one, takes exactly it away, and clearing again reports that there was nothing.
\<close>

theorem exceptions_roundtrip:
  assumes "set_day_override now u day limit reason by d = Inr (r, d1)"
    and "set_day_hour_override now u day ivs reason by d = Inr (h, d2)"
    and "release_gate now u day by remark d = Inr (g, d3)"
  shows "(map_option day_override_value (day_override u' day' d1) =
      (if (u', day') = (u, day) then Some (limit, Some reason, Some by)
       else map_option day_override_value (day_override u' day' d)) \<and>
    fst (clear_day_override u day d1) \<and> \<not> fst (clear_day_override u day (snd (clear_day_override u day d1))) \<and>
    map_option day_override_value (day_override u' day' (snd (clear_day_override u day d1))) =
      (if (u', day') = (u, day) then None else map_option day_override_value (day_override u' day' d))) \<and>
   (map_option hour_override_value (day_hour_override u' day' d2) =
      (if (u', day') = (u, day) then Some (ivs, Some reason, Some by)
       else map_option hour_override_value (day_hour_override u' day' d)) \<and>
    fst (clear_day_hour_override u day d2) \<and>
    \<not> fst (clear_day_hour_override u day (snd (clear_day_hour_override u day d2))) \<and>
    map_option hour_override_value (day_hour_override u' day' (snd (clear_day_hour_override u day d2))) =
      (if (u', day') = (u, day) then None else map_option hour_override_value (day_hour_override u' day' d))) \<and>
   ((is_gate_released u' day' d3 \<longleftrightarrow> (u', day') = (u, day) \<or> is_gate_released u' day' d) \<and>
    fst (unrelease_gate u day d3) \<and> \<not> fst (unrelease_gate u day (snd (unrelease_gate u day d3))) \<and>
    (is_gate_released u' day' (snd (unrelease_gate u day d3)) \<longleftrightarrow> (u', day') \<noteq> (u, day) \<and> is_gate_released u' day' d))"
  using day_override_after_set [OF assms(1), of u' day'] day_override_roundtrip [OF assms(1), of u' day']
    hour_override_after_set [OF assms(2), of u' day'] hour_override_roundtrip [OF assms(2), of u' day']
    released_after_release [OF assms(3), of u' day'] release_roundtrip [OF assms(3), of u' day']
  by blast

theorem exceptions_roundtrip_witness:
  "\<exists>r d1 h d2 g d3. set_day_override 7 1 sample_day 1800 ''school'' ''admin-api'' empty_db = Inr (r, d1) \<and>
    set_day_hour_override 7 1 sample_day full_day_hours ''school'' ''admin-api'' empty_db = Inr (h, d2) \<and>
    release_gate 7 1 sample_day ''admin-api'' '''' empty_db = Inr (g, d3) \<and>
    map_option day_override_value (day_override 1 sample_day d1) = Some (1800, Some ''school'', Some ''admin-api'') \<and>
    map_option hour_override_value (day_hour_override 1 sample_day d2) =
      Some (full_day_hours, Some ''school'', Some ''admin-api'') \<and>
    is_gate_released 1 sample_day d3"
proof -
  obtain r d1 where 1: "set_day_override 7 1 sample_day 1800 ''school'' ''admin-api'' empty_db = Inr (r, d1)"
    by (simp add: set_day_override_def uuid4_def Let_def flush_def day_override_fits_def int4_def ck_day_overrides_def
        empty_db_def day_override_def day_override_key_def)
  obtain h d2 where 2: "set_day_hour_override 7 1 sample_day full_day_hours ''school'' ''admin-api'' empty_db = Inr (h, d2)"
    by (simp add: set_day_hour_override_def uuid4_def Let_def flush_def hour_override_fits_def ck_hour_overrides_def
        empty_db_def day_hour_override_def hour_override_key_def)
  obtain g d3 where 3: "release_gate 7 1 sample_day ''admin-api'' '''' empty_db = Inr (g, d3)"
    by (simp add: release_gate_def uuid4_def Let_def flush_def release_fits_def empty_db_def release_key_def)
  show ?thesis using exceptions_roundtrip [OF 1 2 3, of 1 sample_day] 1 2 3 by auto
qed

subsection \<open>What the exceptions do to the limit\<close>

lemma effective_limit_eq:
  "effective_daily_limit policy user day d =
     rbind (case map_option day_override_value (day_override (usr_id user) day d) of
              Some (limit, _) \<Rightarrow> Inr limit | None \<Rightarrow> base_daily_limit policy day) (\<lambda>base_s.
       Inr (combine_limit base_s (grants_total (usr_id user) day d) (is_gated_weekday user day)
              (is_gate_released (usr_id user) day d)))"
  by (cases "day_override (usr_id user) day d")
    (auto simp: effective_daily_limit_def day_override_value_def combine_limit_def Let_def)

lemma set_day_override_frame:
  assumes "set_day_override now u day limit reason by d = Inr (r, d1)"
  shows "grants_total u' day' d1 = grants_total u' day' d" "is_gate_released u' day' d1 = is_gate_released u' day' d"
  by (subst set_day_override_Inr(4) [OF assms], simp add: grants_total_def is_gate_released_def)+

lemma release_gate_frame:
  assumes "release_gate now u day by remark d = Inr (r, d1)"
  shows "grants_total u' day' d1 = grants_total u' day' d" "day_override u' day' d1 = day_override u' day' d"
  by (subst release_gate_Inr(3) [OF assms], simp add: grants_total_def day_override_def)+

lemma unrelease_gate_frame:
  "grants_total u' day' (snd (unrelease_gate u day d)) = grants_total u' day' d"
  "day_override u' day' (snd (unrelease_gate u day d)) = day_override u' day' d"
  by (auto simp: unrelease_gate_def grants_total_def day_override_def split: option.splits)

lemma add_grant_total:
  assumes "add_grant g d = Inr d'"
  shows "grants_total u day d' = grants_total u day d + (if gr_user_id g = u \<and> gr_day g = day then gr_seconds g else 0)"
    and "day_override u day d' = day_override u day d" "is_gate_released u day d' = is_gate_released u day d"
  using assms by (auto simp: add_grant_def flush_def grants_total_def day_override_def is_gate_released_def split: if_splits)


definition sample_user :: user_row where
  "sample_user = \<lparr>usr_id = 1, usr_canonical_username = ''anna'', usr_display_name = ''anna'',
     usr_current_policy_id = Some 9, usr_accounting_mode = ''wallclock'', usr_offline_policy = ''capped'',
     usr_offline_grace_s = 900, usr_offline_cap_s = 1800, usr_gated_weekdays = [''1''], usr_created_at = 0\<rparr>"

definition sample_policy_row :: policy_row where
  "sample_policy_row = \<lparr>pol_id = 9, pol_user_id = 1, pol_version = 1, pol_created_at = 0, pol_created_by = None,
     pol_daily_limits = replicate 7 3600, pol_allowed_hours = [], pol_allowed_weekdays = WEEKDAY_TOKENS,
     pol_weekly_limit_s = 25200, pol_monthly_limit_s = 126000, pol_lockout_type = ''lock'', pol_wake_from = None,
     pol_wake_to = None, pol_track_inactive = False, pol_hide_tray_icon = False, pol_playtime_enabled = False,
     pol_playtime_override_enabled = False, pol_playtime_unaccounted = True,
     pol_playtime_allowed_weekdays = WEEKDAY_TOKENS, pol_playtime_daily_limits = replicate 7 0,
     pol_playtime_activities = [], pol_note = None\<rparr>"


end
