(* ===== verification/Policy_Service.thy ===== *)
theory Policy_Service
  imports Limits
begin

section \<open>Policy versions and the payload a device gets\<close>

text \<open>
  Models \<open>hub/timekpr_hub/services/policy.py\<close>: the current policy of a user, its payload, the
  creation of the first policy, the append-only update and the effective payload with its revision
  token. A request runs as one transaction (the row lock of SELECT .. FOR UPDATE serialises two of
  them), so the locked user is the user row of the database. The properties say that history is
  never rewritten, that what an admin saves is what devices are told, and that a one-day override
  reaches the device on its day only.
\<close>

definition DEFAULT_DAILY_LIMITS_S :: "seconds list" where
  "DEFAULT_DAILY_LIMITS_S = replicate 7 3600"

definition get_current_policy :: "user_row \<Rightarrow> db \<Rightarrow> policy_row option" where
  "get_current_policy user d =
     (case usr_current_policy_id user of None \<Rightarrow> None | Some i \<Rightarrow> find_row pol_id i (db_policies d))"

definition playtime_of_row :: "policy_row \<Rightarrow> playtime_payload" where
  "playtime_of_row policy = \<lparr>pt_enabled = pol_playtime_enabled policy,
     pt_override_enabled = pol_playtime_override_enabled policy,
     pt_unaccounted_intervals_enabled = pol_playtime_unaccounted policy,
     pt_allowed_weekdays = pol_playtime_allowed_weekdays policy,
     pt_daily_limits_s = list_or (pol_playtime_daily_limits policy) (replicate 7 0),
     pt_activities = pol_playtime_activities policy\<rparr>"

definition policy_to_payload :: "policy_row \<Rightarrow> policy_payload result" where
  "policy_to_payload policy =
     (case lockout_of (pol_lockout_type policy) of
        Inl _ \<Rightarrow> Inl ValidationError
      | Inr lockout \<Rightarrow> checked valid_policy_payload
          \<lparr>pp_version = pol_version policy, pp_daily_limits_s = pol_daily_limits policy,
           pp_allowed_hours = pol_allowed_hours policy, pp_allowed_weekdays = pol_allowed_weekdays policy,
           pp_weekly_limit_s = pol_weekly_limit_s policy, pp_monthly_limit_s = pol_monthly_limit_s policy,
           pp_lockout_type = lockout, pp_wake_from = pol_wake_from policy, pp_wake_to = pol_wake_to policy,
           pp_track_inactive = pol_track_inactive policy, pp_hide_tray_icon = pol_hide_tray_icon policy,
           pp_playtime = playtime_of_row policy, pp_note = str_or (pol_note policy) ''''\<rparr>)"

text \<open>The keyword arguments of a first policy: those of the device, when it reported its own.\<close>

definition create_initial_policy :: "instant \<Rightarrow> uuid \<Rightarrow> local_policy option \<Rightarrow> db \<Rightarrow> (policy_row \<times> db) result" where
  "create_initial_policy now user_id snapshot d =
     (let limits = (case snapshot of None \<Rightarrow> DEFAULT_DAILY_LIMITS_S | Some s \<Rightarrow> lp_daily_limits_s s)
      in case uuid4 d of (i, d) \<Rightarrow>
        let policy = \<lparr>pol_id = i, pol_user_id = user_id, pol_version = 1, pol_created_at = now,
              pol_created_by = Some (if snapshot = None then ''system_default'' else ''seeded_from_device''),
              pol_daily_limits = limits, pol_allowed_hours = [],
              pol_allowed_weekdays = (case snapshot of None \<Rightarrow> WEEKDAY_TOKENS
                 | Some s \<Rightarrow> list_or (lp_allowed_weekdays s) WEEKDAY_TOKENS),
              pol_weekly_limit_s = (case snapshot of None \<Rightarrow> sum_list limits | Some s \<Rightarrow> lp_weekly_limit_s s),
              pol_monthly_limit_s = (case snapshot of None \<Rightarrow> sum_list limits * 5 | Some s \<Rightarrow> lp_monthly_limit_s s),
              pol_lockout_type = ''lock'', pol_wake_from = None, pol_wake_to = None,
              pol_track_inactive = False, pol_hide_tray_icon = False, pol_playtime_enabled = False,
              pol_playtime_override_enabled = False, pol_playtime_unaccounted = True,
              pol_playtime_allowed_weekdays = WEEKDAY_TOKENS, pol_playtime_daily_limits = replicate 7 0,
              pol_playtime_activities = [], pol_note = None\<rparr>
        in rbind (add_policy policy d) (\<lambda>d. Inr (policy, d)))"

definition the_user :: "uuid \<Rightarrow> db \<Rightarrow> user_row result" where
  "the_user user_id d =
     (case find_row usr_id user_id (db_users d) of None \<Rightarrow> Inl NoResultFound | Some u \<Rightarrow> Inr u)"

definition set_current_policy :: "uuid \<Rightarrow> uuid \<Rightarrow> db \<Rightarrow> db" where
  "set_current_policy user_id policy_id d =
     d\<lparr>db_users := map_row usr_id user_id (\<lambda>u. u\<lparr>usr_current_policy_id := Some policy_id\<rparr>) (db_users d)\<rparr>"

definition get_or_create_policy :: "instant \<Rightarrow> uuid \<Rightarrow> local_policy option \<Rightarrow> db \<Rightarrow> (policy_row \<times> db) result" where
  "get_or_create_policy now user_id snapshot d =
     rbind (the_user user_id d) (\<lambda>locked_user.
       case get_current_policy locked_user d of
         Some current \<Rightarrow> Inr (current, d)
       | None \<Rightarrow>
           rbind (create_initial_policy now (usr_id locked_user) snapshot d) (\<lambda>(policy, d).
             Inr (policy, set_current_policy (usr_id locked_user) (pol_id policy) d)))"

definition row_of_update :: "uuid \<Rightarrow> uuid \<Rightarrow> int \<Rightarrow> instant \<Rightarrow> string \<Rightarrow> policy_update \<Rightarrow> policy_row" where
  "row_of_update i user_id version now created_by update =
     (let pt = pu_playtime update in
      \<lparr>pol_id = i, pol_user_id = user_id, pol_version = version, pol_created_at = now,
       pol_created_by = Some created_by, pol_daily_limits = pu_daily_limits_s update,
       pol_allowed_hours = pu_allowed_hours update, pol_allowed_weekdays = pu_allowed_weekdays update,
       pol_weekly_limit_s = pu_weekly_limit_s update, pol_monthly_limit_s = pu_monthly_limit_s update,
       pol_lockout_type = lockout_value (pu_lockout_type update), pol_wake_from = pu_wake_from update,
       pol_wake_to = pu_wake_to update, pol_track_inactive = pu_track_inactive update,
       pol_hide_tray_icon = pu_hide_tray_icon update, pol_playtime_enabled = pt_enabled pt,
       pol_playtime_override_enabled = pt_override_enabled pt,
       pol_playtime_unaccounted = pt_unaccounted_intervals_enabled pt,
       pol_playtime_allowed_weekdays = pt_allowed_weekdays pt,
       pol_playtime_daily_limits = pt_daily_limits_s pt, pol_playtime_activities = pt_activities pt,
       pol_note = (if pu_note update = '''' then None else Some (pu_note update))\<rparr>)"

definition update_policy :: "instant \<Rightarrow> uuid \<Rightarrow> policy_update \<Rightarrow> string \<Rightarrow> db \<Rightarrow> (policy_row \<times> db) result" where
  "update_policy now user_id update created_by d =
     rbind (the_user user_id d) (\<lambda>locked_user.
       let current = get_current_policy locked_user d;
           next_version = (case current of None \<Rightarrow> 1 | Some p \<Rightarrow> pol_version p + 1)
       in case uuid4 d of (i, d) \<Rightarrow>
            let policy = row_of_update i (usr_id locked_user) next_version now created_by update
            in rbind (add_policy policy d) (\<lambda>d.
                 Inr (policy, set_current_policy (usr_id locked_user) (pol_id policy) d)))"

definition effective_policy_payload :: "digest \<Rightarrow> policy_row \<Rightarrow> date \<Rightarrow> bool \<Rightarrow> db \<Rightarrow> (policy_payload \<times> string) result" where
  "effective_policy_payload digest policy day apply_day_overrides d =
     rbind (policy_to_payload policy) (\<lambda>standing.
     rbind (materialize_allowed_hours (pp_allowed_hours standing)) (\<lambda>materialized_hours.
       let materialized = standing\<lparr>pp_allowed_hours := materialized_hours\<rparr>
       in if \<not> apply_day_overrides then Inr (materialized, str_of_int (pp_version materialized) @ ''-legacy'')
          else case day_hour_override (pol_user_id policy) day d of
              None \<Rightarrow> Inr (materialized, policy_revision digest materialized)
            | Some ov \<Rightarrow>
                rbind (load_intervals (hov_intervals ov)) (\<lambda>intervals.
                rbind (with_day_hour_override materialized (str_of_int (isoweekday day)) intervals) (\<lambda>effective.
                  Inr (effective, policy_revision digest effective)))))"

subsection \<open>Versions\<close>

text \<open>A user's current policy is the newest version of that user; without one there is no version.\<close>

definition policy_current :: "user_row \<Rightarrow> policy_row list \<Rightarrow> bool" where
  "policy_current user ps \<longleftrightarrow>
     (case usr_current_policy_id user of
        None \<Rightarrow> list_all (\<lambda>q. pol_user_id q \<noteq> usr_id user) ps
      | Some i \<Rightarrow> (case find_row pol_id i ps of
            None \<Rightarrow> False
          | Some p \<Rightarrow> pol_user_id p = usr_id user \<and>
              list_all (\<lambda>q. pol_user_id q = usr_id user \<longrightarrow> pol_version q \<le> pol_version p) ps))"

definition next_version :: "user_row \<Rightarrow> db \<Rightarrow> int" where
  "next_version user d = (case get_current_policy user d of None \<Rightarrow> 1 | Some p \<Rightarrow> pol_version p + 1)"

lemma next_version_newer:
  assumes "policy_current user (db_policies d)" "q \<in> set (db_policies d)" "pol_user_id q = usr_id user"
  shows "pol_version q < next_version user d"
  using assms by (fastforce simp: policy_current_def next_version_def get_current_policy_def list_all_iff
      split: option.splits)

lemma find_row_map_row:
  assumes "\<And>r. key (f r) = key r"
  shows "find_row key k (map_row key i f rows) = map_option (\<lambda>r. if k = i then f r else r) (find_row key k rows)"
  by (induction rows) (auto simp: map_row_def assms)

lemma find_row_snoc_new: "find_row key k rows = Some r \<Longrightarrow> find_row key k (rows @ [x]) = Some r"
  by simp

definition payload_of_update :: "int \<Rightarrow> policy_update \<Rightarrow> policy_payload" where
  "payload_of_update version u =
     \<lparr>pp_version = version, pp_daily_limits_s = pu_daily_limits_s u, pp_allowed_hours = pu_allowed_hours u,
      pp_allowed_weekdays = pu_allowed_weekdays u, pp_weekly_limit_s = pu_weekly_limit_s u,
      pp_monthly_limit_s = pu_monthly_limit_s u, pp_lockout_type = pu_lockout_type u,
      pp_wake_from = pu_wake_from u, pp_wake_to = pu_wake_to u, pp_track_inactive = pu_track_inactive u,
      pp_hide_tray_icon = pu_hide_tray_icon u, pp_playtime = pu_playtime u, pp_note = pu_note u\<rparr>"

lemma payload_roundtrip:
  assumes "valid_policy_update u"
  shows "policy_to_payload (row_of_update i user_id version now by u) = Inr (payload_of_update version u)"
proof -
  have "list_or (pt_daily_limits_s (pu_playtime u)) (replicate 7 0) = pt_daily_limits_s (pu_playtime u)"
    using assms by (auto simp: valid_policy_update_def valid_playtime_def list_or_def)
  then have pt: "playtime_of_row (row_of_update i user_id version now by u) = pu_playtime u"
    by (simp add: playtime_of_row_def row_of_update_def Let_def)
  show ?thesis
    using assms unfolding policy_to_payload_def pt
    by (auto simp: row_of_update_def Let_def payload_of_update_def valid_policy_payload_def
        valid_policy_update_def str_or_def)
qed

lemma hour_pattern_short: "hour_pattern s \<Longrightarrow> length s \<le> 8"
  by (auto simp: hour_pattern_def split: list.splits)

lemma row_of_update_fits:
  assumes "valid_policy_update u" "int4 version" "length by \<le> 64"
  shows "policy_fits (row_of_update i user_id version now by u)" "ck_policies (row_of_update i user_id version now by u)"
proof -
  have "length (lockout_value l) \<le> 16" "lockout_value l \<in> {''lock'', ''suspend'', ''suspendwake'', ''terminate'', ''kill'', ''shutdown''}" for l
    by (cases l; simp)+
  then show "policy_fits (row_of_update i user_id version now by u)" "ck_policies (row_of_update i user_id version now by u)"
    using assms by (auto simp: policy_fits_def ck_policies_def row_of_update_def Let_def valid_policy_update_def
        int4_def in_bounds_def pred_option_def hour_pattern_short)
qed

lemma uuid4_rows [simp]: "db_policies (d\<lparr>db_next_id := n\<rparr>) = db_policies d" "db_users (d\<lparr>db_next_id := n\<rparr>) = db_users d"
  by simp_all

lemma update_policy_spec:
  fixes now :: instant
  assumes user: "find_row usr_id uid (db_users d) = Some user"
    and cur: "policy_current user (db_policies d)" and fresh: "fresh_ids d"
    and upd: "valid_policy_update u" "int4 (next_version user d)" "length by \<le> 64"
  defines "p \<equiv> row_of_update (db_next_id d) uid (next_version user d) now by u"
  defines "d' \<equiv> set_current_policy uid (db_next_id d) (d\<lparr>db_next_id := db_next_id d + 1, db_policies := db_policies d @ [p]\<rparr>)"
  shows "update_policy now uid u by d = Inr (p, d')"
    and "find_row usr_id x (db_users d') = map_option (\<lambda>r. if x = uid then r\<lparr>usr_current_policy_id := Some (db_next_id d)\<rparr> else r)
      (find_row usr_id x (db_users d))"
    and "db_policies d' = db_policies d @ [p]"
    and "find_row pol_id (db_next_id d) (db_policies d') = Some p"
proof -
  have uid: "usr_id user = uid" using user by (rule find_row_key)
  have p: "pol_id p = db_next_id d" "pol_user_id p = uid" "pol_version p = next_version user d"
    by (simp_all add: p_def row_of_update_def Let_def)
  have "policy_key p \<notin> policy_key ` set (db_policies d)"
    using next_version_newer [OF cur] p uid by (force simp: policy_key_def)
  then have "add_policy p (d\<lparr>db_next_id := db_next_id d + 1\<rparr>) =
      Inr (d\<lparr>db_next_id := db_next_id d + 1, db_policies := db_policies d @ [p]\<rparr>)"
    using row_of_update_fits [OF upd] by (simp add: add_policy_def flush_def p_def)
  then show "update_policy now uid u by d = Inr (p, d')"
    using user by (simp add: update_policy_def the_user_def uid next_version_def [symmetric] uuid4_def Let_def
        p_def [symmetric] p d'_def)
  show "find_row usr_id x (db_users d') = map_option (\<lambda>r. if x = uid then r\<lparr>usr_current_policy_id := Some (db_next_id d)\<rparr> else r)
      (find_row usr_id x (db_users d))"
    by (simp add: d'_def set_current_policy_def find_row_map_row)
  show "db_policies d' = db_policies d @ [p]" by (simp add: d'_def set_current_policy_def)
  have "find_row pol_id (db_next_id d) (db_policies d) = None"
    using fresh by (auto simp: find_row_None_iff fresh_ids_def list_all_iff)
  then show "find_row pol_id (db_next_id d) (db_policies d') = Some p"
    by (simp add: d'_def set_current_policy_def p)
qed

text \<open>
  Policies are append-only and what is saved is what is served: a validated update always
  succeeds, adds exactly one version that is newer than every version of the user, leaves the
  recorded history as it was and every other user's current policy in place, and the payload of
  the user's current policy afterwards is the update, field by field.
\<close>

theorem policy_update_appends:
  assumes "find_row usr_id uid (db_users d) = Some user" "policy_current user (db_policies d) \<and> fresh_ids d"
    and "valid_policy_update u" "int4 (next_version user d) \<and> length by \<le> 64"
  shows "\<exists>p d' user'. update_policy now uid u by d = Inr (p, d') \<and> db_policies d' = db_policies d @ [p] \<and>
    list_all (\<lambda>q. pol_user_id q = uid \<longrightarrow> pol_version q < pol_version p) (db_policies d) \<and>
    find_row usr_id uid (db_users d') = Some user' \<and> policy_current user' (db_policies d') \<and>
    get_current_policy user' d' = Some p \<and>
    policy_to_payload p = Inr (payload_of_update (next_version user d) u) \<and>
    (\<forall>other x. find_row usr_id x (db_users d) = Some other \<longrightarrow> x \<noteq> uid \<longrightarrow>
       find_row usr_id x (db_users d') = Some other \<and>
       (policy_current other (db_policies d) \<longrightarrow> get_current_policy other d' = get_current_policy other d \<and> policy_current other (db_policies d')))"
proof -
  let ?p = "row_of_update (db_next_id d) uid (next_version user d) now by u"
  define d' where "d' = set_current_policy uid (db_next_id d)
    (d\<lparr>db_next_id := db_next_id d + 1, db_policies := db_policies d @ [?p]\<rparr>)"
  note spec = update_policy_spec [where now = now, OF assms(1) conjunct1 [OF assms(2)] conjunct2 [OF assms(2)] assms(3)
      conjunct1 [OF assms(4)] conjunct2 [OF assms(4)], folded d'_def]
  have uid: "usr_id user = uid" using assms(1) by (rule find_row_key)
  have p: "pol_user_id ?p = uid" "pol_version ?p = next_version user d"
    by (simp_all add: row_of_update_def Let_def)
  have newer: "list_all (\<lambda>q. pol_user_id q = uid \<longrightarrow> pol_version q < pol_version ?p) (db_policies d)"
    using next_version_newer [of user d] assms(2) uid by (auto simp: list_all_iff p)
  let ?user = "user\<lparr>usr_current_policy_id := Some (db_next_id d)\<rparr>"
  have me: "find_row usr_id uid (db_users d') = Some ?user" using spec(2) [of uid] assms(1) by simp
  have cur: "policy_current ?user (db_policies d')"
    using newer by (simp add: policy_current_def spec(4) uid p) (simp add: spec(3) list_all_iff p less_imp_le)
  have got: "get_current_policy ?user d' = Some ?p" by (simp add: get_current_policy_def spec(4))
  have others: "find_row usr_id x (db_users d') = Some other \<and>
       (policy_current other (db_policies d) \<longrightarrow> get_current_policy other d' = get_current_policy other d \<and> policy_current other (db_policies d'))"
    if "find_row usr_id x (db_users d) = Some other" "x \<noteq> uid" for other x
  proof -
    have x: "usr_id other = x" using that(1) by (rule find_row_key)
    show ?thesis
      using that spec(2) [of x] x
      by (auto simp: get_current_policy_def policy_current_def spec(3) p split: option.splits)
  qed
  show ?thesis
    by (intro exI conjI, rule spec(1), rule spec(3), rule newer, rule me, rule cur, rule got,
        rule payload_roundtrip [OF assms(3)]) (use others in blast)
qed

definition sample_policy_update :: policy_update where
  "sample_policy_update = \<lparr>pu_daily_limits_s = replicate 7 5400, pu_weekly_limit_s = 37800, pu_monthly_limit_s = 160000,
     pu_allowed_weekdays = WEEKDAY_TOKENS, pu_allowed_hours = [(''2'', full_day_hours)], pu_lockout_type = SUSPEND_WAKE,
     pu_wake_from = Some ''7'', pu_wake_to = Some ''21'', pu_track_inactive = True, pu_hide_tray_icon = False,
     pu_playtime = default_playtime, pu_note = ''exam week''\<rparr>"

definition sample_db :: db where
  "sample_db = sample_usage\<lparr>db_next_id := 100, db_users := [sample_user], db_policies := [sample_policy_row]\<rparr>"

lemma sample_policy_update_valid: "valid_policy_update sample_policy_update"
  by (simp add: valid_policy_update_def sample_policy_update_def day_limit_ok_def in_bounds_def weekdays_ok_def
      valid_hours_def full_day_hours_def list_all_iff valid_wire_hour_def hour_pattern_def is_digit_def valid_playtime_def
      default_playtime_def playtime_limits_ok_def list_ex_iff)

theorem policy_update_appends_witness:
  "\<exists>p d' user'. update_policy 5 1 sample_policy_update ''admin-api'' sample_db = Inr (p, d') \<and>
    db_policies d' = [sample_policy_row, p] \<and> pol_version p = 2 \<and>
    find_row usr_id 1 (db_users d') = Some user' \<and> get_current_policy user' d' = Some p \<and>
    policy_to_payload p = Inr (payload_of_update 2 sample_policy_update)"
proof -
  have 1: "find_row usr_id 1 (db_users sample_db) = Some sample_user" by (simp add: sample_db_def sample_user_def)
  have 2: "policy_current sample_user (db_policies sample_db) \<and> fresh_ids sample_db"
    by (simp add: policy_current_def fresh_ids_def sample_db_def sample_user_def sample_policy_row_def
        sample_usage_def empty_db_def)
  have v: "next_version sample_user sample_db = 2"
    by (simp add: next_version_def get_current_policy_def sample_db_def sample_user_def sample_policy_row_def)
  then have 4: "int4 (next_version sample_user sample_db) \<and> length ''admin-api'' \<le> 64" by (simp add: int4_def)
  from policy_update_appends [OF 1 2 sample_policy_update_valid 4, of 5, unfolded v] obtain p d' user' where
    "update_policy 5 1 sample_policy_update ''admin-api'' sample_db = Inr (p, d')"
    "db_policies d' = db_policies sample_db @ [p]" "find_row usr_id 1 (db_users d') = Some user'"
    "get_current_policy user' d' = Some p" "policy_to_payload p = Inr (payload_of_update 2 sample_policy_update)"
    by blast
  moreover have "db_policies sample_db = [sample_policy_row]" by (simp add: sample_db_def)
  moreover have "pol_version p = 2"
    using calculation(5) by (auto simp: policy_to_payload_def payload_of_update_def split: sum.splits)
  ultimately show ?thesis by auto
qed

subsection \<open>One-day overrides\<close>

lemma weekday_token: "str_of_int (isoweekday day) \<in> set WEEKDAY_TOKENS"
proof -
  have "1 \<le> isoweekday day \<and> isoweekday day < 8"
    using pos_mod_bound [of 7 "toordinal day - 1"] pos_mod_sign [of 7 "toordinal day - 1"] isoweekday_mod [of day] by linarith
  then have "isoweekday day = 1 \<or> isoweekday day = 2 \<or> isoweekday day = 3 \<or> isoweekday day = 4 \<or>
      isoweekday day = 5 \<or> isoweekday day = 6 \<or> isoweekday day = 7" by arith
  moreover have "list_all (\<lambda>k. str_of_int k \<in> set WEEKDAY_TOKENS) [1, 2, 3, 4, 5, 6, 7]" by code_simp
  ultimately show ?thesis by auto
qed

lemma load_intervals_valid: "list_all valid_wire_hour ivs \<Longrightarrow> load_intervals ivs = Inr ivs"
  unfolding load_intervals_def rsequence_Inr_iff by (auto simp: list_all_iff checked_def)

text \<open>The payload depends on the override of the policy's user and the day only.\<close>

definition override_intervals :: "policy_row \<Rightarrow> date \<Rightarrow> db \<Rightarrow> wire_hour list option" where
  "override_intervals policy day d = map_option fst (map_option hour_override_value (day_hour_override (pol_user_id policy) day d))"

lemma effective_payload_eq:
  "effective_policy_payload digest policy day b d =
     rbind (policy_to_payload policy) (\<lambda>p.
       let m = p\<lparr>pp_allowed_hours := full_week (pp_allowed_hours p)\<rparr>
       in if \<not> b then Inr (m, str_of_int (pp_version m) @ ''-legacy'')
          else case override_intervals policy day d of
              None \<Rightarrow> Inr (m, policy_revision digest m)
            | Some ivs \<Rightarrow> rbind (load_intervals ivs) (\<lambda>ivs.
                rbind (with_day_hour_override m (str_of_int (isoweekday day)) ivs) (\<lambda>e. Inr (e, policy_revision digest e))))"
  by (cases "day_hour_override (pol_user_id policy) day d"; cases "policy_to_payload policy")
    (simp_all add: effective_policy_payload_def override_intervals_def hour_override_value_def Let_def)

lemma effective_payload_cong:
  assumes "map_option hour_override_value (day_hour_override (pol_user_id policy) day d) =
    map_option hour_override_value (day_hour_override (pol_user_id policy) day d')"
  shows "effective_policy_payload digest policy day b d = effective_policy_payload digest policy day b d'"
  by (simp only: effective_payload_eq override_intervals_def assms)

definition standing_week :: "policy_payload \<Rightarrow> policy_payload" where
  "standing_week p = p\<lparr>pp_allowed_hours := full_week (pp_allowed_hours p)\<rparr>"

definition overridden_week :: "policy_payload \<Rightarrow> date \<Rightarrow> wire_hour list \<Rightarrow> policy_payload" where
  "overridden_week p day ivs = (let w = str_of_int (isoweekday day) in
     p\<lparr>pp_allowed_hours := (if override_applies p w then dict_set (full_week (pp_allowed_hours p)) w ivs
                            else full_week (pp_allowed_hours p))\<rparr>)"

lemma full_week_idem: "full_week (full_week d) = full_week d"
proof -
  have "week_entry (full_week d) day = week_entry d day" if "day \<in> set WEEKDAY_TOKENS" for day
    using that week_entry_nonempty [of d day] by (simp add: week_entry_def [of "full_week d"] full_week_get list_or_def)
  then show ?thesis by (simp add: full_week_def)
qed

lemma effective_payload_standing:
  assumes "policy_to_payload policy = Inr p" "day_hour_override (pol_user_id policy) day d = None"
  shows "effective_policy_payload digest policy day True d =
    Inr (standing_week p, policy_revision digest (standing_week p))"
  using assms by (simp add: effective_policy_payload_def standing_week_def Let_def)

lemma effective_payload_override:
  assumes "policy_to_payload policy = Inr p" "day_hour_override (pol_user_id policy) day d = Some ov"
    and "list_all valid_wire_hour (hov_intervals ov)"
  shows "effective_policy_payload digest policy day True d =
    Inr (overridden_week p day (hov_intervals ov), policy_revision digest (overridden_week p day (hov_intervals ov)))"
  using assms by (simp add: effective_policy_payload_def load_intervals_valid with_override override_applies_def
      overridden_week_def full_week_idem Let_def)

text \<open>
  C26. A one-day hours override reaches the device on its day and nowhere else: on that day the
  payload spells out all seven weekdays with the override at its weekday (when the user may log in
  then); the payload and its token stay exactly what they were on every other day, for every other
  user, for agents that do not echo a token, and on the day itself once the override is cleared,
  so the device is told to revert.
\<close>

theorem override_reaches_its_day_only:
  assumes "policy_to_payload policy = Inr p"
    and "set_day_hour_override now (pol_user_id policy) day ivs reason by d = Inr (r, d')"
    and "list_all valid_wire_hour ivs" "day_hour_override (pol_user_id policy) day d = None"
  shows "effective_policy_payload digest policy day True d' =
      Inr (overridden_week p day ivs, policy_revision digest (overridden_week p day ivs)) \<and>
    map fst (pp_allowed_hours (overridden_week p day ivs)) = WEEKDAY_TOKENS \<and>
    (pol_user_id policy2 \<noteq> pol_user_id policy \<or> day2 \<noteq> day \<or> \<not> echoes \<longrightarrow>
      effective_policy_payload digest policy2 day2 echoes d' = effective_policy_payload digest policy2 day2 echoes d) \<and>
    effective_policy_payload digest policy day True (snd (clear_day_hour_override (pol_user_id policy) day d')) =
      Inr (standing_week p, policy_revision digest (standing_week p))"
proof (intro conjI impI)
  note after = hour_override_after_set [OF assms(2)]
  obtain ov where ov: "day_hour_override (pol_user_id policy) day d' = Some ov" "hov_intervals ov = ivs"
    using after [of "pol_user_id policy" day] by (auto simp: hour_override_value_def)
  show "effective_policy_payload digest policy day True d' =
      Inr (overridden_week p day ivs, policy_revision digest (overridden_week p day ivs))"
    using effective_payload_override [OF assms(1) ov(1)] ov(2) assms(3) by simp
  show "map fst (pp_allowed_hours (overridden_week p day ivs)) = WEEKDAY_TOKENS"
    using weekday_token [of day] by (auto simp: overridden_week_def Let_def dict_set_map_keys full_week_keys)
  show "effective_policy_payload digest policy2 day2 echoes d' = effective_policy_payload digest policy2 day2 echoes d"
    if "pol_user_id policy2 \<noteq> pol_user_id policy \<or> day2 \<noteq> day \<or> \<not> echoes"
  proof (cases echoes)
    case True
    then show ?thesis using that after [of "pol_user_id policy2" day2] by (intro effective_payload_cong) auto
  next
    case False
    then show ?thesis by (simp add: effective_policy_payload_def)
  qed
  have "day_hour_override (pol_user_id policy) day (snd (clear_day_hour_override (pol_user_id policy) day d')) = None"
    using hour_override_after_clear [of "pol_user_id policy" day "pol_user_id policy" day d'] by simp
  then show "effective_policy_payload digest policy day True (snd (clear_day_hour_override (pol_user_id policy) day d')) =
      Inr (standing_week p, policy_revision digest (standing_week p))"
    by (rule effective_payload_standing [OF assms(1)])
qed

theorem override_reaches_its_day_only_witness:
  "\<exists>p r d'. policy_to_payload sample_policy_row = Inr p \<and>
    set_day_hour_override 7 1 sample_day [\<lparr>wh_hour = 15, wh_start_min = 0, wh_end_min = 60, wh_unaccounted = False\<rparr>]
      ''trip'' ''ui'' sample_db = Inr (r, d') \<and>
    effective_policy_payload (\<lambda>j. ''x'') sample_policy_row sample_day True d' =
      Inr (overridden_week p sample_day [\<lparr>wh_hour = 15, wh_start_min = 0, wh_end_min = 60, wh_unaccounted = False\<rparr>],
           ''1-x'')"
proof -
  let ?ivs = "[\<lparr>wh_hour = 15, wh_start_min = 0, wh_end_min = 60, wh_unaccounted = False\<rparr>]"
  have pol: "lockout_of ''lock'' = Inr LOCK" using lockout_of_value [of LOCK] by simp
  obtain p where p: "policy_to_payload sample_policy_row = Inr p" and v: "pp_version p = 1"
    by (simp add: policy_to_payload_def pol sample_policy_row_def valid_policy_payload_def valid_hours_def
        valid_playtime_def playtime_of_row_def list_or_def playtime_limits_ok_def list_ex_iff)
  obtain r d' where s: "set_day_hour_override 7 (pol_user_id sample_policy_row) sample_day ?ivs ''trip'' ''ui'' sample_db = Inr (r, d')"
    by (simp add: set_day_hour_override_def uuid4_def Let_def flush_def hour_override_fits_def ck_hour_overrides_def
        sample_db_def sample_usage_def empty_db_def day_hour_override_def hour_override_key_def)
  have n: "day_hour_override (pol_user_id sample_policy_row) sample_day sample_db = None"
    by (simp add: day_hour_override_def sample_db_def sample_usage_def empty_db_def)
  have ok: "list_all valid_wire_hour ?ivs" by (simp add: valid_wire_hour_def in_bounds_def)
  have one: "str_of_int 1 = ''1''" by code_simp
  have "pp_version (overridden_week p sample_day ?ivs) = 1" by (simp add: overridden_week_def Let_def v)
  then have "policy_revision (\<lambda>j. ''x'') (overridden_week p sample_day ?ivs) = ''1-x''"
    by (simp add: policy_revision_def one)
  with override_reaches_its_day_only [OF p s ok n, of "\<lambda>j. ''x''"] p s show ?thesis
    by (auto simp: sample_policy_row_def)
qed

end
