(* ===== verification/Enrollment.thy ===== *)
theory Enrollment
  imports Policy_Service
begin

section \<open>Enrollment and device authentication\<close>

text \<open>
  Models \<open>hub/timekpr_hub/services/enrollment.py\<close>, \<open>api/enroll.py\<close> and \<open>api/auth.py\<close>. An endpoint
  is a function from the database to its answer and the database after the commit; an \<open>Inl\<close> is an
  error answer or an unhandled exception and the transaction is rolled back. \<open>hash\<close> is SHA-256 of
  a token (\<open>services/tokens.py\<close>), \<open>rnd\<close> the random text of \<open>secrets\<close>, \<open>now\<close> the clock.
\<close>

definition ascii_upper :: "char \<Rightarrow> char" where
  "ascii_upper c = (let n = (of_char c :: nat) in if 97 \<le> n \<and> n \<le> 122 then char_of (n - 32) else c)"

definition code_of_random :: "string \<Rightarrow> string" where
  "code_of_random rnd = take 8 (map (\<lambda>c. if c = CHR ''-'' then CHR ''B'' else c)
     (map (\<lambda>c. if c = CHR ''_'' then CHR ''A'' else c) (map ascii_upper rnd)))"

definition create_enrollment_code :: "instant \<Rightarrow> string \<Rightarrow> db \<Rightarrow> (code_row \<times> db) result" where
  "create_enrollment_code now rnd d =
     (let row = \<lparr>cod_code = code_of_random rnd, cod_expires_at = now + 15 * 60 * usec_per_sec, cod_used_at = None,
                 cod_used_by_device_id = None, cod_created_at = now\<rparr>
      in rbind (add_code row d) (\<lambda>d. Inr (row, d)))"

subsection \<open>Provisioning a local username\<close>

definition new_user_row :: "uuid \<Rightarrow> username \<Rightarrow> instant \<Rightarrow> user_row" where
  "new_user_row i username now =
     \<lparr>usr_id = i, usr_canonical_username = username, usr_display_name = username, usr_current_policy_id = None,
      usr_accounting_mode = ''wallclock'', usr_offline_policy = ''capped'', usr_offline_grace_s = 900,
      usr_offline_cap_s = 1800, usr_gated_weekdays = [], usr_created_at = now\<rparr>"

text \<open>
  The savepoint: a unique violation means someone else created the user, and the insert alone is
  undone; any other exception leaves the request.
\<close>

definition create_or_find_user :: "instant \<Rightarrow> username \<Rightarrow> db \<Rightarrow> (user_row \<times> bool \<times> db) result" where
  "create_or_find_user now local_username d =
     (case uuid4 d of (i, d) \<Rightarrow>
        let u = new_user_row i local_username now
        in case add_user u d of
             Inr d' \<Rightarrow> Inr (u, True, d')
           | Inl IntegrityError \<Rightarrow>
               (case find_row usr_canonical_username local_username (db_users d) of
                  None \<Rightarrow> Inl NoResultFound
                | Some existing \<Rightarrow> Inr (existing, False, d))
           | Inl e \<Rightarrow> Inl e)"

definition policy_for_user :: "instant \<Rightarrow> user_row \<Rightarrow> bool \<Rightarrow> local_policy option \<Rightarrow> db \<Rightarrow> (policy_row \<times> db) result" where
  "policy_for_user now user is_new snapshot d =
     (if is_new then
        rbind (create_initial_policy now (usr_id user) snapshot d) (\<lambda>(policy, d).
          Inr (policy, set_current_policy (usr_id user) (pol_id policy) d))
      else get_or_create_policy now (usr_id user) None d)"

definition insert_alias :: "uuid \<Rightarrow> uuid \<Rightarrow> username \<Rightarrow> db \<Rightarrow> db result" where
  "insert_alias user_id device_id local_username d =
     (case uuid4 d of (i, d) \<Rightarrow>
        let r = \<lparr>al_id = i, al_user_id = user_id, al_device_id = device_id, al_local_username = local_username,
                 al_policy_push_error = None, al_policy_push_error_at = None\<rparr>
        in flush (alias_fits r) True True (d\<lparr>db_aliases := insert_ignore alias_key r (db_aliases d)\<rparr>))"

definition provision_user_alias :: "instant \<Rightarrow> uuid \<Rightarrow> username \<Rightarrow> local_policy option \<Rightarrow> db
    \<Rightarrow> (user_row \<times> policy_row \<times> bool \<times> db) result" where
  "provision_user_alias now device_id local_username snapshot d =
     rbind (create_or_find_user now local_username d) (\<lambda>(user, is_new, d).
     rbind (policy_for_user now user is_new snapshot d) (\<lambda>(policy, d).
     rbind (the_user (usr_id user) d) (\<lambda>user.
     rbind (insert_alias (usr_id user) device_id local_username d) (\<lambda>d.
       Inr (user, policy, is_new, d)))))"

subsection \<open>Device tokens\<close>

definition get_current_device :: "(string \<Rightarrow> string) \<Rightarrow> string option \<Rightarrow> db \<Rightarrow> device_row result" where
  "get_current_device hash credentials d =
     (case credentials of
        None \<Rightarrow> Inl (HTTPException 401)
      | Some token \<Rightarrow>
          (case find_row dev_token_hash (hash token) (db_devices d) of
             None \<Rightarrow> Inl (HTTPException 401)
           | Some device \<Rightarrow>
               if dev_status device = ''revoked'' then Inl (HTTPException 403) else Inr device))"

subsection \<open>POST /enroll\<close>

definition claimable :: "instant \<Rightarrow> string \<Rightarrow> code_row \<Rightarrow> bool" where
  "claimable now code r \<longleftrightarrow> cod_code r = code \<and> cod_used_at r = None \<and> now \<le> cod_expires_at r"

definition claim_code :: "instant \<Rightarrow> string \<Rightarrow> db \<Rightarrow> db result" where
  "claim_code now code d =
     (if list_ex (claimable now code) (db_codes d)
      then Inr (d\<lparr>db_codes := map (\<lambda>r. if claimable now code r then r\<lparr>cod_used_at := Some now\<rparr> else r) (db_codes d)\<rparr>)
      else case find_row cod_code code (db_codes d) of
          None \<Rightarrow> Inl (HTTPException 404)
        | Some row \<Rightarrow> if cod_used_at row \<noteq> None then Inl (HTTPException 409) else Inl (HTTPException 410))"

definition bind_device :: "(string \<Rightarrow> string) \<Rightarrow> instant \<Rightarrow> string \<Rightarrow> enroll_request \<Rightarrow> db
    \<Rightarrow> (uuid \<times> device_row option \<times> db) result" where
  "bind_device hash now raw_token req d =
     (let existing_device = find (\<lambda>r. dev_machine_id r = enr_machine_id req \<and> live r) (db_devices d)
      in case existing_device of
           Some device \<Rightarrow>
             rbind (update_device (dev_id device) (\<lambda>r. r\<lparr>dev_token_hash := hash raw_token, dev_name := enr_hostname req,
                 dev_agent_version := Some (enr_agent_version req), dev_status := ''active''\<rparr>) d) (\<lambda>d.
               Inr (dev_id device, existing_device, d))
         | None \<Rightarrow>
             (case uuid4 d of (i, d) \<Rightarrow>
                rbind (add_device \<lparr>dev_id = i, dev_name = enr_hostname req, dev_machine_id = enr_machine_id req,
                    dev_token_hash = hash raw_token, dev_status = ''active'', dev_enforcement = ''enforce'',
                    dev_agent_version = Some (enr_agent_version req), dev_clock_skew_ms = None, dev_enrolled_at = now,
                    dev_last_seen_at = None, dev_last_sync_at = None\<rparr> d) (\<lambda>d. Inr (i, None, d))))"

fun enroll_users :: "instant \<Rightarrow> uuid \<Rightarrow> (username, local_policy) dict \<Rightarrow> username list
    \<Rightarrow> username list \<times> (username, policy_payload) dict \<times> db
    \<Rightarrow> (username list \<times> (username, policy_payload) dict \<times> db) result" where
  "enroll_users now device_id snapshots [] x = Inr x"
| "enroll_users now device_id snapshots (name # rest) (new_users, policies, d) =
     rbind (provision_user_alias now device_id name (dict_get snapshots name) d) (\<lambda>(user, policy, is_new, d).
     rbind (policy_to_payload policy) (\<lambda>payload.
       enroll_users now device_id snapshots rest
         (if is_new then new_users @ [name] else new_users, dict_set policies name payload, d)))"

definition TOKEN_PREFIX :: string where
  "TOKEN_PREFIX = ''tkh_''"

definition enroll :: "(string \<Rightarrow> string) \<Rightarrow> string \<Rightarrow> int \<Rightarrow> instant \<Rightarrow> string \<Rightarrow> enroll_request \<Rightarrow> db
    \<Rightarrow> (enroll_response \<times> db) result" where
  "enroll hash hub_tz next_poll_ms now rnd req d =
     rbind (check_enroll_request req) (\<lambda>req.
     rbind (claim_code now (enr_enrollment_code req) d) (\<lambda>d.
     let raw_token = TOKEN_PREFIX @ rnd
     in rbind (bind_device hash now raw_token req d) (\<lambda>(device_id, existing_device, d).
        rbind (enroll_users now device_id (enr_local_policies req) (enr_local_users req) ([], [], d)) (\<lambda>(new_users, policies, d).
          let d = d\<lparr>db_codes := map (\<lambda>r. if cod_code r = enr_enrollment_code req
                      then r\<lparr>cod_used_by_device_id := Some device_id\<rparr> else r) (db_codes d)\<rparr>
          in Inr (\<lparr>ens_device_id = device_id, ens_device_token = raw_token, ens_hub_time = now, ens_hub_tz = hub_tz,
                   ens_next_poll_ms = next_poll_ms, ens_new_users = new_users, ens_policies = policies,
                   ens_rebound = (existing_device \<noteq> None),
                   ens_previously_enrolled_at = map_option dev_enrolled_at existing_device\<rparr>, d)))))"

end
