(* ===== verification/Sync.thy ===== *)
theory Sync
  imports Enrollment
begin

section \<open>POST /sync\<close>

text \<open>
  Models \<open>hub/timekpr_hub/api/sync.py\<close>: one call for every managed user of a device. Per user the
  hub finds or provisions the account, merges the counter, records the spans, recomputes the total
  in the user's accounting mode, the limits of the day, the week and the month, and answers with
  the policy when the device does not hold it yet. \<open>agg\<close> is range_agg, \<open>digest\<close> the digest of the
  policy's JSON text, \<open>tz\<close> the hub's timezone. Any exception rolls the whole request back.
\<close>

record hub_settings =
  hub_tz_name :: string
  hub_zone :: tz
  default_next_poll_ms :: int

text \<open>Python's \<open>round\<close> of a quotient: half to even.\<close>

definition round_half_even :: "int \<Rightarrow> int \<Rightarrow> int" where
  "round_half_even n k = (let q = n div k; r = n mod k
     in if 2 * r < k then q else if 2 * r > k then q + 1 else if even q then q else q + 1)"

definition record_check_in :: "instant \<Rightarrow> sync_request \<Rightarrow> uuid \<Rightarrow> db \<Rightarrow> db result" where
  "record_check_in now req device_id d =
     (if sreq_users req = [] then Inr d
      else update_device device_id (\<lambda>r. r\<lparr>dev_last_seen_at := Some now, dev_last_sync_at := Some now,
             dev_agent_version := Some (sreq_agent_version req),
             dev_clock_skew_ms := Some (round_half_even (now - sreq_agent_time req) 1000)\<rparr>) d)"

definition find_alias :: "uuid \<Rightarrow> username \<Rightarrow> db \<Rightarrow> alias_row option" where
  "find_alias device_id username d = find_row alias_key (device_id, username) (db_aliases d)"

text \<open>The user, the policy and the alias row of one entry of the request.\<close>

definition resolve_user :: "instant \<Rightarrow> uuid \<Rightarrow> username \<Rightarrow> db \<Rightarrow> (user_row \<times> policy_row \<times> alias_row \<times> db) result" where
  "resolve_user now device_id username d =
     (case find_alias device_id username d of
        None \<Rightarrow>
          rbind (provision_user_alias now device_id username None d) (\<lambda>(user, policy, _, d).
            case find_alias device_id username d of
              None \<Rightarrow> Inl NoResultFound
            | Some alias \<Rightarrow> Inr (user, policy, alias, d))
      | Some alias \<Rightarrow>
          rbind (the_user (al_user_id alias) d) (\<lambda>user.
          rbind (get_or_create_policy now (usr_id user) None d) (\<lambda>(policy, d).
          rbind (the_user (al_user_id alias) d) (\<lambda>user. Inr (user, policy, alias, d)))))"

definition note_push_error :: "instant \<Rightarrow> string option \<Rightarrow> uuid \<Rightarrow> db \<Rightarrow> db result" where
  "note_push_error now err alias_id d =
     update_alias alias_id (\<lambda>a. a\<lparr>al_policy_push_error := err,
       al_policy_push_error_at := (if str_or err '''' \<noteq> '''' then Some now else None)\<rparr>) d"

fun record_spans :: "uuid \<Rightarrow> uuid \<Rightarrow> date \<Rightarrow> active_span list \<Rightarrow> db \<Rightarrow> db result" where
  "record_spans user_id device_id day [] d = Inr d"
| "record_spans user_id device_id day (s # ss) d =
     (if as_end s \<le> as_start s then record_spans user_id device_id day ss d
      else rbind (insert_activity_interval user_id device_id day (as_start s) (as_end s) (as_end s) d)
             (record_spans user_id device_id day ss))"

definition record_usage :: "instant \<Rightarrow> uuid \<Rightarrow> uuid \<Rightarrow> date \<Rightarrow> sync_user_request \<Rightarrow> db \<Rightarrow> db result" where
  "record_usage now user_id device_id day q d =
     rbind (upsert_usage_counter now user_id device_id day (sq_cumulative_spent_s q)
              (Some (activity_state_value (so_activity_state (sq_observed q)))) d)
       (record_spans user_id device_id day (sq_active_spans q))"

definition spent_today :: "range_agg \<Rightarrow> user_row \<Rightarrow> date \<Rightarrow> db \<Rightarrow> seconds" where
  "spent_today agg user day d =
     (if usr_accounting_mode user = ''wallclock'' then global_spent_wallclock agg (usr_id user) day d
      else global_spent_parallel (usr_id user) day d)"

definition window_spend :: "range_agg \<Rightarrow> user_row \<Rightarrow> date \<Rightarrow> date \<Rightarrow> db \<Rightarrow> seconds" where
  "window_spend agg user start_day end_day d =
     (if usr_accounting_mode user = ''wallclock'' then global_spent_wallclock_window agg (usr_id user) start_day end_day d
      else global_spent_parallel_window (usr_id user) start_day end_day d)"

text \<open>The answer for one user, computed from the tables after this tick's contribution.\<close>

definition answer_for :: "range_agg \<Rightarrow> digest \<Rightarrow> device_row \<Rightarrow> date \<Rightarrow> sync_user_request \<Rightarrow> user_row \<Rightarrow> policy_row \<Rightarrow> db
    \<Rightarrow> sync_user_response result" where
  "answer_for agg digest device day q user policy d =
     rbind (effective_daily_limit policy user day d) (\<lambda>limit_today.
     rbind (days_in_iso_week day) (\<lambda>week.
     rbind (month_bounds day) (\<lambda>(month_start, month_end).
     let week_limit = max 0 (pol_weekly_limit_s policy - window_spend agg user (hd week) (last week) d);
         month_limit = max 0 (pol_monthly_limit_s policy - window_spend agg user month_start month_end d);
         enforcement = (if dev_enforcement device = ''observe'' then OBSERVE else ENFORCE);
         echoes = (sq_policy_revision_applied q \<noteq> None)
     in rbind (effective_policy_payload digest policy day echoes d) (\<lambda>(payload, revision).
        rbind (offline_policy_of (usr_offline_policy user)) (\<lambda>offline.
          Inr \<lparr>sr_username = sq_username q, sr_global_spent_s = spent_today agg user day d,
               sr_effective_limit_today_s = limit_today, sr_effective_week_limit_s = week_limit,
               sr_effective_month_limit_s = month_limit, sr_enforcement = enforcement,
               sr_policy_version = pol_version policy, sr_policy_revision = revision,
               sr_policy =
                 (if echoes then (if sq_policy_revision_applied q \<noteq> Some revision then Some payload else None)
                  else (if sq_policy_version_applied q \<noteq> pol_version policy then Some payload else None)),
               sr_offline_policy = offline, sr_offline_grace_s = usr_offline_grace_s user,
               sr_offline_cap_s = usr_offline_cap_s user\<rparr>)))))"

definition sync_user :: "range_agg \<Rightarrow> digest \<Rightarrow> instant \<Rightarrow> date \<Rightarrow> device_row \<Rightarrow> sync_user_request \<Rightarrow> db
    \<Rightarrow> (sync_user_response \<times> db) result" where
  "sync_user agg digest now day device q d =
     rbind (resolve_user now (dev_id device) (sq_username q) d) (\<lambda>(user, policy, alias, d).
     rbind (note_push_error now (sq_policy_push_error q) (al_id alias) d) (\<lambda>d.
     rbind (record_usage now (usr_id user) (dev_id device) day q d) (\<lambda>d.
     rbind (answer_for agg digest device day q user policy d) (\<lambda>resp. Inr (resp, d)))))"

fun sync_users :: "range_agg \<Rightarrow> digest \<Rightarrow> instant \<Rightarrow> date \<Rightarrow> device_row \<Rightarrow> sync_user_request list
    \<Rightarrow> sync_user_response list \<times> db \<Rightarrow> (sync_user_response list \<times> db) result" where
  "sync_users agg digest now day device [] x = Inr x"
| "sync_users agg digest now day device (q # qs) (resps, d) =
     rbind (sync_user agg digest now day device q d) (\<lambda>(resp, d).
       sync_users agg digest now day device qs (resps @ [resp], d))"

definition sync_endpoint :: "range_agg \<Rightarrow> digest \<Rightarrow> (string \<Rightarrow> string) \<Rightarrow> hub_settings \<Rightarrow> instant \<Rightarrow> string option
    \<Rightarrow> sync_request \<Rightarrow> db \<Rightarrow> (sync_response \<times> db) result" where
  "sync_endpoint agg digest hash cfg now credentials req d =
     rbind (get_current_device hash credentials d) (\<lambda>device.
     rbind (canonical_stamp (Aware now) (hub_zone cfg)) (\<lambda>stamp.
     rbind (record_check_in now req (dev_id device) d) (\<lambda>d.
     rbind (sync_users agg digest now (st_day stamp) device (sreq_users req) ([], d)) (\<lambda>(resps, d).
       Inr (\<lparr>sres_hub_time = now, sres_hub_tz = hub_tz_name cfg, sres_day = day_str stamp,
             sres_iso_week = iso_week_str stamp, sres_month = month_str stamp,
             sres_next_poll_ms = default_next_poll_ms cfg, sres_users = resps\<rparr>, d)))))"

end
