(* ===== verification/Hub_Invariant.thy ===== *)
theory Hub_Invariant
  imports Sync
begin

section \<open>The invariant of the hub's database\<close>

text \<open>
  What every committed state of the hub satisfies: the unique keys and checks of the tables, the
  references of the aliases, policies and sessions, a servable payload in every stored policy, and
  the current policy of a user being the newest. One predicate per group of tables, over the tables
  it reads; one lemma per write; then the services and endpoints by composition.
\<close>

definition served :: "policy_row \<Rightarrow> bool" where
  "served p \<longleftrightarrow> (case policy_to_payload p of Inl _ \<Rightarrow> False | Inr _ \<Rightarrow> True)"

definition users_ok :: "uuid \<Rightarrow> user_row list \<Rightarrow> bool" where
  "users_ok n us \<longleftrightarrow> unique_on usr_id us \<and> unique_on usr_canonical_username us \<and>
     list_all (\<lambda>u. usr_id u < n \<and> ck_users u) us"

definition devices_ok :: "uuid \<Rightarrow> device_row list \<Rightarrow> bool" where
  "devices_ok n ds \<longleftrightarrow> unique_on dev_id ds \<and> unique_on dev_token_hash ds \<and> machine_index ds \<and>
     list_all (\<lambda>v. dev_id v < n \<and> ck_devices v) ds"

definition policies_ok :: "uuid \<Rightarrow> uuid set \<Rightarrow> policy_row list \<Rightarrow> bool" where
  "policies_ok n uids ps \<longleftrightarrow> unique_on pol_id ps \<and> unique_on policy_key ps \<and>
     list_all (\<lambda>p. pol_id p < n \<and> pol_user_id p \<in> uids \<and> served p) ps"

definition aliases_ok :: "uuid \<Rightarrow> uuid set \<Rightarrow> uuid set \<Rightarrow> alias_row list \<Rightarrow> bool" where
  "aliases_ok n uids dids als \<longleftrightarrow> unique_on al_id als \<and> unique_on alias_key als \<and>
     list_all (\<lambda>a. al_id a < n \<and> al_user_id a \<in> uids \<and> al_device_id a \<in> dids) als"

definition usage_ok :: "counter_row list \<Rightarrow> interval_row list \<Rightarrow> bool" where
  "usage_ok cs is \<longleftrightarrow> unique_on counter_key cs \<and> unique_on interval_key is \<and>
     list_all (\<lambda>r. ai_start r < ai_end r) is"

definition days_ok :: "day_override_row list \<Rightarrow> hour_override_row list \<Rightarrow> release_row list \<Rightarrow> bool" where
  "days_ok ovs hovs rels \<longleftrightarrow> unique_on day_override_key ovs \<and> unique_on hour_override_key hovs \<and>
     unique_on release_key rels \<and> list_all ck_day_overrides ovs \<and>
     list_all (\<lambda>r. ck_hour_overrides r \<and> list_all valid_wire_hour (hov_intervals r)) hovs"

definition admins_ok :: "uuid \<Rightarrow> admin_row list \<Rightarrow> session_row list \<Rightarrow> bool" where
  "admins_ok n as ss \<longleftrightarrow> unique_on adm_id as \<and> unique_on adm_email as \<and> unique_on ses_token_hash ss \<and>
     list_all (\<lambda>a. adm_id a < n) as \<and> list_all (\<lambda>s. ses_admin_id s \<in> adm_id ` set as) ss"

abbreviation uids :: "db \<Rightarrow> uuid set" where
  "uids d \<equiv> usr_id ` set (db_users d)"

abbreviation dids :: "db \<Rightarrow> uuid set" where
  "dids d \<equiv> dev_id ` set (db_devices d)"

definition tables_ok :: "db \<Rightarrow> bool" where
  "tables_ok d \<longleftrightarrow> users_ok (db_next_id d) (db_users d) \<and> devices_ok (db_next_id d) (db_devices d) \<and>
     policies_ok (db_next_id d) (uids d) (db_policies d) \<and>
     aliases_ok (db_next_id d) (uids d) (dids d) (db_aliases d) \<and> usage_ok (db_counters d) (db_intervals d) \<and>
     days_ok (db_day_overrides d) (db_hour_overrides d) (db_releases d) \<and>
     admins_ok (db_next_id d) (db_admins d) (db_sessions d) \<and>
     unique_on cod_code (db_codes d) \<and> unique_on inv_token (db_invites d)"

definition current_ok :: "db \<Rightarrow> bool" where
  "current_ok d \<longleftrightarrow> list_all (\<lambda>u. policy_current u (db_policies d)) (db_users d)"

definition hub_ok :: "db \<Rightarrow> bool" where
  "hub_ok d \<longleftrightarrow> tables_ok d \<and> current_ok d"

lemmas table_defs = users_ok_def devices_ok_def policies_ok_def aliases_ok_def usage_ok_def days_ok_def admins_ok_def

lemma empty_db_ok: "hub_ok empty_db"
  by (simp add: hub_ok_def tables_ok_def current_ok_def table_defs empty_db_def unique_on_def machine_index_def)

subsection \<open>Fresh keys\<close>

lemma ok_mono:
  "users_ok n us \<Longrightarrow> n \<le> m \<Longrightarrow> users_ok m us"
  "devices_ok n ds \<Longrightarrow> n \<le> m \<Longrightarrow> devices_ok m ds"
  "policies_ok n us' ps \<Longrightarrow> n \<le> m \<Longrightarrow> policies_ok m us' ps"
  "aliases_ok n us' ds' als \<Longrightarrow> n \<le> m \<Longrightarrow> aliases_ok m us' ds' als"
  "admins_ok n as ss \<Longrightarrow> n \<le> m \<Longrightarrow> admins_ok m as ss"
  by (auto simp: table_defs list_all_iff)

lemma next_id_ok [intro]: "hub_ok d \<Longrightarrow> hub_ok (d\<lparr>db_next_id := db_next_id d + 1\<rparr>)"
  by (auto simp: hub_ok_def tables_ok_def current_ok_def intro: ok_mono)

lemma hub_ok_fresh: "hub_ok d \<Longrightarrow> fresh_ids d"
  by (simp add: hub_ok_def tables_ok_def table_defs fresh_ids_def list_all_iff)

lemma unique_snoc: "unique_on key rows \<Longrightarrow> key r \<notin> key ` set rows \<Longrightarrow> unique_on key (rows @ [r])"
  by (auto simp: unique_on_def)

lemma unique_fresh:
  "unique_on key rows \<Longrightarrow> list_all (\<lambda>r. key r < n) rows \<Longrightarrow> key r = (n :: nat) \<Longrightarrow> unique_on key (rows @ [r])"
  by (rule unique_snoc) (auto simp: list_all_iff)

lemma map_row_keys: "(\<And>r. key (f r) = key r) \<Longrightarrow> map key (map_row k' k f rows) = map key rows"
  by (induction rows) (auto simp: map_row_def)

lemma flush_Inr: "flush fits check unique x = Inr y \<longleftrightarrow> fits \<and> check \<and> unique \<and> y = x"
  by (auto simp: flush_def)

subsection \<open>Users and policies\<close>

lemma policy_current_other:
  assumes "policy_current u ps" "pol_user_id p \<noteq> usr_id u"
  shows "policy_current u (ps @ [p])"
  using assms by (auto simp: policy_current_def split: option.splits)

lemma add_user_ok:
  assumes ok: "hub_ok d" and new: "usr_id u = db_next_id d" "usr_current_policy_id u = None"
    and add: "add_user u (d\<lparr>db_next_id := db_next_id d + 1\<rparr>) = Inr d'"
  shows "hub_ok d'" and "d' = d\<lparr>db_next_id := db_next_id d + 1, db_users := db_users d @ [u]\<rparr>"
proof -
  show d': "d' = d\<lparr>db_next_id := db_next_id d + 1, db_users := db_users d @ [u]\<rparr>"
    using add by (simp add: add_user_def flush_Inr)
  have u: "ck_users u" "usr_canonical_username u \<notin> usr_canonical_username ` set (db_users d)"
    using add by (simp_all add: add_user_def flush_Inr)
  have t: "tables_ok (d\<lparr>db_next_id := db_next_id d + 1\<rparr>)" and c: "current_ok d"
    using next_id_ok [OF ok] ok by (simp_all add: hub_ok_def)
  have tu: "users_ok (db_next_id d) (db_users d)" using ok by (simp add: hub_ok_def tables_ok_def)
  have "users_ok (db_next_id d + 1) (db_users d @ [u])"
    using tu u new(1) by (auto simp: users_ok_def list_all_iff intro!: unique_snoc)
  moreover have "policies_ok (db_next_id d + 1) (insert (usr_id u) (uids d)) (db_policies d)"
    "aliases_ok (db_next_id d + 1) (insert (usr_id u) (uids d)) (dids d) (db_aliases d)"
    using t by (auto simp: tables_ok_def policies_ok_def aliases_ok_def list_all_iff)
  ultimately have "tables_ok d'" using t by (simp add: d' tables_ok_def)
  moreover have "policy_current u (db_policies d)"
  proof -
    have "usr_id u \<notin> uids d" using tu new(1) by (auto simp: users_ok_def list_all_iff)
    moreover have "\<forall>p \<in> set (db_policies d). pol_user_id p \<in> uids d"
      using ok by (auto simp: hub_ok_def tables_ok_def policies_ok_def list_all_iff)
    ultimately have "\<forall>p \<in> set (db_policies d). pol_user_id p \<noteq> usr_id u" by metis
    then show ?thesis using new(2) by (simp add: policy_current_def list_all_iff)
  qed
  ultimately show "hub_ok d'" using c by (simp add: hub_ok_def current_ok_def d')
qed

definition append_policy :: "uuid \<Rightarrow> policy_row \<Rightarrow> db \<Rightarrow> db" where
  "append_policy uid p d = set_current_policy uid (pol_id p)
     (d\<lparr>db_next_id := db_next_id d + 1, db_policies := db_policies d @ [p]\<rparr>)"

lemma append_policy_rows:
  "db_policies (append_policy uid p d) = db_policies d @ [p]" "db_next_id (append_policy uid p d) = db_next_id d + 1"
  "db_users (append_policy uid p d) = map_row usr_id uid (\<lambda>u. u\<lparr>usr_current_policy_id := Some (pol_id p)\<rparr>) (db_users d)"
  "db_aliases (append_policy uid p d) = db_aliases d" "db_devices (append_policy uid p d) = db_devices d"
  by (simp_all add: append_policy_def set_current_policy_def)

lemma map_set_current:
  "map usr_id (map_row usr_id uid (\<lambda>u. u\<lparr>usr_current_policy_id := c\<rparr>) us) = map usr_id us"
  "map usr_canonical_username (map_row usr_id uid (\<lambda>u. u\<lparr>usr_current_policy_id := c\<rparr>) us) = map usr_canonical_username us"
  "list_all ck_users (map_row usr_id uid (\<lambda>u. u\<lparr>usr_current_policy_id := c\<rparr>) us) = list_all ck_users us"
  by (induction us) (auto simp: map_row_def ck_users_def)

lemma append_policy_ok:
  assumes ok: "hub_ok d" and p: "pol_id p = db_next_id d" "pol_user_id p = uid" "served p"
    and u: "uid \<in> uids d" and newer: "\<And>q. q \<in> set (db_policies d) \<Longrightarrow> pol_user_id q = uid \<Longrightarrow> pol_version q < pol_version p"
  shows "hub_ok (append_policy uid p d)"
proof -
  let ?us = "map_row usr_id uid (\<lambda>u. u\<lparr>usr_current_policy_id := Some (pol_id p)\<rparr>) (db_users d)"
  have t: "tables_ok (d\<lparr>db_next_id := db_next_id d + 1\<rparr>)" and c: "current_ok d" and t0: "tables_ok d"
    using next_id_ok [OF ok] ok by (simp_all add: hub_ok_def)
  have ids: "usr_id ` set ?us = uids d"
    using map_set_current(1) [of uid "Some (pol_id p)" "db_users d"] by (metis set_map)
  have "unique_on usr_id ?us" "unique_on usr_canonical_username ?us"
    using t by (simp_all add: unique_on_def map_set_current tables_ok_def users_ok_def)
  moreover have "list_all (\<lambda>u. usr_id u < db_next_id d + 1 \<and> ck_users u) ?us"
    using t by (auto simp: tables_ok_def users_ok_def list_all_iff map_row_def ck_users_def)
  ultimately have "users_ok (db_next_id d + 1) ?us" by (simp add: users_ok_def)
  moreover have "policies_ok (db_next_id d + 1) (uids d) (db_policies d @ [p])"
  proof -
    have "policy_key p \<notin> policy_key ` set (db_policies d)"
      using newer p(2) by (force simp: policy_key_def)
    then show ?thesis
      using t t0 p u by (auto simp: tables_ok_def policies_ok_def list_all_iff intro!: unique_snoc)
  qed
  ultimately have "tables_ok (append_policy uid p d)"
    using t by (simp add: tables_ok_def append_policy_def set_current_policy_def ids)
  moreover have "current_ok (append_policy uid p d)"
  proof -
    have none: "find_row pol_id (pol_id p) (db_policies d) = None"
      using t0 p(1) by (auto simp: find_row_None_iff tables_ok_def policies_ok_def list_all_iff)
    have "policy_current (if usr_id u = uid then u\<lparr>usr_current_policy_id := Some (pol_id p)\<rparr> else u) (db_policies d @ [p])"
      if "u \<in> set (db_users d)" for u
    proof (cases "usr_id u = uid")
      case True
      then show ?thesis
        using none newer p(2) by (auto simp: policy_current_def list_all_iff less_imp_le)
    next
      case False
      have "policy_current u (db_policies d)" using c that by (auto simp: current_ok_def list_all_iff)
      then show ?thesis using False p(2) by (simp add: policy_current_other)
    qed
    then show ?thesis unfolding current_ok_def append_policy_rows list_all_iff map_row_def set_map by blast
  qed
  ultimately show ?thesis by (simp add: hub_ok_def)
qed

lemma create_initial_policy_Inr:
  assumes "create_initial_policy now uid snap d = Inr (p, d')"
  shows "d' = d\<lparr>db_next_id := db_next_id d + 1, db_policies := db_policies d @ [p]\<rparr>"
    and "pol_id p = db_next_id d" "pol_user_id p = uid" "pol_version p = 1"
    and "pol_daily_limits p = (case snap of None \<Rightarrow> DEFAULT_DAILY_LIMITS_S | Some s \<Rightarrow> lp_daily_limits_s s)"
  using assms by (auto simp: create_initial_policy_def uuid4_def Let_def rbind_Inr_iff add_policy_def flush_Inr)

lemma initial_policy_served:
  assumes "create_initial_policy now uid snap d = Inr (p, d')" "pred_option (\<lambda>s. length (lp_daily_limits_s s) = 7) snap"
  shows "served p"
proof -
  have lock: "lockout_of ''lock'' = Inr LOCK" using lockout_of_value [of LOCK] by simp
  have "length (pol_daily_limits p) = 7"
    using create_initial_policy_Inr(5) [OF assms(1)] assms(2)
    by (cases snap) (simp_all add: DEFAULT_DAILY_LIMITS_S_def)
  then show ?thesis
    using assms(1) by (auto simp: create_initial_policy_def uuid4_def Let_def rbind_Inr_iff served_def policy_to_payload_def
        lock checked_def valid_policy_payload_def valid_hours_def valid_playtime_def playtime_of_row_def list_or_def
        playtime_limits_ok_def list_ex_iff)
qed

lemma create_initial_is_append:
  assumes "create_initial_policy now uid snap d = Inr (p, d')"
  shows "set_current_policy uid (pol_id p) d' = append_policy uid p d"
  using create_initial_policy_Inr(1) [OF assms] by (simp add: append_policy_def)

lemma current_or_none:
  assumes "hub_ok d" "find_row usr_id uid (db_users d) = Some u"
  shows "case get_current_policy u d of None \<Rightarrow> \<forall>q \<in> set (db_policies d). pol_user_id q \<noteq> uid
    | Some p \<Rightarrow> p \<in> set (db_policies d) \<and> pol_user_id p = uid \<and> served p"
proof -
  have u: "usr_id u = uid" "u \<in> set (db_users d)" using assms(2) by (auto dest: find_row_key find_row_mem)
  then have "policy_current u (db_policies d)" using assms(1) by (auto simp: hub_ok_def current_ok_def list_all_iff)
  moreover have "\<forall>p \<in> set (db_policies d). served p"
    using assms(1) by (auto simp: hub_ok_def tables_ok_def policies_ok_def list_all_iff)
  ultimately show ?thesis
    using u by (auto simp: policy_current_def get_current_policy_def list_all_iff dest: find_row_mem split: option.splits)
qed

text \<open>What every service that may create a policy does to the database.\<close>

definition with_policy :: "uuid \<Rightarrow> policy_row \<Rightarrow> db \<Rightarrow> db \<Rightarrow> bool" where
  "with_policy uid p d d' \<longleftrightarrow> hub_ok d' \<and> p \<in> set (db_policies d') \<and> pol_user_id p = uid \<and> served p \<and>
     uids d' = uids d \<and> db_devices d' = db_devices d \<and> db_aliases d' = db_aliases d \<and>
     db_counters d' = db_counters d \<and> db_intervals d' = db_intervals d \<and> db_codes d' = db_codes d \<and>
     db_next_id d \<le> db_next_id d'"

lemma append_with_policy:
  assumes "hub_ok (append_policy uid p d)" "pol_user_id p = uid" "served p"
  shows "with_policy uid p d (append_policy uid p d)"
proof -
  have "uids (append_policy uid p d) = uids d"
    using map_set_current(1) [of uid "Some (pol_id p)" "db_users d"] by (metis append_policy_rows(3) set_map)
  then show ?thesis using assms by (simp add: with_policy_def append_policy_def set_current_policy_def)
qed

lemma get_or_create_policy_ok:
  assumes "hub_ok d" "get_or_create_policy now uid snap d = Inr (p, d')"
    and "pred_option (\<lambda>s. length (lp_daily_limits_s s) = 7) snap"
  shows "with_policy uid p d d'"
proof -
  obtain u where u: "find_row usr_id uid (db_users d) = Some u"
    using assms(2) by (auto simp: get_or_create_policy_def the_user_def split: option.splits)
  then have uid: "usr_id u = uid" "uid \<in> uids d" by (auto dest: find_row_key find_row_mem)
  show ?thesis
  proof (cases "get_current_policy u d")
    case (Some q)
    then show ?thesis
      using assms(1,2) current_or_none [OF assms(1) u] u
      by (simp add: get_or_create_policy_def the_user_def with_policy_def)
  next
    case None
    then obtain d1 where d1: "create_initial_policy now uid snap d = Inr (p, d1)"
      and d': "d' = set_current_policy uid (pol_id p) d1"
      using assms(2) u uid by (auto simp: get_or_create_policy_def the_user_def rbind_Inr_iff)
    note new = create_initial_policy_Inr [OF d1]
    have "hub_ok (append_policy uid p d)"
      using append_policy_ok [OF assms(1) new(2,3) initial_policy_served [OF d1 assms(3)] uid(2)]
        current_or_none [OF assms(1) u] None by simp
    then show ?thesis
      unfolding d' create_initial_is_append [OF d1]
      using append_with_policy new(3) initial_policy_served [OF d1 assms(3)] by blast
  qed
qed

lemma update_policy_ok:
  assumes "hub_ok d" "update_policy now uid upd by d = Inr (p, d')" "valid_policy_update upd"
  shows "with_policy uid p d d'"
proof -
  obtain u where u: "find_row usr_id uid (db_users d) = Some u"
    using assms(2) by (auto simp: update_policy_def the_user_def split: option.splits)
  then have uid: "usr_id u = uid" "uid \<in> uids d" "u \<in> set (db_users d)" by (auto dest: find_row_key find_row_mem)
  have p: "p = row_of_update (db_next_id d) uid (next_version u d) now by upd" and d': "d' = append_policy uid p d"
    using assms(2) u uid by (auto simp: update_policy_def the_user_def uuid4_def Let_def next_version_def
        rbind_Inr_iff add_policy_def flush_Inr append_policy_def)
  have f: "pol_id p = db_next_id d" "pol_user_id p = uid" "pol_version p = next_version u d"
    by (simp_all add: p row_of_update_def Let_def)
  have "served p" using payload_roundtrip [OF assms(3)] by (simp add: served_def p)
  moreover have "policy_current u (db_policies d)"
    using assms(1) uid(3) by (auto simp: hub_ok_def current_ok_def list_all_iff)
  ultimately show ?thesis
    unfolding d' using next_version_newer [of u d] f uid
    by (intro append_with_policy append_policy_ok [OF assms(1)]) auto
qed

subsection \<open>Provisioning\<close>

lemma hub_policy_user: "hub_ok d \<Longrightarrow> p \<in> set (db_policies d) \<Longrightarrow> pol_user_id p \<in> uids d"
  by (simp add: hub_ok_def tables_ok_def policies_ok_def list_all_iff)

lemma hub_user_lt: "hub_ok d \<Longrightarrow> i \<in> uids d \<Longrightarrow> i < db_next_id d"
  by (auto simp: hub_ok_def tables_ok_def users_ok_def list_all_iff)

lemma create_or_find_user_cases:
  assumes "hub_ok d" "create_or_find_user now name d = Inr (u, new, d')"
  shows "hub_ok d' \<and> u \<in> set (db_users d') \<and> usr_canonical_username u = name \<and>
    (new \<longrightarrow> usr_id u = db_next_id d) \<and>
    (\<exists>us. d' = d\<lparr>db_next_id := db_next_id d + 1, db_users := us\<rparr> \<and> set (db_users d) \<subseteq> set us)"
proof -
  let ?d = "d\<lparr>db_next_id := db_next_id d + 1\<rparr>" and ?u = "new_user_row (db_next_id d) name now"
  have r: "usr_id ?u = db_next_id d" "usr_current_policy_id ?u = None" "usr_canonical_username ?u = name"
    by (simp_all add: new_user_row_def)
  have "add_user ?u ?d = Inr d' \<and> u = ?u \<and> new \<or>
      find_row usr_canonical_username name (db_users d) = Some u \<and> \<not> new \<and> d' = ?d"
    using assms(2) by (auto simp: create_or_find_user_def uuid4_def Let_def split: sum.splits exc.splits option.splits)
  then consider "add_user ?u ?d = Inr d'" "u = ?u" | "find_row usr_canonical_username name (db_users d) = Some u" "\<not> new" "d' = ?d"
    by blast
  then show ?thesis
  proof cases
    case 1
    note a = add_user_ok [OF assms(1) r(1,2) 1(1)]
    have "u \<in> set (db_users d')" using 1(2) by (simp add: a(2))
    moreover have "\<exists>us. d' = d\<lparr>db_next_id := db_next_id d + 1, db_users := us\<rparr> \<and> set (db_users d) \<subseteq> set us"
      using a(2) by (intro exI [of _ "db_users d @ [?u]"]) auto
    ultimately show ?thesis using a(1) 1(2) r by simp
  next
    case 2
    have "\<exists>us. d' = d\<lparr>db_next_id := db_next_id d + 1, db_users := us\<rparr> \<and> set (db_users d) \<subseteq> set us"
      using 2(3) by (intro exI [of _ "db_users d"]) auto
    then show ?thesis
      using next_id_ok [OF assms(1)] 2 by (auto dest: find_row_mem find_row_key)
  qed
qed

lemma create_or_find_user_ok:
  assumes "hub_ok d" "create_or_find_user now name d = Inr (u, new, d')"
  shows "hub_ok d'" "u \<in> set (db_users d')" "uids d \<subseteq> uids d'"
    "db_devices d' = db_devices d" "db_aliases d' = db_aliases d"
    "db_counters d' = db_counters d" "db_intervals d' = db_intervals d" "db_policies d' = db_policies d"
    "db_codes d' = db_codes d" "usr_canonical_username u = name" "new \<Longrightarrow> usr_id u \<notin> pol_user_id ` set (db_policies d)"
proof -
  note c = create_or_find_user_cases [OF assms]
  then obtain us where d': "d' = d\<lparr>db_next_id := db_next_id d + 1, db_users := us\<rparr>" "set (db_users d) \<subseteq> set us" by blast
  show "hub_ok d'" "u \<in> set (db_users d')" "usr_canonical_username u = name" using c by simp_all
  show "uids d \<subseteq> uids d'" using d' by auto
  show "db_devices d' = db_devices d" "db_aliases d' = db_aliases d"
    "db_counters d' = db_counters d" "db_intervals d' = db_intervals d" "db_policies d' = db_policies d"
    "db_codes d' = db_codes d"
    by (simp_all add: d'(1))
  show "usr_id u \<notin> pol_user_id ` set (db_policies d)" if new
    using c that hub_policy_user [OF assms(1)] hub_user_lt [OF assms(1)] by (metis imageE less_irrefl)
qed

lemma policy_for_user_ok:
  assumes "hub_ok d" "u \<in> set (db_users d)" "policy_for_user now u new snap d = Inr (p, d')"
    and "pred_option (\<lambda>s. length (lp_daily_limits_s s) = 7) snap"
    and "new \<Longrightarrow> usr_id u \<notin> pol_user_id ` set (db_policies d)"
  shows "with_policy (usr_id u) p d d'"
proof (cases new)
  case True
  obtain d1 where d1: "create_initial_policy now (usr_id u) snap d = Inr (p, d1)"
    and d': "d' = set_current_policy (usr_id u) (pol_id p) d1"
    using True assms(3) by (auto simp: policy_for_user_def rbind_Inr_iff)
  note row = create_initial_policy_Inr [OF d1] and s = initial_policy_served [OF d1 assms(4)]
  have "pol_user_id q \<noteq> usr_id u" if "q \<in> set (db_policies d)" for q
    using assms(5) [OF True] that by (metis imageI)
  then have "hub_ok (append_policy (usr_id u) p d)"
    using assms(2) by (intro append_policy_ok [OF assms(1) row(2,3) s]) auto
  then show ?thesis
    unfolding d' create_initial_is_append [OF d1] using append_with_policy row(3) s by blast
next
  case False
  then show ?thesis using get_or_create_policy_ok [OF assms(1)] assms(3) by (simp add: policy_for_user_def)
qed

lemma insert_alias_ok:
  assumes "hub_ok d" "uid \<in> uids d" "did \<in> dids d" "insert_alias uid did name d = Inr d'"
  shows "hub_ok d'" "find_alias did name d' \<noteq> None"
    "db_users d' = db_users d" "db_devices d' = db_devices d" "db_policies d' = db_policies d"
    "db_counters d' = db_counters d" "db_intervals d' = db_intervals d" "db_codes d' = db_codes d"
    "set (db_aliases d) \<subseteq> set (db_aliases d')"
proof -
  let ?r = "\<lparr>al_id = db_next_id d, al_user_id = uid, al_device_id = did, al_local_username = name,
     al_policy_push_error = None, al_policy_push_error_at = None\<rparr>"
  have d': "d' = d\<lparr>db_next_id := db_next_id d + 1, db_aliases := insert_ignore alias_key ?r (db_aliases d)\<rparr>"
    using assms(4) by (simp add: insert_alias_def uuid4_def Let_def flush_Inr)
  have t: "hub_ok (d\<lparr>db_next_id := db_next_id d + 1\<rparr>)" by (rule next_id_ok [OF assms(1)])
  have al: "aliases_ok (db_next_id d) (uids d) (dids d) (db_aliases d)"
    using assms(1) by (simp add: hub_ok_def tables_ok_def)
  have "aliases_ok (db_next_id d + 1) (uids d) (dids d) (insert_ignore alias_key ?r (db_aliases d))"
  proof (cases "alias_key ?r \<in> alias_key ` set (db_aliases d)")
    case True
    then show ?thesis using ok_mono(4) [OF al] by (simp add: insert_ignore_def)
  next
    case False
    have "unique_on al_id (db_aliases d @ [?r])" "unique_on alias_key (db_aliases d @ [?r])"
      using al False by (auto simp: aliases_ok_def list_all_iff intro!: unique_snoc)
    moreover have "insert_ignore alias_key ?r (db_aliases d) = db_aliases d @ [?r]"
      using False by (simp add: insert_ignore_def)
    ultimately show ?thesis using al assms(2,3) by (auto simp: aliases_ok_def list_all_iff)
  qed
  then show "hub_ok d'" using t by (simp add: d' hub_ok_def tables_ok_def current_ok_def)
  show "find_alias did name d' \<noteq> None"
    using find_row_insert_ignore [of alias_key "(did, name)" ?r "db_aliases d"]
    by (simp add: d' find_alias_def alias_key_def)
  show "set (db_aliases d) \<subseteq> set (db_aliases d')" by (simp add: d' set_insert_ignore_mono)
  show "db_users d' = db_users d" "db_devices d' = db_devices d" "db_policies d' = db_policies d"
    "db_counters d' = db_counters d" "db_intervals d' = db_intervals d" "db_codes d' = db_codes d"
    by (simp_all add: d')
qed

text \<open>What provisioning a username on a device does to the database.\<close>

definition provisioned :: "uuid \<Rightarrow> user_row \<Rightarrow> policy_row \<Rightarrow> db \<Rightarrow> db \<Rightarrow> bool" where
  "provisioned did u p d d' \<longleftrightarrow> hub_ok d' \<and> u \<in> set (db_users d') \<and> p \<in> set (db_policies d') \<and>
     pol_user_id p = usr_id u \<and> served p \<and> uids d \<subseteq> uids d' \<and> db_devices d' = db_devices d \<and>
     db_counters d' = db_counters d \<and> db_intervals d' = db_intervals d \<and> db_codes d' = db_codes d \<and>
     set (db_aliases d) \<subseteq> set (db_aliases d')"

lemma the_user_mem: "the_user i d = Inr u \<Longrightarrow> u \<in> set (db_users d) \<and> usr_id u = i"
  by (auto simp: the_user_def dest: find_row_mem find_row_key split: option.splits)

lemma provision_ok:
  assumes "hub_ok d" "did \<in> dids d" "provision_user_alias now did name snap d = Inr (u, p, new, d')"
    and "pred_option (\<lambda>s. length (lp_daily_limits_s s) = 7) snap"
  shows "provisioned did u p d d'" "find_alias did name d' \<noteq> None"
proof -
  obtain u0 d1 d2 where 1: "create_or_find_user now name d = Inr (u0, new, d1)"
    and 2: "policy_for_user now u0 new snap d1 = Inr (p, d2)" and 3: "the_user (usr_id u0) d2 = Inr u"
    and 4: "insert_alias (usr_id u) did name d2 = Inr d'"
    using assms(3) by (auto simp: provision_user_alias_def rbind_Inr_iff)
  note c = create_or_find_user_ok [OF assms(1) 1]
  have w: "with_policy (usr_id u0) p d1 d2"
    using policy_for_user_ok [OF c(1,2) 2 assms(4)] c(8,11) by simp
  note u = the_user_mem [OF 3]
  have did: "did \<in> dids d2" using assms(2) w c(4) by (simp add: with_policy_def)
  have uid: "usr_id u \<in> uids d2" using u by (metis imageI)
  note a = insert_alias_ok [OF _ uid did 4]
  show "provisioned did u p d d'" "find_alias did name d' \<noteq> None"
    using w a u c by (auto simp: provisioned_def with_policy_def)
qed

subsection \<open>Devices, aliases and usage\<close>

lemma update_device_ok:
  assumes "hub_ok d" "update_device i f d = Inr d'" "\<And>r. dev_id (f r) = dev_id r"
  shows "hub_ok d'" "d' = d\<lparr>db_devices := map_row dev_id i f (db_devices d)\<rparr>" "dids d' = dids d"
proof -
  let ?ds = "map_row dev_id i f (db_devices d)"
  show d': "d' = d\<lparr>db_devices := ?ds\<rparr>"
    using assms(2) by (simp add: update_device_def Let_def flush_Inr)
  have keys: "map dev_id ?ds = map dev_id (db_devices d)" by (rule map_row_keys) (rule assms(3))
  show ids: "dids d' = dids d" using keys by (simp add: d') (metis set_map)
  have "list_all ck_devices ?ds" "machine_index ?ds" "unique_on dev_token_hash ?ds"
    using assms(2) by (simp_all add: update_device_def Let_def flush_Inr)
  moreover have "unique_on dev_id ?ds"
    using assms(1) keys by (simp add: unique_on_def hub_ok_def tables_ok_def devices_ok_def)
  moreover have "list_all (\<lambda>v. dev_id v < db_next_id d) ?ds"
    using assms(1,3) by (auto simp: hub_ok_def tables_ok_def devices_ok_def list_all_iff map_row_def)
  ultimately have "devices_ok (db_next_id d) ?ds" by (simp add: devices_ok_def list_all_iff)
  then show "hub_ok d'" using assms(1) ids by (simp add: hub_ok_def tables_ok_def current_ok_def d')
qed

lemma add_device_ok:
  assumes "hub_ok d" "add_device r (d\<lparr>db_next_id := db_next_id d + 1\<rparr>) = Inr d'" "dev_id r = db_next_id d"
  shows "hub_ok d'" "d' = d\<lparr>db_next_id := db_next_id d + 1, db_devices := db_devices d @ [r]\<rparr>"
proof -
  show d': "d' = d\<lparr>db_next_id := db_next_id d + 1, db_devices := db_devices d @ [r]\<rparr>"
    using assms(2) by (simp add: add_device_def Let_def flush_Inr)
  have t: "hub_ok (d\<lparr>db_next_id := db_next_id d + 1\<rparr>)" by (rule next_id_ok [OF assms(1)])
  have ds: "devices_ok (db_next_id d) (db_devices d)" using assms(1) by (simp add: hub_ok_def tables_ok_def)
  have "unique_on dev_id (db_devices d @ [r])"
    using ds assms(3) by (auto simp: devices_ok_def list_all_iff intro!: unique_snoc)
  moreover have "ck_devices r" "machine_index (db_devices d @ [r])" "unique_on dev_token_hash (db_devices d @ [r])"
    using assms(2) by (simp_all add: add_device_def Let_def flush_Inr)
  ultimately have "devices_ok (db_next_id d + 1) (db_devices d @ [r])"
    using ds assms(3) by (auto simp: devices_ok_def list_all_iff)
  moreover have "aliases_ok (db_next_id d + 1) (uids d) (insert (dev_id r) (dids d)) (db_aliases d)"
    using t by (auto simp: hub_ok_def tables_ok_def aliases_ok_def list_all_iff)
  ultimately show "hub_ok d'" using t by (simp add: hub_ok_def tables_ok_def current_ok_def d')
qed

lemma update_alias_ok:
  assumes "hub_ok d" "update_alias i f d = Inr d'"
    and "\<And>r. al_id (f r) = al_id r \<and> al_user_id (f r) = al_user_id r \<and> al_device_id (f r) = al_device_id r \<and>
      al_local_username (f r) = al_local_username r"
  shows "hub_ok d'" "d' = d\<lparr>db_aliases := map_row al_id i f (db_aliases d)\<rparr>"
proof -
  let ?als = "map_row al_id i f (db_aliases d)"
  show d': "d' = d\<lparr>db_aliases := ?als\<rparr>"
    using assms(2) by (simp add: update_alias_def Let_def flush_Inr)
  have "map al_id ?als = map al_id (db_aliases d)" "map alias_key ?als = map alias_key (db_aliases d)"
    using assms(3) by (auto simp: alias_key_def map_row_def)
  moreover have al: "aliases_ok (db_next_id d) (uids d) (dids d) (db_aliases d)"
    using assms(1) by (simp add: hub_ok_def tables_ok_def)
  moreover have "list_all (\<lambda>a. al_id a < db_next_id d \<and> al_user_id a \<in> uids d \<and> al_device_id a \<in> dids d) ?als"
    using al assms(3) by (auto simp: aliases_ok_def list_all_iff map_row_def)
  ultimately have "aliases_ok (db_next_id d) (uids d) (dids d) ?als"
    by (simp add: aliases_ok_def unique_on_def)
  then show "hub_ok d'" using assms(1) by (simp add: hub_ok_def tables_ok_def current_ok_def d')
qed

lemma upsert_counter_ok:
  assumes "hub_ok d" "upsert_usage_counter now u v day n a d = Inr d'"
  shows "hub_ok d'" "\<exists>cs. d' = d\<lparr>db_counters := cs\<rparr>"
proof -
  let ?r = "\<lparr>uc_user_id = u, uc_device_id = v, uc_day = day, uc_spent_seconds = n, uc_activity_state = a, uc_updated_at = now\<rparr>"
  have d': "d' = d\<lparr>db_counters := upsert counter_key merge_counter ?r (db_counters d)\<rparr>"
    using assms(2) by (simp add: upsert_usage_counter_def Let_def flush_Inr)
  have "unique_on counter_key (upsert counter_key merge_counter ?r (db_counters d))"
    using assms(1) by (intro unique_upsert) (simp_all add: hub_ok_def tables_ok_def usage_ok_def)
  then show "hub_ok d'" "\<exists>cs. d' = d\<lparr>db_counters := cs\<rparr>"
    using assms(1) by (auto simp: d' hub_ok_def tables_ok_def current_ok_def usage_ok_def)
qed

lemma insert_interval_ok:
  assumes "hub_ok d" "insert_activity_interval u v day start stop w d = Inr d'" "start < stop"
  shows "hub_ok d'" "\<exists>is. d' = d\<lparr>db_next_id := db_next_id d + 1, db_intervals := is\<rparr>"
proof -
  let ?r = "\<lparr>ai_id = db_next_id d, ai_user_id = u, ai_device_id = v, ai_day = day, ai_start = start, ai_end = stop,
     ai_window_end_ts = w\<rparr>"
  have d': "d' = d\<lparr>db_next_id := db_next_id d + 1, db_intervals := insert_ignore interval_key ?r (db_intervals d)\<rparr>"
    using assms(2) by (auto simp: insert_activity_interval_def uuid4_def split: if_splits)
  have t: "hub_ok (d\<lparr>db_next_id := db_next_id d + 1\<rparr>)" by (rule next_id_ok [OF assms(1)])
  have us: "usage_ok (db_counters d) (db_intervals d)" using assms(1) by (simp add: hub_ok_def tables_ok_def)
  have "unique_on interval_key (insert_ignore interval_key ?r (db_intervals d))"
    using us by (intro unique_insert_ignore) (simp add: usage_ok_def)
  moreover have "list_all (\<lambda>r. ai_start r < ai_end r) (insert_ignore interval_key ?r (db_intervals d))"
    using us assms(3) by (auto simp: usage_ok_def insert_ignore_def)
  ultimately show "hub_ok d'" "\<exists>is. d' = d\<lparr>db_next_id := db_next_id d + 1, db_intervals := is\<rparr>"
    using t us by (auto simp: d' hub_ok_def tables_ok_def current_ok_def usage_ok_def)
qed

text \<open>The part of the database that recording usage leaves alone.\<close>

definition usage_frame :: "db \<Rightarrow> db \<Rightarrow> bool" where
  "usage_frame d d' \<longleftrightarrow> (\<exists>n cs ivs. d' = d\<lparr>db_next_id := n, db_counters := cs, db_intervals := ivs\<rparr>)"

lemma usage_frameI: "usage_frame d (d\<lparr>db_next_id := n, db_counters := cs, db_intervals := ivs\<rparr>)"
  unfolding usage_frame_def by blast

lemma usage_frame_refl: "usage_frame d d"
  using usage_frameI [where d = d and n = "db_next_id d" and cs = "db_counters d" and ivs = "db_intervals d"] by simp

lemma usage_frame_counters: "usage_frame d (d\<lparr>db_counters := cs\<rparr>)"
  using usage_frameI [where d = d and n = "db_next_id d" and cs = cs and ivs = "db_intervals d"] by simp

lemma usage_frame_intervals: "usage_frame d (d\<lparr>db_next_id := n, db_intervals := ivs\<rparr>)"
  using usage_frameI [where d = d and n = n and cs = "db_counters d" and ivs = ivs] by simp

lemma usage_frame_trans:
  assumes "usage_frame d d1" "usage_frame d1 d2"
  shows "usage_frame d d2"
proof -
  obtain n cs ivs where 1: "d1 = d\<lparr>db_next_id := n, db_counters := cs, db_intervals := ivs\<rparr>"
    using assms(1) unfolding usage_frame_def by blast
  obtain n' cs' ivs' where 2: "d2 = d1\<lparr>db_next_id := n', db_counters := cs', db_intervals := ivs'\<rparr>"
    using assms(2) unfolding usage_frame_def by blast
  have "d2 = d\<lparr>db_next_id := n', db_counters := cs', db_intervals := ivs'\<rparr>" by (simp add: 1 2)
  then show ?thesis by (simp add: usage_frameI)
qed

lemma record_spans_ok:
  assumes "hub_ok d" "record_spans u v day ss d = Inr d'"
  shows "hub_ok d' \<and> usage_frame d d' \<and> db_counters d' = db_counters d"
  using assms
proof (induction u v day ss d rule: record_spans.induct)
  case (1 u v day d)
  then show ?case by (simp add: usage_frame_refl)
next
  case (2 u v day s ss d)
  show ?case
  proof (cases "as_end s \<le> as_start s")
    case True
    then show ?thesis using 2 by simp
  next
    case False
    then obtain d1 where d1: "insert_activity_interval u v day (as_start s) (as_end s) (as_end s) d = Inr d1"
      and rest: "record_spans u v day ss d1 = Inr d'"
      using "2.prems"(2) by (auto simp: rbind_Inr_iff)
    have ok: "hub_ok d1" and f: "usage_frame d d1" "db_counters d1 = db_counters d"
      using insert_interval_ok [OF "2.prems"(1) d1] False by (auto simp: usage_frame_intervals)
    from "2.IH"(2) [OF False ok rest] f show ?thesis by (metis usage_frame_trans)
  qed
qed

lemma record_usage_ok:
  assumes "hub_ok d" "record_usage now u v day q d = Inr d'"
  shows "hub_ok d' \<and> usage_frame d d'"
proof -
  obtain d1 where 1: "upsert_usage_counter now u v day (sq_cumulative_spent_s q)
      (Some (activity_state_value (so_activity_state (sq_observed q)))) d = Inr d1"
    and 2: "record_spans u v day (sq_active_spans q) d1 = Inr d'"
    using assms(2) by (auto simp: record_usage_def rbind_Inr_iff)
  have ok: "hub_ok d1" and f: "usage_frame d d1"
    using upsert_counter_ok [OF assms(1) 1] by (auto simp: usage_frame_counters)
  from record_spans_ok [OF ok 2] f show ?thesis by (metis usage_frame_trans)
qed

subsection \<open>The endpoints of a device\<close>

lemma resolve_user_ok:
  assumes "hub_ok d" "did \<in> dids d" "resolve_user now did name d = Inr (u, p, al, d')"
  shows "provisioned did u p d d'"
proof (cases "find_alias did name d")
  case None
  then obtain new where "provision_user_alias now did name None d = Inr (u, p, new, d')"
    using assms(3) by (auto simp: resolve_user_def rbind_Inr_iff split: option.splits)
  from provision_ok(1) [OF assms(1,2) this] show ?thesis by simp
next
  case (Some a)
  then obtain u0 where u0: "the_user (al_user_id a) d = Inr u0"
    and p: "get_or_create_policy now (usr_id u0) None d = Inr (p, d')" and u: "the_user (al_user_id a) d' = Inr u"
    using assms(3) by (auto simp: resolve_user_def rbind_Inr_iff)
  have "with_policy (usr_id u0) p d d'" by (rule get_or_create_policy_ok [OF assms(1) p]) simp
  with the_user_mem [OF u0] the_user_mem [OF u] show ?thesis
    by (auto simp: provisioned_def with_policy_def)
qed

lemma note_push_error_ok:
  assumes "hub_ok d" "note_push_error now err a d = Inr d'"
  shows "hub_ok d'" "\<exists>als. d' = d\<lparr>db_aliases := als\<rparr>"
  using update_alias_ok [OF assms(1) assms(2) [unfolded note_push_error_def]] by auto

lemma sync_user_ok:
  assumes "hub_ok d" "dev_id device \<in> dids d" "sync_user agg digest now day device q d = Inr (resp, d')"
  shows "hub_ok d' \<and> db_devices d' = db_devices d"
proof -
  obtain u p al d1 d2 where 1: "resolve_user now (dev_id device) (sq_username q) d = Inr (u, p, al, d1)"
    and 2: "note_push_error now (sq_policy_push_error q) (al_id al) d1 = Inr d2"
    and 3: "record_usage now (usr_id u) (dev_id device) day q d2 = Inr d'"
    using assms(3) by (auto simp: sync_user_def rbind_Inr_iff)
  note r = resolve_user_ok [OF assms(1,2) 1, unfolded provisioned_def]
  note e = note_push_error_ok [OF conjunct1 [OF r] 2]
  note w = record_usage_ok [OF e(1) 3]
  from r e w show ?thesis by (auto simp: usage_frame_def)
qed

lemma sync_users_ok:
  assumes "hub_ok d" "dev_id device \<in> dids d" "sync_users agg digest now day device qs (rs, d) = Inr (rs', d')"
  shows "hub_ok d'"
  using assms
proof (induction qs arbitrary: rs d)
  case (Cons q qs)
  then obtain r d1 where 1: "sync_user agg digest now day device q d = Inr (r, d1)"
    and 2: "sync_users agg digest now day device qs (rs @ [r], d1) = Inr (rs', d')"
    by (auto simp: rbind_Inr_iff)
  note s = sync_user_ok [OF Cons.prems(1,2) 1]
  from Cons.IH [OF _ _ 2] s Cons.prems(2) show ?case by simp
qed simp

lemma current_device_mem: "get_current_device hash c d = Inr v \<Longrightarrow> v \<in> set (db_devices d) \<and> dev_status v \<noteq> ''revoked''"
  by (auto simp: get_current_device_def dest: find_row_mem split: option.splits if_splits)

lemma record_check_in_ok:
  assumes "hub_ok d" "record_check_in now req i d = Inr d'"
  shows "hub_ok d'" "dids d' = dids d"
proof -
  have "hub_ok d' \<and> dids d' = dids d"
  proof (cases "sreq_users req = []")
    case True
    then show ?thesis using assms by (simp add: record_check_in_def)
  next
    case False
    then have "update_device i (\<lambda>r. r\<lparr>dev_last_seen_at := Some now, dev_last_sync_at := Some now,
        dev_agent_version := Some (sreq_agent_version req),
        dev_clock_skew_ms := Some (round_half_even (now - sreq_agent_time req) 1000)\<rparr>) d = Inr d'"
      using assms(2) by (simp add: record_check_in_def)
    from update_device_ok [OF assms(1) this] show ?thesis by simp
  qed
  then show "hub_ok d'" "dids d' = dids d" by simp_all
qed

lemma sync_endpoint_Inr:
  assumes "sync_endpoint agg digest hash cfg now c req d = Inr (resp, d')"
  shows "\<exists>v stamp d1 rs. get_current_device hash c d = Inr v \<and> canonical_stamp (Aware now) (hub_zone cfg) = Inr stamp \<and>
    record_check_in now req (dev_id v) d = Inr d1 \<and>
    sync_users agg digest now (st_day stamp) v (sreq_users req) ([], d1) = Inr (rs, d') \<and> sres_users resp = rs"
  using assms by (auto simp: sync_endpoint_def rbind_Inr_iff)

lemma sync_endpoint_ok:
  assumes "hub_ok d" "sync_endpoint agg digest hash cfg now c req d = Inr (resp, d')"
  shows "hub_ok d'"
proof -
  obtain v stamp d1 rs where v: "get_current_device hash c d = Inr v"
    and "canonical_stamp (Aware now) (hub_zone cfg) = Inr stamp"
    and 1: "record_check_in now req (dev_id v) d = Inr d1"
    and 2: "sync_users agg digest now (st_day stamp) v (sreq_users req) ([], d1) = Inr (rs, d')"
    using sync_endpoint_Inr [OF assms(2)] by blast
  note c = record_check_in_ok [OF assms(1) 1]
  have "dev_id v \<in> dids d1" using current_device_mem [OF v] c(2) by (metis imageI)
  from sync_users_ok [OF c(1) this 2] show ?thesis .
qed

lemma codes_ok [intro]: "hub_ok d \<Longrightarrow> unique_on cod_code cs \<Longrightarrow> hub_ok (d\<lparr>db_codes := cs\<rparr>)"
  by (simp add: hub_ok_def tables_ok_def current_ok_def)

lemma hub_codes: "hub_ok d \<Longrightarrow> unique_on cod_code (db_codes d)"
  by (simp add: hub_ok_def tables_ok_def)

lemma unique_map_same: "unique_on key rows \<Longrightarrow> (\<And>r. key (f r) = key r) \<Longrightarrow> unique_on key (map f rows)"
  by (simp add: unique_on_def comp_def)

lemma claim_code_Inr: "claim_code now code d = Inr d' \<Longrightarrow> hub_ok d \<Longrightarrow> hub_ok d'"
  by (auto simp: claim_code_def intro!: codes_ok unique_map_same dest: hub_codes split: if_splits option.splits)

lemma bind_device_ok:
  assumes "hub_ok d" "bind_device hash now tok req d = Inr (i, old, d')"
  shows "hub_ok d'" "i \<in> dids d'"
proof -
  have "hub_ok d' \<and> i \<in> dids d'"
  proof (cases "find (\<lambda>r. dev_machine_id r = enr_machine_id req \<and> live r) (db_devices d)")
    case None
    let ?v = "\<lparr>dev_id = db_next_id d, dev_name = enr_hostname req, dev_machine_id = enr_machine_id req,
      dev_token_hash = hash tok, dev_status = ''active'', dev_enforcement = ''enforce'',
      dev_agent_version = Some (enr_agent_version req), dev_clock_skew_ms = None, dev_enrolled_at = now,
      dev_last_seen_at = None, dev_last_sync_at = None\<rparr>"
    have v: "add_device ?v (d\<lparr>db_next_id := db_next_id d + 1\<rparr>) = Inr d'" and i: "i = db_next_id d"
      using assms(2) None by (auto simp: bind_device_def uuid4_def rbind_Inr_iff Let_def)
    from add_device_ok [OF assms(1) v] show ?thesis by (simp add: i)
  next
    case (Some v)
    have v: "v \<in> set (db_devices d)" using Some by (auto simp: find_Some_iff)
    have "i = dev_id v \<and> update_device (dev_id v) (\<lambda>r. r\<lparr>dev_token_hash := hash tok, dev_name := enr_hostname req,
        dev_agent_version := Some (enr_agent_version req), dev_status := ''active''\<rparr>) d = Inr d'"
      using assms(2) Some by (auto simp: bind_device_def rbind_Inr_iff Let_def)
    then have i: "i = dev_id v" and u: "update_device (dev_id v) (\<lambda>r. r\<lparr>dev_token_hash := hash tok,
        dev_name := enr_hostname req, dev_agent_version := Some (enr_agent_version req), dev_status := ''active''\<rparr>) d = Inr d'"
      by simp_all
    from update_device_ok [OF assms(1) u] v i show ?thesis by simp
  qed
  then show "hub_ok d'" "i \<in> dids d'" by simp_all
qed

lemma enroll_users_ok:
  assumes "hub_ok d" "did \<in> dids d" "enroll_users now did snaps names (ns, ps, d) = Inr (ns', ps', d')"
    and "list_all (\<lambda>(_, lp). length (lp_daily_limits_s lp) = 7) snaps"
  shows "hub_ok d'"
  using assms(1-3)
proof (induction names arbitrary: ns ps d)
  case (Cons n names)
  then obtain u p new d1 ns1 ps1 where 1: "provision_user_alias now did n (dict_get snaps n) d = Inr (u, p, new, d1)"
    and 2: "enroll_users now did snaps names (ns1, ps1, d1) = Inr (ns', ps', d')"
    by (auto simp: rbind_Inr_iff)
  have "pred_option (\<lambda>s. length (lp_daily_limits_s s) = 7) (dict_get snaps n)"
    using assms(4) by (cases "dict_get snaps n") (auto simp: dict_get_def list_all_iff dest!: map_of_SomeD)
  from provision_ok(1) [OF Cons.prems(1,2) 1 this] Cons.prems(2) have "hub_ok d1" "did \<in> dids d1"
    by (simp_all add: provisioned_def)
  from Cons.IH [OF this 2] show ?case .
qed simp

lemma enroll_Inr:
  assumes "enroll hash tz poll now rnd req d = Inr (resp, d')"
  shows "check_enroll_request req = Inr req \<and> (\<exists>d1 old d2 d3.
    claim_code now (enr_enrollment_code req) d = Inr d1 \<and>
    bind_device hash now (TOKEN_PREFIX @ rnd) req d1 = Inr (ens_device_id resp, old, d2) \<and>
    enroll_users now (ens_device_id resp) (enr_local_policies req) (enr_local_users req) ([], [], d2)
      = Inr (ens_new_users resp, ens_policies resp, d3) \<and>
    d' = d3\<lparr>db_codes := map (\<lambda>r. if cod_code r = enr_enrollment_code req
           then r\<lparr>cod_used_by_device_id := Some (ens_device_id resp)\<rparr> else r) (db_codes d3)\<rparr> \<and>
    ens_device_token resp = TOKEN_PREFIX @ rnd \<and> ens_rebound resp = (old \<noteq> None))"
proof -
  have req: "r = req" if "check_enroll_request req = Inr r" for r
    using that by (auto simp: check_enroll_request_def checked_def split: if_splits)
  have "check_enroll_request req = Inr req" using assms req by (auto simp: enroll_def rbind_Inr_iff)
  then show ?thesis using assms by (auto simp: enroll_def Let_def rbind_Inr_iff)
qed

lemma enroll_ok:
  assumes "hub_ok d" "enroll hash tz poll now rnd req d = Inr (resp, d')"
  shows "hub_ok d'"
proof -
  from enroll_Inr [OF assms(2)] obtain d1 old d2 d3 where r: "check_enroll_request req = Inr req"
    and 1: "claim_code now (enr_enrollment_code req) d = Inr d1"
    and 2: "bind_device hash now (TOKEN_PREFIX @ rnd) req d1 = Inr (ens_device_id resp, old, d2)"
    and 3: "enroll_users now (ens_device_id resp) (enr_local_policies req) (enr_local_users req) ([], [], d2)
      = Inr (ens_new_users resp, ens_policies resp, d3)"
    and d': "d' = d3\<lparr>db_codes := map (\<lambda>r. if cod_code r = enr_enrollment_code req
           then r\<lparr>cod_used_by_device_id := Some (ens_device_id resp)\<rparr> else r) (db_codes d3)\<rparr>"
    by blast
  have req: "list_all (\<lambda>(_, lp). length (lp_daily_limits_s lp) = 7) (enr_local_policies req)"
    using r by (auto simp: check_enroll_request_def checked_def split: if_splits)
  have "hub_ok d1" by (rule claim_code_Inr [OF 1 assms(1)])
  from bind_device_ok [OF this 2] have "hub_ok d2" "ens_device_id resp \<in> dids d2" .
  from enroll_users_ok [OF this 3 req] have "hub_ok d3" .
  then show ?thesis unfolding d' by (intro codes_ok unique_map_same hub_codes) auto
qed

end
