(* ===== verification/Sync_Facts.thy ===== *)
theory Sync_Facts
  imports Hub_Invariant
begin

section \<open>What a sync does and answers\<close>

text \<open>
  Properties of the loop body of \<open>POST /sync\<close>: the user it resolves to is settled in the database
  it leaves, the answer is a function of the tables after this tick's contribution, and processing
  the same entry again is idempotent. The totals read the counters only through \<open>view\<close>.
\<close>

subsection \<open>The counters as the totals see them\<close>

definition view :: "counter_row \<Rightarrow> (uuid \<times> uuid \<times> date) \<times> seconds" where
  "view r = (counter_key r, uc_spent_seconds r)"

lemma group_by_map:
  "group_by (\<lambda>r. key (f r)) (\<lambda>rs. val (map f rs)) rows = group_by key val (map f rows)"
  by (simp add: group_by_def filter_map comp_def)

lemma view_filter:
  "map view (filter (\<lambda>r. Q (counter_key r)) cs) = filter (\<lambda>x. Q (fst x)) (map view cs)"
  by (simp add: filter_map comp_def view_def)

lemma spent_view:
  "map uc_spent_seconds (filter (\<lambda>r. Q (counter_key r)) cs) = map snd (filter (\<lambda>x. Q (fst x)) (map view cs))"
  by (simp add: filter_map comp_def view_def)

definition same_usage :: "db \<Rightarrow> db \<Rightarrow> bool" where
  "same_usage d d' \<longleftrightarrow> map view (db_counters d') = map view (db_counters d) \<and> db_intervals d' = db_intervals d"

lemma same_usage_spent:
  assumes "same_usage d d'"
  shows "map uc_spent_seconds (filter (\<lambda>r. Q (counter_key r)) (db_counters d')) =
    map uc_spent_seconds (filter (\<lambda>r. Q (counter_key r)) (db_counters d))"
  using assms by (simp only: spent_view same_usage_def)

lemma same_usage_groups:
  assumes "same_usage d d'"
  shows "group_by uc_day (\<lambda>rs. g (map uc_spent_seconds rs)) (filter (\<lambda>r. Q (counter_key r)) (db_counters d')) =
    group_by uc_day (\<lambda>rs. g (map uc_spent_seconds rs)) (filter (\<lambda>r. Q (counter_key r)) (db_counters d))"
proof -
  have "group_by uc_day (\<lambda>rs. g (map uc_spent_seconds rs)) rows =
      group_by (\<lambda>x. snd (snd (fst x))) (\<lambda>xs. g (map snd xs)) (map view rows)" for rows
    using group_by_map [of "\<lambda>x. snd (snd (fst x))" view "\<lambda>xs. g (map snd xs)" rows]
    by (simp add: view_def counter_key_def comp_def)
  then show ?thesis using assms by (simp only: view_filter same_usage_def)
qed

lemma same_usage_totals:
  assumes "same_usage d d'"
  shows "global_spent_parallel u day d' = global_spent_parallel u day d"
    and "global_spent_wallclock agg u day d' = global_spent_wallclock agg u day d"
    and "global_spent_parallel_window u a b d' = global_spent_parallel_window u a b d"
    and "global_spent_wallclock_window agg u a b d' = global_spent_wallclock_window agg u a b d"
proof -
  have ints: "db_intervals d' = db_intervals d" using assms by (simp add: same_usage_def)
  have on: "map uc_spent_seconds (counters_on u day d') = map uc_spent_seconds (counters_on u day d)"
    using same_usage_spent [OF assms, of "\<lambda>k. fst k = u \<and> snd (snd k) = day"]
    by (simp add: counters_on_def counter_key_def)
  show "global_spent_parallel u day d' = global_spent_parallel u day d"
    "global_spent_wallclock agg u day d' = global_spent_wallclock agg u day d"
    by (simp_all add: global_spent_parallel_def global_spent_wallclock_def on intervals_on_def ints)
  show "global_spent_parallel_window u a b d' = global_spent_parallel_window u a b d"
    using same_usage_spent [OF assms, of "\<lambda>k. fst k = u \<and> a \<le> snd (snd k) \<and> snd (snd k) \<le> b"]
    by (simp add: global_spent_parallel_window_def counter_key_def)
  show "global_spent_wallclock_window agg u a b d' = global_spent_wallclock_window agg u a b d"
    using same_usage_groups [OF assms, of sql_max "\<lambda>k. fst k = u \<and> a \<le> snd (snd k) \<and> snd (snd k) \<le> b"]
    by (simp add: global_spent_wallclock_window_def global_spent_wallclock_history_def counter_key_def ints)
qed

text \<open>The answer reads the usage and the exceptions of the day, nothing else of the database.\<close>

lemma answer_for_cong:
  assumes "same_usage d d'" "db_day_overrides d' = db_day_overrides d" "db_hour_overrides d' = db_hour_overrides d"
    and "db_releases d' = db_releases d" "db_grants d' = db_grants d"
  shows "answer_for agg digest v day q u p d' = answer_for agg digest v day q u p d"
proof -
  have 1: "effective_daily_limit p u day d' = effective_daily_limit p u day d"
  proof -
    have "day_override i day d' = day_override i day d" "grants_total i day d' = grants_total i day d"
      "is_gate_released i day d' = is_gate_released i day d" for i
      using assms(2-5) by (simp_all add: day_override_def grants_total_def is_gate_released_def)
    then show ?thesis by (simp only: effective_daily_limit_def)
  qed
  have 2: "effective_policy_payload digest p day b d' = effective_policy_payload digest p day b d" for b
  proof -
    have "day_hour_override i day d' = day_hour_override i day d" for i
      using assms(3) by (simp add: day_hour_override_def)
    then show ?thesis by (simp only: effective_policy_payload_def)
  qed
  have 3: "window_spend agg u a b d' = window_spend agg u a b d" "spent_today agg u day d' = spent_today agg u day d" for a b
    using same_usage_totals [OF assms(1)] by (simp_all add: window_spend_def spent_today_def)
  show ?thesis by (simp only: answer_for_def 1 2 3)
qed

subsection \<open>The steps of one entry\<close>

lemma sync_user_Inr:
  "sync_user agg digest now day device q d = Inr (r, d') \<longleftrightarrow>
    (\<exists>u p al d1 d2. resolve_user now (dev_id device) (sq_username q) d = Inr (u, p, al, d1) \<and>
      note_push_error now (sq_policy_push_error q) (al_id al) d1 = Inr d2 \<and>
      record_usage now (usr_id u) (dev_id device) day q d2 = Inr d' \<and>
      answer_for agg digest device day q u p d' = Inr r)"
  by (auto simp: sync_user_def rbind_Inr_iff)

text \<open>A username of a device that is known, with its user and the user's policy.\<close>

definition settled :: "uuid \<Rightarrow> username \<Rightarrow> user_row \<Rightarrow> policy_row \<Rightarrow> alias_row \<Rightarrow> db \<Rightarrow> bool" where
  "settled did name u p a d \<longleftrightarrow> find_alias did name d = Some a \<and> al_user_id a = usr_id u \<and>
     the_user (usr_id u) d = Inr u \<and> get_current_policy u d = Some p"

lemma settled_resolves:
  assumes "settled did name u p a d"
  shows "resolve_user now did name d = Inr (u, p, a, d)"
  using assms by (simp add: settled_def resolve_user_def get_or_create_policy_def)

lemma the_user_Inr: "the_user i d = Inr u \<longleftrightarrow> find_row usr_id i (db_users d) = Some u"
  by (auto simp: the_user_def split: option.splits)

lemma set_current_user:
  assumes "the_user i (set_current_policy i pid d) = Inr u"
  shows "usr_id u = i" "usr_current_policy_id u = Some pid"
proof -
  have f: "find_row usr_id i (map_row usr_id i (\<lambda>u. u\<lparr>usr_current_policy_id := Some pid\<rparr>) us) =
      map_option (\<lambda>u. u\<lparr>usr_current_policy_id := Some pid\<rparr>) (find_row usr_id i us)" for us
    by (induction us) (auto simp: map_row_def)
  then show "usr_id u = i" "usr_current_policy_id u = Some pid"
    using assms f [of "db_users d"] by (auto simp: the_user_Inr set_current_policy_def dest: find_row_key)
qed

lemma read_cong:
  "db_policies d' = db_policies d \<Longrightarrow> get_current_policy u d' = get_current_policy u d"
  "db_users d' = db_users d \<Longrightarrow> the_user i d' = the_user i d"
  by (cases "usr_current_policy_id u") (simp_all add: get_current_policy_def the_user_def)

lemma created_current:
  assumes "hub_ok d" "create_initial_policy now i snap d = Inr (p, d')"
    and "the_user i (set_current_policy i (pol_id p) d') = Inr u"
  shows "get_current_policy u (set_current_policy i (pol_id p) d') = Some p"
proof -
  have "list_all (\<lambda>q. pol_id q < db_next_id d) (db_policies d)"
    using assms(1) by (simp add: hub_ok_def tables_ok_def policies_ok_def list_all_iff)
  then have "find_row pol_id (pol_id p) (db_policies d) = None"
    using create_initial_policy_Inr(2) [OF assms(2)] by (auto simp: find_row_None_iff list_all_iff)
  then show ?thesis
    using create_initial_policy_Inr(1) [OF assms(2)] set_current_user(2) [OF assms(3)]
    by (simp add: get_current_policy_def set_current_policy_def)
qed

lemma get_or_create_current:
  assumes "hub_ok d" "get_or_create_policy now i snap d = Inr (p, d')" "the_user i d' = Inr u"
  shows "get_current_policy u d' = Some p"
proof -
  obtain u0 where u0: "the_user i d = Inr u0" using assms(2) by (auto simp: get_or_create_policy_def rbind_Inr_iff)
  then have id: "usr_id u0 = i" by (auto simp: the_user_Inr dest: find_row_key)
  show ?thesis
  proof (cases "get_current_policy u0 d")
    case (Some q)
    then show ?thesis using assms(2,3) u0 by (simp add: get_or_create_policy_def)
  next
    case None
    then obtain d1 where "create_initial_policy now i snap d = Inr (p, d1)" and "d' = set_current_policy i (pol_id p) d1"
      using assms(2) u0 id by (auto simp: get_or_create_policy_def rbind_Inr_iff)
    then show ?thesis using created_current [OF assms(1)] assms(3) by simp
  qed
qed

lemma policy_for_user_current:
  assumes "hub_ok d" "policy_for_user now u new snap d = Inr (p, d')" "the_user (usr_id u) d' = Inr u'"
  shows "get_current_policy u' d' = Some p"
proof (cases new)
  case True
  then obtain d1 where "create_initial_policy now (usr_id u) snap d = Inr (p, d1)"
    and "d' = set_current_policy (usr_id u) (pol_id p) d1"
    using assms(2) by (auto simp: policy_for_user_def rbind_Inr_iff)
  then show ?thesis using created_current [OF assms(1)] assms(3) by simp
next
  case False
  then show ?thesis using get_or_create_current [OF assms(1)] assms(2,3) by (simp add: policy_for_user_def)
qed

lemma resolve_settles:
  assumes "hub_ok d" "resolve_user now did name d = Inr (u, p, a, d')"
  shows "settled did name u p a d'"
proof (cases "find_alias did name d")
  case None
  then obtain new where pr: "provision_user_alias now did name None d = Inr (u, p, new, d')"
    and a: "find_alias did name d' = Some a"
    using assms(2) by (auto simp: resolve_user_def rbind_Inr_iff split: option.splits)
  obtain u0 d1 d2 where 1: "create_or_find_user now name d = Inr (u0, new, d1)"
    and 2: "policy_for_user now u0 new None d1 = Inr (p, d2)" and 3: "the_user (usr_id u0) d2 = Inr u"
    and 4: "insert_alias (usr_id u) did name d2 = Inr d'"
    using pr by (auto simp: provision_user_alias_def rbind_Inr_iff)
  note c = create_or_find_user_ok [OF assms(1) 1]
  have w: "with_policy (usr_id u0) p d1 d2" by (rule policy_for_user_ok [OF c(1,2) 2]) (use c(8,11) in auto)
  have cur: "get_current_policy u d2 = Some p" by (rule policy_for_user_current [OF c(1) 2 3])
  have id: "usr_id u = usr_id u0" using 3 by (auto simp: the_user_Inr dest: find_row_key)
  let ?r = "\<lparr>al_id = db_next_id d2, al_user_id = usr_id u, al_device_id = did, al_local_username = name,
     al_policy_push_error = None, al_policy_push_error_at = None\<rparr>"
  have d': "d' = d2\<lparr>db_next_id := db_next_id d2 + 1, db_aliases := insert_ignore alias_key ?r (db_aliases d2)\<rparr>"
    using 4 by (simp add: insert_alias_def uuid4_def Let_def flush_Inr)
  have "find_row alias_key (did, name) (db_aliases d2) = None"
    using None w c(5) by (simp add: find_alias_def with_policy_def)
  then have "find_alias did name d' = Some ?r"
    using find_row_insert_ignore [of alias_key "(did, name)" ?r "db_aliases d2"]
    by (simp add: find_alias_def d' alias_key_def)
  moreover have "db_policies d' = db_policies d2" "db_users d' = db_users d2" by (simp_all add: d')
  ultimately show ?thesis using a 3 cur id read_cong [of d' d2] by (simp add: settled_def)
next
  case (Some a')
  then obtain u0 where a: "a' = a" and u0: "the_user (al_user_id a) d = Inr u0"
    and p: "get_or_create_policy now (usr_id u0) None d = Inr (p, d')" and u: "the_user (al_user_id a) d' = Inr u"
    using assms(2) by (auto simp: resolve_user_def rbind_Inr_iff)
  have id: "usr_id u0 = al_user_id a" "usr_id u = al_user_id a"
    using u0 u by (auto simp: the_user_Inr dest: find_row_key)
  have w: "with_policy (usr_id u0) p d d'" by (rule get_or_create_policy_ok [OF assms(1) p]) simp
  have "get_current_policy u d' = Some p" by (rule get_or_create_current [OF assms(1) p]) (use u id in simp)
  then show ?thesis using w Some a id u by (simp add: settled_def find_alias_def with_policy_def)
qed

lemma find_mapped_row:
  assumes "\<And>r. key (f r) = key r"
  shows "find_row key k (map_row k' i f rows) = map_option (\<lambda>r. if k' r = i then f r else r) (find_row key k rows)"
  by (induction rows) (auto simp: map_row_def assms)

definition noted :: "instant \<Rightarrow> string option \<Rightarrow> alias_row \<Rightarrow> alias_row" where
  "noted now err a = a\<lparr>al_policy_push_error := err,
     al_policy_push_error_at := (if str_or err '''' \<noteq> '''' then Some now else None)\<rparr>"

lemma noted_keeps [simp]:
  "al_id (noted now err a) = al_id a" "al_user_id (noted now err a) = al_user_id a"
  "alias_key (noted now err a) = alias_key a"
  "noted now' err (noted now err a) = noted now' err a" "al_policy_push_error (noted now err a) = err"
  by (simp_all add: noted_def alias_key_def)

lemma noted_fits: "alias_fits (noted now err a) = alias_fits (noted now' err a)"
  by (simp add: noted_def alias_fits_def)

lemma note_push_error_Inr:
  "note_push_error now err i d = Inr d' \<longleftrightarrow>
    list_all alias_fits (map_row al_id i (noted now err) (db_aliases d)) \<and>
    unique_on alias_key (map_row al_id i (noted now err) (db_aliases d)) \<and>
    d' = d\<lparr>db_aliases := map_row al_id i (noted now err) (db_aliases d)\<rparr>"
  by (simp add: note_push_error_def update_alias_def Let_def flush_Inr noted_def [abs_def])

lemma note_push_error_twice:
  assumes "note_push_error now err i d1 = Inr d2" "db_aliases d' = db_aliases d2"
  shows "note_push_error now' err i d' = Inr (d'\<lparr>db_aliases := map_row al_id i (noted now' err) (db_aliases d1)\<rparr>)"
proof -
  let ?m = "\<lambda>n. map_row al_id i (noted n err) (db_aliases d1)"
  have d2: "db_aliases d2 = ?m now" "list_all alias_fits (?m now)" "unique_on alias_key (?m now)"
    using assms(1) by (simp_all add: note_push_error_Inr)
  have again: "map_row al_id i (noted now' err) (?m now) = ?m now'" by (simp add: map_row_def)
  have "map alias_key (?m n) = map alias_key (db_aliases d1)" for n by (rule map_row_keys) simp
  then have "unique_on alias_key (?m now')" using d2(3) by (simp add: unique_on_def)
  moreover have "list_all alias_fits (map_row al_id i (noted n err) rows) =
      list_all alias_fits (map_row al_id i (noted n' err) rows)" for n n' rows
    by (induction rows) (simp_all add: map_row_def noted_fits [of n err _ n'])
  then have "list_all alias_fits (?m now')" using d2(2) by metis
  ultimately show ?thesis by (simp add: note_push_error_Inr assms(2) d2(1) again)
qed

lemma note_push_error_settled:
  assumes "settled did name u p a d" "note_push_error now err (al_id a) d = Inr d'"
  shows "settled did name u p (noted now err a) d'"
  using assms read_cong [of d' d] by (auto simp: note_push_error_Inr settled_def find_alias_def find_mapped_row)

lemma usage_frame_settled:
  "settled did name u p a d \<Longrightarrow> usage_frame d d' \<Longrightarrow> settled did name u p a d'"
  using read_cong [of d' d] by (auto simp: settled_def find_alias_def usage_frame_def)

subsection \<open>Recording the same usage again\<close>

definition positive_spans :: "active_span list \<Rightarrow> active_span list" where
  "positive_spans ss = filter (\<lambda>s. as_start s < as_end s) ss"

definition span_keys :: "uuid \<Rightarrow> active_span list \<Rightarrow> (uuid \<times> instant) set" where
  "span_keys v ss = (\<lambda>s. (v, as_end s)) ` set (positive_spans ss)"

lemma span_keys_simps [simp]:
  "span_keys v [] = {}"
  "span_keys v (s # ss) = (if as_end s \<le> as_start s then span_keys v ss else insert (v, as_end s) (span_keys v ss))"
  by (auto simp: span_keys_def positive_spans_def)

abbreviation interval_keys :: "db \<Rightarrow> (uuid \<times> instant) set" where
  "interval_keys d \<equiv> interval_key ` set (db_intervals d)"

lemma insert_interval_keys:
  assumes "insert_activity_interval u v day start stop w d = Inr d'"
  shows "interval_keys d' = insert (v, w) (interval_keys d)"
    and "(v, w) \<in> interval_keys d \<Longrightarrow> d' = d\<lparr>db_next_id := db_next_id d + 1\<rparr>"
  using assms by (auto simp: insert_activity_interval_def uuid4_def insert_ignore_def interval_key_def image_iff split: if_splits)

lemma record_spans_keys:
  "record_spans u v day ss d = Inr d' \<Longrightarrow>
    interval_keys d' = interval_keys d \<union> span_keys v ss \<and> db_counters d' = db_counters d"
proof (induction u v day ss d rule: record_spans.induct)
  case (2 u v day s ss d)
  show ?case
  proof (cases "as_end s \<le> as_start s")
    case True
    then show ?thesis using 2 by simp
  next
    case False
    then obtain d1 where d1: "insert_activity_interval u v day (as_start s) (as_end s) (as_end s) d = Inr d1"
      and rest: "record_spans u v day ss d1 = Inr d'"
      using 2(3) by (auto simp: rbind_Inr_iff)
    have "db_counters d1 = db_counters d"
      using d1 by (auto simp: insert_activity_interval_def uuid4_def split: if_splits)
    then show ?thesis using 2(2) [OF False rest] insert_interval_keys(1) [OF d1] False by simp
  qed
qed simp

lemma record_spans_present:
  "span_keys v ss \<subseteq> interval_keys d \<Longrightarrow> \<exists>n. record_spans u v day ss d = Inr (d\<lparr>db_next_id := n\<rparr>)"
proof (induction u v day ss d rule: record_spans.induct)
  case (1 u v day d)
  then show ?case by (auto intro: exI [of _ "db_next_id d"])
next
  case (2 u v day s ss d)
  show ?case
  proof (cases "as_end s \<le> as_start s")
    case True
    then show ?thesis using 2 by simp
  next
    case False
    let ?d = "d\<lparr>db_next_id := db_next_id d + 1\<rparr>"
    have key: "(v, as_end s) \<in> interval_keys d" using 2(3) False by simp
    have "\<exists>d1. insert_activity_interval u v day (as_start s) (as_end s) (as_end s) d = Inr d1"
      using False by (simp add: insert_activity_interval_def uuid4_def)
    then have i: "insert_activity_interval u v day (as_start s) (as_end s) (as_end s) d = Inr ?d"
      using insert_interval_keys(2) [OF _ key] by metis
    have "span_keys v ss \<subseteq> interval_keys ?d" using 2(3) False by simp
    from 2(2) [OF False this] obtain n where "record_spans u v day ss ?d = Inr (?d\<lparr>db_next_id := n\<rparr>)" by blast
    then show ?thesis using False i by auto
  qed
qed

lemma upsert_present:
  assumes "find_row counter_key (counter_key r) cs = Some x" "uc_spent_seconds r \<le> uc_spent_seconds x"
  shows "map view (upsert counter_key merge_counter r cs) = map view cs"
  using assms
proof (induction cs)
  case (Cons c cs)
  then show ?case by (auto simp: view_def merge_counter_def counter_key_def max_def split: if_splits)
qed simp

lemma record_spans_frame: "record_spans u v day ss d = Inr d' \<Longrightarrow> usage_frame d d'"
proof (induction u v day ss d rule: record_spans.induct)
  case (2 u v day s ss d)
  show ?case
  proof (cases "as_end s \<le> as_start s")
    case True
    then show ?thesis using 2 by simp
  next
    case False
    then obtain d1 where d1: "insert_activity_interval u v day (as_start s) (as_end s) (as_end s) d = Inr d1"
      and rest: "record_spans u v day ss d1 = Inr d'"
      using 2(3) by (auto simp: rbind_Inr_iff)
    have "usage_frame d d1"
      using d1 by (auto simp: insert_activity_interval_def uuid4_def usage_frame_intervals split: if_splits)
    then show ?thesis using 2(2) [OF False rest] by (rule usage_frame_trans)
  qed
qed (simp add: usage_frame_refl)

lemma record_usage_frame: "record_usage now u v day q d = Inr d' \<Longrightarrow> usage_frame d d'"
  by (auto simp: record_usage_def rbind_Inr_iff upsert_usage_counter_def Let_def flush_Inr
      intro: usage_frame_trans [OF usage_frame_counters record_spans_frame])

lemma resolve_counters:
  assumes "hub_ok d" "resolve_user now did name d = Inr (u, p, al, d')"
  shows "db_counters d' = db_counters d"
proof (cases "find_alias did name d")
  case None
  then obtain u0 new d1 d2 where 1: "create_or_find_user now name d = Inr (u0, new, d1)"
    and 2: "policy_for_user now u0 new None d1 = Inr (p, d2)" and 4: "insert_alias (usr_id u) did name d2 = Inr d'"
    using assms(2) by (auto simp: resolve_user_def provision_user_alias_def rbind_Inr_iff split: option.splits)
  note c = create_or_find_user_ok [OF assms(1) 1]
  have "with_policy (usr_id u0) p d1 d2" by (rule policy_for_user_ok [OF c(1,2) 2]) (use c(8,11) in auto)
  then show ?thesis using c(6) 4 by (simp add: with_policy_def insert_alias_def uuid4_def Let_def flush_Inr)
next
  case (Some a)
  then obtain u0 :: user_row where p: "get_or_create_policy now (usr_id u0) None d = Inr (p, d')"
    using assms(2) by (auto simp: resolve_user_def rbind_Inr_iff)
  have "with_policy (usr_id u0) p d d'" by (rule get_or_create_policy_ok [OF assms(1) p]) simp
  then show ?thesis by (simp add: with_policy_def)
qed

text \<open>A user's entry that the database already holds changes no counter and no interval.\<close>

lemma record_usage_twice:
  assumes "record_usage now u v day q d = Inr d1" "db_counters d2 = db_counters d1" "db_intervals d2 = db_intervals d1"
  shows "\<exists>d3. record_usage now' u v day q d2 = Inr d3 \<and> same_usage d2 d3 \<and> usage_frame d2 d3"
proof -
  let ?a = "Some (activity_state_value (so_activity_state (sq_observed q)))" and ?n = "sq_cumulative_spent_s q"
  let ?r = "\<lambda>now. \<lparr>uc_user_id = u, uc_device_id = v, uc_day = day, uc_spent_seconds = ?n,
               uc_activity_state = ?a, uc_updated_at = now\<rparr>"
  obtain d0 where 1: "upsert_usage_counter now u v day ?n ?a d = Inr d0"
    and 2: "record_spans u v day (sq_active_spans q) d0 = Inr d1"
    using assms(1) by (auto simp: record_usage_def rbind_Inr_iff)
  have fits: "counter_fits (?r now')" using 1 by (simp add: upsert_usage_counter_def Let_def flush_Inr counter_fits_def)
  have "counter_at u v day d0 = Some (case counter_at u v day d of None \<Rightarrow> ?n | Some m \<Rightarrow> max m ?n)"
    using counter_at_upsert [OF 1, of u v day] by simp
  moreover have "db_counters d1 = db_counters d0" using record_spans_keys [OF 2] by simp
  ultimately obtain x where x: "find_row counter_key (u, v, day) (db_counters d2) = Some x" "?n \<le> uc_spent_seconds x"
    by (auto simp: counter_at_def assms(2) split: option.splits)
  let ?d = "d2\<lparr>db_counters := upsert counter_key merge_counter (?r now') (db_counters d2)\<rparr>"
  have 3: "upsert_usage_counter now' u v day ?n ?a d2 = Inr ?d"
    using fits by (simp add: upsert_usage_counter_def Let_def flush_Inr)
  have view: "map view (db_counters ?d) = map view (db_counters d2)"
    using upsert_present [of "?r now'" "db_counters d2" x] x by (simp add: counter_key_def)
  have "span_keys v (sq_active_spans q) \<subseteq> interval_keys ?d"
    using record_spans_keys [OF 2] assms(3) by auto
  then obtain n where 4: "record_spans u v day (sq_active_spans q) ?d = Inr (?d\<lparr>db_next_id := n\<rparr>)"
    using record_spans_present by blast
  let ?d3 = "?d\<lparr>db_next_id := n\<rparr>"
  have "record_usage now' u v day q d2 = Inr ?d3" using 3 4 by (simp add: record_usage_def)
  moreover have "same_usage d2 ?d3" using view by (simp add: same_usage_def)
  moreover have "usage_frame d2 ?d3" using record_usage_frame calculation(1) by blast
  ultimately show ?thesis by blast
qed

subsection \<open>The properties\<close>

lemma sync_user_current:
  assumes "hub_ok d" "sync_user agg digest now day device q d = Inr (r, d')"
  shows "\<exists>u p a. settled (dev_id device) (sq_username q) u p a d' \<and> al_policy_push_error a = sq_policy_push_error q \<and>
    (\<forall>i v day'. counter_at i v day' d' =
       (if (i, v, day') = (usr_id u, dev_id device, day)
        then Some (case counter_at i v day' d of None \<Rightarrow> sq_cumulative_spent_s q | Some m \<Rightarrow> max m (sq_cumulative_spent_s q))
        else counter_at i v day' d)) \<and>
    sr_global_spent_s r = spent_today agg u day d' \<and>
    effective_daily_limit p u day d' = Inr (sr_effective_limit_today_s r) \<and> sr_policy_version r = pol_version p \<and>
    (\<exists>payload. effective_policy_payload digest p day (sq_policy_revision_applied q \<noteq> None) d' = Inr (payload, sr_policy_revision r) \<and>
      sr_policy r = (if case sq_policy_revision_applied q of Some held \<Rightarrow> held = sr_policy_revision r
                         | None \<Rightarrow> sq_policy_version_applied q = pol_version p
                     then None else Some payload))"
proof -
  obtain u p al d1 d2 where 1: "resolve_user now (dev_id device) (sq_username q) d = Inr (u, p, al, d1)"
    and 2: "note_push_error now (sq_policy_push_error q) (al_id al) d1 = Inr d2"
    and 3: "record_usage now (usr_id u) (dev_id device) day q d2 = Inr d'"
    and 4: "answer_for agg digest device day q u p d' = Inr r"
    using assms(2) sync_user_Inr by blast
  have s1: "settled (dev_id device) (sq_username q) u p al d1" by (rule resolve_settles [OF assms(1) 1])
  note s2 = note_push_error_settled [OF s1 2]
  obtain d3 where c: "upsert_usage_counter now (usr_id u) (dev_id device) day (sq_cumulative_spent_s q)
      (Some (activity_state_value (so_activity_state (sq_observed q)))) d2 = Inr d3"
    and sp: "record_spans (usr_id u) (dev_id device) day (sq_active_spans q) d3 = Inr d'"
    using 3 by (auto simp: record_usage_def rbind_Inr_iff)
  have "usage_frame d2 d'"
  proof -
    have "usage_frame d2 d3" using c by (auto simp: upsert_usage_counter_def Let_def flush_Inr usage_frame_counters)
    then show ?thesis using usage_frame_trans record_spans_frame [OF sp] by blast
  qed
  note s3 = usage_frame_settled [OF s2 this]
  have same: "db_counters d2 = db_counters d"
    using 2 resolve_counters [OF assms(1) 1] by (auto simp: note_push_error_Inr)
  have counters: "counter_at i v day' d' = (if (i, v, day') = (usr_id u, dev_id device, day)
        then Some (case counter_at i v day' d of None \<Rightarrow> sq_cumulative_spent_s q | Some m \<Rightarrow> max m (sq_cumulative_spent_s q))
        else counter_at i v day' d)" for i v day'
    using counter_at_upsert [OF c, of i v day'] record_spans_keys [OF sp] same by (auto simp: counter_at_def)
  have "sr_global_spent_s r = spent_today agg u day d' \<and>
    effective_daily_limit p u day d' = Inr (sr_effective_limit_today_s r) \<and> sr_policy_version r = pol_version p \<and>
    (\<exists>payload. effective_policy_payload digest p day (sq_policy_revision_applied q \<noteq> None) d' = Inr (payload, sr_policy_revision r) \<and>
      sr_policy r = (if case sq_policy_revision_applied q of Some held \<Rightarrow> held = sr_policy_revision r
                         | None \<Rightarrow> sq_policy_version_applied q = pol_version p
                     then None else Some payload))"
    using 4 by (cases "sq_policy_revision_applied q") (auto simp: answer_for_def rbind_Inr_iff Let_def)
  with s3 counters noted_keeps(5) show ?thesis by blast
qed


text \<open>C10. Retrying is harmless: when the answer of a sync is lost and the device sends the same entry again
  on the same day, the hub answers exactly the same and neither a counter's seconds nor an interval changes.\<close>

theorem retried_sync_same_answer:
  assumes "hub_ok d" "sync_user agg digest now day device q d = Inr (r, d')"
  shows "\<exists>d''. sync_user agg digest now' day device q d' = Inr (r, d'') \<and> same_usage d' d''"
proof -
  obtain u p al d1 d2 where 1: "resolve_user now (dev_id device) (sq_username q) d = Inr (u, p, al, d1)"
    and 2: "note_push_error now (sq_policy_push_error q) (al_id al) d1 = Inr d2"
    and 3: "record_usage now (usr_id u) (dev_id device) day q d2 = Inr d'"
    and 4: "answer_for agg digest device day q u p d' = Inr r"
    using assms(2) sync_user_Inr by blast
  let ?err = "sq_policy_push_error q" and ?al = "noted now (sq_policy_push_error q) al"
  have f: "usage_frame d2 d'" by (rule record_usage_frame [OF 3])
  have s: "settled (dev_id device) (sq_username q) u p ?al d'"
    by (rule usage_frame_settled [OF note_push_error_settled [OF resolve_settles [OF assms(1) 1] 2] f])
  have r1: "resolve_user now' (dev_id device) (sq_username q) d' = Inr (u, p, ?al, d')"
    by (rule settled_resolves [OF s])
  have als: "db_aliases d' = db_aliases d2" using f by (auto simp: usage_frame_def)
  let ?d2 = "d'\<lparr>db_aliases := map_row al_id (al_id al) (noted now' ?err) (db_aliases d1)\<rparr>"
  have r2: "note_push_error now' ?err (al_id ?al) d' = Inr ?d2"
    using note_push_error_twice [OF 2 als] by simp
  obtain d3 where r3: "record_usage now' (usr_id u) (dev_id device) day q ?d2 = Inr d3"
    and same: "same_usage ?d2 d3" and f3: "usage_frame ?d2 d3"
    using record_usage_twice [OF 3, of ?d2 now'] by auto
  have "same_usage d' d3" using same by (simp add: same_usage_def)
  moreover have "answer_for agg digest device day q u p d3 = Inr r"
    using answer_for_cong [OF calculation, of agg digest device day q u p] f3 4 by (auto simp: usage_frame_def)
  ultimately show ?thesis using r1 r2 r3 sync_user_Inr by blast
qed

subsection \<open>A household\<close>

text \<open>Anna's account of sample\_db on the device 2, which reports a minute more than it had.\<close>

definition sample_laptop :: device_row where
  "sample_laptop = \<lparr>dev_id = 2, dev_name = ''laptop'', dev_machine_id = ''m2'', dev_token_hash = ''tkh_laptop'',
     dev_status = ''active'', dev_enforcement = ''enforce'', dev_agent_version = Some ''1'', dev_clock_skew_ms = None,
     dev_enrolled_at = 5, dev_last_seen_at = None, dev_last_sync_at = None\<rparr>"

definition sample_alias :: alias_row where
  "sample_alias = \<lparr>al_id = 20, al_user_id = 1, al_device_id = 2, al_local_username = ''anna'',
     al_policy_push_error = None, al_policy_push_error_at = None\<rparr>"

definition sample_home :: db where
  "sample_home = sample_db\<lparr>db_devices := [sample_laptop], db_aliases := [sample_alias]\<rparr>"

definition sample_entry :: sync_user_request where
  "sample_entry = \<lparr>sq_username = ''anna'', sq_cumulative_spent_s = 1860,
     sq_active_spans = [\<lparr>as_start = 1800000000, as_end = 1860000000, as_burned_s = 60\<rparr>],
     sq_observed = \<lparr>so_balance_s = 1860, so_spent_day_s = 1860, so_limit_today_s = 3600, so_logged_in = True,
       so_active = True, so_activity_state = DRAINING\<rparr>,
     sq_policy_version_applied = 1, sq_policy_revision_applied = None, sq_policy_push_error = None\<rparr>"

lemma sample_home_ok: "hub_ok sample_home"
  by code_simp

lemma sample_entry_syncs:
  "\<exists>r d'. sync_user sweep_agg (\<lambda>_. ''d'') 60000000 sample_day sample_laptop sample_entry sample_home = Inr (r, d')"
proof -
  have "case sync_user sweep_agg (\<lambda>_. ''d'') 60000000 sample_day sample_laptop sample_entry sample_home of
      Inr (r, d') \<Rightarrow> True | Inl e \<Rightarrow> False"
    by code_simp
  then show ?thesis by (auto split: sum.splits)
qed


lemma retried_sync_same_answer_witness:
  "\<exists>r d' d''. sync_user sweep_agg (\<lambda>_. ''d'') 60000000 sample_day sample_laptop sample_entry sample_home = Inr (r, d') \<and>
     sync_user sweep_agg (\<lambda>_. ''d'') 90000000 sample_day sample_laptop sample_entry d' = Inr (r, d'') \<and> same_usage d' d''"
  using sample_entry_syncs retried_sync_same_answer [OF sample_home_ok, where now' = 90000000] by blast

subsection \<open>One window end per device and tick\<close>

text \<open>
  The unique key of an interval is the device and the end of its window, without the user, and
  the agent ends the spans of all users of a tick at the same instant. When two users of one device
  report a span with the same end, the span of the second one is dropped: nothing is recorded for
  that user, whose intervals stay what they were.
\<close>

theorem second_users_span_dropped:
  assumes "record_spans u1 v day [s1] d = Inr d1" "record_spans u2 v day' [s2] d1 = Inr d2"
    and "as_start s1 < as_end s1" "as_end s2 = as_end s1"
  shows "db_intervals d2 = db_intervals d1 \<and> (u1 \<noteq> u2 \<longrightarrow> intervals_on u2 day'' d2 = intervals_on u2 day'' d)"
proof -
  have key: "(v, as_end s2) \<in> interval_keys d1" using record_spans_keys [OF assms(1)] assms(3,4) by simp
  then have "span_keys v [s2] \<subseteq> interval_keys d1" by simp
  from record_spans_present [OF this, of u2 day'] assms(2) have same: "db_intervals d2 = db_intervals d1" by auto
  have "insert_activity_interval u1 v day (as_start s1) (as_end s1) (as_end s1) d = Inr d1"
    using assms(1,3) by (auto simp: rbind_Inr_iff)
  then have "intervals_on u2 day'' d1 = intervals_on u2 day'' d" if "u1 \<noteq> u2"
    using that by (auto simp: insert_activity_interval_def uuid4_def insert_ignore_def intervals_on_def split: if_splits)
  then show ?thesis using same by (simp add: intervals_on_def)
qed

lemma second_users_span_dropped_witness:
  "\<exists>d1 d2. record_spans 1 2 sample_day [\<lparr>as_start = 0, as_end = 60, as_burned_s = 60\<rparr>] empty_db = Inr d1 \<and>
     record_spans 7 2 sample_day [\<lparr>as_start = 0, as_end = 60, as_burned_s = 60\<rparr>] d1 = Inr d2 \<and>
     intervals_on 7 sample_day d2 = []"
proof -
  let ?s = "\<lparr>as_start = 0, as_end = 60, as_burned_s = 60\<rparr>"
  obtain d1 where 1: "record_spans 1 2 sample_day [?s] empty_db = Inr d1"
    by (auto simp: insert_activity_interval_def uuid4_def)
  obtain d2 where 2: "record_spans 7 2 sample_day [?s] d1 = Inr d2"
    by (auto simp: insert_activity_interval_def uuid4_def)
  have "intervals_on 7 sample_day d2 = intervals_on 7 sample_day empty_db"
    using second_users_span_dropped [OF 1 2, of sample_day] by simp
  then show ?thesis using 1 2 by (auto simp: intervals_on_def empty_db_def)
qed

end
