(* ===== verification/Device_Lifecycle.thy ===== *)
theory Device_Lifecycle
  imports Hub_Invariant
begin

section \<open>The life of a device: codes, tokens, re-enrollment\<close>

text \<open>
  What the enrollment endpoint and the token check promise, over the definitions of Enrollment and
  Sync: a code is spent once and each refusal has its own status, binding a machine again keeps the
  device and its history and retires the old token, and nothing but a live device's token syncs.
\<close>

subsection \<open>Codes\<close>

text \<open>The answer of the claim, read off the row of the code.\<close>

definition code_status :: "instant \<Rightarrow> code_row option \<Rightarrow> int option" where
  "code_status now r = (case r of
      None \<Rightarrow> Some 404
    | Some r \<Rightarrow> if cod_used_at r \<noteq> None then Some 409 else if cod_expires_at r < now then Some 410 else None)"

definition spend :: "instant \<Rightarrow> code_row \<Rightarrow> code_row" where
  "spend now r = r\<lparr>cod_used_at := Some now\<rparr>"

lemma claim_code_status:
  assumes "unique_on cod_code (db_codes d)"
  shows "claim_code now code d = (case code_status now (find_row cod_code code (db_codes d)) of
      Some n \<Rightarrow> Inl (HTTPException n)
    | None \<Rightarrow> Inr (d\<lparr>db_codes := map (\<lambda>r. if cod_code r = code then spend now r else r) (db_codes d)\<rparr>))"
proof (cases "find_row cod_code code (db_codes d)")
  case None
  then have "\<not> list_ex (claimable now code) (db_codes d)"
    by (auto simp: find_row_None_iff list_ex_iff claimable_def)
  then show ?thesis using None by (simp add: claim_code_def code_status_def)
next
  case (Some row)
  have one: "r = row" if "r \<in> set (db_codes d)" "cod_code r = code" for r
    using find_row_unique [OF assms that(1)] Some that(2) by simp
  have row: "row \<in> set (db_codes d)" "cod_code row = code" using Some by (auto dest: find_row_mem find_row_key)
  have ex: "list_ex (claimable now code) (db_codes d) \<longleftrightarrow> claimable now code row"
    using one row unfolding list_ex_iff claimable_def by blast
  have upd: "map (\<lambda>r. if claimable now code r then r\<lparr>cod_used_at := Some now\<rparr> else r) (db_codes d) =
      map (\<lambda>r. if cod_code r = code then spend now r else r) (db_codes d)" if "claimable now code row"
  proof (rule map_cong [OF refl])
    fix r assume "r \<in> set (db_codes d)"
    then have "claimable now code r \<longleftrightarrow> cod_code r = code"
      using one that unfolding claimable_def by blast
    then show "(if claimable now code r then r\<lparr>cod_used_at := Some now\<rparr> else r) = (if cod_code r = code then spend now r else r)"
      by (simp add: spend_def)
  qed
  show ?thesis
  proof (cases "claimable now code row")
    case True
    then have "code_status now (Some row) = None" by (simp add: code_status_def claimable_def)
    with True show ?thesis unfolding claim_code_def ex upd [OF True] Some by simp
  next
    case False
    then have "code_status now (Some row) = Some (if cod_used_at row \<noteq> None then 409 else 410)"
      using row(2) by (auto simp: code_status_def claimable_def)
    with False show ?thesis unfolding claim_code_def ex Some by simp
  qed
qed

lemma claim_twice:
  assumes "unique_on cod_code (db_codes d)" "claim_code now code d = Inr d'"
  shows "\<exists>r. find_row cod_code code (db_codes d') = Some r \<and> cod_used_at r \<noteq> None"
proof -
  obtain row where r: "find_row cod_code code (db_codes d) = Some row"
    and d': "d' = d\<lparr>db_codes := map (\<lambda>r. if cod_code r = code then spend now r else r) (db_codes d)\<rparr>"
    using assms by (auto simp: claim_code_status code_status_def split: option.splits if_splits)
  have "find_row cod_code code (map (\<lambda>r. if cod_code r = code then spend now r else r) rows) =
      map_option (spend now) (find_row cod_code code rows)" for rows
    by (induction rows) (auto simp: spend_def)
  then show ?thesis using r by (simp add: d' spend_def)
qed

subsection \<open>Enrollment leaves history alone\<close>

text \<open>What enrolling a list of users keeps: it only adds users, policies and aliases.\<close>

lemma enroll_users_frame:
  assumes "hub_ok d" "did \<in> dids d" "enroll_users now did snaps names (ns, ps, d) = Inr (ns', ps', d')"
    and "list_all (\<lambda>(_, lp). length (lp_daily_limits_s lp) = 7) snaps"
  shows "db_devices d' = db_devices d \<and> db_counters d' = db_counters d \<and> db_intervals d' = db_intervals d \<and>
    db_codes d' = db_codes d \<and> uids d \<subseteq> uids d' \<and> set (db_aliases d) \<subseteq> set (db_aliases d')"
  using assms(1-3)
proof (induction names arbitrary: ns ps d)
  case (Cons n names)
  then obtain u p new d1 ns1 ps1 where 1: "provision_user_alias now did n (dict_get snaps n) d = Inr (u, p, new, d1)"
    and 2: "enroll_users now did snaps names (ns1, ps1, d1) = Inr (ns', ps', d')"
    by (auto simp: rbind_Inr_iff)
  have "pred_option (\<lambda>s. length (lp_daily_limits_s s) = 7) (dict_get snaps n)"
    using assms(4) by (cases "dict_get snaps n") (auto simp: dict_get_def list_all_iff dest!: map_of_SomeD)
  note p = provision_ok(1) [OF Cons.prems(1,2) 1 this, unfolded provisioned_def]
  then have "hub_ok d1" "did \<in> dids d1" using Cons.prems(2) by simp_all
  from Cons.IH [OF this 2] p show ?case by (simp, blast)
qed simp

lemma bind_device_frame:
  assumes "bind_device hash now tok req d = Inr (i, old, d')"
  shows "d' = d\<lparr>db_next_id := db_next_id d', db_devices := db_devices d'\<rparr>"
proof (cases "find (\<lambda>r. dev_machine_id r = enr_machine_id req \<and> live r) (db_devices d)")
  case None
  then show ?thesis
    using assms by (auto simp: bind_device_def uuid4_def Let_def rbind_Inr_iff add_device_def flush_Inr)
next
  case (Some v)
  then have "\<exists>ds. d' = d\<lparr>db_devices := ds\<rparr>"
    using assms by (auto simp: bind_device_def Let_def rbind_Inr_iff update_device_def flush_Inr)
  then show ?thesis by auto
qed

text \<open>The whole effect of a successful enrollment, step by step.\<close>

lemma enroll_steps:
  assumes "hub_ok d" "enroll hash tz poll now rnd req d = Inr (resp, d')"
  shows "\<exists>d1 old d2. claim_code now (enr_enrollment_code req) d = Inr d1 \<and>
    bind_device hash now (TOKEN_PREFIX @ rnd) req d1 = Inr (ens_device_id resp, old, d2) \<and>
    ens_device_token resp = TOKEN_PREFIX @ rnd \<and> ens_rebound resp = (old \<noteq> None) \<and>
    db_devices d' = db_devices d2 \<and> db_counters d' = db_counters d \<and> db_intervals d' = db_intervals d \<and>
    db_codes d' = map (\<lambda>r. if cod_code r = enr_enrollment_code req
       then r\<lparr>cod_used_by_device_id := Some (ens_device_id resp)\<rparr> else r) (db_codes d1) \<and>
    uids d \<subseteq> uids d' \<and> set (db_aliases d) \<subseteq> set (db_aliases d')"
proof -
  from enroll_Inr [OF assms(2)] obtain d1 old d2 d3 where r: "check_enroll_request req = Inr req"
    and 1: "claim_code now (enr_enrollment_code req) d = Inr d1"
    and 2: "bind_device hash now (TOKEN_PREFIX @ rnd) req d1 = Inr (ens_device_id resp, old, d2)"
    and 3: "enroll_users now (ens_device_id resp) (enr_local_policies req) (enr_local_users req) ([], [], d2)
      = Inr (ens_new_users resp, ens_policies resp, d3)"
    and d': "d' = d3\<lparr>db_codes := map (\<lambda>r. if cod_code r = enr_enrollment_code req
           then r\<lparr>cod_used_by_device_id := Some (ens_device_id resp)\<rparr> else r) (db_codes d3)\<rparr>"
    and t: "ens_device_token resp = TOKEN_PREFIX @ rnd" "ens_rebound resp = (old \<noteq> None)"
    by blast
  have req: "list_all (\<lambda>(_, lp). length (lp_daily_limits_s lp) = 7) (enr_local_policies req)"
    using r by (auto simp: check_enroll_request_def checked_def split: if_splits)
  obtain cs where d1: "d1 = d\<lparr>db_codes := cs\<rparr>"
    using 1 by (auto simp: claim_code_def split: if_splits option.splits)
  note d2 = bind_device_frame [OF 2]
  have keep: "db_counters d2 = db_counters d" "db_intervals d2 = db_intervals d" "db_users d2 = db_users d"
    "db_aliases d2 = db_aliases d" "db_codes d2 = db_codes d1"
    by (subst d2, simp add: d1)+
  note b = bind_device_ok [OF claim_code_Inr [OF 1 assms(1)] 2]
  note f = enroll_users_frame [OF b 3 req]
  show ?thesis using 1 2 t f by (intro exI [of _ d1] exI [of _ old] exI [of _ d2]) (simp add: d' keep)
qed

subsection \<open>The properties\<close>

text \<open>One enrolled device and two unused codes.\<close>

definition sample_machine :: device_row where
  "sample_machine = \<lparr>dev_id = 1, dev_name = ''pc'', dev_machine_id = ''m1'', dev_token_hash = ''tkh_old'',
     dev_status = ''active'', dev_enforcement = ''enforce'', dev_agent_version = None, dev_clock_skew_ms = None,
     dev_enrolled_at = 5, dev_last_seen_at = None, dev_last_sync_at = None\<rparr>"

definition sample_hub :: db where
  "sample_hub = empty_db\<lparr>db_next_id := 2, db_devices := [sample_machine],
     db_codes := [\<lparr>cod_code = ''AAAA'', cod_expires_at = 100, cod_used_at = None, cod_used_by_device_id = None, cod_created_at = 0\<rparr>,
                  \<lparr>cod_code = ''BBBB'', cod_expires_at = 100, cod_used_at = None, cod_used_by_device_id = None, cod_created_at = 0\<rparr>]\<rparr>"

definition sample_request :: enroll_request where
  "sample_request = \<lparr>enr_enrollment_code = ''AAAA'', enr_hostname = ''pc'', enr_machine_id = ''m1'',
     enr_agent_version = ''1'', enr_local_users = [], enr_local_policies = []\<rparr>"

lemma sample_hub_ok: "hub_ok sample_hub"
  by (simp add: hub_ok_def tables_ok_def current_ok_def table_defs sample_hub_def empty_db_def unique_on_def
      machine_index_def sample_machine_def ck_devices_def)

lemma sample_request_ok: "check_enroll_request sample_request = Inr sample_request"
  by (simp add: check_enroll_request_def checked_def sample_request_def)

lemma sample_enrolls: "\<exists>resp d'. enroll (\<lambda>t. t) ''UTC'' 1000 50 ''new'' sample_request sample_hub = Inr (resp, d')"
  by (simp add: enroll_def sample_request_ok claim_code_def claimable_def sample_hub_def sample_request_def empty_db_def
      bind_device_def update_device_def map_row_def flush_def sample_machine_def device_fits_def ck_devices_def
      machine_index_def unique_on_def live_def Let_def TOKEN_PREFIX_def int8_def
      sample_request_ok [unfolded sample_request_def])

text \<open>C13. Every code is spent by at most one enrollment. A code that is unknown, used or expired refuses the
  enrollment with 404, 409 and 410 in this order of checks; and once an enrollment has succeeded, every later
  valid request with the same code, at any time and from any device, is refused with 409.\<close>

theorem enroll_spends_code_once:
  assumes "hub_ok d" "check_enroll_request req = Inr req"
  shows "(case code_status now (find_row cod_code (enr_enrollment_code req) (db_codes d)) of
        Some n \<Rightarrow> enroll hash tz poll now rnd req d = Inl (HTTPException n)
      | None \<Rightarrow> True) \<and>
    (\<forall>resp d' hash' tz' poll' now' rnd' req'.
      enroll hash tz poll now rnd req d = Inr (resp, d') \<and> check_enroll_request req' = Inr req' \<and>
      enr_enrollment_code req' = enr_enrollment_code req \<longrightarrow>
      enroll hash' tz' poll' now' rnd' req' d' = Inl (HTTPException 409))"
proof (intro conjI allI impI)
  show "case code_status now (find_row cod_code (enr_enrollment_code req) (db_codes d)) of
        Some n \<Rightarrow> enroll hash tz poll now rnd req d = Inl (HTTPException n) | None \<Rightarrow> True"
    using claim_code_status [OF hub_codes [OF assms(1)], of now "enr_enrollment_code req"] assms(2)
    by (simp add: enroll_def split: option.split)
next
  fix resp d' hash' tz' poll' now' rnd' and req' :: enroll_request
  assume a: "enroll hash tz poll now rnd req d = Inr (resp, d') \<and> check_enroll_request req' = Inr req' \<and>
      enr_enrollment_code req' = enr_enrollment_code req"
  let ?code = "enr_enrollment_code req" and ?mark = "\<lambda>r. if cod_code r = enr_enrollment_code req
      then r\<lparr>cod_used_by_device_id := Some (ens_device_id resp)\<rparr> else r"
  obtain d1 where 1: "claim_code now ?code d = Inr d1" and cs: "db_codes d' = map ?mark (db_codes d1)"
    using enroll_steps [OF assms(1) conjunct1 [OF a]] by blast
  have ok: "hub_ok d'" using enroll_ok [OF assms(1) conjunct1 [OF a]] .
  obtain r where r: "find_row cod_code ?code (db_codes d1) = Some r" "cod_used_at r \<noteq> None"
    using claim_twice [OF hub_codes [OF assms(1)] 1] by blast
  have mark: "find_row cod_code ?code (map ?mark rows) = map_option ?mark (find_row cod_code ?code rows)" for rows
    by (induction rows) auto
  then have "code_status now' (find_row cod_code ?code (db_codes d')) = Some 409"
    unfolding cs mark using r by (auto simp: code_status_def)
  then show "enroll hash' tz' poll' now' rnd' req' d' = Inl (HTTPException 409)"
    using claim_code_status [OF hub_codes [OF ok], of now' ?code] a by (simp add: enroll_def)
qed

lemma enroll_spends_code_once_witness:
  "code_status 50 (find_row cod_code ''AAAA'' (db_codes sample_hub)) = None \<and>
   (\<exists>resp d'. enroll (\<lambda>t. t) ''UTC'' 1000 50 ''new'' sample_request sample_hub = Inr (resp, d') \<and>
      enroll (\<lambda>t. t) ''UTC'' 1000 60 ''x'' sample_request d' = Inl (HTTPException 409))"
proof
  show "code_status 50 (find_row cod_code ''AAAA'' (db_codes sample_hub)) = None"
    by (simp add: code_status_def sample_hub_def)
  obtain resp d' where "enroll (\<lambda>t. t) ''UTC'' 1000 50 ''new'' sample_request sample_hub = Inr (resp, d')"
    using sample_enrolls by blast
  with enroll_spends_code_once [OF sample_hub_ok sample_request_ok, where now = 50] sample_request_ok
  show "\<exists>resp d'. enroll (\<lambda>t. t) ''UTC'' 1000 50 ''new'' sample_request sample_hub = Inr (resp, d') \<and>
      enroll (\<lambda>t. t) ''UTC'' 1000 60 ''x'' sample_request d' = Inl (HTTPException 409)"
    by blast
qed

subsection \<open>Binding a machine again\<close>

lemma find_updated_row:
  assumes "unique_on key' (map_row key k f rows)" "r \<in> set rows" "key r = k"
  shows "find_row key' (key' (f r)) (map_row key k f rows) = Some (f r)"
proof -
  have "f r \<in> set (map_row key k f rows)" using assms(2,3) by (force simp: map_row_def)
  then show ?thesis by (rule find_row_unique [OF assms(1)])
qed

lemma unique_on_eq: "unique_on key rows \<Longrightarrow> x \<in> set rows \<Longrightarrow> y \<in> set rows \<Longrightarrow> key x = key y \<Longrightarrow> x = y"
  by (metis find_row_unique option.inject)

lemma machine_find:
  assumes "machine_index ds" "v \<in> set ds" "live v"
  shows "find (\<lambda>r. dev_machine_id r = dev_machine_id v \<and> live r) ds = Some v"
proof -
  have "find (\<lambda>r. dev_machine_id r = m \<and> live r) xs = find_row dev_machine_id m (filter live xs)" for m xs
    by (induction xs) auto
  then show ?thesis using assms find_row_unique [of dev_machine_id "filter live ds" v] by (simp add: machine_index_def)
qed

lemma rebind:
  assumes "hub_ok d" "bind_device hash now tok req d = Inr (i, old, d')"
    and "v \<in> set (db_devices d)" "live v" "dev_machine_id v = enr_machine_id req"
  shows "i = dev_id v" "old = Some v"
    and "db_devices d' = map_row dev_id (dev_id v) (\<lambda>r. r\<lparr>dev_token_hash := hash tok, dev_name := enr_hostname req,
        dev_agent_version := Some (enr_agent_version req), dev_status := ''active''\<rparr>) (db_devices d)"
proof -
  have "machine_index (db_devices d)" using assms(1) by (simp add: hub_ok_def tables_ok_def devices_ok_def)
  from machine_find [OF this assms(3,4)]
  have "find (\<lambda>r. dev_machine_id r = enr_machine_id req \<and> live r) (db_devices d) = Some v"
    by (simp add: assms(5))
  then show "i = dev_id v" "old = Some v"
    "db_devices d' = map_row dev_id (dev_id v) (\<lambda>r. r\<lparr>dev_token_hash := hash tok, dev_name := enr_hostname req,
        dev_agent_version := Some (enr_agent_version req), dev_status := ''active''\<rparr>) (db_devices d)"
    using assms(2) by (auto simp: bind_device_def rbind_Inr_iff update_device_def Let_def flush_Inr)
qed

text \<open>C12. Enrolling a machine that is already enrolled rebinds it: the device keeps its id, its enrollment date
  and all recorded usage and aliases, the token of the answer authenticates it, the previous token no longer
  does (unless the two tokens hash alike), and every other device is left as it was.\<close>

theorem reenroll_rebinds:
  assumes "hub_ok d" "enroll hash tz poll now rnd req d = Inr (resp, d')"
    and "v \<in> set (db_devices d)" "live v" "dev_machine_id v = enr_machine_id req"
  shows "ens_device_id resp = dev_id v \<and> ens_rebound resp \<and>
    (\<exists>w. get_current_device hash (Some (ens_device_token resp)) d' = Inr w \<and> dev_id w = dev_id v \<and>
       dev_enrolled_at w = dev_enrolled_at v) \<and>
    (\<forall>t. hash t = dev_token_hash v \<and> hash t \<noteq> hash (ens_device_token resp) \<longrightarrow>
       get_current_device hash (Some t) d' = Inl (HTTPException 401)) \<and>
    (\<forall>x\<in>set (db_devices d). dev_id x \<noteq> dev_id v \<longrightarrow> x \<in> set (db_devices d')) \<and>
    db_counters d' = db_counters d \<and> db_intervals d' = db_intervals d \<and> set (db_aliases d) \<subseteq> set (db_aliases d')"
proof -
  let ?f = "\<lambda>r. r\<lparr>dev_token_hash := hash (TOKEN_PREFIX @ rnd), dev_name := enr_hostname req,
        dev_agent_version := Some (enr_agent_version req), dev_status := ''active''\<rparr>"
  obtain d1 old d2 where 1: "claim_code now (enr_enrollment_code req) d = Inr d1"
    and 2: "bind_device hash now (TOKEN_PREFIX @ rnd) req d1 = Inr (ens_device_id resp, old, d2)"
    and t: "ens_device_token resp = TOKEN_PREFIX @ rnd" "ens_rebound resp = (old \<noteq> None)"
    and ds: "db_devices d' = db_devices d2"
    and keep: "db_counters d' = db_counters d" "db_intervals d' = db_intervals d" "set (db_aliases d) \<subseteq> set (db_aliases d')"
    using enroll_steps [OF assms(1,2)] by blast
  obtain cs where d1: "d1 = d\<lparr>db_codes := cs\<rparr>"
    using 1 by (auto simp: claim_code_def split: if_splits option.splits)
  have v: "v \<in> set (db_devices d1)" using assms(3) d1 by simp
  note r = rebind [OF claim_code_Inr [OF 1 assms(1)] 2 v assms(4,5)]
  have ds': "db_devices d' = map_row dev_id (dev_id v) ?f (db_devices d)" using r(3) ds d1 by simp
  have u: "unique_on dev_id (db_devices d)" "unique_on dev_token_hash (db_devices d)" "unique_on dev_token_hash (db_devices d')"
    using assms(1) enroll_ok [OF assms(1,2)] by (simp_all add: hub_ok_def tables_ok_def devices_ok_def)
  have new: "get_current_device hash (Some (ens_device_token resp)) d' = Inr (?f v)"
    using find_updated_row [OF u(3) [unfolded ds'] assms(3) refl] by (simp add: get_current_device_def t ds')
  have gone: "get_current_device hash (Some s) d' = Inl (HTTPException 401)"
    if s: "hash s = dev_token_hash v" "hash s \<noteq> hash (ens_device_token resp)" for s
  proof -
    have "hash s \<noteq> dev_token_hash (if dev_id x = dev_id v then ?f x else x)" if "x \<in> set (db_devices d)" for x
      using s t unique_on_eq [OF u(2) that assms(3)] by auto
    then have "hash s \<notin> dev_token_hash ` set (db_devices d')"
      unfolding ds' map_row_def set_map image_image by blast
    then have "find_row dev_token_hash (hash s) (db_devices d') = None" by (simp add: find_row_None_iff)
    then show ?thesis by (simp add: get_current_device_def)
  qed
  have others: "x \<in> set (db_devices d')" if "x \<in> set (db_devices d)" "dev_id x \<noteq> dev_id v" for x
    using that by (force simp: ds' map_row_def)
  show ?thesis using r(1,2) t new gone others keep by auto
qed

lemma reenroll_rebinds_witness:
  "\<exists>resp d'. enroll (\<lambda>t. t) ''UTC'' 1000 50 ''new'' sample_request sample_hub = Inr (resp, d') \<and>
     ens_device_id resp = 1 \<and> get_current_device (\<lambda>t. t) (Some ''tkh_old'') d' = Inl (HTTPException 401)"
proof -
  obtain resp d' where e: "enroll (\<lambda>t. t) ''UTC'' 1000 50 ''new'' sample_request sample_hub = Inr (resp, d')"
    using sample_enrolls by blast
  have v: "sample_machine \<in> set (db_devices sample_hub)" "live sample_machine"
      "dev_machine_id sample_machine = enr_machine_id sample_request" "dev_id sample_machine = 1"
      "dev_token_hash sample_machine = ''tkh_old''"
    by (simp_all add: sample_hub_def live_def sample_machine_def sample_request_def)
  have t: "ens_device_token resp = ''tkh_new''"
    using enroll_steps [OF sample_hub_ok e] by (auto simp: TOKEN_PREFIX_def)
  from reenroll_rebinds [OF sample_hub_ok e v(1-3)] e v(4,5) t show ?thesis by auto
qed

end
