(* ===== verification/Admin_Auth.thy ===== *)
theory Admin_Auth
  imports Hub_DB
begin

section \<open>Admin accounts, sessions and the audit log\<close>

text \<open>
  Models \<open>hub/timekpr_hub/services/admin_auth.py\<close>, \<open>services/audit.py\<close>, \<open>api/admin_auth.py\<close>,
  \<open>api/admin/admins.py\<close> and \<open>api/ui/admins.py\<close>. Parameters: \<open>hash\<close> is SHA-256 of a token,
  \<open>hash_pw\<close> and \<open>verify\<close> are argon2's, \<open>rnd\<close> the random text of \<open>secrets\<close>, \<open>now\<close> the clock.
  A redirect or page is its essential content: the cookie set, the rows shown. A page with an error
  status that commits nothing is the \<open>Inl\<close> of that status.
\<close>

definition uuid_str :: "uuid \<Rightarrow> string" where
  "uuid_str i = str_of_int (int i)"

subsection \<open>The audit log\<close>

definition record_audit_event :: "instant \<Rightarrow> string \<Rightarrow> string option \<Rightarrow> string \<Rightarrow> string option \<Rightarrow> string option
    \<Rightarrow> json option \<Rightarrow> json option \<Rightarrow> string option \<Rightarrow> db \<Rightarrow> db result" where
  "record_audit_event now actor_type actor_id action target_type target_id before after ip d =
     (case uuid4 d of (i, d) \<Rightarrow>
        add_audit \<lparr>aud_id = i, aud_ts = now, aud_actor_type = actor_type, aud_actor_id = actor_id, aud_action = action,
          aud_target_type = target_type, aud_target_id = target_id, aud_before = before, aud_after = after, aud_ip = ip\<rparr> d)"

text \<open>A negative LIMIT or OFFSET is refused by the server (a data exception).\<close>

definition list_audit_events :: "int \<Rightarrow> int \<Rightarrow> string option \<Rightarrow> string option \<Rightarrow> string option \<Rightarrow> db \<Rightarrow> audit_row list result" where
  "list_audit_events limit offset actor_id target_type target_id d =
     (if limit < 0 \<or> offset < 0 then Inl DataError
      else Inr (take (nat limit) (drop (nat offset) (sort_key (\<lambda>r. - aud_ts r)
        (filter (\<lambda>r. (actor_id \<noteq> None \<longrightarrow> aud_actor_id r = actor_id) \<and>
                     (target_type \<noteq> None \<longrightarrow> aud_target_type r = target_type) \<and>
                     (target_id \<noteq> None \<longrightarrow> aud_target_id r = target_id)) (db_audit d))))))"

subsection \<open>Sessions\<close>

definition SESSION_TTL :: int where
  "SESSION_TTL = 30 * 24 * 3600 * usec_per_sec"

definition INVITE_TTL :: int where
  "INVITE_TTL = 24 * 3600 * usec_per_sec"

definition create_session :: "(string \<Rightarrow> string) \<Rightarrow> instant \<Rightarrow> string \<Rightarrow> uuid \<Rightarrow> string option \<Rightarrow> string option \<Rightarrow> db
    \<Rightarrow> (string \<times> db) result" where
  "create_session hash now raw_token admin_id ip user_agent d =
     (case uuid4 d of (i, d) \<Rightarrow>
        rbind (add_session \<lparr>ses_id = i, ses_admin_id = admin_id, ses_token_hash = hash raw_token,
            ses_expires_at = now + SESSION_TTL, ses_ip = ip, ses_user_agent = user_agent, ses_created_at = now\<rparr> d)
          (\<lambda>d. Inr (raw_token, d)))"

definition get_admin_by_session_token :: "(string \<Rightarrow> string) \<Rightarrow> instant \<Rightarrow> string \<Rightarrow> db \<Rightarrow> admin_row option" where
  "get_admin_by_session_token hash now raw_token d =
     (case find_row ses_token_hash (hash raw_token) (db_sessions d) of
        None \<Rightarrow> None
      | Some s \<Rightarrow> if ses_expires_at s < now then None else find_row adm_id (ses_admin_id s) (db_admins d))"

definition delete_session :: "(string \<Rightarrow> string) \<Rightarrow> string \<Rightarrow> db \<Rightarrow> db" where
  "delete_session hash raw_token d = d\<lparr>db_sessions := delete_rows ses_token_hash (hash raw_token) (db_sessions d)\<rparr>"

definition delete_other_sessions :: "(string \<Rightarrow> string) \<Rightarrow> uuid \<Rightarrow> string \<Rightarrow> db \<Rightarrow> db" where
  "delete_other_sessions hash admin_id keep_token d =
     d\<lparr>db_sessions := filter (\<lambda>s. \<not> (ses_admin_id s = admin_id \<and> ses_token_hash s \<noteq> hash keep_token)) (db_sessions d)\<rparr>"

text \<open>The two dependencies that gate every other route.\<close>

definition session_admin :: "(string \<Rightarrow> string) \<Rightarrow> instant \<Rightarrow> string option \<Rightarrow> db \<Rightarrow> admin_row option" where
  "session_admin hash now token d =
     (if str_or token '''' = '''' then None else get_admin_by_session_token hash now (str_or token '''') d)"

definition get_current_admin_api :: "(string \<Rightarrow> string) \<Rightarrow> instant \<Rightarrow> string option \<Rightarrow> db \<Rightarrow> admin_row result" where
  "get_current_admin_api hash now token d =
     (case session_admin hash now token d of Some admin \<Rightarrow> Inr admin | None \<Rightarrow> Inl (HTTPException 401))"

definition get_current_admin_ui :: "(string \<Rightarrow> string) \<Rightarrow> instant \<Rightarrow> string option \<Rightarrow> db \<Rightarrow> admin_row result" where
  "get_current_admin_ui hash now token d =
     (case session_admin hash now token d of Some admin \<Rightarrow> Inr admin | None \<Rightarrow> Inl RequireLoginRedirect)"

subsection \<open>Accounts\<close>

definition any_admin_exists :: "db \<Rightarrow> bool" where
  "any_admin_exists d \<longleftrightarrow> db_admins d \<noteq> []"

definition count_admins :: "db \<Rightarrow> int" where
  "count_admins d = int (length (db_admins d))"

definition update_admin :: "uuid \<Rightarrow> (admin_row \<Rightarrow> admin_row) \<Rightarrow> db \<Rightarrow> db result" where
  "update_admin k f d =
     (let as = map_row adm_id k f (db_admins d)
      in flush (list_all admin_fits as) True (unique_on adm_email as) (d\<lparr>db_admins := as\<rparr>))"

text \<open>
  Deleting an admin row: its sessions go with it (ON DELETE CASCADE), its invites stay without
  their author (ON DELETE SET NULL).
\<close>

definition delete_admin_row :: "uuid \<Rightarrow> db \<Rightarrow> db" where
  "delete_admin_row i d =
     d\<lparr>db_admins := delete_rows adm_id i (db_admins d),
       db_sessions := filter (\<lambda>s. ses_admin_id s \<noteq> i) (db_sessions d),
       db_invites := map (\<lambda>v. if inv_created_by v = Some i then v\<lparr>inv_created_by := None\<rparr> else v) (db_invites d)\<rparr>"

definition delete_admin_account :: "instant \<Rightarrow> uuid \<Rightarrow> uuid \<Rightarrow> string option \<Rightarrow> db \<Rightarrow> (admin_row option \<times> db) result" where
  "delete_admin_account now target_admin_id actor_admin_id ip d =
     (if count_admins d \<le> 1 then Inl LastAdminError
      else case find_row adm_id target_admin_id (db_admins d) of
          None \<Rightarrow> Inr (None, d)
        | Some target \<Rightarrow>
            rbind (record_audit_event now ''admin'' (Some (uuid_str actor_admin_id)) ''admin.deleted'' (Some ''admin'')
                (Some (uuid_str (adm_id target))) (Some (JObj [(''email'', JStr (adm_email target))])) None ip d) (\<lambda>d.
              Inr (Some target, delete_admin_row (adm_id target) d)))"

definition change_password :: "(string \<Rightarrow> string) \<Rightarrow> uuid \<Rightarrow> string \<Rightarrow> db \<Rightarrow> db result" where
  "change_password hash_pw admin_id new_password d =
     update_admin admin_id (\<lambda>a. a\<lparr>adm_password_hash := hash_pw new_password\<rparr>) d"

definition change_admin_own_password :: "(string \<Rightarrow> string) \<Rightarrow> (string \<Rightarrow> string) \<Rightarrow> (string \<Rightarrow> string \<Rightarrow> bool)
    \<Rightarrow> instant \<Rightarrow> admin_row \<Rightarrow> string \<Rightarrow> string \<Rightarrow> string \<Rightarrow> string option \<Rightarrow> db \<Rightarrow> db result" where
  "change_admin_own_password hash hash_pw verify now admin current_password new_password session_token ip d =
     (if \<not> verify current_password (adm_password_hash admin) then Inl WrongPasswordError
      else rbind (change_password hash_pw (adm_id admin) new_password d) (\<lambda>d.
        record_audit_event now ''admin'' (Some (uuid_str (adm_id admin))) ''admin.password_changed'' (Some ''admin'')
          (Some (uuid_str (adm_id admin))) None None ip (delete_other_sessions hash (adm_id admin) session_token d)))"

subsection \<open>Invites\<close>

definition create_invite :: "instant \<Rightarrow> string \<Rightarrow> uuid \<Rightarrow> db \<Rightarrow> (string \<times> db) result" where
  "create_invite now raw_token created_by_admin_id d =
     rbind (add_invite \<lparr>inv_token = raw_token, inv_expires_at = now + INVITE_TTL, inv_used_at = None,
         inv_created_by = Some created_by_admin_id, inv_created_at = now\<rparr> d) (\<lambda>d. Inr (raw_token, d))"

definition mint_admin_invite :: "instant \<Rightarrow> string \<Rightarrow> uuid \<Rightarrow> string option \<Rightarrow> db \<Rightarrow> (string \<times> db) result" where
  "mint_admin_invite now rnd actor_admin_id ip d =
     rbind (create_invite now rnd actor_admin_id d) (\<lambda>(token, d).
     rbind (record_audit_event now ''admin'' (Some (uuid_str actor_admin_id)) ''admin.invite_created'' None None None None ip d)
       (\<lambda>d. Inr (token, d)))"

definition redeemable :: "instant \<Rightarrow> string \<Rightarrow> invite_row \<Rightarrow> bool" where
  "redeemable now token v \<longleftrightarrow> inv_token v = token \<and> inv_used_at v = None \<and> now \<le> inv_expires_at v"

definition redeem_invite :: "instant \<Rightarrow> string \<Rightarrow> db \<Rightarrow> db result" where
  "redeem_invite now token d =
     (if list_ex (redeemable now token) (db_invites d)
      then Inr (d\<lparr>db_invites := map (\<lambda>v. if redeemable now token v then v\<lparr>inv_used_at := Some now\<rparr> else v) (db_invites d)\<rparr>)
      else case find_row inv_token token (db_invites d) of
          None \<Rightarrow> Inl (InviteError ''unknown or already-used invite link'')
        | Some row \<Rightarrow>
            if inv_used_at row \<noteq> None then Inl (InviteError ''this invite link has already been used'')
            else Inl (InviteError ''this invite link has expired''))"

subsection \<open>Setup, login and logout\<close>

definition setup_form :: "db \<Rightarrow> unit result" where
  "setup_form d = (if any_admin_exists d then Inl (HTTPException 404) else Inr ())"

definition setup_submit :: "(string \<Rightarrow> string) \<Rightarrow> (string \<Rightarrow> string) \<Rightarrow> instant \<Rightarrow> string \<Rightarrow> string \<Rightarrow> string
    \<Rightarrow> string option \<Rightarrow> string option \<Rightarrow> db \<Rightarrow> (string \<times> db) result" where
  "setup_submit hash hash_pw now rnd email password ip user_agent d =
     (if length password < 8 then Inl ValidationError
      else if any_admin_exists d then Inl (HTTPException 404)
      else case uuid4 d of (i, d) \<Rightarrow>
        rbind (add_admin \<lparr>adm_id = i, adm_email = email, adm_password_hash = hash_pw password, adm_created_at = now\<rparr> d)
          (create_session hash now rnd i ip user_agent))"

text \<open>Whether the login page is shown or \<open>/setup\<close> is redirected to.\<close>

definition login_form :: "db \<Rightarrow> bool" where
  "login_form d = any_admin_exists d"

definition login_submit :: "(string \<Rightarrow> string) \<Rightarrow> (string \<Rightarrow> string \<Rightarrow> bool) \<Rightarrow> instant \<Rightarrow> string \<Rightarrow> string \<Rightarrow> string
    \<Rightarrow> string option \<Rightarrow> string option \<Rightarrow> db \<Rightarrow> (string option \<times> db) result" where
  "login_submit hash verify now rnd email password ip user_agent d =
     (case find_row adm_email email (db_admins d) of
        None \<Rightarrow> Inr (None, d)
      | Some admin \<Rightarrow>
          if \<not> verify password (adm_password_hash admin) then Inr (None, d)
          else rbind (create_session hash now rnd (adm_id admin) ip user_agent d) (\<lambda>(token, d).
            rbind (record_audit_event now ''admin'' (Some (uuid_str (adm_id admin))) ''admin.login'' (Some ''admin'')
                (Some (uuid_str (adm_id admin))) None None ip d) (\<lambda>d. Inr (Some token, d))))"

definition logout :: "(string \<Rightarrow> string) \<Rightarrow> string option \<Rightarrow> db \<Rightarrow> db" where
  "logout hash token d = (if str_or token '''' = '''' then d else delete_session hash (str_or token '''') d)"

definition invite_submit :: "(string \<Rightarrow> string) \<Rightarrow> (string \<Rightarrow> string) \<Rightarrow> instant \<Rightarrow> string \<Rightarrow> string \<Rightarrow> string \<Rightarrow> string
    \<Rightarrow> string option \<Rightarrow> string option \<Rightarrow> db \<Rightarrow> (string \<times> db) result" where
  "invite_submit hash hash_pw now rnd token email password ip user_agent d =
     (if length password < 8 then Inl ValidationError
      else case redeem_invite now token d of
          Inl (InviteError _) \<Rightarrow> Inl (HTTPException 410)
        | Inl e \<Rightarrow> Inl e
        | Inr d \<Rightarrow>
            (case uuid4 d of (i, d) \<Rightarrow>
               case add_admin \<lparr>adm_id = i, adm_email = email, adm_password_hash = hash_pw password, adm_created_at = now\<rparr> d of
                 Inl IntegrityError \<Rightarrow> Inl (HTTPException 409)
               | Inl e \<Rightarrow> Inl e
               | Inr d \<Rightarrow>
                   rbind (record_audit_event now ''admin'' (Some (uuid_str i)) ''admin.created'' (Some ''admin'')
                       (Some (uuid_str i)) None None ip d)
                     (create_session hash now rnd i ip user_agent)))"

subsection \<open>Managing admins\<close>

definition rstrip_slash :: "string \<Rightarrow> string" where
  "rstrip_slash s = rev (dropWhile (\<lambda>c. c = CHR ''/'') (rev s))"

definition create_admin_invite :: "(string \<Rightarrow> string) \<Rightarrow> instant \<Rightarrow> string option \<Rightarrow> string \<Rightarrow> string option \<Rightarrow> string \<Rightarrow> db
    \<Rightarrow> ((string \<times> string) \<times> db) result" where
  "create_admin_invite hash now cookie rnd ip base_url d =
     rbind (get_current_admin_api hash now cookie d) (\<lambda>admin.
     rbind (mint_admin_invite now rnd (adm_id admin) ip d) (\<lambda>(token, d).
       Inr ((token, rstrip_slash base_url @ ''/invite/'' @ token), d)))"

definition list_admins :: "(string \<Rightarrow> string) \<Rightarrow> instant \<Rightarrow> string option \<Rightarrow> db \<Rightarrow> (uuid \<times> string \<times> instant \<times> bool) list result" where
  "list_admins hash now cookie d =
     rbind (get_current_admin_api hash now cookie d) (\<lambda>admin.
       Inr (map (\<lambda>p. (adm_id p, adm_email p, adm_created_at p, adm_id p = adm_id admin)) (db_admins d)))"

definition delete_admin :: "(string \<Rightarrow> string) \<Rightarrow> instant \<Rightarrow> string option \<Rightarrow> uuid \<Rightarrow> string option \<Rightarrow> db \<Rightarrow> (uuid \<times> db) result" where
  "delete_admin hash now cookie admin_id ip d =
     rbind (get_current_admin_api hash now cookie d) (\<lambda>admin.
       case delete_admin_account now admin_id (adm_id admin) ip d of
         Inl LastAdminError \<Rightarrow> Inl (HTTPException 409)
       | Inl e \<Rightarrow> Inl e
       | Inr (None, _) \<Rightarrow> Inl (HTTPException 404)
       | Inr (Some _, d) \<Rightarrow> Inr (admin_id, d))"

definition change_own_password :: "(string \<Rightarrow> string) \<Rightarrow> (string \<Rightarrow> string) \<Rightarrow> (string \<Rightarrow> string \<Rightarrow> bool) \<Rightarrow> instant
    \<Rightarrow> string option \<Rightarrow> string \<Rightarrow> string \<Rightarrow> string option \<Rightarrow> db \<Rightarrow> db result" where
  "change_own_password hash hash_pw verify now cookie current_password new_password ip d =
     rbind (get_current_admin_api hash now cookie d) (\<lambda>admin.
       if length new_password < 8 then Inl ValidationError
       else case change_admin_own_password hash hash_pw verify now admin current_password new_password
                   (str_or cookie '''') ip d of
           Inl WrongPasswordError \<Rightarrow> Inl (HTTPException 401)
         | r \<Rightarrow> r)"

subsection \<open>The same from the UI\<close>

definition admins_fragment_context :: "admin_row \<Rightarrow> db \<Rightarrow> (uuid \<times> string \<times> bool) list \<times> bool" where
  "admins_fragment_context admin d =
     (let admins = map (\<lambda>a. (adm_id a, adm_email a, adm_id a = adm_id admin)) (db_admins d)
      in (admins, 1 < length admins))"

definition create_admin_invite_ui :: "(string \<Rightarrow> string) \<Rightarrow> instant \<Rightarrow> string option \<Rightarrow> string \<Rightarrow> string option \<Rightarrow> string \<Rightarrow> db
    \<Rightarrow> (string \<times> db) result" where
  "create_admin_invite_ui hash now cookie rnd ip base_url d =
     rbind (get_current_admin_ui hash now cookie d) (\<lambda>admin.
     rbind (mint_admin_invite now rnd (adm_id admin) ip d) (\<lambda>(token, d).
       Inr (rstrip_slash base_url @ ''/invite/'' @ token, d)))"

definition delete_admin_ui :: "(string \<Rightarrow> string) \<Rightarrow> instant \<Rightarrow> string option \<Rightarrow> uuid \<Rightarrow> string option \<Rightarrow> db
    \<Rightarrow> (((uuid \<times> string \<times> bool) list \<times> bool) \<times> db) result" where
  "delete_admin_ui hash now cookie target_admin_id ip d =
     rbind (get_current_admin_ui hash now cookie d) (\<lambda>admin.
       case delete_admin_account now target_admin_id (adm_id admin) ip d of
         Inl LastAdminError \<Rightarrow> Inr (admins_fragment_context admin d, d)
       | Inl e \<Rightarrow> Inl e
       | Inr (_, d) \<Rightarrow> Inr (admins_fragment_context admin d, d))"

text \<open>A wrong password is a message on the page, not an error status.\<close>

definition change_own_password_ui :: "(string \<Rightarrow> string) \<Rightarrow> (string \<Rightarrow> string) \<Rightarrow> (string \<Rightarrow> string \<Rightarrow> bool) \<Rightarrow> instant
    \<Rightarrow> string option \<Rightarrow> string \<Rightarrow> string \<Rightarrow> string option \<Rightarrow> db \<Rightarrow> (bool \<times> db) result" where
  "change_own_password_ui hash hash_pw verify now cookie current_password new_password ip d =
     rbind (get_current_admin_ui hash now cookie d) (\<lambda>admin.
       if length new_password < 8 then Inl ValidationError
       else case change_admin_own_password hash hash_pw verify now admin current_password new_password
                   (str_or cookie '''') ip d of
           Inl WrongPasswordError \<Rightarrow> Inr (False, d)
         | Inl e \<Rightarrow> Inl e
         | Inr d \<Rightarrow> Inr (True, d))"

end
