(* ===== verification/Admin_Devices.thy ===== *)
theory Admin_Devices
  imports Enrollment Admin_Auth
begin

section \<open>Managing devices\<close>

text \<open>
  Models \<open>hub/timekpr_hub/services/devices.py\<close>, \<open>api/admin/devices.py\<close>, \<open>api/ui/devices.py\<close> and
  \<open>api/ui/audit.py\<close>. Every route of \<open>api/admin\<close> and \<open>api/ui\<close> is gated on a session in \<open>app.py\<close>;
  the gate is the first step of each definition. A page is the rows handed to its template.
\<close>

definition revoke_device :: "instant \<Rightarrow> uuid \<Rightarrow> uuid \<Rightarrow> string option \<Rightarrow> db \<Rightarrow> (device_row option \<times> db) result" where
  "revoke_device now device_id actor_id ip d =
     (case find_row dev_id device_id (db_devices d) of
        None \<Rightarrow> Inr (None, d)
      | Some device \<Rightarrow>
          rbind (update_device device_id (\<lambda>r. r\<lparr>dev_status := ''revoked''\<rparr>) d) (\<lambda>d.
          rbind (record_audit_event now ''admin'' (Some (uuid_str actor_id)) ''device.revoke'' (Some ''device'')
              (Some (uuid_str (dev_id device))) (Some (JObj [(''status'', JStr (dev_status device))]))
              (Some (JObj [(''status'', JStr ''revoked'')])) ip d) (\<lambda>d.
            Inr (Some (device\<lparr>dev_status := ''revoked''\<rparr>), d))))"

definition set_device_enforcement :: "instant \<Rightarrow> uuid \<Rightarrow> string \<Rightarrow> uuid \<Rightarrow> string option \<Rightarrow> db
    \<Rightarrow> (device_row option \<times> db) result" where
  "set_device_enforcement now device_id enforcement actor_id ip d =
     (case find_row dev_id device_id (db_devices d) of
        None \<Rightarrow> Inr (None, d)
      | Some device \<Rightarrow>
          rbind (update_device device_id (\<lambda>r. r\<lparr>dev_enforcement := enforcement\<rparr>) d) (\<lambda>d.
          rbind (record_audit_event now ''admin'' (Some (uuid_str actor_id)) (''device.'' @ enforcement) (Some ''device'')
              (Some (uuid_str (dev_id device))) (Some (JObj [(''enforcement'', JStr (dev_enforcement device))]))
              (Some (JObj [(''enforcement'', JStr enforcement)])) ip d) (\<lambda>d.
            Inr (Some (device\<lparr>dev_enforcement := enforcement\<rparr>), d))))"

text \<open>The row and what its foreign keys take along: aliases, counters and intervals, not the codes.\<close>

definition delete_device_row :: "uuid \<Rightarrow> db \<Rightarrow> db" where
  "delete_device_row i d =
     d\<lparr>db_devices := delete_rows dev_id i (db_devices d),
       db_aliases := filter (\<lambda>r. al_device_id r \<noteq> i) (db_aliases d),
       db_counters := filter (\<lambda>r. uc_device_id r \<noteq> i) (db_counters d),
       db_intervals := filter (\<lambda>r. ai_device_id r \<noteq> i) (db_intervals d),
       db_codes := map (\<lambda>r. if cod_used_by_device_id r = Some i then r\<lparr>cod_used_by_device_id := None\<rparr> else r) (db_codes d)\<rparr>"

definition delete_device :: "instant \<Rightarrow> uuid \<Rightarrow> uuid \<Rightarrow> string option \<Rightarrow> db \<Rightarrow> (device_row option \<times> db) result" where
  "delete_device now device_id actor_id ip d =
     (case find_row dev_id device_id (db_devices d) of
        None \<Rightarrow> Inr (None, d)
      | Some device \<Rightarrow>
          rbind (record_audit_event now ''admin'' (Some (uuid_str actor_id)) ''device.delete'' (Some ''device'')
              (Some (uuid_str device_id))
              (Some (JObj [(''name'', JStr (dev_name device)), (''status'', JStr (dev_status device))])) None ip d) (\<lambda>d.
            Inr (Some device, delete_device_row device_id d)))"

subsection \<open>The JSON API\<close>

text \<open>An unknown device is a 404 and nothing is committed.\<close>

definition or_404 :: "('a option \<times> db) result \<Rightarrow> ('a \<times> db) result" where
  "or_404 r = rbind r (\<lambda>(x, d). case x of None \<Rightarrow> Inl (HTTPException 404) | Some x \<Rightarrow> Inr (x, d))"

definition create_enrollment_code_api :: "(string \<Rightarrow> string) \<Rightarrow> instant \<Rightarrow> string option \<Rightarrow> string \<Rightarrow> db
    \<Rightarrow> ((string \<times> instant) \<times> db) result" where
  "create_enrollment_code_api hash now cookie rnd d =
     rbind (get_current_admin_api hash now cookie d) (\<lambda>_.
     rbind (create_enrollment_code now rnd d) (\<lambda>(row, d). Inr ((cod_code row, cod_expires_at row), d)))"

definition list_audit :: "(string \<Rightarrow> string) \<Rightarrow> instant \<Rightarrow> string option \<Rightarrow> int \<Rightarrow> int \<Rightarrow> string option \<Rightarrow> string option
    \<Rightarrow> string option \<Rightarrow> db \<Rightarrow> audit_row list result" where
  "list_audit hash now cookie limit offset actor_id target_type target_id d =
     rbind (get_current_admin_api hash now cookie d) (\<lambda>_.
       list_audit_events (min (max limit 1) 200) (max offset 0) actor_id target_type target_id d)"

definition push_errors :: "uuid \<Rightarrow> db \<Rightarrow> (username \<times> string) list" where
  "push_errors device_id d = concat (map (\<lambda>a. case al_policy_push_error a of
      Some err \<Rightarrow> if al_device_id a = device_id then [(al_local_username a, err)] else []
    | None \<Rightarrow> []) (db_aliases d))"

record device_view =
  dvw_id :: uuid
  dvw_name :: string
  dvw_status :: string
  dvw_enforcement :: string
  dvw_last_sync_at :: "instant option"
  dvw_push_errors :: "(username \<times> string) list"

definition list_devices :: "(string \<Rightarrow> string) \<Rightarrow> instant \<Rightarrow> string option \<Rightarrow> db \<Rightarrow> device_view list result" where
  "list_devices hash now cookie d =
     rbind (get_current_admin_api hash now cookie d) (\<lambda>_.
       Inr (map (\<lambda>v. \<lparr>dvw_id = dev_id v, dvw_name = dev_name v, dvw_status = dev_status v, dvw_enforcement = dev_enforcement v,
                      dvw_last_sync_at = dev_last_sync_at v, dvw_push_errors = push_errors (dev_id v) d\<rparr>) (db_devices d)))"

definition revoke_device_api :: "(string \<Rightarrow> string) \<Rightarrow> instant \<Rightarrow> string option \<Rightarrow> uuid \<Rightarrow> string option \<Rightarrow> db
    \<Rightarrow> (device_row \<times> db) result" where
  "revoke_device_api hash now cookie device_id ip d =
     rbind (get_current_admin_api hash now cookie d) (\<lambda>admin. or_404 (revoke_device now device_id (adm_id admin) ip d))"

definition set_device_observe_mode :: "(string \<Rightarrow> string) \<Rightarrow> instant \<Rightarrow> string option \<Rightarrow> uuid \<Rightarrow> string option \<Rightarrow> db
    \<Rightarrow> (device_row \<times> db) result" where
  "set_device_observe_mode hash now cookie device_id ip d =
     rbind (get_current_admin_api hash now cookie d) (\<lambda>admin.
       or_404 (set_device_enforcement now device_id ''observe'' (adm_id admin) ip d))"

definition set_device_enforce_mode :: "(string \<Rightarrow> string) \<Rightarrow> instant \<Rightarrow> string option \<Rightarrow> uuid \<Rightarrow> string option \<Rightarrow> db
    \<Rightarrow> (device_row \<times> db) result" where
  "set_device_enforce_mode hash now cookie device_id ip d =
     rbind (get_current_admin_api hash now cookie d) (\<lambda>admin.
       or_404 (set_device_enforcement now device_id ''enforce'' (adm_id admin) ip d))"

definition delete_device_api :: "(string \<Rightarrow> string) \<Rightarrow> instant \<Rightarrow> string option \<Rightarrow> uuid \<Rightarrow> string option \<Rightarrow> db
    \<Rightarrow> (device_row \<times> db) result" where
  "delete_device_api hash now cookie device_id ip d =
     rbind (get_current_admin_api hash now cookie d) (\<lambda>admin. or_404 (delete_device now device_id (adm_id admin) ip d))"

subsection \<open>The devices and audit pages\<close>

text \<open>\<open>int(x / n)\<close> truncates towards zero; ages are in microseconds.\<close>

definition trunc_div :: "int \<Rightarrow> int \<Rightarrow> int" where
  "trunc_div a b = (if 0 \<le> a then a div b else - ((- a) div b))"

definition relative_time :: "int \<Rightarrow> string" where
  "relative_time age_us =
     (if age_us < 90 * usec_per_sec then str_of_int (trunc_div age_us usec_per_sec) @ ''s ago''
      else if age_us < 5400 * usec_per_sec then str_of_int (trunc_div age_us (60 * usec_per_sec)) @ ''m ago''
      else if age_us < 172800 * usec_per_sec then str_of_int (trunc_div age_us (3600 * usec_per_sec)) @ ''h ago''
      else str_of_int (trunc_div age_us (86400 * usec_per_sec)) @ ''d ago'')"

record device_card =
  dc_id :: uuid
  dc_name :: string
  dc_status :: string
  dc_enforcement :: string
  dc_agent_version :: string
  dc_last_seen :: string
  dc_stale :: bool
  dc_push_errors :: "(username \<times> string) list"

definition devices_fragment :: "int \<Rightarrow> instant \<Rightarrow> db \<Rightarrow> device_card list" where
  "devices_fragment poll_ms now d =
     map (\<lambda>v. let (seen_label, stale) = (case dev_last_seen_at v of
                  None \<Rightarrow> (''never synced'', True)
                | Some seen \<Rightarrow> (relative_time (now - seen), now - seen > 3 * poll_ms * 1000))
              in \<lparr>dc_id = dev_id v, dc_name = dev_name v, dc_status = dev_status v, dc_enforcement = dev_enforcement v,
                  dc_agent_version = str_or (dev_agent_version v) ''?'', dc_last_seen = seen_label, dc_stale = stale,
                  dc_push_errors = push_errors (dev_id v) d\<rparr>) (db_devices d)"

text \<open>The UI's device actions: an unknown device is no error, the fragment is rendered either way.\<close>

definition device_action_ui :: "(string \<Rightarrow> string) \<Rightarrow> int \<Rightarrow> instant \<Rightarrow> string option
    \<Rightarrow> (uuid \<Rightarrow> db \<Rightarrow> (device_row option \<times> db) result) \<Rightarrow> db \<Rightarrow> (device_card list \<times> db) result" where
  "device_action_ui hash poll_ms now cookie act d =
     rbind (get_current_admin_ui hash now cookie d) (\<lambda>admin.
     rbind (act (adm_id admin) d) (\<lambda>(_, d). Inr (devices_fragment poll_ms now d, d)))"

definition revoke_device_ui :: "(string \<Rightarrow> string) \<Rightarrow> int \<Rightarrow> instant \<Rightarrow> string option \<Rightarrow> uuid \<Rightarrow> string option \<Rightarrow> db
    \<Rightarrow> (device_card list \<times> db) result" where
  "revoke_device_ui hash poll_ms now cookie device_id ip =
     device_action_ui hash poll_ms now cookie (\<lambda>actor. revoke_device now device_id actor ip)"

definition set_device_observe_mode_ui :: "(string \<Rightarrow> string) \<Rightarrow> int \<Rightarrow> instant \<Rightarrow> string option \<Rightarrow> uuid \<Rightarrow> string option \<Rightarrow> db
    \<Rightarrow> (device_card list \<times> db) result" where
  "set_device_observe_mode_ui hash poll_ms now cookie device_id ip =
     device_action_ui hash poll_ms now cookie (\<lambda>actor. set_device_enforcement now device_id ''observe'' actor ip)"

definition set_device_enforce_mode_ui :: "(string \<Rightarrow> string) \<Rightarrow> int \<Rightarrow> instant \<Rightarrow> string option \<Rightarrow> uuid \<Rightarrow> string option \<Rightarrow> db
    \<Rightarrow> (device_card list \<times> db) result" where
  "set_device_enforce_mode_ui hash poll_ms now cookie device_id ip =
     device_action_ui hash poll_ms now cookie (\<lambda>actor. set_device_enforcement now device_id ''enforce'' actor ip)"

definition delete_device_ui :: "(string \<Rightarrow> string) \<Rightarrow> int \<Rightarrow> instant \<Rightarrow> string option \<Rightarrow> uuid \<Rightarrow> string option \<Rightarrow> db
    \<Rightarrow> (device_card list \<times> db) result" where
  "delete_device_ui hash poll_ms now cookie device_id ip =
     device_action_ui hash poll_ms now cookie (\<lambda>actor. delete_device now device_id actor ip)"

definition create_enrollment_code_ui :: "(string \<Rightarrow> string) \<Rightarrow> instant \<Rightarrow> string option \<Rightarrow> string \<Rightarrow> string \<Rightarrow> db
    \<Rightarrow> ((string \<times> instant \<times> string) \<times> db) result" where
  "create_enrollment_code_ui hash now cookie rnd base_url d =
     rbind (get_current_admin_ui hash now cookie d) (\<lambda>_.
     rbind (create_enrollment_code now rnd d) (\<lambda>(row, d).
       Inr ((cod_code row, cod_expires_at row,
             ''sudo timekpr-hub-agent enroll --hub-url '' @ base_url @ '' --code '' @ cod_code row), d)))"

definition audit_page :: "(string \<Rightarrow> string) \<Rightarrow> instant \<Rightarrow> string option \<Rightarrow> int \<Rightarrow> db \<Rightarrow> (audit_row list \<times> bool \<times> int) result" where
  "audit_page hash now cookie offset d =
     rbind (get_current_admin_ui hash now cookie d) (\<lambda>_.
     rbind (list_audit_events (50 + 1) offset None None None d) (\<lambda>events.
       Inr (take 50 events, 50 < length events, max 0 (offset - 50))))"

end
