(* ===== verification/Summaries.thy ===== *)
theory Summaries
  imports Sync_Facts
begin

section \<open>Usage summaries\<close>

text \<open>
  Models \<open>hub/timekpr_hub/services/summaries.py\<close>: the rows of the dashboard and of \<open>GET /users\<close>,
  and the history of the statistics page, over the grouped queries of Aggregate and Limits.
\<close>

record summary_row =
  sm_user :: user_row
  sm_policy :: "policy_row option"
  sm_today_global_spent_s :: seconds
  sm_today_effective_limit_s :: seconds
  sm_activity_state :: string
  sm_as_of :: "instant option"
  sm_gated_today :: bool
  sm_gate_released_today :: bool
  sm_devices_active_today :: "string list"

text \<open>Building a pydantic model from a stored string checks it against the enumeration.\<close>

definition pydantic :: "'a result \<Rightarrow> 'a result" where
  "pydantic r = (case r of Inl _ \<Rightarrow> Inl ValidationError | Inr x \<Rightarrow> Inr x)"

definition to_user_summary :: "summary_row \<Rightarrow> user_summary result" where
  "to_user_summary row =
     rbind (pydantic (accounting_mode_of (usr_accounting_mode (sm_user row)))) (\<lambda>mode.
     rbind (pydantic (activity_state_of (sm_activity_state row))) (\<lambda>state.
       Inr \<lparr>us_username = usr_canonical_username (sm_user row), us_display_name = usr_display_name (sm_user row),
            us_accounting_mode = mode, us_today_global_spent_s = sm_today_global_spent_s row,
            us_today_effective_limit_s = sm_today_effective_limit_s row,
            us_devices_active_today = sm_devices_active_today row, us_activity_state = state, us_as_of = sm_as_of row,
            us_gated_today = sm_gated_today row, us_gate_released_today = sm_gate_released_today row\<rparr>))"

text \<open>The batches of one request, each asked for all users at once.\<close>

record summary_batches =
  sb_spent :: "(uuid, seconds) dict"
  sb_activity :: "(uuid, string \<times> instant) dict"
  sb_grants :: "(uuid, seconds) dict"
  sb_overrides :: "(uuid, seconds) dict"
  sb_released :: "uuid list"
  sb_devices :: "(uuid, string list) dict"
  sb_policies :: "policy_row list"

definition load_batches :: "range_agg \<Rightarrow> date \<Rightarrow> user_row list \<Rightarrow> db \<Rightarrow> summary_batches" where
  "load_batches agg day users d =
     (let user_ids = map usr_id users;
          policy_ids = List.map_filter usr_current_policy_id users;
          wallclock_ids = map usr_id (filter (\<lambda>u. usr_accounting_mode u = ''wallclock'') users);
          parallel_ids = map usr_id (filter (\<lambda>u. usr_accounting_mode u \<noteq> ''wallclock'') users)
      in \<lparr>sb_spent = global_spent_parallel_batch parallel_ids day d @ global_spent_wallclock_batch agg wallclock_ids day d,
          sb_activity = latest_activity_states_batch user_ids day d,
          sb_grants = grants_totals_batch user_ids day d,
          sb_overrides = day_overrides_batch user_ids day d,
          sb_released = gate_releases_batch user_ids day d,
          sb_devices = devices_active_today_batch user_ids day d,
          sb_policies = filter (\<lambda>p. pol_id p \<in> set policy_ids) (db_policies d)\<rparr>)"

definition summary_of :: "int \<Rightarrow> instant \<Rightarrow> date \<Rightarrow> summary_batches \<Rightarrow> user_row \<Rightarrow> summary_row result" where
  "summary_of poll_ms now day b user =
     (let (state, as_of) = (case dict_get (sb_activity b) (usr_id user) of
             Some (s, at) \<Rightarrow> (s, Some at) | None \<Rightarrow> (''logged_out'', None));
          activity_state = (case as_of of None \<Rightarrow> ''logged_out''
             | Some at \<Rightarrow> if now - at > 3 * poll_ms * 1000 then ''logged_out'' else state);
          gated = is_gated_weekday user day;
          released = (usr_id user \<in> set (sb_released b));
          policy = (case usr_current_policy_id user of None \<Rightarrow> None | Some i \<Rightarrow> find_row pol_id i (sb_policies b));
          row = \<lparr>sm_user = user, sm_policy = None, sm_today_global_spent_s = 0, sm_today_effective_limit_s = 0,
                 sm_activity_state = activity_state, sm_as_of = as_of, sm_gated_today = (gated \<and> \<not> released),
                 sm_gate_released_today = released, sm_devices_active_today = dict_get_or (sb_devices b) (usr_id user) []\<rparr>
      in case policy of
          None \<Rightarrow> Inr row
        | Some p \<Rightarrow>
            rbind (base_daily_limit p day) (\<lambda>default_s.
              let base_s = dict_get_or (sb_overrides b) (usr_id user) default_s;
                  limit_today = combine_limit base_s (dict_get_or (sb_grants b) (usr_id user) 0) gated released
              in Inr (row\<lparr>sm_policy := Some p, sm_today_global_spent_s := dict_get_or (sb_spent b) (usr_id user) 0,
                          sm_today_effective_limit_s := limit_today\<rparr>)))"

definition compute_user_summaries :: "range_agg \<Rightarrow> hub_settings \<Rightarrow> instant \<Rightarrow> username list option \<Rightarrow> db
    \<Rightarrow> summary_row list result" where
  "compute_user_summaries agg cfg now usernames d =
     rbind (canonical_stamp (Aware now) (hub_zone cfg)) (\<lambda>stamp.
     let users = filter (\<lambda>u. case usernames of None \<Rightarrow> True | Some ns \<Rightarrow> usr_canonical_username u \<in> set ns) (db_users d)
     in if users = [] then Inr []
        else rsequence (map (summary_of (default_next_poll_ms cfg) now (st_day stamp)
               (load_batches agg (st_day stamp) users d)) users))"

subsection \<open>The history of one user\<close>

record day_usage =
  du_day :: date
  du_spent_s :: seconds
  du_limit_s :: seconds
  du_grants_s :: seconds
  du_overridden :: bool
  du_gated :: bool
  du_gate_released :: bool
  du_hours_overridden :: bool
  du_hours_override_intervals :: "wire_hour list option"

record usage_history =
  uh_days :: "day_usage list"
  uh_selected_day :: date
  uh_selected_day_devices :: "(uuid \<times> string \<times> seconds) list"

definition day_usage_of :: "user_row \<Rightarrow> policy_row option \<Rightarrow> (date, seconds) dict \<Rightarrow> (date, seconds) dict \<Rightarrow> (date, seconds) dict
    \<Rightarrow> date list \<Rightarrow> (date, wire_hour list) dict \<Rightarrow> date \<Rightarrow> day_usage result" where
  "day_usage_of user policy spent grants overrides released_days hours day =
     rbind (case policy of Some p \<Rightarrow> base_daily_limit p day | None \<Rightarrow> Inr 0) (\<lambda>default_s.
       let grants_s = dict_get_or grants day 0;
           base_s = dict_get_or overrides day default_s;
           gated = is_gated_weekday user day; released = (day \<in> set released_days)
       in Inr \<lparr>du_day = day, du_spent_s = dict_get_or spent day 0, du_limit_s = combine_limit base_s grants_s gated released,
               du_grants_s = grants_s, du_overridden = (dict_get overrides day \<noteq> None), du_gated = gated,
               du_gate_released = released, du_hours_overridden = (dict_get hours day \<noteq> None),
               du_hours_override_intervals = dict_get hours day\<rparr>)"

definition device_split :: "uuid \<Rightarrow> date \<Rightarrow> db \<Rightarrow> (uuid \<times> string \<times> seconds) list" where
  "device_split user_id day d =
     map (\<lambda>(i, spent). (i, (case find_row dev_id i (db_devices d) of None \<Rightarrow> ''?'' | Some v \<Rightarrow> dev_name v), spent))
       (sort_key (\<lambda>kv. - snd kv) (device_spent_for_day_by_device user_id day d))"

definition compute_usage_history :: "range_agg \<Rightarrow> tz \<Rightarrow> instant \<Rightarrow> user_row \<Rightarrow> policy_row option \<Rightarrow> int \<Rightarrow> db \<Rightarrow> usage_history result" where
  "compute_usage_history agg tz now user policy num_days d =
     rbind (canonical_stamp (Aware now) tz) (\<lambda>stamp.
     let end_day = st_day stamp
     in rbind (add_days end_day (- (num_days - 1))) (\<lambda>start_day.
        rbind (day_hour_overrides_history (usr_id user) start_day end_day d) (\<lambda>hours.
        rbind (rsequence (map (\<lambda>offset. rbind (add_days start_day offset)
            (day_usage_of user policy (global_spent_wallclock_history agg (usr_id user) start_day end_day d)
               (grants_totals_history (usr_id user) start_day end_day d)
               (day_overrides_history (usr_id user) start_day end_day d)
               (gate_releases_history (usr_id user) start_day end_day d) hours)) [0..num_days - 1])) (\<lambda>days.
          Inr \<lparr>uh_days = days, uh_selected_day = end_day, uh_selected_day_devices = device_split (usr_id user) end_day d\<rparr>))))"

subsection \<open>The batches hold the single answers\<close>

lemma not_in_batch: "u \<notin> key ` set (filter P rows) \<Longrightarrow> filter (\<lambda>r. P r \<and> key r = u) rows = []"
  by (auto simp: filter_empty_conv)

lemma grants_batch_single:
  assumes "u \<in> set ids"
  shows "dict_get_or (grants_totals_batch ids day d) u 0 = grants_total u day d"
proof -
  have f: "filter (\<lambda>r. gr_user_id r \<in> set ids \<and> gr_day r = day \<and> gr_user_id r = u) rows =
      filter (\<lambda>r. gr_user_id r = u \<and> gr_day r = day) rows" for rows
    using assms by (auto intro: filter_cong3)
  have "filter (\<lambda>r. gr_user_id r = u \<and> gr_day r = day) (db_grants d) = []"
    if "u \<notin> gr_user_id ` set (filter (\<lambda>r. gr_user_id r \<in> set ids \<and> gr_day r = day) (db_grants d))"
    using not_in_batch [OF that] by (simp only: conj_assoc f)
  then show ?thesis
    using assms by (auto simp: grants_totals_batch_def dict_get_or_def dict_get_group_by f grants_total_def)
qed

lemma map_of_rows:
  "map_of (map (\<lambda>r. (key r, val r)) (filter (\<lambda>r. P (key r) \<and> Q r) rows)) k =
    (if P k then map_option val (find (\<lambda>r. key r = k \<and> Q r) rows) else None)"
  by (induction rows) auto

lemma overrides_batch_single:
  assumes "u \<in> set ids"
  shows "dict_get (day_overrides_batch ids day d) u = map_option dov_limit_seconds (day_override u day d)"
proof -
  have "find (\<lambda>r. dov_user_id r = u \<and> dov_day r = day) rows = find_row day_override_key (u, day) rows" for rows
    by (induction rows) (auto simp: day_override_key_def)
  then show ?thesis
    using assms map_of_rows [of dov_user_id dov_limit_seconds "\<lambda>i. i \<in> set ids" "\<lambda>r. dov_day r = day" "db_day_overrides d" u]
    by (auto simp: day_overrides_batch_def dict_get_def day_override_def)
qed

lemma released_batch_single:
  assumes "u \<in> set ids"
  shows "u \<in> set (gate_releases_batch ids day d) \<longleftrightarrow> is_gate_released u day d"
proof -
  have "is_gate_released u day d \<longleftrightarrow> (u, day) \<in> release_key ` set (db_releases d)"
    using find_row_None_iff [of release_key "(u, day)" "db_releases d"] by (simp add: is_gate_released_def)
  then show ?thesis using assms by (auto simp: gate_releases_batch_def release_key_def)
qed

lemma greatest_join_keys: "fst ` set (greatest_join a b) = fst ` set a \<union> fst ` set b"
  by (simp add: greatest_join_def image_image image_Un)

lemma group_keys_within: "fst ` set (group_by key val (filter (\<lambda>r. key r \<in> S \<and> Q r) rows)) \<subseteq> S"
  using group_by_keys [of key val "filter (\<lambda>r. key r \<in> S \<and> Q r) rows"] by auto

lemma wallclock_batch_keys: "fst ` set (global_spent_wallclock_batch agg ids day d) \<subseteq> set ids"
  by (cases "ids = []") (simp_all add: global_spent_wallclock_batch_def greatest_join_keys group_keys_within)

lemma parallel_batch_keys: "fst ` set (global_spent_parallel_batch ids day d) \<subseteq> set ids"
  by (cases "ids = []") (simp_all add: global_spent_parallel_batch_def group_keys_within)

lemma spent_batch_single:
  assumes "user \<in> set users" "unique_on usr_id users"
  shows "dict_get_or (sb_spent (load_batches agg day users d)) (usr_id user) 0 = spent_today agg user day d"
proof -
  let ?w = "map usr_id (filter (\<lambda>u. usr_accounting_mode u = ''wallclock'') users)"
    and ?p = "map usr_id (filter (\<lambda>u. usr_accounting_mode u \<noteq> ''wallclock'') users)"
  have same: "v = user" if "v \<in> set users" "usr_id user = usr_id v" for v
    using assms that by (auto simp: unique_on_def distinct_map inj_on_def)
  have other: "usr_id user \<notin> set (map usr_id (filter Q users))" if "\<not> Q user" for Q
    using same that unfolding set_map set_filter by blast
  have own: "usr_id user \<in> set (map usr_id (filter Q users))" if "Q user" for Q
    using assms(1) that by simp
  have none: "dict_get (global_spent_parallel_batch ?p day d) (usr_id user) = None" if "usr_id user \<notin> set ?p"
  proof -
    note parallel_batch_keys [of ?p day d]
    then show ?thesis using that unfolding dict_get_def map_of_eq_None_iff by blast
  qed
  have none': "dict_get (global_spent_wallclock_batch agg ?w day d) (usr_id user) = None" if "usr_id user \<notin> set ?w"
  proof -
    note wallclock_batch_keys [of agg ?w day d]
    then show ?thesis using that unfolding dict_get_def map_of_eq_None_iff by blast
  qed
  have app: "dict_get (a @ b) k = (case dict_get a k of None \<Rightarrow> dict_get b k | Some v \<Rightarrow> Some v)"
    for a b :: "(uuid, int) dict" and k
    by (cases "map_of a k") (simp_all add: dict_get_def map_add_def)
  show ?thesis
  proof (cases "usr_accounting_mode user = ''wallclock''")
    case True
    then have "usr_id user \<in> set ?w" "usr_id user \<notin> set ?p" by (intro own other; simp)+
    then show ?thesis
      using True none wallclock_batch_single [of "usr_id user" ?w agg day d]
      by (simp add: load_batches_def Let_def dict_get_or_def app spent_today_def)
  next
    case False
    then have "usr_id user \<in> set ?p" "usr_id user \<notin> set ?w" by (intro own other; simp)+
    then show ?thesis
      using False none' parallel_batch_single [of "usr_id user" ?p day d]
      by (cases "dict_get (global_spent_parallel_batch ?p day d) (usr_id user)")
        (simp_all add: load_batches_def Let_def dict_get_or_def app spent_today_def)
  qed
qed

lemma rsequence_map_mem:
  assumes "rsequence (map f xs) = Inr ys" "y \<in> set ys"
  shows "\<exists>x \<in> set xs. f x = Inr y"
proof -
  have "map f xs = map Inr ys" using assms(1) by (simp only: rsequence_Inr_iff)
  moreover have "Inr y \<in> set (map Inr ys)" using assms(2) by simp
  ultimately have "Inr y \<in> f ` set xs" by (simp only: set_map [symmetric])
  then show ?thesis by (metis imageE)
qed

lemma find_row_filtered:
  assumes "find_row key i (filter (\<lambda>p. key p \<in> S) ps) = Some p"
  shows "find_row key i ps = Some p"
proof -
  have "i \<in> S" using find_row_mem [OF assms] find_row_key [OF assms] by simp
  then have "find_row key i (filter (\<lambda>p. key p \<in> S) ps) = find_row key i ps" by (induction ps) auto
  with assms show ?thesis by simp
qed

lemma summary_of_Inr:
  assumes "summary_of poll_ms now day b user = Inr row" "sm_policy row = Some p"
  shows "(case usr_current_policy_id user of None \<Rightarrow> None | Some i \<Rightarrow> find_row pol_id i (sb_policies b)) = Some p"
    and "\<exists>dflt. base_daily_limit p day = Inr dflt \<and>
      sm_today_effective_limit_s row = combine_limit (dict_get_or (sb_overrides b) (usr_id user) dflt)
        (dict_get_or (sb_grants b) (usr_id user) 0) (is_gated_weekday user day) (usr_id user \<in> set (sb_released b))"
    and "sm_user row = user"
    and "sm_today_global_spent_s row = dict_get_or (sb_spent b) (usr_id user) 0"
    and "sm_gated_today row = (is_gated_weekday user day \<and> usr_id user \<notin> set (sb_released b))"
proof -
  let ?p = "case usr_current_policy_id user of None \<Rightarrow> None | Some i \<Rightarrow> find_row pol_id i (sb_policies b)"
  show p: "?p = Some p"
    using assms by (cases ?p) (auto simp: summary_of_def Let_def rbind_Inr_iff split: prod.splits)
  show "\<exists>dflt. base_daily_limit p day = Inr dflt \<and>
      sm_today_effective_limit_s row = combine_limit (dict_get_or (sb_overrides b) (usr_id user) dflt)
        (dict_get_or (sb_grants b) (usr_id user) 0) (is_gated_weekday user day) (usr_id user \<in> set (sb_released b))"
    "sm_user row = user" "sm_today_global_spent_s row = dict_get_or (sb_spent b) (usr_id user) 0"
    "sm_gated_today row = (is_gated_weekday user day \<and> usr_id user \<notin> set (sb_released b))"
    using assms(1) by (auto simp: summary_of_def Let_def p rbind_Inr_iff split: prod.splits)
qed

subsection \<open>The properties\<close>

text \<open>C31. The dashboard, \<open>GET /users\<close> and enforcement agree: a row of a user that has a policy shows the user's
  current policy, exactly the limit and the spent seconds that \<open>POST /sync\<close> would answer for that user on this
  day, and says gated exactly when the gate has set that limit to zero.\<close>

theorem summary_agrees_with_sync:
  assumes "hub_ok d" "compute_user_summaries agg cfg now usernames d = Inr rows" "row \<in> set rows"
    and "canonical_stamp (Aware now) (hub_zone cfg) = Inr stamp" "sm_policy row = Some p"
  shows "sm_user row \<in> set (db_users d) \<and> get_current_policy (sm_user row) d = Some p \<and>
    effective_daily_limit p (sm_user row) (st_day stamp) d = Inr (sm_today_effective_limit_s row) \<and>
    sm_today_global_spent_s row = spent_today agg (sm_user row) (st_day stamp) d \<and>
    (sm_gated_today row \<longrightarrow> sm_today_effective_limit_s row = 0)"
proof -
  define day where "day = st_day stamp"
  define users where "users = filter (\<lambda>u. case usernames of None \<Rightarrow> True | Some ns \<Rightarrow> usr_canonical_username u \<in> set ns) (db_users d)"
  define b where "b = load_batches agg day users d"
  have "(if users = [] then Inr [] else rsequence (map (summary_of (default_next_poll_ms cfg) now day b) users)) = Inr rows"
    using assms(2) unfolding compute_user_summaries_def assms(4) rbind_simps Let_def users_def b_def day_def .
  moreover from this have "users \<noteq> []" using assms(3) by auto
  ultimately have "rsequence (map (summary_of (default_next_poll_ms cfg) now day b) users) = Inr rows" by simp
  from rsequence_map_mem [OF this assms(3)] obtain user where u: "user \<in> set users"
    and row: "summary_of (default_next_poll_ms cfg) now day b user = Inr row"
    by blast
  note r = summary_of_Inr [OF row assms(5)]
  have uniq: "unique_on usr_id users"
    using assms(1) unfolding users_def by (intro unique_filter) (simp add: hub_ok_def tables_ok_def users_ok_def)
  have id: "usr_id user \<in> set (map usr_id users)" using u by simp
  have "sb_policies b = filter (\<lambda>p. pol_id p \<in> set (List.map_filter usr_current_policy_id users)) (db_policies d)"
    by (simp add: b_def load_batches_def Let_def)
  then have cur: "get_current_policy user d = Some p"
    using r(1) find_row_filtered [of pol_id] by (auto simp: get_current_policy_def split: option.splits)
  have batch: "sb_overrides b = day_overrides_batch (map usr_id users) day d"
    "sb_grants b = grants_totals_batch (map usr_id users) day d"
    "sb_released b = gate_releases_batch (map usr_id users) day d"
    by (simp_all add: b_def load_batches_def Let_def)
  obtain dflt where dflt: "base_daily_limit p day = Inr dflt"
    and lim: "sm_today_effective_limit_s row = combine_limit (dict_get_or (sb_overrides b) (usr_id user) dflt)
        (dict_get_or (sb_grants b) (usr_id user) 0) (is_gated_weekday user day) (usr_id user \<in> set (sb_released b))"
    using r(2) by blast
  have "effective_daily_limit p user day d = Inr (sm_today_effective_limit_s row)"
    unfolding lim batch dict_get_or_def [of "day_overrides_batch _ _ _"]
      overrides_batch_single [OF id] grants_batch_single [OF id] released_batch_single [OF id]
    using dflt by (cases "day_override (usr_id user) day d") (simp_all add: effective_daily_limit_def Let_def combine_limit_def)
  moreover have "sm_today_global_spent_s row = spent_today agg user day d"
    unfolding r(4) b_def by (rule spent_batch_single [OF u uniq])
  moreover have "sm_gated_today row \<longrightarrow> sm_today_effective_limit_s row = 0"
    by (simp add: r(5) lim combine_limit_def)
  ultimately show ?thesis using u cur r(3) by (simp add: users_def day_def)
qed

subsection \<open>The statistics page\<close>

lemma stamp_day_valid: "canonical_stamp (Aware i) tz = Inr stamp \<Longrightarrow> valid_date (st_day stamp)"
  using fromordinal_spec by (auto simp: canonical_stamp_def local_date_def rbind_Inr_iff Let_def split: if_splits prod.splits)

lemma date_le_iff: "valid_date a \<Longrightarrow> valid_date b \<Longrightarrow> a \<le> b \<longleftrightarrow> toordinal a \<le> toordinal b"
  using toordinal_less_iff [of b a] by (auto simp: date_less_iff not_le [symmetric])

lemma map_of_window:
  "lo \<le> k \<and> k \<le> hi \<Longrightarrow> map_of (map (\<lambda>r. (day r, val r)) (filter (\<lambda>r. uid r = u \<and> lo \<le> day r \<and> day r \<le> hi) rows)) k =
    map_option val (find (\<lambda>r. uid r = u \<and> day r = k) rows)"
  by (induction rows) auto

lemma history_single:
  assumes "lo \<le> day \<and> day \<le> hi"
  shows "dict_get_or (grants_totals_history u lo hi d) day 0 = grants_total u day d"
    and "dict_get (day_overrides_history u lo hi d) day = map_option dov_limit_seconds (day_override u day d)"
    and "day \<in> set (gate_releases_history u lo hi d) \<longleftrightarrow> is_gate_released u day d"
proof -
  have f: "filter (\<lambda>r. gr_user_id r = u \<and> lo \<le> gr_day r \<and> gr_day r \<le> hi \<and> gr_day r = day) rows =
      filter (\<lambda>r. gr_user_id r = u \<and> gr_day r = day) rows" for rows
    using assms by (auto intro: filter_cong3)
  have "filter (\<lambda>r. gr_user_id r = u \<and> gr_day r = day) (db_grants d) = []"
    if "day \<notin> gr_day ` set (filter (\<lambda>r. gr_user_id r = u \<and> lo \<le> gr_day r \<and> gr_day r \<le> hi) (db_grants d))"
    using not_in_batch [OF that] by (simp only: conj_assoc f)
  then show "dict_get_or (grants_totals_history u lo hi d) day 0 = grants_total u day d"
    by (cases "day \<in> gr_day ` set (filter (\<lambda>r. gr_user_id r = u \<and> lo \<le> gr_day r \<and> gr_day r \<le> hi) (db_grants d))")
      (simp_all only: grants_totals_history_def dict_get_or_def dict_get_group_by grants_total_def filter_filter conj_assoc f
        if_True if_False option.case list.map sum_list.Nil not_False_eq_True)
  have "find (\<lambda>r. dov_user_id r = u \<and> dov_day r = day) rows = find_row day_override_key (u, day) rows" for rows
    by (induction rows) (auto simp: day_override_key_def)
  then show "dict_get (day_overrides_history u lo hi d) day = map_option dov_limit_seconds (day_override u day d)"
    using map_of_window [OF assms, of dov_day dov_limit_seconds dov_user_id u "db_day_overrides d"]
    by (simp add: day_overrides_history_def dict_get_def day_override_def)
  have "is_gate_released u day d \<longleftrightarrow> (u, day) \<in> release_key ` set (db_releases d)"
    using find_row_None_iff [of release_key "(u, day)" "db_releases d"] by (simp add: is_gate_released_def)
  then show "day \<in> set (gate_releases_history u lo hi d) \<longleftrightarrow> is_gate_released u day d"
    using assms by (auto simp: gate_releases_history_def release_key_def)
qed

lemma day_usage_of_Some:
  assumes "day_usage_of user (Some p) spent grants overrides released hours day = Inr x"
  shows "\<exists>dflt. base_daily_limit p day = Inr dflt \<and>
    du_limit_s x = combine_limit (dict_get_or overrides day dflt) (dict_get_or grants day 0) (is_gated_weekday user day)
      (day \<in> set released) \<and> du_spent_s x = dict_get_or spent day 0 \<and> du_day x = day"
  using assms by (auto simp: day_usage_of_def Let_def rbind_Inr_iff)

text \<open>The days of the history, each from the single-day answers.\<close>

lemma history_days:
  assumes "compute_usage_history agg tz now user policy n d = Inr h" "x \<in> set (uh_days h)"
  shows "\<exists>lo hi hours k. 0 \<le> k \<and> k < n \<and> lo \<le> du_day x \<and> du_day x \<le> hi \<and> add_days lo k = Inr (du_day x) \<and>
    day_usage_of user policy (global_spent_wallclock_history agg (usr_id user) lo hi d)
      (grants_totals_history (usr_id user) lo hi d) (day_overrides_history (usr_id user) lo hi d)
      (gate_releases_history (usr_id user) lo hi d) hours (du_day x) = Inr x"
proof -
  obtain stamp lo hours where st: "canonical_stamp (Aware now) tz = Inr stamp"
    and lo: "add_days (st_day stamp) (- (n - 1)) = Inr lo"
    and days: "rsequence (map (\<lambda>offset. rbind (add_days lo offset)
            (day_usage_of user policy (global_spent_wallclock_history agg (usr_id user) lo (st_day stamp) d)
               (grants_totals_history (usr_id user) lo (st_day stamp) d)
               (day_overrides_history (usr_id user) lo (st_day stamp) d)
               (gate_releases_history (usr_id user) lo (st_day stamp) d) hours)) [0..n - 1]) = Inr (uh_days h)"
    using assms(1) by (auto simp: compute_usage_history_def Let_def rbind_Inr_iff)
  let ?f = "\<lambda>offset. rbind (add_days lo offset)
            (day_usage_of user policy (global_spent_wallclock_history agg (usr_id user) lo (st_day stamp) d)
               (grants_totals_history (usr_id user) lo (st_day stamp) d)
               (day_overrides_history (usr_id user) lo (st_day stamp) d)
               (gate_releases_history (usr_id user) lo (st_day stamp) d) hours)"
  obtain k where k: "k \<in> set [0..n - 1]" and fk: "?f k = Inr x" using rsequence_map_mem [OF days assms(2)] by blast
  from fk obtain day where day: "add_days lo k = Inr day"
    and u: "day_usage_of user policy (global_spent_wallclock_history agg (usr_id user) lo (st_day stamp) d)
      (grants_totals_history (usr_id user) lo (st_day stamp) d) (day_overrides_history (usr_id user) lo (st_day stamp) d)
      (gate_releases_history (usr_id user) lo (st_day stamp) d) hours day = Inr x"
    unfolding rbind_Inr_iff by (elim exE conjE) (rule that)
  have x: "du_day x = day" using u by (auto simp: day_usage_of_def rbind_Inr_iff Let_def)
  note o = add_days_Inr [OF lo] add_days_Inr [OF day] stamp_day_valid [OF st]
  have "lo \<le> day" "day \<le> st_day stamp" using o k by (simp_all add: date_le_iff)
  then show ?thesis using day u x k by auto
qed

text \<open>Every day of the statistics page shows the limit that enforcement uses on that day. Its spent seconds are
  those of the wall-clock account whatever the user's accounting mode, so for a user accounted in parallel they
  are not the seconds that \<open>POST /sync\<close> charges.\<close>

theorem history_is_wallclock:
  assumes "compute_usage_history agg tz now user (Some p) n d = Inr h" "x \<in> set (uh_days h)"
  shows "effective_daily_limit p user (du_day x) d = Inr (du_limit_s x) \<and>
    du_spent_s x = global_spent_wallclock agg (usr_id user) (du_day x) d \<and>
    (usr_accounting_mode user \<noteq> ''wallclock'' \<longrightarrow> spent_today agg user (du_day x) d = global_spent_parallel (usr_id user) (du_day x) d)"
proof -
  obtain lo hi hours where w: "lo \<le> du_day x \<and> du_day x \<le> hi"
    and u: "day_usage_of user (Some p) (global_spent_wallclock_history agg (usr_id user) lo hi d)
      (grants_totals_history (usr_id user) lo hi d) (day_overrides_history (usr_id user) lo hi d)
      (gate_releases_history (usr_id user) lo hi d) hours (du_day x) = Inr x"
    using history_days [OF assms] by blast
  obtain dflt where dflt: "base_daily_limit p (du_day x) = Inr dflt"
    and lim: "du_limit_s x = combine_limit (dict_get_or (day_overrides_history (usr_id user) lo hi d) (du_day x) dflt)
        (dict_get_or (grants_totals_history (usr_id user) lo hi d) (du_day x) 0) (is_gated_weekday user (du_day x))
        (du_day x \<in> set (gate_releases_history (usr_id user) lo hi d))"
    and sp: "du_spent_s x = dict_get_or (global_spent_wallclock_history agg (usr_id user) lo hi d) (du_day x) 0"
    using day_usage_of_Some [OF u] by (elim exE conjE) (rule that)
  have "effective_daily_limit p user (du_day x) d = Inr (du_limit_s x)"
    unfolding lim dict_get_or_def [of "day_overrides_history _ _ _ _"] history_single [OF w]
    using dflt by (cases "day_override (usr_id user) (du_day x) d")
      (simp_all add: effective_daily_limit_def Let_def combine_limit_def)
  then show ?thesis using sp wallclock_history_single [OF w] by (simp add: spent_today_def)
qed

subsection \<open>Witnesses\<close>

text \<open>Monday noon, 6 May 2024.\<close>

definition sample_noon :: instant where
  "sample_noon = 1714996800000000"

definition sample_settings :: hub_settings where
  "sample_settings = \<lparr>hub_tz_name = ''UTC'', hub_zone = (\<lambda>_. 0), default_next_poll_ms = 20000\<rparr>"

lemma sample_stamp: "\<exists>stamp. canonical_stamp (Aware sample_noon) (\<lambda>_. 0) = Inr stamp \<and> st_day stamp = sample_day"
proof -
  have "case canonical_stamp (Aware sample_noon) (\<lambda>_. 0) of Inr stamp \<Rightarrow> st_day stamp = sample_day | Inl _ \<Rightarrow> False"
    by code_simp
  then show ?thesis by (auto split: sum.splits)
qed

lemma summary_agrees_with_sync_witness:
  "\<exists>row. compute_user_summaries sweep_agg sample_settings sample_noon None sample_home = Inr [row] \<and>
     get_current_policy (sm_user row) sample_home = sm_policy row \<and> sm_policy row \<noteq> None \<and>
     sm_today_global_spent_s row = spent_today sweep_agg (sm_user row) sample_day sample_home"
proof -
  have "case compute_user_summaries sweep_agg sample_settings sample_noon None sample_home of
      Inr [row] \<Rightarrow> sm_policy row \<noteq> None | _ \<Rightarrow> False"
    by code_simp
  then obtain row p where r: "compute_user_summaries sweep_agg sample_settings sample_noon None sample_home = Inr [row]"
    and p: "sm_policy row = Some p"
    by (auto split: sum.splits list.splits)
  obtain stamp where st: "canonical_stamp (Aware sample_noon) (hub_zone sample_settings) = Inr stamp" "st_day stamp = sample_day"
    using sample_stamp by (auto simp: sample_settings_def)
  from summary_agrees_with_sync [OF sample_home_ok r _ st(1) p] st(2) p r show ?thesis by auto
qed

text \<open>Anna accounted in parallel: the page shows 45 minutes, the sync charges an hour.\<close>

lemma history_is_wallclock_witness:
  "\<exists>h x. compute_usage_history sweep_agg (\<lambda>_. 0) sample_noon (sample_user\<lparr>usr_accounting_mode := ''parallel''\<rparr>)
       (Some sample_policy_row) 1 sample_home = Inr h \<and> uh_days h = [x] \<and> du_day x = sample_day \<and> du_spent_s x = 2700 \<and>
     spent_today sweep_agg (sample_user\<lparr>usr_accounting_mode := ''parallel''\<rparr>) sample_day sample_home = 3600"
proof -
  let ?u = "sample_user\<lparr>usr_accounting_mode := ''parallel''\<rparr>"
  have "case compute_usage_history sweep_agg (\<lambda>_. 0) sample_noon ?u (Some sample_policy_row) 1 sample_home of
      Inr h \<Rightarrow> map du_day (uh_days h) = [sample_day] | Inl _ \<Rightarrow> False"
    by code_simp
  then obtain h x where h: "compute_usage_history sweep_agg (\<lambda>_. 0) sample_noon ?u (Some sample_policy_row) 1 sample_home = Inr h"
    and x: "uh_days h = [x]" "du_day x = sample_day"
    by (auto split: sum.splits)
  have mem: "x \<in> set (uh_days h)" by (simp add: x)
  from history_is_wallclock [OF h mem] have "du_spent_s x = global_spent_wallclock sweep_agg 1 sample_day sample_home"
    and par: "spent_today sweep_agg ?u sample_day sample_home = global_spent_parallel 1 sample_day sample_home"
    by (simp_all add: x(2) sample_user_def)
  moreover have "global_spent_wallclock sweep_agg 1 sample_day sample_home = 2700" by code_simp
  moreover have "global_spent_parallel 1 sample_day sample_home = 3600" by code_simp
  ultimately show ?thesis using h x par by auto
qed

end
