(* ===== verification/Admin_Users.thy ===== *)
theory Admin_Users
  imports Sync Admin_Auth
begin

section \<open>The user-scoped admin API\<close>

text \<open>
  Models \<open>hub/timekpr_hub/api/admin/users.py\<close> and the helpers of \<open>api/util.py\<close>: grants, the policy,
  the per-date exceptions, the gate and the per-user settings. Each definition is one endpoint: the
  session gate, the validation of the body, the lookup of the user, the change, its audit record.
\<close>

subsection \<open>Dates in requests\<close>

text \<open>
  Python's \<open>date.fromisoformat\<close>: calendar dates and week dates, each with or without hyphens; a
  week date without its day means the Monday.
\<close>

definition digits_of :: "string \<Rightarrow> int result" where
  "digits_of s = (if s = [] then Inl ValueError else case digits_value 0 s of None \<Rightarrow> Inl ValueError | Some n \<Rightarrow> Inr n)"

definition week_date :: "string \<Rightarrow> string \<Rightarrow> string \<Rightarrow> date result" where
  "week_date y w wd =
     rbind (digits_of y) (\<lambda>y. rbind (digits_of w) (\<lambda>w. rbind (digits_of wd) (\<lambda>wd.
       let o1 = iso_week1_monday y + 7 * (w - 1) + (wd - 1)
       in if \<not> (1 \<le> y \<and> y \<le> 9999 \<and> 1 \<le> w \<and> 1 \<le> wd \<and> wd \<le> 7 \<and>
                (w \<le> 52 \<or> w = 53 \<and> iso_week1_monday (y + 1) = iso_week1_monday y + 371)) then Inl ValueError
          else if 0 < o1 \<and> o1 \<le> max_ordinal then Inr (fromordinal o1) else Inl ValueError)))"

definition calendar_date :: "string \<Rightarrow> string \<Rightarrow> string \<Rightarrow> date result" where
  "calendar_date y m d = rbind (digits_of y) (\<lambda>y. rbind (digits_of m) (\<lambda>m. rbind (digits_of d) (mk_date y m)))"

definition date_fromisoformat :: "string \<Rightarrow> date result" where
  "date_fromisoformat s =
     (let y = take 4 s; t = drop 4 s in
      if length s = 10 \<and> s ! 4 = CHR ''-'' \<and> s ! 5 = CHR ''W'' \<and> s ! 8 = CHR ''-'' then week_date y (take 2 (drop 6 s)) (drop 9 s)
      else if length s = 10 \<and> s ! 4 = CHR ''-'' \<and> s ! 7 = CHR ''-'' then calendar_date y (take 2 (drop 5 s)) (drop 8 s)
      else if length s = 8 \<and> s ! 4 = CHR ''-'' \<and> s ! 5 = CHR ''W'' then week_date y (drop 6 s) ''1''
      else if length s = 8 \<and> s ! 4 = CHR ''W'' then week_date y (take 2 (drop 5 s)) (drop 7 s)
      else if length s = 8 then calendar_date y (take 2 t) (drop 2 t)
      else if length s = 7 \<and> s ! 4 = CHR ''W'' then week_date y (drop 5 s) ''1''
      else Inl ValueError)"

subsection \<open>Helpers\<close>

definition get_user_or_404 :: "username \<Rightarrow> db \<Rightarrow> user_row result" where
  "get_user_or_404 username d =
     (case find_row usr_canonical_username username (db_users d) of None \<Rightarrow> Inl (HTTPException 404) | Some user \<Rightarrow> Inr user)"

definition wire_intervals :: "hour_record list \<Rightarrow> wire_hour list result" where
  "wire_intervals records = rsequence (map wire_of_record records)"

text \<open>What every change of a user records.\<close>

definition audit_user :: "instant \<Rightarrow> uuid \<Rightarrow> string \<Rightarrow> username \<Rightarrow> json option \<Rightarrow> json option \<Rightarrow> string option \<Rightarrow> db \<Rightarrow> db result" where
  "audit_user now actor action username before after ip d =
     record_audit_event now ''admin'' (Some (uuid_str actor)) action (Some ''user'') (Some username) before after ip d"

definition audit_cleared :: "bool \<Rightarrow> instant \<Rightarrow> uuid \<Rightarrow> string \<Rightarrow> username \<Rightarrow> string \<Rightarrow> string option \<Rightarrow> db \<Rightarrow> db result" where
  "audit_cleared cleared now actor action username day ip d =
     (if cleared then audit_user now actor action username (Some (JObj [(''day'', JStr day)])) None ip d else Inr d)"

definition day_hour_override_intervals :: "day_hours_create \<Rightarrow> wire_hour list result" where
  "day_hour_override_intervals body =
     (if dhc_mode body = Unrestricted then wire_intervals (intervals_to_hours unrestricted)
      else rbind (mk_interval (dhc_from_min body) (dhc_to_min body) (dhc_unaccounted body)) (\<lambda>interval.
        if validate_intervals [interval] \<noteq> None then Inl (HTTPException 422)
        else wire_intervals (intervals_to_hours [interval])))"

subsection \<open>Grants and the policy\<close>

definition create_grant :: "(string \<Rightarrow> string) \<Rightarrow> hub_settings \<Rightarrow> instant \<Rightarrow> string option \<Rightarrow> username \<Rightarrow> grant_create
    \<Rightarrow> string option \<Rightarrow> db \<Rightarrow> ((uuid \<times> seconds \<times> string) \<times> db) result" where
  "create_grant hash cfg now cookie username body ip d =
     rbind (get_current_admin_api hash now cookie d) (\<lambda>admin.
     rbind (check_grant_create body) (\<lambda>body.
     rbind (get_user_or_404 username d) (\<lambda>user.
     rbind (if str_or (gc_day body) '''' \<noteq> '''' then date_fromisoformat (str_or (gc_day body) '''')
            else rbind (canonical_stamp (Aware now) (hub_zone cfg)) (\<lambda>stamp. Inr (st_day stamp))) (\<lambda>grant_day.
     case uuid4 d of (i, d) \<Rightarrow>
       rbind (add_grant \<lparr>gr_id = i, gr_user_id = usr_id user, gr_day = grant_day, gr_seconds = gc_seconds body,
           gr_reason = Some (gc_reason body), gr_source = ''admin'', gr_granted_by = Some ''admin-api'', gr_created_at = now\<rparr> d) (\<lambda>d.
       rbind (audit_user now (adm_id admin) ''grant.create'' username None
           (Some (JObj [(''seconds'', JNum (gc_seconds body)), (''day'', JStr (isoformat grant_day)), (''reason'', JStr (gc_reason body))]))
           ip d) (\<lambda>d. Inr ((i, gc_seconds body, isoformat grant_day), d)))))))"

definition update_user_policy :: "(string \<Rightarrow> string) \<Rightarrow> instant \<Rightarrow> string option \<Rightarrow> username \<Rightarrow> policy_update
    \<Rightarrow> string option \<Rightarrow> db \<Rightarrow> (policy_payload \<times> db) result" where
  "update_user_policy hash now cookie username body ip d =
     rbind (get_current_admin_api hash now cookie d) (\<lambda>admin.
     rbind (check_policy_update body) (\<lambda>body.
     rbind (get_user_or_404 username d) (\<lambda>user.
     rbind (case get_current_policy user d of None \<Rightarrow> Inr None
            | Some p \<Rightarrow> rbind (policy_to_payload p) (\<lambda>b. Inr (Some (payload_json b)))) (\<lambda>before.
     rbind (update_policy now (usr_id user) body ''admin-api'' d) (\<lambda>(policy, d).
     rbind (policy_to_payload policy) (\<lambda>after.
     rbind (audit_user now (adm_id admin) ''policy.update'' username before (Some (payload_json after)) ip d) (\<lambda>d.
       Inr (after, d))))))))"

subsection \<open>Per-date exceptions\<close>

definition set_user_day_override :: "(string \<Rightarrow> string) \<Rightarrow> instant \<Rightarrow> string option \<Rightarrow> username \<Rightarrow> day_override_create
    \<Rightarrow> string option \<Rightarrow> db \<Rightarrow> ((uuid \<times> string \<times> seconds) \<times> db) result" where
  "set_user_day_override hash now cookie username body ip d =
     rbind (get_current_admin_api hash now cookie d) (\<lambda>admin.
     rbind (check_day_override_create body) (\<lambda>body.
     rbind (get_user_or_404 username d) (\<lambda>user.
     rbind (date_fromisoformat (doc_day body)) (\<lambda>day.
     rbind (set_day_override now (usr_id user) day (doc_limit_seconds body) (doc_reason body) ''admin-api'' d) (\<lambda>(ov, d).
     rbind (audit_user now (adm_id admin) ''override.set'' username None
         (Some (JObj [(''day'', JStr (doc_day body)), (''limit_seconds'', JNum (doc_limit_seconds body)), (''reason'', JStr (doc_reason body))]))
         ip d) (\<lambda>d. Inr ((dov_id ov, doc_day body, dov_limit_seconds ov), d)))))))"

definition clear_user_day_override :: "(string \<Rightarrow> string) \<Rightarrow> instant \<Rightarrow> string option \<Rightarrow> username \<Rightarrow> string
    \<Rightarrow> string option \<Rightarrow> db \<Rightarrow> ((string \<times> bool) \<times> db) result" where
  "clear_user_day_override hash now cookie username day ip d =
     rbind (get_current_admin_api hash now cookie d) (\<lambda>admin.
     rbind (get_user_or_404 username d) (\<lambda>user.
     rbind (date_fromisoformat day) (\<lambda>date.
     case clear_day_override (usr_id user) date d of (cleared, d) \<Rightarrow>
       rbind (audit_cleared cleared now (adm_id admin) ''override.clear'' username day ip d) (\<lambda>d. Inr ((day, cleared), d)))))"

definition set_user_day_hour_override :: "(string \<Rightarrow> string) \<Rightarrow> instant \<Rightarrow> string option \<Rightarrow> username \<Rightarrow> day_hours_create
    \<Rightarrow> string option \<Rightarrow> db \<Rightarrow> ((uuid \<times> string \<times> hours_mode) \<times> db) result" where
  "set_user_day_hour_override hash now cookie username body ip d =
     rbind (get_current_admin_api hash now cookie d) (\<lambda>admin.
     rbind (check_day_hours_create body) (\<lambda>body.
     rbind (get_user_or_404 username d) (\<lambda>user.
     rbind (date_fromisoformat (dhc_day body)) (\<lambda>day.
     let allowed_weekdays = list_or (case get_current_policy user d of None \<Rightarrow> [] | Some p \<Rightarrow> pol_allowed_weekdays p) WEEKDAY_TOKENS
     in if str_of_int (isoweekday day) \<notin> set allowed_weekdays then Inl (HTTPException 422)
        else rbind (day_hour_override_intervals body) (\<lambda>intervals.
          rbind (set_day_hour_override now (usr_id user) day intervals (dhc_reason body) ''admin-api'' d) (\<lambda>(ov, d).
          rbind (audit_user now (adm_id admin) ''day_hours.set'' username None
              (Some (JObj [(''day'', JStr (dhc_day body)),
                 (''mode'', JStr (case dhc_mode body of Unrestricted \<Rightarrow> ''unrestricted'' | Window \<Rightarrow> ''window'')),
                 (''reason'', JStr (dhc_reason body))])) ip d) (\<lambda>d.
            Inr ((hov_id ov, dhc_day body, dhc_mode body), d))))))))"

definition clear_user_day_hour_override :: "(string \<Rightarrow> string) \<Rightarrow> instant \<Rightarrow> string option \<Rightarrow> username \<Rightarrow> string
    \<Rightarrow> string option \<Rightarrow> db \<Rightarrow> ((string \<times> bool) \<times> db) result" where
  "clear_user_day_hour_override hash now cookie username day ip d =
     rbind (get_current_admin_api hash now cookie d) (\<lambda>admin.
     rbind (get_user_or_404 username d) (\<lambda>user.
     rbind (date_fromisoformat day) (\<lambda>date.
     case clear_day_hour_override (usr_id user) date d of (cleared, d) \<Rightarrow>
       rbind (audit_cleared cleared now (adm_id admin) ''day_hours.clear'' username day ip d) (\<lambda>d. Inr ((day, cleared), d)))))"

subsection \<open>The gate and the settings\<close>

definition release_user_gate :: "(string \<Rightarrow> string) \<Rightarrow> instant \<Rightarrow> string option \<Rightarrow> username \<Rightarrow> gate_release_create
    \<Rightarrow> string option \<Rightarrow> db \<Rightarrow> ((uuid \<times> string) \<times> db) result" where
  "release_user_gate hash now cookie username body ip d =
     rbind (get_current_admin_api hash now cookie d) (\<lambda>admin.
     rbind (check_gate_release_create body) (\<lambda>body.
     rbind (get_user_or_404 username d) (\<lambda>user.
     rbind (date_fromisoformat (grc_day body)) (\<lambda>day.
     rbind (release_gate now (usr_id user) day ''admin-api'' (grc_note body) d) (\<lambda>(release, d).
     rbind (audit_user now (adm_id admin) ''gate.release'' username None
         (Some (JObj [(''day'', JStr (grc_day body)), (''note'', JStr (grc_note body))])) ip d) (\<lambda>d.
       Inr ((rel_id release, grc_day body), d)))))))"

definition unrelease_user_gate :: "(string \<Rightarrow> string) \<Rightarrow> instant \<Rightarrow> string option \<Rightarrow> username \<Rightarrow> string
    \<Rightarrow> string option \<Rightarrow> db \<Rightarrow> ((string \<times> bool) \<times> db) result" where
  "unrelease_user_gate hash now cookie username day ip d =
     rbind (get_current_admin_api hash now cookie d) (\<lambda>admin.
     rbind (get_user_or_404 username d) (\<lambda>user.
     rbind (date_fromisoformat day) (\<lambda>date.
     case unrelease_gate (usr_id user) date d of (unreleased, d) \<Rightarrow>
       rbind (audit_cleared unreleased now (adm_id admin) ''gate.unrelease'' username day ip d) (\<lambda>d. Inr ((day, unreleased), d)))))"

definition settings_json :: "string list \<Rightarrow> string \<Rightarrow> string \<Rightarrow> seconds \<Rightarrow> seconds \<Rightarrow> json" where
  "settings_json gated accounting offline grace cap =
     JObj [(''gated_weekdays'', JArr (map JStr gated)), (''accounting_mode'', JStr accounting),
           (''offline_policy'', JStr offline), (''offline_grace_s'', JNum grace), (''offline_cap_s'', JNum cap)]"

definition user_settings_json :: "user_row \<Rightarrow> json" where
  "user_settings_json u = settings_json (usr_gated_weekdays u) (usr_accounting_mode u) (usr_offline_policy u)
     (usr_offline_grace_s u) (usr_offline_cap_s u)"

text \<open>The assignment of the five settings and its audit record, shared with the UI.\<close>

definition store_settings :: "instant \<Rightarrow> uuid \<Rightarrow> user_row \<Rightarrow> username \<Rightarrow> string list \<Rightarrow> string \<Rightarrow> string \<Rightarrow> seconds \<Rightarrow> seconds
    \<Rightarrow> string option \<Rightarrow> db \<Rightarrow> (json \<times> db) result" where
  "store_settings now actor user username gated accounting offline grace cap ip d =
     (let after = settings_json gated accounting offline grace cap
      in rbind (update_user (usr_id user) (\<lambda>u. u\<lparr>usr_gated_weekdays := gated, usr_accounting_mode := accounting,
             usr_offline_policy := offline, usr_offline_grace_s := grace, usr_offline_cap_s := cap\<rparr>) d) (\<lambda>d.
         rbind (audit_user now actor ''user_settings.update'' username (Some (user_settings_json user)) (Some after) ip d) (\<lambda>d.
           Inr (after, d))))"

definition update_user_settings :: "(string \<Rightarrow> string) \<Rightarrow> instant \<Rightarrow> string option \<Rightarrow> username \<Rightarrow> user_settings_update
    \<Rightarrow> string option \<Rightarrow> db \<Rightarrow> (json \<times> db) result" where
  "update_user_settings hash now cookie username body ip d =
     rbind (get_current_admin_api hash now cookie d) (\<lambda>admin.
     rbind (check_user_settings_update body) (\<lambda>body.
     rbind (get_user_or_404 username d) (\<lambda>user.
       store_settings now (adm_id admin) user username (usu_gated_weekdays body)
         (accounting_mode_value (usu_accounting_mode body)) (offline_policy_value (usu_offline_policy body))
         (usu_offline_grace_s body) (usu_offline_cap_s body) ip d)))"

end
