(* ===== verification/Policy_Editor.thy ===== *)
theory Policy_Editor
  imports Admin_Users Py_Text
begin

section \<open>The policy editor\<close>

text \<open>
  Models \<open>hub/timekpr_hub/api/ui/policy.py\<close>: how a stored day of allowed hours is shown (all day,
  one window, or an hour grid), how the submitted form becomes a \<open>PolicyUpdate\<close>, and the two routes.
  A form is its dictionary of text fields. An exception that no handler of the code catches is the
  \<open>Inl\<close> of that exception, as everywhere. The property: saving the editor's page unchanged keeps
  the policy, field by field, for every policy the editor itself can write.
\<close>

type_synonym form = "(string, string) dict"

subsection \<open>Showing a day\<close>

record hm =
  hm_h :: int
  hm_m :: int

definition split_hm :: "seconds \<Rightarrow> hm" where
  "split_hm total_s = (let total_m = total_s div 60 in \<lparr>hm_h = total_m div 60, hm_m = total_m mod 60\<rparr>)"

definition full_day :: "int \<times> int" where
  "full_day = (0, 24 * 60)"

definition between_seed :: "int \<times> int" where
  "between_seed = (9 * 60, 17 * 60)"

datatype day_mode = All_Day | Between | Custom

record day_view =
  dv_mode :: day_mode
  dv_from_min :: int
  dv_to_min :: int
  dv_hours :: "int set"
  dv_unaccounted :: bool

definition record_of_wire :: "wire_hour \<Rightarrow> hour_record" where
  "record_of_wire iv = \<lparr>hr_hour = wh_hour iv, hr_start_min = wh_start_min iv, hr_end_min = wh_end_min iv,
     hr_unaccounted = wh_unaccounted iv\<rparr>"

definition all_day_view :: day_view where
  "all_day_view = \<lparr>dv_mode = All_Day, dv_from_min = fst between_seed, dv_to_min = snd between_seed,
     dv_hours = {0..<24}, dv_unaccounted = False\<rparr>"

definition classify_day_hours :: "wire_hour list option \<Rightarrow> day_view result" where
  "classify_day_hours intervals =
     (case intervals of
        None \<Rightarrow> Inr all_day_view
      | Some ivs \<Rightarrow>
          rbind (hours_to_intervals (map record_of_wire ivs)) (\<lambda>merged.
            let hours = set (map wh_hour ivs);
                unacc = (ivs \<noteq> [] \<and> list_all wh_unaccounted ivs)
            in if merged = [] then
                 Inr \<lparr>dv_mode = Custom, dv_from_min = fst between_seed, dv_to_min = snd between_seed,
                      dv_hours = hours, dv_unaccounted = unacc\<rparr>
               else if length merged = 1 \<and> (start_min (hd merged), end_min (hd merged)) = full_day then
                 Inr all_day_view
               else if length merged = 1 \<and> \<not> unaccounted (hd merged) then
                 Inr \<lparr>dv_mode = Between, dv_from_min = start_min (hd merged), dv_to_min = end_min (hd merged),
                      dv_hours = hours, dv_unaccounted = False\<rparr>
               else
                 Inr \<lparr>dv_mode = Custom, dv_from_min = 0, dv_to_min = 0, dv_hours = hours, dv_unaccounted = unacc\<rparr>))"

text \<open>\<open>f"{n:02d}"\<close>.\<close>

definition two_digits :: "int \<Rightarrow> string" where
  "two_digits n = (let s = str_of_int n in replicate (2 - length s) CHR ''0'' @ s)"

definition fmt_hm :: "int \<Rightarrow> string" where
  "fmt_hm total_min = two_digits (total_min div 60) @ CHR '':'' # two_digits (total_min mod 60)"

text \<open>The column's JSON list is validated again on its way to the page.\<close>

definition to_wire_intervals :: "wire_hour list option \<Rightarrow> wire_hour list option result" where
  "to_wire_intervals raw =
     (case raw of None \<Rightarrow> Inr None
      | Some ivs \<Rightarrow> rbind (rsequence (map (checked valid_wire_hour) ivs)) (\<lambda>ivs. Inr (Some ivs)))"

text \<open>\<open>From_To a b\<close> is the text of the two times with an en dash between.\<close>

datatype hours_text = Any_Time | From_To string string | Custom_Hours

definition hours_display :: "wire_hour list option \<Rightarrow> hours_text result" where
  "hours_display intervals =
     rbind (classify_day_hours intervals) (\<lambda>c.
       Inr (case dv_mode c of
              All_Day \<Rightarrow> Any_Time
            | Between \<Rightarrow> From_To (fmt_hm (dv_from_min c)) (fmt_hm (dv_to_min c))
            | Custom \<Rightarrow> Custom_Hours))"

record policy_view =
  pv_version :: int
  pv_daily_same :: bool
  pv_daily_master :: hm
  pv_daily_per_day :: "hm list"
  pv_hours_by_day :: "(string, day_view \<times> string \<times> string) dict"
  pv_weekly_enabled :: bool
  pv_weekly :: hm
  pv_monthly_enabled :: bool
  pv_monthly :: hm
  pv_allowed_weekdays :: "string set"
  pv_lockout_type :: string
  pv_wake_from :: string
  pv_wake_to :: string
  pv_track_inactive :: bool
  pv_hide_tray_icon :: bool
  pv_note :: string
  pv_playtime :: playtime_payload
  pv_pt_allowed_weekdays :: "string set"
  pv_pt_daily :: "hm list"
  pv_pt_activities_text :: string

fun join_lines :: "string list \<Rightarrow> string" where
  "join_lines [] = []"
| "join_lines [l] = l"
| "join_lines (l # ls) = l @ CHR 0x0A # join_lines ls"

definition policy_view_model :: "policy_payload \<Rightarrow> policy_view result" where
  "policy_view_model payload =
     rbind (rsequence (map (\<lambda>day. rbind (classify_day_hours (dict_get (pp_allowed_hours payload) day)) (\<lambda>v.
              Inr (day, v, fmt_hm (dv_from_min v), fmt_hm (dv_to_min v)))) WEEKDAY_TOKENS)) (\<lambda>hours_by_day.
     rbind (py_index (pp_daily_limits_s payload) 0) (\<lambda>first.
       Inr \<lparr>pv_version = pp_version payload,
            pv_daily_same = (card (set (pp_daily_limits_s payload)) = 1),
            pv_daily_master = split_hm first,
            pv_daily_per_day = map split_hm (pp_daily_limits_s payload),
            pv_hours_by_day = hours_by_day,
            pv_weekly_enabled = (pp_weekly_limit_s payload < 7 * 86400),
            pv_weekly = split_hm (pp_weekly_limit_s payload),
            pv_monthly_enabled = (pp_monthly_limit_s payload < 31 * 86400),
            pv_monthly = split_hm (pp_monthly_limit_s payload),
            pv_allowed_weekdays = set (list_or (pp_allowed_weekdays payload) WEEKDAY_TOKENS),
            pv_lockout_type = lockout_value (pp_lockout_type payload),
            pv_wake_from = str_or (pp_wake_from payload) '''', pv_wake_to = str_or (pp_wake_to payload) '''',
            pv_track_inactive = pp_track_inactive payload, pv_hide_tray_icon = pp_hide_tray_icon payload,
            pv_note = pp_note payload, pv_playtime = pp_playtime payload,
            pv_pt_allowed_weekdays = set (pt_allowed_weekdays (pp_playtime payload)),
            pv_pt_daily = map split_hm (pt_daily_limits_s (pp_playtime payload)),
            pv_pt_activities_text =
              join_lines (map (\<lambda>a. pa_mask a @ CHR ''|'' # pa_description a) (pt_activities (pp_playtime payload)))\<rparr>))"

subsection \<open>Reading the form\<close>

definition checkbox :: "form \<Rightarrow> string \<Rightarrow> bool" where
  "checkbox form name \<longleftrightarrow> dict_get form name \<noteq> None"

text \<open>\<open>int(form.get(name, 0) or 0)\<close>: an absent or empty field is 0, another text must be a number.\<close>

definition form_int :: "form \<Rightarrow> string \<Rightarrow> int result" where
  "form_int form name = (case dict_get form name of None \<Rightarrow> Inr 0 | Some t \<Rightarrow> if t = '''' then Inr 0 else py_int t)"

definition hm_seconds :: "form \<Rightarrow> string \<Rightarrow> string \<Rightarrow> seconds result" where
  "hm_seconds form h_name m_name =
     rbind (form_int form h_name) (\<lambda>h. rbind (form_int form m_name) (\<lambda>m.
       Inr (max 0 h * 3600 + max 0 (min m 59) * 60)))"

text \<open>A malformed time is a 422 that names the field; the text of the message is not modelled.\<close>

definition parse_time_str :: "string \<Rightarrow> int result" where
  "parse_time_str value =
     (case split_at CHR '':'' value of
        [hh, mm] \<Rightarrow>
          (case (py_int hh, py_int mm) of
             (Inr h, Inr m) \<Rightarrow>
               let total = h * 60 + m
               in if 0 \<le> total \<and> total \<le> 24 * 60 then Inr total else Inl (HTTPException 422)
           | _ \<Rightarrow> Inl (HTTPException 422))
      | _ \<Rightarrow> Inl (HTTPException 422))"

definition window_hours :: "int \<Rightarrow> int \<Rightarrow> wire_hour list result" where
  "window_hours from_min to_min =
     (case mk_interval from_min to_min False of
        Inl _ \<Rightarrow> Inl (HTTPException 422)
      | Inr interval \<Rightarrow>
          if validate_intervals [interval] \<noteq> None then Inl (HTTPException 422)
          else wire_intervals (intervals_to_hours [interval]))"

definition parse_day_hours :: "form \<Rightarrow> string \<Rightarrow> wire_hour list result" where
  "parse_day_hours form day =
     (let mode = dict_get_or form (''hours_mode_'' @ day) ''all''
      in if mode = ''all'' then wire_intervals (intervals_to_hours unrestricted)
         else if mode = ''between'' then
           rbind (parse_time_str (dict_get_or form (''hours_from_'' @ day) '''')) (\<lambda>from_min.
           rbind (parse_time_str (dict_get_or form (''hours_to_'' @ day) '''')) (\<lambda>to_min.
             window_hours from_min to_min))
         else
           let checked_hours = filter (\<lambda>h. checkbox form (''hh_'' @ day @ ''_'' @ str_of_int h)) [0..23];
               unacc = checkbox form (''unaccounted_'' @ day)
           in if checked_hours = [] then Inl (HTTPException 422)
              else rsequence (map (\<lambda>h. mk_wire_hour h 0 60 unacc) checked_hours))"

fun parse_activities :: "string list \<Rightarrow> playtime_activity list result" where
  "parse_activities [] = Inr []"
| "parse_activities (raw # ls) =
     (let line = py_strip raw; (mask, description) = partition_on CHR ''|'' line
      in if line = [] \<or> py_strip mask = [] then parse_activities ls
         else rbind (checked valid_playtime_activity \<lparr>pa_mask = py_strip mask, pa_description = py_strip description\<rparr>) (\<lambda>a.
              rbind (parse_activities ls) (\<lambda>as. Inr (a # as))))"

text \<open>\<open>form.get(name) or None\<close>.\<close>

definition text_or_none :: "form \<Rightarrow> string \<Rightarrow> string option" where
  "text_or_none form name = (if dict_get_or form name '''' = '''' then None else dict_get form name)"

definition parse_daily_limits :: "form \<Rightarrow> seconds list result" where
  "parse_daily_limits form =
     (if dict_get_or form ''daily_mode'' ''same'' = ''same''
      then rbind (hm_seconds form ''daily_h'' ''daily_m'') (\<lambda>master_s. Inr (replicate 7 master_s))
      else rsequence (map (\<lambda>i. hm_seconds form (''daily_h_'' @ str_of_int i) (''daily_m_'' @ str_of_int i)) [0..6]))"

text \<open>
  The pieces of the form in the order the code reads them. PlayTime activities are built outside
  the \<open>try\<close>, so their ValidationError is not turned into a 422.
\<close>

definition parse_policy_form :: "form \<Rightarrow> policy_update result" where
  "parse_policy_form form =
     rbind (parse_daily_limits form) (\<lambda>daily_limits_s.
     rbind (rsequence (map (\<lambda>day. rbind (parse_day_hours form day) (\<lambda>hs. Inr (day, hs))) WEEKDAY_TOKENS)) (\<lambda>allowed_hours.
     let allowed_weekdays = filter (\<lambda>d. checkbox form (''allowed_weekday_'' @ d)) WEEKDAY_TOKENS
     in if allowed_weekdays = [] then Inl (HTTPException 422)
        else case lockout_of (dict_get_or form ''lockout_type'' ''lock'') of
            Inl _ \<Rightarrow> Inl (HTTPException 422)
          | Inr lockout_type \<Rightarrow>
     rbind (if checkbox form ''weekly_cap_enabled'' then hm_seconds form ''weekly_h'' ''weekly_m'' else Inr (7 * 86400)) (\<lambda>weekly_limit_s.
     rbind (if checkbox form ''monthly_cap_enabled'' then hm_seconds form ''monthly_h'' ''monthly_m'' else Inr (31 * 86400)) (\<lambda>monthly_limit_s.
     rbind (rsequence (map (\<lambda>i. hm_seconds form (''pt_daily_h_'' @ str_of_int i) (''pt_daily_m_'' @ str_of_int i)) [0..6])) (\<lambda>pt_daily_limits_s.
     rbind (parse_activities (splitlines (dict_get_or form ''pt_activities'' ''''))) (\<lambda>pt_activities.
       case check_policy_update
         \<lparr>pu_daily_limits_s = daily_limits_s, pu_weekly_limit_s = weekly_limit_s, pu_monthly_limit_s = monthly_limit_s,
          pu_allowed_weekdays = allowed_weekdays, pu_allowed_hours = allowed_hours, pu_lockout_type = lockout_type,
          pu_wake_from = text_or_none form ''wake_from'', pu_wake_to = text_or_none form ''wake_to'',
          pu_track_inactive = checkbox form ''track_inactive'', pu_hide_tray_icon = checkbox form ''hide_tray_icon'',
          pu_playtime = \<lparr>pt_enabled = checkbox form ''pt_enabled'', pt_override_enabled = checkbox form ''pt_override'',
            pt_unaccounted_intervals_enabled = checkbox form ''pt_unaccounted'',
            pt_allowed_weekdays = filter (\<lambda>d. checkbox form (''pt_allowed_weekday_'' @ d)) WEEKDAY_TOKENS,
            pt_daily_limits_s = pt_daily_limits_s, pt_activities = pt_activities\<rparr>,
          pu_note = dict_get_or form ''note'' ''''\<rparr> of
         Inl _ \<Rightarrow> Inl (HTTPException 422)
       | Inr update \<Rightarrow> Inr update))))))"

subsection \<open>The routes\<close>

record policy_page =
  pg_username :: username
  pg_display_name :: string
  pg_policy :: policy_view
  pg_today :: string
  pg_today_override :: "hours_text option"

text \<open>
  The page is computed after the commit of a policy that had to be created, so a failure there is
  the inner result and does not undo it.
\<close>

definition user_policy_page :: "(string \<Rightarrow> string) \<Rightarrow> hub_settings \<Rightarrow> instant \<Rightarrow> string option \<Rightarrow> username \<Rightarrow> db
    \<Rightarrow> (policy_page result \<times> db) result" where
  "user_policy_page hash cfg now cookie username d =
     rbind (get_current_admin_ui hash now cookie d) (\<lambda>_.
     rbind (get_user_or_404 username d) (\<lambda>user.
     rbind (get_or_create_policy now (usr_id user) None d) (\<lambda>(policy, d).
     rbind (canonical_stamp (Aware now) (hub_zone cfg)) (\<lambda>stamp.
       Inr (rbind (policy_to_payload policy) (\<lambda>payload.
            rbind (policy_view_model payload) (\<lambda>p.
            rbind (case day_hour_override (usr_id user) (st_day stamp) d of
                     None \<Rightarrow> Inr None
                   | Some ov \<Rightarrow> rbind (to_wire_intervals (Some (hov_intervals ov))) (\<lambda>ivs.
                       rbind (hours_display ivs) (\<lambda>t. Inr (Some t)))) (\<lambda>shown.
              Inr \<lparr>pg_username = username, pg_display_name = usr_display_name user, pg_policy = p,
                   pg_today = day_str stamp, pg_today_override = shown\<rparr>))), d)))))"

definition update_policy_ui :: "(string \<Rightarrow> string) \<Rightarrow> instant \<Rightarrow> string option \<Rightarrow> username \<Rightarrow> form \<Rightarrow> string option \<Rightarrow> db
    \<Rightarrow> db result" where
  "update_policy_ui hash now cookie username form ip d =
     rbind (get_current_admin_ui hash now cookie d) (\<lambda>admin.
     rbind (get_user_or_404 username d) (\<lambda>user.
     rbind (parse_policy_form form) (\<lambda>update.
     rbind (get_or_create_policy now (usr_id user) None d) (\<lambda>(before_policy, d).
     rbind (policy_to_payload before_policy) (\<lambda>before.
     rbind (update_policy now (usr_id user) update ''ui'' d) (\<lambda>(policy, d).
     rbind (policy_to_payload policy) (\<lambda>after.
       audit_user now (adm_id admin) ''policy.update'' username (Some (payload_json before)) (Some (payload_json after)) ip d)))))))"

subsection \<open>What an unchanged page submits\<close>

text \<open>
  The template renders a day's view as fields; a browser submits them as they are, except that an
  \<open><input type=time>\<close> accepts 00:00 to 23:59 and submits the empty text for any other value.
\<close>

definition time_input :: "string \<Rightarrow> string" where
  "time_input s =
     (case map digit_value s of
        [Some a, Some b, None, Some c, Some d] \<Rightarrow>
          if s ! 2 = CHR '':'' \<and> 10 * a + b \<le> 23 \<and> 10 * c + d \<le> 59 then s else ''''
      | _ \<Rightarrow> '''')"

definition mode_text :: "day_mode \<Rightarrow> string" where
  "mode_text m = (case m of All_Day \<Rightarrow> ''all'' | Between \<Rightarrow> ''between'' | Custom \<Rightarrow> ''custom'')"

definition day_form :: "string \<Rightarrow> day_view \<Rightarrow> form" where
  "day_form day v =
     [(''hours_mode_'' @ day, mode_text (dv_mode v)),
      (''hours_from_'' @ day, time_input (fmt_hm (dv_from_min v))),
      (''hours_to_'' @ day, time_input (fmt_hm (dv_to_min v)))] @
     map (\<lambda>h. (''hh_'' @ day @ ''_'' @ str_of_int h, ''on'')) (filter (\<lambda>h. h \<in> dv_hours v) [0..23]) @
     (if dv_unaccounted v then [(''unaccounted_'' @ day, ''on'')] else [])"

lemma two_digits_parse:
  assumes "0 \<le> n" "n < 60"
  shows "\<exists>a b. two_digits n = [a, b] \<and> a \<noteq> CHR '':'' \<and> b \<noteq> CHR '':'' \<and> py_int [a, b] = Inr n \<and>
    (\<exists>x y. digit_value a = Some x \<and> digit_value b = Some y \<and> 10 * x + y = n)"
proof -
  have "list_all (\<lambda>n. case two_digits n of [a, b] \<Rightarrow> a \<noteq> CHR '':'' \<and> b \<noteq> CHR '':'' \<and> py_int [a, b] = Inr n \<and>
      (case (digit_value a, digit_value b) of (Some x, Some y) \<Rightarrow> 10 * x + y = n | _ \<Rightarrow> False) | _ \<Rightarrow> False) [0..59]"
    by code_simp
  then have "(case two_digits n of [a, b] \<Rightarrow> a \<noteq> CHR '':'' \<and> b \<noteq> CHR '':'' \<and> py_int [a, b] = Inr n \<and>
      (case (digit_value a, digit_value b) of (Some x, Some y) \<Rightarrow> 10 * x + y = n | _ \<Rightarrow> False) | _ \<Rightarrow> False)"
    using assms by (simp add: list_all_iff)
  then show ?thesis by (auto split: list.splits option.splits)
qed

lemma fmt_hm_fields:
  assumes "0 \<le> n" "n \<le> 24 * 60"
  shows "parse_time_str (fmt_hm n) = Inr n" "time_input (fmt_hm n) = (if n < 24 * 60 then fmt_hm n else '''')"
proof -
  have "0 \<le> n div 60" "n div 60 < 60" using assms by linarith+
  from two_digits_parse [OF this] obtain a b x y where h: "two_digits (n div 60) = [a, b]" "a \<noteq> CHR '':''" "b \<noteq> CHR '':''" "py_int [a, b] = Inr (n div 60)"
      "digit_value a = Some x" "digit_value b = Some y" "10 * x + y = n div 60"
    by blast
  obtain c d z w where m: "two_digits (n mod 60) = [c, d]" "c \<noteq> CHR '':''" "d \<noteq> CHR '':''" "py_int [c, d] = Inr (n mod 60)"
      "digit_value c = Some z" "digit_value d = Some w" "10 * z + w = n mod 60"
    using two_digits_parse [of "n mod 60"] by (meson pos_mod_bound pos_mod_sign zero_less_numeral)
  have f: "fmt_hm n = [a, b, CHR '':'', c, d]" by (simp add: fmt_hm_def h(1) m(1))
  have "split_at CHR '':'' (fmt_hm n) = [[a, b], [c, d]]" using h m by (simp add: f)
  moreover have "n div 60 * 60 + n mod 60 = n" by simp
  ultimately show "parse_time_str (fmt_hm n) = Inr n" using assms by (simp add: parse_time_str_def h m)
  have "digit_value CHR '':'' = None" by code_simp
  moreover have "n div 60 \<le> 23 \<longleftrightarrow> n < 24 * 60" "n mod 60 \<le> 59" using assms by linarith+
  ultimately show "time_input (fmt_hm n) = (if n < 24 * 60 then fmt_hm n else '''')"
    using h m by (simp add: time_input_def f)
qed

lemma day_form_fields:
  "dict_get_or (day_form day v) (''hours_mode_'' @ day) dflt = mode_text (dv_mode v)"
  "dict_get_or (day_form day v) (''hours_from_'' @ day) dflt = time_input (fmt_hm (dv_from_min v))"
  "dict_get_or (day_form day v) (''hours_to_'' @ day) dflt = time_input (fmt_hm (dv_to_min v))"
  "checkbox (day_form day v) (''unaccounted_'' @ day) = dv_unaccounted v"
  "0 \<le> h \<Longrightarrow> h < 24 \<Longrightarrow> checkbox (day_form day v) (''hh_'' @ day @ ''_'' @ str_of_int h) = (h \<in> dv_hours v)"
proof -
  show "dict_get_or (day_form day v) (''hours_mode_'' @ day) dflt = mode_text (dv_mode v)"
    "dict_get_or (day_form day v) (''hours_from_'' @ day) dflt = time_input (fmt_hm (dv_from_min v))"
    "dict_get_or (day_form day v) (''hours_to_'' @ day) dflt = time_input (fmt_hm (dv_to_min v))"
    by (simp_all add: day_form_def dict_get_or_def dict_get_def)
  have "checkbox (day_form day v) k = (k \<in> fst ` set (day_form day v))" for k
    using map_of_eq_None_iff [of "day_form day v" k] by (auto simp: checkbox_def dict_get_def)
  moreover have "fst ` set (day_form day v) = {''hours_mode_'' @ day, ''hours_from_'' @ day, ''hours_to_'' @ day} \<union>
      (\<lambda>h. ''hh_'' @ day @ ''_'' @ str_of_int h) ` {h \<in> {0..<24}. h \<in> dv_hours v} \<union>
      (if dv_unaccounted v then {''unaccounted_'' @ day} else {})"
  proof -
    have "{h \<in> {0..23}. h \<in> dv_hours v} = {h \<in> {0..<24}. h \<in> dv_hours v}" by auto
    then show ?thesis by (simp add: day_form_def image_Un image_image insert_commute Un_assoc)
  qed
  ultimately have k: "checkbox (day_form day v) k \<longleftrightarrow> k \<in> {''hours_mode_'' @ day, ''hours_from_'' @ day, ''hours_to_'' @ day} \<or>
      k \<in> (\<lambda>h. ''hh_'' @ day @ ''_'' @ str_of_int h) ` {h \<in> {0..<24}. h \<in> dv_hours v} \<or>
      dv_unaccounted v \<and> k = ''unaccounted_'' @ day" for k
    by simp
  show "checkbox (day_form day v) (''unaccounted_'' @ day) = dv_unaccounted v"
    unfolding k by auto
  show "checkbox (day_form day v) (''hh_'' @ day @ ''_'' @ str_of_int h) = (h \<in> dv_hours v)" if "0 \<le> h" "h < 24"
    unfolding k using that str_of_int_inject [of h] by auto
qed

subsection \<open>The hours a saved day holds\<close>

definition wire_of :: "hour_record \<Rightarrow> wire_hour" where
  "wire_of r = \<lparr>wh_hour = hr_hour r, wh_start_min = hr_start_min r, wh_end_min = hr_end_min r, wh_unaccounted = hr_unaccounted r\<rparr>"

lemma record_wire [simp]: "record_of_wire (wire_of r) = r" "wire_of (record_of_wire w) = w"
  by (simp_all add: wire_of_def record_of_wire_def)

lemma wire_fields [simp]:
  "wh_hour (wire_of r) = hr_hour r" "wh_unaccounted (wire_of r) = hr_unaccounted r"
  by (simp_all add: wire_of_def)

lemma wire_intervals_proper:
  assumes "\<forall>r \<in> set rs. proper_record r"
  shows "wire_intervals rs = Inr (map wire_of rs)"
proof -
  have "wire_of_record r = Inr (wire_of r)" if "proper_record r" for r
    using that by (simp add: wire_of_record_def mk_wire_hour_def checked_def wire_of_def valid_wire_hour_def in_bounds_def proper_record_def)
  then show ?thesis using assms by (auto simp: wire_intervals_def rsequence_Inr_iff)
qed

lemma window_records:
  assumes "valid_interval iv"
  shows "wire_intervals (intervals_to_hours [iv]) = Inr (map wire_of (intervals_to_hours [iv]))"
    and "hours_to_intervals (intervals_to_hours [iv]) = Inr [iv]" "intervals_to_hours [iv] \<noteq> []"
    and "r \<in> set (intervals_to_hours [iv]) \<Longrightarrow> hr_unaccounted r = unaccounted iv"
proof -
  have v: "\<forall>iv' \<in> set [iv]. valid_interval iv'" using assms by simp
  show "wire_intervals (intervals_to_hours [iv]) = Inr (map wire_of (intervals_to_hours [iv]))"
    using intervals_to_hours_proper [OF v] by (blast intro: wire_intervals_proper)
  have "validate_intervals [iv] = None" by (simp add: validate_intervals_def)
  from intervals_roundtrip [OF v this] show "hours_to_intervals (intervals_to_hours [iv]) = Inr [iv]" by simp
  show "intervals_to_hours [iv] \<noteq> []" using first_record(4) [OF assms] by simp
  show "r \<in> set (intervals_to_hours [iv]) \<Longrightarrow> hr_unaccounted r = unaccounted iv" by auto
qed

lemma window_hours_Inr:
  "window_hours s e = Inr ivs \<longleftrightarrow>
     valid_interval (itv s e False) \<and> ivs = map wire_of (intervals_to_hours [itv s e False])"
proof (cases "valid_interval (itv s e False)")
  case True
  from mk_interval_valid [OF this] window_records(1) [OF this] True show ?thesis
    by (auto simp: window_hours_def validate_intervals_def)
next
  case False
  then have "mk_interval s e False = Inl ValueError" by (auto simp: mk_interval_def valid_interval_def)
  with False show ?thesis by (simp add: window_hours_def)
qed

text \<open>What a day of the form may save: one window, or whole hours with one flag.\<close>

definition whole_hours :: "int list \<Rightarrow> bool \<Rightarrow> wire_hour list" where
  "whole_hours hs u = map (\<lambda>h. \<lparr>wh_hour = h, wh_start_min = 0, wh_end_min = 60, wh_unaccounted = u\<rparr>) hs"

lemma parse_day_hours_Inr:
  assumes "parse_day_hours form day = Inr ivs"
  shows "(\<exists>s e. window_hours s e = Inr ivs) \<or>
    (\<exists>P u. ivs = whole_hours (filter P [0..23]) u \<and> filter P [0..23] \<noteq> [])"
proof -
  have grid: "rsequence (map (\<lambda>h. mk_wire_hour h 0 60 u) hs) = Inr (whole_hours hs u)" if "set hs \<subseteq> {0..23}" for hs u
    using that by (auto simp: rsequence_Inr_iff whole_hours_def mk_wire_hour_def checked_def valid_wire_hour_def in_bounds_def)
  let ?P = "\<lambda>h. checkbox form (''hh_'' @ day @ ''_'' @ str_of_int h)"
  have "unrestricted = [itv 0 (24 * 60) False]" by (simp add: unrestricted_def hours_in_day_def)
  moreover have "valid_interval (itv 0 (24 * 60) False)" by (simp add: valid_interval_def)
  ultimately have all: "wire_intervals (intervals_to_hours unrestricted) = Inr ivs \<Longrightarrow> window_hours 0 (24 * 60) = Inr ivs"
    using window_records(1) [of "itv 0 (24 * 60) False"] by (simp add: window_hours_Inr del: intervals_to_hours_simps)
  consider (all) "wire_intervals (intervals_to_hours unrestricted) = Inr ivs"
    | (window) s e where "window_hours s e = Inr ivs"
    | (grid) "filter ?P [0..23] \<noteq> []"
        "rsequence (map (\<lambda>h. mk_wire_hour h 0 60 (checkbox form (''unaccounted_'' @ day))) (filter ?P [0..23])) = Inr ivs"
    using assms by (auto simp: parse_day_hours_def Let_def rbind_Inr_iff split: if_splits)
  then show ?thesis
  proof cases
    case all'': all
    then show ?thesis using all by blast
  next
    case window
    then show ?thesis by blast
  next
    case grid': grid
    have "set (filter ?P [0..23]) \<subseteq> {0..23}" by auto
    from grid [OF this] grid' show ?thesis by auto
  qed
qed

lemma classify_window:
  assumes "valid_interval iv" "\<not> unaccounted iv"
  shows "classify_day_hours (Some (map wire_of (intervals_to_hours [iv]))) =
    Inr (if (start_min iv, end_min iv) = full_day then all_day_view
         else \<lparr>dv_mode = Between, dv_from_min = start_min iv, dv_to_min = end_min iv,
               dv_hours = hr_hour ` set (intervals_to_hours [iv]), dv_unaccounted = False\<rparr>)"
  using window_records(2) [OF assms(1)] assms(2)
  by (simp add: classify_day_hours_def comp_def image_image del: intervals_to_hours_simps)

lemma classify_grid:
  assumes "hs = filter P [0..23]" "hs \<noteq> []"
  shows "\<exists>m. classify_day_hours (Some (whole_hours hs u)) =
      Inr (if length m = 1 \<and> (start_min (hd m), end_min (hd m)) = full_day then all_day_view
           else if length m = 1 \<and> \<not> u then
             \<lparr>dv_mode = Between, dv_from_min = start_min (hd m), dv_to_min = end_min (hd m), dv_hours = set hs, dv_unaccounted = False\<rparr>
           else \<lparr>dv_mode = Custom, dv_from_min = 0, dv_to_min = 0, dv_hours = set hs, dv_unaccounted = u\<rparr>) \<and>
    (length m = 1 \<longrightarrow> valid_interval (hd m) \<and> unaccounted (hd m) = u \<and> whole_hours hs u = map wire_of (intervals_to_hours [hd m]))"
proof -
  let ?rs = "map record_of_wire (whole_hours hs u)"
  have wf: "sorted hs" "distinct hs" "set hs \<subseteq> {0..23}" unfolding assms(1) by (auto simp: sorted_wrt_filter)
  have hours: "map hr_hour ?rs = hs" by (simp add: whole_hours_def record_of_wire_def comp_def)
  have "\<forall>r \<in> set ?rs. proper_record r" using wf(3)
    by (auto simp: whole_hours_def record_of_wire_def proper_record_def)
  from hours_roundtrip [OF this] hours wf(2) obtain m where m: "hours_to_intervals ?rs = Inr m"
      "\<forall>iv \<in> set m. valid_interval iv" "intervals_to_hours m = sort_key hr_hour ?rs" by auto
  have rs: "intervals_to_hours m = ?rs"
    using m(3) hours wf(1) by (simp add: sort_key_id_if_sorted del: map_map)
  have ne: "m \<noteq> []" using rs assms(2) by (auto simp: whole_hours_def)
  have one: "valid_interval (hd m) \<and> unaccounted (hd m) = u \<and> whole_hours hs u = map wire_of (intervals_to_hours [hd m])"
    if l: "length m = 1"
  proof -
    obtain iv where iv: "m = [iv]" using l by (auto simp: length_Suc_conv)
    then have r: "intervals_to_hours [iv] = ?rs" and v: "valid_interval iv" using rs m(2) by simp_all
    have "map wire_of (intervals_to_hours [iv]) = whole_hours hs u" unfolding r by (simp add: comp_def)
    moreover have "hd ?rs \<in> set (intervals_to_hours [iv])" unfolding r using assms(2) by (cases hs) (simp_all add: whole_hours_def)
    then have "hr_unaccounted (hd ?rs) = unaccounted iv" by (rule window_records(4) [OF v])
    then have "unaccounted iv = u" using assms(2) by (cases hs) (simp_all add: whole_hours_def record_of_wire_def)
    ultimately show ?thesis using iv v by simp
  qed
  have "whole_hours hs u \<noteq> [] \<and> list_all wh_unaccounted (whole_hours hs u) \<longleftrightarrow> u"
    using assms(2) by (cases hs) (auto simp: whole_hours_def list_all_iff)
  moreover have "set (map wh_hour (whole_hours hs u)) = set hs" by (simp add: whole_hours_def comp_def)
  ultimately have "classify_day_hours (Some (whole_hours hs u)) =
      Inr (if length m = 1 \<and> (start_min (hd m), end_min (hd m)) = full_day then all_day_view
           else if length m = 1 \<and> \<not> u then
             \<lparr>dv_mode = Between, dv_from_min = start_min (hd m), dv_to_min = end_min (hd m), dv_hours = set hs, dv_unaccounted = False\<rparr>
           else \<lparr>dv_mode = Custom, dv_from_min = 0, dv_to_min = 0, dv_hours = set hs, dv_unaccounted = u\<rparr>)"
    using m(1) ne one by (auto simp: classify_day_hours_def Let_def)
  then show ?thesis using one by blast
qed

lemma resubmit:
  assumes "dv_hours v \<subseteq> {0..23}"
  shows "parse_day_hours (day_form day v) day =
    (case dv_mode v of
       All_Day \<Rightarrow> window_hours 0 (24 * 60)
     | Between \<Rightarrow> rbind (parse_time_str (time_input (fmt_hm (dv_from_min v)))) (\<lambda>s.
         rbind (parse_time_str (time_input (fmt_hm (dv_to_min v)))) (window_hours s))
     | Custom \<Rightarrow> (let hs = filter (\<lambda>h. h \<in> dv_hours v) [0..23]
                   in if hs = [] then Inl (HTTPException 422) else Inr (whole_hours hs (dv_unaccounted v))))"
proof -
  have "unrestricted = [itv 0 (24 * 60) False]" by (simp add: unrestricted_def hours_in_day_def)
  moreover have v: "valid_interval (itv 0 (24 * 60) False)" by (simp add: valid_interval_def)
  ultimately have all: "wire_intervals (intervals_to_hours unrestricted) = window_hours 0 (24 * 60)"
    using window_records(1) [OF v] window_hours_Inr [of 0 "24 * 60"] by (simp del: intervals_to_hours_simps) metis
  have boxes: "filter (\<lambda>h. checkbox (day_form day v) (''hh_'' @ day @ ''_'' @ str_of_int h)) [0..23] = filter (\<lambda>h. h \<in> dv_hours v) [0..23]"
    using day_form_fields(5) [of _ day v] by (intro filter_cong) auto
  have grid: "rsequence (map (\<lambda>h. mk_wire_hour h 0 60 u) (filter P [0..23])) = Inr (whole_hours (filter P [0..23]) u)" for P u
    by (auto simp: rsequence_Inr_iff whole_hours_def mk_wire_hour_def checked_def valid_wire_hour_def in_bounds_def)
  show ?thesis
    unfolding parse_day_hours_def Let_def day_form_fields(1-4) boxes grid all
    by (simp add: mode_text_def split: day_mode.split)
qed

lemma time_fields:
  assumes "0 \<le> s" "s < e" "e \<le> 24 * 60"
  shows "rbind (parse_time_str (time_input (fmt_hm s))) (\<lambda>s. rbind (parse_time_str (time_input (fmt_hm e))) (f s)) =
    (if e = 24 * 60 then Inl (HTTPException 422) else f s e)"
proof -
  have "parse_time_str '''' = Inl (HTTPException 422)" by (simp add: parse_time_str_def)
  then show ?thesis using assms fmt_hm_fields [of s] fmt_hm_fields [of e] by auto
qed

lemma no_flag:
  assumes "\<forall>r \<in> set rs. \<not> hr_unaccounted r"
  shows "map (\<lambda>w. w\<lparr>wh_unaccounted := False\<rparr>) (map wire_of rs) = map wire_of rs"
  using assms by (auto simp: wire_of_def)

definition resaves :: "string \<Rightarrow> wire_hour list \<Rightarrow> bool" where
  "resaves day ivs \<longleftrightarrow> (\<exists>v. classify_day_hours (Some ivs) = Inr v \<and>
    parse_day_hours (day_form day v) day =
      (if dv_mode v = Between \<and> dv_to_min v = 24 * 60 then Inl (HTTPException 422)
       else Inr (if dv_mode v = All_Day then map (\<lambda>w. w\<lparr>wh_unaccounted := False\<rparr>) ivs else ivs)))"

lemma resaves_window:
  assumes "window_hours s e = Inr ivs"
  shows "resaves day ivs"
proof -
  let ?iv = "itv s e False"
  have v: "valid_interval ?iv" and ivs: "ivs = map wire_of (intervals_to_hours [?iv])"
    using assms by (simp_all add: window_hours_Inr)
  note c = classify_window [OF v]
  show ?thesis
  proof (cases "(s, e) = full_day")
    case True
    have "map (\<lambda>w. w\<lparr>wh_unaccounted := False\<rparr>) ivs = ivs"
      unfolding ivs using window_records(4) [OF v] by (intro no_flag) auto
    moreover have "parse_day_hours (day_form day all_day_view) day = Inr ivs"
      using True assms by (subst resubmit) (auto simp: all_day_view_def full_day_def)
    ultimately show ?thesis using c True unfolding resaves_def ivs [symmetric] by (auto simp: all_day_view_def)
  next
    case False
    let ?v = "\<lparr>dv_mode = Between, dv_from_min = s, dv_to_min = e,
               dv_hours = hr_hour ` set (intervals_to_hours [?iv]), dv_unaccounted = False\<rparr>"
    have "proper_record r" if "r \<in> set (intervals_to_hours [?iv])" for r
      using intervals_to_hours_proper [of "[?iv]" r] v that by simp
    then have "dv_hours ?v \<subseteq> {0..23}" by (force simp: proper_record_def simp del: intervals_to_hours_simps)
    then have "parse_day_hours (day_form day ?v) day = (if e = 24 * 60 then Inl (HTTPException 422) else Inr ivs)"
      using v assms by (subst resubmit) (simp_all add: time_fields valid_interval_def)
    then show ?thesis using c False unfolding resaves_def ivs [symmetric] by (intro exI [of _ ?v]) auto
  qed
qed

lemma resaves_grid:
  assumes "hs = filter P [0..23]" "hs \<noteq> []"
  shows "resaves day (whole_hours hs u)"
proof -
  obtain m where c: "classify_day_hours (Some (whole_hours hs u)) =
      Inr (if length m = 1 \<and> (start_min (hd m), end_min (hd m)) = full_day then all_day_view
           else if length m = 1 \<and> \<not> u then
             \<lparr>dv_mode = Between, dv_from_min = start_min (hd m), dv_to_min = end_min (hd m), dv_hours = set hs, dv_unaccounted = False\<rparr>
           else \<lparr>dv_mode = Custom, dv_from_min = 0, dv_to_min = 0, dv_hours = set hs, dv_unaccounted = u\<rparr>)"
    and one: "length m = 1 \<longrightarrow> valid_interval (hd m) \<and> unaccounted (hd m) = u \<and> whole_hours hs u = map wire_of (intervals_to_hours [hd m])"
    using classify_grid [OF assms] by blast
  have within: "set hs \<subseteq> {0..23}" using assms(1) by auto
  have refilter: "filter (\<lambda>h. h \<in> set hs) [0..23] = hs" unfolding assms(1) by (rule filter_cong) auto
  consider (all) "length m = 1" "(start_min (hd m), end_min (hd m)) = full_day"
    | (window) "length m = 1" "(start_min (hd m), end_min (hd m)) \<noteq> full_day" "\<not> u"
    | (custom) "\<not> (length m = 1 \<and> (start_min (hd m), end_min (hd m)) = full_day)" "\<not> (length m = 1 \<and> \<not> u)"
    by blast
  then show ?thesis
  proof cases
    case all
    then have m: "hd m = itv 0 (24 * 60) u" "valid_interval (hd m)"
      and w: "whole_hours hs u = map wire_of (intervals_to_hours [hd m])"
      using one by (auto simp: full_day_def)
    have "map (\<lambda>w. w\<lparr>wh_unaccounted := False\<rparr>) (whole_hours hs u) = map wire_of (intervals_to_hours [itv 0 (24 * 60) False])"
      unfolding w m(1) by (simp add: wire_of_def hour_of_interval_def interval_hours_def Let_def)
    then have "parse_day_hours (day_form day all_day_view) day = Inr (map (\<lambda>w. w\<lparr>wh_unaccounted := False\<rparr>) (whole_hours hs u))"
      by (subst resubmit) (auto simp: all_day_view_def window_hours_Inr valid_interval_def simp del: intervals_to_hours_simps)
    then show ?thesis using c all unfolding resaves_def by (intro exI [of _ all_day_view]) (simp add: all_day_view_def)
  next
    case window
    let ?s = "start_min (hd m)" and ?e = "end_min (hd m)"
    have v: "valid_interval (hd m)" and f: "unaccounted (hd m) = False"
      and w: "whole_hours hs u = map wire_of (intervals_to_hours [hd m])" using one window by auto
    have hd: "hd m = itv ?s ?e False" using f by (cases "hd m") simp
    have "window_hours ?s ?e = Inr (whole_hours hs u)" using v w hd by (simp add: window_hours_Inr del: intervals_to_hours_simps)
    from resaves_window [OF this] show ?thesis .
  next
    case custom
    let ?v = "\<lparr>dv_mode = Custom, dv_from_min = 0, dv_to_min = 0, dv_hours = set hs, dv_unaccounted = u\<rparr>"
    have "parse_day_hours (day_form day ?v) day = Inr (whole_hours hs u)"
      using within assms(2) by (subst resubmit) (simp_all add: refilter)
    then show ?thesis using c custom unfolding resaves_def by (intro exI [of _ ?v]) auto
  qed
qed

text \<open>C32. The policy editor, opened and saved unchanged: for hours that the form itself saved for a day, the page
  shows a view whose resubmission stores the same hours, with two exceptions. A day of 24 hours that do not count
  against the limit is shown as all day, and saving makes its hours count. Hours that are one window up to
  midnight are shown as a window ending at 24:00, which a time field cannot hold, and saving is refused.\<close>

theorem editor_day_roundtrip:
  assumes "parse_day_hours form day = Inr ivs"
  shows "\<exists>v. classify_day_hours (Some ivs) = Inr v \<and>
    parse_day_hours (day_form day v) day =
      (if dv_mode v = Between \<and> dv_to_min v = 24 * 60 then Inl (HTTPException 422)
       else Inr (if dv_mode v = All_Day then map (\<lambda>w. w\<lparr>wh_unaccounted := False\<rparr>) ivs else ivs))"
  using parse_day_hours_Inr [OF assms] resaves_window resaves_grid unfolding resaves_def by blast

text \<open>Monday evenings from eight, painted hour by hour, and a Monday of 24 hours that do not count.\<close>

definition evening_form :: form where
  "evening_form = (''hours_mode_1'', ''custom'') # map (\<lambda>h. (''hh_1_'' @ str_of_int h, ''on'')) [20..23]"

definition homework_form :: form where
  "homework_form = [(''hours_mode_1'', ''custom''), (''unaccounted_1'', ''on'')] @
     map (\<lambda>h. (''hh_1_'' @ str_of_int h, ''on'')) [0..23]"

theorem editor_day_roundtrip_witness:
  "\<exists>ivs v ivs' v'. parse_day_hours evening_form ''1'' = Inr ivs \<and> classify_day_hours (Some ivs) = Inr v \<and>
     parse_day_hours (day_form ''1'' v) ''1'' = Inl (HTTPException 422) \<and>
     parse_day_hours homework_form ''1'' = Inr ivs' \<and> classify_day_hours (Some ivs') = Inr v' \<and>
     list_all wh_unaccounted ivs' \<and>
     parse_day_hours (day_form ''1'' v') ''1'' = Inr (map (\<lambda>w. w\<lparr>wh_unaccounted := False\<rparr>) ivs')"
proof -
  have "case parse_day_hours evening_form ''1'' of Inl _ \<Rightarrow> False
    | Inr ivs \<Rightarrow> (case classify_day_hours (Some ivs) of Inl _ \<Rightarrow> False | Inr v \<Rightarrow> dv_mode v = Between \<and> dv_to_min v = 1440)"
    by code_simp
  then obtain ivs v where 1: "parse_day_hours evening_form ''1'' = Inr ivs" "classify_day_hours (Some ivs) = Inr v"
      "dv_mode v = Between" "dv_to_min v = 24 * 60"
    by (auto split: sum.splits)
  have "case parse_day_hours homework_form ''1'' of Inl _ \<Rightarrow> False
    | Inr ivs \<Rightarrow> list_all wh_unaccounted ivs \<and>
        (case classify_day_hours (Some ivs) of Inl _ \<Rightarrow> False | Inr v \<Rightarrow> dv_mode v = All_Day)"
    by code_simp
  then obtain ivs' v' where 2: "parse_day_hours homework_form ''1'' = Inr ivs'" "classify_day_hours (Some ivs') = Inr v'"
      "dv_mode v' = All_Day" "list_all wh_unaccounted ivs'"
    by (auto split: sum.splits)
  show ?thesis using 1 2 editor_day_roundtrip [OF 1(1)] editor_day_roundtrip [OF 2(1)] by auto
qed

end
