(* ===== verification/User_Pages.thy ===== *)
theory User_Pages
  imports Summaries Policy_Editor
begin

section \<open>The dashboard and the per-user pages\<close>

text \<open>
  Models \<open>hub/timekpr_hub/api/ui/dashboard.py\<close>, \<open>api/ui/overrides.py\<close> and \<open>api/ui/users.py\<close>, and
  \<open>GET /users\<close> of \<open>api/admin/users.py\<close>. A page is the data handed to its template. An action
  commits before it renders its answer, so what it returns is the database and, inside, the outcome
  of the rendering: a failure there does not undo the change.
\<close>

subsection \<open>The cards\<close>

record user_card =
  cd_username :: username
  cd_display_name :: string
  cd_today_global_spent_s :: seconds
  cd_today_effective_limit_s :: seconds
  cd_activity_state :: string
  cd_as_of :: "instant option"
  cd_gated_today :: bool
  cd_gate_released_today :: bool
  cd_devices_active_today :: "string list"
  cd_today :: string
  cd_tomorrow :: string
  cd_tomorrow_override_s :: "seconds option"
  cd_standing_hours_today :: hours_text
  cd_today_hours_override :: "hours_text option"
  cd_tomorrow_hours_override :: "hours_text option"

definition shown_override :: "wire_hour list option \<Rightarrow> hours_text option result" where
  "shown_override ov = (case ov of None \<Rightarrow> Inr None | Some ivs \<Rightarrow> rbind (hours_display (Some ivs)) (\<lambda>t. Inr (Some t)))"

definition card_of :: "date \<Rightarrow> date \<Rightarrow> (uuid, seconds) dict \<Rightarrow> (uuid, wire_hour list) dict \<Rightarrow> (uuid, wire_hour list) dict
    \<Rightarrow> summary_row \<Rightarrow> user_card result" where
  "card_of today tomorrow tomorrow_overrides today_hours tomorrow_hours row =
     (let i = usr_id (sm_user row) in
      rbind (to_wire_intervals (case sm_policy row of None \<Rightarrow> None
               | Some p \<Rightarrow> dict_get (pol_allowed_hours p) (str_of_int (isoweekday today)))) (\<lambda>standing.
      rbind (hours_display standing) (\<lambda>standing_text.
      rbind (shown_override (dict_get today_hours i)) (\<lambda>today_text.
      rbind (shown_override (dict_get tomorrow_hours i)) (\<lambda>tomorrow_text.
        Inr \<lparr>cd_username = usr_canonical_username (sm_user row), cd_display_name = usr_display_name (sm_user row),
             cd_today_global_spent_s = sm_today_global_spent_s row,
             cd_today_effective_limit_s = sm_today_effective_limit_s row,
             cd_activity_state = sm_activity_state row, cd_as_of = sm_as_of row, cd_gated_today = sm_gated_today row,
             cd_gate_released_today = sm_gate_released_today row, cd_devices_active_today = sm_devices_active_today row,
             cd_today = isoformat today, cd_tomorrow = isoformat tomorrow,
             cd_tomorrow_override_s = dict_get tomorrow_overrides i, cd_standing_hours_today = standing_text,
             cd_today_hours_override = today_text, cd_tomorrow_hours_override = tomorrow_text\<rparr>)))))"

definition user_cards :: "range_agg \<Rightarrow> hub_settings \<Rightarrow> instant \<Rightarrow> username list option \<Rightarrow> db \<Rightarrow> user_card list result" where
  "user_cards agg cfg now usernames d =
     rbind (compute_user_summaries agg cfg now usernames d) (\<lambda>rows.
       if rows = [] then Inr []
       else rbind (canonical_stamp (Aware now) (hub_zone cfg)) (\<lambda>stamp.
         let today = st_day stamp
         in rbind (add_days today 1) (\<lambda>tomorrow.
            let user_ids = map (\<lambda>row. usr_id (sm_user row)) rows;
                tomorrow_overrides = day_overrides_batch user_ids tomorrow d
            in rbind (day_hour_overrides_batch user_ids today d) (\<lambda>today_hours.
               rbind (day_hour_overrides_batch user_ids tomorrow d) (\<lambda>tomorrow_hours.
                 rsequence (map (card_of today tomorrow tomorrow_overrides today_hours tomorrow_hours) rows))))))"

definition users_fragment :: "(string \<Rightarrow> string) \<Rightarrow> range_agg \<Rightarrow> hub_settings \<Rightarrow> instant \<Rightarrow> string option \<Rightarrow> db
    \<Rightarrow> user_card list result" where
  "users_fragment hash agg cfg now cookie d =
     rbind (get_current_admin_ui hash now cookie d) (\<lambda>_. user_cards agg cfg now None d)"

definition list_users :: "(string \<Rightarrow> string) \<Rightarrow> range_agg \<Rightarrow> hub_settings \<Rightarrow> instant \<Rightarrow> string option \<Rightarrow> db
    \<Rightarrow> user_summary list result" where
  "list_users hash agg cfg now cookie d =
     rbind (get_current_admin_api hash now cookie d) (\<lambda>_.
     rbind (compute_user_summaries agg cfg now None d) (\<lambda>rows. rsequence (map to_user_summary rows)))"

text \<open>The gate, the lookup and the final fragment that every action on a card shares.\<close>

definition card_action :: "(string \<Rightarrow> string) \<Rightarrow> range_agg \<Rightarrow> hub_settings \<Rightarrow> instant \<Rightarrow> string option \<Rightarrow> username
    \<Rightarrow> (uuid \<Rightarrow> user_row \<Rightarrow> db \<Rightarrow> db result) \<Rightarrow> db \<Rightarrow> (user_card list result \<times> db) result" where
  "card_action hash agg cfg now cookie username act d =
     rbind (get_current_admin_ui hash now cookie d) (\<lambda>admin.
     rbind (get_user_or_404 username d) (\<lambda>user.
     rbind (act (adm_id admin) user d) (\<lambda>d. Inr (user_cards agg cfg now (Some [username]) d, d))))"

subsection \<open>Quick grants\<close>

text \<open>
  The text of \<open>minutes\<close> with format \<open>+g\<close>: sign, six significant digits, no trailing zeros. Within
  a day of seconds the form is never scientific; \<open>plus_g s\<close> is the text of \<open>s / 60\<close>.
\<close>

definition strip_zeros :: "string \<Rightarrow> string" where
  "strip_zeros s = rev (dropWhile (\<lambda>c. c = CHR ''0'') (rev s))"

definition plus_g :: "seconds \<Rightarrow> string" where
  "plus_g s =
     (let a = \<bar>s\<bar>;
          k = (if a < 6 then 7 else if a < 60 then 6 else if a < 600 then 5 else if a < 6000 then 4 else if a < 60000 then 3 else 2 :: nat);
          n = (2 * a * 10 ^ k + 60) div 120;
          digits = str_of_int (n mod 10 ^ k);
          frac = strip_zeros (replicate (k - length digits) CHR ''0'' @ digits)
      in (if s < 0 then ''-'' else ''+'') @ str_of_int (n div 10 ^ k) @ (if frac = [] then [] else CHR ''.'' # frac))"

definition grant_from_ui :: "(string \<Rightarrow> string) \<Rightarrow> range_agg \<Rightarrow> hub_settings \<Rightarrow> instant \<Rightarrow> string option \<Rightarrow> username
    \<Rightarrow> seconds \<Rightarrow> string \<Rightarrow> string option \<Rightarrow> db \<Rightarrow> (user_card list result \<times> db) result" where
  "grant_from_ui hash agg cfg now cookie username seconds day ip d =
     rbind (get_current_admin_ui hash now cookie d) (\<lambda>admin.
       if \<not> in_bounds (- 86400) 86400 seconds then Inl ValidationError
       else rbind
         (case find_row usr_canonical_username username (db_users d) of
            None \<Rightarrow> Inr d
          | Some user \<Rightarrow>
              rbind (canonical_stamp (Aware now) (hub_zone cfg)) (\<lambda>stamp.
              rbind (if day \<noteq> '''' then date_fromisoformat day else Inr (st_day stamp)) (\<lambda>grant_day.
              let reason = (if grant_day \<noteq> st_day stamp
                    then plus_g seconds @ '' min ('' @ isoformat grant_day @ '', UI)'' else plus_g seconds @ '' min (UI)'')
              in case uuid4 d of (i, d) \<Rightarrow>
                rbind (add_grant \<lparr>gr_id = i, gr_user_id = usr_id user, gr_day = grant_day, gr_seconds = seconds,
                    gr_reason = Some reason, gr_source = ''admin'', gr_granted_by = Some ''ui'', gr_created_at = now\<rparr> d) (\<lambda>d.
                audit_user now (adm_id admin) ''grant.create'' username None
                  (Some (JObj [(''seconds'', JNum seconds), (''day'', JStr (isoformat grant_day)), (''reason'', JStr reason)])) ip d))))
         (\<lambda>d. Inr (user_cards agg cfg now (Some [username]) d, d)))"

subsection \<open>Per-date exceptions from the dashboard\<close>

definition set_day_override_ui :: "(string \<Rightarrow> string) \<Rightarrow> range_agg \<Rightarrow> hub_settings \<Rightarrow> instant \<Rightarrow> string option \<Rightarrow> username
    \<Rightarrow> string \<Rightarrow> string \<Rightarrow> int \<Rightarrow> int \<Rightarrow> string \<Rightarrow> string option \<Rightarrow> db \<Rightarrow> (user_card list result \<times> db) result" where
  "set_day_override_ui hash agg cfg now cookie username day mode limit_h limit_m reason ip d =
     rbind (get_current_admin_ui hash now cookie d) (\<lambda>_.
       if \<not> in_bounds 0 24 limit_h \<or> \<not> in_bounds 0 59 limit_m then Inl ValidationError
       else card_action hash agg cfg now cookie username (\<lambda>actor user d.
         rbind (date_fromisoformat day) (\<lambda>override_day.
         let limit_seconds = (if mode = ''none'' then 0 else limit_h * 3600 + limit_m * 60)
         in rbind (set_day_override now (usr_id user) override_day limit_seconds reason ''ui'' d) (\<lambda>(_, d).
              audit_user now actor ''override.set'' username None
                (Some (JObj [(''day'', JStr day), (''limit_seconds'', JNum limit_seconds), (''reason'', JStr reason)])) ip d))) d)"

definition clear_day_override_ui :: "(string \<Rightarrow> string) \<Rightarrow> range_agg \<Rightarrow> hub_settings \<Rightarrow> instant \<Rightarrow> string option \<Rightarrow> username
    \<Rightarrow> string \<Rightarrow> string option \<Rightarrow> db \<Rightarrow> (user_card list result \<times> db) result" where
  "clear_day_override_ui hash agg cfg now cookie username day ip d =
     card_action hash agg cfg now cookie username (\<lambda>actor user d.
       rbind (date_fromisoformat day) (\<lambda>date.
         case clear_day_override (usr_id user) date d of (cleared, d) \<Rightarrow>
           audit_cleared cleared now actor ''override.clear'' username day ip d)) d"

definition set_day_hour_override_ui :: "(string \<Rightarrow> string) \<Rightarrow> range_agg \<Rightarrow> hub_settings \<Rightarrow> instant \<Rightarrow> string option \<Rightarrow> username
    \<Rightarrow> string \<Rightarrow> string \<Rightarrow> string \<Rightarrow> string \<Rightarrow> string option \<Rightarrow> string \<Rightarrow> string option \<Rightarrow> db \<Rightarrow> (user_card list result \<times> db) result" where
  "set_day_hour_override_ui hash agg cfg now cookie username day mode from_text to_text to_midnight reason ip d =
     card_action hash agg cfg now cookie username (\<lambda>actor user d.
       rbind (date_fromisoformat day) (\<lambda>override_day.
       rbind (get_or_create_policy now (usr_id user) None d) (\<lambda>(policy, d).
         if str_of_int (isoweekday override_day) \<notin> set (list_or (pol_allowed_weekdays policy) WEEKDAY_TOKENS)
         then Inl (HTTPException 422)
         else rbind (if mode = ''any'' then wire_intervals (intervals_to_hours unrestricted)
                     else rbind (parse_time_str from_text) (\<lambda>from_min.
                          rbind (if to_midnight \<noteq> None then Inr (24 * 60) else parse_time_str to_text) (\<lambda>to_min.
                            window_hours from_min to_min))) (\<lambda>intervals.
              rbind (set_day_hour_override now (usr_id user) override_day intervals reason ''ui'' d) (\<lambda>(_, d).
                audit_user now actor ''day_hours.set'' username None
                  (Some (JObj [(''day'', JStr day), (''mode'', JStr mode), (''reason'', JStr reason)])) ip d))))) d"

text \<open>With \<open>redirect_to\<close> the answer is a redirect to it, without one the fragment.\<close>

definition clear_day_hour_override_ui :: "(string \<Rightarrow> string) \<Rightarrow> range_agg \<Rightarrow> hub_settings \<Rightarrow> instant \<Rightarrow> string option \<Rightarrow> username
    \<Rightarrow> string \<Rightarrow> string \<Rightarrow> string option \<Rightarrow> db \<Rightarrow> ((string + user_card list result) \<times> db) result" where
  "clear_day_hour_override_ui hash agg cfg now cookie username day redirect_to ip d =
     rbind (card_action hash agg cfg now cookie username (\<lambda>actor user d.
       rbind (date_fromisoformat day) (\<lambda>date.
         case clear_day_hour_override (usr_id user) date d of (cleared, d) \<Rightarrow>
           audit_cleared cleared now actor ''day_hours.clear'' username day ip d)) d) (\<lambda>(cards, d).
       Inr (if redirect_to \<noteq> '''' then Inl redirect_to else Inr cards, d))"

definition release_gate_ui :: "(string \<Rightarrow> string) \<Rightarrow> range_agg \<Rightarrow> hub_settings \<Rightarrow> instant \<Rightarrow> string option \<Rightarrow> username
    \<Rightarrow> string option \<Rightarrow> db \<Rightarrow> (user_card list result \<times> db) result" where
  "release_gate_ui hash agg cfg now cookie username ip d =
     card_action hash agg cfg now cookie username (\<lambda>actor user d.
       rbind (canonical_stamp (Aware now) (hub_zone cfg)) (\<lambda>stamp.
       rbind (release_gate now (usr_id user) (st_day stamp) ''ui'' '''' d) (\<lambda>(_, d).
         audit_user now actor ''gate.release'' username None (Some (JObj [(''day'', JStr (isoformat (st_day stamp)))])) ip d))) d"

definition unrelease_gate_ui :: "(string \<Rightarrow> string) \<Rightarrow> range_agg \<Rightarrow> hub_settings \<Rightarrow> instant \<Rightarrow> string option \<Rightarrow> username
    \<Rightarrow> string option \<Rightarrow> db \<Rightarrow> (user_card list result \<times> db) result" where
  "unrelease_gate_ui hash agg cfg now cookie username ip d =
     card_action hash agg cfg now cookie username (\<lambda>actor user d.
       rbind (canonical_stamp (Aware now) (hub_zone cfg)) (\<lambda>stamp.
         case unrelease_gate (usr_id user) (st_day stamp) d of (unreleased, d) \<Rightarrow>
           audit_cleared unreleased now actor ''gate.unrelease'' username (isoformat (st_day stamp)) ip d)) d"

subsection \<open>Settings, renaming, deletion and statistics\<close>

record settings_page =
  st_username :: username
  st_display_name :: string
  st_gated_weekdays :: "string set"
  st_accounting_mode :: string
  st_offline_policy :: string
  st_offline_grace_min :: int
  st_offline_cap_min :: int

definition user_settings_page :: "(string \<Rightarrow> string) \<Rightarrow> instant \<Rightarrow> string option \<Rightarrow> username \<Rightarrow> db \<Rightarrow> settings_page result" where
  "user_settings_page hash now cookie username d =
     rbind (get_current_admin_ui hash now cookie d) (\<lambda>_.
     rbind (get_user_or_404 username d) (\<lambda>user.
       Inr \<lparr>st_username = username, st_display_name = usr_display_name user,
            st_gated_weekdays = set (usr_gated_weekdays user), st_accounting_mode = usr_accounting_mode user,
            st_offline_policy = usr_offline_policy user, st_offline_grace_min = usr_offline_grace_s user div 60,
            st_offline_cap_min = usr_offline_cap_s user div 60\<rparr>))"

text \<open>Neither mode is checked before it is stored; the CHECK of the table is the only guard.\<close>

definition update_user_settings_ui :: "(string \<Rightarrow> string) \<Rightarrow> instant \<Rightarrow> string option \<Rightarrow> username \<Rightarrow> string \<Rightarrow> string
    \<Rightarrow> int \<Rightarrow> int \<Rightarrow> form \<Rightarrow> string option \<Rightarrow> db \<Rightarrow> db result" where
  "update_user_settings_ui hash now cookie username accounting_mode offline_policy offline_grace_min offline_cap_min form ip d =
     rbind (get_current_admin_ui hash now cookie d) (\<lambda>admin.
       if \<not> in_bounds 0 10080 offline_grace_min \<or> \<not> in_bounds 0 10080 offline_cap_min then Inl ValidationError
       else rbind (get_user_or_404 username d) (\<lambda>user.
         let gated_weekdays = filter (\<lambda>t. checkbox form (''gated_weekday_'' @ t)) WEEKDAY_TOKENS
         in rbind (store_settings now (adm_id admin) user username gated_weekdays accounting_mode offline_policy
                     (offline_grace_min * 60) (offline_cap_min * 60) ip d) (\<lambda>(_, d). Inr d)))"

definition rename_user_ui :: "(string \<Rightarrow> string) \<Rightarrow> instant \<Rightarrow> string option \<Rightarrow> username \<Rightarrow> string \<Rightarrow> string option \<Rightarrow> db
    \<Rightarrow> db result" where
  "rename_user_ui hash now cookie username display_name ip d =
     rbind (get_current_admin_ui hash now cookie d) (\<lambda>admin.
       if length display_name < 1 \<or> 128 < length display_name then Inl ValidationError
       else rbind (get_user_or_404 username d) (\<lambda>user.
         rbind (update_user (usr_id user) (\<lambda>u. u\<lparr>usr_display_name := display_name\<rparr>) d) (\<lambda>d.
           audit_user now (adm_id admin) ''user.rename'' username
             (Some (JObj [(''display_name'', JStr (usr_display_name user))]))
             (Some (JObj [(''display_name'', JStr display_name)])) ip d)))"

text \<open>The row and everything whose foreign key refers to it: all cascade.\<close>

definition delete_user_row :: "uuid \<Rightarrow> db \<Rightarrow> db" where
  "delete_user_row i d =
     d\<lparr>db_users := delete_rows usr_id i (db_users d),
       db_aliases := filter (\<lambda>r. al_user_id r \<noteq> i) (db_aliases d),
       db_policies := filter (\<lambda>r. pol_user_id r \<noteq> i) (db_policies d),
       db_counters := filter (\<lambda>r. uc_user_id r \<noteq> i) (db_counters d),
       db_intervals := filter (\<lambda>r. ai_user_id r \<noteq> i) (db_intervals d),
       db_grants := filter (\<lambda>r. gr_user_id r \<noteq> i) (db_grants d),
       db_day_overrides := filter (\<lambda>r. dov_user_id r \<noteq> i) (db_day_overrides d),
       db_hour_overrides := filter (\<lambda>r. hov_user_id r \<noteq> i) (db_hour_overrides d),
       db_releases := filter (\<lambda>r. rel_user_id r \<noteq> i) (db_releases d)\<rparr>"

definition delete_user_ui :: "(string \<Rightarrow> string) \<Rightarrow> instant \<Rightarrow> string option \<Rightarrow> username \<Rightarrow> string option \<Rightarrow> db \<Rightarrow> db result" where
  "delete_user_ui hash now cookie username ip d =
     rbind (get_current_admin_ui hash now cookie d) (\<lambda>admin.
     rbind (get_user_or_404 username d) (\<lambda>user.
     rbind (audit_user now (adm_id admin) ''user.delete'' username
         (Some (JObj [(''display_name'', JStr (usr_display_name user))])) None ip d) (\<lambda>d.
       Inr (delete_user_row (usr_id user) d))))"

record stats_page =
  sp_username :: username
  sp_display_name :: string
  sp_days :: int
  sp_history :: usage_history
  sp_max_s :: seconds
  sp_hours_override_display :: "(date, hours_text) dict"

definition user_stats_page :: "(string \<Rightarrow> string) \<Rightarrow> range_agg \<Rightarrow> hub_settings \<Rightarrow> instant \<Rightarrow> string option \<Rightarrow> username \<Rightarrow> int
    \<Rightarrow> db \<Rightarrow> (stats_page result \<times> db) result" where
  "user_stats_page hash agg cfg now cookie username days d =
     rbind (get_current_admin_ui hash now cookie d) (\<lambda>_.
     rbind (get_user_or_404 username d) (\<lambda>user.
     rbind (get_or_create_policy now (usr_id user) None d) (\<lambda>(policy, d).
       Inr (let num_days = (if days \<in> {7, 30, 90} then days else 30)
            in rbind (compute_usage_history agg (hub_zone cfg) now user (Some policy) num_days d) (\<lambda>history.
               rbind (rsequence (map (\<lambda>x. rbind (hours_display (du_hours_override_intervals x)) (\<lambda>t. Inr (du_day x, t)))
                        (filter du_hours_overridden (uh_days history)))) (\<lambda>shown.
                 Inr \<lparr>sp_username = username, sp_display_name = usr_display_name user, sp_days = num_days, sp_history = history,
                      sp_max_s = Max (set (map du_limit_s (uh_days history) @ map du_spent_s (uh_days history) @ [1])),
                      sp_hours_override_display = shown\<rparr>)), d))))"

end
