(* ===== verification/Hub_Endpoints.thy ===== *)
theory Hub_Endpoints
  imports Sync_Facts Device_Lifecycle Admin_Devices User_Pages
begin

section \<open>What each endpoint keeps\<close>

text \<open>
  For every route of the hub that writes: it keeps the database invariant of Hub_Invariant, and what
  it does to the admin accounts. The proofs compose the lemmas of the rows a route writes. \<open>keeps\<close>
  is the common conclusion of all routes that leave the accounts alone.
\<close>

subsection \<open>Audit, sessions and admins\<close>

lemma hub_ok_admins: "hub_ok d \<Longrightarrow> admins_ok (db_next_id d) (db_admins d) (db_sessions d)"
  by (simp add: hub_ok_def tables_ok_def)

lemma admins_step [intro]:
  "hub_ok d \<Longrightarrow> admins_ok (db_next_id d) as ss \<Longrightarrow> hub_ok (d\<lparr>db_admins := as, db_sessions := ss\<rparr>)"
  "hub_ok d \<Longrightarrow> admins_ok (db_next_id d) (db_admins d) ss \<Longrightarrow> hub_ok (d\<lparr>db_sessions := ss\<rparr>)"
  "hub_ok d \<Longrightarrow> admins_ok (db_next_id d) as (db_sessions d) \<Longrightarrow> hub_ok (d\<lparr>db_admins := as\<rparr>)"
  by (simp_all add: hub_ok_def tables_ok_def current_ok_def)

lemma invites_step [intro]: "hub_ok d \<Longrightarrow> unique_on inv_token vs \<Longrightarrow> hub_ok (d\<lparr>db_invites := vs\<rparr>)"
  by (simp add: hub_ok_def tables_ok_def current_ok_def)

lemma hub_invites: "hub_ok d \<Longrightarrow> unique_on inv_token (db_invites d)"
  by (simp add: hub_ok_def tables_ok_def)

lemma audit_Inr:
  "record_audit_event now t i a tt ti b af ip d = Inr d' \<Longrightarrow> \<exists>r. d' = d\<lparr>db_next_id := db_next_id d + 1, db_audit := db_audit d @ [r]\<rparr>"
  by (auto simp: record_audit_event_def uuid4_def add_audit_def flush_Inr)

lemma audit_frame:
  assumes "record_audit_event now t i a tt ti b af ip d = Inr d'"
  shows "hub_ok d \<Longrightarrow> hub_ok d'" "db_admins d' = db_admins d" "db_sessions d' = db_sessions d" "db_invites d' = db_invites d"
    "db_users d' = db_users d" "db_devices d' = db_devices d" "db_codes d' = db_codes d" "db_aliases d' = db_aliases d"
    "db_counters d' = db_counters d" "db_intervals d' = db_intervals d" "db_policies d' = db_policies d"
proof -
  obtain r where d': "d' = d\<lparr>db_next_id := db_next_id d + 1, db_audit := db_audit d @ [r]\<rparr>" using audit_Inr [OF assms] by blast
  show "hub_ok d \<Longrightarrow> hub_ok d'"
    using next_id_ok [of d] by (simp add: d' hub_ok_def tables_ok_def current_ok_def)
  show "db_admins d' = db_admins d" "db_sessions d' = db_sessions d" "db_invites d' = db_invites d"
    "db_users d' = db_users d" "db_devices d' = db_devices d" "db_codes d' = db_codes d" "db_aliases d' = db_aliases d"
    "db_counters d' = db_counters d" "db_intervals d' = db_intervals d" "db_policies d' = db_policies d"
    by (simp_all add: d')
qed

lemma create_session_ok:
  assumes "hub_ok d" "create_session hash now rnd i ip ua d = Inr (tok, d')" "i \<in> adm_id ` set (db_admins d)"
  shows "hub_ok d'" "db_admins d' = db_admins d"
proof -
  let ?r = "\<lparr>ses_id = db_next_id d, ses_admin_id = i, ses_token_hash = hash rnd, ses_expires_at = now + SESSION_TTL,
     ses_ip = ip, ses_user_agent = ua, ses_created_at = now\<rparr>"
  have d': "d' = d\<lparr>db_next_id := db_next_id d + 1, db_sessions := db_sessions d @ [?r]\<rparr>"
    and new: "hash rnd \<notin> ses_token_hash ` set (db_sessions d)"
    using assms(2) by (auto simp: create_session_def uuid4_def add_session_def rbind_Inr_iff flush_Inr)
  have "admins_ok (db_next_id d + 1) (db_admins d) (db_sessions d @ [?r])"
    using hub_ok_admins [OF next_id_ok [OF assms(1)]] assms(3) new by (auto simp: admins_ok_def intro!: unique_snoc)
  then have "hub_ok ((d\<lparr>db_next_id := db_next_id d + 1\<rparr>)\<lparr>db_sessions := db_sessions d @ [?r]\<rparr>)"
    using next_id_ok [OF assms(1)] by (intro admins_step(2)) simp_all
  then show "hub_ok d'" by (simp add: d')
  show "db_admins d' = db_admins d" by (simp add: d')
qed

lemma add_admin_ok:
  assumes "hub_ok d" "add_admin r (d\<lparr>db_next_id := db_next_id d + 1\<rparr>) = Inr d'" "adm_id r = db_next_id d"
  shows "hub_ok d'" "db_admins d' = db_admins d @ [r]"
proof -
  have d': "d' = d\<lparr>db_next_id := db_next_id d + 1, db_admins := db_admins d @ [r]\<rparr>"
    and new: "adm_email r \<notin> adm_email ` set (db_admins d)"
    using assms(2) by (simp_all add: add_admin_def flush_Inr)
  have "admins_ok (db_next_id d + 1) (db_admins d @ [r]) (db_sessions d)"
    using hub_ok_admins [OF assms(1)] assms(3) new
    by (auto simp: admins_ok_def list_all_iff intro!: unique_snoc)
  then have "hub_ok ((d\<lparr>db_next_id := db_next_id d + 1\<rparr>)\<lparr>db_admins := db_admins d @ [r]\<rparr>)"
    using next_id_ok [OF assms(1)] by (intro admins_step(3)) simp_all
  then show "hub_ok d'" "db_admins d' = db_admins d @ [r]" by (simp_all add: d')
qed

lemma delete_session_ok: "hub_ok d \<Longrightarrow> hub_ok (delete_session hash tok d)"
  using hub_ok_admins [of d] unfolding delete_session_def
  by (intro admins_step(2)) (auto simp: admins_ok_def list_all_iff delete_rows_def intro: unique_filter)

lemma delete_other_sessions_ok: "hub_ok d \<Longrightarrow> hub_ok (delete_other_sessions hash i tok d)"
  using hub_ok_admins [of d] unfolding delete_other_sessions_def
  by (intro admins_step(2)) (auto simp: admins_ok_def list_all_iff intro: unique_filter)

lemma delete_admin_row_ok:
  assumes "hub_ok d"
  shows "hub_ok (delete_admin_row i d)"
proof -
  let ?vs = "map (\<lambda>v. if inv_created_by v = Some i then v\<lparr>inv_created_by := None\<rparr> else v) (db_invites d)"
  have "admins_ok (db_next_id d) (delete_rows adm_id i (db_admins d)) (filter (\<lambda>s. ses_admin_id s \<noteq> i) (db_sessions d))"
    using hub_ok_admins [OF assms] by (auto simp: admins_ok_def list_all_iff delete_rows_def intro: unique_filter)
  then have "hub_ok (d\<lparr>db_admins := delete_rows adm_id i (db_admins d), db_sessions := filter (\<lambda>s. ses_admin_id s \<noteq> i) (db_sessions d)\<rparr>)"
    using assms by blast
  moreover have "unique_on inv_token ?vs"
    using hub_invites [OF assms] by (intro unique_map_same) auto
  ultimately show ?thesis unfolding delete_admin_row_def by (auto dest: invites_step)
qed

lemma update_admin_ok:
  assumes "hub_ok d" "update_admin i f d = Inr d'" "\<And>a. adm_id (f a) = adm_id a"
  shows "hub_ok d'" "map adm_id (db_admins d') = map adm_id (db_admins d)"
proof -
  let ?as = "map_row adm_id i f (db_admins d)"
  have d': "d' = d\<lparr>db_admins := ?as\<rparr>" and e: "unique_on adm_email ?as"
    using assms(2) by (simp_all add: update_admin_def Let_def flush_Inr)
  have keys: "map adm_id ?as = map adm_id (db_admins d)" by (rule map_row_keys) (rule assms(3))
  then have ids: "adm_id ` set ?as = adm_id ` set (db_admins d)" by (metis set_map)
  have "admins_ok (db_next_id d) ?as (db_sessions d)"
    unfolding admins_ok_def ids unfolding unique_on_def keys
    using hub_ok_admins [OF assms(1)] e assms(3) by (auto simp: admins_ok_def unique_on_def list_all_iff map_row_def)
  then show "hub_ok d'" using assms(1) by (auto simp: d')
  show "map adm_id (db_admins d') = map adm_id (db_admins d)" by (simp add: d' keys)
qed

subsection \<open>The account endpoints\<close>

lemma admin_api_Inr: "get_current_admin_api hash now cookie d = Inr a \<Longrightarrow> a \<in> set (db_admins d)"
  by (auto simp: get_current_admin_api_def session_admin_def get_admin_by_session_token_def
      dest: find_row_mem split: option.splits if_splits)

lemma admin_ui_Inr: "get_current_admin_ui hash now cookie d = Inr a \<Longrightarrow> a \<in> set (db_admins d)"
  by (auto simp: get_current_admin_ui_def session_admin_def get_admin_by_session_token_def
      dest: find_row_mem split: option.splits if_splits)

lemma setup_ok:
  assumes "hub_ok d" "setup_submit hash hash_pw now rnd email pw ip ua d = Inr (tok, d')"
  shows "hub_ok d'" "db_admins d' \<noteq> []" "db_admins d = []"
proof -
  let ?r = "\<lparr>adm_id = db_next_id d, adm_email = email, adm_password_hash = hash_pw pw, adm_created_at = now\<rparr>"
  obtain d1 where 1: "add_admin ?r (d\<lparr>db_next_id := db_next_id d + 1\<rparr>) = Inr d1"
    and 2: "create_session hash now rnd (db_next_id d) ip ua d1 = Inr (tok, d')" and e: "db_admins d = []"
    using assms(2) by (auto simp: setup_submit_def uuid4_def rbind_Inr_iff any_admin_exists_def split: if_splits)
  note a = add_admin_ok [OF assms(1) 1]
  have "db_next_id d \<in> adm_id ` set (db_admins d1)" by (simp add: a(2))
  from create_session_ok [OF a(1) 2 this] a(2) e show "hub_ok d'" "db_admins d' \<noteq> []" "db_admins d = []" by simp_all
qed

lemma login_ok:
  assumes "hub_ok d" "login_submit hash verify now rnd email pw ip ua d = Inr (tok, d')"
  shows "hub_ok d'" "db_admins d' = db_admins d"
proof -
  have "hub_ok d' \<and> db_admins d' = db_admins d"
  proof (cases "tok = None")
    case True
    then show ?thesis using assms by (auto simp: login_submit_def rbind_Inr_iff split: option.splits if_splits)
  next
    case False
    then obtain a t d1 where a: "a \<in> set (db_admins d)" and 1: "create_session hash now rnd (adm_id a) ip ua d = Inr (t, d1)"
      and 2: "record_audit_event now ''admin'' (Some (uuid_str (adm_id a))) ''admin.login'' (Some ''admin'')
                (Some (uuid_str (adm_id a))) None None ip d1 = Inr d'"
      using assms(2) by (auto simp: login_submit_def rbind_Inr_iff dest: find_row_mem split: option.splits if_splits)
    have id: "adm_id a \<in> adm_id ` set (db_admins d)" using a by (rule imageI)
    from create_session_ok [OF assms(1) 1 id] audit_frame [OF 2] show ?thesis by simp
  qed
  then show "hub_ok d'" "db_admins d' = db_admins d" by simp_all
qed

lemma logout_ok: "hub_ok d \<Longrightarrow> hub_ok (logout hash cookie d)" "db_admins (logout hash cookie d) = db_admins d"
  by (simp add: logout_def delete_session_ok) (simp add: logout_def delete_session_def)

lemma redeem_ok:
  assumes "hub_ok d" "redeem_invite now tok d = Inr d'"
  shows "hub_ok d'" "db_admins d' = db_admins d" "db_next_id d' = db_next_id d"
  using assms by (auto simp: redeem_invite_def intro!: invites_step unique_map_same dest: hub_invites split: if_splits option.splits)

lemma invite_submit_Inr:
  assumes "invite_submit hash hash_pw now rnd tok email pw ip ua d = Inr (s, d')"
  shows "\<exists>d1 d2 d3. redeem_invite now tok d = Inr d1 \<and>
    add_admin \<lparr>adm_id = db_next_id d1, adm_email = email, adm_password_hash = hash_pw pw, adm_created_at = now\<rparr>
      (d1\<lparr>db_next_id := db_next_id d1 + 1\<rparr>) = Inr d2 \<and>
    record_audit_event now ''admin'' (Some (uuid_str (db_next_id d1))) ''admin.created'' (Some ''admin'')
      (Some (uuid_str (db_next_id d1))) None None ip d2 = Inr d3 \<and>
    create_session hash now rnd (db_next_id d1) ip ua d3 = Inr (s, d')"
  using assms
  by (auto simp: invite_submit_def uuid4_def rbind_Inr_iff split: if_splits sum.splits exc.splits)

lemma invite_ok:
  assumes "hub_ok d" "invite_submit hash hash_pw now rnd tok email pw ip ua d = Inr (s, d')"
  shows "hub_ok d'" "set (db_admins d) \<subseteq> set (db_admins d')"
proof -
  obtain d1 d2 d3 where 1: "redeem_invite now tok d = Inr d1"
    and 2: "add_admin \<lparr>adm_id = db_next_id d1, adm_email = email, adm_password_hash = hash_pw pw, adm_created_at = now\<rparr>
      (d1\<lparr>db_next_id := db_next_id d1 + 1\<rparr>) = Inr d2"
    and 3: "record_audit_event now ''admin'' (Some (uuid_str (db_next_id d1))) ''admin.created'' (Some ''admin'')
      (Some (uuid_str (db_next_id d1))) None None ip d2 = Inr d3"
    and 4: "create_session hash now rnd (db_next_id d1) ip ua d3 = Inr (s, d')"
    using invite_submit_Inr [OF assms(2)] by blast
  note r = redeem_ok [OF assms(1) 1] and a = add_admin_ok [OF redeem_ok(1) [OF assms(1) 1] 2] and f = audit_frame [OF 3]
  have "db_next_id d1 \<in> adm_id ` set (db_admins d3)" using a(2) f(2) by simp
  from create_session_ok [OF _ 4 this] f a r show "hub_ok d'" "set (db_admins d) \<subseteq> set (db_admins d')" by auto
qed

lemma mint_ok:
  assumes "hub_ok d" "mint_admin_invite now rnd i ip d = Inr (t, d')"
  shows "hub_ok d'" "db_admins d' = db_admins d"
proof -
  let ?v = "\<lparr>inv_token = rnd, inv_expires_at = now + INVITE_TTL, inv_used_at = None, inv_created_by = Some i, inv_created_at = now\<rparr>"
  obtain d1 where d1: "d1 = d\<lparr>db_invites := db_invites d @ [?v]\<rparr>" "rnd \<notin> inv_token ` set (db_invites d)"
    and 2: "record_audit_event now ''admin'' (Some (uuid_str i)) ''admin.invite_created'' None None None None ip d1 = Inr d'"
    using assms(2) by (auto simp: mint_admin_invite_def create_invite_def add_invite_def flush_Inr rbind_Inr_iff)
  have "unique_on inv_token (db_invites d @ [?v])" using hub_invites [OF assms(1)] d1(2) by (intro unique_snoc) auto
  then have "hub_ok d1" using assms(1) by (auto simp: d1(1))
  with audit_frame [OF 2] show "hub_ok d'" "db_admins d' = db_admins d" by (simp_all add: d1(1))
qed

lemma delete_account_ok:
  assumes "hub_ok d" "delete_admin_account now i j ip d = Inr (t, d')"
  shows "hub_ok d'" "db_admins d' \<noteq> []"
proof -
  have n: "1 < length (db_admins d)" using assms(2) by (auto simp: delete_admin_account_def count_admins_def split: if_splits)
  have "hub_ok d' \<and> db_admins d' \<noteq> []"
  proof (cases t)
    case None
    then show ?thesis using assms n by (auto simp: delete_admin_account_def rbind_Inr_iff split: if_splits option.splits)
  next
    case (Some a)
    then obtain d1 where a: "find_row adm_id i (db_admins d) = Some a"
      and 1: "record_audit_event now ''admin'' (Some (uuid_str j)) ''admin.deleted'' (Some ''admin'')
                (Some (uuid_str (adm_id a))) (Some (JObj [(''email'', JStr (adm_email a))])) None ip d = Inr d1"
      and d': "d' = delete_admin_row (adm_id a) d1"
      using assms(2) by (auto simp: delete_admin_account_def rbind_Inr_iff split: if_splits option.splits)
    have ok: "hub_ok d1" "db_admins d1 = db_admins d" using audit_frame [OF 1] assms(1) by simp_all
    have "distinct (map adm_id (db_admins d))" using hub_ok_admins [OF assms(1)] by (simp add: admins_ok_def unique_on_def)
    then have "delete_rows adm_id (adm_id a) (db_admins d) \<noteq> []"
      using n by (cases "db_admins d" rule: remdups_adj.cases) (auto simp: delete_rows_def)
    then show ?thesis using delete_admin_row_ok [OF ok(1)] ok(2) by (simp add: d' delete_admin_row_def)
  qed
  then show "hub_ok d'" "db_admins d' \<noteq> []" by simp_all
qed

lemma change_password_ok:
  assumes "hub_ok d" "change_admin_own_password hash hash_pw verify now a cur new tok ip d = Inr d'"
  shows "hub_ok d'" "length (db_admins d') = length (db_admins d)"
proof -
  obtain d1 where 1: "update_admin (adm_id a) (\<lambda>a. a\<lparr>adm_password_hash := hash_pw new\<rparr>) d = Inr d1"
    and 2: "record_audit_event now ''admin'' (Some (uuid_str (adm_id a))) ''admin.password_changed'' (Some ''admin'')
          (Some (uuid_str (adm_id a))) None None ip (delete_other_sessions hash (adm_id a) tok d1) = Inr d'"
    using assms(2) by (auto simp: change_admin_own_password_def change_password_def rbind_Inr_iff split: if_splits)
  have u: "hub_ok d1" "map adm_id (db_admins d1) = map adm_id (db_admins d)"
    using update_admin_ok [OF assms(1) 1] by simp_all
  note f = audit_frame [OF 2]
  show "hub_ok d'" using f(1) delete_other_sessions_ok [OF u(1)] by blast
  show "length (db_admins d') = length (db_admins d)"
    using f(2) u(2) by (simp add: delete_other_sessions_def) (metis length_map)
qed

subsection \<open>Devices\<close>

lemma delete_device_row_ok:
  assumes "hub_ok d"
  shows "hub_ok (delete_device_row i d)"
proof -
  have t: "tables_ok d" and c: "current_ok d" using assms by (simp_all add: hub_ok_def)
  let ?ds = "delete_rows dev_id i (db_devices d)"
  have "devices_ok (db_next_id d) ?ds"
  proof -
    have live: "filter live ?ds = filter (\<lambda>r. dev_id r \<noteq> i) (filter live (db_devices d))"
      by (simp add: delete_rows_def conj_commute)
    have "unique_on dev_machine_id (filter live (db_devices d))"
      using t by (simp add: tables_ok_def devices_ok_def machine_index_def)
    then have "machine_index ?ds" unfolding machine_index_def live by (rule unique_filter)
    then show ?thesis
      using t by (auto simp: tables_ok_def devices_ok_def delete_rows_def list_all_iff intro: unique_filter)
  qed
  moreover have "dev_id ` set ?ds = dids d - {i}" by (auto simp: delete_rows_def)
  then have "aliases_ok (db_next_id d) (uids d) (dev_id ` set ?ds) (filter (\<lambda>r. al_device_id r \<noteq> i) (db_aliases d))"
    using t by (auto simp: tables_ok_def aliases_ok_def list_all_iff intro: unique_filter)
  moreover have "usage_ok (filter (\<lambda>r. uc_device_id r \<noteq> i) (db_counters d)) (filter (\<lambda>r. ai_device_id r \<noteq> i) (db_intervals d))"
    using t by (auto simp: tables_ok_def usage_ok_def list_all_iff intro: unique_filter)
  moreover have "unique_on cod_code (map (\<lambda>r. if cod_used_by_device_id r = Some i then r\<lparr>cod_used_by_device_id := None\<rparr> else r) (db_codes d))"
    using hub_codes [OF assms] by (intro unique_map_same) auto
  ultimately show ?thesis
    using t c by (simp add: hub_ok_def tables_ok_def current_ok_def delete_device_row_def)
qed

lemma revoke_device_ok:
  assumes "hub_ok d" "revoke_device now i actor ip d = Inr (v, d')"
  shows "hub_ok d'" "db_admins d' = db_admins d"
proof -
  have "hub_ok d' \<and> db_admins d' = db_admins d"
  proof (cases "find_row dev_id i (db_devices d)")
    case None
    then show ?thesis using assms by (simp add: revoke_device_def)
  next
    case (Some r)
    then obtain d1 where 1: "update_device i (\<lambda>r. r\<lparr>dev_status := ''revoked''\<rparr>) d = Inr d1"
      and 2: "record_audit_event now ''admin'' (Some (uuid_str actor)) ''device.revoke'' (Some ''device'')
              (Some (uuid_str (dev_id r))) (Some (JObj [(''status'', JStr (dev_status r))]))
              (Some (JObj [(''status'', JStr ''revoked'')])) ip d1 = Inr d'"
      using assms(2) by (auto simp: revoke_device_def rbind_Inr_iff)
    from update_device_ok [OF assms(1) 1] audit_frame [OF 2] show ?thesis by simp
  qed
  then show "hub_ok d'" "db_admins d' = db_admins d" by simp_all
qed

lemma set_enforcement_ok:
  assumes "hub_ok d" "set_device_enforcement now i e actor ip d = Inr (v, d')"
  shows "hub_ok d'" "db_admins d' = db_admins d"
proof -
  have "hub_ok d' \<and> db_admins d' = db_admins d"
  proof (cases "find_row dev_id i (db_devices d)")
    case None
    then show ?thesis using assms by (simp add: set_device_enforcement_def)
  next
    case (Some r)
    then obtain d1 where 1: "update_device i (\<lambda>r. r\<lparr>dev_enforcement := e\<rparr>) d = Inr d1"
      and 2: "record_audit_event now ''admin'' (Some (uuid_str actor)) (''device.'' @ e) (Some ''device'')
              (Some (uuid_str (dev_id r))) (Some (JObj [(''enforcement'', JStr (dev_enforcement r))]))
              (Some (JObj [(''enforcement'', JStr e)])) ip d1 = Inr d'"
      using assms(2) by (auto simp: set_device_enforcement_def rbind_Inr_iff)
    from update_device_ok [OF assms(1) 1] audit_frame [OF 2] show ?thesis by simp
  qed
  then show "hub_ok d'" "db_admins d' = db_admins d" by simp_all
qed

lemma delete_device_ok:
  assumes "hub_ok d" "delete_device now i actor ip d = Inr (v, d')"
  shows "hub_ok d'" "db_admins d' = db_admins d"
proof -
  have "hub_ok d' \<and> db_admins d' = db_admins d"
  proof (cases "find_row dev_id i (db_devices d)")
    case None
    then show ?thesis using assms by (simp add: delete_device_def)
  next
    case (Some r)
    then obtain d1 where 2: "record_audit_event now ''admin'' (Some (uuid_str actor)) ''device.delete'' (Some ''device'')
              (Some (uuid_str i)) (Some (JObj [(''name'', JStr (dev_name r)), (''status'', JStr (dev_status r))])) None ip d = Inr d1"
      and d': "d' = delete_device_row i d1"
      using assms(2) by (auto simp: delete_device_def rbind_Inr_iff)
    from audit_frame [OF 2] assms(1) delete_device_row_ok [of d1 i] show ?thesis by (simp add: d' delete_device_row_def)
  qed
  then show "hub_ok d'" "db_admins d' = db_admins d" by simp_all
qed

lemma create_code_ok:
  assumes "hub_ok d" "create_enrollment_code now rnd d = Inr (r, d')"
  shows "hub_ok d'" "db_admins d' = db_admins d"
proof -
  have d': "d' = d\<lparr>db_codes := db_codes d @ [r]\<rparr>" and new: "cod_code r \<notin> cod_code ` set (db_codes d)"
    using assms(2) by (auto simp: create_enrollment_code_def Let_def rbind_Inr_iff add_code_def flush_Inr)
  have "unique_on cod_code (db_codes d @ [r])" using hub_codes [OF assms(1)] new by (rule unique_snoc)
  then show "hub_ok d'" "db_admins d' = db_admins d" using assms(1) by (auto simp: d')
qed

subsection \<open>Users\<close>

lemma days_step:
  "hub_ok d \<Longrightarrow> days_ok a b c \<Longrightarrow> hub_ok (d\<lparr>db_day_overrides := a, db_hour_overrides := b, db_releases := c\<rparr>)"
  by (simp add: hub_ok_def tables_ok_def current_ok_def)

lemma hub_days: "hub_ok d \<Longrightarrow> days_ok (db_day_overrides d) (db_hour_overrides d) (db_releases d)"
  by (simp add: hub_ok_def tables_ok_def)

lemma policy_current_cong:
  "usr_id u' = usr_id u \<Longrightarrow> usr_current_policy_id u' = usr_current_policy_id u \<Longrightarrow> policy_current u' ps = policy_current u ps"
  by (simp only: policy_current_def)

lemma update_user_ok:
  assumes "hub_ok d" "update_user i f d = Inr d'"
    and "\<And>u. usr_id (f u) = usr_id u \<and> usr_current_policy_id (f u) = usr_current_policy_id u"
  shows "hub_ok d'" "db_admins d' = db_admins d"
proof -
  let ?us = "map_row usr_id i f (db_users d)"
  have d': "d' = d\<lparr>db_users := ?us\<rparr>" and us: "list_all ck_users ?us" "unique_on usr_canonical_username ?us"
    using assms(2) by (simp_all add: update_user_def Let_def flush_Inr)
  have t: "tables_ok d" and c: "current_ok d" using assms(1) by (simp_all add: hub_ok_def)
  have keys: "map usr_id ?us = map usr_id (db_users d)" by (rule map_row_keys) (simp add: assms(3))
  then have ids: "usr_id ` set ?us = uids d" by (metis set_map)
  have "unique_on usr_id ?us" using t keys by (simp add: tables_ok_def users_ok_def unique_on_def)
  moreover have "list_all (\<lambda>u. usr_id u < db_next_id d) ?us"
    using t assms(3) by (auto simp: tables_ok_def users_ok_def list_all_iff map_row_def)
  ultimately have "users_ok (db_next_id d) ?us" using us by (simp add: users_ok_def list_all_iff)
  then have "tables_ok d'" using t ids by (simp add: tables_ok_def d')
  moreover have "policy_current (f u) ps = policy_current u ps" for u ps
    by (rule policy_current_cong) (use assms(3) [of u] in simp_all)
  then have "current_ok d'" using c by (auto simp: current_ok_def d' map_row_def list_all_iff)
  ultimately show "hub_ok d'" by (simp add: hub_ok_def)
  show "db_admins d' = db_admins d" by (simp add: d')
qed

lemma hub_releases: "hub_ok d \<Longrightarrow> unique_on release_key (db_releases d)"
  using hub_days by (simp add: days_ok_def)

lemma set_day_override_ok:
  assumes "hub_ok d" "set_day_override now u day l re by d = Inr (r, d')"
  shows "hub_ok d'" "db_admins d' = db_admins d"
proof -
  note s = set_day_override_Inr [OF assms(2)]
  have old: "days_ok (db_day_overrides d) (db_hour_overrides d) (db_releases d)" by (rule hub_days [OF assms(1)])
  let ?r = "day_override_of (db_next_id d) now (u, day) (l, Some re, Some by)"
  have key: "keeps_key day_override_key replace_day_override" by (simp add: keeps_key_def replace_day_override_def day_override_key_def)
  have "ck_day_overrides ?r" using s(3) by (simp add: ck_day_overrides_def day_override_of_def)
  then have "list_all ck_day_overrides (upsert day_override_key replace_day_override ?r rows)"
    if "list_all ck_day_overrides rows" for rows
    using that by (induction rows) (auto simp: ck_day_overrides_def replace_day_override_def)
  then have "days_ok (db_day_overrides d') (db_hour_overrides d) (db_releases d)"
    using old key unfolding s(1) by (auto simp: days_ok_def intro: unique_upsert)
  from days_step [OF next_id_ok [OF assms(1)] this] have "hub_ok (d\<lparr>db_next_id := db_next_id d + 1, db_day_overrides := db_day_overrides d'\<rparr>)"
    by simp
  then show "hub_ok d'" using s(4) by metis
  show "db_admins d' = db_admins d" by (subst s(4)) simp
qed

lemma set_hour_override_ok:
  assumes "hub_ok d" "set_day_hour_override now u day ivs re by d = Inr (r, d')" "list_all valid_wire_hour ivs"
  shows "hub_ok d'" "db_admins d' = db_admins d"
proof -
  note s = set_day_hour_override_Inr [OF assms(2)]
  have old: "days_ok (db_day_overrides d) (db_hour_overrides d) (db_releases d)" by (rule hub_days [OF assms(1)])
  let ?r = "hour_override_of (db_next_id d) now (u, day) (ivs, Some re, Some by)"
  let ?ok = "\<lambda>r. ck_hour_overrides r \<and> list_all valid_wire_hour (hov_intervals r)"
  have key: "keeps_key hour_override_key replace_hour_override" by (simp add: keeps_key_def replace_hour_override_def hour_override_key_def)
  have "?ok ?r" using s(3) assms(3) by (simp add: ck_hour_overrides_def hour_override_of_def)
  then have "list_all ?ok (upsert hour_override_key replace_hour_override ?r rows)" if "list_all ?ok rows" for rows
    using that by (induction rows) (auto simp: ck_hour_overrides_def replace_hour_override_def)
  then have "days_ok (db_day_overrides d) (db_hour_overrides d') (db_releases d)"
    using old key unfolding s(1) days_ok_def by (blast intro: unique_upsert)
  from days_step [OF next_id_ok [OF assms(1)] this] have "hub_ok (d\<lparr>db_next_id := db_next_id d + 1, db_hour_overrides := db_hour_overrides d'\<rparr>)"
    by simp
  then show "hub_ok d'" using s(4) by metis
  show "db_admins d' = db_admins d" by (subst s(4)) simp
qed

lemma release_gate_ok:
  assumes "hub_ok d" "release_gate now u day by re d = Inr (r, d')"
  shows "hub_ok d'" "db_admins d' = db_admins d"
proof -
  note s = release_gate_Inr [OF assms(2)]
  have key: "keeps_key release_key replace_release" by (simp add: keeps_key_def replace_release_def release_key_def)
  have "days_ok (db_day_overrides d) (db_hour_overrides d) (db_releases d')"
    using hub_days [OF assms(1)] key unfolding s(1) by (auto simp: days_ok_def intro: unique_upsert)
  from days_step [OF next_id_ok [OF assms(1)] this] have "hub_ok (d\<lparr>db_next_id := db_next_id d + 1, db_releases := db_releases d'\<rparr>)"
    by simp
  then show "hub_ok d'" using s(3) by metis
  show "db_admins d' = db_admins d" by (subst s(3)) simp
qed

lemma list_all_delete: "list_all P rows \<Longrightarrow> list_all P (delete_rows key k rows)"
  by (auto simp: list_all_iff delete_rows_def)

lemma clear_day_ok:
  assumes "hub_ok d"
  shows "hub_ok (snd (clear_day_override u day d))" "hub_ok (snd (clear_day_hour_override u day d))"
    "hub_ok (snd (unrelease_gate u day d))"
proof -
  note f = list_all_delete
  have old: "days_ok (db_day_overrides d) (db_hour_overrides d) (db_releases d)" by (rule hub_days [OF assms])
  have "days_ok (delete_rows day_override_key k (db_day_overrides d)) (db_hour_overrides d) (db_releases d)" for k
    using old by (simp add: days_ok_def unique_delete f)
  from days_step [OF assms this] show "hub_ok (snd (clear_day_override u day d))"
    using assms by (simp add: clear_day_override_def split: option.split)
  have "days_ok (db_day_overrides d) (delete_rows hour_override_key k (db_hour_overrides d)) (db_releases d)" for k
    using old by (simp add: days_ok_def unique_delete f)
  from days_step [OF assms this] show "hub_ok (snd (clear_day_hour_override u day d))"
    using assms by (simp add: clear_day_hour_override_def split: option.split)
  have "days_ok (db_day_overrides d) (db_hour_overrides d) (delete_rows release_key k (db_releases d))" for k
    using old by (auto simp: days_ok_def unique_delete)
  from days_step [OF assms this] show "hub_ok (snd (unrelease_gate u day d))"
    using assms by (simp add: unrelease_gate_def split: option.split)
qed

lemma clear_admins:
  "db_admins (snd (clear_day_override u day d)) = db_admins d"
  "db_admins (snd (clear_day_hour_override u day d)) = db_admins d"
  "db_admins (snd (unrelease_gate u day d)) = db_admins d"
  by (simp_all add: clear_day_override_def clear_day_hour_override_def unrelease_gate_def split: option.split)

lemma add_grant_ok: "hub_ok d \<Longrightarrow> add_grant r d = Inr d' \<Longrightarrow> hub_ok d' \<and> db_admins d' = db_admins d"
  by (auto simp: add_grant_def flush_Inr hub_ok_def tables_ok_def current_ok_def)

subsection \<open>Accounts survive device traffic\<close>

text \<open>Neither an enrollment nor a sync touches the admins.\<close>

lemma flush_admins: "flush f c u d1 = Inr d' \<Longrightarrow> db_admins d' = db_admins d1"
  by (simp add: flush_Inr)

lemma set_current_admins: "db_admins (set_current_policy u p d) = db_admins d"
  by (simp add: set_current_policy_def)

lemma create_initial_admins: "create_initial_policy now u s d = Inr (p, d') \<Longrightarrow> db_admins d' = db_admins d"
  by (auto simp: create_initial_policy_def Let_def uuid4_def rbind_Inr_iff add_policy_def flush_Inr)

lemma get_or_create_admins: "get_or_create_policy now u s d = Inr (p, d') \<Longrightarrow> db_admins d' = db_admins d"
  by (auto simp: get_or_create_policy_def rbind_Inr_iff set_current_policy_def dest: create_initial_admins split: option.splits)

lemma update_policy_admins: "update_policy now u upd by d = Inr (p, d') \<Longrightarrow> db_admins d' = db_admins d"
  by (auto simp: update_policy_def Let_def uuid4_def rbind_Inr_iff add_policy_def flush_Inr set_current_policy_def)

lemma create_or_find_admins: "create_or_find_user now n d = Inr (u, b, d') \<Longrightarrow> db_admins d' = db_admins d"
  by (auto simp: create_or_find_user_def Let_def uuid4_def add_user_def flush_Inr split: sum.splits exc.splits option.splits)

lemma policy_for_admins: "policy_for_user now u b s d = Inr (p, d') \<Longrightarrow> db_admins d' = db_admins d"
  by (auto simp: policy_for_user_def rbind_Inr_iff set_current_policy_def dest: create_initial_admins get_or_create_admins
      split: if_splits)

lemma insert_alias_admins: "insert_alias u v n d = Inr d' \<Longrightarrow> db_admins d' = db_admins d"
  by (auto simp: insert_alias_def uuid4_def Let_def flush_Inr)

lemma provision_admins: "provision_user_alias now v n s d = Inr (u, p, b, d') \<Longrightarrow> db_admins d' = db_admins d"
  by (auto simp: provision_user_alias_def rbind_Inr_iff dest!: create_or_find_admins policy_for_admins insert_alias_admins)

lemma resolve_admins: "resolve_user now v n d = Inr (u, p, a, d') \<Longrightarrow> db_admins d' = db_admins d"
  by (auto simp: resolve_user_def rbind_Inr_iff dest!: provision_admins get_or_create_admins split: option.splits)

lemma update_device_admins: "update_device v f d = Inr d' \<Longrightarrow> db_admins d' = db_admins d"
  by (auto simp: update_device_def Let_def flush_Inr)

lemma usage_frame_admins: "usage_frame d d' \<Longrightarrow> db_admins d' = db_admins d"
  by (auto simp: usage_frame_def)

lemma enroll_users_admins:
  "enroll_users now v s ns (new, ps, d) = Inr (new', ps', d') \<Longrightarrow> db_admins d' = db_admins d"
proof (induction ns arbitrary: new ps d)
  case (Cons n ns)
  then obtain u p b d1 pl new1 ps1 where 1: "provision_user_alias now v n (dict_get s n) d = Inr (u, p, b, d1)"
    and 2: "enroll_users now v s ns (new1, ps1, d1) = Inr (new', ps', d')"
    by (auto simp: rbind_Inr_iff)
  from Cons.IH [OF 2] provision_admins [OF 1] show ?case by simp
qed simp

lemma enroll_admins:
  assumes "enroll hash tz poll now rnd req d = Inr (resp, d')"
  shows "db_admins d' = db_admins d"
proof -
  have claim: "db_admins d2 = db_admins d1" if "claim_code now c d1 = Inr d2" for c d1 d2
    using that by (auto simp: claim_code_def split: if_splits option.splits)
  have bind: "db_admins d2 = db_admins d1" if "bind_device hash now t q d1 = Inr (i, old, d2)" for t q i old d1 d2
    using that by (auto simp: bind_device_def Let_def uuid4_def rbind_Inr_iff add_device_def flush_Inr
        dest!: update_device_admins split: option.splits)
  show ?thesis
    using assms by (auto simp: enroll_def Let_def rbind_Inr_iff dest!: claim bind enroll_users_admins)
qed

lemma record_spans_admins: "record_spans u v day ss d = Inr d' \<Longrightarrow> db_admins d' = db_admins d"
proof (induction u v day ss d rule: record_spans.induct)
  case (2 u v day s ss d)
  have insert: "db_admins d2 = db_admins d" if "insert_activity_interval u v day a b c d = Inr d2" for a b c d2
    using that by (auto simp: insert_activity_interval_def uuid4_def split: if_splits)
  from 2 show ?case by (auto simp: rbind_Inr_iff dest: insert split: if_splits)
qed simp

lemma sync_user_admins:
  assumes "sync_user agg digest now day v q d = Inr (r, d')"
  shows "db_admins d' = db_admins d"
proof -
  obtain u p al d1 d2 where 1: "resolve_user now (dev_id v) (sq_username q) d = Inr (u, p, al, d1)"
    and 2: "note_push_error now (sq_policy_push_error q) (al_id al) d1 = Inr d2"
    and 3: "record_usage now (usr_id u) (dev_id v) day q d2 = Inr d'"
    using assms by (auto simp: sync_user_def rbind_Inr_iff)
  have "db_admins d2 = db_admins d1" using 2 by (auto simp: note_push_error_def update_alias_def Let_def flush_Inr)
  moreover have "db_admins d' = db_admins d2"
    using 3 by (auto simp: record_usage_def rbind_Inr_iff upsert_usage_counter_def Let_def flush_Inr dest!: record_spans_admins)
  ultimately show ?thesis using resolve_admins [OF 1] by simp
qed

lemma sync_users_admins: "sync_users agg digest now day v qs (rs, d) = Inr (rs', d') \<Longrightarrow> db_admins d' = db_admins d"
proof (induction qs arbitrary: rs d)
  case (Cons q qs)
  then obtain r d1 where 1: "sync_user agg digest now day v q d = Inr (r, d1)"
    and 2: "sync_users agg digest now day v qs (rs @ [r], d1) = Inr (rs', d')"
    by (auto simp: rbind_Inr_iff)
  from Cons.IH [OF 2] sync_user_admins [OF 1] show ?case by simp
qed simp

lemma sync_admins:
  assumes "sync_endpoint agg digest hash cfg now c req d = Inr (resp, d')"
  shows "db_admins d' = db_admins d"
proof -
  obtain v stamp d1 rs where "canonical_stamp (Aware now) (hub_zone cfg) = Inr stamp"
    and 1: "record_check_in now req (dev_id v) d = Inr d1"
    and 2: "sync_users agg digest now (st_day stamp) v (sreq_users req) ([], d1) = Inr (rs, d')"
    using sync_endpoint_Inr [OF assms] by blast
  have "db_admins d1 = db_admins d"
    using 1 by (auto simp: record_check_in_def dest: update_device_admins split: if_splits)
  with sync_users_admins [OF 2] show ?thesis by simp
qed

subsection \<open>The user endpoints\<close>

text \<open>What an endpoint keeps: the invariant and the accounts.\<close>

definition keeps :: "db \<Rightarrow> db \<Rightarrow> bool" where
  "keeps d d' \<longleftrightarrow> (hub_ok d \<longrightarrow> hub_ok d') \<and> db_admins d' = db_admins d"

lemma keepsI: "(hub_ok d \<Longrightarrow> hub_ok d') \<Longrightarrow> db_admins d' = db_admins d \<Longrightarrow> keeps d d'"
  by (simp add: keeps_def)

lemma keeps_refl: "keeps d d"
  by (simp add: keeps_def)

lemma keeps_trans: "keeps d d1 \<Longrightarrow> keeps d1 d2 \<Longrightarrow> keeps d d2"
  by (simp add: keeps_def)

lemma keeps_audit: "record_audit_event now t i a tt ti b af ip d = Inr d' \<Longrightarrow> keeps d d'"
  by (auto simp: keeps_def dest: audit_frame)

lemma keeps_audit_user: "audit_user now a act n b af ip d = Inr d' \<Longrightarrow> keeps d d'"
  unfolding audit_user_def by (rule keeps_audit)

lemma keeps_audit_cleared: "audit_cleared b now a act n day ip d = Inr d' \<Longrightarrow> keeps d d'"
  unfolding audit_cleared_def by (auto dest: keeps_audit_user simp: keeps_refl split: if_splits)

lemma keeps_policy:
  assumes "update_policy now u upd by d = Inr (p, d')" "valid_policy_update upd"
  shows "keeps d d'"
  using update_policy_ok [OF _ assms] update_policy_admins [OF assms(1)] by (auto simp: keeps_def with_policy_def)

lemma keeps_grant: "add_grant r (d\<lparr>db_next_id := db_next_id d + 1\<rparr>) = Inr d' \<Longrightarrow> keeps d d'"
  using add_grant_ok [OF next_id_ok] by (force simp: keeps_def add_grant_def flush_Inr)

lemma keeps_set_day:
  assumes "set_day_override now u day l re by d = Inr (r, d')"
  shows "keeps d d'"
proof (rule keepsI)
  show "hub_ok d \<Longrightarrow> hub_ok d'" using set_day_override_ok(1) [OF _ assms] .
  show "db_admins d' = db_admins d" by (subst set_day_override_Inr(4) [OF assms]) simp
qed

lemma keeps_set_hours:
  assumes "set_day_hour_override now u day ivs re by d = Inr (r, d')" "list_all valid_wire_hour ivs"
  shows "keeps d d'"
proof (rule keepsI)
  show "hub_ok d \<Longrightarrow> hub_ok d'" using set_hour_override_ok(1) [OF _ assms] .
  show "db_admins d' = db_admins d" by (subst set_day_hour_override_Inr(4) [OF assms(1)]) simp
qed

lemma keeps_release:
  assumes "release_gate now u day by re d = Inr (r, d')"
  shows "keeps d d'"
proof (rule keepsI)
  show "hub_ok d \<Longrightarrow> hub_ok d'" using release_gate_ok(1) [OF _ assms] .
  show "db_admins d' = db_admins d" by (subst release_gate_Inr(3) [OF assms]) simp
qed

lemma keeps_clear:
  "keeps d (snd (clear_day_override u day d))" "keeps d (snd (clear_day_hour_override u day d))"
  "keeps d (snd (unrelease_gate u day d))"
  by (auto intro: keepsI clear_day_ok simp: clear_admins)

lemma keeps_user:
  assumes "update_user i f d = Inr d'"
    and "\<And>u. usr_id (f u) = usr_id u \<and> usr_current_policy_id (f u) = usr_current_policy_id u"
  shows "keeps d d'"
proof (rule keepsI)
  show "hub_ok d \<Longrightarrow> hub_ok d'" using update_user_ok(1) [OF _ assms] .
  show "db_admins d' = db_admins d" using assms(1) by (auto simp: update_user_def Let_def flush_Inr)
qed

lemma wire_intervals_valid: "wire_intervals rs = Inr ivs \<Longrightarrow> list_all valid_wire_hour ivs"
proof (induction rs arbitrary: ivs)
  case (Cons r rs)
  then obtain w ws where "wire_of_record r = Inr w" "wire_intervals rs = Inr ws" "ivs = w # ws"
    by (auto simp: wire_intervals_def rbind_Inr_iff)
  with Cons.IH show ?case by (auto simp: wire_of_record_def mk_wire_hour_def checked_def split: if_splits)
qed (simp add: wire_intervals_def)

lemma override_intervals_valid: "day_hour_override_intervals body = Inr ivs \<Longrightarrow> list_all valid_wire_hour ivs"
  by (auto simp: day_hour_override_intervals_def rbind_Inr_iff dest: wire_intervals_valid split: if_splits)

text \<open>The endpoints of \<open>api/admin/users.py\<close> keep the invariant and the accounts.\<close>

lemma keeps_create_grant: "create_grant hash cfg now c n body ip d = Inr (x, d') \<Longrightarrow> keeps d d'"
  by (auto simp: create_grant_def rbind_Inr_iff uuid4_def intro: keeps_trans [OF keeps_grant keeps_audit_user])

lemma keeps_update_user_policy: "update_user_policy hash now c n body ip d = Inr (x, d') \<Longrightarrow> keeps d d'"
  by (auto simp: update_user_policy_def rbind_Inr_iff check_policy_update_def intro: keeps_trans [OF keeps_policy keeps_audit_user])

lemma keeps_day_override: "set_user_day_override hash now c n body ip d = Inr (x, d') \<Longrightarrow> keeps d d'"
  by (auto simp: set_user_day_override_def rbind_Inr_iff intro: keeps_trans [OF keeps_set_day keeps_audit_user])

lemma keeps_clear_day_override: "clear_user_day_override hash now c n day ip d = Inr (x, d') \<Longrightarrow> keeps d d'"
  using keeps_trans [OF keeps_clear(1) keeps_audit_cleared]
  by (fastforce simp: clear_user_day_override_def rbind_Inr_iff split_beta)

lemma keeps_day_hours: "set_user_day_hour_override hash now c n body ip d = Inr (x, d') \<Longrightarrow> keeps d d'"
  by (auto simp: set_user_day_hour_override_def Let_def rbind_Inr_iff dest!: override_intervals_valid
      intro: keeps_trans [OF keeps_set_hours keeps_audit_user] split: if_splits)

lemma keeps_clear_day_hours: "clear_user_day_hour_override hash now c n day ip d = Inr (x, d') \<Longrightarrow> keeps d d'"
  using keeps_trans [OF keeps_clear(2) keeps_audit_cleared]
  by (fastforce simp: clear_user_day_hour_override_def rbind_Inr_iff split_beta)

lemma keeps_release_gate: "release_user_gate hash now c n body ip d = Inr (x, d') \<Longrightarrow> keeps d d'"
  by (auto simp: release_user_gate_def rbind_Inr_iff intro: keeps_trans [OF keeps_release keeps_audit_user])

lemma keeps_unrelease_gate: "unrelease_user_gate hash now c n day ip d = Inr (x, d') \<Longrightarrow> keeps d d'"
  using keeps_trans [OF keeps_clear(3) keeps_audit_cleared]
  by (fastforce simp: unrelease_user_gate_def rbind_Inr_iff split_beta)

lemma keeps_store_settings: "store_settings now a u n g acc off gr cap ip d = Inr (x, d') \<Longrightarrow> keeps d d'"
  by (auto simp: store_settings_def Let_def rbind_Inr_iff intro: keeps_trans [OF keeps_user keeps_audit_user])

lemma keeps_settings: "update_user_settings hash now c n body ip d = Inr (x, d') \<Longrightarrow> keeps d d'"
  by (auto simp: update_user_settings_def rbind_Inr_iff dest: keeps_store_settings)

text \<open>The device endpoints, of the API and of the UI.\<close>

lemma keeps_device_services:
  "revoke_device now i actor ip d = Inr (v, d') \<Longrightarrow> keeps d d'"
  "set_device_enforcement now i e actor ip d = Inr (v, d') \<Longrightarrow> keeps d d'"
  "delete_device now i actor ip d = Inr (v, d') \<Longrightarrow> keeps d d'"
  "create_enrollment_code now rnd d = Inr (r, d') \<Longrightarrow> keeps d d'"
proof -
  have dev: "keeps d d1" if "update_device j f d = Inr d1" "\<And>r. dev_id (f r) = dev_id r" for j f d1
    using update_device_ok [OF _ that(1)] that by (auto simp: keeps_def dest: update_device_admins)
  show "revoke_device now i actor ip d = Inr (v, d') \<Longrightarrow> keeps d d'"
    by (auto simp: revoke_device_def rbind_Inr_iff keeps_refl intro: keeps_trans [OF dev keeps_audit] split: option.splits)
  show "set_device_enforcement now i e actor ip d = Inr (v, d') \<Longrightarrow> keeps d d'"
    by (auto simp: set_device_enforcement_def rbind_Inr_iff keeps_refl intro: keeps_trans [OF dev keeps_audit] split: option.splits)
  have row: "keeps d1 (delete_device_row i d1)" for d1
    by (rule keepsI [OF delete_device_row_ok]) (simp_all add: delete_device_row_def)
  show "delete_device now i actor ip d = Inr (v, d') \<Longrightarrow> keeps d d'"
    by (auto simp: delete_device_def rbind_Inr_iff keeps_refl intro: keeps_trans [OF keeps_audit row] split: option.splits)
  show "create_enrollment_code now rnd d = Inr (r, d') \<Longrightarrow> keeps d d'"
    using create_code_ok by (auto simp: keeps_def create_enrollment_code_def Let_def rbind_Inr_iff add_code_def flush_Inr)
qed

subsection \<open>The pages\<close>

lemma keeps_get_or_create: "get_or_create_policy now u None d = Inr (p, d') \<Longrightarrow> keeps d d'"
  using get_or_create_policy_ok [of d now u None p d'] get_or_create_admins [of now u None d p d']
  by (auto simp: keeps_def with_policy_def)

lemma parse_policy_form_valid: "parse_policy_form form = Inr u \<Longrightarrow> valid_policy_update u"
  by (auto simp: parse_policy_form_def rbind_Inr_iff Let_def check_policy_update_def split: if_splits sum.splits)

lemma keeps_policy_page: "user_policy_page hash cfg now c n d = Inr (x, d') \<Longrightarrow> keeps d d'"
  by (auto simp: user_policy_page_def rbind_Inr_iff dest: keeps_get_or_create)

lemma keeps_update_policy_ui: "update_policy_ui hash now c n form ip d = Inr d' \<Longrightarrow> keeps d d'"
  by (auto simp: update_policy_ui_def rbind_Inr_iff
      intro: keeps_trans [OF keeps_get_or_create keeps_trans [OF keeps_policy [OF _ parse_policy_form_valid] keeps_audit_user]])

lemma keeps_card_action:
  assumes "card_action hash agg cfg now c n act d = Inr (x, d')"
    and "\<And>a u d1. act a u d = Inr d1 \<Longrightarrow> keeps d d1"
  shows "keeps d d'"
  using assms(1) by (auto simp: card_action_def rbind_Inr_iff dest: assms(2))

lemma keeps_grant_ui: "grant_from_ui hash agg cfg now c n s day ip d = Inr (x, d') \<Longrightarrow> keeps d d'"
  by (auto simp: grant_from_ui_def rbind_Inr_iff uuid4_def Let_def keeps_refl
      intro: keeps_trans [OF keeps_grant keeps_audit_user] split: if_splits option.splits)

lemma keeps_day_override_ui: "set_day_override_ui hash agg cfg now c n day m lh lm re ip d = Inr (x, d') \<Longrightarrow> keeps d d'"
  by (auto simp: set_day_override_ui_def rbind_Inr_iff Let_def split: if_splits elim!: keeps_card_action
      intro: keeps_trans [OF keeps_set_day keeps_audit_user])

lemma keeps_cleared:
  "audit_cleared (fst r) now a act n day ip (snd r) = Inr d' \<Longrightarrow> keeps d (snd r) \<Longrightarrow> keeps d d'"
  by (blast intro: keeps_trans keeps_audit_cleared)

lemma keeps_clear_day_override_ui: "clear_day_override_ui hash agg cfg now c n day ip d = Inr (x, d') \<Longrightarrow> keeps d d'"
  unfolding clear_day_override_ui_def
  by (erule keeps_card_action) (unfold rbind_Inr_iff split_beta, blast intro: keeps_cleared keeps_clear)

lemma window_hours_valid: "window_hours s e = Inr ivs \<Longrightarrow> list_all valid_wire_hour ivs"
  by (cases "mk_interval s e False") (auto simp: window_hours_def dest: wire_intervals_valid split: if_splits)

lemma keeps_day_hours_ui: "set_day_hour_override_ui hash agg cfg now c n day m f t mid re ip d = Inr (x, d') \<Longrightarrow> keeps d d'"
  unfolding set_day_hour_override_ui_def
  by (erule keeps_card_action)
    (auto simp: rbind_Inr_iff dest!: window_hours_valid wire_intervals_valid split: if_splits
      intro: keeps_trans [OF keeps_get_or_create keeps_trans [OF keeps_set_hours keeps_audit_user]])

lemma keeps_clear_day_hours_ui:
  assumes "clear_day_hour_override_ui hash agg cfg now c n day to ip d = Inr (x, d')"
  shows "keeps d d'"
proof -
  have act: "keeps d d1" if "rbind (date_fromisoformat day) (\<lambda>date.
         case clear_day_hour_override i date d of (cleared, d) \<Rightarrow>
           audit_cleared cleared now a act n day ip d) = Inr d1" for i a act d1
    using that unfolding rbind_Inr_iff split_beta by (blast intro: keeps_cleared keeps_clear)
  show ?thesis
    using assms unfolding clear_day_hour_override_ui_def rbind_Inr_iff
    by (auto elim!: keeps_card_action intro: act)
qed

lemma keeps_release_gate_ui: "release_gate_ui hash agg cfg now c n ip d = Inr (x, d') \<Longrightarrow> keeps d d'"
  unfolding release_gate_ui_def
  by (erule keeps_card_action) (auto simp: rbind_Inr_iff intro: keeps_trans [OF keeps_release keeps_audit_user])

lemma keeps_unrelease_gate_ui: "unrelease_gate_ui hash agg cfg now c n ip d = Inr (x, d') \<Longrightarrow> keeps d d'"
  unfolding unrelease_gate_ui_def
  by (erule keeps_card_action) (unfold rbind_Inr_iff split_beta, blast intro: keeps_cleared keeps_clear)

lemma keeps_settings_ui: "update_user_settings_ui hash now c n am op g cp form ip d = Inr d' \<Longrightarrow> keeps d d'"
  by (auto simp: update_user_settings_ui_def rbind_Inr_iff Let_def dest: keeps_store_settings split: if_splits)

lemma keeps_rename_ui: "rename_user_ui hash now c n name ip d = Inr d' \<Longrightarrow> keeps d d'"
  by (auto simp: rename_user_ui_def rbind_Inr_iff intro: keeps_trans [OF keeps_user keeps_audit_user] split: if_splits)

lemma keeps_stats_page: "user_stats_page hash agg cfg now c n days d = Inr (x, d') \<Longrightarrow> keeps d d'"
  by (auto simp: user_stats_page_def rbind_Inr_iff Let_def dest: keeps_get_or_create)

text \<open>Deleting a user takes every row that refers to it.\<close>

lemma find_filter: "find_row key k rows = Some r \<Longrightarrow> Q r \<Longrightarrow> find_row key k (filter Q rows) = Some r"
  by (induction rows) (auto split: if_splits)

lemma policy_current_delete:
  assumes "policy_current u ps" "usr_id u \<noteq> i"
  shows "policy_current u (filter (\<lambda>r. pol_user_id r \<noteq> i) ps)"
proof (cases "usr_current_policy_id u")
  case None
  then show ?thesis using assms by (simp add: policy_current_def list_all_iff)
next
  case (Some k)
  then obtain p where p: "find_row pol_id k ps = Some p" "pol_user_id p = usr_id u"
      "list_all (\<lambda>q. pol_user_id q = usr_id u \<longrightarrow> pol_version q \<le> pol_version p) ps"
    using assms(1) by (auto simp: policy_current_def split: option.splits)
  have "find_row pol_id k (filter (\<lambda>r. pol_user_id r \<noteq> i) ps) = Some p"
    by (rule find_filter [OF p(1)]) (use p(2) assms(2) in simp)
  then show ?thesis using p(2,3) Some by (simp add: policy_current_def list_all_iff)
qed

lemma delete_user_row_ok:
  assumes "hub_ok d"
  shows "hub_ok (delete_user_row i d)"
proof -
  have t: "tables_ok d" and c: "current_ok d" using assms by (simp_all add: hub_ok_def)
  let ?us = "delete_rows usr_id i (db_users d)"
  have us: "users_ok (db_next_id d) ?us"
    using t by (auto simp: tables_ok_def users_ok_def delete_rows_def list_all_iff intro: unique_filter)
  have ids: "usr_id ` set ?us = uids d - {i}" by (auto simp: delete_rows_def)
  have "policies_ok (db_next_id d) (usr_id ` set ?us) (filter (\<lambda>r. pol_user_id r \<noteq> i) (db_policies d))"
    using t unfolding ids by (auto simp: tables_ok_def policies_ok_def list_all_iff intro: unique_filter)
  moreover have "aliases_ok (db_next_id d) (usr_id ` set ?us) (dids d) (filter (\<lambda>r. al_user_id r \<noteq> i) (db_aliases d))"
    using t unfolding ids by (auto simp: tables_ok_def aliases_ok_def list_all_iff intro: unique_filter)
  moreover have "usage_ok (filter (\<lambda>r. uc_user_id r \<noteq> i) (db_counters d)) (filter (\<lambda>r. ai_user_id r \<noteq> i) (db_intervals d))"
    using t by (auto simp: tables_ok_def usage_ok_def list_all_iff intro: unique_filter)
  moreover have "days_ok (filter (\<lambda>r. dov_user_id r \<noteq> i) (db_day_overrides d)) (filter (\<lambda>r. hov_user_id r \<noteq> i) (db_hour_overrides d))
      (filter (\<lambda>r. rel_user_id r \<noteq> i) (db_releases d))"
    using t by (auto simp: tables_ok_def days_ok_def list_all_iff intro: unique_filter)
  ultimately have "tables_ok (delete_user_row i d)" using t us by (simp add: tables_ok_def delete_user_row_def)
  moreover have "current_ok (delete_user_row i d)"
    using c by (auto simp: current_ok_def delete_user_row_def list_all_iff delete_rows_def intro: policy_current_delete)
  ultimately show ?thesis by (simp add: hub_ok_def)
qed

lemma keeps_delete_user_ui:
  assumes "delete_user_ui hash now c n ip d = Inr d'"
  shows "keeps d d'"
proof -
  have row: "keeps d1 (delete_user_row i d1)" for i d1
    by (rule keepsI [OF delete_user_row_ok]) (simp_all add: delete_user_row_def)
  show ?thesis
    using assms by (auto simp: delete_user_ui_def rbind_Inr_iff intro: keeps_trans [OF keeps_audit_user row])
qed

end
