(* ===== verification/Hub_System.thy ===== *)
theory Hub_System
  imports Hub_Endpoints
begin

section \<open>The hub as a transition system\<close>

text \<open>
  Every route of the hub that writes, as one constructor of \<open>request\<close> and one arm of \<open>handle\<close>: the
  routes are those of \<open>api/\<close>, the session gate of \<open>hub/timekpr_hub/app.py\<close> is the first step of
  each gated definition. A run is any sequence of committed requests from the empty database. The
  properties hold in every database such a run reaches.
\<close>

subsection \<open>Requests\<close>

text \<open>What the hub runs on, and what a request brings along besides its body.\<close>

record hub_env =
  he_agg :: range_agg
  he_digest :: digest
  he_hash :: "string \<Rightarrow> string"
  he_hash_pw :: "string \<Rightarrow> string"
  he_verify :: "string \<Rightarrow> string \<Rightarrow> bool"
  he_cfg :: hub_settings

record call =
  rq_now :: instant
  rq_rnd :: string
  rq_ip :: "string option"
  rq_user_agent :: "string option"
  rq_cookie :: "string option"
  rq_base_url :: string

text \<open>Without a session: what a device sends, and what leads to a session or away from one.\<close>

datatype public_request =
    Enroll_Request enroll_request
  | Sync_Request "string option" sync_request
  | Setup string string
  | Login string string
  | Logout
  | Accept_Invite string string string

datatype accounts_request =
    Invite_Api
  | Invite_Ui
  | Delete_Admin_Api uuid
  | Delete_Admin_Ui uuid
  | Password_Api string string
  | Password_Ui string string

datatype devices_request =
    Code_Api
  | Code_Ui
  | Revoke_Api uuid
  | Revoke_Ui uuid
  | Observe_Api uuid
  | Observe_Ui uuid
  | Enforce_Api uuid
  | Enforce_Ui uuid
  | Delete_Device_Api uuid
  | Delete_Device_Ui uuid

datatype users_request =
    Grant_Api username grant_create
  | Grant_Ui username seconds string
  | Policy_Api username policy_update
  | Policy_Ui username form
  | Policy_Page username
  | Stats_Page username int
  | Settings_Api username user_settings_update
  | Settings_Ui username string string int int form
  | Rename_Ui username string
  | Delete_User_Ui username

datatype days_request =
    Day_Api username day_override_create
  | Day_Ui username string string int int string
  | Clear_Day_Api username string
  | Clear_Day_Ui username string
  | Hours_Api username day_hours_create
  | Hours_Ui username string string string string "string option" string
  | Clear_Hours_Api username string
  | Clear_Hours_Ui username string string
  | Release_Api username gate_release_create
  | Release_Ui username
  | Unrelease_Api username string
  | Unrelease_Ui username

datatype request =
    Public public_request
  | Accounts accounts_request
  | Devices devices_request
  | Users users_request
  | Days days_request

definition committed :: "('a \<times> db) result \<Rightarrow> db result" where
  "committed r = rbind r (\<lambda>(_, d). Inr d)"

lemma committed_Inr [simp]: "committed r = Inr d' \<longleftrightarrow> (\<exists>x. r = Inr (x, d'))"
  by (auto simp: committed_def rbind_Inr_iff)

lemma committed_Inl [simp]: "committed (Inl e) = Inl e"
  by (simp add: committed_def)

text \<open>The routes: the database a request commits, or how it fails.\<close>

definition handle_public :: "hub_env \<Rightarrow> call \<Rightarrow> public_request \<Rightarrow> db \<Rightarrow> db result" where
  "handle_public e c q d =
     (case q of
        Enroll_Request r \<Rightarrow> committed (enroll (he_hash e) (hub_tz_name (he_cfg e)) (default_next_poll_ms (he_cfg e)) (rq_now c) (rq_rnd c) r d)
      | Sync_Request t r \<Rightarrow> committed (sync_endpoint (he_agg e) (he_digest e) (he_hash e) (he_cfg e) (rq_now c) t r d)
      | Setup m p \<Rightarrow> committed (setup_submit (he_hash e) (he_hash_pw e) (rq_now c) (rq_rnd c) m p (rq_ip c) (rq_user_agent c) d)
      | Login m p \<Rightarrow> committed (login_submit (he_hash e) (he_verify e) (rq_now c) (rq_rnd c) m p (rq_ip c) (rq_user_agent c) d)
      | Logout \<Rightarrow> Inr (logout (he_hash e) (rq_cookie c) d)
      | Accept_Invite t m p \<Rightarrow> committed (invite_submit (he_hash e) (he_hash_pw e) (rq_now c) (rq_rnd c) t m p (rq_ip c) (rq_user_agent c) d))"

definition handle_accounts :: "hub_env \<Rightarrow> call \<Rightarrow> accounts_request \<Rightarrow> db \<Rightarrow> db result" where
  "handle_accounts e c q d =
     (case q of
        Invite_Api \<Rightarrow> committed (create_admin_invite (he_hash e) (rq_now c) (rq_cookie c) (rq_rnd c) (rq_ip c) (rq_base_url c) d)
      | Invite_Ui \<Rightarrow> committed (create_admin_invite_ui (he_hash e) (rq_now c) (rq_cookie c) (rq_rnd c) (rq_ip c) (rq_base_url c) d)
      | Delete_Admin_Api i \<Rightarrow> committed (delete_admin (he_hash e) (rq_now c) (rq_cookie c) i (rq_ip c) d)
      | Delete_Admin_Ui i \<Rightarrow> committed (delete_admin_ui (he_hash e) (rq_now c) (rq_cookie c) i (rq_ip c) d)
      | Password_Api old new \<Rightarrow> change_own_password (he_hash e) (he_hash_pw e) (he_verify e) (rq_now c) (rq_cookie c) old new (rq_ip c) d
      | Password_Ui old new \<Rightarrow> committed (change_own_password_ui (he_hash e) (he_hash_pw e) (he_verify e) (rq_now c) (rq_cookie c) old new (rq_ip c) d))"

definition handle_devices :: "hub_env \<Rightarrow> call \<Rightarrow> devices_request \<Rightarrow> db \<Rightarrow> db result" where
  "handle_devices e c q d =
     (case q of
        Code_Api \<Rightarrow> committed (create_enrollment_code_api (he_hash e) (rq_now c) (rq_cookie c) (rq_rnd c) d)
      | Code_Ui \<Rightarrow> committed (create_enrollment_code_ui (he_hash e) (rq_now c) (rq_cookie c) (rq_rnd c) (rq_base_url c) d)
      | Revoke_Api i \<Rightarrow> committed (revoke_device_api (he_hash e) (rq_now c) (rq_cookie c) i (rq_ip c) d)
      | Revoke_Ui i \<Rightarrow> committed (revoke_device_ui (he_hash e) (default_next_poll_ms (he_cfg e)) (rq_now c) (rq_cookie c) i (rq_ip c) d)
      | Observe_Api i \<Rightarrow> committed (set_device_observe_mode (he_hash e) (rq_now c) (rq_cookie c) i (rq_ip c) d)
      | Observe_Ui i \<Rightarrow> committed (set_device_observe_mode_ui (he_hash e) (default_next_poll_ms (he_cfg e)) (rq_now c) (rq_cookie c) i (rq_ip c) d)
      | Enforce_Api i \<Rightarrow> committed (set_device_enforce_mode (he_hash e) (rq_now c) (rq_cookie c) i (rq_ip c) d)
      | Enforce_Ui i \<Rightarrow> committed (set_device_enforce_mode_ui (he_hash e) (default_next_poll_ms (he_cfg e)) (rq_now c) (rq_cookie c) i (rq_ip c) d)
      | Delete_Device_Api i \<Rightarrow> committed (delete_device_api (he_hash e) (rq_now c) (rq_cookie c) i (rq_ip c) d)
      | Delete_Device_Ui i \<Rightarrow> committed (delete_device_ui (he_hash e) (default_next_poll_ms (he_cfg e)) (rq_now c) (rq_cookie c) i (rq_ip c) d))"

definition handle_users :: "hub_env \<Rightarrow> call \<Rightarrow> users_request \<Rightarrow> db \<Rightarrow> db result" where
  "handle_users e c q d =
     (case q of
        Grant_Api n b \<Rightarrow> committed (create_grant (he_hash e) (he_cfg e) (rq_now c) (rq_cookie c) n b (rq_ip c) d)
      | Grant_Ui n s day \<Rightarrow> committed (grant_from_ui (he_hash e) (he_agg e) (he_cfg e) (rq_now c) (rq_cookie c) n s day (rq_ip c) d)
      | Policy_Api n u \<Rightarrow> committed (update_user_policy (he_hash e) (rq_now c) (rq_cookie c) n u (rq_ip c) d)
      | Policy_Ui n f \<Rightarrow> update_policy_ui (he_hash e) (rq_now c) (rq_cookie c) n f (rq_ip c) d
      | Policy_Page n \<Rightarrow> committed (user_policy_page (he_hash e) (he_cfg e) (rq_now c) (rq_cookie c) n d)
      | Stats_Page n days \<Rightarrow> committed (user_stats_page (he_hash e) (he_agg e) (he_cfg e) (rq_now c) (rq_cookie c) n days d)
      | Settings_Api n b \<Rightarrow> committed (update_user_settings (he_hash e) (rq_now c) (rq_cookie c) n b (rq_ip c) d)
      | Settings_Ui n am op g cp f \<Rightarrow> update_user_settings_ui (he_hash e) (rq_now c) (rq_cookie c) n am op g cp f (rq_ip c) d
      | Rename_Ui n name \<Rightarrow> rename_user_ui (he_hash e) (rq_now c) (rq_cookie c) n name (rq_ip c) d
      | Delete_User_Ui n \<Rightarrow> delete_user_ui (he_hash e) (rq_now c) (rq_cookie c) n (rq_ip c) d)"

definition handle_days :: "hub_env \<Rightarrow> call \<Rightarrow> days_request \<Rightarrow> db \<Rightarrow> db result" where
  "handle_days e c q d =
     (case q of
        Day_Api n b \<Rightarrow> committed (set_user_day_override (he_hash e) (rq_now c) (rq_cookie c) n b (rq_ip c) d)
      | Day_Ui n day m lh lm re \<Rightarrow> committed (set_day_override_ui (he_hash e) (he_agg e) (he_cfg e) (rq_now c) (rq_cookie c) n day m lh lm re (rq_ip c) d)
      | Clear_Day_Api n day \<Rightarrow> committed (clear_user_day_override (he_hash e) (rq_now c) (rq_cookie c) n day (rq_ip c) d)
      | Clear_Day_Ui n day \<Rightarrow> committed (clear_day_override_ui (he_hash e) (he_agg e) (he_cfg e) (rq_now c) (rq_cookie c) n day (rq_ip c) d)
      | Hours_Api n b \<Rightarrow> committed (set_user_day_hour_override (he_hash e) (rq_now c) (rq_cookie c) n b (rq_ip c) d)
      | Hours_Ui n day m f t mid re \<Rightarrow> committed (set_day_hour_override_ui (he_hash e) (he_agg e) (he_cfg e) (rq_now c) (rq_cookie c) n day m f t mid re (rq_ip c) d)
      | Clear_Hours_Api n day \<Rightarrow> committed (clear_user_day_hour_override (he_hash e) (rq_now c) (rq_cookie c) n day (rq_ip c) d)
      | Clear_Hours_Ui n day to \<Rightarrow> committed (clear_day_hour_override_ui (he_hash e) (he_agg e) (he_cfg e) (rq_now c) (rq_cookie c) n day to (rq_ip c) d)
      | Release_Api n b \<Rightarrow> committed (release_user_gate (he_hash e) (rq_now c) (rq_cookie c) n b (rq_ip c) d)
      | Release_Ui n \<Rightarrow> committed (release_gate_ui (he_hash e) (he_agg e) (he_cfg e) (rq_now c) (rq_cookie c) n (rq_ip c) d)
      | Unrelease_Api n day \<Rightarrow> committed (unrelease_user_gate (he_hash e) (rq_now c) (rq_cookie c) n day (rq_ip c) d)
      | Unrelease_Ui n \<Rightarrow> committed (unrelease_gate_ui (he_hash e) (he_agg e) (he_cfg e) (rq_now c) (rq_cookie c) n (rq_ip c) d))"

definition handle :: "hub_env \<Rightarrow> call \<Rightarrow> request \<Rightarrow> db \<Rightarrow> db result" where
  "handle e c q d =
     (case q of
        Public q \<Rightarrow> handle_public e c q d
      | Accounts q \<Rightarrow> handle_accounts e c q d
      | Devices q \<Rightarrow> handle_devices e c q d
      | Users q \<Rightarrow> handle_users e c q d
      | Days q \<Rightarrow> handle_days e c q d)"

text \<open>A step is a request that commits; a failed one is rolled back and changes nothing.\<close>

inductive hub_step :: "hub_env \<Rightarrow> db \<Rightarrow> db \<Rightarrow> bool" for e where
  request: "handle e c q d = Inr d' \<Longrightarrow> hub_step e d d'"

inductive_cases hub_stepE: "hub_step e d d'"

inductive hub_run :: "hub_env \<Rightarrow> db \<Rightarrow> db \<Rightarrow> bool" for e where
  stay: "hub_run e d d"
| more: "hub_run e d d1 \<Longrightarrow> hub_step e d1 d' \<Longrightarrow> hub_run e d d'"

text \<open>Only what an account endpoint may do to the admins: not remove the last one.\<close>

definition guards :: "db \<Rightarrow> db \<Rightarrow> bool" where
  "guards d d' \<longleftrightarrow> (hub_ok d \<longrightarrow> hub_ok d') \<and> (db_admins d \<noteq> [] \<longrightarrow> hub_ok d \<longrightarrow> db_admins d' \<noteq> [])"

lemma keeps_guards: "keeps d d' \<Longrightarrow> guards d d'"
  by (simp add: keeps_def guards_def)

lemma keeps_accounts:
  "keeps d d' \<Longrightarrow> hub_ok d \<Longrightarrow> hub_ok d' \<and> db_admins d' = db_admins d"
  by (simp add: keeps_def)

lemma guards_public: "handle_public e c q d = Inr d' \<Longrightarrow> guards d d'"
proof (cases q)
  case (Enroll_Request r)
  assume "handle_public e c q d = Inr d'"
  then show ?thesis using Enroll_Request by (auto simp: handle_public_def guards_def dest: enroll_ok enroll_admins)
next
  case (Sync_Request t r)
  assume "handle_public e c q d = Inr d'"
  then show ?thesis using Sync_Request by (auto simp: handle_public_def guards_def dest: sync_endpoint_ok sync_admins)
next
  case (Setup m p)
  assume "handle_public e c q d = Inr d'"
  then show ?thesis using Setup setup_ok by (fastforce simp: handle_public_def guards_def)
next
  case (Login m p)
  assume "handle_public e c q d = Inr d'"
  then show ?thesis using Login login_ok by (fastforce simp: handle_public_def guards_def)
next
  case Logout
  assume "handle_public e c q d = Inr d'"
  then show ?thesis using Logout logout_ok by (auto simp: handle_public_def guards_def)
next
  case (Accept_Invite t m p)
  assume "handle_public e c q d = Inr d'"
  then show ?thesis using Accept_Invite invite_ok by (fastforce simp: handle_public_def guards_def)
qed

lemma delete_admin_Inr:
  assumes "delete_admin h now ck i ip d = Inr (x, d')"
  shows "\<exists>(a :: admin_row) t. delete_admin_account now i (adm_id a) ip d = Inr (t, d')"
proof -
  obtain a :: admin_row where a: "(case delete_admin_account now i (adm_id a) ip d of
         Inl LastAdminError \<Rightarrow> Inl (HTTPException 409)
       | Inl e \<Rightarrow> Inl e
       | Inr (None, _) \<Rightarrow> Inl (HTTPException 404)
       | Inr (Some _, d) \<Rightarrow> Inr (i, d)) = Inr (x, d')"
    using assms unfolding delete_admin_def rbind_Inr_iff by blast
  show ?thesis
  proof (cases "delete_admin_account now i (adm_id a) ip d")
    case (Inl e)
    then show ?thesis using a by (cases e) simp_all
  next
    case (Inr r)
    then show ?thesis using a by (cases r) (auto split: option.splits)
  qed
qed

lemma delete_admin_ui_Inr:
  assumes "delete_admin_ui h now ck i ip d = Inr (x, d')"
  shows "\<exists>(a :: admin_row) t. d' = d \<or> delete_admin_account now i (adm_id a) ip d = Inr (t, d')"
proof -
  obtain a :: admin_row where a: "(case delete_admin_account now i (adm_id a) ip d of
         Inl LastAdminError \<Rightarrow> Inr (admins_fragment_context a d, d)
       | Inl e \<Rightarrow> Inl e
       | Inr (_, d) \<Rightarrow> Inr (admins_fragment_context a d, d)) = Inr (x, d')"
    using assms unfolding delete_admin_ui_def rbind_Inr_iff by blast
  show ?thesis
  proof (cases "delete_admin_account now i (adm_id a) ip d")
    case (Inl e)
    then show ?thesis using a by (cases e) simp_all
  next
    case (Inr r)
    then show ?thesis using a by (cases r) auto
  qed
qed

lemma change_own_password_Inr:
  assumes "change_own_password h hp vf now ck old new ip d = Inr d'"
  shows "\<exists>a. get_current_admin_api h now ck d = Inr a \<and>
    change_admin_own_password h hp vf now a old new (str_or ck '''') ip d = Inr d'"
proof -
  obtain a where a: "get_current_admin_api h now ck d = Inr a" "(case change_admin_own_password h hp vf now a old new (str_or ck '''') ip d of
           Inl WrongPasswordError \<Rightarrow> Inl (HTTPException 401)
         | r \<Rightarrow> r) = Inr d'"
    using assms by (auto simp: change_own_password_def rbind_Inr_iff split: if_splits)
  then show ?thesis
    by (cases "change_admin_own_password h hp vf now a old new (str_or ck '''') ip d") (auto split: exc.splits)
qed

lemma change_own_password_ui_Inr:
  assumes "change_own_password_ui h hp vf now ck old new ip d = Inr (b, d')"
  shows "\<exists>a. d' = d \<or> change_admin_own_password h hp vf now a old new (str_or ck '''') ip d = Inr d'"
proof -
  obtain a where "(case change_admin_own_password h hp vf now a old new (str_or ck '''') ip d of
           Inl WrongPasswordError \<Rightarrow> Inr (False, d)
         | Inl e \<Rightarrow> Inl e
         | Inr d \<Rightarrow> Inr (True, d)) = Inr (b, d')"
    using assms by (auto simp: change_own_password_ui_def rbind_Inr_iff split: if_splits)
  then show ?thesis
    by (cases "change_admin_own_password h hp vf now a old new (str_or ck '''') ip d") (auto split: exc.splits)
qed

lemma guards_accounts: "handle_accounts e c q d = Inr d' \<Longrightarrow> guards d d'"
proof (cases q)
  case Invite_Api
  assume "handle_accounts e c q d = Inr d'"
  then show ?thesis using Invite_Api mint_ok by (fastforce simp: handle_accounts_def create_admin_invite_def rbind_Inr_iff guards_def)
next
  case Invite_Ui
  assume "handle_accounts e c q d = Inr d'"
  then show ?thesis using Invite_Ui mint_ok by (fastforce simp: handle_accounts_def create_admin_invite_ui_def rbind_Inr_iff guards_def)
next
  case (Delete_Admin_Api i)
  assume "handle_accounts e c q d = Inr d'"
  then obtain a :: admin_row and t where "delete_admin_account (rq_now c) i (adm_id a) (rq_ip c) d = Inr (t, d')"
    using Delete_Admin_Api by (auto simp: handle_accounts_def dest!: delete_admin_Inr)
  then show ?thesis using delete_account_ok by (auto simp: guards_def)
next
  case (Delete_Admin_Ui i)
  assume "handle_accounts e c q d = Inr d'"
  then obtain a :: admin_row and t where "d' = d \<or> delete_admin_account (rq_now c) i (adm_id a) (rq_ip c) d = Inr (t, d')"
    using Delete_Admin_Ui by (auto simp: handle_accounts_def dest!: delete_admin_ui_Inr)
  then show ?thesis using delete_account_ok by (auto simp: guards_def)
next
  case (Password_Api old new)
  assume "handle_accounts e c q d = Inr d'"
  then obtain a where "change_admin_own_password (he_hash e) (he_hash_pw e) (he_verify e) (rq_now c) a old new (str_or (rq_cookie c) '''') (rq_ip c) d = Inr d'"
    using Password_Api by (auto simp: handle_accounts_def dest!: change_own_password_Inr)
  then show ?thesis using change_password_ok by (fastforce simp: guards_def)
next
  case (Password_Ui old new)
  assume "handle_accounts e c q d = Inr d'"
  then obtain a where "d' = d \<or>
      change_admin_own_password (he_hash e) (he_hash_pw e) (he_verify e) (rq_now c) a old new (str_or (rq_cookie c) '''') (rq_ip c) d = Inr d'"
    using Password_Ui by (auto simp: handle_accounts_def dest!: change_own_password_ui_Inr)
  then show ?thesis using change_password_ok by (fastforce simp: guards_def)
qed

lemma keeps_or_404: "or_404 r = Inr (x, d') \<Longrightarrow> (\<And>v. r = Inr (v, d') \<Longrightarrow> keeps d d') \<Longrightarrow> keeps d d'"
  by (auto simp: or_404_def rbind_Inr_iff split: option.splits)

lemma keeps_device_action:
  "device_action_ui h poll now ck act d = Inr (x, d') \<Longrightarrow> (\<And>a v. act a d = Inr (v, d') \<Longrightarrow> keeps d d') \<Longrightarrow> keeps d d'"
  by (auto simp: device_action_ui_def rbind_Inr_iff)

lemma keeps_devices: "handle_devices e c q d = Inr d' \<Longrightarrow> keeps d d'"
  by (cases q)
    (auto simp: handle_devices_def create_enrollment_code_api_def create_enrollment_code_ui_def revoke_device_api_def
      revoke_device_ui_def set_device_observe_mode_def set_device_observe_mode_ui_def set_device_enforce_mode_def
      set_device_enforce_mode_ui_def delete_device_api_def delete_device_ui_def rbind_Inr_iff
      elim!: keeps_or_404 keeps_device_action dest: keeps_device_services)

lemmas keeps_user_routes = keeps_create_grant keeps_grant_ui keeps_update_user_policy keeps_update_policy_ui keeps_policy_page
  keeps_stats_page keeps_settings keeps_settings_ui keeps_rename_ui keeps_delete_user_ui

lemmas keeps_day_routes = keeps_day_override keeps_day_override_ui keeps_clear_day_override keeps_clear_day_override_ui
  keeps_day_hours keeps_day_hours_ui keeps_clear_day_hours keeps_clear_day_hours_ui keeps_release_gate keeps_release_gate_ui
  keeps_unrelease_gate keeps_unrelease_gate_ui

lemma keeps_users: "handle_users e c q d = Inr d' \<Longrightarrow> keeps d d'"
  by (cases q) (auto simp: handle_users_def dest: keeps_user_routes)

lemma keeps_days: "handle_days e c q d = Inr d' \<Longrightarrow> keeps d d'"
  by (cases q) (auto simp: handle_days_def dest: keeps_day_routes)

lemma step_guards: "hub_step e d d' \<Longrightarrow> guards d d'"
  by (erule hub_stepE)
    (auto simp: handle_def dest: guards_public guards_accounts keeps_devices keeps_users keeps_days keeps_guards split: request.splits)

lemma run_guards: "hub_run e d d' \<Longrightarrow> hub_ok d \<Longrightarrow> hub_ok d' \<and> (db_admins d \<noteq> [] \<longrightarrow> db_admins d' \<noteq> [])"
  by (induction rule: hub_run.induct) (auto simp: guards_def dest: step_guards)

lemma run_trans: "hub_run e d1 d2 \<Longrightarrow> hub_run e d d1 \<Longrightarrow> hub_run e d d2"
  by (induction rule: hub_run.induct) (auto intro: hub_run.intros)

text \<open>Playing a list of requests, all of which have to commit.\<close>

fun play :: "hub_env \<Rightarrow> (call \<times> request) list \<Rightarrow> db \<Rightarrow> db result" where
  "play e [] d = Inr d"
| "play e ((c, q) # qs) d = rbind (handle e c q d) (play e qs)"

lemma play_run: "play e qs d = Inr d' \<Longrightarrow> hub_run e d d'"
proof (induction e qs d rule: play.induct)
  case (2 e c q qs d)
  then obtain d1 where 1: "handle e c q d = Inr d1" "hub_run e d1 d'" by (auto simp: rbind_Inr_iff)
  have "hub_run e d d1" by (rule more [OF stay request [OF 1(1)]])
  with 1(2) show ?case by (rule run_trans)
qed (simp add: stay)

definition sample_env :: hub_env where
  "sample_env = \<lparr>he_agg = sweep_agg, he_digest = (\<lambda>_. ''d''), he_hash = (\<lambda>t. t), he_hash_pw = (\<lambda>p. p), he_verify = (=),
     he_cfg = sample_settings\<rparr>"

definition sample_call :: "string option \<Rightarrow> string \<Rightarrow> call" where
  "sample_call cookie rnd = \<lparr>rq_now = sample_noon, rq_rnd = rnd, rq_ip = None, rq_user_agent = None, rq_cookie = cookie,
     rq_base_url = ''https://hub''\<rparr>"

definition sample_enrollment :: enroll_request where
  "sample_enrollment = \<lparr>enr_enrollment_code = ''CODE1234'', enr_hostname = ''pc'', enr_machine_id = ''m1'',
     enr_agent_version = ''1'', enr_local_users = [''anna''], enr_local_policies = []\<rparr>"

definition sample_sync :: sync_request where
  "sample_sync = \<lparr>sreq_agent_time = sample_noon, sreq_agent_version = ''1'', sreq_users = [sample_entry]\<rparr>"

text \<open>A first day: the hub is set up, a device enrolled and synced, and the user denied tomorrow.\<close>

definition sample_day_one :: "(call \<times> request) list" where
  "sample_day_one =
     [(sample_call None ''s1'', Public (Setup ''a@b'' ''password'')),
      (sample_call (Some ''s1'') ''code1234'', Devices Code_Api),
      (sample_call None ''dev1'', Public (Enroll_Request sample_enrollment)),
      (sample_call None '''', Public (Sync_Request (Some ''tkh_dev1'') sample_sync)),
      (sample_call (Some ''s1'') '''', Days (Day_Ui ''anna'' ''2024-05-07'' ''none'' 0 0 ''grounded''))]"

lemma day_one_commits: "\<exists>d. play sample_env sample_day_one empty_db = Inr d \<and> length (db_audit d) = 1 \<and>
    length (db_admins d) = 1 \<and> length (db_counters d) = 1 \<and> length (db_day_overrides d) = 1"
proof -
  have "case play sample_env sample_day_one empty_db of
      Inr d \<Rightarrow> length (db_audit d) = 1 \<and> length (db_admins d) = 1 \<and> length (db_counters d) = 1 \<and> length (db_day_overrides d) = 1
    | Inl _ \<Rightarrow> False"
    by code_simp
  then show ?thesis by (auto split: sum.splits)
qed



text \<open>C14. Once a hub has been claimed by its first admin it stays claimed: no sequence of requests removes the last
  account, so the first-run page, which needs no session, is never offered again and never creates an account.\<close>

theorem claimed_hub_stays_claimed:
  assumes "hub_run e empty_db d" "db_admins d \<noteq> []" "hub_run e d d'"
  shows "db_admins d' \<noteq> [] \<and> setup_form d' = Inl (HTTPException 404) \<and>
    handle e c (Public (Setup m p)) d' = Inl (if length p < 8 then ValidationError else HTTPException 404)"
proof -
  have "hub_ok d" using run_guards [OF assms(1) empty_db_ok] by blast
  then have "db_admins d' \<noteq> []" using run_guards [OF assms(3)] assms(2) by blast
  then show ?thesis
    by (simp add: setup_form_def handle_def handle_public_def setup_submit_def any_admin_exists_def)
qed

theorem claimed_hub_stays_claimed_witness:
  "\<exists>d. play sample_env sample_day_one empty_db = Inr d \<and> setup_form d = Inl (HTTPException 404) \<and>
     handle sample_env (sample_call None ''x'') (Public (Setup ''evil'' ''password'')) d = Inl (HTTPException 404)"
proof -
  obtain d where d: "play sample_env sample_day_one empty_db = Inr d" and a: "length (db_admins d) = 1"
    using day_one_commits by blast
  have "db_admins d \<noteq> []" using a by auto
  from claimed_hub_stays_claimed [OF play_run [OF d] this stay, of "sample_call None ''x''" "''evil''" "''password''"] d
  show ?thesis by simp
qed

subsection \<open>The session gate\<close>

definition no_session :: "(string \<Rightarrow> string) \<Rightarrow> instant \<Rightarrow> string option \<Rightarrow> db \<Rightarrow> bool" where
  "no_session h now cookie d \<longleftrightarrow> (case cookie of None \<Rightarrow> True
     | Some t \<Rightarrow> list_all (\<lambda>s. ses_token_hash s = h t \<longrightarrow> ses_expires_at s < now) (db_sessions d))"

lemma no_session_admin:
  assumes "no_session h now cookie d"
  shows "session_admin h now cookie d = None"
proof (cases cookie)
  case (Some t)
  have "ses_expires_at s < now" if "find_row ses_token_hash (h t) (db_sessions d) = Some s" for s
    using assms Some find_row_mem [OF that] find_row_key [OF that] by (auto simp: no_session_def list_all_iff)
  then show ?thesis
    by (auto simp: Some session_admin_def get_admin_by_session_token_def str_or_def split: option.splits)
qed (simp add: session_admin_def str_or_def)

lemma gate_refuses:
  assumes "session_admin h now cookie d = None"
  shows "rbind (get_current_admin_api h now cookie d) f = Inl (HTTPException 401)"
    and "rbind (get_current_admin_ui h now cookie d) f = Inl RequireLoginRedirect"
  using assms by (simp_all add: get_current_admin_api_def get_current_admin_ui_def)

lemmas gated_account_routes = create_admin_invite_def create_admin_invite_ui_def delete_admin_def delete_admin_ui_def
  change_own_password_def change_own_password_ui_def

lemmas gated_device_routes = create_enrollment_code_api_def create_enrollment_code_ui_def revoke_device_api_def
  revoke_device_ui_def set_device_observe_mode_def set_device_observe_mode_ui_def set_device_enforce_mode_def
  set_device_enforce_mode_ui_def delete_device_api_def delete_device_ui_def device_action_ui_def

lemmas gated_user_routes = create_grant_def grant_from_ui_def update_user_policy_def update_policy_ui_def
  user_policy_page_def user_stats_page_def update_user_settings_def update_user_settings_ui_def rename_user_ui_def
  delete_user_ui_def

lemmas gated_day_routes = set_user_day_override_def set_day_override_ui_def clear_user_day_override_def
  clear_day_override_ui_def set_user_day_hour_override_def set_day_hour_override_ui_def
  clear_user_day_hour_override_def clear_day_hour_override_ui_def release_user_gate_def release_gate_ui_def
  unrelease_user_gate_def unrelease_gate_ui_def card_action_def

text \<open>C15. Without a session nothing behind the gate happens: a request whose cookie is absent, unknown or expired is
  refused on every route but enrollment, sync, set-up, login, logout and invites, with 401 from the API and the redirect
  to the login from the UI, and as every refused request it leaves the database as it was.\<close>

theorem no_session_no_change:
  assumes "no_session (he_hash e) (rq_now c) (rq_cookie c) d"
  shows "case q of Public _ \<Rightarrow> True
    | _ \<Rightarrow> handle e c q d = Inl (HTTPException 401) \<or> handle e c q d = Inl RequireLoginRedirect"
proof -
  note g = gate_refuses [OF no_session_admin [OF assms]]
  have "handle_accounts e c a d \<in> {Inl (HTTPException 401), Inl RequireLoginRedirect}" for a
    by (cases a) (simp_all add: handle_accounts_def gated_account_routes g)
  moreover have "handle_devices e c v d \<in> {Inl (HTTPException 401), Inl RequireLoginRedirect}" for v
    by (cases v) (simp_all add: handle_devices_def gated_device_routes g)
  moreover have "handle_users e c u d \<in> {Inl (HTTPException 401), Inl RequireLoginRedirect}" for u
    by (cases u) (simp_all add: handle_users_def gated_user_routes g)
  moreover have "handle_days e c y d \<in> {Inl (HTTPException 401), Inl RequireLoginRedirect}" for y
    by (cases y) (simp_all add: handle_days_def gated_day_routes g)
  ultimately show ?thesis by (cases q) (auto simp: handle_def)
qed

theorem no_session_no_change_witness:
  "\<exists>d. play sample_env sample_day_one empty_db = Inr d \<and>
     (handle sample_env (sample_call (Some ''guess'') '''') (Users (Delete_User_Ui ''anna'')) d = Inl (HTTPException 401) \<or>
      handle sample_env (sample_call (Some ''guess'') '''') (Users (Delete_User_Ui ''anna'')) d = Inl RequireLoginRedirect)"
proof -
  have "case play sample_env sample_day_one empty_db of
      Inr d \<Rightarrow> no_session (\<lambda>t. t) sample_noon (Some ''guess'') d | Inl _ \<Rightarrow> False"
    by code_simp
  then obtain d where d: "play sample_env sample_day_one empty_db = Inr d" "no_session (\<lambda>t. t) sample_noon (Some ''guess'') d"
    by (auto split: sum.splits)
  then have "no_session (he_hash sample_env) (rq_now (sample_call (Some ''guess'') '''')) (rq_cookie (sample_call (Some ''guess'') '''')) d"
    by (simp add: sample_env_def sample_call_def)
  from no_session_no_change [OF this, of "Users (Delete_User_Ui ''anna'')"] d(1) show ?thesis by auto
qed

subsection \<open>Revoking a device\<close>

lemma find_row_map_row_key:
  assumes "find_row key' k rows = Some r" "\<And>x. key' (f x) = key' x"
  shows "find_row key' k (map_row key i f rows) = Some (if key r = i then f r else r)"
  using assms(1) by (induction rows) (auto simp: map_row_def assms(2) split: if_splits)

lemma find_row_map_row_none:
  assumes "find_row key' k rows = None" "\<And>x. key' (f x) = key' x"
  shows "find_row key' k (map_row key i f rows) = None"
  using assms(1) by (induction rows) (auto simp: map_row_def assms(2) split: if_splits)

lemma revoke_device_Inr:
  assumes "revoke_device_api h now cookie i ip d = Inr (v, d')"
  shows "db_devices d' = map_row dev_id i (\<lambda>r. r\<lparr>dev_status := ''revoked''\<rparr>) (db_devices d) \<and>
    db_counters d' = db_counters d \<and> db_intervals d' = db_intervals d \<and> db_aliases d' = db_aliases d \<and> db_policies d' = db_policies d"
proof -
  obtain actor r d1 where 1: "update_device i (\<lambda>r. r\<lparr>dev_status := ''revoked''\<rparr>) d = Inr d1"
    and 2: "record_audit_event now ''admin'' (Some (uuid_str actor)) ''device.revoke'' (Some ''device'')
              (Some (uuid_str (dev_id r))) (Some (JObj [(''status'', JStr (dev_status r))]))
              (Some (JObj [(''status'', JStr ''revoked'')])) ip d1 = Inr d'"
    and "r \<in> set (db_devices d)"
    using assms by (auto simp: revoke_device_api_def or_404_def revoke_device_def rbind_Inr_iff split: option.splits) (blast dest: find_row_mem)
  have "d1 = d\<lparr>db_devices := map_row dev_id i (\<lambda>r. r\<lparr>dev_status := ''revoked''\<rparr>) (db_devices d)\<rparr>"
    using 1 by (simp add: update_device_def Let_def flush_Inr)
  with audit_frame [OF 2] show ?thesis by simp
qed

text \<open>C40. Revoking a device shuts out its token and nothing else: from the moment the revocation commits every sync
  with the token of that device is a 403 that records nothing, while the answer to every other token, the recorded
  usage, the aliases and the policies stay what they were.\<close>

theorem revocation_is_local:
  assumes "revoke_device_api h now cookie i ip d = Inr (v, d')"
  shows "(case find_row dev_token_hash (h t) (db_devices d) of
      Some w \<Rightarrow> if dev_id w = i then sync_endpoint agg digest h cfg now' (Some t) req d' = Inl (HTTPException 403)
               else get_current_device h (Some t) d' = get_current_device h (Some t) d
    | None \<Rightarrow> get_current_device h (Some t) d' = Inl (HTTPException 401)) \<and>
    db_counters d' = db_counters d \<and> db_intervals d' = db_intervals d \<and> db_aliases d' = db_aliases d \<and>
    db_policies d' = db_policies d"
proof -
  note r = revoke_device_Inr [OF assms]
  let ?f = "\<lambda>r. r\<lparr>dev_status := ''revoked''\<rparr>"
  show ?thesis
  proof (cases "find_row dev_token_hash (h t) (db_devices d)")
    case None
    then have "find_row dev_token_hash (h t) (db_devices d') = None"
      using r by (simp add: find_row_map_row_none)
    then show ?thesis using None r by (simp add: get_current_device_def)
  next
    case (Some w)
    then have "find_row dev_token_hash (h t) (db_devices d') = Some (if dev_id w = i then ?f w else w)"
      using r find_row_map_row_key [OF Some, of ?f dev_id i] by simp
    then show ?thesis using Some r by (simp add: get_current_device_def sync_endpoint_def)
  qed
qed

theorem revocation_is_local_witness:
  "\<exists>d v d'. play sample_env sample_day_one empty_db = Inr d \<and>
     revoke_device_api (\<lambda>t. t) sample_noon (Some ''s1'') 3 None d = Inr (v, d') \<and>
     sync_endpoint sweep_agg (\<lambda>_. ''d'') (\<lambda>t. t) sample_settings sample_noon (Some ''tkh_dev1'') sample_sync d' = Inl (HTTPException 403) \<and>
     db_counters d' = db_counters d"
proof -
  have "case play sample_env sample_day_one empty_db of
      Inr d \<Rightarrow> (case revoke_device_api (\<lambda>t. t) sample_noon (Some ''s1'') 3 None d of Inl _ \<Rightarrow> False
         | Inr (v, d') \<Rightarrow> (case find_row dev_token_hash ''tkh_dev1'' (db_devices d) of Some w \<Rightarrow> dev_id w = 3 | None \<Rightarrow> False))
    | Inl _ \<Rightarrow> False"
    by code_simp
  then obtain d v d' w where d: "play sample_env sample_day_one empty_db = Inr d"
    and r: "revoke_device_api (\<lambda>t. t) sample_noon (Some ''s1'') 3 None d = Inr (v, d')"
    and w: "find_row dev_token_hash ''tkh_dev1'' (db_devices d) = Some w" "dev_id w = 3"
    by (auto split: sum.splits option.splits)
  have "sync_endpoint sweep_agg (\<lambda>_. ''d'') (\<lambda>t. t) sample_settings sample_noon (Some ''tkh_dev1'') sample_sync d' = Inl (HTTPException 403)
      \<and> db_counters d' = db_counters d"
    using revocation_is_local [OF r, where t = "''tkh_dev1''" and agg = sweep_agg and digest = "\<lambda>_. ''d''"
        and cfg = sample_settings and now' = sample_noon and req = sample_sync] w by simp
  with d r show ?thesis by blast
qed

subsection \<open>Passwords and invites\<close>

lemma find_row_filter_keep: "find_row key k rows = Some r \<Longrightarrow> Q r \<Longrightarrow> find_row key k (filter Q rows) = Some r"
  by (rule find_filter)

lemma change_password_effect:
  assumes "change_admin_own_password h hp vf now a old new tok ip d = Inr d'"
  shows "db_admins d' = map_row adm_id (adm_id a) (\<lambda>a. a\<lparr>adm_password_hash := hp new\<rparr>) (db_admins d)"
    and "db_sessions d' = filter (\<lambda>s. \<not> (ses_admin_id s = adm_id a \<and> ses_token_hash s \<noteq> h tok)) (db_sessions d)"
    and "vf old (adm_password_hash a)"
proof -
  obtain d1 where 1: "update_admin (adm_id a) (\<lambda>a. a\<lparr>adm_password_hash := hp new\<rparr>) d = Inr d1"
    and 2: "record_audit_event now ''admin'' (Some (uuid_str (adm_id a))) ''admin.password_changed'' (Some ''admin'')
          (Some (uuid_str (adm_id a))) None None ip (delete_other_sessions h (adm_id a) tok d1) = Inr d'"
    and v: "vf old (adm_password_hash a)"
    using assms by (auto simp: change_admin_own_password_def change_password_def rbind_Inr_iff split: if_splits)
  have "d1 = d\<lparr>db_admins := map_row adm_id (adm_id a) (\<lambda>a. a\<lparr>adm_password_hash := hp new\<rparr>) (db_admins d)\<rparr>"
    using 1 by (simp add: update_admin_def Let_def flush_Inr)
  with audit_frame [OF 2] show "db_admins d' = map_row adm_id (adm_id a) (\<lambda>a. a\<lparr>adm_password_hash := hp new\<rparr>) (db_admins d)"
    "db_sessions d' = filter (\<lambda>s. \<not> (ses_admin_id s = adm_id a \<and> ses_token_hash s \<noteq> h tok)) (db_sessions d)"
    by (simp_all add: delete_other_sessions_def)
  show "vf old (adm_password_hash a)" by (rule v)
qed

text \<open>Changing the password signs the admin out everywhere else: it takes the old password, stores the new one for
  this admin alone, keeps the session it was made in, and afterwards no other cookie is a session of this admin; the
  sessions of the other admins are what they were.\<close>

theorem password_change_signs_out_others:
  assumes "change_own_password h hp vf now (Some tok) old new ip d = Inr d'"
  shows "\<exists>a. session_admin h now (Some tok) d = Some a \<and> vf old (adm_password_hash a) \<and>
    find_row adm_id (adm_id a) (db_admins d') = Some (a\<lparr>adm_password_hash := hp new\<rparr>) \<and>
    session_admin h now (Some tok) d' = Some (a\<lparr>adm_password_hash := hp new\<rparr>) \<and>
    (\<forall>t b now'. session_admin h now' (Some t) d' = Some b \<and> adm_id b = adm_id a \<longrightarrow> h t = h tok) \<and>
    (\<forall>i. i \<noteq> adm_id a \<longrightarrow> filter (\<lambda>s. ses_admin_id s = i) (db_sessions d') = filter (\<lambda>s. ses_admin_id s = i) (db_sessions d))"
proof -
  obtain a where g: "get_current_admin_api h now (Some tok) d = Inr a"
    and c: "change_admin_own_password h hp vf now a old new tok ip d = Inr d'"
    using change_own_password_Inr [OF assms] by (auto simp: str_or_def)
  note e = change_password_effect [OF c]
  let ?f = "\<lambda>a. a\<lparr>adm_password_hash := hp new\<rparr>"
  have sa: "session_admin h now (Some tok) d = Some a"
    using g by (auto simp: get_current_admin_api_def split: option.splits)
  then obtain s where tok: "tok \<noteq> ''''" and s: "find_row ses_token_hash (h tok) (db_sessions d) = Some s" "\<not> ses_expires_at s < now"
      "find_row adm_id (ses_admin_id s) (db_admins d) = Some a"
    by (auto simp: session_admin_def get_admin_by_session_token_def str_or_def split: option.splits if_splits)
  have id: "ses_admin_id s = adm_id a" using find_row_key [OF s(3)] by simp
  have a': "find_row adm_id (adm_id a) (db_admins d') = Some (?f a)"
    using find_row_map_row_key [of adm_id "adm_id a" "db_admins d" a ?f adm_id "adm_id a"] s(3) id e(1) by simp
  have s': "find_row ses_token_hash (h tok) (db_sessions d') = Some s"
    unfolding e(2) by (rule find_filter [OF s(1)]) (use find_row_key [OF s(1)] in simp)
  have here: "session_admin h now (Some tok) d' = Some (?f a)"
    using s' s(2) a' tok id by (simp add: session_admin_def get_admin_by_session_token_def str_or_def)
  have out: "h t = h tok" if b: "session_admin h now' (Some t) d' = Some b" "adm_id b = adm_id a" for t b now'
  proof -
    obtain r where r: "find_row ses_token_hash (h t) (db_sessions d') = Some r" "find_row adm_id (ses_admin_id r) (db_admins d') = Some b"
      using b(1) by (auto simp: session_admin_def get_admin_by_session_token_def str_or_def split: option.splits if_splits)
    have "ses_admin_id r = adm_id a" "ses_token_hash r = h t" using find_row_key [OF r(2)] find_row_key [OF r(1)] b(2) by simp_all
    moreover have "r \<in> set (db_sessions d')" by (rule find_row_mem [OF r(1)])
    ultimately show ?thesis unfolding e(2) by auto
  qed
  have "filter (\<lambda>s. ses_admin_id s = i) (db_sessions d') = filter (\<lambda>s. ses_admin_id s = i) (db_sessions d)" if "i \<noteq> adm_id a" for i
    unfolding e(2) filter_filter by (rule filter_cong) (use that in auto)
  with sa e(3) a' here out show ?thesis by blast
qed

theorem password_change_signs_out_others_witness:
  "\<exists>d d' a. play sample_env sample_day_one empty_db = Inr d \<and>
     change_own_password (\<lambda>t. t) (\<lambda>p. p) (=) sample_noon (Some ''s1'') ''password'' ''new-password'' None d = Inr d' \<and>
     session_admin (\<lambda>t. t) sample_noon (Some ''s1'') d' = Some (a\<lparr>adm_password_hash := ''new-password''\<rparr>)"
proof -
  have "case play sample_env sample_day_one empty_db of
      Inr d \<Rightarrow> (case change_own_password (\<lambda>t. t) (\<lambda>p. p) (=) sample_noon (Some ''s1'') ''password'' ''new-password'' None d of
         Inl _ \<Rightarrow> False | Inr d' \<Rightarrow> True)
    | Inl _ \<Rightarrow> False"
    by code_simp
  then obtain d d' where d: "play sample_env sample_day_one empty_db = Inr d"
    and c: "change_own_password (\<lambda>t. t) (\<lambda>p. p) (=) sample_noon (Some ''s1'') ''password'' ''new-password'' None d = Inr d'"
    by (auto split: sum.splits)
  with password_change_signs_out_others [OF c] show ?thesis by blast
qed

lemma find_map_same_key: "(\<And>r. key (f r) = key r) \<Longrightarrow> find_row key k (map f rows) = map_option f (find_row key k rows)"
  by (induction rows) auto

lemma redeem_twice:
  assumes "redeem_invite now t d = Inr d1" "unique_on inv_token (db_invites d)"
  shows "\<exists>v. find_row inv_token t (db_invites d1) = Some v \<and> inv_used_at v \<noteq> None"
proof -
  let ?f = "\<lambda>v. if redeemable now t v then v\<lparr>inv_used_at := Some now\<rparr> else v"
  have d1: "d1 = d\<lparr>db_invites := map ?f (db_invites d)\<rparr>" and ex: "list_ex (redeemable now t) (db_invites d)"
    using assms(1) by (auto simp: redeem_invite_def split: if_splits option.splits)
  from ex obtain v where v: "v \<in> set (db_invites d)" "redeemable now t v" by (auto simp: list_ex_iff)
  then have "find_row inv_token t (db_invites d) = Some v"
    using assms(2) find_row_unique [of inv_token "db_invites d" v] by (auto simp: redeemable_def)
  then have "find_row inv_token t (db_invites d1) = Some (?f v)"
    unfolding d1 by (simp add: find_map_same_key [of inv_token ?f])
  then show ?thesis using v(2) by auto
qed

lemma spent_invite_refused:
  assumes "find_row inv_token t (db_invites d) = Some v" "inv_used_at v \<noteq> None" "unique_on inv_token (db_invites d)"
  shows "\<exists>m. redeem_invite now t d = Inl (InviteError m)"
proof -
  have "\<not> redeemable now t w" if "w \<in> set (db_invites d)" for w
    using assms find_row_unique [OF assms(3) that] by (auto simp: redeemable_def)
  then have "\<not> list_ex (redeemable now t) (db_invites d)" by (auto simp: list_ex_iff)
  then show ?thesis using assms(1,2) by (simp add: redeem_invite_def)
qed

text \<open>An invite makes one admin: accepting it adds exactly one account, with the submitted address, and signs it in;
  after that the link is dead, at any time and for any address, with 410. An address that already has an account is
  refused with 409, and the link stays good because the request rolls back.\<close>

theorem invite_makes_one_admin:
  assumes "hub_ok d" "8 \<le> length pw"
  shows "(\<forall>s d'. invite_submit h hp now rnd t email pw ip ua d = Inr (s, d') \<longrightarrow>
      (\<exists>a. db_admins d' = db_admins d @ [a] \<and> adm_email a = email \<and> adm_password_hash a = hp pw \<and>
        (s \<noteq> '''' \<longrightarrow> session_admin h now (Some s) d' = Some a)) \<and>
      invite_submit h hp now' rnd' t email' pw ip' ua' d' = Inl (HTTPException 410)) \<and>
    (email \<in> adm_email ` set (db_admins d) \<and> length email \<le> 320 \<and> length (hp pw) \<le> 255 \<and>
      list_ex (redeemable now t) (db_invites d) \<longrightarrow>
      invite_submit h hp now rnd t email pw ip ua d = Inl (HTTPException 409))"
proof (intro conjI allI impI)
  fix s d'
  assume "invite_submit h hp now rnd t email pw ip ua d = Inr (s, d')"
  then obtain d1 d2 d3 where 1: "redeem_invite now t d = Inr d1"
    and 2: "add_admin \<lparr>adm_id = db_next_id d1, adm_email = email, adm_password_hash = hp pw, adm_created_at = now\<rparr>
      (d1\<lparr>db_next_id := db_next_id d1 + 1\<rparr>) = Inr d2"
    and 3: "record_audit_event now ''admin'' (Some (uuid_str (db_next_id d1))) ''admin.created'' (Some ''admin'')
      (Some (uuid_str (db_next_id d1))) None None ip d2 = Inr d3"
    and 4: "create_session h now rnd (db_next_id d1) ip ua d3 = Inr (s, d')"
    using invite_submit_Inr by blast
  note r = redeem_ok [OF assms(1) 1] and a = add_admin_ok [OF redeem_ok(1) [OF assms(1) 1] 2] and f = audit_frame [OF 3]
  let ?a = "\<lparr>adm_id = db_next_id d1, adm_email = email, adm_password_hash = hp pw, adm_created_at = now\<rparr>"
  have as: "db_admins d3 = db_admins d @ [?a]" using a(2) f(2) r(2) by simp
  have in3: "db_next_id d1 \<in> adm_id ` set (db_admins d3)" using as by simp
  have ok3: "hub_ok d3" by (rule f(1) [OF a(1)]) simp
  have ok: "hub_ok d'" and as': "db_admins d' = db_admins d @ [?a]"
    using create_session_ok [OF ok3 4 in3] as by simp_all
  obtain ses where ses: "db_sessions d' = db_sessions d3 @ [ses]" "ses_token_hash ses = h s" "ses_admin_id ses = db_next_id d1"
      "ses_expires_at ses = now + SESSION_TTL" "h s \<notin> ses_token_hash ` set (db_sessions d3)" and inv: "db_invites d' = db_invites d3"
    using 4 by (auto simp: create_session_def uuid4_def rbind_Inr_iff add_session_def flush_Inr)
  have "find_row ses_token_hash (h s) (db_sessions d') = Some ses"
    using ses find_row_None_iff [of ses_token_hash "h s" "db_sessions d3"] by simp
  moreover have "find_row adm_id (db_next_id d1) (db_admins d') = Some ?a"
    using hub_ok_admins [OF ok] find_row_unique [of adm_id "db_admins d'" ?a] as' by (simp add: admins_ok_def)
  ultimately have "session_admin h now (Some s) d' = Some ?a" if "s \<noteq> ''''"
    using that ses by (simp add: session_admin_def get_admin_by_session_token_def str_or_def SESSION_TTL_def)
  then show "\<exists>a. db_admins d' = db_admins d @ [a] \<and> adm_email a = email \<and> adm_password_hash a = hp pw \<and>
        (s \<noteq> '''' \<longrightarrow> session_admin h now (Some s) d' = Some a)"
    using as' by (intro exI [of _ ?a]) simp
  have "db_invites d' = db_invites d1"
    using inv f(4) 2 by (simp add: add_admin_def flush_Inr)
  then obtain v where "find_row inv_token t (db_invites d') = Some v" "inv_used_at v \<noteq> None"
    using redeem_twice [OF 1 hub_invites [OF assms(1)]] by auto
  from spent_invite_refused [OF this hub_invites [OF ok], of now'] obtain m where "redeem_invite now' t d' = Inl (InviteError m)" by blast
  then show "invite_submit h hp now' rnd' t email' pw ip' ua' d' = Inl (HTTPException 410)"
    using assms(2) by (simp add: invite_submit_def)
next
  assume a: "email \<in> adm_email ` set (db_admins d) \<and> length email \<le> 320 \<and> length (hp pw) \<le> 255 \<and>
      list_ex (redeemable now t) (db_invites d)"
  then obtain d1 where 1: "redeem_invite now t d = Inr d1" by (auto simp: redeem_invite_def)
  have "db_admins d1 = db_admins d" using redeem_ok(2) [OF assms(1) 1] .
  then have "add_admin \<lparr>adm_id = db_next_id d1, adm_email = email, adm_password_hash = hp pw, adm_created_at = now\<rparr>
      (d1\<lparr>db_next_id := db_next_id d1 + 1\<rparr>) = Inl IntegrityError"
    using a by (simp add: add_admin_def flush_def admin_fits_def)
  then show "invite_submit h hp now rnd t email pw ip ua d = Inl (HTTPException 409)"
    using assms(2) 1 by (simp add: invite_submit_def uuid4_def)
qed

theorem invite_makes_one_admin_witness:
  "\<exists>d d' s a. play sample_env (sample_day_one @ [(sample_call (Some ''s1'') ''link'', Accounts Invite_Api)]) empty_db = Inr d \<and>
     invite_submit (\<lambda>t. t) (\<lambda>p. p) sample_noon ''s2'' ''link'' ''b@b'' ''password'' None None d = Inr (s, d') \<and>
     db_admins d' = db_admins d @ [a] \<and>
     invite_submit (\<lambda>t. t) (\<lambda>p. p) sample_noon ''s3'' ''link'' ''c@b'' ''password'' None None d' = Inl (HTTPException 410)"
proof -
  let ?trace = "sample_day_one @ [(sample_call (Some ''s1'') ''link'', Accounts Invite_Api)]"
  have "case play sample_env ?trace empty_db of
      Inr d \<Rightarrow> (case invite_submit (\<lambda>t. t) (\<lambda>p. p) sample_noon ''s2'' ''link'' ''b@b'' ''password'' None None d of
         Inl _ \<Rightarrow> False | Inr (s, d') \<Rightarrow> True)
    | Inl _ \<Rightarrow> False"
    by code_simp
  then obtain d s d' where d: "play sample_env ?trace empty_db = Inr d"
    and c: "invite_submit (\<lambda>t. t) (\<lambda>p. p) sample_noon ''s2'' ''link'' ''b@b'' ''password'' None None d = Inr (s, d')"
    by (auto split: sum.splits)
  have ok: "hub_ok d" using run_guards [OF play_run [OF d] empty_db_ok] by blast
  have pw: "8 \<le> length ''password''" by simp
  from conjunct1 [OF invite_makes_one_admin [OF ok pw, where h = "\<lambda>t. t" and hp = "\<lambda>p. p" and now = sample_noon
      and rnd = "''s2''" and t = "''link''" and email = "''b@b''" and ip = None and ua = None
      and now' = sample_noon and rnd' = "''s3''" and email' = "''c@b''" and ip' = None and ua' = None], rule_format, OF c] d c
  show ?thesis by blast
qed

end
