(* ===== verification/Agent_Hub.thy ===== *)
theory Agent_Hub
  imports Hub_Client Hub_System
begin

section \<open>The agent and the hub together\<close>

text \<open>
  The agent's client of \<open>hubclient.py\<close> over a network that leads to the hub's own endpoints, \<open>POST
  /api/v1/enroll\<close> and \<open>POST /api/v1/sync\<close> of \<open>hub/timekpr_hub/app.py\<close>: an exchange is one request
  to the hub as modelled, JSON in between being the value it stands for. Properties of the pair.
\<close>

subsection \<open>The hub as the network's other end\<close>

record agent_host =
  ah_db :: db
  ah_token :: token_file

text \<open>The status an exception is answered with: its own, 422 for a body that does not validate, else 500.\<close>

definition http_status :: "exc \<Rightarrow> int" where
  "http_status x = (case x of HTTPException n \<Rightarrow> n | ValidationError \<Rightarrow> 422 | _ \<Rightarrow> 500)"

text \<open>\<open>HTTPBearer\<close>: the scheme is compared without regard to case, and the token must not be empty.\<close>

definition bearer_of :: "string option \<Rightarrow> string option" where
  "bearer_of authorization =
     (case authorization of None \<Rightarrow> None
      | Some a \<Rightarrow> (case partition_on CHR '' '' a of (scheme, t) \<Rightarrow>
          if map lower_char scheme = ''bearer'' \<and> t \<noteq> '''' then Some t else None))"

definition answer_with :: "int \<Rightarrow> ('a \<Rightarrow> hub_json) \<Rightarrow> ('a \<times> db) result \<Rightarrow> db \<Rightarrow> hub_json exchange \<times> db" where
  "answer_with status wrap r d =
     (case r of Inl x \<Rightarrow> (Error_Status (http_status x) (Json Detail), d)
      | Inr (a, d) \<Rightarrow> (Success status (Json (wrap a)), d))"

definition hub_answers :: "hub_env \<Rightarrow> instant \<Rightarrow> string \<Rightarrow> string \<Rightarrow> agent_payload http_request \<Rightarrow> db
    \<Rightarrow> hub_json exchange \<times> db" where
  "hub_answers e now rnd base r d =
     (if req_url r = rstrip_slashes base @ ''/api/v1/enroll'' then
        (case req_payload r of
           Enroll_Payload q \<Rightarrow> answer_with 201 Enroll_Json
             (enroll (he_hash e) (hub_tz_name (he_cfg e)) (default_next_poll_ms (he_cfg e)) now rnd q d) d
         | Sync_Payload _ \<Rightarrow> (Error_Status 422 (Json Detail), d))
      else if req_url r = rstrip_slashes base @ ''/api/v1/sync'' then
        (case req_payload r of
           Sync_Payload q \<Rightarrow> answer_with 200 Sync_Json
             (sync_endpoint (he_agg e) (he_digest e) (he_hash e) (he_cfg e) now (bearer_of (req_authorization r)) q d) d
         | Enroll_Payload _ \<Rightarrow> (Error_Status 422 (Json Detail), d))
      else (Error_Status 404 (Json Detail), d))"

definition hub_ops :: "hub_env \<Rightarrow> instant \<Rightarrow> string \<Rightarrow> string \<Rightarrow> (agent_payload, hub_json, agent_host) host_ops" where
  "hub_ops e now rnd base =
     \<lparr>ho_net = (\<lambda>r m. case hub_answers e now rnd base r (ah_db m) of (x, d) \<Rightarrow> (x, m\<lparr>ah_db := d\<rparr>)),
      ho_token = ah_token, ho_put_token = (\<lambda>t m. Inr (m\<lparr>ah_token := Token_Text t\<rparr>)), ho_empty = Detail\<rparr>"

interpretation hub: quiet_host "hub_ops e now rnd base"
  by unfold_locales (auto simp: hub_ops_def split: prod.splits)

subsection \<open>An exchange is a request to the hub\<close>

lemma hub_answers_step: "hub_answers e now rnd base r d = (x, d') \<Longrightarrow> d' = d \<or> hub_step e d d'"
proof -
  assume r: "hub_answers e now rnd base r d = (x, d')"
  define c where "c = \<lparr>rq_now = now, rq_rnd = rnd, rq_ip = None, rq_user_agent = None, rq_cookie = None, rq_base_url = base\<rparr>"
  have "d' = d \<or> (\<exists>q. handle e c (Public q) d = Inr d')"
  proof (cases "req_payload r")
    case (Enroll_Payload q)
    then have "d' = d \<or> handle e c (Public (Enroll_Request q)) d = Inr d'"
      using r by (auto simp: hub_answers_def answer_with_def handle_def handle_public_def c_def split: sum.splits if_splits)
    then show ?thesis by blast
  next
    case (Sync_Payload q)
    then have "d' = d \<or> handle e c (Public (Sync_Request (bearer_of (req_authorization r)) q)) d = Inr d'"
      using r by (auto simp: hub_answers_def answer_with_def handle_def handle_public_def c_def split: sum.splits if_splits)
    then show ?thesis by blast
  qed
  then show ?thesis by (auto intro: hub_step.request)
qed

lemma lower_bearer: "map lower_char ''Bearer'' = ''bearer''"
  by code_simp

lemma bearer_of_header: "t \<noteq> '''' \<Longrightarrow> bearer_of (Some (''Bearer '' @ t)) = Some t"
  using lower_bearer by (simp add: bearer_of_def partition_on_def)

lemma client_enroll_hub:
  assumes "client_enroll (hub_ops e now rnd base) device_token_of (Enroll_Payload q) c m = (Inr (Enroll_Json resp), c', m')"
  shows "enroll (he_hash e) (hub_tz_name (he_cfg e)) (default_next_poll_ms (he_cfg e)) now rnd q (ah_db m) = Inr (resp, ah_db m')"
    and "m' = \<lparr>ah_db = ah_db m', ah_token = Token_Text (ens_device_token resp)\<rparr>"
  using assms
  by (auto simp: client_enroll_def post_def hub_ops_def hub_answers_def answer_with_def post_reply_def device_token_of_def
      split: prod.splits sum.splits if_splits option.splits)

lemma sync_post_hub:
  assumes "hc_token c = Some t" "t \<noteq> ''''" "hc_base_url c = base"
  shows "sync_post (hub_ops e now rnd base) c (Sync_Payload q) m =
    (case sync_endpoint (he_agg e) (he_digest e) (he_hash e) (he_cfg e) now (Some t) q (ah_db m) of
       Inl x \<Rightarrow> (Inr (http_status x, Detail), m)
     | Inr (a, d) \<Rightarrow> (Inr (200, Sync_Json a), m\<lparr>ah_db := d\<rparr>))"
  using assms bearer_of_header [of t]
  by (simp add: sync_post_def client_headers_def str_or_def post_def hub_ops_def hub_answers_def answer_with_def post_reply_def
      split: sum.splits prod.splits)

subsection \<open>A running agent and its device's tokens\<close>

lemma client_sync_retry:
  assumes "sync_post ops c payload h = (Inr (s, j), h1)" "auth_status s" "ho_token ops h1 = Token_Text t"
    and "stripped t" "t \<noteq> ''''" "hc_token c \<noteq> Some t"
  shows "client_sync ops payload c h =
    (case sync_post ops (c\<lparr>hc_token := Some t\<rparr>) payload h1 of
       (Inl e, h) \<Rightarrow> (sync_failed e, c\<lparr>hc_token := Some t\<rparr>, h)
     | (Inr r, h) \<Rightarrow> (sync_verdict r, c\<lparr>hc_token := Some t\<rparr>, h))"
  using assms by (auto simp: client_sync_def load_token_def str_or_def Let_def)

text \<open>
  C11. A running agent survives a re-enrollment of its machine. Another process enrolls the machine again
  while the agent holds the old token: the hub then refuses the old token with 401, the agent's next
  sync finds the new token on disk, retries with it and gets the hub's answer to the new token in the
  same call; it keeps the new token for later, and the hub has processed exactly one sync.
\<close>

theorem running_agent_survives_reenroll:
  assumes "hub_ok (ah_db m)"
    and "client_enroll (hub_ops e now rnd base) device_token_of (Enroll_Payload req) c0 m = (Inr (Enroll_Json resp), c1, m1)"
    and "v \<in> set (db_devices (ah_db m)) \<and> live v \<and> dev_machine_id v = enr_machine_id req"
    and "c = \<lparr>hc_base_url = base, hc_token = Some old\<rparr>" "old \<noteq> ''''"
    and "he_hash e old = dev_token_hash v \<and> he_hash e old \<noteq> he_hash e (TOKEN_PREFIX @ rnd)"
    and "list_all (\<lambda>x. \<not> is_blank x) rnd"
    and "sync_endpoint (he_agg e) (he_digest e) (he_hash e) (he_cfg e) now' (Some (TOKEN_PREFIX @ rnd)) q (ah_db m1) = Inr (a, d2)"
  shows "get_current_device (he_hash e) (Some old) (ah_db m1) = Inl (HTTPException 401) \<and>
    client_sync (hub_ops e now' rnd' base) (Sync_Payload q) c m1 =
      (Answer (Sync_Json a), c\<lparr>hc_token := Some (TOKEN_PREFIX @ rnd)\<rparr>, m1\<lparr>ah_db := d2\<rparr>)"
proof -
  let ?new = "TOKEN_PREFIX @ rnd" and ?ops = "hub_ops e now' rnd' base"
  note enr = client_enroll_hub [OF assms(2)]
  have new: "ens_device_token resp = ?new" using enroll_steps [OF assms(1) enr(1)] by blast
  have gone: "get_current_device (he_hash e) (Some old) (ah_db m1) = Inl (HTTPException 401)"
    using reenroll_rebinds [OF assms(1) enr(1)] assms(3,6) new by metis
  have refused: "sync_endpoint (he_agg e) (he_digest e) (he_hash e) (he_cfg e) now' (Some old) q (ah_db m1) = Inl (HTTPException 401)"
    by (simp add: sync_endpoint_def gone)
  have first: "sync_post ?ops c (Sync_Payload q) m1 = (Inr (401, Detail), m1)"
    using sync_post_hub [of c old base e now' rnd' q m1] assms(4,5) refused by (simp add: http_status_def)
  have tok: "ho_token ?ops m1 = Token_Text ?new" using enr(2) new by (simp add: hub_ops_def) (metis agent_host.select_convs(2))
  have ne: "?new \<noteq> ''''" "list_all (\<lambda>x. \<not> is_blank x) ?new" using assms(7) by (simp_all add: TOKEN_PREFIX_def is_blank_def)
  have strip: "stripped ?new" using strip_no_blank [OF ne(2)] stripped_strip [of ?new] by simp
  have diff: "hc_token c \<noteq> Some ?new" using assms(4,6) by auto
  have second: "sync_post ?ops (c\<lparr>hc_token := Some ?new\<rparr>) (Sync_Payload q) m1 = (Inr (200, Sync_Json a), m1\<lparr>ah_db := d2\<rparr>)"
    using sync_post_hub [of "c\<lparr>hc_token := Some ?new\<rparr>" ?new base e now' rnd' q m1] assms(4,8) ne(1) by simp
  show ?thesis
    using gone client_sync_retry [OF first _ tok strip ne(1) diff] second
    by (simp add: auth_status_def sync_verdict_def)
qed

text \<open>
  A device that an admin has revoked, and whose machine has not been enrolled again, learns it at once and
  the hub's database stays as it is: its tick is the one for \<open>DeviceRevoked\<close>.
\<close>

lemma revoked_agent_is_told:
  assumes "find_row dev_token_hash (he_hash e t) (db_devices (ah_db m)) = Some v" "dev_status v = ''revoked''"
    and "c = \<lparr>hc_base_url = base, hc_token = Some t\<rparr>" "t \<noteq> ''''" "stripped t" "ah_token m = Token_Text t"
  shows "tick_sync (hub_ops e now rnd base) sync_answer_of Sync_Payload q (c, m) = (DeviceRevoked, c, m)"
proof -
  let ?ops = "hub_ops e now rnd base"
  have "sync_endpoint (he_agg e) (he_digest e) (he_hash e) (he_cfg e) now (Some t) q (ah_db m) = Inl (HTTPException 403)"
    using assms(1,2) by (simp add: sync_endpoint_def get_current_device_def)
  then have first: "sync_post ?ops c (Sync_Payload q) m = (Inr (403, Detail), m)"
    using sync_post_hub [of c t base e now rnd q m] assms(3,4) by (simp add: http_status_def)
  have tok: "ho_token ?ops m = Token_Text t" using assms(6) by (simp add: hub_ops_def)
  show ?thesis
    using first tok assms(3,5)
    by (simp add: tick_sync_def client_sync_def load_token_def auth_status_def sync_verdict_def)
qed

text \<open>Every sync of every agent is at most two requests to the hub, so a run of agents is a run of the hub.\<close>

lemma net_run: "ho_net (hub_ops e now rnd base) r m = (x, m') \<Longrightarrow> hub_run e d (ah_db m) \<Longrightarrow> hub_run e d (ah_db m')"
  by (auto simp: hub_ops_def split: prod.splits dest!: hub_answers_step intro: hub_run.more)

lemma post_run: "post (hub_ops e now rnd base) c path p a m = (r, m') \<Longrightarrow> hub_run e d (ah_db m) \<Longrightarrow> hub_run e d (ah_db m')"
  using net_run by (fastforce simp: post_def split: prod.splits)

lemma client_sync_run:
  assumes "client_sync (hub_ops e now rnd base) p c m = (out, c', m')" "hub_run e d (ah_db m)"
  shows "hub_run e d (ah_db m')"
  using assms
  by (auto simp: client_sync_def sync_post_def Let_def dest: post_run split: prod.splits sum.splits if_splits)

lemma client_enroll_run:
  assumes "client_enroll (hub_ops e now rnd base) device_token_of p c m = (out, c', m')" "hub_run e d (ah_db m)"
  shows "hub_run e d (ah_db m')"
  using assms
  by (auto simp: client_enroll_def hub_ops_def dest!: post_run [unfolded hub_ops_def]
      split: prod.splits sum.splits if_splits option.splits)

subsection \<open>An example\<close>

definition sample_host :: agent_host where
  "sample_host = \<lparr>ah_db = sample_hub, ah_token = Token_Text ''tkh_old''\<rparr>"

definition running_client :: hub_client where
  "running_client = \<lparr>hc_base_url = ''http://hub'', hc_token = Some ''tkh_old''\<rparr>"

definition empty_sync :: sync_request where
  "empty_sync = \<lparr>sreq_agent_time = sample_noon, sreq_agent_version = ''1'', sreq_users = []\<rparr>"

definition reenrolled :: "(enroll_failure + hub_json) \<times> hub_client \<times> agent_host" where
  "reenrolled = client_enroll (hub_ops sample_env 50 ''new'' ''http://hub'') device_token_of (Enroll_Payload sample_request)
     \<lparr>hc_base_url = ''http://hub'', hc_token = None\<rparr> sample_host"

lemma sample_reenroll:
  "\<exists>resp c1 m1 a d2. reenrolled = (Inr (Enroll_Json resp), c1, m1) \<and>
     sync_endpoint (he_agg sample_env) (he_digest sample_env) (he_hash sample_env) (he_cfg sample_env) sample_noon
       (Some (TOKEN_PREFIX @ ''new'')) empty_sync (ah_db m1) = Inr (a, d2)"
proof -
  have "case reenrolled of
      (Inr (Enroll_Json resp), c1, m1) \<Rightarrow>
        (case sync_endpoint (he_agg sample_env) (he_digest sample_env) (he_hash sample_env) (he_cfg sample_env) sample_noon
           (Some (TOKEN_PREFIX @ ''new'')) empty_sync (ah_db m1) of Inr _ \<Rightarrow> True | Inl _ \<Rightarrow> False)
    | _ \<Rightarrow> False"
    by code_simp
  then obtain resp c1 m1 x where r: "reenrolled = (Inr (Enroll_Json resp), c1, m1)"
    and x: "sync_endpoint (he_agg sample_env) (he_digest sample_env) (he_hash sample_env) (he_cfg sample_env) sample_noon
       (Some (TOKEN_PREFIX @ ''new'')) empty_sync (ah_db m1) = Inr x"
    by (auto split: prod.splits sum.splits hub_json.splits)
  show ?thesis by (rule exI, rule exI, rule exI, rule exI, rule exI, rule conjI, rule r) (use x in \<open>simp add: prod_eq_iff\<close>)
qed

theorem running_agent_survives_reenroll_witness:
  "\<exists>m1 a m2. snd (snd reenrolled) = m1 \<and>
     client_sync (hub_ops sample_env sample_noon '''' ''http://hub'') (Sync_Payload empty_sync) running_client m1 =
       (Answer (Sync_Json a), running_client\<lparr>hc_token := Some ''tkh_new''\<rparr>, m2)"
proof -
  obtain resp c1 m1 a d2 where r: "reenrolled = (Inr (Enroll_Json resp), c1, m1)"
    and s: "sync_endpoint (he_agg sample_env) (he_digest sample_env) (he_hash sample_env) (he_cfg sample_env) sample_noon
       (Some (TOKEN_PREFIX @ ''new'')) empty_sync (ah_db m1) = Inr (a, d2)"
    using sample_reenroll by blast
  have v: "sample_machine \<in> set (db_devices (ah_db sample_host)) \<and> live sample_machine \<and>
      dev_machine_id sample_machine = enr_machine_id sample_request"
    by (simp add: sample_host_def sample_hub_def live_def sample_machine_def sample_request_def)
  have h: "he_hash sample_env ''tkh_old'' = dev_token_hash sample_machine \<and>
      he_hash sample_env ''tkh_old'' \<noteq> he_hash sample_env (TOKEN_PREFIX @ ''new'')"
    by (simp add: sample_env_def sample_machine_def TOKEN_PREFIX_def)
  have ok: "hub_ok (ah_db sample_host)" by (simp add: sample_host_def sample_hub_ok)
  have "client_sync (hub_ops sample_env sample_noon '''' ''http://hub'') (Sync_Payload empty_sync) running_client m1 =
      (Answer (Sync_Json a), running_client\<lparr>hc_token := Some (TOKEN_PREFIX @ ''new'')\<rparr>, m1\<lparr>ah_db := d2\<rparr>)"
    by (rule conjunct2 [OF running_agent_survives_reenroll [OF ok r [unfolded reenrolled_def] v running_client_def _ h _ s]])
      (simp_all add: is_blank_def)
  moreover have "snd (snd reenrolled) = m1" by (simp add: r)
  ultimately show ?thesis unfolding TOKEN_PREFIX_def by simp
qed

end
