(* ===== verification/Fake_Enforcer.thy ===== *)
theory Fake_Enforcer
  imports Policy_Push Fake_Daemon
begin

section \<open>The simulated device of the end-to-end tests\<close>

text \<open>
  Models \<open>FakeEnforcer\<close> of \<open>tests/e2e/harness.py\<close>: one \<open>FakeTimekprDaemon\<close> per user and one store
  per setting, with the validation of timekpr's own setters that the repository found to matter.
  It provides the interface \<open>policy_device\<close>, so the properties of the push are stated here. Where
  the fake would raise (a \<open>setTimeLeft\<close> for a user without a daemon) the model answers False.
\<close>

record fake_enforcer =
  fe_daemons :: "(username, fake_daemon) dict"
  fe_daily_limits :: "(username, seconds list) dict"
  fe_weekly_limits :: "(username, seconds) dict"
  fe_monthly_limits :: "(username, seconds) dict"
  fe_allowed_weekdays :: "(username, string list) dict"
  fe_allowed_hours :: "(username, (string, hours_payload) dict) dict"
  fe_track_inactive :: "(username, bool) dict"
  fe_hide_tray_icon :: "(username, bool) dict"
  fe_lockout :: "(username, string \<times> string \<times> string) dict"
  fe_playtime_enabled :: "(username, bool) dict"
  fe_playtime_override :: "(username, bool) dict"
  fe_playtime_unaccounted :: "(username, bool) dict"
  fe_playtime_allowed_weekdays :: "(username, string list) dict"
  fe_playtime_daily_limits :: "(username, seconds list) dict"
  fe_playtime_activities :: "(username, (string \<times> string) list) dict"
  fe_set_allowed_hours_calls :: nat
  fe_read_fails :: bool

definition new_fake :: "(username, fake_daemon) dict \<Rightarrow> fake_enforcer" where
  "new_fake ds = \<lparr>fe_daemons = ds, fe_daily_limits = [], fe_weekly_limits = [], fe_monthly_limits = [],
     fe_allowed_weekdays = [], fe_allowed_hours = [], fe_track_inactive = [], fe_hide_tray_icon = [],
     fe_lockout = [], fe_playtime_enabled = [], fe_playtime_override = [], fe_playtime_unaccounted = [],
     fe_playtime_allowed_weekdays = [], fe_playtime_daily_limits = [], fe_playtime_activities = [],
     fe_set_allowed_hours_calls = 0, fe_read_fails = False\<rparr>"

text \<open>\<open>list.index(x)\<close>, or -1.\<close>

fun index_of :: "'a list \<Rightarrow> 'a \<Rightarrow> int" where
  "index_of [] x = - 1"
| "index_of (y # ys) x = (if y = x then 0 else let i = index_of ys x in if i = - 1 then - 1 else i + 1)"

definition fake_observe :: "int \<Rightarrow> username \<Rightarrow> fake_enforcer
    \<Rightarrow> (user_observation option \<times> fake_enforcer) result" where
  "fake_observe wday username e =
     (case dict_get (fe_daemons e) username of
        None \<Rightarrow> Inr (None, e)
      | Some d \<Rightarrow>
          let d = (case (dict_get (fe_daily_limits e) username, dict_get (fe_allowed_weekdays e) username) of
              (Some limits, Some allowed_weekdays) \<Rightarrow>
                if allowed_weekdays \<noteq> [] then
                  let today = str_of_int wday;
                      idx = (if today \<in> set allowed_weekdays then index_of allowed_weekdays today else - 1)
                  in d\<lparr>fd_limit_today_s :=
                         (if 0 \<le> idx \<and> idx < int (length limits) then limits ! nat idx else 0)\<rparr>
                else d
            | _ \<Rightarrow> d)
          in Inr (Some \<lparr>uo_balance_s = fd_balance_s d, uo_spent_day_s = fd_spent_day_s d,
                        uo_limit_today_s = fd_limit_today_s d, uo_logged_in = True, uo_active = True\<rparr>,
                  e\<lparr>fe_daemons := dict_set (fe_daemons e) username d\<rparr>))"

definition isnumeric :: "string \<Rightarrow> bool" where
  "isnumeric s \<longleftrightarrow> s \<noteq> [] \<and> list_all is_digit s"

definition TIMEKPR_LOCKOUT_TYPES :: "string list" where
  "TIMEKPR_LOCKOUT_TYPES = map lockout_value [LOCK, SUSPEND, SUSPEND_WAKE, TERMINATE, KILL, SHUTDOWN]"

fun fake_set :: "username \<Rightarrow> setter \<Rightarrow> fake_enforcer \<Rightarrow> bool \<times> fake_enforcer" where
  "fake_set u (SetTimeLeft opv secs) e =
     (case dict_get (fe_daemons e) u of
        None \<Rightarrow> (False, e)
      | Some d \<Rightarrow> (case set_time_left opv secs d of
            Inl _ \<Rightarrow> (False, e)
          | Inr d' \<Rightarrow> (True, e\<lparr>fe_daemons := dict_set (fe_daemons e) u d'\<rparr>)))"
| "fake_set u (SetTimeLimitForDays ls) e = (True, e\<lparr>fe_daily_limits := dict_set (fe_daily_limits e) u ls\<rparr>)"
| "fake_set u (SetTimeLimitForWeek l) e = (True, e\<lparr>fe_weekly_limits := dict_set (fe_weekly_limits e) u l\<rparr>)"
| "fake_set u (SetTimeLimitForMonth l) e = (True, e\<lparr>fe_monthly_limits := dict_set (fe_monthly_limits e) u l\<rparr>)"
| "fake_set u (SetAllowedDays ds) e = (True, e\<lparr>fe_allowed_weekdays := dict_set (fe_allowed_weekdays e) u ds\<rparr>)"
| "fake_set u (SetAllowedHours day hours) e =
     (let e = e\<lparr>fe_set_allowed_hours_calls := fe_set_allowed_hours_calls e + 1\<rparr>
      in if hours = [] then (False, e)
         else (True, e\<lparr>fe_allowed_hours := dict_set (fe_allowed_hours e) u
                (dict_set (dict_get_or (fe_allowed_hours e) u []) day hours)\<rparr>))"
| "fake_set u (SetTrackInactive b) e = (True, e\<lparr>fe_track_inactive := dict_set (fe_track_inactive e) u b\<rparr>)"
| "fake_set u (SetHideTrayIcon b) e = (True, e\<lparr>fe_hide_tray_icon := dict_set (fe_hide_tray_icon e) u b\<rparr>)"
| "fake_set u (SetLockoutType t f w) e =
     (if t \<notin> set TIMEKPR_LOCKOUT_TYPES then (False, e)
      else if \<not> isnumeric f \<or> \<not> isnumeric w then (False, e)
      else (True, e\<lparr>fe_lockout := dict_set (fe_lockout e) u (t, f, w)\<rparr>))"
| "fake_set u (SetPlayTimeEnabled b) e = (True, e\<lparr>fe_playtime_enabled := dict_set (fe_playtime_enabled e) u b\<rparr>)"
| "fake_set u (SetPlayTimeLimitOverride b) e =
     (True, e\<lparr>fe_playtime_override := dict_set (fe_playtime_override e) u b\<rparr>)"
| "fake_set u (SetPlayTimeUnaccountedIntervalsEnabled b) e =
     (True, e\<lparr>fe_playtime_unaccounted := dict_set (fe_playtime_unaccounted e) u b\<rparr>)"
| "fake_set u (SetPlayTimeAllowedDays ds) e =
     (True, e\<lparr>fe_playtime_allowed_weekdays := dict_set (fe_playtime_allowed_weekdays e) u ds\<rparr>)"
| "fake_set u (SetPlayTimeLimitsForDays ls) e =
     (True, e\<lparr>fe_playtime_daily_limits := dict_set (fe_playtime_daily_limits e) u ls\<rparr>)"
| "fake_set u (SetPlayTimeActivities acts) e =
     (True, e\<lparr>fe_playtime_activities := dict_set (fe_playtime_activities e) u acts\<rparr>)"

definition fake_snapshot :: "username \<Rightarrow> fake_enforcer \<Rightarrow> applied_policy" where
  "fake_snapshot u e =
     \<lparr>ap_allowed_weekdays = dict_get (fe_allowed_weekdays e) u,
      ap_limits_per_weekdays = dict_get (fe_daily_limits e) u,
      ap_limit_per_week = dict_get (fe_weekly_limits e) u,
      ap_limit_per_month = dict_get (fe_monthly_limits e) u,
      ap_track_inactive = dict_get (fe_track_inactive e) u,
      ap_hide_tray_icon = dict_get (fe_hide_tray_icon e) u,
      ap_lockout_type = map_option fst (dict_get (fe_lockout e) u),
      ap_wakeup_hour_interval = (case dict_get (fe_lockout e) u of
          None \<Rightarrow> None
        | Some (t, f, w) \<Rightarrow> if t = ''suspendwake'' then Some (f @ '';'' @ w) else None),
      ap_allowed_hours = dict_get_or (fe_allowed_hours e) u [],
      ap_playtime_enabled = dict_get (fe_playtime_enabled e) u,
      ap_playtime_limit_override = dict_get (fe_playtime_override e) u,
      ap_playtime_unaccounted = dict_get (fe_playtime_unaccounted e) u,
      ap_playtime_allowed_weekdays = dict_get (fe_playtime_allowed_weekdays e) u,
      ap_playtime_limits = dict_get (fe_playtime_daily_limits e) u,
      ap_playtime_activities = dict_get (fe_playtime_activities e) u\<rparr>"

definition fake_get_applied_policy :: "username \<Rightarrow> fake_enforcer \<Rightarrow> applied_policy option \<times> fake_enforcer" where
  "fake_get_applied_policy u e = ((if fe_read_fails e then None else Some (fake_snapshot u e)), e)"

definition fake_ops :: "int \<Rightarrow> fake_enforcer enforcer_ops" where
  "fake_ops wday = \<lparr>op_observe = fake_observe wday, op_set = fake_set,
     op_applied = fake_get_applied_policy\<rparr>"

lemma fake_set_shows:
  assumes "fake_set u s e = (True, e')"
  shows "fake_snapshot u e' = apply_setter s (fake_snapshot u e) \<and> fe_read_fails e' = fe_read_fails e"
proof (cases s)
  case (SetTimeLeft p n)
  then show ?thesis using assms by (auto simp: fake_snapshot_def split: option.splits sum.splits)
next
  case (SetAllowedHours d h)
  then show ?thesis using assms
    by (auto simp: fake_snapshot_def dict_get_or_def Let_def split: if_splits)
next
  case (SetLockoutType t f w)
  then show ?thesis using assms by (auto simp: fake_snapshot_def split: if_splits)
qed (use assms in \<open>auto simp: fake_snapshot_def\<close>)

interpretation fe: policy_device "fake_ops wday" username for wday username
proof
  show "snd (op_applied (fake_ops wday) username e) = e" for e
    by (simp add: fake_ops_def fake_get_applied_policy_def)
  show "fst (op_applied (fake_ops wday) username e') = Some (apply_setter s a)"
    if "fst (op_applied (fake_ops wday) username e) = Some a"
      "op_set (fake_ops wday) username s e = (True, e')" for e a s e'
    using that fake_set_shows [of username s e e']
    by (auto simp: fake_ops_def fake_get_applied_policy_def split: if_splits)
qed

subsection \<open>The report of a push\<close>

text \<open>On any device at all: the push is ok exactly when no step failed, and every step is counted.\<close>

definition reports :: "nat \<Rightarrow> push \<Rightarrow> bool" where
  "reports n p \<longleftrightarrow> (pu_ok p \<longleftrightarrow> pu_failed p = []) \<and> pu_applied_count p + pu_skipped_count p = n \<and>
     length (pu_failed p) \<le> pu_applied_count p"

lemma reports_step:
  "reports n (fst st) \<Longrightarrow> reports (Suc n) (fst (snd (push_step ops u l same s st)))"
  by (cases st) (auto simp: push_step_def reports_def split: prod.splits)

lemma reports_hours:
  "reports n (fst st) \<Longrightarrow> reports (n + length d) (fst (apply_allowed_hours ops u applied d st))"
proof (induction d arbitrary: n st)
  case (Cons x d)
  obtain day ivs where "x = (day, ivs)" by fastforce
  then show ?case
    using Cons.IH [OF reports_step [OF Cons.prems]] by (simp add: push_hours_day_def)
qed simp

lemma reports_playtime:
  assumes "reports n (fst st)" "apply_playtime ops u pt applied st = Inr st'"
  shows "reports (n + 6) (fst st')"
proof -
  obtain ls where ls: "project_daily_limits (list_or (pt_daily_limits_s pt) (replicate 7 0))
      (list_or (pt_allowed_weekdays pt) ALL_WEEKDAYS) = Inr ls"
    using assms(2) by (auto simp: apply_playtime_def Let_def case_prod_beta rbind_Inr_iff)
  note run = assms(2) [unfolded apply_playtime_def Let_def case_prod_beta, simplified ls, simplified]
  have "reports (Suc (Suc (Suc (Suc (Suc (Suc n)))))) (fst st')"
    by (subst run [symmetric]) (intro reports_step assms(1))
  then show ?thesis by (simp add: numeral_eq_Suc)
qed

lemma reports_push:
  assumes "apply_policy_push ops u policy e = Inr (p, e')" "length (pp_daily_limits_s policy) = 7"
  shows "reports (13 + length (pp_allowed_hours policy)) p"
proof -
  let ?n7 = "Suc (Suc (Suc (Suc (Suc (Suc (Suc 0))))))"
  have new: "reports 0 (fst (new_push, x))" for x by (simp add: reports_def new_push_def)
  obtain ls where ls: "project_daily_limits (pp_daily_limits_s policy)
      (list_or (pp_allowed_weekdays policy) ALL_WEEKDAYS) = Inr ls"
    using assms by (auto simp: apply_policy_push_def Let_def case_prod_beta rbind_Inr_iff)
  note run = assms(1) [unfolded apply_policy_push_def Let_def case_prod_beta apply_lockout_def, simplified assms(2) ls,
      simplified]
  have "reports (?n7 + length (pp_allowed_hours policy) + 6) (fst (p, e'))"
    by (rule reports_playtime [OF _ run]) (intro reports_hours reports_step new)
  then show ?thesis by (simp add: numeral_eq_Suc)
qed

lemma push_report: "apply_policy_push ops u policy e = Inr (p, e') \<Longrightarrow> pu_ok p \<longleftrightarrow> pu_failed p = []"
  using reports_push [of ops u policy e p e']
  by (cases "length (pp_daily_limits_s policy) = 7")
    (simp_all add: reports_def apply_policy_push_def new_push_def, auto)


subsection \<open>Pushes that must succeed\<close>

definition sample_policy :: policy_payload where
  "sample_policy = \<lparr>pp_version = 3, pp_daily_limits_s = [3600, 3600, 3600, 3600, 5400, 7200, 7200],
     pp_allowed_hours = [(''6'', [\<lparr>wh_hour = 9, wh_start_min = 0, wh_end_min = 60, wh_unaccounted = False\<rparr>])],
     pp_allowed_weekdays = [''1'', ''2'', ''6''], pp_weekly_limit_s = 36000, pp_monthly_limit_s = 120000,
     pp_lockout_type = SUSPEND_WAKE, pp_wake_from = Some ''7'', pp_wake_to = None, pp_track_inactive = False,
     pp_hide_tray_icon = True, pp_playtime = default_playtime, pp_note = ''''\<rparr>"

text \<open>A setter that the device accepts in every state.\<close>

definition accepts :: "'e enforcer_ops \<Rightarrow> username \<Rightarrow> setter \<Rightarrow> bool" where
  "accepts ops u s \<longleftrightarrow> (\<forall>e. fst (op_set ops u s e))"

lemma step_accepted:
  "pu_ok (fst st) \<Longrightarrow> accepts ops u s \<Longrightarrow> pu_ok (fst (snd (push_step ops u l same s st)))"
  by (cases st) (auto simp: push_step_def accepts_def split: prod.splits, metis fst_conv)

lemma hours_accepted:
  assumes "pu_ok (fst st)" "\<forall>(day, ivs) \<in> set d. accepts ops u (SetAllowedHours day (day_payload ivs))"
  shows "pu_ok (fst (apply_allowed_hours ops u applied d st))"
  using assms
proof (induction d arbitrary: st)
  case (Cons x d)
  obtain day ivs where x: "x = (day, ivs)" by fastforce
  then have "accepts ops u (SetAllowedHours day (day_payload ivs))" using Cons.prems(2) by auto
  then have "pu_ok (fst (push_hours_day ops u applied day (day_payload ivs) st))"
    unfolding push_hours_day_def using Cons.prems(1) by (intro step_accepted)
  then show ?case using Cons.IH Cons.prems(2) by (simp add: x)
qed simp

lemma playtime_accepted:
  assumes "pu_ok (fst st)"
    and "project_daily_limits (list_or (pt_daily_limits_s pt) (replicate 7 0))
      (list_or (pt_allowed_weekdays pt) ALL_WEEKDAYS) = Inr ls"
    and "\<And>s. (\<forall>d h. s \<noteq> SetAllowedHours d h) \<Longrightarrow> (\<forall>t f w. s \<noteq> SetLockoutType t f w) \<Longrightarrow>
      (\<forall>p n. s \<noteq> SetTimeLeft p n) \<Longrightarrow> accepts ops u s"
  shows "\<exists>st'. apply_playtime ops u pt applied st = Inr st' \<and> pu_ok (fst st')"
  by (simp add: apply_playtime_def Let_def case_prod_beta assms(2))
    (intro step_accepted assms(1) assms(3); simp)

lemma fake_accepts:
  "(\<forall>d h. s \<noteq> SetAllowedHours d h) \<Longrightarrow> (\<forall>t f w. s \<noteq> SetLockoutType t f w) \<Longrightarrow>
   (\<forall>p n. s \<noteq> SetTimeLeft p n) \<Longrightarrow> accepts (fake_ops wday) u s"
  by (cases s) (auto simp: accepts_def fake_ops_def)

lemma fake_accepts_hours: "h \<noteq> [] \<Longrightarrow> accepts (fake_ops wday) u (SetAllowedHours d h)"
  by (simp add: accepts_def fake_ops_def Let_def)

lemma fake_accepts_lockout:
  "isnumeric f \<Longrightarrow> isnumeric w \<Longrightarrow> accepts (fake_ops wday) u (SetLockoutType (lockout_value l) f w)"
  by (cases l) (simp_all add: accepts_def fake_ops_def TIMEKPR_LOCKOUT_TYPES_def)

lemma some_digits: "a \<in> set ''01'' \<Longrightarrow> is_digit a" "b \<in> set ''0123'' \<Longrightarrow> is_digit b" "is_digit (CHR ''2'')"
  by (auto simp: is_digit_def)

lemma hour_pattern_pair:
  "hour_pattern [a, b] \<longleftrightarrow> a \<in> set ''01'' \<and> is_digit b \<or> a = CHR ''2'' \<and> b \<in> set ''0123''"
  by (simp add: hour_pattern_def)

lemma hour_pattern_numeric:
  assumes "hour_pattern s"
  shows "isnumeric s"
proof (cases s)
  case Nil
  then show ?thesis using assms by (simp add: hour_pattern_def)
next
  case (Cons a t)
  note s = this
  show ?thesis
  proof (cases t)
    case Nil
    then show ?thesis using assms s by (simp add: hour_pattern_def isnumeric_def)
  next
    case (Cons b r)
    then have "r = []" using assms s by (cases r) (simp_all add: hour_pattern_def)
    then have "hour_pattern [a, b]" using assms s Cons by simp
    then have "is_digit a \<and> is_digit b"
      using some_digits(1) [of a] some_digits(2) [of b] some_digits(3) unfolding hour_pattern_pair by blast
    then show ?thesis using s Cons \<open>r = []\<close> by (simp add: isnumeric_def)
  qed
qed

lemma wake_numeric:
  "pred_option hour_pattern w \<Longrightarrow> isnumeric d \<Longrightarrow> isnumeric (str_or w d)"
  by (cases w) (auto simp: str_or_def hour_pattern_numeric)

lemma isnumeric_no_semicolon: "isnumeric s \<Longrightarrow> CHR '';'' \<notin> set s"
proof
  assume "isnumeric s" "CHR '';'' \<in> set s"
  then have "is_digit (CHR '';'')" by (simp add: isnumeric_def list_all_iff)
  then show False by (simp add: is_digit_def)
qed

lemma default_wake_numeric: "isnumeric DEFAULT_WAKE_FROM" "isnumeric DEFAULT_WAKE_TO"
  by (simp_all add: isnumeric_def is_digit_def DEFAULT_WAKE_FROM_def DEFAULT_WAKE_TO_def)

lemma dict_set_nonempty: "dict_set d k v \<noteq> []"
  by (induction d k v rule: dict_set.induct) auto

lemma foldl_dict_set_nonempty: "d \<noteq> [] \<Longrightarrow> foldl (\<lambda>d r. dict_set d (f r) (g r)) d rs \<noteq> []"
  by (induction rs arbitrary: d) (auto simp: dict_set_nonempty)

lemma day_payload_nonempty: "ivs \<noteq> [] \<Longrightarrow> day_payload ivs \<noteq> []"
  by (cases ivs) (simp_all add: day_payload_def hours_to_dbus_payload_def foldl_dict_set_nonempty dict_set_nonempty)

lemma project_tokens:
  assumes "length ls = 7" "weekdays_ok ds"
  shows "\<exists>out. project_daily_limits ls ds = Inr out"
  using assms(2)
proof (induction ds)
  case (Cons d ds)
  have "d \<in> set WEEKDAY_TOKENS" "weekdays_ok ds" using Cons.prems by (auto simp: weekdays_ok_def)
  then obtain out where out: "project_daily_limits ls ds = Inr out" using Cons.IH by blast
  have "\<exists>v. rbind (py_int d) (\<lambda>n. py_index ls (n - 1)) = Inr v"
    using \<open>d \<in> set WEEKDAY_TOKENS\<close> assms(1)
    by (auto simp: WEEKDAY_TOKENS_def py_int_def py_strip_def is_blank_def digit_value_def)
  with out show ?case by (auto simp: project_daily_limits_def)
qed (simp add: project_daily_limits_def)

lemma weekdays_or_ok: "weekdays_ok ds \<Longrightarrow> weekdays_ok (list_or ds ALL_WEEKDAYS)"
  by (auto simp: weekdays_ok_def list_or_def ALL_WEEKDAYS_def WEEKDAY_TOKENS_def)

definition pushable :: "policy_payload \<Rightarrow> bool" where
  "pushable p \<longleftrightarrow> length (pp_daily_limits_s p) = 7 \<and> weekdays_ok (pp_allowed_weekdays p) \<and>
     pred_option hour_pattern (pp_wake_from p) \<and> pred_option hour_pattern (pp_wake_to p) \<and>
     distinct (map fst (pp_allowed_hours p)) \<and> list_all (\<lambda>(_, ivs). ivs \<noteq> []) (pp_allowed_hours p) \<and>
     length (pt_daily_limits_s (pp_playtime p)) = 7 \<and> weekdays_ok (pt_allowed_weekdays (pp_playtime p))"

lemma sample_policy_pushable: "pushable sample_policy"
  by (simp add: pushable_def sample_policy_def default_playtime_def weekdays_ok_def
      WEEKDAY_TOKENS_def hour_pattern_def is_digit_def)

lemma fake_push_ok:
  assumes "pushable policy"
  shows "\<exists>p e'. apply_policy_push (fake_ops wday) u policy e = Inr (p, e') \<and> pu_ok p"
proof -
  let ?ops = "fake_ops wday"
  obtain ls where ls: "project_daily_limits (pp_daily_limits_s policy)
      (list_or (pp_allowed_weekdays policy) ALL_WEEKDAYS) = Inr ls"
    using assms project_tokens weekdays_or_ok by (metis pushable_def)
  have seven: "list_or (pt_daily_limits_s (pp_playtime policy)) (replicate 7 0) = pt_daily_limits_s (pp_playtime policy)"
    using assms by (auto simp: pushable_def list_or_def)
  obtain pls where pls: "project_daily_limits (list_or (pt_daily_limits_s (pp_playtime policy)) (replicate 7 0))
      (list_or (pt_allowed_weekdays (pp_playtime policy)) ALL_WEEKDAYS) = Inr pls"
    unfolding seven using assms project_tokens weekdays_or_ok by (metis pushable_def)
  have lock: "accepts ?ops u (SetLockoutType (lockout_value (pp_lockout_type policy))
      (str_or (pp_wake_from policy) DEFAULT_WAKE_FROM) (str_or (pp_wake_to policy) DEFAULT_WAKE_TO))"
    using assms by (intro fake_accepts_lockout wake_numeric default_wake_numeric) (auto simp: pushable_def)
  have hours: "\<forall>(day, ivs) \<in> set (pp_allowed_hours policy). accepts ?ops u (SetAllowedHours day (day_payload ivs))"
    using assms by (auto simp: pushable_def list_all_iff intro!: fake_accepts_hours day_payload_nonempty)
  have len: "length (pp_daily_limits_s policy) = 7" using assms by (simp add: pushable_def)
  have new: "pu_ok (fst (new_push, x))" for x by (simp add: new_push_def)
  have "\<exists>st. apply_policy_push ?ops u policy e = Inr st \<and> pu_ok (fst st)"
    unfolding apply_policy_push_def Let_def case_prod_beta apply_lockout_def str_or_lockout ls
    by (simp only: len rbind_simps if_False not_True_eq_False refl)
      (intro playtime_accepted [OF _ pls] fake_accepts hours_accepted hours step_accepted lock new; simp)
  then show ?thesis by auto
qed

lemma push_lands:
  assumes "pushable policy" "\<not> fe_read_fails e"
  shows "\<exists>p e' q. apply_policy_push (fake_ops wday) u policy e = Inr (p, e') \<and> pu_ok p \<and>
    policy_held (fake_snapshot u e') policy \<and>
    apply_policy_push (fake_ops wday) u policy e' = Inr (q, e') \<and> pu_ok q \<and> pu_applied_count q = 0"
proof -
  obtain p e' where run: "apply_policy_push (fake_ops wday) u policy e = Inr (p, e')" and ok: "pu_ok p"
    using fake_push_ok [OF assms(1)] by blast
  have held: "fe.held wday u x = (if fe_read_fails x then None else Some (fake_snapshot u x))" for x
    unfolding fe.held_def by (simp add: fake_ops_def fake_get_applied_policy_def)
  have wake: "CHR '';'' \<notin> set (str_or (pp_wake_from policy) DEFAULT_WAKE_FROM)"
    using assms(1) by (intro isnumeric_no_semicolon wake_numeric default_wake_numeric) (simp add: pushable_def)
  obtain b where b: "fe.held wday u e' = Some b" "policy_held b policy"
    using fe.push_ok [OF run ok _ _ wake] held [of e] assms by (auto simp: pushable_def)
  then have "b = fake_snapshot u e'" using held [of e'] by (simp split: if_splits)
  then show ?thesis using fe.push_quiet [OF b] run ok b(2) by (auto simp: fe.quiet_def)
qed

text \<open>
  C6. A validated policy always lands: on a device with timekpr's own validation the push of a
  policy within the wire model's bounds succeeds, whatever the device held before, and when the
  configuration can be read back it then shows every field of the policy, the daily limits
  projected to the allowed weekdays; pushing the same policy again writes nothing.
\<close>

theorem push_lands_and_settles:
  assumes "pushable policy" "\<not> fe_read_fails e"
  shows "\<exists>p e' q. apply_policy_push (fake_ops wday) u policy e = Inr (p, e') \<and> pu_ok p \<and>
    policy_held (fake_snapshot u e') policy \<and>
    apply_policy_push (fake_ops wday) u policy e' = Inr (q, e') \<and> pu_ok q \<and> pu_applied_count q = 0"
  by (rule push_lands [OF assms])

theorem push_lands_and_settles_witness:
  "\<exists>p e' q. apply_policy_push (fake_ops 6) ''kid'' sample_policy (new_fake []) = Inr (p, e') \<and> pu_ok p \<and>
    policy_held (fake_snapshot ''kid'' e') sample_policy \<and>
    apply_policy_push (fake_ops 6) ''kid'' sample_policy e' = Inr (q, e') \<and> pu_ok q \<and> pu_applied_count q = 0"
  by (rule push_lands_and_settles [OF sample_policy_pushable]) (simp add: new_fake_def)


text \<open>
  What the payload's own validation misses: the wire model accepts any string as a PlayTime
  weekday, and a push of such a payload ends in an IndexError of the agent on every device, after
  the earlier settings have been written.
\<close>

abbreviation bad_playtime :: playtime_payload where
  "bad_playtime \<equiv> default_playtime\<lparr>pt_allowed_weekdays := [''8'']\<rparr>"

theorem playtime_weekday_crashes_push:
  assumes "valid_policy_update upd" "pushable policy"
  shows "check_policy_update (upd\<lparr>pu_playtime := bad_playtime\<rparr>) = Inr (upd\<lparr>pu_playtime := bad_playtime\<rparr>) \<and>
    apply_policy_push ops username (policy\<lparr>pp_playtime := bad_playtime\<rparr>) e = Inl IndexError"
proof
  have "valid_playtime bad_playtime"
    by (simp add: valid_playtime_def default_playtime_def playtime_limits_ok_def list_ex_iff)
  then show "check_policy_update (upd\<lparr>pu_playtime := bad_playtime\<rparr>) = Inr (upd\<lparr>pu_playtime := bad_playtime\<rparr>)"
    using assms(1) by (simp add: check_policy_update_def valid_policy_update_def)
  obtain ls where ls: "project_daily_limits (pp_daily_limits_s policy)
      (list_or (pp_allowed_weekdays policy) ALL_WEEKDAYS) = Inr ls"
    using assms(2) project_tokens weekdays_or_ok by (metis pushable_def)
  have bad: "project_daily_limits (replicate 7 0) [''8''] = Inl IndexError"
    by (simp add: project_daily_limits_def py_int_def py_strip_def is_blank_def digit_value_def py_index_def)
  have "apply_playtime ops username bad_playtime applied st = Inl IndexError" for applied st
    unfolding apply_playtime_def Let_def case_prod_beta
    using bad by (simp add: default_playtime_def list_or_def)
  then show "apply_policy_push ops username (policy\<lparr>pp_playtime := bad_playtime\<rparr>) e = Inl IndexError"
    using assms(2) ls by (simp add: apply_policy_push_def Let_def case_prod_beta pushable_def)
qed

definition sample_update :: policy_update where
  "sample_update = \<lparr>pu_daily_limits_s = replicate 7 3600, pu_weekly_limit_s = 25200, pu_monthly_limit_s = 100000,
     pu_allowed_weekdays = WEEKDAY_TOKENS, pu_allowed_hours = [], pu_lockout_type = LOCK, pu_wake_from = None,
     pu_wake_to = None, pu_track_inactive = False, pu_hide_tray_icon = False, pu_playtime = default_playtime,
     pu_note = []\<rparr>"

lemma sample_update_valid: "valid_policy_update sample_update"
  by (simp add: valid_policy_update_def sample_update_def day_limit_ok_def in_bounds_def weekdays_ok_def
      valid_hours_def valid_playtime_def default_playtime_def playtime_limits_ok_def list_ex_iff list_all_iff
      WEEKDAY_TOKENS_def)

theorem playtime_weekday_crashes_push_witness:
  "check_policy_update (sample_update\<lparr>pu_playtime := bad_playtime\<rparr>) = Inr (sample_update\<lparr>pu_playtime := bad_playtime\<rparr>) \<and>
    apply_policy_push (fake_ops 1) ''kid'' (sample_policy\<lparr>pp_playtime := bad_playtime\<rparr>) (new_fake []) = Inl IndexError"
  using playtime_weekday_crashes_push [OF sample_update_valid sample_policy_pushable] .

end
