(* ===== verification/Device_Tick.thy ===== *)
theory Device_Tick
  imports Tick Fake_Enforcer
begin

section \<open>The tick on a device\<close>

text \<open>
  Lemmas and properties of \<open>run_tick\<close>: what a tick may write, what it reports, what it keeps for
  later, and, on the simulated device, where the time left ends up when the hub answers and when
  it does not.
\<close>

subsection \<open>What the observation loop changes\<close>

lemma advance_user_frame:
  assumes "advance_user today ob us = (us', force, burned)"
  shows "ust_pending_spans us' = ust_pending_spans us \<and> ust_applied_offset_s us' = ust_applied_offset_s us \<and>
    ust_last_tick_utc us' = ust_last_tick_utc us \<and>
    ust_policy_version_applied us' = ust_policy_version_applied us \<and>
    ust_policy_revision_applied us' = ust_policy_revision_applied us \<and>
    ust_last_policy_push_error us' = ust_last_policy_push_error us \<and>
    ust_last_global_spent_s us' = ust_last_global_spent_s us \<and>
    ust_last_effective_limit_today_s us' = ust_last_effective_limit_today_s us \<and>
    ust_cum_local_at_contact_s us' = ust_cum_local_at_contact_s us \<and>
    ust_last_hub_contact_utc us' = ust_last_hub_contact_utc us \<and>
    ust_last_offline_policy us' = ust_last_offline_policy us \<and>
    ust_last_offline_grace_s us' = ust_last_offline_grace_s us \<and>
    ust_last_offline_cap_s us' = ust_last_offline_cap_s us \<and> 0 \<le> burned"
  using assms by (auto simp: advance_user_def Let_def split: if_splits)

text \<open>What a user's entry, request and state have to do with the state before the loop.\<close>

definition observed_from :: "string \<Rightarrow> instant \<Rightarrow> agent_state \<Rightarrow> username \<Rightarrow> tick_entry \<Rightarrow> agent_state \<Rightarrow> bool" where
  "observed_from today now st u en st' \<longleftrightarrow>
     (\<exists>burned. advance_user today (en_obs en) (state_user u st) = (state_user u st', en_force en, burned) \<and>
        en_span en = tick_span now (en_obs en) burned (state_user u st'))"

lemma observe_users_entries:
  assumes "observe_users ops today now us (e, st, obs, reqs) = Inr (e', st', obs', reqs')"
    and "distinct us" "set us \<inter> set (map fst obs) = {}" "distinct (map fst obs)"
  shows "(\<forall>u. u \<notin> set us \<longrightarrow> state_user u st' = state_user u st \<and> dict_get obs' u = dict_get obs u) \<and>
    (\<forall>u en. u \<in> set us \<and> dict_get obs' u = Some en \<longrightarrow> observed_from today now st u en st') \<and>
    (\<forall>u. u \<in> set us \<and> dict_get obs' u = None \<longrightarrow> state_user u st' = state_user u st) \<and>
    distinct (map fst obs') \<and> ag_hub_tz st' = ag_hub_tz st \<and> set (map fst obs') \<subseteq> set (map fst obs) \<union> set us"
  using assms
proof (induction us arbitrary: e st obs reqs)
  case Nil
  then show ?case by auto
next
  case (Cons u us)
  obtain found e1 where f: "op_observe ops u e = Inr (found, e1)"
    using Cons.prems(1) by (auto simp: rbind_Inr_iff)
  show ?case
  proof (cases found)
    case None
    then have run: "observe_users ops today now us (e1, st, obs, reqs) = Inr (e', st', obs', reqs')"
      using Cons.prems(1) f by simp
    have nu: "u \<notin> set us" "dict_get obs u = None"
      using Cons.prems(2,3) by (auto simp: dict_get_def map_of_eq_None_iff)
    show ?thesis
      using Cons.IH [OF run] Cons.prems(2-4) nu by auto
  next
    case (Some ob)
    obtain user force burned where adv: "advance_user today ob (state_user u st) = (user, force, burned)"
      by (cases "advance_user today ob (state_user u st)")
    let ?en = "\<lparr>en_obs = ob, en_force = force, en_span = tick_span now ob burned user\<rparr>"
    let ?st = "set_state_user u user st" and ?obs = "dict_set obs u ?en"
    have run: "observe_users ops today now us (e1, ?st, ?obs,
        reqs @ [user_request u ob burned (tick_span now ob burned user) user]) = Inr (e', st', obs', reqs')"
      using Cons.prems(1) f Some adv by (simp add: Let_def)
    have nu: "u \<notin> set us" using Cons.prems(2) by simp
    have disj: "set us \<inter> set (map fst ?obs) = {}"
      using Cons.prems(2,3) dict_set_keys [of obs u ?en] by (auto simp del: set_map)
    have dist: "distinct (map fst ?obs)" using Cons.prems(4) by (rule dict_set_distinct)
    have dist_us: "distinct us" using Cons.prems(2) by simp
    note IH = Cons.IH [OF run dist_us disj dist]
    have u: "state_user u st' = user" "dict_get obs' u = Some ?en" using IH nu by simp_all
    have other: "observed_from today now st v en st' = observed_from today now ?st v en st'" if "v \<noteq> u" for v en
      using that by (simp add: observed_from_def)
    have mine: "observed_from today now st u ?en st'" using adv u by (auto simp: observed_from_def)
    have sub: "set (map fst obs') \<subseteq> set (map fst obs) \<union> set (u # us)"
      using IH dict_set_keys [of obs u ?en] by auto
    show ?thesis
    proof (intro conjI allI impI)
      fix v assume "v \<notin> set (u # us)"
      then show "state_user v st' = state_user v st" "dict_get obs' v = dict_get obs v" using IH by simp_all
    next
      fix v en assume v: "v \<in> set (u # us) \<and> dict_get obs' v = Some en"
      show "observed_from today now st v en st'"
      proof (cases "v = u")
        case True
        then show ?thesis using v u(2) mine by simp
      next
        case False
        then show ?thesis using v IH other by simp
      qed
    next
      fix v assume v: "v \<in> set (u # us) \<and> dict_get obs' v = None"
      then have "v \<noteq> u" using u(2) by auto
      then show "state_user v st' = state_user v st" using v IH by simp
    qed (use IH sub in \<open>simp_all\<close>)
  qed
qed

lemma loop_entries:
  assumes "observe_users ops today now users (e, st, [], []) = Inr (e1, st1, obs, reqs)" "distinct users"
  shows "distinct (map fst obs)"
    and "u \<in> set users \<Longrightarrow> dict_get obs u = Some en \<Longrightarrow> observed_from today now st u en st1"
    and "u \<in> set users \<Longrightarrow> dict_get obs u = None \<Longrightarrow> state_user u st1 = state_user u st"
    and "u \<notin> set users \<Longrightarrow> state_user u st1 = state_user u st"
    and "u \<notin> set users \<Longrightarrow> dict_get obs u = None"
  using observe_users_entries [OF assms] by (simp_all add: dict_get_def)

text \<open>What the loop keeps of a user's state, observed or not.\<close>

definition kept_by_loop :: "user_state \<Rightarrow> user_state \<Rightarrow> bool" where
  "kept_by_loop us us' \<longleftrightarrow> ust_pending_spans us' = ust_pending_spans us \<and>
     ust_applied_offset_s us' = ust_applied_offset_s us \<and>
     ust_policy_version_applied us' = ust_policy_version_applied us \<and>
     ust_policy_revision_applied us' = ust_policy_revision_applied us"

lemma loop_keeps:
  assumes "observe_users ops today now users (e, st, [], []) = Inr (e1, st1, obs, reqs)" "distinct users"
  shows "kept_by_loop (state_user u st) (state_user u st1)"
proof (cases "u \<in> set users \<and> dict_get obs u \<noteq> None")
  case True
  then obtain en where "observed_from today now st u en st1"
    using loop_entries(2) [OF assms] by blast
  then obtain burned where "advance_user today (en_obs en) (state_user u st) = (state_user u st1, en_force en, burned)"
    by (auto simp: observed_from_def)
  from advance_user_frame [OF this] show ?thesis by (simp add: kept_by_loop_def)
next
  case False
  then have "state_user u st1 = state_user u st" using loop_entries(3,4) [OF assms] by blast
  then show ?thesis by (simp add: kept_by_loop_def)
qed

subsection \<open>The three ways a tick ends\<close>

lemma revoked_users_state:
  assumes "distinct (map fst obs)"
  shows "state_user u (revoked_users obs st) = (case dict_get obs u of
     None \<Rightarrow> state_user u st
   | Some en \<Rightarrow> (buffer_unsent_span (en_span en) (state_user u st))\<lparr>ust_last_enforcement := ''revoked''\<rparr>)"
  using assms
proof (induction obs st rule: revoked_users.induct)
  case (2 v en rest st)
  have "dict_get rest v = None" using 2(2) by (simp add: dict_get_def map_of_eq_None_iff)
  then show ?case
    using 2 by (cases "v = u"; cases "dict_get rest u") (simp_all add: dict_get_def)
qed (simp add: dict_get_def)

lemma convergence_keeps [simp]:
  "ust_pending_spans (fst (apply_convergence ops u ob tg force dry us e)) = ust_pending_spans us"
  "ust_last_global_spent_s (fst (apply_convergence ops u ob tg force dry us e)) = ust_last_global_spent_s us"
  "ust_last_effective_limit_today_s (fst (apply_convergence ops u ob tg force dry us e)) = ust_last_effective_limit_today_s us"
  "ust_last_hub_contact_utc (fst (apply_convergence ops u ob tg force dry us e)) = ust_last_hub_contact_utc us"
  "ust_cum_local_at_contact_s (fst (apply_convergence ops u ob tg force dry us e)) = ust_cum_local_at_contact_s us"
  "ust_cum_local_s (fst (apply_convergence ops u ob tg force dry us e)) = ust_cum_local_s us"
  "ust_policy_version_applied (fst (apply_convergence ops u ob tg force dry us e)) = ust_policy_version_applied us"
  "ust_policy_revision_applied (fst (apply_convergence ops u ob tg force dry us e)) = ust_policy_revision_applied us"
  "ust_last_policy_push_error (fst (apply_convergence ops u ob tg force dry us e)) = ust_last_policy_push_error us"
  by (simp_all add: apply_convergence_def Let_def)

lemma convergence_dry: "apply_convergence ops u ob tg force True us e = (us, e)"
  by (simp add: apply_convergence_def Let_def)

lemma offline_frame:
  "ust_pending_spans (fst (apply_offline_policy ops u ob pol grace cap now us e)) = ust_pending_spans us"
  by (simp add: apply_offline_policy_def Let_def apply_convergence_def)

lemma offline_users_pending:
  assumes "distinct (map fst obs)"
  shows "ust_pending_spans (state_user u (fst (offline_users ops now obs (st, e)))) = (case dict_get obs u of
     None \<Rightarrow> ust_pending_spans (state_user u st)
   | Some en \<Rightarrow> ust_pending_spans (buffer_unsent_span (en_span en) (state_user u st)))"
  using assms
proof (induction ops now obs "(st, e)" arbitrary: st e rule: offline_users.induct)
  case (2 ops now v en rest st e)
  let ?us = "buffer_unsent_span (en_span en) (state_user v st)"
  obtain us' e' where step: "apply_offline_policy ops v (en_obs en) (ust_last_offline_policy ?us)
      (ust_last_offline_grace_s ?us) (ust_last_offline_cap_s ?us) now ?us e = (us', e')" by fastforce
  then have p: "ust_pending_spans us' = ust_pending_spans ?us" by (metis fst_conv offline_frame)
  have IH: "ust_pending_spans (state_user u (fst (offline_users ops now rest (set_state_user v us' st, e'))))
      = (case dict_get rest u of
           None \<Rightarrow> ust_pending_spans (state_user u (set_state_user v us' st))
         | Some en \<Rightarrow> ust_pending_spans (buffer_unsent_span (en_span en) (state_user u (set_state_user v us' st))))"
    using 2 step by simp
  have rest: "dict_get rest v = None" using 2(2) by (simp add: dict_get_def map_of_eq_None_iff)
  show ?case
    using IH step p rest
    by (cases "v = u"; cases "dict_get rest u") (simp_all add: dict_get_def Let_def)
qed (simp add: dict_get_def)

definition last_spans :: "active_span list \<Rightarrow> active_span list" where
  "last_spans spans = drop (length spans - MAX_PENDING_SPANS) spans"

lemma buffer_pending:
  "length (ust_pending_spans us) \<le> MAX_PENDING_SPANS \<Longrightarrow>
   ust_pending_spans (buffer_unsent_span span us)
     = last_spans (ust_pending_spans us @ (case span of None \<Rightarrow> [] | Some s \<Rightarrow> [s]))"
  by (auto simp: buffer_unsent_span_def last_spans_def Let_def split: option.splits)

lemma run_tick_observed:
  assumes "run_tick ops sync zone users ver tz now prev (st, e, h) = Inr (ms, st', e', h')"
  obtains today e1 st1 obs reqs where
    "canonical_day_str zone now (if ag_hub_tz st \<noteq> '''' then ag_hub_tz st else tz) = Inr today"
    "observe_users ops today now users (e, st, [], []) = Inr (e1, st1, obs, reqs)"
  using assms by (auto simp: run_tick_def rbind_Inr_iff)

definition tick_request :: "instant \<Rightarrow> string \<Rightarrow> sync_user_request list \<Rightarrow> sync_request" where
  "tick_request now ver reqs = \<lparr>sreq_agent_time = now, sreq_agent_version = ver, sreq_users = reqs\<rparr>"

lemma run_tick_cases:
  assumes "canonical_day_str zone now (if ag_hub_tz st \<noteq> '''' then ag_hub_tz st else tz) = Inr today"
    and "observe_users ops today now users (e, st, [], []) = Inr (e1, st1, obs, reqs)"
  shows "sync (tick_request now ver reqs) h = (DeviceRevoked, h1) \<Longrightarrow>
      run_tick ops sync zone users ver tz now prev (st, e, h)
        = Inr (min (prev * 2) MAX_POLL_MS, revoked_users obs st1, e1, h1)"
    and "sync (tick_request now ver reqs) h = (HubUnreachable, h1) \<Longrightarrow>
      run_tick ops sync zone users ver tz now prev (st, e, h)
        = Inr (min (prev * 2) MAX_POLL_MS, fst (offline_users ops now obs (st1, e1)),
               snd (offline_users ops now obs (st1, e1)), h1)"
    and "sync (tick_request now ver reqs) h = (Synced resp, h1) \<Longrightarrow>
      run_tick ops sync zone users ver tz now prev (st, e, h)
        = rbind (answer_users ops now (sres_users resp) obs
            (st1\<lparr>ag_hub_tz := (if sres_hub_tz resp \<noteq> '''' then sres_hub_tz resp else ag_hub_tz st1)\<rparr>, e1))
            (\<lambda>(st, e). Inr (min (sres_next_poll_ms resp) MAX_POLL_MS, st, e, h1))"
    and "sync (tick_request now ver reqs) h = (Sync_Raised x, h1) \<Longrightarrow>
      run_tick ops sync zone users ver tz now prev (st, e, h) = Inl x"
  using assms by (auto simp: run_tick_def tick_request_def Let_def case_prod_beta)

lemma find_Some: "find P xs = Some x \<Longrightarrow> x \<in> set xs \<and> P x"
  by (induction xs) (auto split: if_splits)

lemma response_for_Some: "response_for users u = Some r \<Longrightarrow> r \<in> set users \<and> sr_username r = u"
  unfolding response_for_def using find_Some by fastforce

lemma answer_observe_only:
  assumes "answer_users ops now users obs (st, e) = Inr (st', e')"
    and "\<forall>r \<in> set users. sr_enforcement r = OBSERVE"
  shows "e' = e \<and> (\<forall>u. ust_applied_offset_s (state_user u st') = ust_applied_offset_s (state_user u st) \<and>
    ust_policy_version_applied (state_user u st') = ust_policy_version_applied (state_user u st) \<and>
    ust_policy_revision_applied (state_user u st') = ust_policy_revision_applied (state_user u st))"
  using assms
proof (induction ops now users obs "(st, e)" arbitrary: st e rule: answer_users.induct)
  case (2 ops now users v en rest st e)
  show ?case
  proof (cases "response_for users v")
    case None
    then show ?thesis using 2 by simp
  next
    case (Some resp)
    then have "resp \<in> set users" by (rule response_for_Some [THEN conjunct1])
    then have o: "sr_enforcement resp = OBSERVE" using 2 by blast
    let ?us = "(remember_contact now en resp (state_user v st))\<lparr>ust_last_enforcement := ''observe''\<rparr>"
    have step: "answer_user ops now v en resp (state_user v st) e = Inr (?us, e)"
      using o by (simp add: answer_user_def convergence_dry Let_def)
    then have run: "answer_users ops now users rest (set_state_user v ?us st, e) = Inr (st', e')"
      using 2(3) Some by simp
    have "ust_applied_offset_s ?us = ust_applied_offset_s (state_user v st)"
      "ust_policy_version_applied ?us = ust_policy_version_applied (state_user v st)"
      "ust_policy_revision_applied ?us = ust_policy_revision_applied (state_user v st)"
      by (simp_all add: remember_contact_def)
    then show ?thesis using 2(2) [OF Some run 2(4)] step by simp
  qed
qed simp

subsection \<open>Properties of a tick\<close>

text \<open>
  C16. A tick that may not enforce touches nothing: when the hub has revoked the device, or every
  user of its answer is in observe mode, the device after the tick is the device as the
  observations left it, and no user's applied offset, policy version or policy revision changes.
\<close>

theorem no_writes_without_enforcement:
  assumes "run_tick ops sync zone users ver tz now prev (st, e, h) = Inr (ms, st', e', h')"
    and "canonical_day_str zone now (if ag_hub_tz st \<noteq> '''' then ag_hub_tz st else tz) = Inr today \<and>
      observe_users ops today now users (e, st, [], []) = Inr (e1, st1, obs, reqs)"
    and "distinct users"
    and "(case fst (sync (tick_request now ver reqs) h) of
        DeviceRevoked \<Rightarrow> True | HubUnreachable \<Rightarrow> False | Sync_Raised _ \<Rightarrow> False
      | Synced resp \<Rightarrow> list_all (\<lambda>r. sr_enforcement r = OBSERVE) (sres_users resp))"
  shows "e' = e1 \<and>
    ust_applied_offset_s (state_user u st') = ust_applied_offset_s (state_user u st) \<and>
    ust_policy_version_applied (state_user u st') = ust_policy_version_applied (state_user u st) \<and>
    ust_policy_revision_applied (state_user u st') = ust_policy_revision_applied (state_user u st)"
proof -
  have obs: "observe_users ops today now users (e, st, [], []) = Inr (e1, st1, obs, reqs)"
    and day: "canonical_day_str zone now (if ag_hub_tz st \<noteq> '''' then ag_hub_tz st else tz) = Inr today"
    using assms(2) by auto
  note dist = loop_entries(1) [OF obs assms(3)]
  note same = loop_keeps [OF obs assms(3), of u, unfolded kept_by_loop_def]
  note cases = run_tick_cases [OF day obs, of sync ver h]
  obtain out h1 where out: "sync (tick_request now ver reqs) h = (out, h1)" by fastforce
  show ?thesis
  proof (cases out)
    case DeviceRevoked
    then have "st' = revoked_users obs st1" "e' = e1" using cases(1) out assms(1) by auto
    then show ?thesis
      using same by (simp add: revoked_users_state [OF dist] buffer_unsent_span_def Let_def split: option.split)
  next
    case (Synced resp)
    then have ans: "answer_users ops now (sres_users resp) obs
        (st1\<lparr>ag_hub_tz := (if sres_hub_tz resp \<noteq> '''' then sres_hub_tz resp else ag_hub_tz st1)\<rparr>, e1) = Inr (st', e')"
      using cases(3) out assms(1) by (auto simp: rbind_Inr_iff)
    have "\<forall>r \<in> set (sres_users resp). sr_enforcement r = OBSERVE"
      using assms(4) out Synced by (simp add: list_all_iff)
    from answer_observe_only [OF ans this] show ?thesis using same by simp
  next
    case HubUnreachable
    then show ?thesis using assms(4) out by simp
  next
    case (Sync_Raised x)
    then show ?thesis using assms(4) out by simp
  qed
qed


subsection \<open>The simulated device after a tick\<close>

definition device_of :: "username \<Rightarrow> fake_enforcer \<Rightarrow> fake_daemon option" where
  "device_of u e = dict_get (fe_daemons e) u"

text \<open>The observation is what the user's daemon shows.\<close>

definition displays :: "user_observation \<Rightarrow> fake_daemon \<Rightarrow> bool" where
  "displays ob d \<longleftrightarrow> uo_balance_s ob = fd_balance_s d \<and> uo_spent_day_s ob = fd_spent_day_s d \<and>
     uo_limit_today_s ob = fd_limit_today_s d"

lemma fake_observe_shows:
  "fake_observe wday u e = Inr (Some ob, e') \<Longrightarrow> \<exists>d. device_of u e' = Some d \<and> displays ob d"
  by (auto simp: fake_observe_def device_of_def displays_def Let_def split: option.splits)

lemma set_time_left_op:
  "p \<noteq> NOOP \<Longrightarrow> set_time_left (op_value p) s d = Inr (apply_op p s d)"
  by (cases p) (simp_all add: apply_op_def set_time_left_def)

text \<open>On a user whose daemon shows the observation, applying convergence is \<open>converge\<close>.\<close>

lemma convergence_on_device:
  assumes "device_of u e = Some d" "displays ob d"
  shows "device_of u (snd (apply_convergence (fake_ops wday) u ob tg force False us e))
    = Some (converge d tg (ust_applied_offset_s us) force default_config)"
proof -
  have ob: "\<lparr>obs_balance_s = uo_balance_s ob, obs_spent_local_s = uo_spent_day_s ob,
      obs_limit_today_s = uo_limit_today_s ob\<rparr> = observe_daemon d"
    using assms(2) by (simp add: displays_def observe_daemon_def)
  let ?p = "plan (observe_daemon d) tg (ust_applied_offset_s us) force default_config"
  show ?thesis
  proof (cases "plan_op ?p = NOOP")
    case True
    then show ?thesis using assms(1) by (simp add: apply_convergence_def ob converge_def Let_def apply_op_simps)
  next
    case False
    then show ?thesis using assms(1)
      by (simp add: apply_convergence_def ob converge_def Let_def fake_ops_def device_of_def set_time_left_op)
  qed
qed

lemma default_deadband [simp]: "deadband_s default_config = 5"
  by (simp add: default_config_def)

lemma answer_converges:
  assumes "sr_enforcement resp = ENFORCE \<and> sr_policy resp = None"
    and "device_of u e = Some d \<and> displays (en_obs en) d"
    and "reachable_target d (target_of resp)"
    and "answer_user (fake_ops wday) now u en resp us e = Inr (us', e')"
  shows "\<exists>d'. device_of u e' = Some d' \<and>
    \<bar>time_left d' - (sr_effective_limit_today_s resp - sr_global_spent_s resp)\<bar> \<le> 5 \<and>
    ust_last_global_spent_s us' = sr_global_spent_s resp \<and>
    ust_last_effective_limit_today_s us' = sr_effective_limit_today_s resp \<and>
    ust_last_hub_contact_utc us' = now \<and> ust_cum_local_at_contact_s us' = ust_cum_local_s us' \<and>
    ust_pending_spans us' = []"
proof -
  let ?us = "(remember_contact now en resp us)\<lparr>ust_last_enforcement := ''enforce''\<rparr>"
  have res: "(us', e') = apply_convergence (fake_ops wday) u (en_obs en) (target_of resp) (en_force en) False ?us e"
    using assms(1,4) by (simp add: answer_user_def apply_pushed_policy_def Let_def)
  then have e': "device_of u e' = Some (converge d (target_of resp) (ust_applied_offset_s ?us) (en_force en) default_config)"
    using convergence_on_device [of u e d "en_obs en"] assms(2) by (metis snd_conv)
  have us': "us' = fst (apply_convergence (fake_ops wday) u (en_obs en) (target_of resp) (en_force en) False ?us e)"
    using res by (metis fst_conv)
  have "reachable_target d (target_of resp)" using assms(3) .
  note tl = converge_time_left [of default_config d "target_of resp" "ust_applied_offset_s ?us" "en_force en",
      OF _ this]
  have "ust_last_global_spent_s us' = sr_global_spent_s resp"
    "ust_last_effective_limit_today_s us' = sr_effective_limit_today_s resp"
    "ust_last_hub_contact_utc us' = now" "ust_cum_local_at_contact_s us' = ust_cum_local_s us'"
    "ust_pending_spans us' = []"
    unfolding us' by (simp_all add: remember_contact_def)
  then show ?thesis using e' tl by (simp add: target_of_def)
qed

text \<open>
  An enforcing answer is enforced within the same tick: for a user whose response carries no
  policy change, the time left on the device afterwards is the hub's effective limit minus its
  global spent, exactly when a write was needed and within five seconds otherwise; the state
  remembers the answer for an outage, with an empty span buffer.
\<close>

theorem enforced_answer_converges:
  assumes "sr_enforcement resp = ENFORCE \<and> sr_policy resp = None"
    and "device_of u e = Some d \<and> displays (en_obs en) d"
    and "reachable_target d (target_of resp)"
    and "answer_user (fake_ops wday) now u en resp us e = Inr (us', e')"
  shows "\<exists>d'. device_of u e' = Some d' \<and>
    \<bar>time_left d' - (sr_effective_limit_today_s resp - sr_global_spent_s resp)\<bar> \<le> 5 \<and>
    ust_last_global_spent_s us' = sr_global_spent_s resp \<and>
    ust_last_effective_limit_today_s us' = sr_effective_limit_today_s resp \<and>
    ust_last_hub_contact_utc us' = now \<and> ust_cum_local_at_contact_s us' = ust_cum_local_s us' \<and>
    ust_pending_spans us' = []"
  by (rule answer_converges [OF assms])

text \<open>
  C36. The offline policy does what its name says once the grace is over: \<open>open\<close> writes nothing,
  \<open>closed\<close> leaves no time (up to the deadband), and \<open>capped\<close> leaves what remains of the smaller of
  the last effective limit and the last global spent plus the cap, after charging everything used
  locally since the last contact. Within the grace nothing is written.
\<close>

theorem offline_policy_effect:
  assumes "device_of u e = Some d \<and> displays ob d"
    and "reachable_target d \<lparr>tgt_limit_today_s = min L (G + cap), tgt_global_spent_s = G + local\<rparr>"
    and "L = ust_last_effective_limit_today_s us \<and> G = ust_last_global_spent_s us \<and>
      local = max (ust_cum_local_s us - ust_cum_local_at_contact_s us) 0"
    and "\<bar>fd_limit_today_s d\<bar> \<le> TK_LIMIT_PER_DAY"
  shows "(case apply_offline_policy (fake_ops wday) u ob pol grace cap now us e of (us', e') \<Rightarrow>
    (if pol = ''open'' \<or> (0 \<le> now - ust_last_hub_contact_utc us \<and>
        now - ust_last_hub_contact_utc us < grace * usec_per_sec)
     then us' = us \<and> e' = e
     else if pol = ''capped'' then
       (\<exists>d'. device_of u e' = Some d' \<and> \<bar>time_left d' - (min L (G + cap) - (G + local))\<bar> \<le> 5)
     else if pol = ''closed'' then (\<exists>d'. device_of u e' = Some d' \<and> \<bar>time_left d'\<bar> \<le> 5)
     else us' = us \<and> e' = e))"
proof -
  define tg where "tg = \<lparr>tgt_limit_today_s = min L (G + cap), tgt_global_spent_s = G + local\<rparr>"
  define tc where "tc = \<lparr>tgt_limit_today_s = uo_limit_today_s ob, tgt_global_spent_s = uo_limit_today_s ob\<rparr>"
  have closed: "reachable_target d tc"
    using assms(1,4) by (simp add: reachable_target_def tc_def displays_def)
  have conv: "\<exists>d'. device_of u (snd (apply_convergence (fake_ops wday) u ob t False False us e)) = Some d' \<and>
      \<bar>time_left d' - (tgt_limit_today_s t - tgt_global_spent_s t)\<bar> \<le> 5" if "reachable_target d t" for t
    using convergence_on_device [of u e d ob wday t False us] assms(1)
      converge_time_left [of default_config d t "ust_applied_offset_s us" False] that by simp
  show ?thesis
    using conv [OF assms(2)] conv [OF closed] assms(3)
    by (simp add: apply_offline_policy_def Let_def tc_def case_prod_beta)
qed



text \<open>A run of ticks of one user that all reach the hub: clock, canonical day, observation, answer.\<close>

type_synonym synced_tick = "instant \<times> string \<times> user_observation \<times> sync_user_response"

fun synced_spans :: "synced_tick list \<Rightarrow> user_state \<Rightarrow> active_span list" where
  "synced_spans [] us = []"
| "synced_spans ((now, today, ob, resp) # ts) us =
     (case advance_user today ob us of (us, force, burned) \<Rightarrow>
        let span = tick_span now ob burned us;
            us = remember_contact now \<lparr>en_obs = ob, en_force = force, en_span = span\<rparr> resp us
        in (case span of None \<Rightarrow> [] | Some s \<Rightarrow> [s]) @ synced_spans ts us)"

lemma synced_spans_after:
  assumes "sorted_wrt (\<lambda>a b. fst a < fst b) ts" "\<forall>t \<in> set ts. 0 < fst t \<and> ust_last_tick_utc us < fst t"
    and "0 \<le> ust_last_tick_utc us" "s \<in> set (synced_spans ts us)"
  shows "(ust_last_tick_utc us \<noteq> 0 \<longrightarrow> ust_last_tick_utc us \<le> as_start s) \<and> as_start s < as_end s \<and>
    as_end s - as_start s \<le> as_burned_s s * usec_per_sec"
  using assms
proof (induction ts us rule: synced_spans.induct)
  case (2 now today ob resp ts us)
  obtain us1 force burned where adv: "advance_user today ob us = (us1, force, burned)"
    by (cases "advance_user today ob us")
  then have tk: "ust_last_tick_utc us1 = ust_last_tick_utc us" and b: "0 \<le> burned"
    using advance_user_frame by blast+
  let ?span = "tick_span now ob burned us1"
  let ?us = "remember_contact now \<lparr>en_obs = ob, en_force = force, en_span = ?span\<rparr> resp us1"
  have now: "0 < now" "ust_last_tick_utc us < now" using "2.prems"(2) by auto
  have last: "ust_last_tick_utc ?us = (if ?span = None then ust_last_tick_utc us else now)"
    by (simp add: remember_contact_def tk)
  consider "?span = Some s" | "s \<in> set (synced_spans ts ?us)"
    using "2.prems"(4) adv by (auto simp: Let_def split: option.splits)
  then show ?case
  proof cases
    case 1
    then show ?thesis using now tk by (auto simp: tick_span_def Let_def max_def split: if_splits)
  next
    case 2
    have "\<forall>t \<in> set ts. 0 < fst t \<and> ust_last_tick_utc ?us < fst t" "0 \<le> ust_last_tick_utc ?us"
      using "2.prems"(1-3) now last by (auto split: if_splits)
    with "2.IH" [OF adv [symmetric] refl refl refl] "2.prems"(1) 2
    have "(ust_last_tick_utc ?us \<noteq> 0 \<longrightarrow> ust_last_tick_utc ?us \<le> as_start s) \<and> as_start s < as_end s \<and>
        as_end s - as_start s \<le> as_burned_s s * usec_per_sec" by simp
    then show ?thesis using last now by (auto split: if_splits)
  qed
qed simp

text \<open>
  C38. Ticks that reach the hub never charge a moment twice: over any run of synced ticks with an
  advancing clock the spans are non-empty, in order and disjoint, and none is longer than the
  seconds it says were burned.
\<close>

theorem synced_spans_disjoint:
  assumes "sorted_wrt (\<lambda>a b. fst a < fst b) ts"
    and "\<forall>t \<in> set ts. 0 < fst t \<and> ust_last_tick_utc us < fst t" "0 \<le> ust_last_tick_utc us"
  shows "sorted_wrt (\<lambda>a b. as_end a \<le> as_start b) (synced_spans ts us) \<and>
    list_all (\<lambda>s. as_start s < as_end s \<and> as_end s - as_start s \<le> as_burned_s s * usec_per_sec)
      (synced_spans ts us)"
proof
  show "list_all (\<lambda>s. as_start s < as_end s \<and> as_end s - as_start s \<le> as_burned_s s * usec_per_sec)
      (synced_spans ts us)"
    using synced_spans_after [OF assms] by (simp add: list_all_iff)
  show "sorted_wrt (\<lambda>a b. as_end a \<le> as_start b) (synced_spans ts us)"
    using assms
  proof (induction ts us rule: synced_spans.induct)
    case (2 now today ob resp ts us)
    obtain us1 force burned where adv: "advance_user today ob us = (us1, force, burned)"
      by (cases "advance_user today ob us")
    then have tk: "ust_last_tick_utc us1 = ust_last_tick_utc us" using advance_user_frame by blast
    let ?span = "tick_span now ob burned us1"
    let ?us = "remember_contact now \<lparr>en_obs = ob, en_force = force, en_span = ?span\<rparr> resp us1"
    have last: "ust_last_tick_utc ?us = (if ?span = None then ust_last_tick_utc us else now)"
      by (simp add: remember_contact_def tk)
    have ts: "sorted_wrt (\<lambda>a b. fst a < fst b) ts" "\<forall>t \<in> set ts. 0 < fst t \<and> ust_last_tick_utc ?us < fst t"
      "0 \<le> ust_last_tick_utc ?us"
      using "2.prems" last by (auto split: if_splits)
    have IH: "sorted_wrt (\<lambda>a b. as_end a \<le> as_start b) (synced_spans ts ?us)"
      using "2.IH" [OF adv [symmetric] refl refl refl] ts by simp
    have "as_end s = now" if "?span = Some s" for s using that by (auto simp: tick_span_def Let_def split: if_splits)
    moreover have "now \<le> as_start b" if "?span \<noteq> None" "b \<in> set (synced_spans ts ?us)" for b
      using synced_spans_after [OF ts that(2)] that(1) last "2.prems"(2) by auto
    ultimately show ?case using IH adv by (auto simp: Let_def split: option.splits)
  qed simp
qed

text \<open>
  A finding: after a canonical midnight during an outage the offline policy refunds. The
  rollover restarts the day's counter but not the mark of the last contact, so until the counter
  has passed that mark the capped policy does the same whatever was used in the new day, with
  yesterday's global spent, although its contract is never to refund local use.
\<close>

theorem offline_midnight_refunds:
  assumes "advance_user today ob us = (us1, True, burned)" "ust_day us \<noteq> ''''"
    and "0 \<le> used1 \<and> used1 \<le> ust_cum_local_at_contact_s us" "0 \<le> used2 \<and> used2 \<le> ust_cum_local_at_contact_s us"
  shows "snd (apply_offline_policy ops u ob2 pol grace cap now (us1\<lparr>ust_cum_local_s := used1\<rparr>) e) =
    snd (apply_offline_policy ops u ob2 pol grace cap now (us1\<lparr>ust_cum_local_s := used2\<rparr>) e) \<and>
    ust_cum_local_s us1 = 0 \<and> ust_last_global_spent_s us1 = ust_last_global_spent_s us"
proof -
  have "ust_cum_local_s us1 = 0"
    using assms(1,2) by (auto simp: advance_user_def Let_def reset_for_new_canonical_day_def split: if_splits)
  moreover have f: "ust_cum_local_at_contact_s us1 = ust_cum_local_at_contact_s us"
    "ust_last_global_spent_s us1 = ust_last_global_spent_s us"
    using advance_user_frame [OF assms(1)] by simp_all
  moreover have "max (used1 - ust_cum_local_at_contact_s us) 0 = 0" "max (used2 - ust_cum_local_at_contact_s us) 0 = 0"
    using assms(3,4) by simp_all
  ultimately show ?thesis
    by (simp add: apply_offline_policy_def apply_convergence_def Let_def)
qed

subsection \<open>The properties at concrete inputs\<close>

definition sample_now :: instant where
  "sample_now = 1700000000 * usec_per_sec"

definition sample_daemon :: fake_daemon where
  "sample_daemon = fresh_daemon\<lparr>fd_limit_today_s := 7200, fd_balance_s := 600, fd_spent_day_s := 600\<rparr>"

definition sample_device :: fake_enforcer where
  "sample_device = new_fake [(''kid'', sample_daemon)]"

definition sample_obs :: user_observation where
  "sample_obs = \<lparr>uo_balance_s = 600, uo_spent_day_s = 600, uo_limit_today_s = 7200,
     uo_logged_in = True, uo_active = True\<rparr>"

definition sample_response :: "enforcement_mode \<Rightarrow> policy_payload option \<Rightarrow> sync_user_response" where
  "sample_response mode policy = \<lparr>sr_username = ''kid'', sr_global_spent_s = 2400, sr_effective_limit_today_s = 5400,
     sr_effective_week_limit_s = 36000, sr_effective_month_limit_s = 120000, sr_enforcement = mode,
     sr_policy_version = 3, sr_policy_revision = ''3-ab'', sr_policy = policy, sr_offline_policy = CAPPED,
     sr_offline_grace_s = 900, sr_offline_cap_s = 1800\<rparr>"

definition no_zone :: "string \<Rightarrow> tz option" where
  "no_zone = (\<lambda>_. None)"

lemma sample_day: "\<exists>today. canonical_day_str no_zone sample_now ''UTC'' = Inr today"
proof -
  have "sample_now div (86400 * usec_per_sec) = 19675" by (simp add: sample_now_def)
  then obtain loc where "local_date utc sample_now = Inr loc"
    by (simp add: local_date_def utc_def epoch_ordinal_def max_ordinal_def days_before_year_def)
  then show ?thesis
    by (cases "isocalendar loc") (simp add: canonical_day_str_def no_zone_def canonical_stamp_def)
qed

definition sample_user :: "string \<Rightarrow> user_state" where
  "sample_user today = new_user_state\<lparr>ust_day := today, ust_cum_local_s := 600, ust_raw_prev_s := 600\<rparr>"

definition sample_span :: active_span where
  "sample_span = \<lparr>as_start = sample_now - 600 * usec_per_sec, as_end = sample_now, as_burned_s = 600\<rparr>"

lemma sample_advance: "advance_user today sample_obs new_user_state = (sample_user today, True, 600)"
  by (simp add: advance_user_def new_user_state_def sample_obs_def sample_user_def)

lemma sample_loop:
  "observe_users (fake_ops 1) today sample_now [''kid''] (sample_device, new_agent_state, [], [])
     = Inr (sample_device, set_state_user ''kid'' (sample_user today) new_agent_state,
            [(''kid'', \<lparr>en_obs = sample_obs, en_force = True, en_span = Some sample_span\<rparr>)],
            [user_request ''kid'' sample_obs 600 (Some sample_span) (sample_user today)])"
proof -
  have "fake_observe 1 ''kid'' sample_device = Inr (Some sample_obs, sample_device)"
    by (simp add: fake_observe_def sample_device_def new_fake_def dict_get_def sample_daemon_def
        fresh_daemon_def sample_obs_def)
  moreover have "state_user ''kid'' new_agent_state = new_user_state"
    by (simp add: state_user_def new_agent_state_def dict_get_or_def dict_get_def)
  moreover have "tick_span sample_now sample_obs 600 (sample_user today) = Some sample_span"
    by (simp add: tick_span_def sample_obs_def sample_user_def new_user_state_def sample_span_def)
  ultimately show ?thesis by (simp add: fake_ops_def sample_advance Let_def)
qed

theorem no_writes_without_enforcement_witness:
  "\<exists>ms st'. run_tick (fake_ops 1) (\<lambda>_ h. (DeviceRevoked, h)) no_zone [''kid''] ''0.1.2'' ''UTC'' sample_now 20000
      (new_agent_state, sample_device, ()) = Inr (ms, st', sample_device, ()) \<and>
    ust_applied_offset_s (state_user ''kid'' st') = 0"
proof -
  obtain today where today: "canonical_day_str no_zone sample_now
      (if ag_hub_tz new_agent_state \<noteq> '''' then ag_hub_tz new_agent_state else ''UTC'') = Inr today"
    using sample_day by (auto simp: new_agent_state_def)
  obtain ms st' e' where run: "run_tick (fake_ops 1) (\<lambda>_ h. (DeviceRevoked, h)) no_zone [''kid''] ''0.1.2'' ''UTC''
      sample_now 20000 (new_agent_state, sample_device, ()) = Inr (ms, st', e', ())"
    using run_tick_cases(1) [OF today sample_loop, of "\<lambda>_ h. (DeviceRevoked, h)" "''0.1.2''" "()" "()" 20000] by simp
  have "e' = sample_device \<and> ust_applied_offset_s (state_user ''kid'' st') = ust_applied_offset_s (state_user ''kid'' new_agent_state)"
    using no_writes_without_enforcement [OF run conjI [OF today sample_loop], of "''kid''"] by simp
  then show ?thesis
    using run by (simp add: state_user_def new_agent_state_def dict_get_or_def dict_get_def new_user_state_def)
qed


lemma sample_displays: "device_of ''kid'' sample_device = Some sample_daemon \<and> displays sample_obs sample_daemon"
  by (simp add: device_of_def sample_device_def new_fake_def dict_get_def displays_def sample_obs_def
      sample_daemon_def fresh_daemon_def)

theorem enforced_answer_converges_witness:
  "\<exists>d' us' e'. answer_user (fake_ops 1) sample_now ''kid'' \<lparr>en_obs = sample_obs, en_force = True, en_span = None\<rparr>
      (sample_response ENFORCE None) new_user_state sample_device = Inr (us', e') \<and>
    device_of ''kid'' e' = Some d' \<and> \<bar>time_left d' - 3000\<bar> \<le> 5"
proof -
  let ?en = "\<lparr>en_obs = sample_obs, en_force = True, en_span = None\<rparr>"
  have "\<exists>x. answer_user (fake_ops 1) sample_now ''kid'' ?en (sample_response ENFORCE None)
      new_user_state sample_device = Inr x"
    by (simp add: answer_user_def sample_response_def apply_pushed_policy_def Let_def)
  then obtain us' e' where a: "answer_user (fake_ops 1) sample_now ''kid'' ?en (sample_response ENFORCE None)
      new_user_state sample_device = Inr (us', e')"
    by (metis surj_pair)
  have "sr_enforcement (sample_response ENFORCE None) = ENFORCE \<and> sr_policy (sample_response ENFORCE None) = None"
    "device_of ''kid'' sample_device = Some sample_daemon \<and> displays (en_obs ?en) sample_daemon"
    "reachable_target sample_daemon (target_of (sample_response ENFORCE None))"
    using sample_displays
    by (simp_all add: sample_response_def reachable_target_def target_of_def sample_daemon_def TK_LIMIT_PER_DAY_def)
  from enforced_answer_converges [OF this a] show ?thesis
    using a by (auto simp: sample_response_def)
qed

theorem offline_policy_effect_witness:
  "case apply_offline_policy (fake_ops 1) ''kid'' sample_obs ''capped'' 900 1800 sample_now
      (new_user_state\<lparr>ust_last_effective_limit_today_s := 5400, ust_last_global_spent_s := 2400,
         ust_cum_local_s := 900, ust_cum_local_at_contact_s := 600\<rparr>) sample_device of
    (us', e') \<Rightarrow> \<exists>d'. device_of ''kid'' e' = Some d' \<and> \<bar>time_left d' - 1500\<bar> \<le> 5"
proof -
  define us where "us = new_user_state\<lparr>ust_last_effective_limit_today_s := 5400, ust_last_global_spent_s := 2400,
         ust_cum_local_s := 900, ust_cum_local_at_contact_s := 600\<rparr>"
  have r: "reachable_target sample_daemon \<lparr>tgt_limit_today_s = min 5400 (2400 + 1800), tgt_global_spent_s = 2400 + 300\<rparr>"
    and l: "\<bar>fd_limit_today_s sample_daemon\<bar> \<le> TK_LIMIT_PER_DAY"
    by (simp_all add: reachable_target_def sample_daemon_def TK_LIMIT_PER_DAY_def)
  have f: "5400 = ust_last_effective_limit_today_s us \<and> 2400 = ust_last_global_spent_s us \<and>
      300 = max (ust_cum_local_s us - ust_cum_local_at_contact_s us) 0"
    by (simp add: us_def)
  have g: "\<not> (sample_now - ust_last_hub_contact_utc us < 900 * usec_per_sec)"
    by (simp add: us_def new_user_state_def sample_now_def)
  show ?thesis
    using offline_policy_effect [OF sample_displays r f l, where wday = 1 and pol = "''capped''" and grace = 900
        and now = sample_now] g
    unfolding us_def [symmetric] by simp
qed



theorem synced_spans_disjoint_witness:
  "sorted_wrt (\<lambda>a b. as_end a \<le> as_start b)
    (synced_spans [(sample_now, ''d'', sample_obs, sample_response ENFORCE None),
       (sample_now + 20 * usec_per_sec, ''d'', sample_obs\<lparr>uo_spent_day_s := 640\<rparr>, sample_response ENFORCE None)]
      new_user_state)"
  by (rule synced_spans_disjoint [THEN conjunct1]) (simp_all add: sample_now_def new_user_state_def)

theorem offline_midnight_refunds_witness:
  "\<exists>us1. snd (apply_offline_policy (fake_ops 1) ''kid'' sample_obs ''capped'' 900 1800 sample_now
        (us1\<lparr>ust_cum_local_s := 0\<rparr>) sample_device) =
      snd (apply_offline_policy (fake_ops 1) ''kid'' sample_obs ''capped'' 900 1800 sample_now
        (us1\<lparr>ust_cum_local_s := 3000\<rparr>) sample_device) \<and>
    ust_last_global_spent_s us1 = 3600"
proof -
  let ?us = "new_user_state\<lparr>ust_day := ''2026-01-01'', ust_cum_local_at_contact_s := 3600, ust_last_global_spent_s := 3600\<rparr>"
  obtain us1 burned where "advance_user ''2026-01-02'' sample_obs ?us = (us1, True, burned)"
    by (simp add: advance_user_def Let_def)
  from offline_midnight_refunds [OF this, of 0 3000 "fake_ops 1" "''kid''" sample_obs "''capped''" 900 1800
      sample_now sample_device]
  show ?thesis by auto
qed

text \<open>
  A finding: the push writes the daily limits positionally for the allowed weekdays only, but
  the observation reads the list at today's weekday number. With fewer allowed weekdays than
  today's number the real enforcer raises IndexError, which ends the agent, where the test fake
  (which looks the position up among the allowed weekdays) answers.
\<close>

theorem observation_is_not_positional:
  assumes "project_daily_limits daily days = Inr ls" "int (length days) < today"
    and "te_connected e \<and> admin_config c u (te_device e) = Some info \<and> ti_limits_per_weekdays info = Some ls \<and>
      ti_spent_balance info \<noteq> None \<and> ti_spent_day info \<noteq> None \<and> ti_actual_spent_day info = None"
    and "device_of u f = Some d \<and> dict_get (fe_daily_limits f) u = Some ls \<and>
      dict_get (fe_allowed_weekdays f) u = Some days"
  shows "te_get_user_observation c today u e = Inl IndexError \<and>
    (\<exists>ob f'. fake_observe today u f = Inr (Some ob, f'))"
proof
  have "length ls = length days"
    using assms(1) by (auto simp: project_daily_limits_def rsequence_Inr_iff dest: map_eq_imp_length_eq)
  then have "observation_of_info today info = Inl IndexError"
    using assms(2,3) by (intro observation_short_list) auto
  then show "te_get_user_observation c today u e = Inl IndexError"
    using assms(3) by (simp add: te_get_user_observation_def te_unavailable_def)
  show "\<exists>ob f'. fake_observe today u f = Inr (Some ob, f')"
    using assms(4) by (simp add: fake_observe_def device_of_def Let_def)
qed

definition sample_info :: timekpr_info where
  "sample_info = \<lparr>ti_actual_spent_balance = None, ti_actual_spent_day = None, ti_spent_balance = Some 0,
     ti_spent_day = Some 0, ti_limits_per_weekdays = Some [3600, 5400], ti_limit_per_week = Some 36000,
     ti_limit_per_month = Some 120000, ti_track_inactive = None, ti_hide_tray_icon = None, ti_lockout_type = None,
     ti_wakeup_hour_interval = None, ti_allowed_weekdays = Some [''1'', ''5''], ti_allowed_hours = [],
     ti_playtime_enabled = None, ti_playtime_limit_override = None, ti_playtime_unaccounted = None,
     ti_playtime_allowed_weekdays = None, ti_playtime_limits = None, ti_playtime_activities = None\<rparr>"

theorem observation_is_not_positional_witness:
  "te_get_user_observation \<lparr>init_connection = (\<lambda>d. (True, d)), admin_config = (\<lambda>_ _. Some sample_info),
      admin_call = (\<lambda>_ _ d. (0, d)), admin_users = (\<lambda>_. None)\<rparr> 5 ''kid''
      \<lparr>te_connected = True, te_device = ()\<rparr> = Inl IndexError"
proof -
  let ?c = "\<lparr>init_connection = (\<lambda>d. (True, d)), admin_config = (\<lambda>_ _. Some sample_info),
      admin_call = (\<lambda>_ _ d. (0, d)), admin_users = (\<lambda>_. None)\<rparr>"
  let ?f = "sample_device\<lparr>fe_daily_limits := [(''kid'', [3600, 5400])], fe_allowed_weekdays := [(''kid'', [''1'', ''5''])]\<rparr>"
  have "project_daily_limits [3600, 3600, 3600, 3600, 5400, 7200, 7200] [''1'', ''5''] = Inr [3600, 5400]"
    by (simp add: project_daily_limits_def py_int_def py_strip_def is_blank_def digit_value_def)
  moreover have "int (length [''1'', ''5'']) < 5" by simp
  moreover have "te_connected \<lparr>te_connected = True, te_device = ()\<rparr> \<and>
      admin_config ?c ''kid'' (te_device \<lparr>te_connected = True, te_device = ()\<rparr>) = Some sample_info \<and>
      ti_limits_per_weekdays sample_info = Some [3600, 5400] \<and>
      ti_spent_balance sample_info \<noteq> None \<and> ti_spent_day sample_info \<noteq> None \<and> ti_actual_spent_day sample_info = None"
    by (simp add: sample_info_def)
  moreover have "device_of ''kid'' ?f = Some sample_daemon \<and>
      dict_get (fe_daily_limits ?f) ''kid'' = Some [3600, 5400] \<and>
      dict_get (fe_allowed_weekdays ?f) ''kid'' = Some [''1'', ''5'']"
    using sample_displays by (simp add: device_of_def dict_get_def)
  ultimately show ?thesis using observation_is_not_positional by blast
qed

end
