(* ===== verification/Agent_Pool.thy ===== *)
theory Agent_Pool
  imports Agent_Hub Device_Tick
begin

section \<open>Pooled time on the device\<close>

text \<open>
  The tick of \<open>agent/timekpr_hub_agent/tick.py\<close> against the hub's \<open>POST /sync\<close>, over the HTTP client of
  \<open>hubclient.py\<close> and on the simulated device: the time a user has left on the device after a tick is what
  the hub's database leaves the user of all devices together.
\<close>

subsection \<open>An answered sync\<close>

lemma sync_post_answered:
  assumes "sync_post (hub_ops he now rnd base) c (Sync_Payload q) m = (Inr (s, j), m')"
  shows "(m' = m \<and> j = Detail) \<or> (\<exists>t a. j = Sync_Json a \<and> \<not> auth_status s \<and>
    sync_endpoint (he_agg he) (he_digest he) (he_hash he) (he_cfg he) now t q (ah_db m) = Inr (a, ah_db m'))"
  using assms
  by (auto simp: sync_post_def post_def hub_ops_def hub_answers_def answer_with_def post_reply_def auth_status_def
      split: sum.splits prod.splits if_splits)

lemma client_sync_answered:
  assumes "client_sync (hub_ops he now rnd base) (Sync_Payload q) c m = (Answer (Sync_Json a), c', m')"
  shows "\<exists>t. sync_endpoint (he_agg he) (he_digest he) (he_hash he) (he_cfg he) now t q (ah_db m) = Inr (a, ah_db m')"
proof -
  let ?ops = "hub_ops he now rnd base"
  obtain s j m1 where p1: "sync_post ?ops c (Sync_Payload q) m = (Inr (s, j), m1)"
    using assms by (auto simp: client_sync_def split: prod.splits sum.splits)
  have conv: "sync_verdict (s, j) = Answer x \<Longrightarrow> j = x" for s and j x :: hub_json
    by (auto simp: sync_verdict_def split: if_splits)
  show ?thesis
  proof (cases "auth_status s")
    case False
    then have "j = Sync_Json a" "m1 = m'" using assms p1 conv by (auto simp: client_sync_def)
    then show ?thesis using sync_post_answered [OF p1] by auto
  next
    case True
    then have m1: "m1 = m" using sync_post_answered [OF p1] by auto
    then obtain c2 s2 j2 where "sync_post ?ops c2 (Sync_Payload q) m = (Inr (s2, j2), m')" "sync_verdict (s2, j2) = Answer (Sync_Json a)"
      using assms p1 True
      by (auto simp: client_sync_def Let_def split: prod.splits sum.splits if_splits)
    then show ?thesis using sync_post_answered conv by fastforce
  qed
qed

lemma tick_sync_answered:
  assumes "tick_sync (hub_ops he now rnd base) sync_answer_of Sync_Payload q (c, m) = (Synced a, c', m')"
  shows "\<exists>t. sync_endpoint (he_agg he) (he_digest he) (he_hash he) (he_cfg he) now t q (ah_db m) = Inr (a, ah_db m')"
  using assms client_sync_answered
  by (auto simp: tick_sync_def sync_answer_of_def split: prod.splits sync_end.splits option.splits hub_json.splits)

text \<open>A sync of one entry: its answer is current in the database it commits.\<close>

lemma answer_username: "answer_for agg digest device day q u p d = Inr r \<Longrightarrow> sr_username r = sq_username q"
  by (auto simp: answer_for_def Let_def rbind_Inr_iff)

lemma one_entry_sync:
  assumes "hub_ok d" "sync_endpoint agg digest hash cfg now t q d = Inr (resp, d')" "sreq_users q = [x]"
  shows "\<exists>dev stamp u p al r. canonical_stamp (Aware now) (hub_zone cfg) = Inr stamp \<and> sres_users resp = [r] \<and>
    sr_username r = sq_username x \<and> settled (dev_id dev) (sq_username x) u p al d' \<and>
    get_current_device hash t d = Inr dev \<and>
    sr_global_spent_s r = spent_today agg u (st_day stamp) d' \<and>
    effective_daily_limit p u (st_day stamp) d' = Inr (sr_effective_limit_today_s r)"
proof -
  obtain v stamp d1 rs where v: "get_current_device hash t d = Inr v"
    and stamp: "canonical_stamp (Aware now) (hub_zone cfg) = Inr stamp"
    and 1: "record_check_in now q (dev_id v) d = Inr d1"
    and 2: "sync_users agg digest now (st_day stamp) v (sreq_users q) ([], d1) = Inr (rs, d')" and rs: "sres_users resp = rs"
    using sync_endpoint_Inr [OF assms(2)] by blast
  obtain r where r: "sync_user agg digest now (st_day stamp) v x d1 = Inr (r, d')" "rs = [r]"
    using 2 assms(3) by (auto simp: rbind_Inr_iff)
  have "sr_username r = sq_username x" using r(1) answer_username by (auto simp: sync_user_Inr)
  then show ?thesis
    using sync_user_current [OF record_check_in_ok(1) [OF assms(1) 1] r(1)] v stamp rs r(2) by blast
qed

subsection \<open>From the hub's database to the device\<close>

lemma one_observed:
  assumes "observe_users (fake_ops wday) today now [u] (e, st, [], []) = Inr (e1, st1, obs, reqs)" "device_of u e1 = Some d"
  shows "\<exists>en burned us. obs = [(u, en)] \<and> reqs = [user_request u (en_obs en) burned (en_span en) us] \<and>
    displays (en_obs en) d"
proof -
  obtain found e2 where f: "fake_observe wday u e = Inr (found, e2)"
    using assms(1) by (auto simp: rbind_Inr_iff fake_ops_def)
  show ?thesis
  proof (cases found)
    case None
    then have "device_of u e2 = None"
      using f by (auto simp: fake_observe_def device_of_def Let_def split: option.splits)
    then show ?thesis using assms f None by (simp add: fake_ops_def)
  next
    case (Some ob)
    obtain us force burned where a: "advance_user today ob (state_user u st) = (us, force, burned)"
      by (cases "advance_user today ob (state_user u st)")
    have r: "e1 = e2" "obs = [(u, \<lparr>en_obs = ob, en_force = force, en_span = tick_span now ob burned us\<rparr>)]"
      "reqs = [user_request u ob burned (tick_span now ob burned us) us]"
      using assms(1) f Some a by (auto simp: fake_ops_def Let_def)
    have "displays ob d" using fake_observe_shows [of wday u e ob e2] f Some assms(2) r(1) by auto
    then show ?thesis using r by auto
  qed
qed

lemma one_answered:
  assumes "answer_users (fake_ops wday) now [r] [(u, en)] (st, e) = Inr (st', e')" "sr_username r = u"
    and "sr_enforcement r = ENFORCE \<and> sr_policy r = None"
    and "device_of u e = Some d \<and> displays (en_obs en) d" "reachable_target d (target_of r)"
  shows "\<exists>d'. device_of u e' = Some d' \<and> \<bar>time_left d' - (sr_effective_limit_today_s r - sr_global_spent_s r)\<bar> \<le> 5"
proof -
  obtain us' where "answer_user (fake_ops wday) now u en r (state_user u st) e = Inr (us', e')"
    using assms(1,2) by (auto simp: response_for_def rbind_Inr_iff)
  from answer_converges [OF assms(3,4,5) this] show ?thesis by blast
qed


subsection \<open>An example\<close>

text \<open>
  Two machines enroll the same user; the first one is enforced, the second has synced 31 minutes of use
  when the first, which has seen 10 minutes, syncs.
\<close>

definition second_machine :: enroll_request where
  "second_machine = sample_enrollment\<lparr>enr_enrollment_code := ''CODE5678'', enr_hostname := ''laptop'', enr_machine_id := ''m2''\<rparr>"

definition two_machines :: "(call \<times> request) list" where
  "two_machines =
     [(sample_call None ''s1'', Public (Setup ''a@b'' ''password'')),
      (sample_call (Some ''s1'') ''code1234'', Devices Code_Api),
      (sample_call None ''dev1'', Public (Enroll_Request sample_enrollment)),
      (sample_call (Some ''s1'') '''', Devices (Enforce_Api 3)),
      (sample_call (Some ''s1'') ''code5678'', Devices Code_Api),
      (sample_call None ''dev2'', Public (Enroll_Request second_machine)),
      (sample_call None '''', Public (Sync_Request (Some ''tkh_dev2'') sample_sync))]"

definition first_device :: fake_enforcer where
  "first_device = new_fake [(''anna'', sample_daemon)]"

definition first_state :: agent_state where
  "first_state = set_state_user ''anna'' (new_user_state\<lparr>ust_policy_revision_applied := ''1-d''\<rparr>) new_agent_state"

definition first_client :: hub_client where
  "first_client = \<lparr>hc_base_url = ''http://hub'', hc_token = Some ''tkh_dev1''\<rparr>"

definition first_host :: "db \<Rightarrow> agent_host" where
  "first_host d = \<lparr>ah_db = d, ah_token = Token_Text ''tkh_dev1''\<rparr>"

abbreviation first_sync :: "sync_request \<Rightarrow> hub_client \<times> agent_host \<Rightarrow> sync_outcome \<times> hub_client \<times> agent_host" where
  "first_sync \<equiv> tick_sync (hub_ops sample_env sample_noon '''' ''http://hub'') sync_answer_of Sync_Payload"

abbreviation first_tick :: "db \<Rightarrow> (int \<times> agent_state \<times> fake_enforcer \<times> hub_client \<times> agent_host) result" where
  "first_tick d \<equiv> run_tick (fake_ops 1) first_sync no_zone [''anna''] ''1'' ''UTC'' sample_noon 20000
     (first_state, first_device, (first_client, first_host d))"

abbreviation first_seen :: "(fake_enforcer \<times> agent_state \<times> entries \<times> sync_user_request list) result" where
  "first_seen \<equiv> observe_users (fake_ops 1) ''2024-05-06'' sample_noon [''anna''] (first_device, first_state, [], [])"

definition first_answer_ok :: "db \<Rightarrow> bool" where
  "first_answer_ok d = (case first_seen of Inl _ \<Rightarrow> False
     | Inr (e1, st1, obs, reqs) \<Rightarrow> device_of ''anna'' e1 = Some sample_daemon \<and>
         (case first_sync (tick_request sample_noon ''1'' reqs) (first_client, first_host d) of
            (Synced resp, w) \<Rightarrow> sres_users resp \<noteq> [] \<and> list_all (\<lambda>r. sr_enforcement r = ENFORCE \<and> sr_policy r = None \<and>
              reachable_target sample_daemon (target_of r)) (sres_users resp) \<and>
              (case first_tick d of Inr _ \<Rightarrow> True | Inl _ \<Rightarrow> False)
          | _ \<Rightarrow> False))"

lemma two_machines_play: "\<exists>d. play sample_env two_machines empty_db = Inr d \<and> first_answer_ok d"
proof -
  have "case play sample_env two_machines empty_db of Inr d \<Rightarrow> first_answer_ok d | Inl _ \<Rightarrow> False"
    by code_simp
  then show ?thesis by (auto split: sum.splits)
qed

lemma first_day: "canonical_day_str no_zone sample_noon (if ag_hub_tz first_state \<noteq> '''' then ag_hub_tz first_state else ''UTC'')
    = Inr ''2024-05-06''"
  by code_simp


end
