(* ===== verification/Agent_Cli.thy ===== *)
theory Agent_Cli
  imports Hub_Client
begin

section \<open>The agent's command line\<close>

text \<open>
  Models \<open>agent/timekpr_hub_agent/cli.py\<close> with \<open>notify.py\<close> and \<open>timekpr_paths.py\<close>: the commands
  \<open>enroll\<close>, \<open>run\<close> and \<open>status\<close>. What a command line, a terminal, the file system and systemd bring
  along are fields of records; the options come as \<open>argparse\<close> has split them. What is printed is
  modelled where it reports an outcome, not as text.
\<close>

definition AGENT_VERSION :: string where
  "AGENT_VERSION = ''0.1.2''"

subsection \<open>Finding timekpr\<close>

definition ADMINISTRATION_PY :: string where
  "ADMINISTRATION_PY = ''/timekpr/client/interface/dbus/administration.py''"

text \<open>
  The fixed candidate, then the sorted matches of the glob; \<open>Inl RuntimeError\<close> is
  \<open>TimekprNotFoundError\<close>.
\<close>

definition find_timekpr_package_dir :: "(string \<Rightarrow> bool) \<Rightarrow> string list \<Rightarrow> string result" where
  "find_timekpr_package_dir is_file globbed =
     (case find (\<lambda>dir. is_file (dir @ ADMINISTRATION_PY)) (''/usr/lib/python3/dist-packages'' # globbed) of
        None \<Rightarrow> Inl RuntimeError | Some dir \<Rightarrow> Inr dir)"

definition ensure_timekpr_importable :: "(string \<Rightarrow> bool) \<Rightarrow> string list \<Rightarrow> string list \<Rightarrow> string list result" where
  "ensure_timekpr_importable is_file globbed sys_path =
     rbind (find_timekpr_package_dir is_file globbed) (\<lambda>dir.
       Inr (if dir \<in> set sys_path then sys_path else dir # sys_path))"

text \<open>
  A datagram to systemd's socket: the address and the message, or nothing without an address. A
  send that fails is ignored.
\<close>

definition sd_notify :: "string option \<Rightarrow> string \<Rightarrow> (string \<times> string) list \<Rightarrow> (string \<times> string) list" where
  "sd_notify addr message sent =
     (case str_or addr '''' of
        [] \<Rightarrow> sent
      | c # cs \<Rightarrow> sent @ [(if c = CHR ''@'' then CHR 0x00 # cs else c # cs, message)])"

subsection \<open>enroll\<close>

text \<open>How a command ends before its time: with a message and exit code 1, on the end of the input, or with a traceback.\<close>

datatype cli_end = Exit_Error | End_Of_Input | Crash exc

fun read_machine_id :: "string option list \<Rightarrow> string result" where
  "read_machine_id [] = Inl RuntimeError"
| "read_machine_id (None # files) = read_machine_id files"
| "read_machine_id (Some text # files) = Inr (py_strip text)"

definition ask :: "string list \<Rightarrow> cli_end + string \<times> string list" where
  "ask typed = (case typed of [] \<Rightarrow> Inl End_Of_Input
     | l # ls \<Rightarrow> if py_strip l = '''' then Inl Exit_Error else Inr (py_strip l, ls))"

definition prompt_or_die :: "bool \<Rightarrow> string option \<Rightarrow> string list \<Rightarrow> cli_end + string \<times> string list" where
  "prompt_or_die tty value typed =
     (if str_or value '''' \<noteq> '''' then Inr (str_or value '''', typed)
      else if \<not> tty then Inl Exit_Error else ask typed)"

definition split_users :: "string \<Rightarrow> username list" where
  "split_users s = filter (\<lambda>u. u \<noteq> '''') (map py_strip (split_at CHR '','' s))"

definition validate_users :: "'d connector \<Rightarrow> username list \<Rightarrow> 'd timekpr_enforcer
    \<Rightarrow> (cli_end + username list) \<times> 'd timekpr_enforcer" where
  "validate_users c requested e =
     (case te_get_user_list c e of (known, e) \<Rightarrow>
        (if known = [] then Inr requested
         else if filter (\<lambda>u. u \<notin> set known) requested \<noteq> [] then Inl Exit_Error
         else Inr requested, e))"

definition prompt_for_users :: "'d connector \<Rightarrow> string list \<Rightarrow> 'd timekpr_enforcer
    \<Rightarrow> (cli_end + string \<times> string list) \<times> 'd timekpr_enforcer" where
  "prompt_for_users c typed e =
     (case te_get_user_list c e of (known, e) \<Rightarrow> (if known = [] then Inl Exit_Error else ask typed, e))"

fun take_snapshots :: "'d connector \<Rightarrow> username list \<Rightarrow> (username, local_policy) dict \<Rightarrow> 'd timekpr_enforcer
    \<Rightarrow> ((username, local_policy) dict \<times> 'd timekpr_enforcer) result" where
  "take_snapshots c [] policies e = Inr (policies, e)"
| "take_snapshots c (u # us) policies e =
     rbind (te_get_user_policy_snapshot c u e) (\<lambda>(snapshot, e).
       take_snapshots c us (case snapshot of None \<Rightarrow> policies | Some p \<Rightarrow> dict_set policies u p) e)"

record enroll_args =
  ea_hub_url :: "string option"
  ea_ca_cert :: "string option"
  ea_code :: "string option"
  ea_users :: "string option"
  ea_tz :: string
  ea_hostname :: "string option"
  ea_machine_id :: "string option"
  ea_no_start :: bool

text \<open>What the machine and the person at it contribute to an enrollment.\<close>

record enroll_env =
  ee_found :: bool
  ee_tty :: bool
  ee_typed :: "string list"
  ee_hostname :: string
  ee_machine_ids :: "string option list"
  ee_ca_loads :: "string \<Rightarrow> bool"
  ee_env_writable :: bool
  ee_systemctl_ok :: bool

record enroll_inputs =
  ei_users :: "username list"
  ei_policies :: "(username, local_policy) dict"
  ei_hub_url :: string
  ei_code :: string

text \<open>Everything up to the first contact with the hub.\<close>

definition choose_users :: "enroll_env \<Rightarrow> 'd connector \<Rightarrow> string option \<Rightarrow> 'd timekpr_enforcer
    \<Rightarrow> (cli_end + string \<times> string list) \<times> 'd timekpr_enforcer" where
  "choose_users env c users e =
     (if str_or users '''' \<noteq> '''' then (Inr (str_or users '''', ee_typed env), e)
      else if \<not> ee_tty env then (Inl Exit_Error, e)
      else prompt_for_users c (ee_typed env) e)"

definition ask_hub :: "enroll_env \<Rightarrow> enroll_args \<Rightarrow> string list \<Rightarrow> cli_end + string \<times> string" where
  "ask_hub env args typed =
     rbind (prompt_or_die (ee_tty env) (ea_hub_url args) typed) (\<lambda>(hub_url_input, typed).
       case normalize_hub_url hub_url_input of
         Inl _ \<Rightarrow> Inl Exit_Error
       | Inr hub_url \<Rightarrow>
           rbind (prompt_or_die (ee_tty env) (ea_code args) typed) (\<lambda>(code, _). Inr (hub_url, code)))"

definition gather_inputs :: "enroll_env \<Rightarrow> 'd connector \<Rightarrow> enroll_args \<Rightarrow> 'd timekpr_enforcer
    \<Rightarrow> (cli_end + enroll_inputs) \<times> 'd timekpr_enforcer" where
  "gather_inputs env c args e =
     (if \<not> ee_found env then (Inl Exit_Error, e)
      else case te_connect c e of (timekprd_ok, e) \<Rightarrow>
        (case choose_users env c (ea_users args) e of
           (Inl x, e) \<Rightarrow> (Inl x, e)
         | (Inr (users_arg, typed), e) \<Rightarrow>
             (case (if timekprd_ok then validate_users c (split_users users_arg) e else (Inr (split_users users_arg), e)) of
                (Inl x, e) \<Rightarrow> (Inl x, e)
              | (Inr local_users, e) \<Rightarrow>
                  (case (if timekprd_ok then take_snapshots c local_users [] e else Inr ([], e)) of
                     Inl x \<Rightarrow> (Inl (Crash x), e)
                   | Inr (local_policies, e) \<Rightarrow>
                       (rbind (ask_hub env args typed) (\<lambda>(hub_url, code).
                          Inr \<lparr>ei_users = local_users, ei_policies = local_policies, ei_hub_url = hub_url, ei_code = code\<rparr>), e)))))"

text \<open>What the summary says of a user.\<close>

datatype enroll_note = Seeded_From_Device | Hub_Default | Joined

record enrollment =
  el_device :: uuid
  el_rebound :: bool
  el_notes :: "(username \<times> enroll_note \<times> seconds option) list"
  el_restarted :: "bool option"

definition user_note :: "enroll_inputs \<Rightarrow> enroll_response \<Rightarrow> username \<Rightarrow> (username \<times> enroll_note \<times> seconds option) result" where
  "user_note i r u =
     (let note = (if u \<in> set (ens_new_users r)
          then (if dict_get (ei_policies i) u \<noteq> None then Seeded_From_Device else Hub_Default) else Joined)
      in case dict_get (ens_policies r) u of
           None \<Rightarrow> Inr (u, note, None)
         | Some p \<Rightarrow> rbind (py_index (pp_daily_limits_s p) 0) (\<lambda>s. Inr (u, note, Some s)))"

text \<open>The summary, the configuration file and the service, once the hub has answered.\<close>

definition finish_enroll :: "enroll_env \<Rightarrow> enroll_args \<Rightarrow> enroll_inputs \<Rightarrow> enroll_response \<Rightarrow> file_text
    \<Rightarrow> (cli_end + enrollment) \<times> file_text" where
  "finish_enroll env args i r f =
     (case rsequence (map (user_note i r) (ei_users i)) of
        Inl x \<Rightarrow> (Inl (Crash x), f)
      | Inr notes \<Rightarrow>
          if \<not> ee_env_writable env then (Inl (Crash OSError), f)
          else (Inr \<lparr>el_device = ens_device_id r, el_rebound = ens_rebound r, el_notes = notes,
                     el_restarted = (if ea_no_start args then None else Some (ee_systemctl_ok env))\<rparr>,
                Text (write_env_file (ei_hub_url i) (join_on CHR '','' (ei_users i))
                        (str_or (Some (ens_hub_tz r)) (ea_tz args)) (ea_ca_cert args))))"

definition enroll_body :: "enroll_env \<Rightarrow> enroll_args \<Rightarrow> enroll_inputs \<Rightarrow> string \<Rightarrow> enroll_request" where
  "enroll_body env args i machine_id =
     \<lparr>enr_enrollment_code = ei_code i, enr_hostname = str_or (ea_hostname args) (ee_hostname env),
      enr_machine_id = machine_id, enr_agent_version = AGENT_VERSION,
      enr_local_users = ei_users i, enr_local_policies = ei_policies i\<rparr>"

definition contact_hub :: "enroll_env \<Rightarrow> (agent_payload, hub_json, 'h) host_ops \<Rightarrow> enroll_args \<Rightarrow> enroll_inputs \<Rightarrow> 'h
    \<Rightarrow> (cli_end + enroll_response) \<times> 'h" where
  "contact_hub env ops args i h =
     (case rbind (new_client (ee_ca_loads env) (ei_hub_url i) (ea_ca_cert args) (ho_token ops h)) (\<lambda>c.
           rbind (if str_or (ea_machine_id args) '''' \<noteq> '''' then Inr (str_or (ea_machine_id args) '''')
                  else read_machine_id (ee_machine_ids env)) (\<lambda>machine_id. Inr (c, machine_id))) of
        Inl x \<Rightarrow> (Inl (Crash x), h)
      | Inr (c, machine_id) \<Rightarrow>
          (case client_enroll ops device_token_of (Enroll_Payload (enroll_body env args i machine_id)) c h of
             (Inl (Enroll_Raised x), _, h) \<Rightarrow> (Inl (Crash x), h)
           | (Inl _, _, h) \<Rightarrow> (Inl Exit_Error, h)
           | (Inr (Enroll_Json r), _, h) \<Rightarrow> (Inr r, h)
           | (Inr _, _, h) \<Rightarrow> (Inl (Crash KeyError), h)))"

definition cmd_enroll :: "enroll_env \<Rightarrow> 'd connector \<Rightarrow> (agent_payload, hub_json, 'h) host_ops \<Rightarrow> enroll_args
    \<Rightarrow> 'd timekpr_enforcer \<times> 'h \<times> file_text \<Rightarrow> (cli_end + enrollment) \<times> 'd timekpr_enforcer \<times> 'h \<times> file_text" where
  "cmd_enroll env c ops args w =
     (case w of (e, h, f) \<Rightarrow>
        (case gather_inputs env c args e of
           (Inl x, e) \<Rightarrow> (Inl x, e, h, f)
         | (Inr i, e) \<Rightarrow>
             (case contact_hub env ops args i h of
                (Inl x, h) \<Rightarrow> (Inl x, e, h, f)
              | (Inr r, h) \<Rightarrow> (case finish_enroll env args i r f of (out, f) \<Rightarrow> (out, e, h, f)))))"

subsection \<open>run\<close>

record run_flags =
  rf_hub_url :: "string option"
  rf_ca_cert :: "string option"
  rf_users :: "string option"
  rf_tz :: "string option"
  rf_once :: bool

record run_args =
  ra_hub_url :: string
  ra_ca_cert :: "string option"
  ra_users :: string
  ra_tz :: string
  ra_once :: bool

definition flag_or :: "string option \<Rightarrow> string option \<Rightarrow> string option" where
  "flag_or given dflt = (case given of None \<Rightarrow> dflt | Some v \<Rightarrow> Some v)"

text \<open>The defaults of \<open>run\<close>'s options; None is \<open>argparse\<close>'s "the following arguments are required".\<close>

definition run_args_of :: "(string \<Rightarrow> string option) \<Rightarrow> (string, string) dict \<Rightarrow> run_flags \<Rightarrow> run_args option" where
  "run_args_of environ env_values flags =
     (case (flag_or (rf_hub_url flags) (env_default environ ''TIMEKPR_HUB_URL'' env_values),
            flag_or (rf_users flags) (env_default environ ''TIMEKPR_HUB_MANAGED_USERS'' env_values)) of
        (Some hub_url, Some users) \<Rightarrow>
          Some \<lparr>ra_hub_url = hub_url,
                ra_ca_cert = flag_or (rf_ca_cert flags) (env_default environ ''TIMEKPR_HUB_CA_CERT'' env_values),
                ra_users = users,
                ra_tz = (case rf_tz flags of Some z \<Rightarrow> z
                  | None \<Rightarrow> str_or (env_default environ ''TIMEKPR_HUB_TZ'' env_values) ''UTC''),
                ra_once = rf_once flags\<rparr>
      | _ \<Rightarrow> None)"

text \<open>
  What \<open>run\<close> works with: the enforcer at a time, the hub's client, the zones, the clock, and what
  else happens on the machine while the agent sleeps.
\<close>

record ('e, 'h) surroundings =
  su_ops :: "instant \<Rightarrow> 'e enforcer_ops"
  su_sync :: "sync_request \<Rightarrow> hub_client \<times> 'h \<Rightarrow> sync_outcome \<times> hub_client \<times> 'h"
  su_zone :: "string \<Rightarrow> tz option"
  su_now :: "'h \<Rightarrow> instant"
  su_pause :: "int \<Rightarrow> 'e \<times> 'h \<Rightarrow> 'e \<times> 'h"
  su_found :: "'h \<Rightarrow> bool"
  su_notify_socket :: "string option"

text \<open>The running service: the process' memory, its state file, and what it has told systemd and slept so far.\<close>

record ('e, 'h) service =
  sv_world :: "'e \<times> 'h"
  sv_client :: hub_client
  sv_agent :: agent_state
  sv_poll :: int
  sv_ready :: bool
  sv_file :: "json option"
  sv_sent :: "(string \<times> string) list"
  sv_slept :: "int list"

definition service_tick :: "('e, 'h) surroundings \<Rightarrow> run_args \<Rightarrow> ('e, 'h) service \<Rightarrow> ('e, 'h) service result" where
  "service_tick su a s =
     (case sv_world s of (e, h) \<Rightarrow>
        rbind (run_tick (su_ops su (su_now su h)) (su_sync su) (su_zone su) (split_users (ra_users a)) AGENT_VERSION
                 (ra_tz a) (su_now su h) (sv_poll s) (sv_agent s, e, (sv_client s, h)))
          (\<lambda>(ms, st, e, c, h).
             let sent = (if sv_ready s then sv_sent s else sd_notify (su_notify_socket su) ''READY=1'' (sv_sent s))
             in Inr \<lparr>sv_world = (e, h), sv_client = c, sv_agent = st, sv_poll = ms, sv_ready = True,
                     sv_file = Some (save st), sv_sent = sd_notify (su_notify_socket su) ''WATCHDOG=1'' sent,
                     sv_slept = sv_slept s\<rparr>))"

definition service_sleep :: "('e, 'h) surroundings \<Rightarrow> int \<Rightarrow> ('e, 'h) service \<Rightarrow> ('e, 'h) service" where
  "service_sleep su ms s = s\<lparr>sv_world := su_pause su ms (sv_world s), sv_slept := sv_slept s @ [ms]\<rparr>"

text \<open>
  \<open>time.sleep\<close> of a negative delay raises \<open>ValueError\<close>. None is a call that never returns; a process
  that ends by an exception returns \<open>Inl\<close> of it.
\<close>

partial_function (option) tick_loop :: "('e, 'h) surroundings \<Rightarrow> run_args \<Rightarrow> ('e, 'h) service
    \<Rightarrow> ('e, 'h) service result option" where
  [code]: "tick_loop su a s =
     (case service_tick su a s of
        Inl x \<Rightarrow> Some (Inl x)
      | Inr s \<Rightarrow>
          if ra_once a then Some (Inr s)
          else if sv_poll s < 0 then Some (Inl ValueError)
          else tick_loop su a (service_sleep su (sv_poll s) s))"

partial_function (option) wait_for_timekpr :: "('e, 'h) surroundings \<Rightarrow> ('e, 'h) service \<Rightarrow> ('e, 'h) service option" where
  [code]: "wait_for_timekpr su s =
     (if su_found su (snd (sv_world s)) then Some s
      else wait_for_timekpr su (service_sleep su 30000 s))"

definition start_service :: "hub_client \<Rightarrow> json option \<Rightarrow> 'e \<times> 'h \<Rightarrow> ('e, 'h) service" where
  "start_service c file w = \<lparr>sv_world = w, sv_client = c, sv_agent = load file, sv_poll = DEFAULT_POLL_MS,
     sv_ready = False, sv_file = file, sv_sent = [], sv_slept = []\<rparr>"

definition cmd_run :: "('e, 'h) surroundings \<Rightarrow> (string \<Rightarrow> bool) \<Rightarrow> run_args \<Rightarrow> ('h \<Rightarrow> token_file) \<Rightarrow> json option \<Rightarrow> 'e \<times> 'h
    \<Rightarrow> ('e, 'h) service result option" where
  "cmd_run su ca_loads a token file w =
     (case new_client ca_loads (ra_hub_url a) (ra_ca_cert a) (token (snd w)) of
        Inl x \<Rightarrow> Some (Inl x)
      | Inr c \<Rightarrow>
          (case wait_for_timekpr su (start_service c file w) of
             None \<Rightarrow> None
           | Some s \<Rightarrow> tick_loop su a s))"

subsection \<open>status\<close>

datatype check = Installed | Daemon_Reachable | Config_Present | Token_Readable | Service_Enabled | Service_Active
  | Systemctl_Works | Hub_Reachable | Clock_In_Sync

record status_env =
  se_found :: bool
  se_environ :: "string \<Rightarrow> string option"
  se_hub_url :: "string option"
  se_systemctl :: "(string \<times> string) option"
  se_ca_loads :: "string \<Rightarrow> bool"

record status_report =
  sp_checks :: "(check \<times> bool) list"
  sp_users :: "(username \<times> user_state option) list"
  sp_exit :: int

text \<open>\<open>round\<close> to milliseconds, ties to the even one.\<close>

definition round_ms :: "int \<Rightarrow> int" where
  "round_ms us = (let q = us div 1000; r = us mod 1000
     in if r < 500 \<or> (r = 500 \<and> even q) then q else q + 1)"

text \<open>The hub's check: a sync that reports no user. Only the two errors of the client are caught.\<close>

definition probe_hub :: "(agent_payload, hub_json, 'h) host_ops \<Rightarrow> (string \<Rightarrow> bool) \<Rightarrow> string \<Rightarrow> string option \<Rightarrow> instant \<Rightarrow> 'h
    \<Rightarrow> (check \<times> bool) list result \<times> 'h" where
  "probe_hub ops ca_loads hub_url ca_cert now h =
     (case new_client ca_loads hub_url ca_cert (ho_token ops h) of
        Inl x \<Rightarrow> (Inl x, h)
      | Inr c \<Rightarrow>
          (case client_sync ops (Sync_Payload \<lparr>sreq_agent_time = now, sreq_agent_version = AGENT_VERSION, sreq_users = []\<rparr>) c h of
             (out, _, h) \<Rightarrow>
               (case out of
                  Answer j \<Rightarrow> Inr ((Hub_Reachable, True) # (case sync_answer_of j of None \<Rightarrow> []
                      | Some r \<Rightarrow> [(Clock_In_Sync, \<bar>round_ms (sres_hub_time r - now)\<bar> < 30000)]))
                | Unreachable \<Rightarrow> Inr [(Hub_Reachable, False)]
                | Revoked \<Rightarrow> Inr [(Hub_Reachable, False)]
                | Raises x \<Rightarrow> Inl x, h)))"

definition timekpr_checks :: "status_env \<Rightarrow> 'd connector \<Rightarrow> 'd timekpr_enforcer \<Rightarrow> (check \<times> bool) list \<times> 'd timekpr_enforcer" where
  "timekpr_checks env c e =
     (if se_found env then (case te_connect c e of (up, e) \<Rightarrow> ([(Installed, True), (Daemon_Reachable, up)], e))
      else ([(Installed, False)], e))"

definition service_checks :: "status_env \<Rightarrow> (check \<times> bool) list" where
  "service_checks env =
     (case se_systemctl env of
        None \<Rightarrow> [(Systemctl_Works, False)]
      | Some (enabled, active) \<Rightarrow> [(Service_Enabled, enabled = ''enabled''), (Service_Active, active = ''active'')])"

definition user_lines :: "string \<Rightarrow> agent_state \<Rightarrow> (username \<times> user_state option) list" where
  "user_lines users st = map (\<lambda>u. (u, dict_get (ag_users st) u)) (split_users users)"

definition cmd_status :: "status_env \<Rightarrow> 'd connector \<Rightarrow> (agent_payload, hub_json, 'h) host_ops \<Rightarrow> instant \<Rightarrow> file_text \<Rightarrow> json option
    \<Rightarrow> 'd timekpr_enforcer \<times> 'h \<Rightarrow> status_report result \<times> 'd timekpr_enforcer \<times> 'h" where
  "cmd_status env c ops now f file w =
     (case w of (e, h) \<Rightarrow>
        (case timekpr_checks env c e of (checks, e) \<Rightarrow>
           (case read_env_file f of
              Inl x \<Rightarrow> (Inl x, e, h)
            | Inr env_values \<Rightarrow>
                let dflt = (\<lambda>k. env_default (se_environ env) k env_values);
                    hub_url = (if str_or (se_hub_url env) '''' \<noteq> '''' then se_hub_url env else dflt ''TIMEKPR_HUB_URL'');
                    token_ok = (case ho_token ops h of Token_Text _ \<Rightarrow> True | _ \<Rightarrow> False);
                    checks = checks @ [(Config_Present, str_or hub_url '''' \<noteq> ''''), (Token_Readable, token_ok)] @ service_checks env;
                    finish = (\<lambda>checks. \<lparr>sp_checks = checks,
                      sp_users = user_lines (str_or (dflt ''TIMEKPR_HUB_MANAGED_USERS'') '''') (load file),
                      sp_exit = (if list_all snd checks then 0 else 1)\<rparr>)
                in if str_or hub_url '''' = '''' then (Inr (finish (checks @ [(Hub_Reachable, False)])), e, h)
                   else case probe_hub ops (se_ca_loads env) (str_or hub_url '''') (dflt ''TIMEKPR_HUB_CA_CERT'') now h of
                          (Inl x, h) \<Rightarrow> (Inl x, e, h)
                        | (Inr probe, h) \<Rightarrow> (Inr (finish (checks @ probe)), e, h))))"

end
