(* ===== verification/Agent_Service.thy ===== *)
theory Agent_Service
  imports Agent_Cli Device_Tick
begin

section \<open>The agent as a service\<close>

text \<open>
  Properties of \<open>timekpr-hub-agent run\<close> in \<open>agent/timekpr_hub_agent/cli.py\<close>: when the command returns,
  how the process can end, and what holds at every moment of its loop, as an invariant of the states
  it reaches.
\<close>

subsection \<open>Users' states have distinct names\<close>

abbreviation named_once :: "agent_state \<Rightarrow> bool" where
  "named_once st \<equiv> distinct (map fst (ag_users st))"

lemma named_set [simp]: "named_once st \<Longrightarrow> named_once (set_state_user u us st)"
  by (simp add: set_state_user_def dict_set_distinct)

lemma named_tz [simp]: "named_once (st\<lparr>ag_hub_tz := z\<rparr>) = named_once st"
  by simp

lemma observe_named:
  "observe_users ops today now us (e, st, obs, reqs) = Inr (e', st', obs', reqs') \<Longrightarrow> named_once st \<Longrightarrow> named_once st'"
proof (induction ops today now us "(e, st, obs, reqs)" arbitrary: e st obs reqs rule: observe_users.induct)
  case (2 ops today now u us e st obs reqs)
  obtain found e1 where o: "op_observe ops u e = Inr (found, e1)"
    using 2(3) by (auto simp: rbind_Inr_iff)
  show ?case
  proof (cases found)
    case None
    then show ?thesis using 2 o by simp
  next
    case (Some ob)
    obtain user force burned where a: "advance_user today ob (state_user u st) = (user, force, burned)"
      by (metis prod_cases3)
    show ?thesis using 2(2) [OF Some a [symmetric] refl refl] 2(3,4) o Some a by (simp add: Let_def)
  qed
qed simp

lemma answer_named:
  "answer_users ops now users obs (st, e) = Inr (st', e') \<Longrightarrow> named_once st \<Longrightarrow> named_once st'"
proof (induction ops now users obs "(st, e)" arbitrary: st e rule: answer_users.induct)
  case (2 ops now users u en rest st e)
  then show ?case by (cases "response_for users u") (auto simp: rbind_Inr_iff)
qed simp

lemma revoked_named: "named_once st \<Longrightarrow> named_once (revoked_users obs st)"
  by (induction obs st rule: revoked_users.induct) simp_all

lemma offline_named: "named_once st \<Longrightarrow> named_once (fst (offline_users ops now obs (st, e)))"
proof (induction ops now obs "(st, e)" arbitrary: st e rule: offline_users.induct)
  case (2 ops now u en rest st e)
  then show ?case by (auto simp: Let_def split: prod.split)
qed simp

lemma run_tick_facts:
  assumes "run_tick ops sync zone users ver tz now prev (st, e, h) = Inr (ms, st', e', h')" "named_once st"
  shows "ms \<le> MAX_POLL_MS \<and> named_once st'"
proof -
  obtain today e1 st1 obs reqs where day: "canonical_day_str zone now (if ag_hub_tz st \<noteq> '''' then ag_hub_tz st else tz) = Inr today"
    and obs: "observe_users ops today now users (e, st, [], []) = Inr (e1, st1, obs, reqs)"
    using run_tick_observed [OF assms(1)] by blast
  have st1: "named_once st1" by (rule observe_named [OF obs assms(2)])
  note cases = run_tick_cases [OF day obs, of sync ver h]
  obtain out h1 where out: "sync (tick_request now ver reqs) h = (out, h1)" by fastforce
  show ?thesis
  proof (cases out)
    case (Synced resp)
    then show ?thesis using cases(3) out assms(1) st1 by (auto simp: rbind_Inr_iff dest: answer_named)
  next
    case HubUnreachable
    then show ?thesis using cases(2) out assms(1) offline_named [OF st1] by auto
  next
    case DeviceRevoked
    then show ?thesis using cases(1) out assms(1) revoked_named [OF st1] by auto
  next
    case (Sync_Raised x)
    then show ?thesis using cases(4) out assms(1) by simp
  qed
qed

lemma load_named: "named_once (load f)"
proof -
  have "distinct (map fst (foldl (\<lambda>users (name, raw).
      (case raw of JObj ms \<Rightarrow> dict_set users name (load_user ms) | _ \<Rightarrow> users)) acc xs))"
    if "distinct (map fst acc)" for acc xs
    using that by (induction xs arbitrary: acc) (auto simp: dict_set_distinct split: json.split)
  from this [of "[]"] have "distinct (map fst (load_users xs))" for xs by (simp add: load_users_def)
  then show ?thesis by (auto simp: load_def new_agent_state_def split: option.split json.split)
qed

subsection \<open>One cycle of the loop\<close>

lemma service_tick_Inr:
  assumes "service_tick su a s = Inr s'" "named_once (sv_agent s)"
  shows "sv_poll s' \<le> MAX_POLL_MS" "named_once (sv_agent s')" "sv_file s' = Some (save (sv_agent s'))"
    "sv_ready s'" "sv_slept s' = sv_slept s"
    "sv_sent s' = sd_notify (su_notify_socket su) ''WATCHDOG=1''
       (if sv_ready s then sv_sent s else sd_notify (su_notify_socket su) ''READY=1'' (sv_sent s))"
proof -
  obtain e h where w: "sv_world s = (e, h)" by fastforce
  obtain ms st e' c h' where r: "run_tick (su_ops su (su_now su h)) (su_sync su) (su_zone su) (split_users (ra_users a)) AGENT_VERSION
         (ra_tz a) (su_now su h) (sv_poll s) (sv_agent s, e, (sv_client s, h)) = Inr (ms, st, e', c, h')"
    using assms(1) by (auto simp: service_tick_def w rbind_Inr_iff)
  note facts = run_tick_facts [OF r assms(2)]
  have s': "s' = \<lparr>sv_world = (e', h'), sv_client = c, sv_agent = st, sv_poll = ms, sv_ready = True, sv_file = Some (save st),
      sv_sent = sd_notify (su_notify_socket su) ''WATCHDOG=1''
        (if sv_ready s then sv_sent s else sd_notify (su_notify_socket su) ''READY=1'' (sv_sent s)), sv_slept = sv_slept s\<rparr>"
    using assms(1) by (simp add: service_tick_def w r Let_def)
  show "sv_poll s' \<le> MAX_POLL_MS" "named_once (sv_agent s')" "sv_file s' = Some (save (sv_agent s'))" "sv_ready s'"
    "sv_slept s' = sv_slept s" "sv_sent s' = sd_notify (su_notify_socket su) ''WATCHDOG=1''
       (if sv_ready s then sv_sent s else sd_notify (su_notify_socket su) ''READY=1'' (sv_sent s))"
    using facts by (simp_all add: s')
qed

text \<open>The states in which the loop begins a cycle.\<close>

inductive begins_cycle :: "('e, 'h) surroundings \<Rightarrow> run_args \<Rightarrow> ('e, 'h) service \<Rightarrow> ('e, 'h) service \<Rightarrow> bool"
  for su a s0 where
  first: "begins_cycle su a s0 s0"
| again: "begins_cycle su a s0 s \<Longrightarrow> service_tick su a s = Inr s' \<Longrightarrow> 0 \<le> sv_poll s' \<Longrightarrow>
    begins_cycle su a s0 (service_sleep su (sv_poll s') s')"

definition notified :: "string option \<Rightarrow> nat \<Rightarrow> (string \<times> string) list" where
  "notified addr n = fold (\<lambda>m. sd_notify addr m)
     ((if n = 0 then [] else [''READY=1'']) @ replicate n ''WATCHDOG=1'') []"

lemma notified_step:
  "notified addr (Suc n) = sd_notify addr ''WATCHDOG=1'' (if n = 0 then sd_notify addr ''READY=1'' [] else notified addr n)"
proof -
  have "replicate (Suc n) ''WATCHDOG=1'' = replicate n ''WATCHDOG=1'' @ [''WATCHDOG=1'']"
    by (simp add: replicate_append_same)
  then show ?thesis by (simp add: notified_def del: replicate_Suc)
qed

definition service_ok :: "('e, 'h) surroundings \<Rightarrow> ('e, 'h) service \<Rightarrow> ('e, 'h) service \<Rightarrow> bool" where
  "service_ok su s0 s \<longleftrightarrow> named_once (sv_agent s) \<and> load (sv_file s) = sv_agent s \<and>
     (\<exists>ds. sv_slept s = sv_slept s0 @ ds \<and> list_all (\<lambda>ms. 0 \<le> ms \<and> ms \<le> MAX_POLL_MS) ds \<and>
        sv_sent s = notified (su_notify_socket su) (length ds) \<and> sv_ready s = (ds \<noteq> []))"

lemma service_ok_reached:
  "begins_cycle su a s0 s \<Longrightarrow> service_ok su s0 s0 \<Longrightarrow> service_ok su s0 s"
proof (induction rule: begins_cycle.induct)
  case (again s s')
  then obtain ds where ok: "named_once (sv_agent s)" "sv_slept s = sv_slept s0 @ ds"
      "list_all (\<lambda>ms. 0 \<le> ms \<and> ms \<le> MAX_POLL_MS) ds" "sv_sent s = notified (su_notify_socket su) (length ds)"
      "sv_ready s = (ds \<noteq> [])"
    by (auto simp: service_ok_def)
  note t = service_tick_Inr [OF again.hyps(2) ok(1)]
  have "sv_sent s' = notified (su_notify_socket su) (length (ds @ [sv_poll s']))"
    using t(6) ok(4,5) by (cases "ds = []") (simp_all add: notified_step, simp add: notified_def)
  then show ?case
    using t ok again.hyps(3) load_saved [OF t(2)]
    by (auto simp: service_ok_def service_sleep_def intro!: exI [of _ "ds @ [sv_poll s']"])
qed

subsection \<open>Waiting for timekpr\<close>

abbreviation waited :: "('e, 'h) surroundings \<Rightarrow> nat \<Rightarrow> ('e, 'h) service \<Rightarrow> ('e, 'h) service" where
  "waited su n s \<equiv> (service_sleep su 30000 ^^ n) s"

abbreviation appears :: "('e, 'h) surroundings \<Rightarrow> nat \<Rightarrow> 'e \<times> 'h \<Rightarrow> bool" where
  "appears su n w \<equiv> su_found su (snd ((su_pause su 30000 ^^ n) w))"

lemma waited_world [simp]: "sv_world (waited su n s) = (su_pause su 30000 ^^ n) (sv_world s)"
  by (induction n) (simp_all add: service_sleep_def)

lemma waited_slept [simp]: "sv_slept (waited su n s) = sv_slept s @ replicate n 30000"
  by (induction n) (simp_all add: service_sleep_def replicate_append_same)

lemma waited_frame [simp]:
  "sv_agent (waited su n s) = sv_agent s" "sv_file (waited su n s) = sv_file s"
  "sv_sent (waited su n s) = sv_sent s" "sv_ready (waited su n s) = sv_ready s"
  by (induction n) (simp_all add: service_sleep_def)

lemma wait_returns:
  assumes "appears su n (sv_world s)" "\<forall>k<n. \<not> appears su k (sv_world s)"
  shows "wait_for_timekpr su s = Some (waited su n s)"
  using assms
proof (induction n arbitrary: s)
  case 0
  then show ?case by (subst wait_for_timekpr.simps) simp
next
  case (Suc n)
  have now: "\<not> su_found su (snd (sv_world s))" using Suc.prems(2) by auto
  have world: "sv_world (service_sleep su 30000 s) = su_pause su 30000 (sv_world s)" by (simp add: service_sleep_def)
  have shift: "appears su (Suc k) (sv_world s) = appears su k (sv_world (service_sleep su 30000 s))" for k
    by (simp add: world funpow_swap1)
  have "wait_for_timekpr su (service_sleep su 30000 s) = Some (waited su n (service_sleep su 30000 s))"
    using Suc.prems shift by (intro Suc.IH) (auto simp del: funpow.simps)
  then show ?case using now by (subst wait_for_timekpr.simps) (simp add: funpow_swap1)
qed

lemma wait_found:
  fixes su :: "('a, 'b) surroundings"
  assumes "wait_for_timekpr su s = Some s'"
  shows "\<exists>n. s' = waited su n s \<and> appears su n (sv_world s) \<and> (\<forall>k<n. \<not> appears su k (sv_world s))"
proof (rule wait_for_timekpr.raw_induct [where P = "\<lambda>su s s'. \<exists>n. s' = waited su n s \<and> appears su n (sv_world s) \<and>
    (\<forall>k<n. \<not> appears su k (sv_world s))", OF _ assms])
  fix wait :: "('a, 'b) surroundings \<Rightarrow> ('a, 'b) service \<Rightarrow> ('a, 'b) service option" and su :: "('a, 'b) surroundings" and s s'
  let ?next = "service_sleep su 30000 s"
  assume IH: "\<And>su s s'. wait su s = Some s' \<Longrightarrow> \<exists>n. s' = waited su n s \<and> appears su n (sv_world s) \<and>
      (\<forall>k<n. \<not> appears su k (sv_world s))"
    and eq: "(if su_found su (snd (sv_world s)) then Some s else wait su ?next) = Some s'"
  show "\<exists>n. s' = waited su n s \<and> appears su n (sv_world s) \<and> (\<forall>k<n. \<not> appears su k (sv_world s))"
  proof (cases "su_found su (snd (sv_world s))")
    case True
    then show ?thesis using eq by (intro exI [of _ 0]) simp
  next
    case False
    then obtain n where n: "s' = waited su n ?next" "appears su n (sv_world ?next)"
        "\<forall>k<n. \<not> appears su k (sv_world ?next)"
      using IH [of su ?next s'] eq by auto
    have shift: "appears su (Suc k) (sv_world s) = appears su k (sv_world ?next)" for k
      by (simp add: service_sleep_def funpow_swap1)
    have "\<not> appears su k (sv_world s)" if "k < Suc n" for k
      using that False n(3) shift by (cases k) (auto simp del: funpow.simps(2))
    then show ?thesis using n shift [of n] by (intro exI [of _ "Suc n"]) (simp add: funpow_swap1)
  qed
qed

lemma wait_never: "wait_for_timekpr su s = None \<longleftrightarrow> (\<forall>n. \<not> appears su n (sv_world s))"
proof
  assume none: "wait_for_timekpr su s = None"
  show "\<forall>n. \<not> appears su n (sv_world s)"
  proof (rule ccontr)
    assume "\<not> ?thesis"
    then obtain m where "appears su m (sv_world s)" by blast
    then have "appears su (LEAST m. appears su m (sv_world s)) (sv_world s)" by (rule LeastI)
    then have "wait_for_timekpr su s \<noteq> None"
      using wait_returns not_less_Least [of _ "\<lambda>m. appears su m (sv_world s)"] by fastforce
    then show False using none by simp
  qed
next
  assume "\<forall>n. \<not> appears su n (sv_world s)"
  then show "wait_for_timekpr su s = None" using wait_found [of su s] by (cases "wait_for_timekpr su s") auto
qed

text \<open>
  C20. \<open>run --once\<close> returns exactly when timekpr is found at some time: started with a readable token, it
  looks for timekpr every 30 seconds, and at the first time it is there does one tick and returns, or
  dies of that tick's exception; when timekpr never appears the command does not return.
\<close>

theorem once_returns_when_timekpr_appears:
  assumes "ra_once a" "new_client ca_loads (ra_hub_url a) (ra_ca_cert a) (token (snd w)) = Inr c"
  shows "case cmd_run su ca_loads a token saved w of
      None \<Rightarrow> \<forall>n. \<not> appears su n w
    | Some r \<Rightarrow> \<exists>n. appears su n w \<and> (\<forall>k<n. \<not> appears su k w) \<and>
        r = service_tick su a (waited su n (start_service c saved w))"
proof -
  let ?s = "start_service c saved w"
  have w: "sv_world ?s = w" by (simp add: start_service_def)
  show ?thesis
  proof (cases "wait_for_timekpr su ?s")
    case None
    then show ?thesis using wait_never [of su ?s] assms(2) by (simp add: cmd_run_def w)
  next
    case (Some s)
    obtain n where n: "s = waited su n ?s" "appears su n w" "\<forall>k<n. \<not> appears su k w"
      using wait_found [OF Some] w by auto
    have "tick_loop su a s = Some (service_tick su a s)"
      using assms(1) by (subst tick_loop.simps) (simp split: sum.split)
    then show ?thesis using Some n assms(2) by (auto simp: cmd_run_def)
  qed
qed

subsection \<open>The loop without end\<close>

lemma begins_loop:
  assumes "begins_cycle su a s s'" "\<not> ra_once a"
  shows "tick_loop su a s = tick_loop su a s'"
  using assms(1)
proof (induction rule: begins_cycle.induct)
  case (again s s')
  then have "tick_loop su a s = tick_loop su a (service_sleep su (sv_poll s') s')"
    using assms(2) by (subst tick_loop.simps) simp
  with again.IH show ?case by simp
qed simp

text \<open>How a cycle may be the last.\<close>

definition dies_of :: "('e, 'h) surroundings \<Rightarrow> run_args \<Rightarrow> ('e, 'h) service \<Rightarrow> exc \<Rightarrow> bool" where
  "dies_of su a s x = (case service_tick su a s of Inl y \<Rightarrow> x = y | Inr s' \<Rightarrow> sv_poll s' < 0 \<and> x = ValueError)"

lemma begins_trans: "begins_cycle su a s1 s2 \<Longrightarrow> begins_cycle su a s0 s1 \<Longrightarrow> begins_cycle su a s0 s2"
  by (induction rule: begins_cycle.induct) (auto intro: begins_cycle.intros)

lemma loop_ends:
  fixes su :: "('a, 'b) surroundings"
  assumes "tick_loop su a s = Some r" "\<not> ra_once a"
  shows "\<exists>x s'. r = Inl x \<and> begins_cycle su a s s' \<and> dies_of su a s' x"
proof -
  have "\<not> ra_once a \<longrightarrow> (\<exists>x s'. r = Inl x \<and> begins_cycle su a s s' \<and> dies_of su a s' x)"
  proof (rule tick_loop.raw_induct [where P = "\<lambda>su a s r. \<not> ra_once a \<longrightarrow>
      (\<exists>x s'. r = Inl x \<and> begins_cycle su a s s' \<and> dies_of su a s' x)", OF _ assms(1)], rule impI)
    fix loop :: "('a, 'b) surroundings \<Rightarrow> run_args \<Rightarrow> ('a, 'b) service \<Rightarrow> ('a, 'b) service result option" and su :: "('a, 'b) surroundings" and a s r
    assume IH: "\<And>su a s r. loop su a s = Some r \<Longrightarrow> \<not> ra_once a \<longrightarrow>
        (\<exists>x s'. r = Inl x \<and> begins_cycle su a s s' \<and> dies_of su a s' x)"
      and eq: "(case service_tick su a s of Inl x \<Rightarrow> Some (Inl x)
        | Inr s \<Rightarrow> if ra_once a then Some (Inr s) else if sv_poll s < 0 then Some (Inl ValueError)
            else loop su a (service_sleep su (sv_poll s) s)) = Some r"
      and on: "\<not> ra_once a"
    show "\<exists>x s'. r = Inl x \<and> begins_cycle su a s s' \<and> dies_of su a s' x"
    proof (cases "service_tick su a s")
      case (Inl x)
      have "r = Inl x" using eq Inl by simp
      moreover have "dies_of su a s x" using Inl by (simp add: dies_of_def)
      ultimately show ?thesis using first [of su a s] by blast
    next
      case (Inr s1)
      show ?thesis
      proof (cases "sv_poll s1 < 0")
        case True
        then have "r = Inl ValueError" "dies_of su a s ValueError" using eq on Inr by (auto simp: dies_of_def)
        then show ?thesis using first [of su a s] by blast
      next
        case False
        then have "begins_cycle su a s (service_sleep su (sv_poll s1) s1)" using again [OF first Inr] by simp
        moreover obtain x s' where "r = Inl x" "begins_cycle su a (service_sleep su (sv_poll s1) s1) s'" "dies_of su a s' x"
          using IH [of su a "service_sleep su (sv_poll s1) s1" r] eq on Inr False by auto
        ultimately show ?thesis using begins_trans by blast
      qed
    qed
  qed
  then show ?thesis using assms(2) by blast
qed

lemma loop_dies: "begins_cycle su a s s' \<Longrightarrow> \<not> ra_once a \<Longrightarrow> dies_of su a s' x \<Longrightarrow> tick_loop su a s = Some (Inl x)"
  using begins_loop [of su a s s'] by (simp add: tick_loop.simps [of su a s'] dies_of_def split: sum.splits)

text \<open>
  C19. The service never just stops. Without \<open>--once\<close> the loop returns nothing but an exception, that of a
  cycle it reached: one whose tick raised, or one whose poll delay, from the hub, was negative. When no
  reachable cycle does that, it runs forever.
\<close>

theorem service_ends_only_by_exception:
  assumes "\<not> ra_once a"
  shows "case tick_loop su a s of
      Some r \<Rightarrow> \<exists>x s'. r = Inl x \<and> begins_cycle su a s s' \<and> dies_of su a s' x
    | None \<Rightarrow> \<not> (\<exists>x s'. begins_cycle su a s s' \<and> dies_of su a s' x)"
proof (cases "tick_loop su a s")
  case None
  then show ?thesis using loop_dies [OF _ assms] by fastforce
next
  case (Some r)
  then show ?thesis using loop_ends [OF Some assms] by simp
qed

text \<open>
  C18. A crash loses nothing the agent knew. At the start of every cycle the state file holds exactly the
  state in memory, so a process started after a kill continues with it; every sleep so far was between 0
  and 90 seconds, below the 120 seconds of the watchdog; and systemd was told READY once, at the end of
  the first tick, and WATCHDOG at the end of every tick.
\<close>

theorem service_survives_restart:
  assumes "begins_cycle su a (waited su n (start_service c file w)) s"
  shows "sv_agent (start_service c' (sv_file s) w') = sv_agent s \<and>
    (\<exists>ds. sv_slept s = replicate n 30000 @ ds \<and> list_all (\<lambda>ms. 0 \<le> ms \<and> ms \<le> 90000) ds \<and>
       sv_sent s = notified (su_notify_socket su) (length ds))"
proof -
  have "service_ok su (waited su n (start_service c file w)) (waited su n (start_service c file w))"
    by (simp add: service_ok_def start_service_def load_named notified_def)
  from service_ok_reached [OF assms this] show ?thesis
    by (auto simp: service_ok_def start_service_def MAX_POLL_MS_def)
qed

subsection \<open>An example\<close>

text \<open>A machine on which timekpr appears after two waits and whose hub is away, or answers with the given outcome.\<close>

definition sample_surroundings :: "sync_outcome \<Rightarrow> (fake_enforcer, nat) surroundings" where
  "sample_surroundings out = \<lparr>su_ops = (\<lambda>_. fake_ops 1), su_sync = (\<lambda>_ w. (out, w)), su_zone = no_zone,
     su_now = (\<lambda>_. sample_now), su_pause = (\<lambda>ms (e, n). (e, Suc n)), su_found = (\<lambda>n. 2 \<le> n),
     su_notify_socket = Some ''/run/systemd/notify''\<rparr>"

definition sample_run :: "bool \<Rightarrow> run_args" where
  "sample_run once = \<lparr>ra_hub_url = ''http://hub'', ra_ca_cert = None, ra_users = ''kid'', ra_tz = ''UTC'', ra_once = once\<rparr>"

definition sample_service :: "(fake_enforcer, nat) service" where
  "sample_service = start_service stale_client None (sample_device, 0)"

lemma sample_appears: "appears (sample_surroundings out) n (sample_device, 0) \<longleftrightarrow> 2 \<le> n"
proof -
  have "(su_pause (sample_surroundings out) 30000 ^^ n) (sample_device, 0) = (sample_device, n)"
    by (induction n) (simp_all add: sample_surroundings_def)
  then show ?thesis by (simp add: sample_surroundings_def)
qed

lemma sample_users: "split_users ''kid'' = [''kid'']"
  by (simp add: split_users_def py_strip_def is_blank_def)

lemma sample_start [simp]:
  "sv_agent sample_service = new_agent_state" "sv_world sample_service = (sample_device, 0)" "sv_poll sample_service = 20000"
  by (simp_all add: sample_service_def start_service_def load_def DEFAULT_POLL_MS_def)

lemma sample_cycle:
  "\<exists>s'. service_tick (sample_surroundings HubUnreachable) (sample_run once) sample_service = Inr s' \<and> sv_poll s' = 40000"
  "service_tick (sample_surroundings (Sync_Raised RuntimeError)) (sample_run once) sample_service = Inl RuntimeError"
proof -
  obtain today where today: "canonical_day_str no_zone sample_now (if ag_hub_tz new_agent_state \<noteq> '''' then ag_hub_tz new_agent_state else ''UTC'') = Inr today"
    using sample_day by (auto simp: new_agent_state_def)
  have away: "\<exists>st e. run_tick (fake_ops 1) (\<lambda>_ w. (HubUnreachable, w)) no_zone [''kid''] AGENT_VERSION ''UTC'' sample_now 20000
      (new_agent_state, sample_device, x) = Inr (40000, st, e, x)" for x :: "hub_client \<times> nat"
    using run_tick_cases(2) [OF today sample_loop, where sync = "\<lambda>_ w. (HubUnreachable, w)" and h = x and ?h1.0 = x
        and ver = AGENT_VERSION and prev = 20000] by (simp add: MAX_POLL_MS_def)
  have raised: "run_tick (fake_ops 1) (\<lambda>_ w. (Sync_Raised RuntimeError, w)) no_zone [''kid''] AGENT_VERSION ''UTC'' sample_now 20000
      (new_agent_state, sample_device, x) = Inl RuntimeError" for x :: "hub_client \<times> nat"
    using run_tick_cases(4) [OF today sample_loop, where sync = "\<lambda>_ w. (Sync_Raised RuntimeError, w)" and h = x and ?h1.0 = x
        and ver = AGENT_VERSION and prev = 20000] by simp
  show "\<exists>s'. service_tick (sample_surroundings HubUnreachable) (sample_run once) sample_service = Inr s' \<and> sv_poll s' = 40000"
    using away [of "(sv_client sample_service, 0)"]
    by (auto simp: service_tick_def sample_surroundings_def sample_run_def sample_users Let_def)
  show "service_tick (sample_surroundings (Sync_Raised RuntimeError)) (sample_run once) sample_service = Inl RuntimeError"
    using raised [of "(sv_client sample_service, 0)"]
    by (simp add: service_tick_def sample_surroundings_def sample_run_def sample_users)
qed

lemma once_returns_when_timekpr_appears_witness:
  "\<exists>r. cmd_run (sample_surroundings HubUnreachable) (\<lambda>_. True) (sample_run True) (\<lambda>_. Token_Text ''tkh_old'') None (sample_device, 0) = Some r"
proof -
  have on: "ra_once (sample_run True)" by (simp add: sample_run_def)
  have c: "new_client (\<lambda>_. True) (ra_hub_url (sample_run True)) (ra_ca_cert (sample_run True)) (Token_Text ''tkh_old'')
      = Inr \<lparr>hc_base_url = ''http://hub'', hc_token = Some ''tkh_old''\<rparr>"
    by (simp add: new_client_def load_token_def sample_run_def str_or_def py_strip_def is_blank_def)
  show ?thesis
    using once_returns_when_timekpr_appears [OF on, where token = "\<lambda>_. Token_Text ''tkh_old''" and w = "(sample_device, 0)"
        and su = "sample_surroundings HubUnreachable" and saved = None, OF c]
      sample_appears [of HubUnreachable 2]
    by (fastforce split: option.splits)
qed

lemma service_ends_only_by_exception_witness:
  "\<exists>r. tick_loop (sample_surroundings (Sync_Raised RuntimeError)) (sample_run False) sample_service = Some r"
proof -
  have off: "\<not> ra_once (sample_run False)" by (simp add: sample_run_def)
  have "dies_of (sample_surroundings (Sync_Raised RuntimeError)) (sample_run False) sample_service RuntimeError"
    by (simp add: dies_of_def sample_cycle(2))
  then show ?thesis
    using service_ends_only_by_exception [OF off, of "sample_surroundings (Sync_Raised RuntimeError)" sample_service] first
    by (fastforce split: option.splits)
qed

lemma service_survives_restart_witness:
  "\<exists>s :: (fake_enforcer, nat) service. sv_poll s = 40000 \<and> sv_slept s = [40000] \<and> sv_agent (start_service stale_client (sv_file s) (sample_device, 0::nat)) = sv_agent s"
proof -
  let ?su = "sample_surroundings HubUnreachable"
  obtain s' where s': "service_tick ?su (sample_run False) sample_service = Inr s'" "sv_poll s' = 40000"
    using sample_cycle(1) by blast
  have slept: "sv_slept s' = []"
    using service_tick_Inr(5) [OF s'(1)] by (simp add: new_agent_state_def sample_service_def start_service_def load_def)
  have "begins_cycle ?su (sample_run False) (waited ?su 0 sample_service) (service_sleep ?su (sv_poll s') s')"
    using again [OF first s'(1)] s'(2) by simp
  from service_survives_restart [OF this [unfolded sample_service_def], of stale_client "(sample_device, 0::nat)"]
  have "sv_agent (start_service stale_client (sv_file (service_sleep ?su (sv_poll s') s')) (sample_device, 0::nat)) =
      sv_agent (service_sleep ?su (sv_poll s') s')" by blast
  moreover have "sv_slept (service_sleep ?su (sv_poll s') s') = [40000]" "sv_poll (service_sleep ?su (sv_poll s') s') = 40000"
    using s'(2) slept by (simp_all add: service_sleep_def)
  ultimately show ?thesis by blast
qed

end
