(* ===== verification/Agent_Setup.thy ===== *)
theory Agent_Setup
  imports Agent_Hub Agent_Cli
begin

section \<open>Setting a machine up\<close>

text \<open>
  The commands \<open>enroll\<close> and \<open>status\<close> against the hub: what a successful enrollment leaves for \<open>run\<close> to
  find, what a refused one leaves untouched, and what \<open>status\<close> can say.
\<close>

subsection \<open>The token of an enrollment\<close>

lemma bound_device:
  assumes "bind_device hash now tok req d = Inr (i, old, d')"
  shows "\<exists>w \<in> set (db_devices d'). dev_id w = i \<and> dev_token_hash w = hash tok \<and> dev_status w = ''active''"
proof (cases "find (\<lambda>r. dev_machine_id r = enr_machine_id req \<and> live r) (db_devices d)")
  case None
  then show ?thesis using assms
    by (auto simp: bind_device_def uuid4_def rbind_Inr_iff Let_def add_device_def flush_Inr)
next
  case (Some v)
  let ?f = "\<lambda>r. r\<lparr>dev_token_hash := hash tok, dev_name := enr_hostname req,
      dev_agent_version := Some (enr_agent_version req), dev_status := ''active''\<rparr>"
  have "v \<in> set (db_devices d)" using Some by (auto simp: find_Some_iff)
  then have "?f v \<in> set (map_row dev_id (dev_id v) ?f (db_devices d))" by (force simp: map_row_def)
  moreover have "i = dev_id v" "db_devices d' = map_row dev_id (dev_id v) ?f (db_devices d)"
    using assms Some by (auto simp: bind_device_def rbind_Inr_iff Let_def update_device_def flush_Inr)
  ultimately show ?thesis by (intro bexI [of _ "?f v"]) simp_all
qed

lemma enrolled_token_works:
  assumes "hub_ok d" "enroll hash tz poll now rnd req d = Inr (resp, d')"
  shows "\<exists>w. get_current_device hash (Some (ens_device_token resp)) d' = Inr w \<and> dev_id w = ens_device_id resp"
    and "ens_device_token resp = TOKEN_PREFIX @ rnd" "hub_ok d'" "ens_hub_tz resp = tz"
proof -
  obtain d1 old d2 where 2: "bind_device hash now (TOKEN_PREFIX @ rnd) req d1 = Inr (ens_device_id resp, old, d2)"
    and t: "ens_device_token resp = TOKEN_PREFIX @ rnd" and ds: "db_devices d' = db_devices d2"
    using enroll_steps [OF assms] by blast
  show "ens_device_token resp = TOKEN_PREFIX @ rnd" by (rule t)
  show ok: "hub_ok d'" by (rule enroll_ok [OF assms])
  show "ens_hub_tz resp = tz" using assms(2) by (auto simp: enroll_def Let_def rbind_Inr_iff)
  obtain w where w: "w \<in> set (db_devices d')" "dev_id w = ens_device_id resp" "dev_token_hash w = hash (TOKEN_PREFIX @ rnd)"
      "dev_status w = ''active''"
    using bound_device [OF 2] ds by auto
  have "unique_on dev_token_hash (db_devices d')" using ok by (simp add: hub_ok_def tables_ok_def devices_ok_def)
  from find_row_unique [OF this w(1)] w show "\<exists>w. get_current_device hash (Some (ens_device_token resp)) d' = Inr w \<and> dev_id w = ens_device_id resp"
    by (simp add: get_current_device_def t)
qed

subsection \<open>The users of an enrollment\<close>

definition user_name :: "username \<Rightarrow> bool" where
  "user_name u \<longleftrightarrow> stripped u \<and> u \<noteq> '''' \<and> CHR '','' \<notin> set u"

lemma split_users_names: "list_all user_name (split_users s)"
proof -
  have "user_name (py_strip p)" if "p \<in> set (split_at CHR '','' s)" "py_strip p \<noteq> ''''" for p
    using that split_at_parts [OF that(1)] strip_subset [of p] by (auto simp: user_name_def)
  then show ?thesis by (auto simp: split_users_def list_all_iff)
qed

lemma split_users_join:
  assumes "list_all user_name us"
  shows "split_users (join_on CHR '','' us) = us"
proof (cases "us = []")
  case True
  then show ?thesis by (simp add: split_users_def py_strip_def)
next
  case False
  have "split_at CHR '','' (join_on CHR '','' us) = us"
    by (rule split_join [OF False]) (use assms in \<open>auto simp: list_all_iff user_name_def\<close>)
  moreover have "map py_strip us = us" "filter (\<lambda>u. u \<noteq> '''') us = us"
    using assms by (auto simp: list_all_iff user_name_def intro!: map_idI filter_True)
  ultimately show ?thesis by (simp add: split_users_def)
qed

lemma join_strip:
  assumes "list_all user_name us"
  shows "py_strip (join_on CHR '','' us) = join_on CHR '','' us" "us \<noteq> [] \<Longrightarrow> join_on CHR '','' us \<noteq> ''''"
proof -
  have "stripped (join_on CHR '','' us) \<and> (us \<noteq> [] \<longrightarrow> join_on CHR '','' us \<noteq> '''' \<and> hd (join_on CHR '','' us) = hd (hd us))"
    using assms
  proof (induction us rule: induct_list012)
    case (3 p q ps)
    let ?c = "CHR '','' "
    have p: "p \<noteq> ''''" "\<not> is_blank (hd p)" using 3(3) by (auto simp: user_name_def stripped_def)
    have q: "stripped (join_on ?c (q # ps))" "join_on ?c (q # ps) \<noteq> ''''" using 3(2,3) by simp_all
    then have "\<not> is_blank (last (join_on ?c (q # ps)))" by (simp add: stripped_def)
    then show ?case using p q(2) by (simp add: stripped_def)
  qed (auto simp: stripped_def user_name_def)
  then show "py_strip (join_on CHR '','' us) = join_on CHR '','' us" "us \<noteq> [] \<Longrightarrow> join_on CHR '','' us \<noteq> ''''"
    by simp_all
qed

lemma join_one_line: "list_all one_line us \<Longrightarrow> one_line (join_on CHR '','' us)"
proof (induction "CHR '',''" us rule: join_on.induct)
  case (3 p q ps)
  then show ?case by (simp add: one_line_def is_line_end_def)
qed (simp_all add: one_line_def)

lemma gathered_users:
  assumes "gather_inputs env c args e = (Inr i, e')"
  shows "list_all user_name (ei_users i)" "\<exists>typed. ask_hub env args typed = Inr (ei_hub_url i, ei_code i)"
proof -
  have "(\<exists>s. ei_users i = split_users s) \<and> (\<exists>typed. ask_hub env args typed = Inr (ei_hub_url i, ei_code i))"
    using assms
    by (auto simp: gather_inputs_def validate_users_def rbind_Inr_iff split: prod.splits sum.splits if_splits)
  then show "list_all user_name (ei_users i)" "\<exists>typed. ask_hub env args typed = Inr (ei_hub_url i, ei_code i)"
    using split_users_names by auto
qed

subsection \<open>From enroll to run\<close>

lemma normalize_one_line:
  assumes "normalize_hub_url raw = Inr u" "one_line raw"
  shows "one_line u"
proof -
  have sub: "set (rstrip_slashes s) \<subseteq> set s" for s
    by (auto simp: rstrip_slashes_def dest!: set_dropWhileD)
  have "set u \<subseteq> set ''http://'' \<union> set raw"
  proof -
    have "u = rstrip_slashes (py_strip raw) \<or> u = rstrip_slashes (''http://'' @ py_strip raw)"
      using assms(1) unfolding normalize_hub_url_def Let_def by (simp split: if_splits)
    then show ?thesis using sub [of "py_strip raw"] sub [of "''http://'' @ py_strip raw"] strip_subset [of raw] by fastforce
  qed
  moreover have "list_all (\<lambda>c. \<not> is_line_end c) ''http://''" by (simp add: is_line_end_def)
  ultimately show ?thesis using assms(2) unfolding one_line_def list_all_iff by blast
qed

lemma strip_Nil: "py_strip s = [] \<Longrightarrow> \<forall>x \<in> set s. is_blank x"
proof -
  assume "py_strip s = []"
  then have "\<forall>x \<in> set (dropWhile is_blank s). is_blank x" by (simp add: py_strip_def)
  then have "dropWhile is_blank s = []" using hd_dropWhile_blank [of is_blank s] by (cases "dropWhile is_blank s") auto
  then show ?thesis by simp
qed

lemma ask_hub_given:
  assumes "ask_hub env args typed = Inr (u, code)" "ea_hub_url args = Some url" "url \<noteq> ''''"
  shows "normalize_hub_url url = Inr u"
  using assms by (auto simp: ask_hub_def prompt_or_die_def str_or_def rbind_Inr_iff split: sum.splits)

lemma contact_hub_Inr:
  assumes "contact_hub env (hub_ops he now rnd base) args i m = (Inr r, m')"
  shows "\<exists>machine_id. enroll (he_hash he) (hub_tz_name (he_cfg he)) (default_next_poll_ms (he_cfg he)) now rnd
      (enroll_body env args i machine_id) (ah_db m) = Inr (r, ah_db m')"
    and "m' = \<lparr>ah_db = ah_db m', ah_token = Token_Text (ens_device_token r)\<rparr>"
    and "str_or (ea_ca_cert args) '''' = '''' \<or> ee_ca_loads env (str_or (ea_ca_cert args) '''')"
proof -
  obtain c machine_id c' where c: "new_client (ee_ca_loads env) (ei_hub_url i) (ea_ca_cert args) (ah_token m) = Inr c"
    and e: "client_enroll (hub_ops he now rnd base) device_token_of (Enroll_Payload (enroll_body env args i machine_id)) c m
      = (Inr (Enroll_Json r), c', m')"
    using assms
    by (auto simp: contact_hub_def rbind_Inr_iff hub_ops_def split: sum.splits prod.splits enroll_failure.splits hub_json.splits)
  note h = client_enroll_hub [OF e]
  show "\<exists>machine_id. enroll (he_hash he) (hub_tz_name (he_cfg he)) (default_next_poll_ms (he_cfg he)) now rnd
      (enroll_body env args i machine_id) (ah_db m) = Inr (r, ah_db m')"
    using h(1) by blast
  show "m' = \<lparr>ah_db = ah_db m', ah_token = Token_Text (ens_device_token r)\<rparr>" by (rule h(2))
  show "str_or (ea_ca_cert args) '''' = '''' \<or> ee_ca_loads env (str_or (ea_ca_cert args) '''')"
    using c by (auto simp: new_client_def rbind_Inr_iff split: if_splits)
qed

lemma finish_enroll_Inr:
  assumes "finish_enroll env args i r f = (Inr el, f')"
  shows "map fst (el_notes el) = ei_users i" "el_device el = ens_device_id r"
    "f' = Text (write_env_file (ei_hub_url i) (join_on CHR '','' (ei_users i)) (str_or (Some (ens_hub_tz r)) (ea_tz args)) (ea_ca_cert args))"
proof -
  obtain nts where n: "rsequence (map (user_note i r) (ei_users i)) = Inr nts" and el: "el_notes el = nts" "el_device el = ens_device_id r"
    and f: "f' = Text (write_env_file (ei_hub_url i) (join_on CHR '','' (ei_users i)) (str_or (Some (ens_hub_tz r)) (ea_tz args)) (ea_ca_cert args))"
    using assms by (auto simp: finish_enroll_def split: sum.splits if_splits)
  have "user_note i r u = Inr x \<Longrightarrow> fst x = u" for u x
    by (auto simp: user_note_def Let_def rbind_Inr_iff split: option.splits)
  then have "map (user_note i r) us = map Inr ns \<Longrightarrow> map fst ns = us" for us ns
    by (induction us arbitrary: ns) auto
  then show "map fst (el_notes el) = ei_users i" using n by (simp add: rsequence_Inr_iff el(1))
  show "el_device el = ens_device_id r" by (rule el(2))
  show "f' = Text (write_env_file (ei_hub_url i) (join_on CHR '','' (ei_users i)) (str_or (Some (ens_hub_tz r)) (ea_tz args)) (ea_ca_cert args))"
    by (rule f)
qed

lemma cmd_enroll_Inr:
  assumes "cmd_enroll env c (hub_ops he now rnd base) args (e, m, f) = (Inr el, e', m', f')"
  obtains i r where "gather_inputs env c args e = (Inr i, e')" "contact_hub env (hub_ops he now rnd base) args i m = (Inr r, m')"
    "finish_enroll env args i r f = (Inr el, f')"
  using assms by (auto simp: cmd_enroll_def split: prod.splits sum.splits)

text \<open>The command line \<open>run\<close> of the service: no option given, nothing in the environment.\<close>

definition no_flags :: run_flags where
  "no_flags = \<lparr>rf_hub_url = None, rf_ca_cert = None, rf_users = None, rf_tz = None, rf_once = False\<rparr>"

text \<open>
  C22. A machine that has been enrolled runs: after a successful \<open>enroll --hub-url url\<close> the command \<open>run\<close>, without any
  option, finds in the file the normalised URL, exactly the users of the enrollment's summary and the hub's time
  zone, and its client holds a token that the hub accepts as the device the enrollment reported. The values must
  not contain line boundaries, which the file cannot hold, and at least one user must have been given.
\<close>

theorem enroll_configures_run:
  assumes "hub_ok (ah_db m)"
    and "cmd_enroll env c (hub_ops he now rnd base) args (e, m, f) = (Inr el, e', m', f')"
    and "ea_hub_url args = Some url \<and> url \<noteq> '''' \<and> one_line url"
    and "el_notes el \<noteq> [] \<and> list_all one_line (map fst (el_notes el))"
    and "hub_tz_name (he_cfg he) \<noteq> '''' \<and> stripped (hub_tz_name (he_cfg he)) \<and> one_line (hub_tz_name (he_cfg he))"
    and "stripped (str_or (ea_ca_cert args) '''') \<and> one_line (str_or (ea_ca_cert args) '''')"
    and "list_all (\<lambda>x. \<not> is_blank x) rnd"
  shows "\<exists>values ra client w u. read_env_file f' = Inr values \<and> run_args_of (\<lambda>_. None) values no_flags = Some ra \<and>
    split_users (ra_users ra) = map fst (el_notes el) \<and>
    normalize_hub_url url = Inr u \<and> ra_hub_url ra = py_strip u \<and> ra_tz ra = hub_tz_name (he_cfg he) \<and>
    new_client (ee_ca_loads env) (ra_hub_url ra) (ra_ca_cert ra) (ah_token m') = Inr client \<and>
    get_current_device (he_hash he) (hc_token client) (ah_db m') = Inr w \<and> dev_id w = el_device el"
proof -
  obtain i r where g: "gather_inputs env c args e = (Inr i, e')"
    and h: "contact_hub env (hub_ops he now rnd base) args i m = (Inr r, m')"
    and fin: "finish_enroll env args i r f = (Inr el, f')"
    using cmd_enroll_Inr [OF assms(2)] by blast
  note us = gathered_users(1) [OF g] and ends = finish_enroll_Inr [OF fin] and hub = contact_hub_Inr [OF h]
  obtain machine_id where enr: "enroll (he_hash he) (hub_tz_name (he_cfg he)) (default_next_poll_ms (he_cfg he)) now rnd
      (enroll_body env args i machine_id) (ah_db m) = Inr (r, ah_db m')" using hub(1) by blast
  note tok = enrolled_token_works [OF assms(1) enr]
  let ?users = "join_on CHR '','' (ei_users i)" and ?tz = "hub_tz_name (he_cfg he)" and ?ca = "str_or (ea_ca_cert args) ''''"
  have u: "normalize_hub_url url = Inr (ei_hub_url i)"
    using gathered_users(2) [OF g] ask_hub_given assms(3) by blast
  have tz: "str_or (Some (ens_hub_tz r)) (ea_tz args) = ?tz" using tok(4) assms(5) by (simp add: str_or_def)
  have ne: "ei_users i \<noteq> []" "list_all one_line (ei_users i)" using assms(4) ends(1) by auto
  let ?vals = "[(''TIMEKPR_HUB_URL'', py_strip (ei_hub_url i)), (''TIMEKPR_HUB_MANAGED_USERS'', py_strip ?users),
         (''TIMEKPR_HUB_TZ'', py_strip ?tz), (''TIMEKPR_HUB_CA_CERT'', py_strip ?ca)]"
  have vals: "read_env_file f' = Inr ?vals"
    unfolding ends(3) tz using normalize_one_line [OF u] assms(3,5,6) join_one_line [OF ne(2)]
    by (intro env_file_roundtrip) simp
  have url: "py_strip (ei_hub_url i) \<noteq> ''''"
  proof -
    have "CHR '':'' \<in> set (ei_hub_url i)"
      using normalized_url_shape [OF u] by (elim conjE exE disjE) simp_all
    then have "\<exists>x\<in>set (ei_hub_url i). \<not> is_blank x" by (intro bexI [of _ "CHR '':''"]) (simp_all add: is_blank_def)
    then show ?thesis using strip_Nil by blast
  qed
  let ?ra = "\<lparr>ra_hub_url = py_strip (ei_hub_url i), ra_ca_cert = (if ?ca = '''' then None else Some ?ca), ra_users = ?users,
      ra_tz = ?tz, ra_once = False\<rparr>"
  have ra: "run_args_of (\<lambda>_. None) ?vals no_flags = Some ?ra"
    using url ne(1) join_strip [OF us] assms(5,6)
    by (simp add: run_args_of_def no_flags_def flag_or_def env_default_def or_else_def dict_get_def str_or_def)
  have t: "py_strip (TOKEN_PREFIX @ rnd) = TOKEN_PREFIX @ rnd"
    using assms(7) by (intro strip_no_blank) (simp add: TOKEN_PREFIX_def is_blank_def)
  have client: "new_client (ee_ca_loads env) (py_strip (ei_hub_url i)) (if ?ca = '''' then None else Some ?ca) (ah_token m') =
      Inr \<lparr>hc_base_url = py_strip (ei_hub_url i), hc_token = Some (TOKEN_PREFIX @ rnd)\<rparr>"
  proof -
    have "ah_token m' = Token_Text (TOKEN_PREFIX @ rnd)" using arg_cong [OF hub(2), of ah_token] tok(2) by simp
    then show ?thesis using hub(3) t by (auto simp: new_client_def load_token_def str_or_def split: option.splits)
  qed
  show ?thesis
    using vals ra split_users_join [OF us] u client tok(1,2) ends(1,2)
    by (intro exI [of _ ?vals] exI [of _ ?ra]) auto
qed

text \<open>An example: a machine without a running daemon, enrolled from a script.\<close>

definition no_daemon :: "unit connector" where
  "no_daemon = \<lparr>init_connection = (\<lambda>d. (False, d)), admin_config = (\<lambda>_ _. None), admin_call = (\<lambda>_ _ d. (1, d)),
     admin_users = (\<lambda>_. None)\<rparr>"

definition sample_enroll_env :: enroll_env where
  "sample_enroll_env = \<lparr>ee_found = True, ee_tty = False, ee_typed = [], ee_hostname = ''pc'', ee_machine_ids = [None, Some ''m1''],
     ee_ca_loads = (\<lambda>_. False), ee_env_writable = True, ee_systemctl_ok = True\<rparr>"

definition sample_enroll_args :: "string \<Rightarrow> enroll_args" where
  "sample_enroll_args code = \<lparr>ea_hub_url = Some ''http://hub/'', ea_ca_cert = None, ea_code = Some code,
     ea_users = Some '' kid, '', ea_tz = ''UTC'', ea_hostname = None, ea_machine_id = None, ea_no_start = False\<rparr>"

definition sample_enroll_run where
  "sample_enroll_run code = cmd_enroll sample_enroll_env no_daemon (hub_ops sample_env 50 ''new'' ''http://hub'') (sample_enroll_args code)
     (\<lparr>te_connected = False, te_device = ()\<rparr>, sample_host, No_File)"

lemma sample_enrollment_runs:
  "\<exists>el w. sample_enroll_run ''AAAA'' = (Inr el, w) \<and> map fst (el_notes el) = [''kid'']"
proof -
  have "case sample_enroll_run ''AAAA'' of (Inr el, _) \<Rightarrow> map fst (el_notes el) = [''kid''] | _ \<Rightarrow> False"
    by code_simp
  then show ?thesis by (auto split: prod.splits sum.splits)
qed

lemma enroll_configures_run_witness:
  "\<exists>el e' m' f' values ra. sample_enroll_run ''AAAA'' = (Inr el, e', m', f') \<and> read_env_file f' = Inr values \<and>
     run_args_of (\<lambda>_. None) values no_flags = Some ra \<and> split_users (ra_users ra) = [''kid'']"
proof -
  obtain el w where run: "sample_enroll_run ''AAAA'' = (Inr el, w)" and names: "map fst (el_notes el) = [''kid'']"
    using sample_enrollment_runs by (elim exE conjE) (rule that)
  obtain e' m' f' where w: "w = (e', m', f')" by (metis prod_cases3)
  have ok: "hub_ok (ah_db sample_host)" by (simp add: sample_host_def sample_hub_ok)
  have url: "ea_hub_url (sample_enroll_args ''AAAA'') = Some ''http://hub/'' \<and> ''http://hub/'' \<noteq> '''' \<and> one_line ''http://hub/''"
    by (simp add: sample_enroll_args_def one_line_def is_line_end_def)
  have us: "el_notes el \<noteq> [] \<and> list_all one_line (map fst (el_notes el))"
    unfolding names using names by (auto simp: one_line_def is_line_end_def)
  have tz: "hub_tz_name (he_cfg sample_env) \<noteq> '''' \<and> stripped (hub_tz_name (he_cfg sample_env)) \<and> one_line (hub_tz_name (he_cfg sample_env))"
    by code_simp
  have ca: "stripped (str_or (ea_ca_cert (sample_enroll_args ''AAAA'')) '''') \<and> one_line (str_or (ea_ca_cert (sample_enroll_args ''AAAA'')) '''')"
    by (simp add: sample_enroll_args_def stripped_def one_line_def str_or_def)
  have rnd: "list_all (\<lambda>x. \<not> is_blank x) ''new''" by (simp add: is_blank_def)
  from enroll_configures_run [OF ok run [unfolded sample_enroll_run_def w] url us tz ca rnd] show ?thesis
    using run w names by auto
qed

text \<open>
  An enrollment that is refused with a message, before or by the hub, leaves the machine and the hub as they were:
  the token of an earlier enrollment stays, so does the configuration, and the hub's database is the same, the code
  included. (A crash after the hub has accepted, such as a configuration file that cannot be written, is not of
  this kind: then the code is spent and the token is on disk.)
\<close>

theorem refused_enroll_changes_nothing:
  assumes "cmd_enroll env c (hub_ops he now rnd base) args (e, m, f) = (Inl x, e', m', f')" "x = Exit_Error \<or> x = End_Of_Input"
  shows "m' = m \<and> f' = f"
proof -
  have kept: "m2 = m" if "client_enroll (hub_ops he now rnd base) device_token_of p c0 m = (Inl y, c2, m2)" "\<forall>z. y \<noteq> Enroll_Raised z"
    for p c0 y c2 m2
    using that
    by (auto simp: client_enroll_def post_def hub_ops_def hub_answers_def answer_with_def post_reply_def device_token_of_def
        split: prod.splits sum.splits if_splits option.splits agent_payload.splits)
  have contact: "m2 = m" if "contact_hub env (hub_ops he now rnd base) args i m = (Inl x, m2)" for i m2
    using that assms(2)
    by (auto simp: contact_hub_def split: sum.splits prod.splits enroll_failure.splits hub_json.splits dest!: kept)
  have finish: "x = Crash z" if "finish_enroll env args i r f = (Inl x, g)" "\<And>y. x = Crash y \<Longrightarrow> False" for i r g z
    using that by (auto simp: finish_enroll_def split: sum.splits if_splits)
  show ?thesis
    using assms contact finish by (fastforce simp: cmd_enroll_def split: prod.splits sum.splits)
qed

lemma refused_enroll_changes_nothing_witness:
  "\<exists>e' m' f'. sample_enroll_run ''ZZZZ'' = (Inl Exit_Error, e', m', f') \<and> m' = sample_host \<and> f' = No_File"
proof -
  have "case sample_enroll_run ''ZZZZ'' of (Inl Exit_Error, _) \<Rightarrow> True | _ \<Rightarrow> False"
    by code_simp
  then obtain e' m' f' where run: "sample_enroll_run ''ZZZZ'' = (Inl Exit_Error, e', m', f')"
    by (auto split: prod.splits sum.splits cli_end.splits)
  from refused_enroll_changes_nothing [OF run [unfolded sample_enroll_run_def]] run show ?thesis by blast
qed

subsection \<open>What status can say\<close>

definition probe :: "instant \<Rightarrow> sync_request" where
  "probe now = \<lparr>sreq_agent_time = now, sreq_agent_version = AGENT_VERSION, sreq_users = []\<rparr>"

lemma probe_sync:
  assumes "hc_token c = Some t" "t \<noteq> ''''" "hc_base_url c = base" "ah_token m = Token_Text raw" "py_strip raw = t"
  shows "client_sync (hub_ops he now rnd base) (Sync_Payload q) c m =
    (case sync_endpoint (he_agg he) (he_digest he) (he_hash he) (he_cfg he) now (Some t) q (ah_db m) of
       Inl x \<Rightarrow> (sync_verdict (http_status x, Detail), c, m)
     | Inr (a, d) \<Rightarrow> (Answer (Sync_Json a), c, m\<lparr>ah_db := d\<rparr>))"
proof (cases "sync_endpoint (he_agg he) (he_digest he) (he_hash he) (he_cfg he) now (Some t) q (ah_db m)")
  case (Inl x)
  have "ho_token (hub_ops he now rnd base) m = Token_Text raw" using assms(4) by (simp add: hub_ops_def)
  then show ?thesis
    using sync_post_hub [OF assms(1-3), of he now rnd q m] Inl assms(1,5)
    by (simp add: client_sync_def load_token_def)
next
  case (Inr x)
  then show ?thesis
    using sync_post_hub [OF assms(1-3), of he now rnd q m]
    by (cases x) (simp add: client_sync_def auth_status_def sync_verdict_def)
qed

lemma refused_device:
  "get_current_device h (Some t) d = Inl x \<Longrightarrow> auth_status (http_status x) \<and>
     sync_endpoint agg digest h cfg now (Some t) q d = Inl x"
  by (auto simp: get_current_device_def sync_endpoint_def auth_status_def http_status_def split: option.splits if_splits)

text \<open>
  \<open>status\<close> judges a machine that has a token: the exit code is 0 exactly when every line it prints is a pass; a
  token the hub does not accept is a failed line and exit code 1, and a hub that answers is a passed one. Without a token,
  with an empty token file or with one it may not read, it does not report at all: it dies of the client's
  exception, which it does not catch.
\<close>

theorem status_needs_a_token:
  assumes "read_env_file f = Inr values"
    and "base = str_or (if str_or (se_hub_url env) '''' \<noteq> '''' then se_hub_url env
        else env_default (se_environ env) ''TIMEKPR_HUB_URL'' values) '''' \<and> base \<noteq> ''''"
    and "env_default (se_environ env) ''TIMEKPR_HUB_CA_CERT'' values = None"
    and "out = fst (cmd_status env c (hub_ops he now rnd base) now' f state (e, m))"
  shows "case ah_token m of
      No_Token \<Rightarrow> out = Inl RuntimeError
    | Unreadable_Token \<Rightarrow> out = Inl OSError
    | Token_Text raw \<Rightarrow>
        if py_strip raw = '''' then out = Inl RuntimeError
        else (\<exists>rep. out = Inr rep \<and> (sp_exit rep = 0) = list_all snd (sp_checks rep) \<and>
          (\<forall>x. get_current_device (he_hash he) (Some (py_strip raw)) (ah_db m) = Inl x \<longrightarrow>
             (Hub_Reachable, False) \<in> set (sp_checks rep) \<and> sp_exit rep = 1) \<and>
          (\<forall>x. sync_endpoint (he_agg he) (he_digest he) (he_hash he) (he_cfg he) now (Some (py_strip raw)) (probe now') (ah_db m)
               = Inr x \<longrightarrow> (Hub_Reachable, True) \<in> set (sp_checks rep)))"
proof -
  let ?ops = "hub_ops he now rnd base"
  obtain checks e1 where t: "timekpr_checks env c e = (checks, e1)" by fastforce
  let ?probe = "probe_hub ?ops (se_ca_loads env) base None now' m"
  have tok: "ho_token ?ops m = ah_token m" by (simp add: hub_ops_def)
  have out: "out = (case fst ?probe of Inl x \<Rightarrow> Inl x
      | Inr ps \<Rightarrow> Inr (let cs = checks @ [(Config_Present, True), (Token_Readable, case ah_token m of Token_Text _ \<Rightarrow> True | _ \<Rightarrow> False)]
            @ service_checks env @ ps
          in \<lparr>sp_checks = cs, sp_users = user_lines (str_or (env_default (se_environ env) ''TIMEKPR_HUB_MANAGED_USERS'' values) '''') (load state),
              sp_exit = (if list_all snd cs then 0 else 1)\<rparr>))"
  proof -
    obtain p m2 where p: "?probe = (p, m2)" by fastforce
    have base: "str_or (if str_or (se_hub_url env) [] \<noteq> [] then se_hub_url env
        else env_default (se_environ env) ''TIMEKPR_HUB_URL'' values) [] = base" by (rule sym, rule conjunct1 [OF assms(2)])
    have ne: "base \<noteq> []" by (rule conjunct2 [OF assms(2)])
    show ?thesis
      unfolding assms(4) cmd_status_def prod.case t assms(1) sum.case Let_def base tok assms(3) p fst_conv
      using ne by (cases p) simp_all
  qed
  show ?thesis
  proof (cases "ah_token m")
    case No_Token
    then have "fst ?probe = Inl RuntimeError"
      by (simp add: probe_hub_def new_client_def load_token_def tok str_or_def client_sync_def sync_post_def client_headers_def
          sync_failed_def)
    then show ?thesis using out No_Token by simp
  next
    case Unreadable_Token
    then have "fst ?probe = Inl OSError" by (simp add: probe_hub_def new_client_def load_token_def tok)
    then show ?thesis using out Unreadable_Token by simp
  next
    case (Token_Text raw)
    let ?c = "\<lparr>hc_base_url = base, hc_token = Some (py_strip raw)\<rparr>"
    have new: "new_client (se_ca_loads env) base None (ah_token m) = Inr ?c"
      by (simp add: new_client_def load_token_def Token_Text str_or_def)
    show ?thesis
    proof (cases "py_strip raw = ''''")
      case True
      then have "fst ?probe = Inl RuntimeError"
        by (simp add: probe_hub_def tok new client_sync_def sync_post_def client_headers_def str_or_def sync_failed_def)
      then show ?thesis using out Token_Text True by simp
    next
      case False
      let ?s = "sync_endpoint (he_agg he) (he_digest he) (he_hash he) (he_cfg he) now (Some (py_strip raw)) (probe now') (ah_db m)"
      note run = probe_sync [of ?c "py_strip raw" base m raw he now rnd "probe now'", simplified, OF False Token_Text]
      have probe: "fst ?probe = (case ?s of Inl x \<Rightarrow>
          (if auth_status (http_status x) then Inr [(Hub_Reachable, False)] else fst ?probe)
        | Inr x \<Rightarrow> Inr ((Hub_Reachable, True) # [(Clock_In_Sync, \<bar>round_ms (sres_hub_time (fst x) - now')\<bar> < 30000)]))"
        using run by (cases ?s) (simp_all add: probe_hub_def tok new probe_def [symmetric] sync_verdict_def sync_answer_of_def split: prod.splits)
      have "\<exists>ps. fst ?probe = Inr ps"
        using run by (cases ?s)
          (auto simp: probe_hub_def tok new probe_def [symmetric] sync_verdict_def split: prod.splits)
      then obtain ps where ps: "fst ?probe = Inr ps" by blast
      have no: "ps = [(Hub_Reachable, False)]" if "get_current_device (he_hash he) (Some (py_strip raw)) (ah_db m) = Inl x" for x
        using refused_device [OF that] probe ps by simp
      have yes: "(Hub_Reachable, True) \<in> set ps" if "?s = Inr x" for x using that probe ps by simp
      show ?thesis using out ps False Token_Text no yes by (auto simp: Let_def)
    qed
  qed
qed

lemma status_needs_a_token_witness:
  "fst (cmd_status \<lparr>se_found = True, se_environ = (\<lambda>_. None), se_hub_url = Some ''http://hub'', se_systemctl = None,
       se_ca_loads = (\<lambda>_. False)\<rparr> no_daemon (hub_ops sample_env 50 '''' ''http://hub'') 50 No_File None
     (\<lparr>te_connected = False, te_device = ()\<rparr>, sample_host\<lparr>ah_token := No_Token\<rparr>)) = Inl RuntimeError"
  using status_needs_a_token [of No_File "[]" "''http://hub''"
      "\<lparr>se_found = True, se_environ = (\<lambda>_. None), se_hub_url = Some ''http://hub'', se_systemctl = None, se_ca_loads = (\<lambda>_. False)\<rparr>"
      _ no_daemon sample_env 50 "''''" 50 None "\<lparr>te_connected = False, te_device = ()\<rparr>" "sample_host\<lparr>ah_token := No_Token\<rparr>", OF _ _ _ refl]
  by (simp add: read_env_file_def env_default_def or_else_def dict_get_def str_or_def)

end
