(* ===== verification/Schema.thy ===== *)
theory Schema
  imports Prelude
begin

section \<open>Database schemas and their changes\<close>

text \<open>
  The schema operations that the migrations of \<open>hub/migrations/versions\<close> issue (\<open>op.create_table\<close>,
  \<open>op.drop_column\<close>, \<open>ALTER INDEX .. RENAME\<close> and so on), as PostgreSQL carries them out: an operation that
  PostgreSQL refuses is \<open>None\<close>, and the transaction of the migration with it. Columns, constraints and
  indexes are what the catalogue keeps of them; a condition is one of the four forms that occur.
\<close>

subsection \<open>Tables\<close>

datatype col_type =
    UUID
  | String nat
  | Integer
  | BigInteger
  | Boolean
  | Date
  | DateTime_Tz
  | JSONB
  | TSTZRANGE

record column =
  co_name :: string
  co_type :: col_type
  co_nullable :: bool
  co_default :: "string option"

datatype ondelete = No_Action | Cascade | Set_Null

text \<open>The conditions of checks and partial indexes that the schema uses, \<open>col IN (..)\<close>, \<open>col >= a AND col <= b\<close>,
  \<open>jsonb_array_length(col) > 0\<close> and \<open>col <> 'v'\<close>.\<close>

datatype condition =
    One_Of string "string list"
  | In_Range string int int
  | Array_Nonempty string
  | Differs string string

datatype table_rule =
    PrimaryKey "string list"
  | Unique "string list"
  | ForeignKey "string list" string "string list" ondelete
  | Check condition

record table_index =
  ti_name :: string
  ti_columns :: "string list"
  ti_unique :: bool
  ti_where :: "condition option"

record table_def =
  tb_columns :: "column list"
  tb_rules :: "(string, table_rule) dict"
  tb_indexes :: "table_index list"

type_synonym schema = "(string, table_def) dict"

text \<open>\<open>sa.Column(name, type, nullable=.., server_default=..)\<close>.\<close>

definition Column :: "string \<Rightarrow> col_type \<Rightarrow> column" where
  "Column n t = \<lparr>co_name = n, co_type = t, co_nullable = False, co_default = None\<rparr>"

definition nullable :: "column \<Rightarrow> column" where
  "nullable c = c\<lparr>co_nullable := True\<rparr>"

definition server_default :: "string \<Rightarrow> column \<Rightarrow> column" where
  "server_default v c = c\<lparr>co_default := Some v\<rparr>"

text \<open>The name PostgreSQL gives a constraint that has none.\<close>

fun join_names :: "string list \<Rightarrow> string" where
  "join_names [] = ''''"
| "join_names (n # ns) = ''_'' @ n @ join_names ns"

fun default_name :: "string \<Rightarrow> table_rule \<Rightarrow> string" where
  "default_name t (PrimaryKey _) = t @ ''_pkey''"
| "default_name t (Unique cs) = t @ join_names cs @ ''_key''"
| "default_name t (ForeignKey cs _ _ _) = t @ join_names cs @ ''_fkey''"
| "default_name t (Check _) = t @ ''_check''"

fun rule_columns :: "table_rule \<Rightarrow> string list" where
  "rule_columns (PrimaryKey cs) = cs"
| "rule_columns (Unique cs) = cs"
| "rule_columns (ForeignKey cs _ _ _) = cs"
| "rule_columns (Check _) = []"

fun makes_index :: "table_rule \<Rightarrow> bool" where
  "makes_index (PrimaryKey _) = True"
| "makes_index (Unique _) = True"
| "makes_index (ForeignKey _ _ _ _) = False"
| "makes_index (Check _) = False"

definition column_names :: "table_def \<Rightarrow> string list" where
  "column_names t = map co_name (tb_columns t)"

text \<open>Tables and indexes share one name space, an index of a key included.\<close>

definition index_names :: "table_def \<Rightarrow> string list" where
  "index_names t = map ti_name (tb_indexes t) @ map fst (filter (\<lambda>(_, r). makes_index r) (tb_rules t))"

definition relation_names :: "schema \<Rightarrow> string list" where
  "relation_names s = map fst s @ concat (map (\<lambda>(_, t). index_names t) s)"

definition fresh_relation :: "string \<Rightarrow> schema \<Rightarrow> bool" where
  "fresh_relation n s \<longleftrightarrow> n \<notin> set (relation_names s)"

text \<open>A rule refers to columns of its table, a foreign key also to a key of its target.\<close>

definition has_key :: "table_def \<Rightarrow> string list \<Rightarrow> bool" where
  "has_key t keys \<longleftrightarrow> list_ex (\<lambda>(_, r). makes_index r \<and> rule_columns r = keys) (tb_rules t)"

fun target_fits :: "schema \<Rightarrow> string \<Rightarrow> table_def \<Rightarrow> table_rule \<Rightarrow> bool" where
  "target_fits s tab t (ForeignKey _ target keys _) =
     (if target = tab then has_key t keys
      else case dict_get s target of None \<Rightarrow> False | Some t' \<Rightarrow> has_key t' keys)"
| "target_fits s tab t r = True"

text \<open>A rule added to the table \<open>t\<close>, which has the name \<open>tab\<close>.\<close>

definition add_rule :: "schema \<Rightarrow> string \<Rightarrow> table_def \<Rightarrow> string \<Rightarrow> table_rule \<Rightarrow> table_def option" where
  "add_rule s tab t n r =
     (if n \<in> set (map fst (tb_rules t)) \<or> \<not> list_all (\<lambda>c. c \<in> set (column_names t)) (rule_columns r) \<or>
         \<not> target_fits s tab t r \<or> makes_index r \<and> (n = tab \<or> \<not> fresh_relation n s) then None
      else Some (t\<lparr>tb_rules := tb_rules t @ [(n, r)]\<rparr>))"

definition rule_name :: "string \<Rightarrow> string option \<times> table_rule \<Rightarrow> string" where
  "rule_name tab x = (case x of (n, r) \<Rightarrow> (case n of Some n \<Rightarrow> n | None \<Rightarrow> default_name tab r))"

fun add_rules :: "schema \<Rightarrow> string \<Rightarrow> table_def \<Rightarrow> (string option \<times> table_rule) list \<Rightarrow> table_def option" where
  "add_rules s tab t [] = Some t"
| "add_rules s tab t (x # xs) =
     (case add_rule s tab t (rule_name tab x) (snd x) of None \<Rightarrow> None | Some t' \<Rightarrow> add_rules s tab t' xs)"

subsection \<open>Operations\<close>

datatype ddl =
    create_table string "column list" "(string option \<times> table_rule) list"
  | drop_table string
  | rename_table string string
  | add_column string column
  | drop_column string string
  | rename_column string string string
  | alter_type string string col_type
  | alter_default string string string
  | create_constraint string string table_rule
  | drop_constraint string string
  | rename_constraint string string string
  | create_index string string "string list" bool "condition option"
  | drop_index string string
  | rename_index string string
  | update_rows string

definition refers_to :: "string \<Rightarrow> table_rule \<Rightarrow> bool" where
  "refers_to tab r = (case r of ForeignKey _ target _ _ \<Rightarrow> target = tab | _ \<Rightarrow> False)"

definition referred :: "string \<Rightarrow> schema \<Rightarrow> bool" where
  "referred tab s \<longleftrightarrow> list_ex (\<lambda>(n, t). n \<noteq> tab \<and> list_ex (\<lambda>(_, r). refers_to tab r) (tb_rules t)) s"

definition renamed :: "string \<Rightarrow> string \<Rightarrow> string \<Rightarrow> string" where
  "renamed a b n = (if n = a then b else n)"

text \<open>A foreign key follows its target when that is renamed.\<close>

fun retarget :: "string \<Rightarrow> string \<Rightarrow> table_rule \<Rightarrow> table_rule" where
  "retarget a b (ForeignKey cs target keys d) = ForeignKey cs (renamed a b target) keys d"
| "retarget a b r = r"

text \<open>A renamed column keeps its rules; \<open>here\<close> is whether the rule is one of the column's own table.\<close>

fun rename_in_rule :: "string \<Rightarrow> bool \<Rightarrow> string \<Rightarrow> string \<Rightarrow> table_rule \<Rightarrow> table_rule" where
  "rename_in_rule tab here a b (ForeignKey cs target keys d) =
     ForeignKey (if here then map (renamed a b) cs else cs) target (if target = tab then map (renamed a b) keys else keys) d"
| "rename_in_rule tab here a b (PrimaryKey cs) = PrimaryKey (if here then map (renamed a b) cs else cs)"
| "rename_in_rule tab here a b (Unique cs) = Unique (if here then map (renamed a b) cs else cs)"
| "rename_in_rule tab here a b (Check e) = Check e"

definition change_rules :: "(table_rule \<Rightarrow> bool) \<Rightarrow> (table_rule \<Rightarrow> table_rule) \<Rightarrow> table_def \<Rightarrow> table_def" where
  "change_rules P f t = (if list_ex (\<lambda>(_, r). P r) (tb_rules t)
     then t\<lparr>tb_rules := map (\<lambda>(m, r). (m, if P r then f r else r)) (tb_rules t)\<rparr> else t)"

definition rename_index_of :: "string \<Rightarrow> string \<Rightarrow> table_def \<Rightarrow> table_def" where
  "rename_index_of a b t =
     t\<lparr>tb_rules := map (\<lambda>(m, r). (if makes_index r then renamed a b m else m, r)) (tb_rules t),
       tb_indexes := map (\<lambda>i. i\<lparr>ti_name := renamed a b (ti_name i)\<rparr>) (tb_indexes t)\<rparr>"

definition change_table :: "string \<Rightarrow> (table_def \<Rightarrow> table_def option) \<Rightarrow> schema \<Rightarrow> schema option" where
  "change_table tab f s = (case dict_get s tab of None \<Rightarrow> None
     | Some t \<Rightarrow> (case f t of None \<Rightarrow> None | Some t' \<Rightarrow> Some (dict_set s tab t')))"

definition change_column :: "string \<Rightarrow> string \<Rightarrow> (column \<Rightarrow> column) \<Rightarrow> schema \<Rightarrow> schema option" where
  "change_column tab c f = change_table tab (\<lambda>t.
     if c \<in> set (column_names t)
     then Some (t\<lparr>tb_columns := map (\<lambda>x. if co_name x = c then f x else x) (tb_columns t)\<rparr>) else None)"

definition keyed_elsewhere :: "string \<Rightarrow> string \<Rightarrow> schema \<Rightarrow> bool" where
  "keyed_elsewhere tab c s \<longleftrightarrow> list_ex (\<lambda>(n, t). n \<noteq> tab \<and> list_ex (\<lambda>(_, r).
     case r of ForeignKey _ target keys _ \<Rightarrow> target = tab \<and> c \<in> set keys | _ \<Rightarrow> False) (tb_rules t)) s"

definition key_needed :: "string \<Rightarrow> string list \<Rightarrow> schema \<Rightarrow> bool" where
  "key_needed tab cs s \<longleftrightarrow> list_ex (\<lambda>(_, t). list_ex (\<lambda>(_, r).
     case r of ForeignKey _ target keys _ \<Rightarrow> target = tab \<and> keys = cs | _ \<Rightarrow> False) (tb_rules t)) s"

fun run_ddl :: "ddl \<Rightarrow> schema \<Rightarrow> schema option" where
  "run_ddl (create_table tab cols rules) s =
     (if fresh_relation tab s \<and> distinct (map co_name cols)
      then map_option (\<lambda>t. s @ [(tab, t)])
             (add_rules s tab \<lparr>tb_columns = cols, tb_rules = [], tb_indexes = []\<rparr> rules) else None)"
| "run_ddl (drop_table tab) s =
     (if dict_get s tab = None \<or> referred tab s then None else Some (filter (\<lambda>(n, _). n \<noteq> tab) s))"
| "run_ddl (rename_table a b) s =
     (if dict_get s a = None \<or> \<not> fresh_relation b s then None
      else Some (map (\<lambda>(n, t). (renamed a b n, change_rules (refers_to a) (retarget a b) t)) s))"
| "run_ddl (add_column tab c) s = change_table tab (\<lambda>t.
     if co_name c \<in> set (column_names t) then None else Some (t\<lparr>tb_columns := tb_columns t @ [c]\<rparr>)) s"
| "run_ddl (drop_column tab c) s =
     (if keyed_elsewhere tab c s then None
      else change_table tab (\<lambda>t.
        if c \<in> set (column_names t)
        then Some (t\<lparr>tb_columns := filter (\<lambda>x. co_name x \<noteq> c) (tb_columns t),
                     tb_rules := filter (\<lambda>(_, r). c \<notin> set (rule_columns r)) (tb_rules t),
                     tb_indexes := filter (\<lambda>i. c \<notin> set (ti_columns i)) (tb_indexes t)\<rparr>)
        else None) s)"
| "run_ddl (rename_column tab a b) s =
     Option.bind (change_table tab (\<lambda>t.
        if a \<in> set (column_names t) \<and> b \<notin> set (column_names t)
        then Some (t\<lparr>tb_columns := map (\<lambda>c. c\<lparr>co_name := renamed a b (co_name c)\<rparr>) (tb_columns t),
                     tb_indexes := map (\<lambda>i. i\<lparr>ti_columns := map (renamed a b) (ti_columns i)\<rparr>) (tb_indexes t)\<rparr>)
        else None) s)
      (\<lambda>s. Some (map (\<lambda>(n, t). (n, change_rules (\<lambda>r. n = tab \<or> refers_to tab r) (rename_in_rule tab (n = tab) a b) t)) s))"
| "run_ddl (alter_type tab c ty) s = change_column tab c (\<lambda>x. x\<lparr>co_type := ty\<rparr>) s"
| "run_ddl (alter_default tab c v) s = change_column tab c (\<lambda>x. x\<lparr>co_default := Some v\<rparr>) s"
| "run_ddl (create_constraint n tab r) s = change_table tab (\<lambda>t. add_rule s tab t n r) s"
| "run_ddl (drop_constraint n tab) s = change_table tab (\<lambda>t.
     case dict_get (tb_rules t) n of
       None \<Rightarrow> None
     | Some r \<Rightarrow>
         if makes_index r \<and> key_needed tab (rule_columns r) s then None
         else Some (t\<lparr>tb_rules := filter (\<lambda>(m, _). m \<noteq> n) (tb_rules t)\<rparr>)) s"
| "run_ddl (rename_constraint tab a b) s = change_table tab (\<lambda>t.
     case dict_get (tb_rules t) a of
       None \<Rightarrow> None
     | Some r \<Rightarrow>
         if b \<in> set (map fst (tb_rules t)) \<or> makes_index r \<and> \<not> fresh_relation b s then None
         else Some (t\<lparr>tb_rules := map (\<lambda>(m, r). (renamed a b m, r)) (tb_rules t)\<rparr>)) s"
| "run_ddl (create_index n tab cs uniq cond) s = change_table tab (\<lambda>t.
     if fresh_relation n s \<and> list_all (\<lambda>c. c \<in> set (column_names t)) cs
     then Some (t\<lparr>tb_indexes := tb_indexes t @ [\<lparr>ti_name = n, ti_columns = cs, ti_unique = uniq, ti_where = cond\<rparr>]\<rparr>)
     else None) s"
| "run_ddl (drop_index n tab) s = change_table tab (\<lambda>t.
     if n \<in> set (map ti_name (tb_indexes t))
     then Some (t\<lparr>tb_indexes := filter (\<lambda>i. ti_name i \<noteq> n) (tb_indexes t)\<rparr>) else None) s"
| "run_ddl (rename_index a b) s =
     (if fresh_relation a s \<or> a \<in> set (map fst s) \<or> \<not> fresh_relation b s then None
      else Some (map (\<lambda>(n, t). (n, if a \<in> set (index_names t) then rename_index_of a b t else t)) s))"
| "run_ddl (update_rows tab) s = (if dict_get s tab = None then None else Some s)"

fun run_ddls :: "ddl list \<Rightarrow> schema \<Rightarrow> schema option" where
  "run_ddls [] s = Some s"
| "run_ddls (d # ds) s = Option.bind (run_ddl d s) (run_ddls ds)"

lemma run_ddls_append: "run_ddls (ds @ es) s = Option.bind (run_ddls ds s) (run_ddls es)"
  by (induction ds arbitrary: s) (auto split: bind_splits)

subsection \<open>Comparing schemas\<close>

definition same_set :: "'a list \<Rightarrow> 'a list \<Rightarrow> bool" where
  "same_set xs ys \<longleftrightarrow> list_all (\<lambda>x. x \<in> set ys) xs \<and> list_all (\<lambda>y. y \<in> set xs) ys"

lemma same_set_iff: "same_set xs ys \<longleftrightarrow> set xs = set ys"
  by (auto simp: same_set_def list_all_iff)

text \<open>Rules without a name get the one PostgreSQL gives them.\<close>

definition named_rules :: "string \<Rightarrow> (string option \<times> table_rule) list \<Rightarrow> (string, table_rule) dict" where
  "named_rules tab rules = map (\<lambda>x. (rule_name tab x, snd x)) rules"

subsection \<open>Undoing additions\<close>

text \<open>An operation that only adds is undone by dropping what it added, in the opposite order.\<close>

fun additive :: "ddl \<Rightarrow> bool" where
  "additive (create_table _ _ _) = True"
| "additive (add_column _ _) = True"
| "additive (create_constraint _ _ (Check _)) = True"
| "additive (create_index _ _ _ _ _) = True"
| "additive (update_rows _) = True"
| "additive _ = False"

fun undo :: "ddl \<Rightarrow> ddl list" where
  "undo (create_table tab _ _) = [drop_table tab]"
| "undo (add_column tab c) = [drop_column tab (co_name c)]"
| "undo (create_constraint n tab _) = [drop_constraint n tab]"
| "undo (create_index n tab _ _ _) = [drop_index n tab]"
| "undo _ = []"

text \<open>No table twice, no rule or index on a column that is not there, no foreign key to nowhere.\<close>

fun rule_ok :: "schema \<Rightarrow> string list \<Rightarrow> table_rule \<Rightarrow> bool" where
  "rule_ok s cols (ForeignKey cs target keys _) = (set cs \<subseteq> set cols \<and>
     (case dict_get s target of None \<Rightarrow> False | Some t' \<Rightarrow> set keys \<subseteq> set (column_names t')))"
| "rule_ok s cols r = (set (rule_columns r) \<subseteq> set cols)"

definition table_ok :: "schema \<Rightarrow> table_def \<Rightarrow> bool" where
  "table_ok s t \<longleftrightarrow> (\<forall>x \<in> set (tb_rules t). rule_ok s (column_names t) (snd x)) \<and>
     (\<forall>i \<in> set (tb_indexes t). set (ti_columns i) \<subseteq> set (column_names t))"

definition schema_ok :: "schema \<Rightarrow> bool" where
  "schema_ok s \<longleftrightarrow> distinct (map fst s) \<and> (\<forall>x \<in> set s. table_ok s (snd x))"

lemma rule_ok_columns: "rule_ok s cols r \<Longrightarrow> set (rule_columns r) \<subseteq> set cols"
  by (cases r) auto

lemma has_key_columns:
  assumes "has_key t keys" "\<forall>x \<in> set (tb_rules t). rule_ok s (column_names t) (snd x)"
  shows "set keys \<subseteq> set (column_names t)"
proof -
  obtain n r where "(n, r) \<in> set (tb_rules t)" "rule_columns r = keys"
    using assms(1) by (auto simp: has_key_def list_ex_iff)
  then show ?thesis using assms(2) rule_ok_columns by fastforce
qed

text \<open>A schema grows when its tables keep their columns.\<close>

definition grows :: "schema \<Rightarrow> schema \<Rightarrow> bool" where
  "grows s s' \<longleftrightarrow> (\<forall>n t. dict_get s n = Some t \<longrightarrow>
     (\<exists>t'. dict_get s' n = Some t' \<and> set (column_names t) \<subseteq> set (column_names t')))"

lemma rule_ok_grows:
  assumes "rule_ok s cols r" "grows s s'" "set cols \<subseteq> set cols'"
  shows "rule_ok s' cols' r"
  using assms by (cases r) (fastforce simp: grows_def split: option.splits)+

lemma table_ok_grows: "table_ok s t \<Longrightarrow> grows s s' \<Longrightarrow> table_ok s' t"
  using rule_ok_grows by (fastforce simp: table_ok_def)

lemma dict_get_mem: "dict_get d k = Some v \<Longrightarrow> (k, v) \<in> set d"
  by (simp add: dict_get_def map_of_SomeD)

lemma dict_get_snoc: "k \<notin> set (map fst d) \<Longrightarrow> dict_get (d @ [(k, v)]) k = Some v"
  by (induction d) (auto simp: dict_get_def)

lemma dict_set_mem: "x \<in> set (dict_set d k v) \<Longrightarrow> x = (k, v) \<or> x \<in> set d"
  by (induction d k v rule: dict_set.induct) (auto split: if_splits)

lemma dict_set_back: "dict_get d k = Some v \<Longrightarrow> dict_set (dict_set d k x) k v = d"
  by (induction d k x rule: dict_set.induct) (auto simp: dict_get_def split: if_splits)

lemma schema_ok_get: "schema_ok s \<Longrightarrow> dict_get s n = Some t \<Longrightarrow> table_ok s t"
  by (auto simp: schema_ok_def dest!: dict_get_mem)

lemma grows_set:
  "dict_get s tab = Some t \<Longrightarrow> set (column_names t) \<subseteq> set (column_names t') \<Longrightarrow> grows s (dict_set s tab t')"
  by (auto simp: grows_def)

lemma schema_ok_set:
  assumes "schema_ok s" "dict_get s tab = Some t" "set (column_names t) \<subseteq> set (column_names t')"
    and "table_ok (dict_set s tab t') t'"
  shows "schema_ok (dict_set s tab t')"
proof -
  have "table_ok (dict_set s tab t') (snd x)" if "x \<in> set (dict_set s tab t')" for x
    using dict_set_mem [OF that] assms(1,4) table_ok_grows [OF _ grows_set [OF assms(2,3)]]
    by (auto simp: schema_ok_def)
  then show ?thesis using assms(1) dict_set_distinct by (auto simp: schema_ok_def)
qed

lemma add_rule_ok:
  assumes "schema_ok s" "add_rule s tab t n r = Some t'" "grows s S" "dict_get S tab = Some u" "column_names u = column_names t"
    and "\<forall>x \<in> set (tb_rules t). rule_ok S (column_names t) (snd x)"
  shows "t' = t\<lparr>tb_rules := tb_rules t @ [(n, r)]\<rparr> \<and> rule_ok S (column_names t) r"
proof -
  have t': "t' = t\<lparr>tb_rules := tb_rules t @ [(n, r)]\<rparr>" and c: "set (rule_columns r) \<subseteq> set (column_names t)"
    and f: "target_fits s tab t r"
    using assms(2) by (auto simp: add_rule_def list_all_iff split: if_splits)
  have "rule_ok S (column_names t) r"
  proof (cases r)
    case (ForeignKey cs target keys d)
    have "\<exists>v. dict_get S target = Some v \<and> set keys \<subseteq> set (column_names v)"
    proof (cases "target = tab")
      case True
      then show ?thesis using f ForeignKey assms(4-6) has_key_columns [of t keys S] by auto
    next
      case False
      then obtain v where v: "dict_get s target = Some v" "has_key v keys"
        using f ForeignKey by (auto split: option.splits)
      then have "set keys \<subseteq> set (column_names v)"
        using has_key_columns [of v keys s] schema_ok_get [OF assms(1) v(1)] by (simp add: table_ok_def)
      then show ?thesis using v(1) assms(3) by (fastforce simp: grows_def)
    qed
    then show ?thesis using c ForeignKey by auto
  qed (use c in auto)
  then show ?thesis using t' by blast
qed

lemma add_rules_ok:
  assumes "schema_ok s" "grows s S" "dict_get S tab = Some u"
  shows "add_rules s tab t rules = Some t' \<Longrightarrow> column_names u = column_names t \<Longrightarrow>
    \<forall>x \<in> set (tb_rules t). rule_ok S (column_names t) (snd x) \<Longrightarrow>
    tb_columns t' = tb_columns t \<and> tb_indexes t' = tb_indexes t \<and>
    (\<forall>x \<in> set (tb_rules t'). rule_ok S (column_names t) (snd x))"
proof (induction rules arbitrary: t)
  case (Cons x xs)
  obtain t1 where 1: "add_rule s tab t (rule_name tab x) (snd x) = Some t1" "add_rules s tab t1 xs = Some t'"
    using Cons.prems(1) by (auto split: option.splits)
  note t1 = add_rule_ok [OF assms(1) 1(1) assms(2,3) Cons.prems(2,3)]
  have c: "column_names t1 = column_names t" using t1 by (simp add: column_names_def)
  have "\<forall>x \<in> set (tb_rules t1). rule_ok S (column_names t1) (snd x)" using t1 Cons.prems(3) c by auto
  from Cons.IH [OF 1(2) _ this] Cons.prems(2) show ?case using t1 c by auto
qed simp

lemma created_table:
  assumes "schema_ok s" "run_ddl (create_table tab cols rules) s = Some s'"
  shows "schema_ok s' \<and> run_ddl (drop_table tab) s' = Some s"
proof -
  let ?t0 = "\<lparr>tb_columns = cols, tb_rules = [], tb_indexes = []\<rparr>"
  obtain t where t: "add_rules s tab ?t0 rules = Some t" and s': "s' = s @ [(tab, t)]" and f: "fresh_relation tab s"
    using assms(2) by (auto split: if_splits)
  have new: "tab \<notin> set (map fst s)" using f by (simp add: fresh_relation_def relation_names_def)
  have g: "grows s (s @ [(tab, u)])" for u
    by (auto simp: grows_def dict_get_def)
  have u: "dict_get (s @ [(tab, u)]) tab = Some u" for u
    using new by (simp add: dict_get_snoc)
  have cols: "column_names u = column_names t" if "tb_columns u = tb_columns t" for u
    using that by (simp add: column_names_def)
  have r: "tb_columns t = cols \<and> tb_indexes t = [] \<and> (\<forall>x \<in> set (tb_rules t). rule_ok (s @ [(tab, ?t0)]) (map co_name cols) (snd x))"
    using add_rules_ok [OF assms(1) g [of ?t0] u [of ?t0] t] by (simp add: column_names_def)
  have "grows (s @ [(tab, ?t0)]) s'"
    using r by (auto simp: grows_def s' dict_get_def map_add_def column_names_def split: option.splits if_splits)
  then have "table_ok s' t" using r rule_ok_grows by (fastforce simp: table_ok_def column_names_def)
  then have ok: "schema_ok s'"
    using assms(1) new g table_ok_grows by (auto simp: schema_ok_def s')
  have "\<not> referred tab s'"
  proof
    assume "referred tab s'"
    then obtain n t1 m r1 where x: "(n, t1) \<in> set s" "(m, r1) \<in> set (tb_rules t1)" "refers_to tab r1"
      by (auto simp: referred_def list_ex_iff s')
    then have "rule_ok s (column_names t1) r1" using assms(1) by (fastforce simp: schema_ok_def table_ok_def)
    moreover have "dict_get s tab = None" using new by (simp add: dict_get_def map_of_eq_None_iff)
    ultimately show False using x(3) by (cases r1) (auto simp: refers_to_def)
  qed
  moreover have "filter (\<lambda>(n, _). n \<noteq> tab) s = s" using new by (intro filter_True) force
  ultimately show ?thesis using ok u by (simp add: s')
qed

lemma added_column:
  assumes "schema_ok s" "run_ddl (add_column tab c) s = Some s'"
  shows "schema_ok s' \<and> run_ddl (drop_column tab (co_name c)) s' = Some s"
proof -
  obtain t where t: "dict_get s tab = Some t" "co_name c \<notin> set (column_names t)"
    and s': "s' = dict_set s tab (t\<lparr>tb_columns := tb_columns t @ [c]\<rparr>)" (is "_ = dict_set s tab ?t")
    using assms(2) by (auto simp: change_table_def split: option.splits if_splits)
  have tok: "table_ok s t" by (rule schema_ok_get [OF assms(1) t(1)])
  have sub: "set (column_names t) \<subseteq> set (column_names ?t)" by (auto simp: column_names_def)
  have g: "grows s s'" unfolding s' by (rule grows_set [OF t(1) sub])
  have "table_ok s' ?t"
    using tok rule_ok_grows [OF _ g sub] sub by (fastforce simp: table_ok_def)
  then have ok: "schema_ok s'" using schema_ok_set [OF assms(1) t(1) sub] by (simp add: s')
  have "\<not> keyed_elsewhere tab (co_name c) s'"
  proof
    assume "keyed_elsewhere tab (co_name c) s'"
    then obtain n t1 m cs keys d where x: "(n, t1) \<in> set s'" "n \<noteq> tab" "(m, ForeignKey cs tab keys d) \<in> set (tb_rules t1)"
      "co_name c \<in> set keys"
      by (auto simp: keyed_elsewhere_def list_ex_iff split: table_rule.splits)
    then have "(n, t1) \<in> set s" using dict_set_mem [of "(n, t1)" s tab ?t] by (simp add: s')
    then have "rule_ok s (column_names t1) (ForeignKey cs tab keys d)"
      using assms(1) x(3) by (fastforce simp: schema_ok_def table_ok_def)
    then show False using x(4) t by auto
  qed
  moreover have "filter (\<lambda>x. co_name x \<noteq> co_name c) (tb_columns t) = tb_columns t"
    using t(2) by (intro filter_True ballI notI) (metis column_names_def image_eqI list.set_map)
  moreover have "filter (\<lambda>(_, r). co_name c \<notin> set (rule_columns r)) (tb_rules t) = tb_rules t"
    using tok t(2) rule_ok_columns by (intro filter_True) (fastforce simp: table_ok_def)
  moreover have "filter (\<lambda>i. co_name c \<notin> set (ti_columns i)) (tb_indexes t) = tb_indexes t"
    using tok t(2) by (intro filter_True) (fastforce simp: table_ok_def)
  ultimately show ?thesis
    using ok dict_set_back [OF t(1)] by (simp add: change_table_def s' column_names_def)
qed

lemma added_check:
  assumes "schema_ok s" "run_ddl (create_constraint n tab (Check e)) s = Some s'"
  shows "schema_ok s' \<and> run_ddl (drop_constraint n tab) s' = Some s"
proof -
  obtain t where t: "dict_get s tab = Some t" "n \<notin> set (map fst (tb_rules t))"
    and s': "s' = dict_set s tab (t\<lparr>tb_rules := tb_rules t @ [(n, Check e)]\<rparr>)" (is "_ = dict_set s tab ?t")
    using assms(2) by (auto simp: change_table_def add_rule_def split: option.splits if_splits)
  have tok: "table_ok s t" by (rule schema_ok_get [OF assms(1) t(1)])
  have sub: "set (column_names t) \<subseteq> set (column_names ?t)" by (auto simp: column_names_def)
  have g: "grows s s'" unfolding s' by (rule grows_set [OF t(1) sub])
  have "table_ok s' ?t"
    using tok rule_ok_grows [OF _ g sub] sub by (auto simp: table_ok_def column_names_def)
  then have ok: "schema_ok s'" using schema_ok_set [OF assms(1) t(1) sub] by (simp add: s')
  have "dict_get (tb_rules ?t) n = Some (Check e)"
    using t(2) by (simp add: dict_get_snoc)
  moreover have "filter (\<lambda>(m, _). m \<noteq> n) (tb_rules t) = tb_rules t" using t(2) by (intro filter_True) force
  ultimately show ?thesis
    using ok dict_set_back [OF t(1)] by (simp add: change_table_def s')
qed

lemma added_index:
  assumes "schema_ok s" "run_ddl (create_index n tab cs uniq cond) s = Some s'"
  shows "schema_ok s' \<and> run_ddl (drop_index n tab) s' = Some s"
proof -
  obtain t where t: "dict_get s tab = Some t" and f: "fresh_relation n s" "set cs \<subseteq> set (column_names t)"
    and s': "s' = dict_set s tab (t\<lparr>tb_indexes := tb_indexes t @
      [\<lparr>ti_name = n, ti_columns = cs, ti_unique = uniq, ti_where = cond\<rparr>]\<rparr>)" (is "_ = dict_set s tab ?t")
    using assms(2) by (auto simp: change_table_def list_all_iff split: option.splits if_splits)
  have tok: "table_ok s t" by (rule schema_ok_get [OF assms(1) t])
  have sub: "set (column_names t) \<subseteq> set (column_names ?t)" by (auto simp: column_names_def)
  have g: "grows s s'" unfolding s' by (rule grows_set [OF t sub])
  have "table_ok s' ?t"
    using tok rule_ok_grows [OF _ g sub] sub f(2) by (auto simp: table_ok_def column_names_def)
  then have ok: "schema_ok s'" using schema_ok_set [OF assms(1) t sub] by (simp add: s')
  have "n \<notin> set (map ti_name (tb_indexes t))"
    using f(1) dict_get_mem [OF t] by (force simp: fresh_relation_def relation_names_def index_names_def)
  then have "filter (\<lambda>i. ti_name i \<noteq> n) (tb_indexes t) = tb_indexes t" by (intro filter_True) force
  then show ?thesis
    using ok dict_set_back [OF t] by (simp add: change_table_def s')
qed

lemma undo_one:
  assumes "schema_ok s" "additive d" "run_ddl d s = Some s'"
  shows "schema_ok s' \<and> run_ddls (undo d) s' = Some s"
  using assms created_table [OF assms(1)] added_column [OF assms(1)] added_check [OF assms(1)] added_index [OF assms(1)]
  by (cases d rule: additive.cases) (auto split: if_splits simp del: run_ddl.simps simp add: run_ddl.simps(15))

lemma undo_additive:
  "list_all additive ds \<Longrightarrow> schema_ok s \<Longrightarrow> run_ddls ds s = Some s' \<Longrightarrow>
   schema_ok s' \<and> run_ddls (concat (map undo (rev ds))) s' = Some s"
proof (induction ds arbitrary: s)
  case (Cons d ds)
  then obtain s1 where s1: "run_ddl d s = Some s1" "run_ddls ds s1 = Some s'"
    by (auto split: bind_splits)
  note one = undo_one [OF Cons.prems(2) _ s1(1)]
  show ?case using Cons.IH [OF _ _ s1(2)] Cons.prems(1) one by (auto simp: run_ddls_append)
qed simp

end
