(* ===== verification/Migrations.thy ===== *)
theory Migrations
  imports Schema
begin

section \<open>The migrations\<close>

text \<open>
  Models \<open>hub/migrations/versions\<close>: the schema operations of \<open>upgrade()\<close> and \<open>downgrade()\<close> of every
  revision, and the schema that \<open>hub/timekpr_hub/db/models.py\<close> declares, table by table. A statement that
  only updates rows is \<open>update_rows\<close> here; what the two of them do to the rows is in Migration_Data.
\<close>

subsection \<open>fafdbdc4fd31_initial_schema.py\<close>

definition upgrade_fafdbdc4fd31 :: "ddl list" where
  "upgrade_fafdbdc4fd31 =
    [create_table ''audit_log''
       [Column ''id'' UUID,
        server_default ''now()'' (Column ''ts'' DateTime_Tz),
        Column ''actor_type'' (String 16),
        nullable (Column ''actor_id'' (String 64)),
        Column ''action'' (String 64),
        nullable (Column ''target_type'' (String 64)),
        nullable (Column ''target_id'' (String 64)),
        nullable (Column ''before_json'' JSONB),
        nullable (Column ''after_json'' JSONB),
        nullable (Column ''ip'' (String 64))]
       [(None, PrimaryKey [''id''])],
     create_table ''devices''
       [Column ''id'' UUID,
        Column ''name'' (String 128),
        Column ''hostname'' (String 255),
        Column ''machine_id'' (String 64),
        Column ''token_hash'' (String 64),
        Column ''token_prefix'' (String 12),
        server_default ''pending'' (Column ''status'' (String 16)),
        server_default ''enforce'' (Column ''enforcement'' (String 16)),
        nullable (Column ''agent_version'' (String 32)),
        nullable (Column ''os_info'' (String 255)),
        nullable (Column ''tz'' (String 64)),
        nullable (Column ''clock_skew_ms'' Integer),
        nullable (Column ''ntp_synced'' Boolean),
        server_default ''now()'' (Column ''enrolled_at'' DateTime_Tz),
        nullable (Column ''last_seen_at'' DateTime_Tz),
        nullable (Column ''last_sync_at'' DateTime_Tz)]
       [(Some ''ck_devices_enforcement'', Check (One_Of ''enforcement'' [''enforce'', ''observe''])),
        (Some ''ck_devices_status'', Check (One_Of ''status'' [''pending'', ''active'', ''revoked''])),
        (None, PrimaryKey [''id'']),
        (None, Unique [''token_hash''])],
     create_table ''parents''
       [Column ''id'' UUID,
        Column ''email'' (String 320),
        Column ''password_hash'' (String 255),
        nullable (Column ''totp_secret'' (String 64)),
        server_default ''now()'' (Column ''created_at'' DateTime_Tz)]
       [(None, PrimaryKey [''id'']),
        (None, Unique [''email''])],
     create_table ''users''
       [Column ''id'' UUID,
        Column ''canonical_username'' (String 64),
        Column ''display_name'' (String 128),
        nullable (Column ''current_policy_id'' UUID),
        server_default ''wallclock'' (Column ''accounting_mode'' (String 16)),
        server_default ''capped'' (Column ''offline_policy'' (String 16)),
        server_default ''900'' (Column ''offline_grace_s'' Integer),
        server_default ''1800'' (Column ''offline_cap_s'' Integer),
        server_default ''true'' (Column ''auto_adopt_local_grants'' Boolean),
        server_default ''now()'' (Column ''created_at'' DateTime_Tz)]
       [(Some ''ck_users_accounting_mode'', Check (One_Of ''accounting_mode'' [''wallclock'', ''parallel''])),
        (Some ''ck_users_offline_policy'', Check (One_Of ''offline_policy'' [''open'', ''capped'', ''closed''])),
        (None, PrimaryKey [''id'']),
        (None, Unique [''canonical_username''])],
     create_table ''activity_intervals''
       [Column ''id'' UUID,
        Column ''user_id'' UUID,
        Column ''device_id'' UUID,
        Column ''day'' Date,
        Column ''span'' TSTZRANGE,
        Column ''window_end_ts'' DateTime_Tz]
       [(None, ForeignKey [''device_id''] ''devices'' [''id''] Cascade),
        (None, ForeignKey [''user_id''] ''users'' [''id''] Cascade),
        (None, PrimaryKey [''id'']),
        (Some ''uq_activity_intervals_device_window'', Unique [''device_id'', ''window_end_ts''])],
     create_table ''alerts''
       [Column ''id'' UUID,
        nullable (Column ''user_id'' UUID),
        nullable (Column ''device_id'' UUID),
        Column ''kind'' (String 64),
        server_default ''info'' (Column ''severity'' (String 16)),
        Column ''message'' (String 500),
        server_default ''now()'' (Column ''created_at'' DateTime_Tz),
        nullable (Column ''acked_at'' DateTime_Tz)]
       [(None, ForeignKey [''device_id''] ''devices'' [''id''] Cascade),
        (None, ForeignKey [''user_id''] ''users'' [''id''] Cascade),
        (None, PrimaryKey [''id''])],
     create_table ''enrollment_codes''
       [Column ''code'' (String 16),
        Column ''expires_at'' DateTime_Tz,
        nullable (Column ''used_at'' DateTime_Tz),
        nullable (Column ''used_by_device_id'' UUID),
        server_default ''now()'' (Column ''created_at'' DateTime_Tz)]
       [(None, ForeignKey [''used_by_device_id''] ''devices'' [''id''] No_Action),
        (None, PrimaryKey [''code''])],
     create_table ''grants''
       [Column ''id'' UUID,
        Column ''user_id'' UUID,
        Column ''day'' Date,
        Column ''seconds'' Integer,
        nullable (Column ''reason'' (String 255)),
        Column ''source'' (String 24),
        nullable (Column ''granted_by'' (String 64)),
        server_default ''now()'' (Column ''created_at'' DateTime_Tz)]
       [(Some ''ck_grants_source'', Check (One_Of ''source'' [''parent'', ''local_timekpra'', ''auto_carryover''])),
        (None, ForeignKey [''user_id''] ''users'' [''id''] Cascade),
        (None, PrimaryKey [''id''])],
     create_table ''parent_sessions''
       [Column ''id'' UUID,
        Column ''parent_id'' UUID,
        Column ''token_hash'' (String 64),
        Column ''expires_at'' DateTime_Tz,
        nullable (Column ''ip'' (String 64)),
        nullable (Column ''user_agent'' (String 255)),
        server_default ''now()'' (Column ''created_at'' DateTime_Tz)]
       [(None, ForeignKey [''parent_id''] ''parents'' [''id''] Cascade),
        (None, PrimaryKey [''id'']),
        (None, Unique [''token_hash''])],
     create_table ''policies''
       [Column ''id'' UUID,
        Column ''user_id'' UUID,
        Column ''version'' Integer,
        server_default ''now()'' (Column ''created_at'' DateTime_Tz),
        nullable (Column ''created_by'' (String 64)),
        Column ''daily_limits_json'' JSONB,
        Column ''allowed_hours_json'' JSONB,
        Column ''allowed_weekdays_json'' JSONB,
        Column ''weekly_limit_s'' Integer,
        Column ''monthly_limit_s'' Integer,
        server_default ''lock'' (Column ''lockout_type'' (String 16)),
        nullable (Column ''wake_from'' (String 8)),
        nullable (Column ''wake_to'' (String 8)),
        server_default ''false'' (Column ''track_inactive'' Boolean),
        nullable (Column ''note'' (String 500))]
       [(None, ForeignKey [''user_id''] ''users'' [''id''] Cascade),
        (None, PrimaryKey [''id'']),
        (Some ''uq_policies_user_version'', Unique [''user_id'', ''version''])],
     create_table ''usage_counters''
       [Column ''user_id'' UUID,
        Column ''device_id'' UUID,
        Column ''day'' Date,
        server_default ''0'' (Column ''spent_seconds'' BigInteger),
        nullable (Column ''raw_balance_s'' BigInteger),
        nullable (Column ''raw_limit_today_s'' BigInteger),
        server_default ''now()'' (Column ''updated_at'' DateTime_Tz)]
       [(None, ForeignKey [''device_id''] ''devices'' [''id''] Cascade),
        (None, ForeignKey [''user_id''] ''users'' [''id''] Cascade),
        (None, PrimaryKey [''user_id'', ''device_id'', ''day''])],
     create_table ''user_aliases''
       [Column ''id'' UUID,
        Column ''user_id'' UUID,
        Column ''device_id'' UUID,
        Column ''local_username'' (String 64)]
       [(None, ForeignKey [''device_id''] ''devices'' [''id''] Cascade),
        (None, ForeignKey [''user_id''] ''users'' [''id''] Cascade),
        (None, PrimaryKey [''id'']),
        (Some ''uq_user_aliases_device_local'', Unique [''device_id'', ''local_username''])]]"

definition downgrade_fafdbdc4fd31 :: "ddl list" where
  "downgrade_fafdbdc4fd31 =
    [drop_table ''user_aliases'',
     drop_table ''usage_counters'',
     drop_table ''policies'',
     drop_table ''parent_sessions'',
     drop_table ''grants'',
     drop_table ''enrollment_codes'',
     drop_table ''alerts'',
     drop_table ''activity_intervals'',
     drop_table ''users'',
     drop_table ''parents'',
     drop_table ''devices'',
     drop_table ''audit_log'']"

subsection \<open>8f3c2a1e9b04_activity_state_indexes_machine_id.py\<close>

definition upgrade_8f3c2a1e9b04 :: "ddl list" where
  "upgrade_8f3c2a1e9b04 =
    [add_column ''usage_counters'' (nullable (Column ''activity_state'' (String 16))),
     create_index ''ix_usage_counters_user_day'' ''usage_counters'' [''user_id'', ''day''] False None,
     create_index ''ix_activity_intervals_user_day'' ''activity_intervals'' [''user_id'', ''day''] False None,
     create_index ''ix_grants_user_day'' ''grants'' [''user_id'', ''day''] False None,
     update_rows ''devices'',
     create_index ''uq_devices_machine_id_live'' ''devices'' [''machine_id''] True (Some (Differs ''status'' ''revoked''))]"

definition downgrade_8f3c2a1e9b04 :: "ddl list" where
  "downgrade_8f3c2a1e9b04 =
    [drop_index ''uq_devices_machine_id_live'' ''devices'',
     drop_index ''ix_grants_user_day'' ''grants'',
     drop_index ''ix_activity_intervals_user_day'' ''activity_intervals'',
     drop_index ''ix_usage_counters_user_day'' ''usage_counters'',
     drop_column ''usage_counters'' ''activity_state'']"

subsection \<open>3f9a1c7d4e21_enrollment_codes_device_fk_set_null.py\<close>

definition upgrade_3f9a1c7d4e21 :: "ddl list" where
  "upgrade_3f9a1c7d4e21 =
    [drop_constraint ''enrollment_codes_used_by_device_id_fkey'' ''enrollment_codes'',
     create_constraint ''enrollment_codes_used_by_device_id_fkey'' ''enrollment_codes''
        (ForeignKey [''used_by_device_id''] ''devices'' [''id''] Set_Null)]"

definition downgrade_3f9a1c7d4e21 :: "ddl list" where
  "downgrade_3f9a1c7d4e21 =
    [drop_constraint ''enrollment_codes_used_by_device_id_fkey'' ''enrollment_codes'',
     create_constraint ''enrollment_codes_used_by_device_id_fkey'' ''enrollment_codes''
        (ForeignKey [''used_by_device_id''] ''devices'' [''id''] No_Action)]"

subsection \<open>5fe40acd11d9_policy_playtime_hide_tray_lockout_check.py\<close>

definition upgrade_5fe40acd11d9 :: "ddl list" where
  "upgrade_5fe40acd11d9 =
    [add_column ''policies'' (server_default ''false'' (Column ''hide_tray_icon'' Boolean)),
     add_column ''policies'' (server_default ''false'' (Column ''playtime_enabled'' Boolean)),
     add_column ''policies'' (server_default ''false'' (Column ''playtime_override_enabled'' Boolean)),
     add_column ''policies'' (server_default ''true'' (Column ''playtime_unaccounted_intervals_enabled'' Boolean)),
     add_column ''policies'' (server_default ''[\"1\", \"2\", \"3\", \"4\", \"5\", \"6\", \"7\"]''
        (Column ''playtime_allowed_weekdays_json'' JSONB)),
     add_column ''policies'' (server_default ''[0, 0, 0, 0, 0, 0, 0]'' (Column ''playtime_daily_limits_json'' JSONB)),
     add_column ''policies'' (server_default ''[]'' (Column ''playtime_activities_json'' JSONB)),
     create_constraint ''ck_policies_lockout_type'' ''policies''
        (Check (One_Of ''lockout_type'' [''lock'', ''suspend'', ''suspendwake'', ''terminate'', ''kill'', ''shutdown'']))]"

definition downgrade_5fe40acd11d9 :: "ddl list" where
  "downgrade_5fe40acd11d9 =
    [drop_constraint ''ck_policies_lockout_type'' ''policies'',
     drop_column ''policies'' ''playtime_activities_json'',
     drop_column ''policies'' ''playtime_daily_limits_json'',
     drop_column ''policies'' ''playtime_allowed_weekdays_json'',
     drop_column ''policies'' ''playtime_unaccounted_intervals_enabled'',
     drop_column ''policies'' ''playtime_override_enabled'',
     drop_column ''policies'' ''playtime_enabled'',
     drop_column ''policies'' ''hide_tray_icon'']"

subsection \<open>7c1b9e0a2d34_chore_gate_and_day_overrides.py\<close>

definition upgrade_7c1b9e0a2d34 :: "ddl list" where
  "upgrade_7c1b9e0a2d34 =
    [add_column ''users'' (server_default ''[]'' (Column ''gated_weekdays_json'' JSONB)),
     create_table ''day_overrides''
       [Column ''id'' UUID,
        Column ''user_id'' UUID,
        Column ''day'' Date,
        Column ''limit_seconds'' Integer,
        nullable (Column ''reason'' (String 255)),
        nullable (Column ''created_by'' (String 64)),
        server_default ''now()'' (Column ''created_at'' DateTime_Tz)]
       [(Some ''ck_day_overrides_limit_seconds'', Check (In_Range ''limit_seconds'' 0 86400)),
        (None, ForeignKey [''user_id''] ''users'' [''id''] Cascade),
        (None, PrimaryKey [''id'']),
        (Some ''uq_day_overrides_user_day'', Unique [''user_id'', ''day''])],
     create_index ''ix_day_overrides_user_day'' ''day_overrides'' [''user_id'', ''day''] False None,
     create_table ''gate_releases''
       [Column ''id'' UUID,
        Column ''user_id'' UUID,
        Column ''day'' Date,
        nullable (Column ''released_by'' (String 64)),
        server_default ''now()'' (Column ''released_at'' DateTime_Tz),
        nullable (Column ''note'' (String 255))]
       [(None, ForeignKey [''user_id''] ''users'' [''id''] Cascade),
        (None, PrimaryKey [''id'']),
        (Some ''uq_gate_releases_user_day'', Unique [''user_id'', ''day''])],
     create_index ''ix_gate_releases_user_day'' ''gate_releases'' [''user_id'', ''day''] False None]"

definition downgrade_7c1b9e0a2d34 :: "ddl list" where
  "downgrade_7c1b9e0a2d34 =
    [drop_index ''ix_gate_releases_user_day'' ''gate_releases'',
     drop_table ''gate_releases'',
     drop_index ''ix_day_overrides_user_day'' ''day_overrides'',
     drop_table ''day_overrides'',
     drop_column ''users'' ''gated_weekdays_json'']"

subsection \<open>abfbdcbbb0e4_day_hour_overrides.py\<close>

definition upgrade_abfbdcbbb0e4 :: "ddl list" where
  "upgrade_abfbdcbbb0e4 =
    [create_table ''day_hour_overrides''
       [Column ''id'' UUID,
        Column ''user_id'' UUID,
        Column ''day'' Date,
        Column ''intervals_json'' JSONB,
        nullable (Column ''reason'' (String 255)),
        nullable (Column ''created_by'' (String 64)),
        server_default ''now()'' (Column ''created_at'' DateTime_Tz)]
       [(Some ''ck_day_hour_overrides_nonempty'', Check (Array_Nonempty ''intervals_json'')),
        (None, ForeignKey [''user_id''] ''users'' [''id''] Cascade),
        (None, PrimaryKey [''id'']),
        (Some ''uq_day_hour_overrides_user_day'', Unique [''user_id'', ''day''])],
     create_index ''ix_day_hour_overrides_user_day'' ''day_hour_overrides'' [''user_id'', ''day''] False None]"

definition downgrade_abfbdcbbb0e4 :: "ddl list" where
  "downgrade_abfbdcbbb0e4 =
    [drop_index ''ix_day_hour_overrides_user_day'' ''day_hour_overrides'',
     drop_table ''day_hour_overrides'']"

subsection \<open>a8a6c9dd2e83_resolve_partial_features.py\<close>

definition upgrade_a8a6c9dd2e83 :: "ddl list" where
  "upgrade_a8a6c9dd2e83 =
    [drop_constraint ''ck_devices_status'' ''devices'',
     create_constraint ''ck_devices_status'' ''devices'' (Check (One_Of ''status'' [''active'', ''revoked''])),
     alter_default ''devices'' ''status'' ''active'',
     drop_table ''alerts'',
     drop_column ''users'' ''auto_adopt_local_grants'',
     drop_constraint ''ck_grants_source'' ''grants'',
     create_constraint ''ck_grants_source'' ''grants'' (Check (One_Of ''source'' [''parent''])),
     drop_column ''parents'' ''totp_secret'',
     alter_type ''devices'' ''clock_skew_ms'' BigInteger,
     drop_column ''devices'' ''ntp_synced'',
     drop_column ''usage_counters'' ''raw_balance_s'',
     drop_column ''usage_counters'' ''raw_limit_today_s'',
     drop_column ''devices'' ''hostname'',
     drop_column ''devices'' ''os_info'',
     drop_column ''devices'' ''tz'',
     drop_column ''devices'' ''token_prefix'']"

definition downgrade_a8a6c9dd2e83 :: "ddl list" where
  "downgrade_a8a6c9dd2e83 =
    [add_column ''devices'' (nullable (Column ''token_prefix'' (String 12))),
     add_column ''devices'' (nullable (Column ''tz'' (String 64))),
     add_column ''devices'' (nullable (Column ''os_info'' (String 255))),
     add_column ''devices'' (nullable (Column ''hostname'' (String 255))),
     add_column ''usage_counters'' (nullable (Column ''raw_limit_today_s'' BigInteger)),
     add_column ''usage_counters'' (nullable (Column ''raw_balance_s'' BigInteger)),
     add_column ''devices'' (nullable (Column ''ntp_synced'' Boolean)),
     alter_type ''devices'' ''clock_skew_ms'' Integer,
     add_column ''parents'' (nullable (Column ''totp_secret'' (String 64))),
     drop_constraint ''ck_grants_source'' ''grants'',
     create_constraint ''ck_grants_source'' ''grants''
        (Check (One_Of ''source'' [''parent'', ''local_timekpra'', ''auto_carryover''])),
     add_column ''users'' (server_default ''true'' (Column ''auto_adopt_local_grants'' Boolean)),
     create_table ''alerts''
       [Column ''id'' UUID,
        nullable (Column ''user_id'' UUID),
        nullable (Column ''device_id'' UUID),
        Column ''kind'' (String 64),
        server_default ''info'' (Column ''severity'' (String 16)),
        Column ''message'' (String 500),
        server_default ''now()'' (Column ''created_at'' DateTime_Tz),
        nullable (Column ''acked_at'' DateTime_Tz)]
       [(None, ForeignKey [''user_id''] ''users'' [''id''] Cascade),
        (None, ForeignKey [''device_id''] ''devices'' [''id''] Cascade),
        (None, PrimaryKey [''id''])],
     alter_default ''devices'' ''status'' ''pending'',
     drop_constraint ''ck_devices_status'' ''devices'',
     create_constraint ''ck_devices_status'' ''devices'' (Check (One_Of ''status'' [''pending'', ''active'', ''revoked'']))]"

subsection \<open>c42766a96319_parent_invites.py\<close>

definition upgrade_c42766a96319 :: "ddl list" where
  "upgrade_c42766a96319 =
    [create_table ''parent_invites''
       [Column ''token'' (String 64),
        Column ''expires_at'' DateTime_Tz,
        nullable (Column ''used_at'' DateTime_Tz),
        nullable (Column ''created_by_parent_id'' UUID),
        server_default ''now()'' (Column ''created_at'' DateTime_Tz)]
       [(None, ForeignKey [''created_by_parent_id''] ''parents'' [''id''] Set_Null),
        (None, PrimaryKey [''token''])]]"

definition downgrade_c42766a96319 :: "ddl list" where
  "downgrade_c42766a96319 =
    [drop_table ''parent_invites'']"

subsection \<open>69c5b4a08d94_rename_parent_to_admin.py\<close>

definition upgrade_69c5b4a08d94 :: "ddl list" where
  "upgrade_69c5b4a08d94 =
    [rename_table ''parents'' ''admins'',
     rename_table ''parent_sessions'' ''admin_sessions'',
     rename_column ''admin_sessions'' ''parent_id'' ''admin_id'',
     rename_table ''parent_invites'' ''admin_invites'',
     rename_column ''admin_invites'' ''created_by_parent_id'' ''created_by_admin_id'',
     rename_index ''parents_pkey'' ''admins_pkey'',
     rename_constraint ''admins'' ''parents_email_key'' ''admins_email_key'',
     rename_index ''parent_sessions_pkey'' ''admin_sessions_pkey'',
     rename_constraint ''admin_sessions'' ''parent_sessions_token_hash_key'' ''admin_sessions_token_hash_key'',
     rename_constraint ''admin_sessions'' ''parent_sessions_parent_id_fkey'' ''admin_sessions_admin_id_fkey'',
     rename_constraint ''admin_invites'' ''parent_invites_pkey'' ''admin_invites_pkey'',
     rename_constraint ''admin_invites'' ''parent_invites_created_by_parent_id_fkey''
       ''admin_invites_created_by_admin_id_fkey'',
     update_rows ''audit_log'',
     update_rows ''audit_log'',
     update_rows ''audit_log'',
     drop_constraint ''ck_grants_source'' ''grants'',
     update_rows ''grants'',
     create_constraint ''ck_grants_source'' ''grants'' (Check (One_Of ''source'' [''admin'']))]"

definition downgrade_69c5b4a08d94 :: "ddl list" where
  "downgrade_69c5b4a08d94 =
    [drop_constraint ''ck_grants_source'' ''grants'',
     update_rows ''grants'',
     create_constraint ''ck_grants_source'' ''grants'' (Check (One_Of ''source'' [''parent''])),
     update_rows ''audit_log'',
     update_rows ''audit_log'',
     update_rows ''audit_log'',
     rename_constraint ''admin_invites'' ''admin_invites_created_by_admin_id_fkey''
       ''parent_invites_created_by_parent_id_fkey'',
     rename_constraint ''admin_invites'' ''admin_invites_pkey'' ''parent_invites_pkey'',
     rename_constraint ''admin_sessions'' ''admin_sessions_admin_id_fkey'' ''parent_sessions_parent_id_fkey'',
     rename_constraint ''admin_sessions'' ''admin_sessions_token_hash_key'' ''parent_sessions_token_hash_key'',
     rename_index ''admin_sessions_pkey'' ''parent_sessions_pkey'',
     rename_constraint ''admins'' ''admins_email_key'' ''parents_email_key'',
     rename_index ''admins_pkey'' ''parents_pkey'',
     rename_column ''admin_invites'' ''created_by_admin_id'' ''created_by_parent_id'',
     rename_table ''admin_invites'' ''parent_invites'',
     rename_column ''admin_sessions'' ''admin_id'' ''parent_id'',
     rename_table ''admin_sessions'' ''parent_sessions'',
     rename_table ''admins'' ''parents'']"

subsection \<open>b4d1e7a90c32_user_alias_policy_push_error.py\<close>

definition upgrade_b4d1e7a90c32 :: "ddl list" where
  "upgrade_b4d1e7a90c32 =
    [add_column ''user_aliases'' (nullable (Column ''policy_push_error'' (String 256))),
     add_column ''user_aliases'' (nullable (Column ''policy_push_error_at'' DateTime_Tz))]"

definition downgrade_b4d1e7a90c32 :: "ddl list" where
  "downgrade_b4d1e7a90c32 =
    [drop_column ''user_aliases'' ''policy_push_error_at'',
     drop_column ''user_aliases'' ''policy_push_error'']"
subsection \<open>The history\<close>

record revision =
  rv_id :: string
  rv_down :: "string option"
  rv_upgrade :: "ddl list"
  rv_downgrade :: "ddl list"

definition rev_fafdbdc4fd31 :: revision where
  "rev_fafdbdc4fd31 = \<lparr>rv_id = ''fafdbdc4fd31'', rv_down = None, rv_upgrade = upgrade_fafdbdc4fd31, rv_downgrade = downgrade_fafdbdc4fd31\<rparr>"

definition rev_8f3c2a1e9b04 :: revision where
  "rev_8f3c2a1e9b04 = \<lparr>rv_id = ''8f3c2a1e9b04'', rv_down = Some ''fafdbdc4fd31'', rv_upgrade = upgrade_8f3c2a1e9b04, rv_downgrade = downgrade_8f3c2a1e9b04\<rparr>"

definition rev_3f9a1c7d4e21 :: revision where
  "rev_3f9a1c7d4e21 = \<lparr>rv_id = ''3f9a1c7d4e21'', rv_down = Some ''8f3c2a1e9b04'', rv_upgrade = upgrade_3f9a1c7d4e21, rv_downgrade = downgrade_3f9a1c7d4e21\<rparr>"

definition rev_5fe40acd11d9 :: revision where
  "rev_5fe40acd11d9 = \<lparr>rv_id = ''5fe40acd11d9'', rv_down = Some ''3f9a1c7d4e21'', rv_upgrade = upgrade_5fe40acd11d9, rv_downgrade = downgrade_5fe40acd11d9\<rparr>"

definition rev_7c1b9e0a2d34 :: revision where
  "rev_7c1b9e0a2d34 = \<lparr>rv_id = ''7c1b9e0a2d34'', rv_down = Some ''5fe40acd11d9'', rv_upgrade = upgrade_7c1b9e0a2d34, rv_downgrade = downgrade_7c1b9e0a2d34\<rparr>"

definition rev_abfbdcbbb0e4 :: revision where
  "rev_abfbdcbbb0e4 = \<lparr>rv_id = ''abfbdcbbb0e4'', rv_down = Some ''7c1b9e0a2d34'', rv_upgrade = upgrade_abfbdcbbb0e4, rv_downgrade = downgrade_abfbdcbbb0e4\<rparr>"

definition rev_a8a6c9dd2e83 :: revision where
  "rev_a8a6c9dd2e83 = \<lparr>rv_id = ''a8a6c9dd2e83'', rv_down = Some ''abfbdcbbb0e4'', rv_upgrade = upgrade_a8a6c9dd2e83, rv_downgrade = downgrade_a8a6c9dd2e83\<rparr>"

definition rev_c42766a96319 :: revision where
  "rev_c42766a96319 = \<lparr>rv_id = ''c42766a96319'', rv_down = Some ''a8a6c9dd2e83'', rv_upgrade = upgrade_c42766a96319, rv_downgrade = downgrade_c42766a96319\<rparr>"

definition rev_69c5b4a08d94 :: revision where
  "rev_69c5b4a08d94 = \<lparr>rv_id = ''69c5b4a08d94'', rv_down = Some ''c42766a96319'', rv_upgrade = upgrade_69c5b4a08d94, rv_downgrade = downgrade_69c5b4a08d94\<rparr>"

definition rev_b4d1e7a90c32 :: revision where
  "rev_b4d1e7a90c32 = \<lparr>rv_id = ''b4d1e7a90c32'', rv_down = Some ''69c5b4a08d94'', rv_upgrade = upgrade_b4d1e7a90c32, rv_downgrade = downgrade_b4d1e7a90c32\<rparr>"

text \<open>The files of the directory, in no particular order: what comes next is the revision that names the current one.\<close>

definition versions :: "revision list" where
  "versions = [rev_3f9a1c7d4e21, rev_5fe40acd11d9, rev_69c5b4a08d94, rev_7c1b9e0a2d34, rev_8f3c2a1e9b04, rev_a8a6c9dd2e83, rev_abfbdcbbb0e4, rev_b4d1e7a90c32, rev_c42766a96319, rev_fafdbdc4fd31]"

subsection \<open>The declared schema\<close>

definition orm_admins :: "ddl list" where
  "orm_admins =
    [create_table ''admins''
       [Column ''id'' UUID,
        Column ''email'' (String 320),
        Column ''password_hash'' (String 255),
        server_default ''now()'' (Column ''created_at'' DateTime_Tz)]
       [(None, PrimaryKey [''id'']),
        (None, Unique [''email''])]]"

definition orm_admin_sessions :: "ddl list" where
  "orm_admin_sessions =
    [create_table ''admin_sessions''
       [Column ''id'' UUID,
        Column ''admin_id'' UUID,
        Column ''token_hash'' (String 64),
        Column ''expires_at'' DateTime_Tz,
        nullable (Column ''ip'' (String 64)),
        nullable (Column ''user_agent'' (String 255)),
        server_default ''now()'' (Column ''created_at'' DateTime_Tz)]
       [(None, PrimaryKey [''id'']),
        (None, Unique [''token_hash'']),
        (None, ForeignKey [''admin_id''] ''admins'' [''id''] Cascade)]]"

definition orm_admin_invites :: "ddl list" where
  "orm_admin_invites =
    [create_table ''admin_invites''
       [Column ''token'' (String 64),
        Column ''expires_at'' DateTime_Tz,
        nullable (Column ''used_at'' DateTime_Tz),
        nullable (Column ''created_by_admin_id'' UUID),
        server_default ''now()'' (Column ''created_at'' DateTime_Tz)]
       [(None, PrimaryKey [''token'']),
        (None, ForeignKey [''created_by_admin_id''] ''admins'' [''id''] Set_Null)]]"

definition orm_users :: "ddl list" where
  "orm_users =
    [create_table ''users''
       [Column ''id'' UUID,
        Column ''canonical_username'' (String 64),
        Column ''display_name'' (String 128),
        nullable (Column ''current_policy_id'' UUID),
        server_default ''wallclock'' (Column ''accounting_mode'' (String 16)),
        server_default ''capped'' (Column ''offline_policy'' (String 16)),
        server_default ''900'' (Column ''offline_grace_s'' Integer),
        server_default ''1800'' (Column ''offline_cap_s'' Integer),
        Column ''gated_weekdays_json'' JSONB,
        server_default ''now()'' (Column ''created_at'' DateTime_Tz)]
       [(None, PrimaryKey [''id'']),
        (None, Unique [''canonical_username'']),
        (Some ''ck_users_accounting_mode'', Check (One_Of ''accounting_mode'' [''wallclock'', ''parallel''])),
        (Some ''ck_users_offline_policy'', Check (One_Of ''offline_policy'' [''open'', ''capped'', ''closed'']))]]"

definition orm_user_aliases :: "ddl list" where
  "orm_user_aliases =
    [create_table ''user_aliases''
       [Column ''id'' UUID,
        Column ''user_id'' UUID,
        Column ''device_id'' UUID,
        Column ''local_username'' (String 64),
        nullable (Column ''policy_push_error'' (String 256)),
        nullable (Column ''policy_push_error_at'' DateTime_Tz)]
       [(None, PrimaryKey [''id'']),
        (None, ForeignKey [''user_id''] ''users'' [''id''] Cascade),
        (None, ForeignKey [''device_id''] ''devices'' [''id''] Cascade),
        (Some ''uq_user_aliases_device_local'', Unique [''device_id'', ''local_username''])]]"

definition orm_devices :: "ddl list" where
  "orm_devices =
    [create_table ''devices''
       [Column ''id'' UUID,
        Column ''name'' (String 128),
        Column ''machine_id'' (String 64),
        Column ''token_hash'' (String 64),
        server_default ''active'' (Column ''status'' (String 16)),
        server_default ''enforce'' (Column ''enforcement'' (String 16)),
        nullable (Column ''agent_version'' (String 32)),
        nullable (Column ''clock_skew_ms'' BigInteger),
        server_default ''now()'' (Column ''enrolled_at'' DateTime_Tz),
        nullable (Column ''last_seen_at'' DateTime_Tz),
        nullable (Column ''last_sync_at'' DateTime_Tz)]
       [(None, PrimaryKey [''id'']),
        (None, Unique [''token_hash'']),
        (Some ''ck_devices_status'', Check (One_Of ''status'' [''active'', ''revoked''])),
        (Some ''ck_devices_enforcement'', Check (One_Of ''enforcement'' [''enforce'', ''observe'']))],
     create_index ''uq_devices_machine_id_live'' ''devices'' [''machine_id''] True (Some (Differs ''status'' ''revoked''))]"

definition orm_policies :: "ddl list" where
  "orm_policies =
    [create_table ''policies''
       [Column ''id'' UUID,
        Column ''user_id'' UUID,
        Column ''version'' Integer,
        server_default ''now()'' (Column ''created_at'' DateTime_Tz),
        nullable (Column ''created_by'' (String 64)),
        Column ''daily_limits_json'' JSONB,
        Column ''allowed_hours_json'' JSONB,
        Column ''allowed_weekdays_json'' JSONB,
        Column ''weekly_limit_s'' Integer,
        Column ''monthly_limit_s'' Integer,
        server_default ''lock'' (Column ''lockout_type'' (String 16)),
        nullable (Column ''wake_from'' (String 8)),
        nullable (Column ''wake_to'' (String 8)),
        server_default ''false'' (Column ''track_inactive'' Boolean),
        server_default ''false'' (Column ''hide_tray_icon'' Boolean),
        server_default ''false'' (Column ''playtime_enabled'' Boolean),
        server_default ''false'' (Column ''playtime_override_enabled'' Boolean),
        server_default ''true'' (Column ''playtime_unaccounted_intervals_enabled'' Boolean),
        Column ''playtime_allowed_weekdays_json'' JSONB,
        Column ''playtime_daily_limits_json'' JSONB,
        Column ''playtime_activities_json'' JSONB,
        nullable (Column ''note'' (String 500))]
       [(None, PrimaryKey [''id'']),
        (None, ForeignKey [''user_id''] ''users'' [''id''] Cascade),
        (Some ''uq_policies_user_version'', Unique [''user_id'', ''version'']),
        (Some ''ck_policies_lockout_type'', Check (One_Of ''lockout_type'' [''lock'', ''suspend'', ''suspendwake'', ''terminate'', ''kill'', ''shutdown'']))]]"

definition orm_usage_counters :: "ddl list" where
  "orm_usage_counters =
    [create_table ''usage_counters''
       [Column ''user_id'' UUID,
        Column ''device_id'' UUID,
        Column ''day'' Date,
        server_default ''0'' (Column ''spent_seconds'' BigInteger),
        nullable (Column ''activity_state'' (String 16)),
        server_default ''now()'' (Column ''updated_at'' DateTime_Tz)]
       [(None, PrimaryKey [''user_id'', ''device_id'', ''day'']),
        (None, ForeignKey [''user_id''] ''users'' [''id''] Cascade),
        (None, ForeignKey [''device_id''] ''devices'' [''id''] Cascade)],
     create_index ''ix_usage_counters_user_day'' ''usage_counters'' [''user_id'', ''day''] False None]"

definition orm_activity_intervals :: "ddl list" where
  "orm_activity_intervals =
    [create_table ''activity_intervals''
       [Column ''id'' UUID,
        Column ''user_id'' UUID,
        Column ''device_id'' UUID,
        Column ''day'' Date,
        Column ''span'' TSTZRANGE,
        Column ''window_end_ts'' DateTime_Tz]
       [(None, PrimaryKey [''id'']),
        (None, ForeignKey [''user_id''] ''users'' [''id''] Cascade),
        (None, ForeignKey [''device_id''] ''devices'' [''id''] Cascade),
        (Some ''uq_activity_intervals_device_window'', Unique [''device_id'', ''window_end_ts''])],
     create_index ''ix_activity_intervals_user_day'' ''activity_intervals'' [''user_id'', ''day''] False None]"

definition orm_grants :: "ddl list" where
  "orm_grants =
    [create_table ''grants''
       [Column ''id'' UUID,
        Column ''user_id'' UUID,
        Column ''day'' Date,
        Column ''seconds'' Integer,
        nullable (Column ''reason'' (String 255)),
        Column ''source'' (String 24),
        nullable (Column ''granted_by'' (String 64)),
        server_default ''now()'' (Column ''created_at'' DateTime_Tz)]
       [(None, PrimaryKey [''id'']),
        (None, ForeignKey [''user_id''] ''users'' [''id''] Cascade),
        (Some ''ck_grants_source'', Check (One_Of ''source'' [''admin'']))],
     create_index ''ix_grants_user_day'' ''grants'' [''user_id'', ''day''] False None]"

definition orm_day_overrides :: "ddl list" where
  "orm_day_overrides =
    [create_table ''day_overrides''
       [Column ''id'' UUID,
        Column ''user_id'' UUID,
        Column ''day'' Date,
        Column ''limit_seconds'' Integer,
        nullable (Column ''reason'' (String 255)),
        nullable (Column ''created_by'' (String 64)),
        server_default ''now()'' (Column ''created_at'' DateTime_Tz)]
       [(None, PrimaryKey [''id'']),
        (None, ForeignKey [''user_id''] ''users'' [''id''] Cascade),
        (Some ''uq_day_overrides_user_day'', Unique [''user_id'', ''day'']),
        (Some ''ck_day_overrides_limit_seconds'', Check (In_Range ''limit_seconds'' 0 86400))],
     create_index ''ix_day_overrides_user_day'' ''day_overrides'' [''user_id'', ''day''] False None]"

definition orm_day_hour_overrides :: "ddl list" where
  "orm_day_hour_overrides =
    [create_table ''day_hour_overrides''
       [Column ''id'' UUID,
        Column ''user_id'' UUID,
        Column ''day'' Date,
        Column ''intervals_json'' JSONB,
        nullable (Column ''reason'' (String 255)),
        nullable (Column ''created_by'' (String 64)),
        server_default ''now()'' (Column ''created_at'' DateTime_Tz)]
       [(None, PrimaryKey [''id'']),
        (None, ForeignKey [''user_id''] ''users'' [''id''] Cascade),
        (Some ''uq_day_hour_overrides_user_day'', Unique [''user_id'', ''day'']),
        (Some ''ck_day_hour_overrides_nonempty'', Check (Array_Nonempty ''intervals_json''))],
     create_index ''ix_day_hour_overrides_user_day'' ''day_hour_overrides'' [''user_id'', ''day''] False None]"

definition orm_gate_releases :: "ddl list" where
  "orm_gate_releases =
    [create_table ''gate_releases''
       [Column ''id'' UUID,
        Column ''user_id'' UUID,
        Column ''day'' Date,
        nullable (Column ''released_by'' (String 64)),
        server_default ''now()'' (Column ''released_at'' DateTime_Tz),
        nullable (Column ''note'' (String 255))]
       [(None, PrimaryKey [''id'']),
        (None, ForeignKey [''user_id''] ''users'' [''id''] Cascade),
        (Some ''uq_gate_releases_user_day'', Unique [''user_id'', ''day''])],
     create_index ''ix_gate_releases_user_day'' ''gate_releases'' [''user_id'', ''day''] False None]"

definition orm_audit_log :: "ddl list" where
  "orm_audit_log =
    [create_table ''audit_log''
       [Column ''id'' UUID,
        server_default ''now()'' (Column ''ts'' DateTime_Tz),
        Column ''actor_type'' (String 16),
        nullable (Column ''actor_id'' (String 64)),
        Column ''action'' (String 64),
        nullable (Column ''target_type'' (String 64)),
        nullable (Column ''target_id'' (String 64)),
        nullable (Column ''before_json'' JSONB),
        nullable (Column ''after_json'' JSONB),
        nullable (Column ''ip'' (String 64))]
       [(None, PrimaryKey [''id''])]]"

definition orm_enrollment_codes :: "ddl list" where
  "orm_enrollment_codes =
    [create_table ''enrollment_codes''
       [Column ''code'' (String 16),
        Column ''expires_at'' DateTime_Tz,
        nullable (Column ''used_at'' DateTime_Tz),
        nullable (Column ''used_by_device_id'' UUID),
        server_default ''now()'' (Column ''created_at'' DateTime_Tz)]
       [(None, PrimaryKey [''code'']),
        (None, ForeignKey [''used_by_device_id''] ''devices'' [''id''] Set_Null)]]"

text \<open>\<open>Base.metadata\<close>: all tables, and the schema they are, unnamed rules under the names that
  PostgreSQL gives them.\<close>

definition metadata :: "ddl list" where
  "metadata = orm_admins @ orm_devices @ orm_users @ orm_admin_sessions @ orm_admin_invites @ orm_user_aliases @ orm_policies @ orm_usage_counters @ orm_activity_intervals @ orm_grants @ orm_day_overrides @ orm_day_hour_overrides @ orm_gate_releases @ orm_audit_log @ orm_enrollment_codes"

fun declared :: "ddl list \<Rightarrow> schema \<Rightarrow> schema" where
  "declared [] s = s"
| "declared (create_table tab cols rules # ds) s =
     declared ds (s @ [(tab, \<lparr>tb_columns = cols, tb_rules = named_rules tab rules, tb_indexes = []\<rparr>)])"
| "declared (create_index n tab cs uniq cond # ds) s =
     declared ds (map (\<lambda>(m, t). (m, if m = tab
       then t\<lparr>tb_indexes := tb_indexes t @ [\<lparr>ti_name = n, ti_columns = cs, ti_unique = uniq, ti_where = cond\<rparr>]\<rparr> else t)) s)"
| "declared (d # ds) s = declared ds s"

text \<open>What the code relies on: tables, columns with type and nullability, rules, indexes. A default that only the
  migrated database has is harmless, and the columns that have one are listed.\<close>

definition column_agrees :: "column \<Rightarrow> column \<Rightarrow> bool" where
  "column_agrees c d \<longleftrightarrow> co_name c = co_name d \<and> co_type c = co_type d \<and> co_nullable c = co_nullable d \<and>
     (co_default d = None \<or> co_default c = co_default d)"

definition table_agrees :: "table_def \<Rightarrow> table_def \<Rightarrow> bool" where
  "table_agrees t t' \<longleftrightarrow> length (tb_columns t) = length (tb_columns t') \<and>
     list_all (\<lambda>d. case find (\<lambda>c. co_name c = co_name d) (tb_columns t) of None \<Rightarrow> False
       | Some c \<Rightarrow> column_agrees c d) (tb_columns t') \<and>
     same_set (tb_rules t) (tb_rules t') \<and> same_set (tb_indexes t) (tb_indexes t')"

definition schema_agrees :: "schema \<Rightarrow> schema \<Rightarrow> bool" where
  "schema_agrees s m \<longleftrightarrow> length s = length m \<and>
     list_all (\<lambda>(n, t'). case dict_get s n of None \<Rightarrow> False | Some t \<Rightarrow> table_agrees t t') m"

definition extra_defaults :: "schema \<Rightarrow> schema \<Rightarrow> (string \<times> string) list" where
  "extra_defaults s m = concat (map (\<lambda>(n, t). case dict_get m n of None \<Rightarrow> []
     | Some t' \<Rightarrow> map (\<lambda>c. (n, co_name c)) (filter (\<lambda>c. co_default c \<noteq> None \<and>
         list_ex (\<lambda>d. co_name d = co_name c \<and> co_default d = None) (tb_columns t')) (tb_columns t))) s)"


text \<open>\<open>alembic upgrade\<close> follows the links from the current revision, at most as far as there are files.\<close>

fun path_from :: "nat \<Rightarrow> revision list \<Rightarrow> string option \<Rightarrow> revision list" where
  "path_from 0 rs cur = []"
| "path_from (Suc n) rs cur =
     (case find (\<lambda>r. rv_down r = cur) rs of None \<Rightarrow> [] | Some r \<Rightarrow> r # path_from n rs (Some (rv_id r)))"

definition history :: "revision list" where
  "history = path_from (length versions) versions None"

text \<open>\<open>alembic upgrade head\<close> of an empty database.\<close>

definition upgrade_head :: "schema option" where
  "upgrade_head = run_ddls (concat (map rv_upgrade history)) []"

end
