(* ===== verification/Migration_Data.thy ===== *)
theory Migration_Data
  imports Migrations Hub_DB
begin

section \<open>What the migrations do to rows\<close>

text \<open>
  The \<open>UPDATE\<close> statements of \<open>hub/migrations/versions\<close>: revision \<open>8f3c2a1e9b04\<close> revokes all but the newest live
  device of each machine before it creates the unique index, revision \<open>69c5b4a08d94\<close> renames the actors of the audit log
  and the source of the grants. Properties of the two, and of the whole history.
\<close>

subsection \<open>One live device per machine\<close>

text \<open>\<open>ORDER BY enrolled_at DESC, id DESC\<close>.\<close>

definition ranked_before :: "device_row \<Rightarrow> device_row \<Rightarrow> bool" where
  "ranked_before a b \<longleftrightarrow> dev_enrolled_at b < dev_enrolled_at a \<or>
     dev_enrolled_at a = dev_enrolled_at b \<and> dev_id b < dev_id a"

text \<open>\<open>row_number() OVER (PARTITION BY machine_id ..)\<close> among the devices that are not revoked.\<close>

definition row_number :: "device_row list \<Rightarrow> device_row \<Rightarrow> nat" where
  "row_number rows r =
     1 + length (filter (\<lambda>a. live a \<and> dev_machine_id a = dev_machine_id r \<and> ranked_before a r) rows)"

definition outranked :: "device_row list \<Rightarrow> device_row \<Rightarrow> bool" where
  "outranked rows d \<longleftrightarrow> list_ex (\<lambda>r. live r \<and> dev_id d = dev_id r \<and> row_number rows r > 1) rows"

definition revoke_duplicates :: "device_row list \<Rightarrow> device_row list" where
  "revoke_duplicates rows = map (\<lambda>d. if outranked rows d then d\<lparr>dev_status := ''revoked''\<rparr> else d) rows"

definition newest :: "device_row list \<Rightarrow> device_row \<Rightarrow> bool" where
  "newest rows r \<longleftrightarrow> live r \<and>
     list_all (\<lambda>a. live a \<and> dev_machine_id a = dev_machine_id r \<longrightarrow> \<not> ranked_before a r) rows"

lemma filter_map_fixed:
  "(\<And>x. x \<in> set xs \<Longrightarrow> (Q x \<longrightarrow> f x = x) \<and> (P (f x) \<longleftrightarrow> Q x)) \<Longrightarrow> filter P (map f xs) = filter Q xs"
  by (induction xs) auto

lemma row_number_newest: "live r \<Longrightarrow> row_number rows r > 1 \<longleftrightarrow> \<not> newest rows r"
  by (auto simp: row_number_def newest_def list_all_iff filter_empty_conv)

lemma survivors:
  assumes "unique_on dev_id rows"
  shows "filter live (revoke_duplicates rows) = filter (newest rows) rows"
  unfolding revoke_duplicates_def
proof (rule filter_map_fixed)
  fix d assume d: "d \<in> set rows"
  have same: "r = d" if "r \<in> set rows" "dev_id d = dev_id r" for r
    using assms d that by (auto simp: unique_on_def distinct_map dest: inj_onD)
  have out: "outranked rows d \<longleftrightarrow> live d \<and> \<not> newest rows d"
  proof
    assume "outranked rows d"
    then obtain r where r: "r \<in> set rows" "live r" "dev_id d = dev_id r" "row_number rows r > 1"
      by (auto simp: outranked_def list_ex_iff)
    then show "live d \<and> \<not> newest rows d" using same [OF r(1,3)] row_number_newest [of r rows] by simp
  next
    assume "live d \<and> \<not> newest rows d"
    then show "outranked rows d" using d row_number_newest [of d rows] by (auto simp: outranked_def list_ex_iff)
  qed
  have "\<not> live (d\<lparr>dev_status := ''revoked''\<rparr>)" "newest rows d \<Longrightarrow> live d" by (simp_all add: live_def newest_def)
  then show "(newest rows d \<longrightarrow> (if outranked rows d then d\<lparr>dev_status := ''revoked''\<rparr> else d) = d) \<and>
    (live (if outranked rows d then d\<lparr>dev_status := ''revoked''\<rparr> else d) \<longleftrightarrow> newest rows d)"
    using out by (cases "outranked rows d") auto
qed

lemma newest_unique:
  assumes "unique_on dev_id rows" "a \<in> set rows" "b \<in> set rows" "newest rows a" "newest rows b"
    and "dev_machine_id a = dev_machine_id b"
  shows "a = b"
proof -
  have "\<not> ranked_before a b" "\<not> ranked_before b a" using assms(2-6) by (auto simp: newest_def list_all_iff)
  then have "dev_id a = dev_id b" by (auto simp: ranked_before_def)
  then show ?thesis using assms(1-3) by (auto simp: unique_on_def distinct_map dest: inj_onD)
qed

lemma newest_exists:
  assumes "r \<in> set rows" "live r"
  shows "\<exists>a \<in> set rows. newest rows a \<and> dev_machine_id a = dev_machine_id r"
proof -
  define S where "S = {a \<in> set rows. live a \<and> dev_machine_id a = dev_machine_id r}"
  define E where "E = Max (dev_enrolled_at ` S)"
  define T where "T = {a \<in> S. dev_enrolled_at a = E}"
  have S: "finite S" "r \<in> S" using assms by (auto simp: S_def)
  have "E \<in> dev_enrolled_at ` S" unfolding E_def using S by (intro Max_in) auto
  then have T: "finite T" "T \<noteq> {}" using S(1) by (auto simp: T_def)
  have "Max (dev_id ` T) \<in> dev_id ` T" using T by (intro Max_in) auto
  then obtain a where a: "a \<in> T" "dev_id a = Max (dev_id ` T)" by auto
  have "\<not> ranked_before b a" if "b \<in> S" for b
  proof -
    have le: "dev_enrolled_at b \<le> E" unfolding E_def using that S(1) by (intro Max_ge) auto
    have "dev_id b \<le> dev_id a" if "dev_enrolled_at b = E"
      unfolding a(2) using that \<open>b \<in> S\<close> T(1) by (intro Max_ge) (auto simp: T_def)
    then show ?thesis using le a(1) by (auto simp: ranked_before_def T_def)
  qed
  then show ?thesis using a(1) by (auto simp: newest_def T_def S_def list_all_iff)
qed

text \<open>
  C28. The update that precedes the unique index of live machines does what its comment says: whatever devices a
  database of before holds, afterwards no two live devices share a machine, so the index can be created; the
  survivors are exactly the most recently enrolled ones, every machine that had a live device keeps
  one, and nothing but the status of the others changes.
\<close>

theorem live_machines_deduplicated:
  assumes "unique_on dev_id rows"
  shows "unique_on dev_machine_id (filter live (revoke_duplicates rows)) \<and>
    filter live (revoke_duplicates rows) = filter (newest rows) rows \<and>
    dev_machine_id ` set (filter live (revoke_duplicates rows)) = dev_machine_id ` set (filter live rows) \<and>
    map (\<lambda>d. d\<lparr>dev_status := ''''\<rparr>) (revoke_duplicates rows) = map (\<lambda>d. d\<lparr>dev_status := ''''\<rparr>) rows"
proof -
  have "distinct (filter (newest rows) rows)" using assms by (auto simp: unique_on_def distinct_map)
  then have "unique_on dev_machine_id (filter (newest rows) rows)"
    using newest_unique [OF assms] by (auto simp: unique_on_def distinct_map inj_on_def)
  moreover have "dev_machine_id ` set (filter (newest rows) rows) = dev_machine_id ` set (filter live rows)"
  proof
    show "dev_machine_id ` set (filter (newest rows) rows) \<subseteq> dev_machine_id ` set (filter live rows)"
      by (auto simp: newest_def)
    show "dev_machine_id ` set (filter live rows) \<subseteq> dev_machine_id ` set (filter (newest rows) rows)"
    proof
      fix m assume "m \<in> dev_machine_id ` set (filter live rows)"
      then obtain r where "r \<in> set rows" "live r" "m = dev_machine_id r" by auto
      then obtain a where "a \<in> set rows" "newest rows a" "dev_machine_id a = m" using newest_exists by blast
      then show "m \<in> dev_machine_id ` set (filter (newest rows) rows)" by force
    qed
  qed
  ultimately show ?thesis unfolding survivors [OF assms] by (simp add: revoke_duplicates_def)
qed

definition old_machine :: "uuid \<Rightarrow> string \<Rightarrow> instant \<Rightarrow> device_row" where
  "old_machine i m t = \<lparr>dev_id = i, dev_name = ''pc'', dev_machine_id = m, dev_token_hash = ''h'', dev_status = ''active'',
     dev_enforcement = ''enforce'', dev_agent_version = None, dev_clock_skew_ms = None, dev_enrolled_at = t,
     dev_last_seen_at = None, dev_last_sync_at = None\<rparr>"

theorem live_machines_deduplicated_witness:
  "filter live (revoke_duplicates [old_machine 1 ''m'' 5, old_machine 2 ''m'' 9, old_machine 3 ''n'' 1])
    = [old_machine 2 ''m'' 9, old_machine 3 ''n'' 1]"
proof -
  let ?rows = "[old_machine 1 ''m'' 5, old_machine 2 ''m'' 9, old_machine 3 ''n'' 1]"
  have "unique_on dev_id ?rows" by (simp add: unique_on_def old_machine_def)
  then have "filter live (revoke_duplicates ?rows) = filter (newest ?rows) ?rows"
    using live_machines_deduplicated by blast
  then show ?thesis by (simp add: newest_def live_def ranked_before_def old_machine_def)
qed

subsection \<open>From parents to admins\<close>

text \<open>\<open>action LIKE 'parent.%'\<close> and \<open>'admin.' || substring(action from 8)\<close>.\<close>

definition like_prefix :: "string \<Rightarrow> string \<Rightarrow> bool" where
  "like_prefix p s \<longleftrightarrow> take (length p) s = p"

definition reword :: "string \<Rightarrow> string \<Rightarrow> string \<Rightarrow> string" where
  "reword a b action = (if like_prefix (a @ ''.'') action then b @ ''.'' @ drop (length a + 1) action else action)"

definition rename_actor :: "string \<Rightarrow> string \<Rightarrow> audit_row \<Rightarrow> audit_row" where
  "rename_actor a b r =
     r\<lparr>aud_actor_type := (if aud_actor_type r = a then b else aud_actor_type r),
       aud_target_type := (if aud_target_type r = Some a then Some b else aud_target_type r),
       aud_action := reword a b (aud_action r)\<rparr>"

definition rename_source :: "string \<Rightarrow> string \<Rightarrow> grant_row \<Rightarrow> grant_row" where
  "rename_source a b g = g\<lparr>gr_source := (if gr_source g = a then b else gr_source g)\<rparr>"

definition upgrade_rows_69c5b4a08d94 :: "db \<Rightarrow> db" where
  "upgrade_rows_69c5b4a08d94 d = d\<lparr>db_audit := map (rename_actor ''parent'' ''admin'') (db_audit d),
     db_grants := map (rename_source ''parent'' ''admin'') (db_grants d)\<rparr>"

definition downgrade_rows_69c5b4a08d94 :: "db \<Rightarrow> db" where
  "downgrade_rows_69c5b4a08d94 d = d\<lparr>db_grants := map (rename_source ''admin'' ''parent'') (db_grants d),
     db_audit := map (rename_actor ''admin'' ''parent'') (db_audit d)\<rparr>"

definition audit_says :: "string \<Rightarrow> audit_row \<Rightarrow> bool" where
  "audit_says w r \<longleftrightarrow> aud_actor_type r = w \<or> aud_target_type r = Some w \<or> like_prefix (w @ ''.'') (aud_action r)"

lemma reword_back:
  assumes "\<not> like_prefix (b @ ''.'') action"
  shows "reword b a (reword a b action) = action"
proof (cases "like_prefix (a @ ''.'') action")
  case True
  then have "action = a @ ''.'' @ drop (length a + 1) action"
    by (metis append.assoc append_take_drop_id like_prefix_def length_append_singleton Suc_eq_plus1)
  then show ?thesis using True by (simp add: reword_def like_prefix_def)
qed (use assms in \<open>simp add: reword_def\<close>)

lemma rename_actor_back: "\<not> audit_says b r \<Longrightarrow> rename_actor b a (rename_actor a b r) = r"
  using reword_back by (auto simp: rename_actor_def audit_says_def)

lemma rename_source_back: "gr_source g \<noteq> b \<Longrightarrow> rename_source b a (rename_source a b g) = g"
  by (auto simp: rename_source_def)

text \<open>
  The rows of the audit log and the grants survive the renaming and its reversal, if none of them used the new
  word before; after it none uses the old one, and the grants satisfy the new check.
\<close>

theorem vocabulary_roundtrip:
  assumes "list_all (\<lambda>r. \<not> audit_says ''admin'' r) (db_audit d)" "list_all (\<lambda>g. gr_source g = ''parent'') (db_grants d)"
  shows "downgrade_rows_69c5b4a08d94 (upgrade_rows_69c5b4a08d94 d) = d \<and>
    list_all (\<lambda>g. gr_source g = ''admin'') (db_grants (upgrade_rows_69c5b4a08d94 d))"
proof -
  have "map (rename_actor ''admin'' ''parent'' \<circ> rename_actor ''parent'' ''admin'') (db_audit d) = db_audit d"
    using assms(1) rename_actor_back by (intro map_idI) (auto simp: list_all_iff)
  moreover have "map (rename_source ''admin'' ''parent'' \<circ> rename_source ''parent'' ''admin'') (db_grants d) = db_grants d"
    using assms(2) rename_source_back by (intro map_idI) (auto simp: list_all_iff)
  ultimately show ?thesis
    using assms(2) by (simp add: upgrade_rows_69c5b4a08d94_def downgrade_rows_69c5b4a08d94_def list_all_iff rename_source_def)
qed

subsection \<open>The whole history\<close>

text \<open>
  C27. The ten revisions form one line, run through from an empty database, and end in the schema that the models
  declare: the same tables with the same columns, types and nullability, the same keys, foreign keys with their
  actions on delete, checks and indexes, under the same names, also those PostgreSQL gave under the old
  table names and the last rename had to follow. Only four columns have a default that the models do not declare.
\<close>

theorem migrations_reach_the_models:
  "length history = length versions \<and>
   (case upgrade_head of None \<Rightarrow> False
    | Some s \<Rightarrow> schema_agrees s (declared metadata []) \<and>
        extra_defaults s (declared metadata []) = [(''users'', ''gated_weekdays_json''),
          (''policies'', ''playtime_allowed_weekdays_json''), (''policies'', ''playtime_daily_limits_json''),
          (''policies'', ''playtime_activities_json'')])"
  by code_simp

definition additive_revisions :: "revision list" where
  "additive_revisions = [rev_fafdbdc4fd31, rev_8f3c2a1e9b04, rev_5fe40acd11d9, rev_7c1b9e0a2d34, rev_abfbdcbbb0e4,
     rev_c42766a96319, rev_b4d1e7a90c32]"

lemma additive_downgrades:
  "list_all (\<lambda>r. list_all additive (rv_upgrade r) \<and> rv_downgrade r = concat (map undo (rev (rv_upgrade r)))) additive_revisions"
  by code_simp

text \<open>
  C30. Of the seven revisions that only add to the schema, each is undone exactly by its downgrade, from any
  consistent schema it can be applied to: the downgrades drop what was added, in the order that the
  dependencies between tables, indexes and columns allow.
\<close>

theorem additive_downgrades_restore:
  assumes "schema_ok s" "r \<in> set additive_revisions" "run_ddls (rv_upgrade r) s = Some s'"
  shows "run_ddls (rv_downgrade r) s' = Some s \<and> schema_ok s'"
proof -
  have "list_all additive (rv_upgrade r)" "rv_downgrade r = concat (map undo (rev (rv_upgrade r)))"
    using additive_downgrades assms(2) by (auto simp: list_all_iff)
  then show ?thesis using undo_additive [OF _ assms(1,3)] by simp
qed

theorem additive_downgrades_restore_witness:
  "\<exists>s. run_ddls upgrade_fafdbdc4fd31 [] = Some s \<and> length s = 12 \<and> run_ddls downgrade_fafdbdc4fd31 s = Some []"
proof -
  have "case run_ddls upgrade_fafdbdc4fd31 [] of None \<Rightarrow> False | Some s \<Rightarrow> length s = 12"
    by code_simp
  then obtain s where s: "run_ddls upgrade_fafdbdc4fd31 [] = Some s" "length s = 12"
    by (auto split: option.splits)
  have "schema_ok []" by (simp add: schema_ok_def)
  from additive_downgrades_restore [OF this, of rev_fafdbdc4fd31 s] s show ?thesis
    by (simp add: additive_revisions_def rev_fafdbdc4fd31_def)
qed

end
