(* ===== verification/Schema_Rows.thy ===== *)
theory Schema_Rows
  imports Migrations Hub_DB
begin

section \<open>Rows and the declared schema\<close>

text \<open>
  The records of Hub_DB as rows of the tables that \<open>hub/timekpr_hub/db/models.py\<close> declares: which rows a table takes is
  computed from its declared columns and checks, and agrees with the conditions that Hub_DB tests when it
  writes a row.
\<close>

subsection \<open>Cells\<close>

text \<open>The value of a column; \<open>Given\<close> is one of a type without a bound: a UUID, a date, a time, a flag, a JSON object.\<close>

datatype cell =
    Null
  | Text string
  | Number int
  | Array nat
  | Given

type_synonym cells = "(string, cell) dict"

definition cell_or_null :: "('a \<Rightarrow> cell) \<Rightarrow> 'a option \<Rightarrow> cell" where
  "cell_or_null f x = (case x of None \<Rightarrow> Null | Some v \<Rightarrow> f v)"

definition text_length_ok :: "col_type \<Rightarrow> string \<Rightarrow> bool" where
  "text_length_ok ty s = (case ty of String n \<Rightarrow> length s \<le> n | _ \<Rightarrow> False)"

definition number_ok :: "col_type \<Rightarrow> int \<Rightarrow> bool" where
  "number_ok ty i = (case ty of Integer \<Rightarrow> int4 i | BigInteger \<Rightarrow> int8 i | _ \<Rightarrow> False)"

definition unbounded :: "col_type \<Rightarrow> bool" where
  "unbounded ty = (case ty of String _ \<Rightarrow> False | Integer \<Rightarrow> False | BigInteger \<Rightarrow> False | _ \<Rightarrow> True)"

fun column_takes :: "column \<Rightarrow> cell \<Rightarrow> bool" where
  "column_takes c Null = co_nullable c"
| "column_takes c (Text s) = text_length_ok (co_type c) s"
| "column_takes c (Number i) = number_ok (co_type c) i"
| "column_takes c (Array n) = (co_type c = JSONB)"
| "column_takes c Given = unbounded (co_type c)"

text \<open>A check is violated only when it is false: on a NULL it is neither.\<close>

fun condition_holds :: "condition \<Rightarrow> cells \<Rightarrow> bool" where
  "condition_holds (One_Of c vs) r = (case dict_get r c of Some (Text s) \<Rightarrow> s \<in> set vs | x \<Rightarrow> x = Some Null)"
| "condition_holds (In_Range c a b) r = (case dict_get r c of Some (Number i) \<Rightarrow> a \<le> i \<and> i \<le> b | x \<Rightarrow> x = Some Null)"
| "condition_holds (Array_Nonempty c) r = (case dict_get r c of Some (Array n) \<Rightarrow> n > 0 | x \<Rightarrow> x = Some Null)"
| "condition_holds (Differs c v) r = (case dict_get r c of Some (Text s) \<Rightarrow> s \<noteq> v | x \<Rightarrow> x = Some Null)"

definition rule_holds :: "table_rule \<Rightarrow> cells \<Rightarrow> bool" where
  "rule_holds x r = (case x of Check e \<Rightarrow> condition_holds e r | _ \<Rightarrow> True)"

definition table_takes :: "table_def \<Rightarrow> cells \<Rightarrow> bool" where
  "table_takes t r \<longleftrightarrow> map fst r = column_names t \<and>
     list_all (\<lambda>c. case dict_get r (co_name c) of None \<Rightarrow> False | Some v \<Rightarrow> column_takes c v) (tb_columns t) \<and>
     list_all (\<lambda>(_, x). rule_holds x r) (tb_rules t)"

definition takes :: "ddl list \<Rightarrow> cells \<Rightarrow> bool" where
  "takes ops r = (case declared ops [] of [(_, t)] \<Rightarrow> table_takes t r | _ \<Rightarrow> False)"

subsection \<open>Records as rows\<close>

definition admin_cells :: "admin_row \<Rightarrow> cells" where
  "admin_cells r = [(''id'', Given), (''email'', Text (adm_email r)), (''password_hash'', Text (adm_password_hash r)),
     (''created_at'', Given)]"

definition session_cells :: "session_row \<Rightarrow> cells" where
  "session_cells r = [(''id'', Given), (''admin_id'', Given), (''token_hash'', Text (ses_token_hash r)),
     (''expires_at'', Given), (''ip'', cell_or_null Text (ses_ip r)), (''user_agent'', cell_or_null Text (ses_user_agent r)),
     (''created_at'', Given)]"

definition invite_cells :: "invite_row \<Rightarrow> cells" where
  "invite_cells r = [(''token'', Text (inv_token r)), (''expires_at'', Given), (''used_at'', cell_or_null (\<lambda>_. Given) (inv_used_at r)),
     (''created_by_admin_id'', cell_or_null (\<lambda>_. Given) (inv_created_by r)), (''created_at'', Given)]"

definition user_cells :: "user_row \<Rightarrow> cells" where
  "user_cells r = [(''id'', Given), (''canonical_username'', Text (usr_canonical_username r)),
     (''display_name'', Text (usr_display_name r)), (''current_policy_id'', cell_or_null (\<lambda>_. Given) (usr_current_policy_id r)),
     (''accounting_mode'', Text (usr_accounting_mode r)), (''offline_policy'', Text (usr_offline_policy r)),
     (''offline_grace_s'', Number (usr_offline_grace_s r)), (''offline_cap_s'', Number (usr_offline_cap_s r)),
     (''gated_weekdays_json'', Array (length (usr_gated_weekdays r))), (''created_at'', Given)]"

definition alias_cells :: "alias_row \<Rightarrow> cells" where
  "alias_cells r = [(''id'', Given), (''user_id'', Given), (''device_id'', Given), (''local_username'', Text (al_local_username r)),
     (''policy_push_error'', cell_or_null Text (al_policy_push_error r)),
     (''policy_push_error_at'', cell_or_null (\<lambda>_. Given) (al_policy_push_error_at r))]"

definition device_cells :: "device_row \<Rightarrow> cells" where
  "device_cells r = [(''id'', Given), (''name'', Text (dev_name r)), (''machine_id'', Text (dev_machine_id r)),
     (''token_hash'', Text (dev_token_hash r)), (''status'', Text (dev_status r)), (''enforcement'', Text (dev_enforcement r)),
     (''agent_version'', cell_or_null Text (dev_agent_version r)), (''clock_skew_ms'', cell_or_null Number (dev_clock_skew_ms r)),
     (''enrolled_at'', Given), (''last_seen_at'', cell_or_null (\<lambda>_. Given) (dev_last_seen_at r)),
     (''last_sync_at'', cell_or_null (\<lambda>_. Given) (dev_last_sync_at r))]"

definition policy_cells :: "policy_row \<Rightarrow> cells" where
  "policy_cells r = [(''id'', Given), (''user_id'', Given), (''version'', Number (pol_version r)), (''created_at'', Given),
     (''created_by'', cell_or_null Text (pol_created_by r)), (''daily_limits_json'', Given), (''allowed_hours_json'', Given),
     (''allowed_weekdays_json'', Given), (''weekly_limit_s'', Number (pol_weekly_limit_s r)),
     (''monthly_limit_s'', Number (pol_monthly_limit_s r)), (''lockout_type'', Text (pol_lockout_type r)),
     (''wake_from'', cell_or_null Text (pol_wake_from r)), (''wake_to'', cell_or_null Text (pol_wake_to r)),
     (''track_inactive'', Given), (''hide_tray_icon'', Given), (''playtime_enabled'', Given),
     (''playtime_override_enabled'', Given), (''playtime_unaccounted_intervals_enabled'', Given),
     (''playtime_allowed_weekdays_json'', Array (length (pol_playtime_allowed_weekdays r))),
     (''playtime_daily_limits_json'', Array (length (pol_playtime_daily_limits r))),
     (''playtime_activities_json'', Array (length (pol_playtime_activities r))), (''note'', cell_or_null Text (pol_note r))]"

definition counter_cells :: "counter_row \<Rightarrow> cells" where
  "counter_cells r = [(''user_id'', Given), (''device_id'', Given), (''day'', Given), (''spent_seconds'', Number (uc_spent_seconds r)),
     (''activity_state'', cell_or_null Text (uc_activity_state r)), (''updated_at'', Given)]"

definition grant_cells :: "grant_row \<Rightarrow> cells" where
  "grant_cells r = [(''id'', Given), (''user_id'', Given), (''day'', Given), (''seconds'', Number (gr_seconds r)),
     (''reason'', cell_or_null Text (gr_reason r)), (''source'', Text (gr_source r)),
     (''granted_by'', cell_or_null Text (gr_granted_by r)), (''created_at'', Given)]"

definition day_override_cells :: "day_override_row \<Rightarrow> cells" where
  "day_override_cells r = [(''id'', Given), (''user_id'', Given), (''day'', Given), (''limit_seconds'', Number (dov_limit_seconds r)),
     (''reason'', cell_or_null Text (dov_reason r)), (''created_by'', cell_or_null Text (dov_created_by r)), (''created_at'', Given)]"

definition hour_override_cells :: "hour_override_row \<Rightarrow> cells" where
  "hour_override_cells r = [(''id'', Given), (''user_id'', Given), (''day'', Given), (''intervals_json'', Array (length (hov_intervals r))),
     (''reason'', cell_or_null Text (hov_reason r)), (''created_by'', cell_or_null Text (hov_created_by r)), (''created_at'', Given)]"

definition release_cells :: "release_row \<Rightarrow> cells" where
  "release_cells r = [(''id'', Given), (''user_id'', Given), (''day'', Given), (''released_by'', cell_or_null Text (rel_released_by r)),
     (''released_at'', Given), (''note'', cell_or_null Text (rel_note r))]"

definition audit_cells :: "audit_row \<Rightarrow> cells" where
  "audit_cells r = [(''id'', Given), (''ts'', Given), (''actor_type'', Text (aud_actor_type r)),
     (''actor_id'', cell_or_null Text (aud_actor_id r)), (''action'', Text (aud_action r)),
     (''target_type'', cell_or_null Text (aud_target_type r)), (''target_id'', cell_or_null Text (aud_target_id r)),
     (''before_json'', cell_or_null (\<lambda>_. Given) (aud_before r)), (''after_json'', cell_or_null (\<lambda>_. Given) (aud_after r)),
     (''ip'', cell_or_null Text (aud_ip r))]"

definition code_cells :: "code_row \<Rightarrow> cells" where
  "code_cells r = [(''code'', Text (cod_code r)), (''expires_at'', Given), (''used_at'', cell_or_null (\<lambda>_. Given) (cod_used_at r)),
     (''used_by_device_id'', cell_or_null (\<lambda>_. Given) (cod_used_by_device_id r)), (''created_at'', Given)]"

subsection \<open>The two agree\<close>

lemma takes_nullable [simp]:
  "column_takes c (cell_or_null f x) \<longleftrightarrow> (x = None \<longrightarrow> co_nullable c) \<and> pred_option (\<lambda>v. column_takes c (f v)) x"
  by (cases x) (simp_all add: cell_or_null_def)

lemma pred_option_True [simp]: "pred_option (\<lambda>v. True) x"
  by (cases x) simp_all

lemmas takes_simps = takes_def table_takes_def column_names_def dict_get_def rule_holds_def named_rules_def
  Column_def nullable_def server_default_def text_length_ok_def number_ok_def unbounded_def

lemma accounts_take:
  "takes orm_admins (admin_cells a) \<longleftrightarrow> admin_fits a"
  "takes orm_admin_sessions (session_cells s) \<longleftrightarrow> session_fits s"
  "takes orm_admin_invites (invite_cells i) \<longleftrightarrow> length (inv_token i) \<le> 64"
  by (simp_all add: takes_simps orm_admins_def orm_admin_sessions_def orm_admin_invites_def
      admin_cells_def session_cells_def invite_cells_def admin_fits_def session_fits_def)

lemma users_take:
  "takes orm_users (user_cells u) \<longleftrightarrow> user_fits u \<and> ck_users u"
  "takes orm_user_aliases (alias_cells al) \<longleftrightarrow> alias_fits al"
  by (auto simp: takes_simps orm_users_def orm_user_aliases_def user_cells_def alias_cells_def user_fits_def
      alias_fits_def ck_users_def)

lemma devices_take:
  "takes orm_devices (device_cells d) \<longleftrightarrow> device_fits d \<and> ck_devices d"
  "takes orm_enrollment_codes (code_cells k) \<longleftrightarrow> length (cod_code k) \<le> 16"
  by (auto simp: takes_simps orm_devices_def orm_enrollment_codes_def device_cells_def code_cells_def device_fits_def
      ck_devices_def)

lemma policies_take: "takes orm_policies (policy_cells p) \<longleftrightarrow> policy_fits p \<and> ck_policies p"
  by (auto simp: takes_simps orm_policies_def policy_cells_def policy_fits_def ck_policies_def)

lemma days_take:
  "takes orm_usage_counters (counter_cells c) \<longleftrightarrow> counter_fits c"
  "takes orm_grants (grant_cells g) \<longleftrightarrow> grant_fits g \<and> ck_grants g"
  "takes orm_day_overrides (day_override_cells o1) \<longleftrightarrow> day_override_fits o1 \<and> ck_day_overrides o1"
  "takes orm_day_hour_overrides (hour_override_cells o2) \<longleftrightarrow> hour_override_fits o2 \<and> ck_hour_overrides o2"
  "takes orm_gate_releases (release_cells rl) \<longleftrightarrow> release_fits rl"
  "takes orm_audit_log (audit_cells l) \<longleftrightarrow> audit_fits l"
  by (auto simp: takes_simps orm_usage_counters_def orm_grants_def orm_day_overrides_def orm_day_hour_overrides_def
      orm_gate_releases_def orm_audit_log_def counter_cells_def grant_cells_def day_override_cells_def
      hour_override_cells_def release_cells_def audit_cells_def counter_fits_def grant_fits_def day_override_fits_def
      hour_override_fits_def release_fits_def audit_fits_def ck_grants_def ck_day_overrides_def ck_hour_overrides_def)


end
