(* ===== verification/Release_Scripts.thy ===== *)
theory Release_Scripts
  imports Py_Text
begin

section \<open>The release scripts\<close>

text \<open>
  Models \<open>scripts/check_versions.py\<close>, \<open>scripts/bump_version.py\<close> and \<open>scripts/changelog_section.py\<close>: the six places that
  hold the project's version, setting all of them, and the section of the changelog for one version. The tree is
  a dictionary from paths to texts; \<open>tomllib\<close> and \<open>uv lock\<close> are parameters. A script that raises, \<open>SystemExit\<close>
  with a message included, ends with status 1; what it prints is not modelled.
\<close>

type_synonym tree = "(string, string) dict"

subsection \<open>Patterns\<close>

definition quote_char :: char where
  "quote_char = CHR 0x22"

text \<open>\<open>^key = "(?P<version>[^"]+)"$\<close> at the start of a line: the version, which may span lines, and what follows.\<close>

definition quoted_key :: "string \<Rightarrow> string" where
  "quoted_key key = key @ '' = '' @ [quote_char]"

definition quoted_line :: "string \<Rightarrow> string \<Rightarrow> (string \<times> string) option" where
  "quoted_line key s =
     (let k = quoted_key key;
          v = takeWhile (\<lambda>c. c \<noteq> quote_char) (drop (length k) s);
          r = drop (length k + length v) s
      in if take (length k) s = k \<and> v \<noteq> [] \<and> r \<noteq> [] \<and> (tl r = [] \<or> hd (tl r) = newline)
         then Some (v, tl r) else None)"

text \<open>\<open>re.MULTILINE\<close>: the first line at which the pattern matches, with what precedes it.\<close>

fun search :: "(string \<Rightarrow> (string \<times> string) option) \<Rightarrow> bool \<Rightarrow> string \<Rightarrow> (string \<times> string \<times> string) option" where
  "search m at_start [] = None"
| "search m at_start (c # cs) =
     (case (if at_start then m (c # cs) else None) of
        Some (v, r) \<Rightarrow> Some ([], v, r)
      | None \<Rightarrow> (case search m (c = newline) cs of
          None \<Rightarrow> None
        | Some (b, v, r) \<Rightarrow> Some (c # b, v, r)))"

definition search_quoted :: "string \<Rightarrow> string \<Rightarrow> string option" where
  "search_quoted key t = map_option (\<lambda>(b, v, r). v) (search (quoted_line key) True t)"

definition subst_quoted :: "string \<Rightarrow> string \<Rightarrow> string \<Rightarrow> string option" where
  "subst_quoted key v t =
     map_option (\<lambda>(b, _, r). b @ quoted_key key @ v @ [quote_char] @ r) (search (quoted_line key) True t)"

text \<open>\<open>^key=(?P<version>.+)$\<close> matches a whole line.\<close>

definition plain_key :: "string \<Rightarrow> string" where
  "plain_key key = key @ ''=''"

definition plain_line :: "string \<Rightarrow> string \<Rightarrow> bool" where
  "plain_line key l \<longleftrightarrow> take (length (plain_key key)) l = plain_key key \<and> length (plain_key key) < length l"

fun first_plain :: "string \<Rightarrow> string list \<Rightarrow> string option" where
  "first_plain key [] = None"
| "first_plain key (l # ls) =
     (if plain_line key l then Some (drop (length (plain_key key)) l) else first_plain key ls)"

fun replace_plain :: "string \<Rightarrow> string \<Rightarrow> string list \<Rightarrow> string list option" where
  "replace_plain key v [] = None"
| "replace_plain key v (l # ls) =
     (if plain_line key l then Some ((plain_key key @ v) # ls) else map_option (Cons l) (replace_plain key v ls))"

definition search_plain :: "string \<Rightarrow> string \<Rightarrow> string option" where
  "search_plain key t = first_plain key (split_at newline t)"

definition subst_plain :: "string \<Rightarrow> string \<Rightarrow> string \<Rightarrow> string option" where
  "subst_plain key v t = map_option (join_on newline) (replace_plain key v (split_at newline t))"

text \<open>\<open>VERSION_RE\<close>; its \<open>$\<close> also matches before a newline that ends the string.\<close>

definition is_digit_char :: "char \<Rightarrow> bool" where
  "is_digit_char c \<longleftrightarrow> c \<in> set ''0123456789''"

definition digits1 :: "string \<Rightarrow> string option" where
  "digits1 s = (if takeWhile is_digit_char s = [] then None else Some (dropWhile is_digit_char s))"

definition skip_char :: "char \<Rightarrow> string \<Rightarrow> string option" where
  "skip_char c s = (case s of [] \<Rightarrow> None | x # xs \<Rightarrow> if x = c then Some xs else None)"

definition skip_suffix :: "string \<Rightarrow> string" where
  "skip_suffix s = (if take 1 s = ''a'' \<or> take 1 s = ''b'' then drop 1 s else if take 2 s = ''rc'' then drop 2 s else s)"

definition version_ok :: "string \<Rightarrow> bool" where
  "version_ok s = (case Option.bind (Option.bind (Option.bind (Option.bind (digits1 s) (skip_char CHR ''.'')) digits1)
       (skip_char CHR ''.'')) digits1 of
     None \<Rightarrow> False
   | Some r \<Rightarrow> dropWhile is_digit_char (skip_suffix r) \<in> {[], [newline]})"

definition removeprefix_v :: "string \<Rightarrow> string" where
  "removeprefix_v s = (if take 1 s = ''v'' then drop 1 s else s)"

subsection \<open>check_versions.py\<close>

definition PYPROJECTS :: "string list" where
  "PYPROJECTS = [''pyproject.toml'', ''core/pyproject.toml'', ''hub/pyproject.toml'', ''agent/pyproject.toml'']"

definition AGENT_MAIN :: string where
  "AGENT_MAIN = ''agent/timekpr_hub_agent/main.py''"

definition PKGBUILD :: string where
  "PKGBUILD = ''agent/packaging/PKGBUILD''"

fun read_pyprojects :: "(string \<Rightarrow> string option) \<Rightarrow> tree \<Rightarrow> string list \<Rightarrow> (string \<times> string) list option" where
  "read_pyprojects toml fs [] = Some []"
| "read_pyprojects toml fs (p # ps) =
     Option.bind (Option.bind (dict_get fs p) toml) (\<lambda>v. map_option (Cons (p, v)) (read_pyprojects toml fs ps))"

definition read_versions :: "(string \<Rightarrow> string option) \<Rightarrow> tree \<Rightarrow> (string \<times> string) list option" where
  "read_versions toml fs =
     Option.bind (read_pyprojects toml fs PYPROJECTS) (\<lambda>found.
     Option.bind (Option.bind (dict_get fs AGENT_MAIN) (search_quoted ''AGENT_VERSION'')) (\<lambda>a.
     Option.bind (Option.bind (dict_get fs PKGBUILD) (search_plain ''pkgver'')) (\<lambda>k.
     Some (found @ [(AGENT_MAIN, a), (PKGBUILD, k)]))))"

definition check_versions_main :: "(string \<Rightarrow> string option) \<Rightarrow> string option \<Rightarrow> tree \<Rightarrow> int" where
  "check_versions_main toml expect fs =
     (case read_versions toml fs of
        None \<Rightarrow> 1
      | Some found \<Rightarrow>
          let expected = (case expect of Some e \<Rightarrow> if e \<noteq> '''' then e else snd (hd found) | None \<Rightarrow> snd (hd found));
              mismatched = filter (\<lambda>(rel, v). v \<noteq> expected) found
          in if mismatched \<noteq> [] then 1 else if \<not> version_ok expected then 1 else 0)"

subsection \<open>bump_version.py\<close>

fun bump_pyprojects :: "string \<Rightarrow> string list \<Rightarrow> tree \<Rightarrow> tree option" where
  "bump_pyprojects version [] fs = Some []"
| "bump_pyprojects version (p # ps) fs =
     Option.bind (Option.bind (dict_get fs p) (subst_quoted ''version'' version)) (\<lambda>t.
       map_option (Cons (p, t)) (bump_pyprojects version ps fs))"

text \<open>Every replacement is computed before any of them is written.\<close>

definition bump_writes :: "string \<Rightarrow> tree \<Rightarrow> tree option" where
  "bump_writes version fs =
     Option.bind (bump_pyprojects version PYPROJECTS fs) (\<lambda>writes.
     Option.bind (Option.bind (dict_get fs AGENT_MAIN) (subst_quoted ''AGENT_VERSION'' version)) (\<lambda>a.
     Option.bind (Option.bind (dict_get fs PKGBUILD) (subst_plain ''pkgver'' version)) (\<lambda>k.
     Option.bind (subst_plain ''pkgrel'' ''1'' k) (\<lambda>k.
     Some (writes @ [(AGENT_MAIN, a), (PKGBUILD, k)])))))"

fun write_all :: "tree \<Rightarrow> tree \<Rightarrow> tree" where
  "write_all [] fs = fs"
| "write_all ((p, t) # ws) fs = write_all ws (dict_set fs p t)"

definition bump_version_main :: "(string \<Rightarrow> string option) \<Rightarrow> (tree \<Rightarrow> int \<times> tree) \<Rightarrow> string list \<Rightarrow> tree \<Rightarrow> int \<times> tree" where
  "bump_version_main toml uv_lock args fs =
     (if length args \<noteq> 1 then (2, fs)
      else let version = removeprefix_v (hd args)
           in if \<not> version_ok version then (1, fs)
              else case bump_writes version fs of
                None \<Rightarrow> (1, fs)
              | Some writes \<Rightarrow>
                  (case uv_lock (write_all writes fs) of (lock, fs) \<Rightarrow>
                     if lock \<noteq> 0 then (lock, fs) else (check_versions_main toml None fs, fs)))"

subsection \<open>changelog_section.py\<close>

text \<open>\<open>^## \[(?P<version>[^\]]+)\]\<close> and the link references at the end, \<open>^\[[^\]]+\]: \<close>.\<close>

definition bracketed :: "string \<Rightarrow> (string \<times> string) option" where
  "bracketed s = (case s of [] \<Rightarrow> None
     | c # cs \<Rightarrow>
         let v = takeWhile (\<lambda>x. x \<noteq> CHR '']'') cs; r = dropWhile (\<lambda>x. x \<noteq> CHR '']'') cs
         in if c = CHR ''['' \<and> v \<noteq> [] \<and> r \<noteq> [] then Some (v, tl r) else None)"

definition heading :: "string \<Rightarrow> string option" where
  "heading l = (if take 3 l = ''## '' then map_option fst (bracketed (drop 3 l)) else None)"

definition link_reference :: "string \<Rightarrow> bool" where
  "link_reference l = (case bracketed l of None \<Rightarrow> False | Some (_, r) \<Rightarrow> take 2 r = '': '')"

fun after_heading :: "string \<Rightarrow> string list \<Rightarrow> string list option" where
  "after_heading version [] = None"
| "after_heading version (l # ls) = (if heading l = Some version then Some ls else after_heading version ls)"

definition changelog_section :: "string \<Rightarrow> string \<Rightarrow> string option" where
  "changelog_section version changelog =
     (case after_heading version (splitlines changelog) of
        None \<Rightarrow> None
      | Some ls \<Rightarrow>
          let body = takeWhile (\<lambda>l. heading l = None) ls
          in if length body < length ls then Some (py_strip (join_on newline body))
             else Some (py_strip (join_on newline (filter (\<lambda>l. \<not> link_reference l) ls))))"

definition changelog_section_main :: "string \<Rightarrow> string list \<Rightarrow> int \<times> string option" where
  "changelog_section_main changelog args =
     (if length args \<noteq> 1 then (2, None)
      else case changelog_section (removeprefix_v (hd args)) changelog of
        None \<Rightarrow> (1, None)
      | Some body \<Rightarrow> if body = '''' then (1, None) else (0, Some body))"

subsection \<open>Versions\<close>

lemma digits1_Some: "digits1 s = Some r \<Longrightarrow> \<exists>d. s = d @ r \<and> d \<noteq> [] \<and> list_all is_digit_char d"
  by (metis digits1_def list.pred_set option.distinct(1) option.inject set_takeWhileD takeWhile_dropWhile_id)

lemma skip_char_Some: "skip_char c s = Some r \<longleftrightarrow> s = c # r"
  by (auto simp: skip_char_def split: list.splits)

lemma skip_suffix_set: "set s \<subseteq> set (skip_suffix s) \<union> set ''abrc''"
  by (cases s; cases "tl s") (auto simp: skip_suffix_def)

lemma version_chars:
  assumes "version_ok v"
  shows "v \<noteq> [] \<and> is_digit_char (hd v) \<and> quote_char \<notin> set v"
proof -
  obtain r1 r2 r3 where r: "digits1 v = Some (CHR ''.'' # r1)" "digits1 r1 = Some (CHR ''.'' # r2)" "digits1 r2 = Some r3"
    and e: "dropWhile is_digit_char (skip_suffix r3) \<in> {[], [newline]}"
    using assms by (auto simp: version_ok_def skip_char_Some split: option.splits bind_splits)
  obtain d1 d2 d3 where d: "v = d1 @ CHR ''.'' # r1" "r1 = d2 @ CHR ''.'' # r2" "r2 = d3 @ r3" "d1 \<noteq> []"
    "list_all is_digit_char d1" "list_all is_digit_char d2" "list_all is_digit_char d3"
    using digits1_Some [OF r(1)] digits1_Some [OF r(2)] digits1_Some [OF r(3)] by metis
  have q: "\<not> is_digit_char quote_char" "quote_char \<noteq> newline" "quote_char \<noteq> CHR ''.''" "quote_char \<notin> set ''abrc''"
    by (simp_all add: is_digit_char_def quote_char_def newline_def)
  have "skip_suffix r3 = takeWhile is_digit_char (skip_suffix r3) @ dropWhile is_digit_char (skip_suffix r3)" by simp
  then have "set (skip_suffix r3) = set (takeWhile is_digit_char (skip_suffix r3)) \<union> set (dropWhile is_digit_char (skip_suffix r3))"
    by (metis set_append)
  then have "quote_char \<notin> set (skip_suffix r3)" using q(1,2) e by (auto dest: set_takeWhileD)
  then have "quote_char \<notin> set r3" using skip_suffix_set [of r3] q(4) by blast
  then show ?thesis using d q by (cases d1) (auto simp: list_all_iff)
qed

text \<open>The pattern accepts a version with a newline at its end, which \<open>bump_version.py\<close> would write into the files.\<close>

lemma version_with_newline: "version_ok (''1.2.3'' @ [newline])"
  by code_simp

subsection \<open>A substitution is found where it was made\<close>

definition no_quote :: "string \<Rightarrow> bool" where
  "no_quote key \<longleftrightarrow> quote_char \<notin> set key"

lemma quoted_line_here:
  assumes "v \<noteq> []" "quote_char \<notin> set v" "r = [] \<or> hd r = newline"
  shows "quoted_line key (quoted_key key @ v @ quote_char # r) = Some (v, r)"
proof -
  have "takeWhile (\<lambda>c. c \<noteq> quote_char) (v @ quote_char # r) = v" using assms(2) by (subst takeWhile_append2) auto
  then show ?thesis using assms(1,3) by (simp add: quoted_line_def Let_def)
qed

lemma quoted_line_Some:
  assumes "quoted_line key s = Some (v, r)"
  shows "s = quoted_key key @ v @ quote_char # r \<and> v \<noteq> [] \<and> quote_char \<notin> set v \<and> (r = [] \<or> hd r = newline)"
proof -
  define k where "k = quoted_key key"
  define y where "y = drop (length k) s"
  have v: "v = takeWhile (\<lambda>c. c \<noteq> quote_char) y" "v \<noteq> []" and k: "take (length k) s = k"
    and r: "drop (length v) y \<noteq> []" "r = tl (drop (length v) y)" "r = [] \<or> hd r = newline"
    using assms by (auto simp: quoted_line_def Let_def k_def y_def add.commute split: if_splits)
  have d: "drop (length v) y = dropWhile (\<lambda>c. c \<noteq> quote_char) y"
    using v(1) by (simp add: dropWhile_eq_drop)
  then have "hd (drop (length v) y) = quote_char" using r(1) hd_dropWhile [of "\<lambda>c. c \<noteq> quote_char" y] by simp
  then have "drop (length v) y = quote_char # r" using r(1,2) by (metis list.collapse)
  then have "y = v @ quote_char # r" using v(1) d by (metis takeWhile_dropWhile_id)
  moreover have "s = k @ y" using k by (metis append_take_drop_id y_def)
  moreover have "quote_char \<notin> set v" using v(1) by (auto dest: set_takeWhileD)
  ultimately show ?thesis using v(2) r(3) by (simp add: k_def)
qed

text \<open>What precedes a match does not match because of what the match was replaced by.\<close>

lemma quoted_line_before:
  assumes "x \<noteq> []" "quoted_line key (x @ quoted_key key @ w) = None" "w' \<noteq> []" "hd w' \<noteq> newline"
  shows "quoted_line key (x @ quoted_key key @ w') = None"
proof (rule ccontr)
  define k where "k = quoted_key key"
  assume "quoted_line key (x @ quoted_key key @ w') \<noteq> None"
  then obtain v r where "quoted_line key (x @ k @ w') = Some (v, r)" unfolding k_def by auto
  note s = quoted_line_Some [OF this, folded k_def]
  have len: "length k \<le> length (x @ k)" by simp
  define y where "y = drop (length k) (x @ k)"
  have "x @ k = k @ y"
  proof -
    have "take (length k) (x @ k @ w') = k" using s by simp
    then have "take (length k) (x @ k) = k" using len by (metis append.assoc append_eq_append_conv_if take_append length_take min.absorb2 append_take_drop_id take_all_iff)
    then show ?thesis by (metis append_take_drop_id y_def)
  qed
  then have y: "y @ w' = v @ quote_char # r" using s by (metis append.assoc same_append_eq)
  have "y \<noteq> []" using assms(1) \<open>x @ k = k @ y\<close> by (metis append_Nil2 length_append add_cancel_left_left length_0_conv)
  moreover have "last y = quote_char"
    using \<open>x @ k = k @ y\<close> calculation by (metis k_def last_appendR last_snoc quoted_key_def snoc_eq_iff_butlast append.assoc)
  ultimately have "quote_char \<in> set y" by (metis last_in_set)
  then have "\<exists>us. y = v @ us \<and> us @ w' = quote_char # r"
  proof -
    obtain us where "y = v @ us \<and> us @ w' = quote_char # r \<or> y @ us = v \<and> w' = us @ quote_char # r"
      using iffD1 [OF append_eq_append_conv2 y] by blast
    moreover have "y @ us \<noteq> v" using \<open>quote_char \<in> set y\<close> s by auto
    ultimately show ?thesis by blast
  qed
  then obtain us where us: "y = v @ us" "us @ w' = quote_char # r" by blast
  then have "us \<noteq> []" using \<open>quote_char \<in> set y\<close> s by auto
  then obtain z where z: "y = v @ quote_char # z" "r = z @ w'" using us by (cases us) auto
  then have "z \<noteq> [] \<and> hd z = newline" using s assms(3,4) by (cases z) auto
  then have "quoted_line key (k @ v @ quote_char # z @ w) = Some (v, z @ w)"
    unfolding k_def using s by (intro quoted_line_here) auto
  moreover have "x @ k @ w = k @ v @ quote_char # z @ w" using \<open>x @ k = k @ y\<close> z(1) by (metis append.assoc append_Cons)
  ultimately have "quoted_line key (x @ k @ w) = Some (v, z @ w)" by metis
  then show False using assms(2) by (simp add: k_def)
qed

lemma search_again:
  assumes "search (quoted_line key) at_start t = Some (b, v, r)" "v' \<noteq> []" "quote_char \<notin> set v'" "hd v' \<noteq> newline"
  shows "search (quoted_line key) at_start (b @ quoted_key key @ v' @ quote_char # r) = Some (b, v', r)"
proof -
  have "t = b @ quoted_key key @ v @ quote_char # r \<and> (r = [] \<or> hd r = newline) \<and>
      search (quoted_line key) at_start (b @ quoted_key key @ v' @ quote_char # r) = Some (b, v', r)"
    using assms(1)
  proof (induction "quoted_line key" at_start t arbitrary: b rule: search.induct)
    case (2 at_start c cs)
    show ?case
    proof (cases "at_start \<and> quoted_line key (c # cs) \<noteq> None")
      case True
      then have m: "quoted_line key (c # cs) = Some (v, r)" "b = []" using 2(2) by (auto split: option.splits)
      note s = quoted_line_Some [OF m(1)]
      have "quoted_line key (quoted_key key @ v' @ quote_char # r) = Some (v', r)"
        using s assms(2,3) by (intro quoted_line_here) auto
      moreover obtain k0 ks where "quoted_key key = k0 # ks" by (cases "quoted_key key") (auto simp: quoted_key_def)
      ultimately show ?thesis using True m(2) s by simp
    next
      case False
      then obtain b' where b': "search (quoted_line key) (c = newline) cs = Some (b', v, r)" "b = c # b'"
        using 2(2) by (auto split: option.splits if_splits)
      have none: "(if at_start then quoted_line key (c # cs) else None) = None" using False by (cases "quoted_line key (c # cs)") auto
      note IH = 2(1) [OF none b'(1)]
      have "(if at_start then quoted_line key (c # b' @ quoted_key key @ v' @ quote_char # r) else None) = None"
        using none IH quoted_line_before [of "c # b'" key "v @ quote_char # r" "v' @ quote_char # r"] assms(2,4)
        by (auto split: if_splits)
      then show ?thesis using IH b'(2) by auto
    qed
  qed simp
  then show ?thesis by blast
qed

lemma subst_then_search:
  assumes "subst_quoted key v t = Some t'" "version_ok v"
  shows "search_quoted key t' = Some v"
proof -
  obtain b u r where s: "search (quoted_line key) True t = Some (b, u, r)" "t' = b @ quoted_key key @ v @ [quote_char] @ r"
    using assms(1) by (auto simp: subst_quoted_def)
  have "hd v \<noteq> newline" using version_chars [OF assms(2)] by (auto simp: is_digit_char_def newline_def)
  then show ?thesis using search_again [OF s(1), of v] version_chars [OF assms(2)] s(2) by (simp add: search_quoted_def)
qed

lemma replace_plain_Some:
  "replace_plain key v ls = Some ls' \<Longrightarrow> v \<noteq> [] \<Longrightarrow> first_plain key ls' = Some v"
  by (induction ls arbitrary: ls') (auto simp: plain_line_def split: if_splits)

lemma replace_plain_other:
  "replace_plain key v ls = Some ls' \<Longrightarrow> \<not> plain_line key' (plain_key key @ v) \<Longrightarrow>
   (\<And>l. plain_line key l \<Longrightarrow> \<not> plain_line key' l) \<Longrightarrow> first_plain key' ls' = first_plain key' ls"
  by (induction ls arbitrary: ls') (auto split: if_splits)

lemma replace_plain_parts:
  "replace_plain key v ls = Some ls' \<Longrightarrow> list_all (\<lambda>p. newline \<notin> set p) ls \<Longrightarrow> newline \<notin> set (plain_key key @ v) \<Longrightarrow>
   list_all (\<lambda>p. newline \<notin> set p) ls' \<and> ls' \<noteq> []"
  by (induction ls arbitrary: ls') (auto split: if_splits)

lemma subst_plain_lines:
  assumes "subst_plain key v t = Some t'" "newline \<notin> set (plain_key key @ v)"
  shows "replace_plain key v (split_at newline t) = Some (split_at newline t')"
proof -
  obtain ls where ls: "replace_plain key v (split_at newline t) = Some ls" "t' = join_on newline ls"
    using assms(1) by (auto simp: subst_plain_def)
  have "list_all (\<lambda>p. newline \<notin> set p) (split_at newline t)" using split_at_parts by (auto simp: list_all_iff)
  then show ?thesis using split_join [of ls newline] replace_plain_parts [OF ls(1) _ assms(2)] ls by simp
qed

lemma pkgbuild_search:
  assumes "subst_plain ''pkgver'' v t = Some t1" "subst_plain ''pkgrel'' ''1'' t1 = Some t2" "v \<noteq> []" "newline \<notin> set v"
  shows "search_plain ''pkgver'' t2 = Some v"
proof -
  have n: "newline \<notin> set (plain_key ''pkgver'' @ v)" "newline \<notin> set (plain_key ''pkgrel'' @ ''1'')"
    using assms(4) by (simp_all add: plain_key_def newline_def)
  have "first_plain ''pkgver'' (split_at newline t2) = first_plain ''pkgver'' (split_at newline t1)"
    by (rule replace_plain_other [OF subst_plain_lines [OF assms(2) n(2)]]) (auto simp: plain_line_def plain_key_def)
  then show ?thesis
    using replace_plain_Some [OF subst_plain_lines [OF assms(1) n(1)] assms(3)] by (simp add: search_plain_def)
qed

subsection \<open>Bumping the version\<close>

definition SITES :: "string list" where
  "SITES = PYPROJECTS @ [AGENT_MAIN, PKGBUILD]"

lemma distinct_sites: "distinct SITES"
  by code_simp

lemma get_write_all:
  "distinct (map fst ws) \<Longrightarrow> dict_get (write_all ws fs) p = (case dict_get ws p of None \<Rightarrow> dict_get fs p | Some t \<Rightarrow> Some t)"
proof (induction ws fs rule: write_all.induct)
  case (2 q t ws fs)
  have "dict_get ws q = None" using 2(2) by (simp add: dict_get_def map_of_eq_None_iff)
  moreover have "dict_get ((q, t) # ws) p = (if p = q then Some t else dict_get ws p)" by (simp add: dict_get_def)
  ultimately show ?case using 2 by (simp split: option.splits)
qed (simp add: dict_get_def)

lemma bump_pyprojects_keys: "bump_pyprojects v ps fs = Some ws \<Longrightarrow> map fst ws = ps"
  by (induction ps arbitrary: ws) (auto split: bind_splits)

lemma bump_writes_keys: "bump_writes v fs = Some ws \<Longrightarrow> map fst ws = SITES"
  using bump_pyprojects_keys by (fastforce simp: bump_writes_def SITES_def split: bind_splits)

lemma bump_writes_get:
  assumes "bump_writes v fs = Some ws"
  shows "\<exists>a k k1 t1 t2. dict_get ws AGENT_MAIN = Some a \<and> subst_quoted ''AGENT_VERSION'' v t1 = Some a \<and>
    dict_get ws PKGBUILD = Some k \<and> subst_plain ''pkgver'' v t2 = Some k1 \<and> subst_plain ''pkgrel'' ''1'' k1 = Some k"
proof -
  obtain ws1 a k1 k t1 t2 where ws: "ws = ws1 @ [(AGENT_MAIN, a), (PKGBUILD, k)]"
    and s: "subst_quoted ''AGENT_VERSION'' v t1 = Some a" "subst_plain ''pkgver'' v t2 = Some k1"
      "subst_plain ''pkgrel'' ''1'' k1 = Some k"
    using assms by (auto simp: bump_writes_def split: bind_splits)
  have "distinct (map fst ws)" using bump_writes_keys [OF assms] distinct_sites by simp
  then have "dict_get ws AGENT_MAIN = Some a" "dict_get ws PKGBUILD = Some k"
    unfolding dict_get_def by (auto simp: ws intro: map_of_is_SomeI simp del: map_append map_of_append)
  then show ?thesis using s by blast
qed

lemma read_pyprojects_all:
  "list_all (\<lambda>p. Option.bind (dict_get fs p) toml = Some v) ps \<Longrightarrow> read_pyprojects toml fs ps = Some (map (\<lambda>p. (p, v)) ps)"
  by (induction ps) simp_all

text \<open>
  Setting a version that the pattern accepts sets it everywhere: if all places are found, the TOML parser reads the
  substituted lines as it should and \<open>uv lock\<close> succeeds and leaves the six files alone, the script ends with 0 and
  each of the six places holds the new version, wherever in its file the line stands.
\<close>

theorem bump_sets_every_site:
  assumes "version_ok v" "newline \<notin> set v" "bump_writes v fs = Some ws"
    and "list_all (\<lambda>p. Option.bind (dict_get (write_all ws fs) p) toml = Some v) PYPROJECTS"
    and "uv_lock (write_all ws fs) = (0, fs')" "list_all (\<lambda>p. dict_get fs' p = dict_get (write_all ws fs) p) SITES"
  shows "bump_version_main toml uv_lock [''v'' @ v] fs = (0, fs') \<and> read_versions toml fs' = Some (map (\<lambda>p. (p, v)) SITES)"
proof -
  obtain a k k1 t1 t2 where w: "dict_get ws AGENT_MAIN = Some a" "subst_quoted ''AGENT_VERSION'' v t1 = Some a"
    "dict_get ws PKGBUILD = Some k" "subst_plain ''pkgver'' v t2 = Some k1" "subst_plain ''pkgrel'' ''1'' k1 = Some k"
    using bump_writes_get [OF assms(3)] by blast
  have g: "dict_get (write_all ws fs) p = (case dict_get ws p of None \<Rightarrow> dict_get fs p | Some t \<Rightarrow> Some t)" for p
    using get_write_all bump_writes_keys [OF assms(3)] distinct_sites by metis
  have same: "dict_get fs' p = dict_get (write_all ws fs) p" if "p \<in> set SITES" for p
    using assms(6) that by (simp add: list_all_iff)
  have "dict_get fs' AGENT_MAIN = Some a" "dict_get fs' PKGBUILD = Some k"
    using same [of AGENT_MAIN] same [of PKGBUILD] w(1,3) by (simp_all add: g SITES_def)
  moreover have "list_all (\<lambda>p. Option.bind (dict_get fs' p) toml = Some v) PYPROJECTS"
    using assms(4) same by (simp add: list_all_iff SITES_def)
  moreover have "search_quoted ''AGENT_VERSION'' a = Some v" by (rule subst_then_search [OF w(2) assms(1)])
  moreover have "v \<noteq> []" using version_chars [OF assms(1)] by simp
  moreover from this have "search_plain ''pkgver'' k = Some v" by (rule pkgbuild_search [OF w(4,5) _ assms(2)])
  ultimately have r: "read_versions toml fs' = Some (map (\<lambda>p. (p, v)) SITES)"
    by (simp add: read_versions_def read_pyprojects_all SITES_def)
  have "filter (\<lambda>(rel, x). x \<noteq> v) (map (\<lambda>p. (p, v)) SITES) = []" by (simp add: filter_empty_conv)
  moreover have "snd (hd (map (\<lambda>p. (p, v)) SITES)) = v" by (simp add: SITES_def PYPROJECTS_def)
  ultimately have "check_versions_main toml None fs' = 0" using assms(1) by (simp add: check_versions_main_def r Let_def)
  then show ?thesis
    using assms(1,3,5) r by (simp add: bump_version_main_def removeprefix_v_def Let_def)
qed

text \<open>An unusable argument, or a file in which a pattern is not found, leaves the tree as it was.\<close>

lemma bump_all_or_nothing:
  assumes "version_ok (removeprefix_v (hd args)) \<longrightarrow> bump_writes (removeprefix_v (hd args)) fs = None"
  shows "snd (bump_version_main toml uv_lock args fs) = fs"
  using assms by (auto simp: bump_version_main_def Let_def)

text \<open>The section of the changelog: what stands between its heading and the next one.\<close>

lemma section_of_version:
  assumes "splitlines t = before @ h # body @ h' # after" "heading h = Some v" "heading h' \<noteq> None"
    and "list_all (\<lambda>l. heading l \<noteq> Some v) before" "list_all (\<lambda>l. heading l = None) body"
  shows "changelog_section v t = Some (py_strip (join_on newline body))"
proof -
  have "after_heading v (splitlines t) = Some (body @ h' # after)"
    unfolding assms(1) using assms(2,4) by (induction before) simp_all
  moreover have "takeWhile (\<lambda>l. heading l = None) (body @ h' # after) = body"
    using assms(3,5) by (subst takeWhile_append2) (auto simp: list_all_iff)
  ultimately show ?thesis by (simp add: changelog_section_def Let_def)
qed

lemma no_section:
  assumes "length args = 1" "list_all (\<lambda>l. heading l \<noteq> Some (removeprefix_v (hd args))) (splitlines t)"
  shows "changelog_section_main t args = (1, None)"
proof -
  have "after_heading v ls = None" if "list_all (\<lambda>l. heading l \<noteq> Some v) ls" for v ls
    using that by (induction ls) simp_all
  then show ?thesis using assms by (simp add: changelog_section_main_def changelog_section_def)
qed

subsection \<open>An example\<close>

definition sample_line :: "string \<Rightarrow> string" where
  "sample_line key = quoted_key key @ ''0.1.0'' @ [quote_char, newline]"

definition sample_tree :: tree where
  "sample_tree = map (\<lambda>p. (p, ''[project]'' @ [newline] @ sample_line ''version'')) PYPROJECTS @
     [(AGENT_MAIN, ''#'' @ [newline] @ sample_line ''AGENT_VERSION''),
      (PKGBUILD, ''pkgver=0.1.0'' @ [newline] @ ''pkgrel=3'' @ [newline])]"

theorem bump_sets_every_site_witness:
  "bump_version_main (search_quoted ''version'') (\<lambda>fs. (0, fs)) [''v0.2.0''] sample_tree =
     (0, write_all (the (bump_writes ''0.2.0'' sample_tree)) sample_tree) \<and>
   read_versions (search_quoted ''version'') (write_all (the (bump_writes ''0.2.0'' sample_tree)) sample_tree) =
     Some (map (\<lambda>p. (p, ''0.2.0'')) SITES)"
proof -
  have v: "version_ok ''0.2.0''" "newline \<notin> set ''0.2.0''" by (code_simp, simp add: newline_def)
  have "case bump_writes ''0.2.0'' sample_tree of None \<Rightarrow> False
    | Some ws \<Rightarrow> list_all (\<lambda>p. Option.bind (dict_get (write_all ws sample_tree) p) (search_quoted ''version'') = Some ''0.2.0'') PYPROJECTS"
    by code_simp
  then obtain ws where ws: "bump_writes ''0.2.0'' sample_tree = Some ws"
    and t: "list_all (\<lambda>p. Option.bind (dict_get (write_all ws sample_tree) p) (search_quoted ''version'') = Some ''0.2.0'') PYPROJECTS"
    by (auto split: option.splits)
  have "list_all (\<lambda>p. dict_get (write_all ws sample_tree) p = dict_get (write_all ws sample_tree) p) SITES"
    by (simp add: list_all_iff)
  from bump_sets_every_site [OF v ws t, where uv_lock = "\<lambda>fs. (0, fs)", OF refl this] ws show ?thesis by simp
qed

end
