(* ===== verification/Spec2Isabelle.thy ===== *)
theory Spec2Isabelle
  imports Interval_Union Allowed_Hours Fake_Daemon Agent_Pool Agent_Service Agent_Setup Migration_Data Schema_Rows
    Release_Scripts
begin

section \<open>timekpr-next-hub\<close>

text \<open>
  timekpr-next-hub pools a child's daily screen time over several Linux machines. On every machine an
  \<^emph>\<open>agent\<close> (\<open>src/agent/timekpr_hub_agent\<close>, root service) reads what the local \<open>timekprd\<close> daemon has accounted,
  sends it to the \<^emph>\<open>hub\<close> (\<open>src/hub/timekpr_hub\<close>, FastAPI over PostgreSQL) and makes the daemon show the time that
  the hub's answer leaves. A \<^emph>\<open>core\<close> library (\<open>src/core/timekpr_hub_core\<close>) holds the calendar, the span union,
  the allowed hours, the wire format and the convergence decision that both sides share. Admins set limits,
  allowed hours and per-day exceptions on the hub's pages and JSON API.

  This development models the Python of all three as HOL functions and proves what makes them correct, each
  part alone and then together: the last theory of the chain, \<open>Agent_Pool\<close>, runs a tick of the agent over the HTTP
  client against the hub's own endpoint and shows that the device is left with what the database leaves.

  \<^bold>\<open>The parts and their theories.\<close> A theory models the file its name and its first text block say; the functions keep
  their Python names (a private helper loses its underscore, a name that several modules use gets a suffix).

  Shared:
  \<^item> \<open>Prelude\<close>: names for the types (identifiers, instants in microseconds, strings), exceptions (\<open>exc\<close>, \<open>result\<close>), ordered
    dictionaries, tables with insert, upsert, update and lookup by key, the locale \<open>keyed_store\<close> of what a table
    promises, integer parsing and printing. \<open>Py_Text\<close>: the string methods of the form and file parsers.
  \<^item> \<open>Interval_Union\<close>, \<open>Calendar\<close>, \<open>Allowed_Hours\<close>, \<open>Convergence\<close>, \<open>Wire_Models\<close>, \<open>Effective_Policy\<close>: the modules of the
    core library, one each. Python's \<open>date\<close>, \<open>datetime\<close> and ISO week arithmetic is written out in \<open>Calendar\<close>.

  The agent:
  \<^item> \<open>Enforcer\<close> (\<open>enforcer.py\<close>): observation, the setters with their verdict, the policy read back; timekpr's connector
    is a record of functions. \<open>Policy_Push\<close> (\<open>policy_push.py\<close>): the push with its steps that skip what the device already has.
  \<^item> \<open>Agent_State\<close> (\<open>state.py\<close>), \<open>Tick\<close> (\<open>tick.py\<close>): the state file and one whole pass over the users, with all
    three ways the sync ends. \<open>Agent_Config\<close> (\<open>config.py\<close>), \<open>Hub_Client\<close> (\<open>hubclient.py\<close>), \<open>Agent_Cli\<close> (\<open>cli.py\<close>, \<open>notify.py\<close>,
    \<open>timekpr_paths.py\<close>): configuration, the client with its one retry, the commands.
  \<^item> \<open>Fake_Daemon\<close> (\<open>tests/fakes/fake_timekpr.py\<close>) and \<open>Fake_Enforcer\<close> (\<open>FakeEnforcer\<close> of \<open>tests/e2e/harness.py\<close>): the accounting of
    \<open>timekprd\<close> that the repository's own tests run against. They are the device of the device-level theorems.

  The hub:
  \<^item> \<open>Hub_DB\<close> (\<open>db/models.py\<close>): a record per table, the database as the record of its tables, keys, checks and sizes.
  \<^item> \<open>Aggregate\<close>, \<open>Limits\<close> (with \<open>day_hours.py\<close>), \<open>Policy_Service\<close>, \<open>Summaries\<close>: the services of the same names. \<open>Enrollment\<close>
    (\<open>services/enrollment.py\<close>, \<open>api/enroll.py\<close>, \<open>api/auth.py\<close>) and \<open>Sync\<close> (\<open>api/sync.py\<close>): the two endpoints of agents.
  \<^item> \<open>Admin_Auth\<close>, \<open>Admin_Devices\<close>, \<open>Admin_Users\<close>, \<open>Policy_Editor\<close>, \<open>User_Pages\<close>: accounts, sessions and invites, devices, the JSON
    API of users, the policy form, the dashboard and user pages, with the audit records that each writes.
  \<^item> \<open>Hub_System\<close>: every route that writes as a constructor of \<open>request\<close>; \<open>handle\<close> runs one behind its session
    gate, \<open>hub_step\<close> and \<open>hub_run\<close> are the transition system of any requests in any order.

  The database's schema and releases:
  \<^item> \<open>Schema\<close>: the schema operations of PostgreSQL that migrations issue, on tables with columns, constraints and indexes.
    \<open>Migrations\<close> (\<open>hub/migrations/versions\<close> and, as declared tables, \<open>db/models.py\<close>): \<open>upgrade\<close> and \<open>downgrade\<close> of each
    revision. \<open>Migration_Data\<close>: what two of them do to rows, and the properties. \<open>Schema_Rows\<close>: the records of \<open>Hub_DB\<close> as rows of
    the declared tables.
  \<^item> \<open>Release_Scripts\<close> (\<open>scripts\<close>): the six places of the version number, the bump, the section of the changelog.

  Both together: \<open>Agent_Hub\<close> (the network of the client is the hub's endpoints), \<open>Agent_Pool\<close>, \<open>Agent_Service\<close>, \<open>Agent_Setup\<close>.
\<close>

text \<open>
  \<^bold>\<open>How state and effects are rendered.\<close> An endpoint is a function from the database to \<open>exc + answer \<times> db\<close>: a raise is
  a left value, and the rollback of the session is that a left value carries no database. A savepoint is the database
  before it, taken up again. An instant is an integer of microseconds; a time zone is a function from instants to offsets.
  The agent's environment (device, files, clock, systemd, network) is a state that records of operations thread;
  the state of the agent is a record per user. JSON in between is the value it stands for: the models' own checks
  and defaults are written out, the text of the encoding is not.

  \<^bold>\<open>Parameters\<close>, for code outside \<open>src/\<close>: PostgreSQL's \<open>range_agg\<close> (locale \<open>range_aggregate\<close>: the result covers what
  the arguments cover, in disjoint sorted ranges; interpreted by a sweep), the SHA-256 digest of a revision
  and of tokens, the password hash and its verification, \<open>urllib\<close> with whatever answers it, timekpr's DBUS connector, the
  time zone database, random tokens and the clock, \<open>tomllib\<close> and \<open>uv\<close>. Theorems that need more of one than that it is a function say so in a hypothesis.

  \<^bold>\<open>Interfaces\<close> are locales, each interpreted on the model: \<open>keyed_store\<close> (the three per-day tables), \<open>range_aggregate\<close>,
  \<open>time_left_daemon\<close> (what one planned write does, on the fake daemon), \<open>policy_device\<close> (a device that shows what was set,
  on the fake enforcer), \<open>token_store\<close> and its extension \<open>quiet_host\<close> (an exchange leaves the token file alone; on a scripted
  network and on the hub itself).

  \<^bold>\<open>What the lemmas show.\<close>
  \<^item> Core: the sweep equals the per-second count; allowed-hours conversions are inverse on normal forms and cover
    exactly the minutes of the intervals; validation accepts exactly what timekpr's format can hold; the revision token
    identifies the content; the counter counts each second of activity at most once.
  \<^item> Agent: what a tick may write in each mode, what it buffers and how it backs off, where the time left ends up
    (\<open>Device_Tick\<close>); a push leaves the device with the policy and its report is truthful (\<open>Fake_Enforcer\<close>, \<open>Policy_Push\<close>);
    state and configuration files read back what was written; the client never sends a second request but after a refusal
    with another token on disk; the service loop ends only by an exception, \<open>run --once\<close> exactly when timekpr appears.
  \<^item> Hub: counters are insensitive to order and repetition; batched queries agree with single ones; the bounds of the
    two accounting modes; what each exception does to the limit; policies are versioned; the summaries show what a sync
    answers; a code is spent once, enrolling a machine again replaces its token. \<open>Hub_Invariant\<close> states what every committed
    database satisfies (\<open>hub_ok\<close>), \<open>Hub_Endpoints\<close> proves it of every route, \<open>Hub_System\<close> of every run, with the gate, the
    first-run setup, invites and revocation on top.
  \<^item> Schema: all migrations run in their order and end in the schema that the models declare; the downgrades of the
    revisions that only add are exact inverses; the conditions under which \<open>Hub_DB\<close> takes a row are the declared ones, so the
    database of the hub's theorems is the one the migrations build.
  \<^item> Releases: a bump sets all six places or none.
  \<^item> Together: a tick leaves the pooled time; a running agent survives the enrollment of its machine by another process; what
    \<open>enroll\<close> leaves on disk is what \<open>run\<close> needs; when \<open>status\<close> succeeds.

  \<^bold>\<open>Loops and bounds.\<close> Loops over lists are structural. The loops that may not end (waiting for timekpr, the service) are
  \<open>partial_function (option)\<close> with \<open>None\<close> for never returning, and the properties say exactly when they return; nothing
  is bounded by fuel. Sizes that matter are the code's: 200 buffered spans, 256 characters of a push error, polls of at
  most 90 seconds under a watchdog of 120, limits within 32-bit and day bounds as the wire models and table checks have them.
\<close>

text \<open>
  \<^bold>\<open>Not modelled.\<close>
  \<^item> Alembic's own environment (\<open>migrations/env.py\<close>), the engine and session factory, reading the hub's settings from
    the environment, the startup warning and shutdown, log output.
  \<^item> The rows of a migrated database beyond the two updates: the downgrade of \<open>a8a6c9dd2e83\<close> adds dropped columns again without
    their values, two of them nullable that were not, and the downgrade of \<open>8f3c2a1e9b04\<close> revives no device; the
    exact inverses are proved for the revisions that only add.
  \<^item> The page templates: the values that the routes hand to them are modelled, and of the policy page the fields of
    a day, which the editor's round trip needs.
  \<^item> The tokenising of the command line by \<open>argparse\<close> (the parsed arguments are a record) and the texts printed; modes
    and owners of files; the atomic rename of the state file.
  \<^item> Row locks and interleaving inside a request: a request is one atomic step of the database, as the serialising locks of
    the code intend; what different requests do to each other is the order of steps.
  \<^item> ISO 8601 text of timestamps; the virtual clock and HTTP plumbing of the test harness; packaging and deployment files.

  Divergences found while modelling are in the lemmas next to the code they concern, among them
  \<open>Sync_Facts.second_users_span_dropped\<close>, \<open>Device_Tick.offline_midnight_refunds\<close>,
  \<open>Device_Tick.observation_is_not_positional\<close>, \<open>Fake_Enforcer.playtime_weekday_crashes_push\<close> and \<open>Summaries.history_is_wallclock\<close>.
\<close>

end
